(* ===== verification/Prelude.thy ===== *)
theory Prelude
  imports Main
begin

text \<open>
  Shared ground of the development: the collections of simplification rules, results as sums,
  SQL tables as lists of rows with the statements the repositories issue, and the invariant
  argument over sequences of operations as a locale.
\<close>

section \<open>Collections\<close>

named_theorems sql_simps \<open>how SQL statements act on the tables\<close>
named_theorems go_simps \<open>evaluation of the Go standard library model\<close>

section \<open>Results\<close>

text \<open>A fallible Go function returns \<open>Inl\<close> its error or \<open>Inr\<close> its value.\<close>

type_synonym ('e, 'a) result = "'e + 'a"

definition is_ok :: "('e, 'a) result \<Rightarrow> bool" where
  "is_ok r = (case r of Inl _ \<Rightarrow> False | Inr _ \<Rightarrow> True)"

lemma is_ok_simps [simp]: "is_ok (Inr x)" "\<not> is_ok (Inl e)"
  by (simp_all add: is_ok_def)

lemma is_ok_iff: "is_ok r \<longleftrightarrow> (\<exists>x. r = Inr x)"
  by (cases r) auto

section \<open>SQL tables\<close>

text \<open>
  A table is the list of its rows in insertion order. \<^verbatim>\<open>UPDATE ... SET f WHERE p\<close> rewrites the
  rows that satisfy \<open>p\<close> and leaves the others; the affected count is the number of rows that
  satisfy \<open>p\<close>. \<^verbatim>\<open>DELETE\<close> removes them.
\<close>

definition sql_update :: "('r \<Rightarrow> bool) \<Rightarrow> ('r \<Rightarrow> 'r) \<Rightarrow> 'r list \<Rightarrow> 'r list" where
  "sql_update p f t = map (\<lambda>r. if p r then f r else r) t"

definition sql_affected :: "('r \<Rightarrow> bool) \<Rightarrow> 'r list \<Rightarrow> nat" where
  "sql_affected p t = length (filter p t)"

definition sql_delete :: "('r \<Rightarrow> bool) \<Rightarrow> 'r list \<Rightarrow> 'r list" where
  "sql_delete p t = filter (\<lambda>r. \<not> p r) t"

text \<open>\<^verbatim>\<open>SELECT ... WHERE p LIMIT 1\<close>.\<close>

definition sql_get :: "('r \<Rightarrow> bool) \<Rightarrow> 'r list \<Rightarrow> 'r option" where
  "sql_get p t = find p t"

lemma sql_update_Nil [simp, sql_simps]: "sql_update p f [] = []"
  by (simp add: sql_update_def)

lemma sql_update_Cons [simp, sql_simps]:
  "sql_update p f (r # t) = (if p r then f r else r) # sql_update p f t"
  by (simp add: sql_update_def)

lemma sql_update_append [sql_simps]:
  "sql_update p f (t @ u) = sql_update p f t @ sql_update p f u"
  by (simp add: sql_update_def)

lemma length_sql_update [simp]: "length (sql_update p f t) = length t"
  by (simp add: sql_update_def)

lemma sql_update_none: "(\<And>r. r \<in> set t \<Longrightarrow> \<not> p r) \<Longrightarrow> sql_update p f t = t"
  unfolding sql_update_def by (rule map_idI) simp

lemma sql_affected_zero: "sql_affected p t = 0 \<longleftrightarrow> (\<forall>r \<in> set t. \<not> p r)"
  by (auto simp: sql_affected_def filter_empty_conv)

lemma map_key_sql_update:
  "(\<And>r. k (f r) = k r) \<Longrightarrow> map k (sql_update p f t) = map k t"
  by (simp add: sql_update_def)

lemma set_sql_update:
  "set (sql_update p f t) = f ` {r \<in> set t. p r} \<union> {r \<in> set t. \<not> p r}"
  by (auto simp: sql_update_def)

lemma all_sql_update:
  "(\<forall>r \<in> set (sql_update p f t). Q r) \<longleftrightarrow> (\<forall>r \<in> set t. Q (if p r then f r else r))"
  by (induction t) simp_all

lemma ex_sql_update:
  "(\<exists>r \<in> set (sql_update p f t). Q r) \<longleftrightarrow> (\<exists>r \<in> set t. Q (if p r then f r else r))"
  by (induction t) simp_all

lemma sql_get_Some: "sql_get p t = Some r \<Longrightarrow> r \<in> set t \<and> p r"
  by (auto simp: sql_get_def find_Some_iff)

lemma sql_get_None: "sql_get p t = None \<longleftrightarrow> (\<forall>r \<in> set t. \<not> p r)"
  by (auto simp: sql_get_def find_None_iff)

lemma find_eq_Some_unique:
  assumes "x \<in> set t" "p x" "\<And>y. y \<in> set t \<Longrightarrow> p y \<Longrightarrow> y = x"
  shows "find p t = Some x"
proof -
  from assms(1,2) obtain y where y: "find p t = Some y"
    by (cases "find p t") (auto simp: find_None_iff)
  then have "y \<in> set t" "p y" by (auto simp: find_Some_iff)
  with assms(3) y show ?thesis by blast
qed

lemma find_snoc: "find p (t @ [x]) = (case find p t of None \<Rightarrow> if p x then Some x else None | Some y \<Rightarrow> Some y)"
  by (induction t) auto

text \<open>A row found by a unique key.\<close>

lemma sql_get_unique:
  "distinct (map k t) \<Longrightarrow> r \<in> set t \<Longrightarrow> sql_get (\<lambda>x. k x = k r) t = Some r"
  unfolding sql_get_def
  by (rule find_eq_Some_unique) (auto simp: distinct_map inj_on_def)

lemma sql_get_update_key:
  assumes "\<And>r. k (f r) = k r"
  shows "sql_get (\<lambda>r. k r = i) (sql_update (\<lambda>r. k r = i \<and> q r) f t) =
         map_option (\<lambda>r. if q r then f r else r) (sql_get (\<lambda>r. k r = i) t)"
  using assms by (induction t) (auto simp: sql_get_def)

lemma sql_get_update_other:
  assumes "\<And>r. k (f r) = k r" "i \<noteq> j"
  shows "sql_get (\<lambda>r. k r = j) (sql_update (\<lambda>r. k r = i \<and> q r) f t) = sql_get (\<lambda>r. k r = j) t"
  using assms by (induction t) (auto simp: sql_get_def)

section \<open>Runs and invariants\<close>

text \<open>
  The backend's stores are driven by a sequence of operations, each under its lock or in its
  transaction. \<open>run\<close> folds the step function over such a sequence; the locale is the contract
  an invariant meets and its consequence for every run.
\<close>

fun run :: "('s \<Rightarrow> 'o \<Rightarrow> 's) \<Rightarrow> 's \<Rightarrow> 'o list \<Rightarrow> 's" where
  "run step s [] = s"
| "run step s (x # xs) = run step (step s x) xs"

lemma run_append: "run step s (xs @ ys) = run step (run step s xs) ys"
  by (induction xs arbitrary: s) auto

locale invariant =
  fixes step :: "'s \<Rightarrow> 'o \<Rightarrow> 's"
    and init :: "'s \<Rightarrow> bool"
    and admissible :: "'o \<Rightarrow> bool"
    and inv :: "'s \<Rightarrow> bool"
  assumes init_inv: "init s \<Longrightarrow> inv s"
    and step_inv: "inv s \<Longrightarrow> admissible x \<Longrightarrow> inv (step s x)"
begin

lemma run_inv: "inv s \<Longrightarrow> list_all admissible xs \<Longrightarrow> inv (run step s xs)"
  by (induction xs arbitrary: s) (auto intro: step_inv)

lemma reach_inv: "init s \<Longrightarrow> list_all admissible xs \<Longrightarrow> inv (run step s xs)"
  by (blast intro: init_inv run_inv)

end

section \<open>Tables with an AUTO\_INCREMENT key\<close>

definition keys_ok :: "('r \<Rightarrow> int) \<Rightarrow> int \<Rightarrow> 'r list \<Rightarrow> bool" where
  "keys_ok key n rows =
     (distinct (map key rows) \<and> (\<forall>r \<in> set rows. 1 \<le> key r \<and> key r < n) \<and> 1 \<le> n)"

text \<open>The contract of such a table inside a database state: an insert appends one row under the
  next key, an update keeps the keys.\<close>

locale auto_table =
  fixes rows :: "'db \<Rightarrow> 'r list"
    and nxt :: "'db \<Rightarrow> int"
    and key :: "'r \<Rightarrow> int"
    and ins :: "'a \<Rightarrow> 'db \<Rightarrow> 'db"
    and new :: "'a \<Rightarrow> 'db \<Rightarrow> 'r"
    and upd :: "'u \<Rightarrow> 'db \<Rightarrow> 'db"
    and keeps :: "'u \<Rightarrow> bool"
  assumes rows_ins: "rows (ins a db) = rows db @ [new a db]"
    and key_new: "key (new a db) = nxt db"
    and nxt_ins: "nxt (ins a db) = nxt db + 1"
    and keys_of_upd: "keeps u \<Longrightarrow> map key (rows (upd u db)) = map key (rows db)"
    and nxt_upd: "nxt (upd u db) = nxt db"
begin

lemma keys_ins:
  assumes "keys_ok key (nxt db) (rows db)"
  shows "keys_ok key (nxt (ins a db)) (rows (ins a db))"
  using assms by (force simp: keys_ok_def rows_ins nxt_ins key_new)

lemma keys_upd:
  assumes "keys_ok key (nxt db) (rows db)" "keeps u"
  shows "keys_ok key (nxt (upd u db)) (rows (upd u db))"
proof -
  have m: "map key (rows (upd u db)) = map key (rows db)" by (rule keys_of_upd [OF assms(2)])
  then have s: "key ` set (rows (upd u db)) = key ` set (rows db)" by (metis set_map)
  have "\<forall>k \<in> key ` set (rows (upd u db)). 1 \<le> k \<and> k < nxt db"
    unfolding s using assms(1) by (auto simp: keys_ok_def)
  with m assms(1) show ?thesis by (simp add: keys_ok_def nxt_upd)
qed

lemma get_new:
  assumes "keys_ok key (nxt db) (rows db)"
  shows "sql_get (\<lambda>r. key r = nxt db) (rows (ins a db)) = Some (new a db)"
  unfolding sql_get_def rows_ins
  by (rule find_eq_Some_unique) (use assms key_new in \<open>force simp: keys_ok_def\<close>)+

lemma get_old:
  "i \<noteq> nxt db \<Longrightarrow> sql_get (\<lambda>r. key r = i) (rows (ins a db)) = sql_get (\<lambda>r. key r = i) (rows db)"
  by (auto simp: sql_get_def rows_ins key_new find_snoc split: option.splits)

end

end
