(* ===== verification/Go_Strings.thy ===== *)
theory Go_Strings
  imports Prelude "HOL-Library.Sublist"
begin

text \<open>
  The part of Go's \<^verbatim>\<open>strings\<close>, \<^verbatim>\<open>strconv\<close> and \<^verbatim>\<open>path/filepath\<close> the backend uses, on byte
  strings. A Go \<^verbatim>\<open>string\<close> is a sequence of bytes and so is Isabelle's \<open>string\<close> (a list of
  \<open>char\<close>, each an 8-bit value): UTF-8 text is modelled by its bytes, as Go stores it.
\<close>

section \<open>Bytes and strings\<close>

definition is_digit :: "char \<Rightarrow> bool" where
  "is_digit c = (c \<in> set ''0123456789'')"

definition digit_val :: "char \<Rightarrow> int" where
  "digit_val c = int (length (takeWhile (\<lambda>x. x \<noteq> c) ''012345678''))"

definition digit_char :: "int \<Rightarrow> char" where
  "digit_char d = (if 0 \<le> d \<and> d < 9 then ''012345678'' ! nat d else CHR ''9'')"

lemma digit_cases: "0 \<le> d \<Longrightarrow> d < (10::int) \<Longrightarrow> d \<in> {0, 1, 2, 3, 4, 5, 6, 7, 8, 9}"
  by simp presburger

lemma is_digit_digit_char [simp]: "is_digit (digit_char d)"
proof (cases "0 \<le> d \<and> d < 9")
  case True
  then have "nat d < length ''012345678''" by (simp add: nat_less_iff)
  then have "''012345678'' ! nat d \<in> set ''012345678''" by (rule nth_mem)
  with True show ?thesis by (auto simp: is_digit_def digit_char_def)
qed (auto simp: is_digit_def digit_char_def)

lemma digit_val_digit_char [simp]: "0 \<le> d \<Longrightarrow> d < 10 \<Longrightarrow> digit_val (digit_char d) = d"
  by (drule (1) digit_cases) (auto simp: digit_val_def digit_char_def)

lemma digit_val_range: "0 \<le> digit_val c \<and> digit_val c < 10"
  using length_takeWhile_le [of "\<lambda>x. x \<noteq> c" "''012345678''"] by (simp add: digit_val_def del: takeWhile.simps)

lemma digit_char_digit_val [simp]: "is_digit c \<Longrightarrow> digit_char (digit_val c) = c"
  by (auto simp: is_digit_def digit_val_def digit_char_def)

text \<open>\<^verbatim>\<open>strings.Split(s, sep)\<close> for a one-byte separator.\<close>

fun go_Split :: "char \<Rightarrow> string \<Rightarrow> string list" where
  "go_Split c [] = [[]]"
| "go_Split c (x # xs) =
     (if x = c then [] # go_Split c xs
      else (case go_Split c xs of [] \<Rightarrow> [[x]] | y # ys \<Rightarrow> (x # y) # ys))"

text \<open>\<^verbatim>\<open>strings.Join(parts, sep)\<close> for a one-byte separator.\<close>

fun go_Join :: "char \<Rightarrow> string list \<Rightarrow> string" where
  "go_Join c [] = []"
| "go_Join c [x] = x"
| "go_Join c (x # y # ys) = x @ c # go_Join c (y # ys)"

lemma go_Split_nonempty [simp]: "go_Split c xs \<noteq> []"
  by (induction xs) (auto split: list.splits)

lemma go_Join_Cons: "ys \<noteq> [] \<Longrightarrow> go_Join c (x # ys) = x @ c # go_Join c ys"
  by (cases ys) auto

lemma go_Join_Split: "go_Join c (go_Split c xs) = xs"
proof (induction xs)
  case (Cons x xs)
  show ?case
  proof (cases "x = c")
    case True
    with Cons show ?thesis by (simp add: go_Join_Cons)
  next
    case False
    obtain y ys where s: "go_Split c xs = y # ys"
      using go_Split_nonempty by (meson neq_Nil_conv)
    with Cons False show ?thesis by (cases ys) auto
  qed
qed simp

lemma go_Split_no_sep: "p \<in> set (go_Split c xs) \<Longrightarrow> c \<notin> set p"
proof (induction xs arbitrary: p)
  case (Cons x xs)
  then show ?case
    by (cases "go_Split c xs") (auto split: if_splits)
qed simp

lemma go_Split_single: "c \<notin> set xs \<Longrightarrow> go_Split c xs = [xs]"
  by (induction xs) auto

lemma go_Split_append_sep: "c \<notin> set xs \<Longrightarrow> go_Split c (xs @ c # ys) = xs # go_Split c ys"
  by (induction xs) auto

text \<open>\<^verbatim>\<open>strings.SplitN(s, sep, 2)\<close>: cut at the first separator.\<close>

fun go_SplitN2 :: "char \<Rightarrow> string \<Rightarrow> string list" where
  "go_SplitN2 c [] = [[]]"
| "go_SplitN2 c (x # xs) =
     (if x = c then [[], xs]
      else (case go_SplitN2 c xs of [] \<Rightarrow> [[x]] | y # ys \<Rightarrow> (x # y) # ys))"

lemma go_SplitN2_sep: "c \<notin> set k \<Longrightarrow> go_SplitN2 c (k @ c # v) = [k, v]"
  by (induction k) auto

lemma go_SplitN2_none: "c \<notin> set k \<Longrightarrow> go_SplitN2 c k = [k]"
  by (induction k) auto

text \<open>\<^verbatim>\<open>strings.HasPrefix\<close>.\<close>

definition go_HasPrefix :: "string \<Rightarrow> string \<Rightarrow> bool" where
  "go_HasPrefix s p = (take (length p) s = p)"

lemma go_HasPrefix_iff: "go_HasPrefix s p \<longleftrightarrow> prefix p s"
  by (metis go_HasPrefix_def append_take_drop_id prefix_def take_is_prefix append_eq_conv_conj)

text \<open>
  \<^verbatim>\<open>strings.TrimSpace\<close> removes leading and trailing code points of Unicode's White\_Space. The
  lists hold their UTF-8 encodings by length; a lead byte fixes where an encoding starts, so
  matching the bytes at either end agrees with decoding there.
\<close>

definition utf8_spaces1 :: "string list" where
  "utf8_spaces1 = [[CHR 0x09], [CHR 0x0A], [CHR 0x0B], [CHR 0x0C], [CHR 0x0D], [CHR 0x20]]"

definition utf8_spaces2 :: "string list" where
  "utf8_spaces2 = [[CHR 0xC2, CHR 0x85], [CHR 0xC2, CHR 0xA0]]"

definition utf8_spaces3 :: "string list" where
  "utf8_spaces3 =
     [[CHR 0xE1, CHR 0x9A, CHR 0x80], [CHR 0xE2, CHR 0x80, CHR 0x80], [CHR 0xE2, CHR 0x80, CHR 0x81],
      [CHR 0xE2, CHR 0x80, CHR 0x82], [CHR 0xE2, CHR 0x80, CHR 0x83], [CHR 0xE2, CHR 0x80, CHR 0x84],
      [CHR 0xE2, CHR 0x80, CHR 0x85], [CHR 0xE2, CHR 0x80, CHR 0x86], [CHR 0xE2, CHR 0x80, CHR 0x87],
      [CHR 0xE2, CHR 0x80, CHR 0x88], [CHR 0xE2, CHR 0x80, CHR 0x89], [CHR 0xE2, CHR 0x80, CHR 0x8A],
      [CHR 0xE2, CHR 0x80, CHR 0xA8], [CHR 0xE2, CHR 0x80, CHR 0xA9], [CHR 0xE2, CHR 0x80, CHR 0xAF],
      [CHR 0xE2, CHR 0x81, CHR 0x9F], [CHR 0xE3, CHR 0x80, CHR 0x80]]"

text \<open>How many of the next bytes form a space, for encodings read in the direction \<open>f\<close>
  (\<open>id\<close> from the left, \<open>rev\<close> from the right).\<close>

definition space_len :: "(string \<Rightarrow> string) \<Rightarrow> string \<Rightarrow> nat" where
  "space_len f s =
     (if take 1 s \<in> set utf8_spaces1 then 1
      else if f (take 2 s) \<in> set utf8_spaces2 then 2
      else if f (take 3 s) \<in> set utf8_spaces3 then 3 else 0)"

lemma space_len_Nil [simp]: "f [] = [] \<Longrightarrow> space_len f [] = 0"
  by (simp add: space_len_def utf8_spaces1_def utf8_spaces2_def utf8_spaces3_def)

function trim_side :: "(string \<Rightarrow> string) \<Rightarrow> string \<Rightarrow> string" where
  "trim_side f s =
     (if s = [] \<or> space_len f s = 0 then s else trim_side f (drop (space_len f s) s))"
  by pat_completeness auto
termination
  by (relation "measure (\<lambda>(f, s). length s)") auto

declare trim_side.simps [simp del]

definition go_TrimSpace :: "string \<Rightarrow> string" where
  "go_TrimSpace s = rev (trim_side rev (rev (trim_side id s)))"

lemma trim_side_fix: "space_len f s = 0 \<Longrightarrow> trim_side f s = s"
  by (subst trim_side.simps) simp

lemma trim_side_Nil [simp]: "trim_side f [] = []"
  by (subst trim_side.simps) simp

lemma trim_side_done: "s = trim_side f t \<Longrightarrow> s = [] \<or> space_len f s = 0"
proof (induction f t arbitrary: s rule: trim_side.induct)
  case (1 f t)
  show ?case
  proof (cases "t = [] \<or> space_len f t = 0")
    case True
    with 1 show ?thesis by (auto simp: trim_side.simps [of f t])
  next
    case False
    with 1 show ?thesis by (simp add: trim_side.simps [of f t])
  qed
qed

lemma trim_side_idem [simp]: "trim_side f (trim_side f s) = trim_side f s"
  using trim_side_done [OF refl, of f s] by (auto simp: trim_side_fix)

lemma trim_side_suffix: "suffix (trim_side f s) s"
proof (induction f s rule: trim_side.induct)
  case (1 f s)
  show ?case
  proof (cases "s = [] \<or> space_len f s = 0")
    case True
    then show ?thesis by (auto simp: trim_side.simps [of f s])
  next
    case False
    with 1 have "suffix (trim_side f (drop (space_len f s) s)) (drop (space_len f s) s)" by simp
    then have "suffix (trim_side f (drop (space_len f s) s)) s"
      using suffix_drop suffix_order.trans by blast
    with False show ?thesis by (simp add: trim_side.simps [of f s])
  qed
qed

lemma go_TrimSpace_Nil [simp]: "go_TrimSpace [] = []"
  by (simp add: go_TrimSpace_def)

text \<open>A string whose first and last bytes are ASCII and not spaces is not changed.\<close>

definition plain_byte :: "char \<Rightarrow> bool" where
  "plain_byte c =
     (c \<notin> {CHR 0x09, CHR 0x0A, CHR 0x0B, CHR 0x0C, CHR 0x0D, CHR 0x20} \<and> \<not> digit7 c)"

lemma space_len_plain: "plain_byte c \<Longrightarrow> f \<in> {id, rev} \<Longrightarrow> space_len f (c # s) = 0"
  by (cases s; cases "tl s")
     (auto simp: plain_byte_def space_len_def utf8_spaces1_def utf8_spaces2_def utf8_spaces3_def
        numeral_2_eq_2 numeral_3_eq_3)

lemma go_TrimSpace_plain:
  assumes "s \<noteq> []" "plain_byte (hd s)" "plain_byte (last s)"
  shows "go_TrimSpace s = s"
proof -
  have "trim_side id s = s"
    using assms by (cases s) (auto intro: trim_side_fix simp: space_len_plain)
  moreover have "trim_side rev (rev s) = rev s"
    using assms by (cases s rule: rev_cases) (auto intro: trim_side_fix simp: space_len_plain)
  ultimately show ?thesis by (simp add: go_TrimSpace_def)
qed

text \<open>Trimming twice is trimming once.\<close>

lemma space_len_prefix: "prefix p t \<Longrightarrow> space_len id t = 0 \<Longrightarrow> space_len id p = 0"
proof -
  have take: "take n p = take n t" if "prefix p t" "n \<le> length p" for n
    using that by (auto simp: prefix_def)
  have len: "x \<in> set utf8_spaces1 \<Longrightarrow> length x = 1" "x \<in> set utf8_spaces2 \<Longrightarrow> length x = 2" "x \<in> set utf8_spaces3 \<Longrightarrow> length x = 3" for x
    by (auto simp: utf8_spaces1_def utf8_spaces2_def utf8_spaces3_def)
  assume "prefix p t" "space_len id t = 0"
  then show ?thesis using take [of 1] take [of 2] take [of 3] len [of "take 1 p"] len [of "take 2 p"] len [of "take 3 p"]
    by (auto simp: space_len_def split: if_splits)
qed

lemma go_TrimSpace_idem [simp]: "go_TrimSpace (go_TrimSpace s) = go_TrimSpace s"
proof -
  let ?t = "trim_side id s" and ?r = "rev (trim_side rev (rev (trim_side id s)))"
  have "prefix ?r ?t" using trim_side_suffix [of rev "rev ?t"] by (auto simp: suffix_to_prefix)
  then have "?r = [] \<or> space_len id ?r = 0" using trim_side_done [OF refl, of id s] space_len_prefix by auto
  then have "trim_side id ?r = ?r" by (auto simp: trim_side_fix)
  then show ?thesis by (simp add: go_TrimSpace_def)
qed

lemma space_len_last: "c \<in> {CHR 0xBC} \<Longrightarrow> space_len rev (c # s) = 0"
  by (cases s; cases "tl s") (auto simp: space_len_def utf8_spaces1_def utf8_spaces2_def utf8_spaces3_def numeral_2_eq_2 numeral_3_eq_3)

section \<open>Decimal numbers\<close>

text \<open>\<^verbatim>\<open>strconv.Itoa\<close> and \<^verbatim>\<open>strconv.FormatInt(n, 10)\<close>.\<close>

function show_digits :: "int \<Rightarrow> string" where
  "show_digits n =
     (if n < 10 then [digit_char n] else show_digits (n div 10) @ [digit_char (n mod 10)])"
  by pat_completeness auto
termination
  by (relation "measure nat") auto

declare show_digits.simps [simp del]

definition go_Itoa :: "int \<Rightarrow> string" where
  "go_Itoa i = (if i < 0 then CHR ''-'' # show_digits (- i) else show_digits i)"

datatype num_error = ErrSyntax | ErrRange

abbreviation max_uint64 :: int where "max_uint64 \<equiv> 18446744073709551615"
abbreviation two63 :: int where "two63 \<equiv> 9223372036854775808"

text \<open>The loop of \<^verbatim>\<open>strconv.ParseUint\<close> in base 10 at 64 bits: it stops at the first byte that
  is no digit or takes the value past \<open>2^64 - 1\<close>, whichever comes first.\<close>

fun scan_uint :: "int \<Rightarrow> string \<Rightarrow> (num_error, int) result" where
  "scan_uint acc [] = Inr acc"
| "scan_uint acc (c # cs) =
     (if \<not> is_digit c then Inl ErrSyntax
      else if acc * 10 + digit_val c > max_uint64 then Inl ErrRange
      else scan_uint (acc * 10 + digit_val c) cs)"

text \<open>
  \<^verbatim>\<open>strconv.ParseInt(s, 10, 64)\<close>, which is also \<^verbatim>\<open>strconv.Atoi\<close> on a 64-bit target: the value
  and the error are both returned, and callers that drop the error see \<open>0\<close> after a syntax error
  and the nearest bound after a range error.
\<close>

definition parse_magnitude :: "bool \<Rightarrow> string \<Rightarrow> int \<times> num_error option" where
  "parse_magnitude neg ds =
     (if ds = [] then (0, Some ErrSyntax)
      else case scan_uint 0 ds of
        Inl ErrSyntax \<Rightarrow> (0, Some ErrSyntax)
      | Inl ErrRange \<Rightarrow> ((if neg then - two63 else two63 - 1), Some ErrRange)
      | Inr n \<Rightarrow>
          (if \<not> neg \<and> n \<ge> two63 then (two63 - 1, Some ErrRange)
           else if neg \<and> n > two63 then (- two63, Some ErrRange)
           else ((if neg then - n else n), None)))"

definition go_Atoi :: "string \<Rightarrow> int \<times> num_error option" where
  "go_Atoi s =
     (case s of
        [] \<Rightarrow> (0, Some ErrSyntax)
      | c # cs \<Rightarrow>
          (if c = CHR ''-'' then parse_magnitude True cs
           else if c = CHR ''+'' then parse_magnitude False cs
           else parse_magnitude False s))"

text \<open>The range of Go's \<^verbatim>\<open>int\<close> and \<^verbatim>\<open>int64\<close>.\<close>

abbreviation int64 :: "int \<Rightarrow> bool" where
  "int64 i \<equiv> - two63 \<le> i \<and> i < two63"

lemma show_digits_digits: "c \<in> set (show_digits n) \<Longrightarrow> is_digit c"
proof (induction n rule: show_digits.induct)
  case (1 n)
  then show ?case by (cases "n < 10") (auto simp: show_digits.simps [of n])
qed

lemma show_digits_nonempty [simp]: "show_digits n \<noteq> []"
  by (subst show_digits.simps) simp

lemma scan_uint_snoc:
  "scan_uint a (xs @ [c]) =
     (case scan_uint a xs of Inl e \<Rightarrow> Inl e | Inr n \<Rightarrow> scan_uint n [c])"
  by (induction xs arbitrary: a) auto

lemma scan_show_digits: "0 \<le> n \<Longrightarrow> n \<le> max_uint64 \<Longrightarrow> scan_uint 0 (show_digits n) = Inr n"
proof (induction n rule: show_digits.induct)
  case (1 n)
  show ?case
  proof (cases "n < 10")
    case True
    with "1.prems" show ?thesis by (subst show_digits.simps) simp
  next
    case False
    with "1.prems" have "0 \<le> n div 10" "n div 10 \<le> max_uint64" by auto
    with 1 False have "scan_uint 0 (show_digits (n div 10)) = Inr (n div 10)" by blast
    moreover have "n div 10 * 10 + n mod 10 = n" by simp
    ultimately show ?thesis using False "1.prems"
      by (subst show_digits.simps) (simp add: scan_uint_snoc)
  qed
qed

lemma show_digits_hd: "is_digit (hd (show_digits n))"
  using show_digits_digits [of "hd (show_digits n)" n] by simp

lemma digit_not_sign: "is_digit c \<Longrightarrow> c \<noteq> CHR ''-'' \<and> c \<noteq> CHR ''+''"
  by (auto simp: is_digit_def)

text \<open>Reading back a printed number gives the number, at every 64-bit value.\<close>

lemma go_Atoi_Itoa:
  assumes "int64 i"
  shows "go_Atoi (go_Itoa i) = (i, None)"
proof (cases "i < 0")
  case True
  with assms have "scan_uint 0 (show_digits (- i)) = Inr (- i)"
    by (intro scan_show_digits) simp_all
  with True assms show ?thesis
    by (simp add: go_Itoa_def go_Atoi_def parse_magnitude_def)
next
  case False
  with assms have s: "scan_uint 0 (show_digits i) = Inr i"
    by (intro scan_show_digits) simp_all
  obtain c cs where c: "show_digits i = c # cs"
    using show_digits_nonempty by (meson neq_Nil_conv)
  with show_digits_hd [of i] have "c \<noteq> CHR ''-''" "c \<noteq> CHR ''+''"
    by (auto dest: digit_not_sign)
  with c s assms False show ?thesis
    by (simp add: go_Itoa_def go_Atoi_def parse_magnitude_def)
qed

lemma parse_magnitude_bound: "int64 (fst (parse_magnitude neg ds))"
proof -
  have nn: "0 \<le> a \<Longrightarrow> scan_uint a ds = Inr n \<Longrightarrow> 0 \<le> n" for a n
  proof (induction ds arbitrary: a)
    case (Cons c cs)
    moreover have "0 \<le> a * 10 + digit_val c" using Cons.prems digit_val_range [of c] by simp
    ultimately show ?case by (auto split: if_splits)
  qed simp
  show ?thesis
    using nn [of 0] by (auto simp: parse_magnitude_def split: sum.splits num_error.splits)
qed

lemma go_Atoi_bound: "int64 (fst (go_Atoi s))"
  using parse_magnitude_bound by (simp add: go_Atoi_def split: list.splits)

section \<open>File paths\<close>

text \<open>
  \<^verbatim>\<open>filepath.Clean\<close> and \<^verbatim>\<open>filepath.Join\<close> on Unix: empty and \<open>.\<close> elements vanish, \<open>..\<close>
  removes the element before it, stays at the front of a relative path and vanishes at the root.
\<close>

fun clean_elems :: "bool \<Rightarrow> string list \<Rightarrow> string list \<Rightarrow> string list" where
  "clean_elems rooted acc [] = rev acc"
| "clean_elems rooted acc (e # es) =
     (if e = [] \<or> e = ''.'' then clean_elems rooted acc es
      else if e = ''..'' then
        (case acc of
           [] \<Rightarrow> clean_elems rooted (if rooted then [] else [e]) es
         | a # as \<Rightarrow> clean_elems rooted (if a = ''..'' then e # acc else as) es)
      else clean_elems rooted (e # acc) es)"

definition go_filepath_Clean :: "string \<Rightarrow> string" where
  "go_filepath_Clean p =
     (let rooted = go_HasPrefix p ''/'';
          body = go_Join CHR ''/'' (clean_elems rooted [] (go_Split CHR ''/'' p))
      in if rooted then CHR ''/'' # body else if body = [] then ''.'' else body)"

definition go_filepath_Join :: "string list \<Rightarrow> string" where
  "go_filepath_Join es =
     (let nonempty = filter (\<lambda>e. e \<noteq> []) es
      in if nonempty = [] then [] else go_filepath_Clean (go_Join CHR ''/'' nonempty))"

text \<open>\<^verbatim>\<open>len([]rune(s))\<close>: the bytes that are no UTF-8 continuation. Request bodies are valid UTF-8,
  which the JSON decoder sees to.\<close>

definition rune_count :: "string \<Rightarrow> int" where
  "rune_count s = int (length (filter (\<lambda>c. \<not> (128 \<le> (of_char c :: int) \<and> (of_char c :: int) < 192)) s))"

text \<open>The lower case of the ASCII letters.\<close>

definition ascii_lower :: "char \<Rightarrow> char" where
  "ascii_lower c =
     (if 65 \<le> (of_char c :: nat) \<and> (of_char c :: nat) \<le> 90 then char_of (of_char c + 32 :: nat) else c)"

text \<open>\<^verbatim>\<open>strings.Contains\<close>, and the digits of a phone number (\<^verbatim>\<open>model/phone_number.go\<close>).\<close>

fun go_Contains :: "string \<Rightarrow> string \<Rightarrow> bool" where
  "go_Contains [] p = (p = [])"
| "go_Contains (c # cs) p = (go_HasPrefix (c # cs) p \<or> go_Contains cs p)"

definition NormalizePhoneNumber :: "string \<Rightarrow> string" where
  "NormalizePhoneNumber value = filter is_digit value"

end
