(* ===== verification/Go_Time.thy ===== *)
theory Go_Time
  imports Prelude
begin

text \<open>
  Go's \<^verbatim>\<open>time.Time\<close> in one location with a fixed offset (the server runs in KST, which has no
  daylight saving): a civil date and the nanoseconds since midnight, ordered chronologically.
  \<^verbatim>\<open>time.Date\<close> and \<^verbatim>\<open>AddDate\<close> normalise months and days the way the library documents:
  October 32 becomes November 1.
\<close>

section \<open>Times and their order\<close>

datatype gotime = GoTime (year: int) (month: int) (day: int) (nsec: int)

abbreviation day_nanos :: int where "day_nanos \<equiv> 86400000000000"

instantiation gotime :: linorder
begin

definition less_gotime :: "gotime \<Rightarrow> gotime \<Rightarrow> bool" where
  "less_gotime s t =
     (year s < year t \<or> year s = year t \<and>
       (month s < month t \<or> month s = month t \<and>
         (day s < day t \<or> day s = day t \<and> nsec s < nsec t)))"

definition less_eq_gotime :: "gotime \<Rightarrow> gotime \<Rightarrow> bool" where
  "less_eq_gotime s t = (s = t \<or> s < t)"

instance
proof
  fix x y z :: gotime
  show "(x < y) = (x \<le> y \<and> \<not> y \<le> x)"
    by (auto simp: less_gotime_def less_eq_gotime_def)
  show "x \<le> x" by (simp add: less_eq_gotime_def)
  show "x \<le> y \<Longrightarrow> y \<le> z \<Longrightarrow> x \<le> z"
    by (auto simp: less_gotime_def less_eq_gotime_def)
  show "x \<le> y \<Longrightarrow> y \<le> x \<Longrightarrow> x = y"
    by (auto simp: less_gotime_def less_eq_gotime_def)
  show "x \<le> y \<or> y \<le> x"
    by (cases x; cases y) (auto simp: less_gotime_def less_eq_gotime_def)
qed

end

section \<open>The calendar\<close>

definition isLeap :: "int \<Rightarrow> bool" where
  "isLeap y = (y mod 4 = 0 \<and> (y mod 100 \<noteq> 0 \<or> y mod 400 = 0))"

definition daysIn :: "int \<Rightarrow> int \<Rightarrow> int" where
  "daysIn y m =
     (if m = 2 then (if isLeap y then 29 else 28)
      else if m = 4 \<or> m = 6 \<or> m = 9 \<or> m = 11 then 30 else 31)"

lemma daysIn_bounds: "28 \<le> daysIn y m \<and> daysIn y m \<le> 31"
  by (simp add: daysIn_def)

text \<open>Month arithmetic: months are counted from year 0, so that month 13 is January of the next
  year and month 0 is December of the year before.\<close>

definition month_index :: "int \<Rightarrow> int \<Rightarrow> int" where
  "month_index y m = y * 12 + (m - 1)"

definition idx_year :: "int \<Rightarrow> int" where "idx_year i = i div 12"
definition idx_month :: "int \<Rightarrow> int" where "idx_month i = i mod 12 + 1"

lemma idx_month_range [simp]: "1 \<le> idx_month i" "idx_month i \<le> 12"
  by (simp_all add: idx_month_def)

lemma month_index_idx [simp]: "month_index (idx_year i) (idx_month i) = i"
  by (simp add: month_index_def idx_year_def idx_month_def)

lemma idx_of_month_index:
  "1 \<le> m \<Longrightarrow> m \<le> 12 \<Longrightarrow> idx_year (month_index y m) = y \<and> idx_month (month_index y m) = m"
  by (simp add: month_index_def idx_year_def idx_month_def)

definition daysIn_idx :: "int \<Rightarrow> int" where
  "daysIn_idx i = daysIn (idx_year i) (idx_month i)"

lemma daysIn_idx_bounds: "28 \<le> daysIn_idx i" "daysIn_idx i \<le> 31"
  using daysIn_bounds by (auto simp: daysIn_idx_def)

text \<open>Carry surplus days into the following months and missing days out of the preceding ones.\<close>

function norm_day :: "int \<Rightarrow> int \<Rightarrow> int \<times> int" where
  "norm_day i d =
     (if d < 1 then norm_day (i - 1) (d + daysIn_idx (i - 1))
      else if d > daysIn_idx i then norm_day (i + 1) (d - daysIn_idx i)
      else (i, d))"
  by pat_completeness auto
termination
proof (relation "measure (\<lambda>(i, d). nat (if d < 1 then 100 - d else d))")
  fix i d :: int assume "d < 1"
  then show "((i - 1, d + daysIn_idx (i - 1)), i, d) \<in> measure (\<lambda>(i, d). nat (if d < 1 then 100 - d else d))"
    using daysIn_idx_bounds [of "i - 1"] by auto
next
  fix i d :: int assume "\<not> d < 1" "daysIn_idx i < d"
  then show "((i + 1, d - daysIn_idx i), i, d) \<in> measure (\<lambda>(i, d). nat (if d < 1 then 100 - d else d))"
    using daysIn_idx_bounds [of i] by auto
qed simp

declare norm_day.simps [simp del]

text \<open>\<^verbatim>\<open>time.Date(y, m, d, ...)\<close> with the time of day given in nanoseconds, and the methods
  \<^verbatim>\<open>AddDate\<close> and \<^verbatim>\<open>Add(24 * time.Hour)\<close>.\<close>

definition go_Date :: "int \<Rightarrow> int \<Rightarrow> int \<Rightarrow> int \<Rightarrow> gotime" where
  "go_Date y m d ns =
     (case norm_day (month_index y m) d of
        (i, d') \<Rightarrow> GoTime (idx_year i) (idx_month i) d' ns)"

definition go_AddDate :: "gotime \<Rightarrow> int \<Rightarrow> int \<Rightarrow> int \<Rightarrow> gotime" where
  "go_AddDate t ys ms ds = go_Date (year t + ys) (month t + ms) (day t + ds) (nsec t)"

definition go_Add24h :: "gotime \<Rightarrow> gotime" where
  "go_Add24h t = go_Date (year t) (month t) (day t + 1) (nsec t)"

text \<open>\<^verbatim>\<open>UnixNano() / int64(time.Millisecond)\<close> at a UTC offset in seconds: the days since
  1970-01-01 by the era computation of the proleptic Gregorian calendar.\<close>

definition days_from_civil :: "int \<Rightarrow> int \<Rightarrow> int \<Rightarrow> int" where
  "days_from_civil y m d =
     (let y' = (if m \<le> 2 then y - 1 else y);
          era = y' div 400;
          yoe = y' mod 400;
          doy = (153 * (if m > 2 then m - 3 else m + 9) + 2) div 5 + d - 1;
          doe = yoe * 365 + yoe div 4 - yoe div 100 + doy
      in era * 146097 + doe - 719468)"

definition unix_millis :: "int \<Rightarrow> gotime \<Rightarrow> int" where
  "unix_millis offset t =
     days_from_civil (year t) (month t) (day t) * 86400000 + nsec t div 1000000 - offset * 1000"

definition valid_time :: "gotime \<Rightarrow> bool" where
  "valid_time t = (1 \<le> month t \<and> month t \<le> 12 \<and> 1 \<le> day t \<and> day t \<le> daysIn (year t) (month t)
     \<and> 0 \<le> nsec t \<and> nsec t < day_nanos)"

section \<open>Facts\<close>

lemma norm_day_in: "1 \<le> d \<Longrightarrow> d \<le> daysIn_idx i \<Longrightarrow> norm_day i d = (i, d)"
  by (subst norm_day.simps) simp

lemma norm_day_valid: "norm_day i d = (j, e) \<Longrightarrow> 1 \<le> e \<and> e \<le> daysIn_idx j"
proof (induction i d rule: norm_day.induct)
  case (1 i d)
  show ?case
  proof (cases "d < 1")
    case True
    with 1 show ?thesis by (simp add: norm_day.simps [of i d])
  next
    case False
    with 1 show ?thesis
      by (cases "d > daysIn_idx i") (simp_all add: norm_day.simps [of i d])
  qed
qed

lemma norm_day_over:
  assumes "daysIn_idx i < d" "d \<le> 32"
  shows "norm_day i d = (i + 1, d - daysIn_idx i)"
proof -
  have "1 \<le> d - daysIn_idx i" "d - daysIn_idx i \<le> daysIn_idx (i + 1)"
    using assms daysIn_idx_bounds [of i] daysIn_idx_bounds [of "i + 1"] by auto
  then show ?thesis
    using assms daysIn_idx_bounds [of i] by (subst norm_day.simps) (simp add: norm_day_in)
qed

definition time_index :: "gotime \<Rightarrow> int" where
  "time_index t = month_index (year t) (month t)"

lemma valid_time_index:
  "valid_time t \<Longrightarrow> idx_year (time_index t) = year t \<and> idx_month (time_index t) = month t
     \<and> daysIn_idx (time_index t) = daysIn (year t) (month t)"
  using idx_of_month_index [of "month t" "year t"]
  by (simp add: valid_time_def time_index_def daysIn_idx_def)

lemma time_index_less: "valid_time s \<Longrightarrow> valid_time t \<Longrightarrow> time_index s < time_index t \<Longrightarrow> s < t"
  by (auto simp: valid_time_def time_index_def month_index_def less_gotime_def)

lemma time_less_same_index:
  assumes "valid_time s" "valid_time t" "time_index s = time_index t"
  shows "s < t \<longleftrightarrow> day s < day t \<or> day s = day t \<and> nsec s < nsec t"
proof -
  from assms have "year s = year t" "month s = month t"
    using valid_time_index [of s] valid_time_index [of t] by auto
  then show ?thesis by (simp add: less_gotime_def)
qed

lemma time_index_mono: "valid_time s \<Longrightarrow> valid_time t \<Longrightarrow> s \<le> t \<Longrightarrow> time_index s \<le> time_index t"
  by (metis less_le_not_le not_le_imp_less time_index_less)

lemma go_Date_valid:
  assumes "0 \<le> ns" "ns < day_nanos"
  shows "valid_time (go_Date y m d ns)"
  using assms norm_day_valid [of "month_index y m" d]
  by (auto simp: go_Date_def valid_time_def daysIn_idx_def split: prod.splits)

lemma go_Date_index: "time_index (go_Date y m d ns) = fst (norm_day (month_index y m) d)"
  by (simp add: go_Date_def time_index_def split: prod.splits)

lemma go_Date_day: "day (go_Date y m d ns) = snd (norm_day (month_index y m) d)"
  by (simp add: go_Date_def split: prod.splits)

lemma go_Date_nsec [simp]: "nsec (go_Date y m d ns) = ns"
  by (simp add: go_Date_def split: prod.splits)

lemma go_Add24h_after: "valid_time t \<Longrightarrow> valid_time (go_Add24h t) \<and> t < go_Add24h t"
proof -
  assume v: "valid_time t"
  then have vs: "valid_time (go_Add24h t)"
    unfolding go_Add24h_def by (intro go_Date_valid) (auto simp: valid_time_def)
  have dim: "daysIn_idx (time_index t) = daysIn (year t) (month t)"
    using v valid_time_index by blast
  have "t < go_Add24h t"
  proof (cases "day t + 1 \<le> daysIn (year t) (month t)")
    case True
    with v dim have n: "norm_day (time_index t) (day t + 1) = (time_index t, day t + 1)"
      by (intro norm_day_in) (auto simp: valid_time_def)
    have "time_index (go_Add24h t) = time_index t" "day (go_Add24h t) = day t + 1"
      using n by (simp_all add: go_Add24h_def go_Date_index go_Date_day flip: time_index_def)
    then show ?thesis using v vs by (simp add: time_less_same_index)
  next
    case False
    with v dim have n: "norm_day (time_index t) (day t + 1)
        = (time_index t + 1, day t + 1 - daysIn_idx (time_index t))"
      using daysIn_idx_bounds [of "time_index t"] by (intro norm_day_over) (auto simp: valid_time_def)
    have "time_index (go_Add24h t) = time_index t + 1"
      using n by (simp add: go_Add24h_def go_Date_index flip: time_index_def)
    then show ?thesis using v vs by (intro time_index_less) simp_all
  qed
  with vs show ?thesis by simp
qed

end
