(* ===== verification/Pay_Store.thy ===== *)
theory Pay_Store
  imports Go_Strings Go_Time
begin

text \<open>
  The tables behind donations and recurring subscriptions (\<^verbatim>\<open>WEO_ORDER\<close>, \<^verbatim>\<open>WEO_PG_DATA\<close>,
  \<^verbatim>\<open>SUBSCRIPTION\<close>) and the repositories that read and write them
  (\<^verbatim>\<open>repository/donate_repo.go\<close>, \<^verbatim>\<open>repository/subscription_repo.go\<close>), one definition per
  statement. The database server is outside the program: whether a statement fails is a parameter
  (\<open>faults\<close>), a statement that does not fail has the effect its SQL text says.
\<close>

section \<open>Rows\<close>

record weo_order =
  o_seq :: int
  o_usr_seq :: int
  o_account_usr_seq :: int
  o_source :: string
  o_donation_date :: gotime
  o_gate :: string
  o_gross_amount :: int
  o_refunded_amount :: int
  o_net_received_amount :: int
  o_lifecycle_status :: string
  o_payment_method :: string
  o_pay_type :: string
  o_type :: string
  o_price :: int
  o_payment :: string
  o_reg_date :: gotime
  o_reg_ipaddr :: string
  o_pay :: int
  o_paydate :: "gotime option"
  o_pg_seq :: "int option"
  o_status :: string
  o_edt_date :: "gotime option"
  o_edt_ipaddr :: "string option"

record PGData =
  pg_cno :: string
  pg_res_cd :: string
  pg_res_msg :: string
  pg_amount :: int
  pg_num_card :: string
  pg_tran_date :: string
  pg_auth_no :: string
  pg_pay_type :: string
  pg_o_seq :: int

record Subscription =
  sub_seq :: int
  sub_usr_seq :: int
  sub_amount :: int
  sub_pay_type :: string
  sub_billing_key :: "string option"
  sub_card_no :: "string option"
  sub_status :: string
  sub_start_date :: gotime
  sub_next_bill :: gotime
  sub_bill_day :: "int option"
  sub_end_yyyymm :: "string option"
  sub_last_billed_at :: "gotime option"
  sub_fail_count :: int
  sub_order_seq :: "int option"
  sub_reg_date :: gotime
  sub_edt_date :: "gotime option"

text \<open>The database: the rows of each table and the next value of its \<^verbatim>\<open>AUTO_INCREMENT\<close> key.\<close>

record pay_db =
  orders :: "weo_order list"
  order_next :: int
  pg_rows :: "(int \<times> PGData) list"
  pg_next :: int
  subs :: "Subscription list"
  sub_next :: int

section \<open>Statements and their faults\<close>

datatype db_error = DriverError string | ErrNoRows

datatype stmt =
    StInsertOrder | StLastInsertId | StSelectLastInsertId | StGetOrderGate | StGetOrderPrice
  | StBegin | StInsertPGData | StUpdateOrderPayment | StCommit
  | StGetByUser | StGetByOrderSeq | StListDue | StInsertSub | StActivate | StMarkBilled
  | StIncrementFail | StReadFail | StUpdateStatus

text \<open>What one request sees of the database server: the error of each statement, if any, the
  server's clock, and what \<^verbatim>\<open>SELECT LAST_INSERT_ID()\<close> answers on the pooled connection that
  serves it.\<close>

record db_env =
  faults :: "stmt \<Rightarrow> db_error option"
  db_now :: gotime
  pool_last_id :: int

definition current_date :: "gotime \<Rightarrow> gotime" where
  "current_date t = GoTime (year t) (month t) (day t) 0"

section \<open>DonateRepository\<close>

definition canonicalPaymentMethod :: "string \<Rightarrow> string" where
  "canonicalPaymentMethod payType =
     (if payType = ''CARD'' then ''card''
      else if payType = ''BANK'' then ''bank''
      else if payType = ''VBANK'' then ''virtual_bank''
      else if payType = ''HP'' then ''mobile''
      else ''other'')"

definition new_order :: "gotime \<Rightarrow> int \<Rightarrow> int \<Rightarrow> string \<Rightarrow> string \<Rightarrow> int \<Rightarrow> string \<Rightarrow> weo_order" where
  "new_order now seq usrSeq gate payType price ip =
     \<lparr>o_seq = seq, o_usr_seq = usrSeq, o_account_usr_seq = usrSeq, o_source = ''other'',
      o_donation_date = current_date now, o_gate = gate, o_gross_amount = price,
      o_refunded_amount = 0, o_net_received_amount = 0, o_lifecycle_status = ''pending'',
      o_payment_method = canonicalPaymentMethod payType, o_pay_type = payType, o_type = ''A'',
      o_price = price, o_payment = ''N'', o_reg_date = now, o_reg_ipaddr = ip, o_pay = 0,
      o_paydate = None, o_pg_seq = None, o_status = ''I'', o_edt_date = None,
      o_edt_ipaddr = None\<rparr>"

definition add_order ::
  "gotime \<Rightarrow> int \<Rightarrow> string \<Rightarrow> string \<Rightarrow> int \<Rightarrow> string \<Rightarrow> pay_db \<Rightarrow> pay_db" where
  "add_order now usrSeq gate payType price ip db =
     db\<lparr>orders := orders db @ [new_order now (order_next db) usrSeq gate payType price ip],
        order_next := order_next db + 1\<rparr>"

definition InsertOrder ::
  "db_env \<Rightarrow> int \<Rightarrow> string \<Rightarrow> string \<Rightarrow> int \<Rightarrow> string \<Rightarrow> pay_db \<Rightarrow> (db_error, int) result \<times> pay_db" where
  "InsertOrder env usrSeq gate payType price ip db =
     (case faults env StInsertOrder of
        Some e \<Rightarrow> (Inl e, db)
      | None \<Rightarrow>
          let i = order_next db;
              db' = add_order (db_now env) usrSeq gate payType price ip db;
              idErr = faults env StLastInsertId
          in (if idErr \<noteq> None \<or> i = 0
              then (case faults env StSelectLastInsertId of
                      Some qErr \<Rightarrow> (Inl (case idErr of Some e \<Rightarrow> e | None \<Rightarrow> qErr), db')
                    | None \<Rightarrow> (Inr (pool_last_id env), db'))
              else (Inr i, db')))"

definition GetOrderGate :: "db_env \<Rightarrow> int \<Rightarrow> pay_db \<Rightarrow> (db_error, string) result" where
  "GetOrderGate env orderSeq db =
     (case faults env StGetOrderGate of
        Some e \<Rightarrow> Inl e
      | None \<Rightarrow>
          (case sql_get (\<lambda>r. o_seq r = orderSeq) (orders db) of
             None \<Rightarrow> Inl ErrNoRows
           | Some r \<Rightarrow> Inr (o_gate r)))"

definition GetOrderPrice :: "db_env \<Rightarrow> int \<Rightarrow> pay_db \<Rightarrow> (db_error, int \<times> string) result" where
  "GetOrderPrice env orderSeq db =
     (case faults env StGetOrderPrice of
        Some e \<Rightarrow> Inl e
      | None \<Rightarrow>
          (case sql_get (\<lambda>r. o_seq r = orderSeq) (orders db) of
             None \<Rightarrow> Inl ErrNoRows
           | Some r \<Rightarrow> Inr (o_price r, o_payment r)))"

text \<open>The statements of a transaction take and return the transaction's view of the database.\<close>

definition add_pg :: "PGData \<Rightarrow> pay_db \<Rightarrow> pay_db" where
  "add_pg d db = db\<lparr>pg_rows := pg_rows db @ [(pg_next db, d)], pg_next := pg_next db + 1\<rparr>"

definition InsertPGDataTx :: "db_env \<Rightarrow> PGData \<Rightarrow> pay_db \<Rightarrow> (db_error, int \<times> pay_db) result" where
  "InsertPGDataTx env d db =
     (case faults env StInsertPGData of
        Some e \<Rightarrow> Inl e
      | None \<Rightarrow> Inr (pg_next db, add_pg d db))"

definition pay_order :: "db_env \<Rightarrow> int \<Rightarrow> int \<Rightarrow> string \<Rightarrow> weo_order \<Rightarrow> weo_order" where
  "pay_order env amount pgSeq ip r =
     r\<lparr>o_payment := ''Y'', o_pay := amount, o_paydate := Some (db_now env), o_pg_seq := Some pgSeq,
       o_status := ''Y'', o_net_received_amount := amount, o_lifecycle_status := ''completed'',
       o_edt_date := Some (db_now env), o_edt_ipaddr := Some ip\<rparr>"

lemma pay_order_fields [simp]:
  "o_seq (pay_order env a pg ip r) = o_seq r" "o_price (pay_order env a pg ip r) = o_price r"
  "o_gross_amount (pay_order env a pg ip r) = o_gross_amount r"
  "o_gate (pay_order env a pg ip r) = o_gate r"
  "o_payment (pay_order env a pg ip r) = ''Y''" "o_pay (pay_order env a pg ip r) = a"
  "o_net_received_amount (pay_order env a pg ip r) = a"
  "o_pg_seq (pay_order env a pg ip r) = Some pg"
  "o_lifecycle_status (pay_order env a pg ip r) = ''completed''"
  by (simp_all add: pay_order_def)

definition unpaid_order :: "int \<Rightarrow> weo_order \<Rightarrow> bool" where
  "unpaid_order orderSeq r = (o_seq r = orderSeq \<and> o_payment r = ''N'')"

definition set_paid :: "db_env \<Rightarrow> int \<Rightarrow> int \<Rightarrow> int \<Rightarrow> string \<Rightarrow> pay_db \<Rightarrow> pay_db" where
  "set_paid env orderSeq amount pgSeq ip db =
     db\<lparr>orders := sql_update (unpaid_order orderSeq) (pay_order env amount pgSeq ip) (orders db)\<rparr>"

definition UpdateOrderPaymentTx ::
  "db_env \<Rightarrow> int \<Rightarrow> int \<Rightarrow> int \<Rightarrow> string \<Rightarrow> pay_db \<Rightarrow> (db_error, nat \<times> pay_db) result" where
  "UpdateOrderPaymentTx env orderSeq amount pgSeq ip db =
     (case faults env StUpdateOrderPayment of
        Some e \<Rightarrow> Inl e
      | None \<Rightarrow>
          Inr (sql_affected (unpaid_order orderSeq) (orders db),
               set_paid env orderSeq amount pgSeq ip db))"

section \<open>SubscriptionRepository\<close>

definition new_sub :: "gotime \<Rightarrow> Subscription \<Rightarrow> int \<Rightarrow> Subscription" where
  "new_sub now s seq =
     \<lparr>sub_seq = seq, sub_usr_seq = sub_usr_seq s, sub_amount = sub_amount s,
      sub_pay_type = sub_pay_type s, sub_billing_key = None, sub_card_no = None,
      sub_status = sub_status s, sub_start_date = sub_start_date s,
      sub_next_bill = sub_next_bill s, sub_bill_day = sub_bill_day s,
      sub_end_yyyymm = None, sub_last_billed_at = None, sub_fail_count = 0,
      sub_order_seq = sub_order_seq s, sub_reg_date = now, sub_edt_date = None\<rparr>"

definition add_sub :: "gotime \<Rightarrow> Subscription \<Rightarrow> pay_db \<Rightarrow> pay_db" where
  "add_sub now s db = db\<lparr>subs := subs db @ [new_sub now s (sub_next db)], sub_next := sub_next db + 1\<rparr>"

definition Insert ::
  "db_env \<Rightarrow> Subscription \<Rightarrow> pay_db \<Rightarrow> (db_error, int) result \<times> pay_db" where
  "Insert env s db =
     (case faults env StInsertSub of
        Some e \<Rightarrow> (Inl e, db)
      | None \<Rightarrow> (Inr (sub_next db), add_sub (db_now env) s db))"

text \<open>\<^verbatim>\<open>ORDER BY SUB_SEQ DESC LIMIT 1\<close> among the user's active and pending rows.\<close>

definition live_status :: "string \<Rightarrow> bool" where
  "live_status st = (st = ''active'' \<or> st = ''pending'')"

definition GetByUser :: "db_env \<Rightarrow> int \<Rightarrow> pay_db \<Rightarrow> (db_error, Subscription option) result" where
  "GetByUser env usrSeq db =
     (case faults env StGetByUser of
        Some e \<Rightarrow> Inl e
      | None \<Rightarrow>
          (let rows = sort_key sub_seq
                 (filter (\<lambda>r. sub_usr_seq r = usrSeq \<and> live_status (sub_status r)) (subs db))
           in Inr (if rows = [] then None else Some (last rows))))"

definition GetByOrderSeq :: "db_env \<Rightarrow> int \<Rightarrow> pay_db \<Rightarrow> (db_error, Subscription option) result" where
  "GetByOrderSeq env orderSeq db =
     (case faults env StGetByOrderSeq of
        Some e \<Rightarrow> Inl e
      | None \<Rightarrow> Inr (sql_get (\<lambda>r. sub_order_seq r = Some orderSeq) (subs db)))"

text \<open>\<^verbatim>\<open>Format("200601")\<close> and \<^verbatim>\<open>DATE_FORMAT(..., '%Y%m')\<close>, and the comparison of such texts.\<close>

definition pad_num :: "nat \<Rightarrow> int \<Rightarrow> string" where
  "pad_num k n = replicate (k - length (go_Itoa n)) CHR ''0'' @ go_Itoa n"

definition yyyymm :: "gotime \<Rightarrow> string" where
  "yyyymm t = pad_num 4 (year t) @ pad_num 2 (month t)"

fun str_less :: "string \<Rightarrow> string \<Rightarrow> bool" where
  "str_less [] [] = False"
| "str_less [] (_ # _) = True"
| "str_less (_ # _) [] = False"
| "str_less (x # xs) (y # ys) =
     (if x = y then str_less xs ys else (of_char x :: nat) < of_char y)"

definition due_for_billing :: "int \<Rightarrow> string \<Rightarrow> Subscription \<Rightarrow> bool" where
  "due_for_billing billDay current r =
     (sub_status r = ''active'' \<and> sub_bill_day r = Some billDay
      \<and> (case sub_end_yyyymm r of None \<Rightarrow> True | Some e \<Rightarrow> \<not> str_less e current)
      \<and> (case sub_last_billed_at r of None \<Rightarrow> True | Some t \<Rightarrow> str_less (yyyymm t) current))"

definition ListDueForBilling ::
  "db_env \<Rightarrow> int \<Rightarrow> string \<Rightarrow> pay_db \<Rightarrow> (db_error, Subscription list) result" where
  "ListDueForBilling env billDay current db =
     (case faults env StListDue of
        Some e \<Rightarrow> Inl e
      | None \<Rightarrow> Inr (sort_key sub_seq (filter (due_for_billing billDay current) (subs db))))"

definition update_sub :: "int \<Rightarrow> (Subscription \<Rightarrow> Subscription) \<Rightarrow> pay_db \<Rightarrow> pay_db" where
  "update_sub subSeq f db = db\<lparr>subs := sql_update (\<lambda>r. sub_seq r = subSeq) f (subs db)\<rparr>"

definition ActivateWithBillingKeyTx ::
  "db_env \<Rightarrow> int \<Rightarrow> string \<Rightarrow> string \<Rightarrow> gotime \<Rightarrow> pay_db \<Rightarrow> (db_error, pay_db) result" where
  "ActivateWithBillingKeyTx env subSeq billingKey cardNo nextBill db =
     (case faults env StActivate of
        Some e \<Rightarrow> Inl e
      | None \<Rightarrow> Inr (update_sub subSeq
          (\<lambda>r. r\<lparr>sub_status := ''active'', sub_billing_key := Some billingKey,
                 sub_card_no := Some cardNo, sub_next_bill := nextBill,
                 sub_last_billed_at := Some (db_now env), sub_fail_count := 0,
                 sub_edt_date := Some (db_now env)\<rparr>) db))"

definition MarkBilledTx ::
  "db_env \<Rightarrow> int \<Rightarrow> gotime \<Rightarrow> gotime \<Rightarrow> pay_db \<Rightarrow> (db_error, pay_db) result" where
  "MarkBilledTx env subSeq billedAt nextBill db =
     (case faults env StMarkBilled of
        Some e \<Rightarrow> Inl e
      | None \<Rightarrow> Inr (update_sub subSeq
          (\<lambda>r. r\<lparr>sub_last_billed_at := Some billedAt, sub_next_bill := nextBill,
                 sub_fail_count := 0, sub_edt_date := Some (db_now env)\<rparr>) db))"

definition IncrementFailCount :: "db_env \<Rightarrow> int \<Rightarrow> pay_db \<Rightarrow> (db_error, int) result \<times> pay_db" where
  "IncrementFailCount env subSeq db =
     (case faults env StIncrementFail of
        Some e \<Rightarrow> (Inl e, db)
      | None \<Rightarrow>
          (let db' = update_sub subSeq
                 (\<lambda>r. r\<lparr>sub_fail_count := sub_fail_count r + 1, sub_edt_date := Some (db_now env)\<rparr>) db
           in (case faults env StReadFail of
                 Some e \<Rightarrow> (Inl e, db')
               | None \<Rightarrow>
                   (case sql_get (\<lambda>r. sub_seq r = subSeq) (subs db') of
                      None \<Rightarrow> (Inl ErrNoRows, db')
                    | Some r \<Rightarrow> (Inr (sub_fail_count r), db')))))"

definition UpdateStatus :: "db_env \<Rightarrow> int \<Rightarrow> string \<Rightarrow> pay_db \<Rightarrow> db_error option \<times> pay_db" where
  "UpdateStatus env subSeq status db =
     (case faults env StUpdateStatus of
        Some e \<Rightarrow> (Some e, db)
      | None \<Rightarrow> (None, update_sub subSeq
          (\<lambda>r. r\<lparr>sub_status := status, sub_edt_date := Some (db_now env)\<rparr>) db))"

definition MarkFailed :: "db_env \<Rightarrow> int \<Rightarrow> pay_db \<Rightarrow> db_error option \<times> pay_db" where
  "MarkFailed env subSeq db = UpdateStatus env subSeq ''failed'' db"

definition MarkSuspended :: "db_env \<Rightarrow> int \<Rightarrow> pay_db \<Rightarrow> db_error option \<times> pay_db" where
  "MarkSuspended env subSeq db = UpdateStatus env subSeq ''suspended'' db"

section \<open>The tables meet the contract of keyed tables\<close>

interpretation ord: auto_table orders order_next o_seq
  "\<lambda>(now, u, g, t, p, ip) db. add_order now u g t p ip db"
  "\<lambda>(now, u, g, t, p, ip) db. new_order now (order_next db) u g t p ip"
  "\<lambda>(env, i, a, pg, ip) db. set_paid env i a pg ip db" "\<lambda>_. True"
  by unfold_locales
     (auto simp: add_order_def new_order_def set_paid_def pay_order_def intro!: map_key_sql_update)

interpretation pgt: auto_table pg_rows pg_next fst
  add_pg "\<lambda>d db. (pg_next db, d)" "\<lambda>_::unit. id" "\<lambda>_. True"
  by unfold_locales (auto simp: add_pg_def)

interpretation sbt: auto_table subs sub_next sub_seq
  "\<lambda>(now, s) db. add_sub now s db" "\<lambda>(now, s) db. new_sub now s (sub_next db)"
  "\<lambda>(i, f) db. update_sub i f db" "\<lambda>(i, f). \<forall>r. sub_seq (f r) = sub_seq r"
  by unfold_locales
     (auto simp: add_sub_def new_sub_def update_sub_def intro!: map_key_sql_update)

end
