(* ===== verification/EasyPay.thy ===== *)
theory EasyPay
  imports Go_Strings
begin

text \<open>
  The payment gateway client (\<^verbatim>\<open>service/easypay_service.go\<close>): the command lines of the
  \<^verbatim>\<open>ep_cli\<close> binary for approvals and automatic billing, and the parser of its answer. The binary
  and the EUC-KR decoder of \<^verbatim>\<open>golang.org/x/text\<close> are not part of the program and are parameters.
  The payment audit data and its minimisation (\<^verbatim>\<open>service/pg_audit_privacy.go\<close>) follow.
\<close>

section \<open>Configuration, requests and results\<close>

record EasyPayConfig =
  ImmediatelyMallID :: string
  ProfileMallID :: string
  GatewayURL :: string
  GatewayPort :: string
  BinBase :: string
  ReturnBaseURL :: string
  AutoTrCd :: string

record ApproveRequest =
  ar_OrderNo :: string
  ar_EncryptData :: string
  ar_SessionKey :: string
  ar_TraceNo :: string
  ar_ClientIP :: string

record ApproveResult =
  ResCode :: string
  ResMsg :: string
  CNO :: string
  Amount :: string
  AuthNo :: string
  TranDate :: string
  CardNo :: string
  PayType :: string
  IssuerName :: string
  AcquirerName :: string

section \<open>The answer of the gateway\<close>

text \<open>The Go map of the answer's fields: a later field with the same name overwrites.\<close>

fun easypay_fields :: "string list \<Rightarrow> (string \<rightharpoonup> string) \<Rightarrow> (string \<rightharpoonup> string)" where
  "easypay_fields [] m = m"
| "easypay_fields (f # fs) m =
     (case go_SplitN2 CHR ''='' f of
        [k, v] \<Rightarrow> easypay_fields fs (m(go_TrimSpace k \<mapsto> go_TrimSpace v))
      | _ \<Rightarrow> easypay_fields fs m)"

definition map_get :: "(string \<rightharpoonup> string) \<Rightarrow> string \<Rightarrow> string" where
  "map_get m k = (case m k of None \<Rightarrow> [] | Some v \<Rightarrow> v)"

definition parseEasyPayResponse :: "string \<Rightarrow> ApproveResult" where
  "parseEasyPayResponse raw =
     (let m = easypay_fields (go_Split CHR 0x1F raw) Map.empty
      in \<lparr>ResCode = map_get m ''res_cd'', ResMsg = map_get m ''res_msg'', CNO = map_get m ''cno'',
          Amount = map_get m ''amount'', AuthNo = map_get m ''auth_no'',
          TranDate = map_get m ''tran_date'', CardNo = map_get m ''card_no'',
          PayType = map_get m ''pay_type'', IssuerName = map_get m ''issuer_nm'',
          AcquirerName = map_get m ''acquirer_nm''\<rparr>)"

section \<open>The calls\<close>

text \<open>The outside world of a gateway call: running the binary (its path and its argument) and
  decoding EUC-KR.\<close>

record ep_world =
  run_ep_cli :: "string \<Rightarrow> string \<Rightarrow> (string, string) result"
  euckr_decode :: "string \<Rightarrow> string option"

datatype ep_error = EpCliFailed string | EpAutoBillingFailed string

definition ep_answer :: "ep_world \<Rightarrow> string \<Rightarrow> ApproveResult" where
  "ep_answer w output =
     (case euckr_decode w output of
        None \<Rightarrow> parseEasyPayResponse output
      | Some u \<Rightarrow> parseEasyPayResponse u)"

definition approve_args :: "EasyPayConfig \<Rightarrow> ApproveRequest \<Rightarrow> string \<Rightarrow> string" where
  "approve_args cfg req gate =
     (let certFile = go_filepath_Join [BinBase cfg, gate, ''cert'', ''pg_cert.pem''];
          logDir = go_filepath_Join [BinBase cfg, gate, ''log''];
          mallID = (if gate = ''profile'' then ProfileMallID cfg else ImmediatelyMallID cfg)
      in ''order_no='' @ ar_OrderNo req @ '',cert_file='' @ certFile @ '',mall_id='' @ mallID
         @ '',tr_cd=00101000,gw_url='' @ GatewayURL cfg @ '',gw_port='' @ GatewayPort cfg
         @ '',enc_data='' @ ar_EncryptData req @ '',snd_key='' @ ar_SessionKey req
         @ '',trace_no='' @ ar_TraceNo req @ '',cust_ip='' @ ar_ClientIP req
         @ '',log_dir='' @ logDir @ '',log_level=1,opt=utf-8'')"

definition Approve ::
  "ep_world \<Rightarrow> EasyPayConfig \<Rightarrow> ApproveRequest \<Rightarrow> string \<Rightarrow> (ep_error, ApproveResult) result" where
  "Approve w cfg req gate =
     (let binPath = go_filepath_Join [BinBase cfg, gate, ''bin'', ''linux_64'', ''ep_cli'']
      in case run_ep_cli w binPath (approve_args cfg req gate) of
           Inl e \<Rightarrow> Inl (EpCliFailed e)
         | Inr output \<Rightarrow> Inr (ep_answer w output))"

definition auto_billing_args ::
  "EasyPayConfig \<Rightarrow> string \<Rightarrow> string \<Rightarrow> int \<Rightarrow> string \<Rightarrow> string \<Rightarrow> string" where
  "auto_billing_args cfg billingKey orderNo amount traceNo clientIP =
     (let certFile = go_filepath_Join [BinBase cfg, ''profile'', ''cert'', ''pg_cert.pem''];
          logDir = go_filepath_Join [BinBase cfg, ''profile'', ''log''];
          trCd = (if AutoTrCd cfg = [] then ''00101000'' else AutoTrCd cfg);
          amt = go_Itoa amount
      in ''order_no='' @ orderNo @ '',cert_file='' @ certFile @ '',mall_id='' @ ProfileMallID cfg
         @ '',tr_cd='' @ trCd @ '',gw_url='' @ GatewayURL cfg @ '',gw_port='' @ GatewayPort cfg
         @ '',trace_no='' @ traceNo @ '',cust_ip='' @ clientIP @ '',log_dir='' @ logDir
         @ '',log_level=1,opt=utf-8,pay_type=81,card_txtype=41,req_type=0,wcc=@,card_no=''
         @ billingKey @ '',install_period=00,noint=00,product_amt='' @ amt @ '',card_amt='' @ amt
         @ '',tot_amt='' @ amt @ '',currency=00'')"

definition AutoBilling ::
  "ep_world \<Rightarrow> EasyPayConfig \<Rightarrow> string \<Rightarrow> string \<Rightarrow> int \<Rightarrow> string \<Rightarrow> string
    \<Rightarrow> (ep_error, ApproveResult) result" where
  "AutoBilling w cfg billingKey orderNo amount traceNo clientIP =
     (let binPath = go_filepath_Join [BinBase cfg, ''profile'', ''bin'', ''linux_64'', ''ep_cli'']
      in case run_ep_cli w binPath
                (auto_billing_args cfg billingKey orderNo amount traceNo clientIP) of
           Inl e \<Rightarrow> Inl (EpAutoBillingFailed e)
         | Inr output \<Rightarrow> Inr (ep_answer w output))"

datatype revoke_error = ErrManualRevocationRequired

definition RevokeBillingKey :: "string \<Rightarrow> revoke_error option" where
  "RevokeBillingKey billingKey = Some ErrManualRevocationRequired"

section \<open>Payment audit data\<close>

text \<open>What callers hand to the audit log, by the type switch of \<^verbatim>\<open>minimizedPGAuditData\<close>, and what
  the log keeps.\<close>

datatype audit_data =
    AuditNil
  | AuditApprovePtr "ApproveResult option"
  | AuditApprove ApproveResult
  | AuditCounts "(string \<times> int) list"
  | AuditOther "(string \<times> string) list"

record pgAuditApproval =
  pa_ResCode :: string
  pa_CNO :: string
  pa_Amount :: string
  pa_AuthNo :: string
  pa_TranDate :: string
  pa_PayType :: string

datatype kept_data = KeptNil | KeptApproval pgAuditApproval | KeptFailCount int

definition minimize_approval :: "ApproveResult \<Rightarrow> pgAuditApproval" where
  "minimize_approval v =
     \<lparr>pa_ResCode = ResCode v, pa_CNO = CNO v, pa_Amount = Amount v, pa_AuthNo = AuthNo v,
      pa_TranDate = TranDate v, pa_PayType = PayType v\<rparr>"

definition minimizedPGAuditData :: "audit_data \<Rightarrow> kept_data" where
  "minimizedPGAuditData d =
     (case d of
        AuditApprovePtr None \<Rightarrow> KeptNil
      | AuditApprovePtr (Some v) \<Rightarrow> KeptApproval (minimize_approval v)
      | AuditApprove v \<Rightarrow> KeptApproval (minimize_approval v)
      | AuditCounts m \<Rightarrow>
          (case map_of m ''failCount'' of
             Some count \<Rightarrow> (if count \<ge> 0 then KeptFailCount count else KeptNil)
           | None \<Rightarrow> KeptNil)
      | _ \<Rightarrow> KeptNil)"

text \<open>One line of the audit log, without its timestamp.\<close>

record PGAuditEntry =
  ae_OrderNo :: string
  ae_Event :: string
  ae_Data :: kept_data
  ae_Error :: string

definition audit_entry :: "string \<Rightarrow> string \<Rightarrow> audit_data \<Rightarrow> bool \<Rightarrow> PGAuditEntry" where
  "audit_entry orderNo event d failed =
     \<lparr>ae_OrderNo = orderNo, ae_Event = event, ae_Data = minimizedPGAuditData d,
      ae_Error = (if failed then ''operation_failed'' else [])\<rparr>"

section \<open>Facts\<close>

text \<open>Two answers that differ only in the fields the privacy rule withholds (messages, card number,
  issuer, acquirer) leave the same audit line.\<close>

definition same_reconciliation_fields :: "ApproveResult \<Rightarrow> ApproveResult \<Rightarrow> bool" where
  "same_reconciliation_fields v w =
     (ResCode v = ResCode w \<and> CNO v = CNO w \<and> Amount v = Amount w \<and> AuthNo v = AuthNo w
      \<and> TranDate v = TranDate w \<and> PayType v = PayType w)"

lemma minimized_noninterference:
  "same_reconciliation_fields v w \<Longrightarrow>
   audit_entry n e (AuditApprovePtr (Some v)) f = audit_entry n e (AuditApprovePtr (Some w)) f"
  by (simp add: same_reconciliation_fields_def audit_entry_def minimizedPGAuditData_def
      minimize_approval_def)

text \<open>Printing an answer as the gateway does and parsing it.\<close>

definition sep_free :: "string \<Rightarrow> bool" where
  "sep_free s = (CHR 0x1F \<notin> set s)"

definition render_field :: "string \<times> string \<Rightarrow> string" where
  "render_field kv = fst kv @ CHR ''='' # snd kv"

lemma go_Split_Join:
  "fs \<noteq> [] \<Longrightarrow> \<forall>f \<in> set fs. c \<notin> set f \<Longrightarrow> go_Split c (go_Join c fs) = fs"
proof (induction c fs rule: go_Join.induct)
  case (3 c x y ys)
  then show ?case by (simp add: go_Split_append_sep)
qed (simp_all add: go_Split_single)

lemma easypay_fields_render:
  assumes "\<forall>(k, v) \<in> set kvs. CHR ''='' \<notin> set k \<and> go_TrimSpace k = k \<and> go_TrimSpace v = v"
  shows "easypay_fields (map render_field kvs) m = m ++ map_of (rev kvs)"
  using assms
proof (induction kvs arbitrary: m)
  case (Cons kv kvs)
  obtain k v where kv: "kv = (k, v)" by (cases kv)
  with Cons have "easypay_fields (map render_field (kv # kvs)) m
      = m(k \<mapsto> v) ++ map_of (rev kvs)"
    using go_SplitN2_sep [of "CHR ''=''" k v] by (simp add: render_field_def [of "(k, v)"])
  also have "\<dots> = m ++ map_of (rev (kv # kvs))"
    by (simp add: kv map_add_def fun_eq_iff split: option.splits)
  finally show ?case .
qed simp

end
