(* ===== verification/Donate_Service.thy ===== *)
theory Donate_Service
  imports Pay_Store EasyPay
begin

text \<open>
  Donation orders and the confirmation of their payment (\<^verbatim>\<open>service/donate_service.go\<close>) with the
  activation of the pending subscription of a first payment
  (\<^verbatim>\<open>service/subscription_activator.go\<close>). One request runs against the state of the tables, the
  audit log and the effects on the donation summary; the gateway and the database server are
  parameters of the request.
\<close>

section \<open>State and context\<close>

datatype effect = RefreshDonationSummary | CacheDelete string

record pay_state =
  ps_db :: pay_db
  ps_audit :: "PGAuditEntry list"
  ps_effects :: "effect list"

text \<open>\<open>px_utc_offset\<close> is the server's UTC offset in seconds; \<open>px_summary\<close> says whether the service was built with a summary refresher.\<close>

record pay_ctx =
  px_db :: db_env
  px_ep :: ep_world
  px_cfg :: EasyPayConfig
  px_now :: gotime
  px_utc_offset :: int
  px_summary :: bool

definition pgAudit_Log :: "string \<Rightarrow> string \<Rightarrow> audit_data \<Rightarrow> bool \<Rightarrow> pay_state \<Rightarrow> pay_state" where
  "pgAudit_Log orderNo event d failed st =
     st\<lparr>ps_audit := ps_audit st @ [audit_entry orderNo event d failed]\<rparr>"

definition refresh_summary :: "pay_ctx \<Rightarrow> pay_state \<Rightarrow> pay_state" where
  "refresh_summary ctx st =
     st\<lparr>ps_effects := ps_effects st @
          [if px_summary ctx then RefreshDonationSummary else CacheDelete ''donation_summary'']\<rparr>"

datatype pay_error =
    MinimumAmount | UnsupportedPayType | UnsupportedGate | OrderInsertFailed db_error
  | InvalidOrderNumber num_error | GateLookupFailed db_error | OrderLookupFailed db_error
  | ApproveFailed ep_error | PGRejected string string | AmountMismatch int int
  | TxBeginFailed db_error | PGDataInsertFailed db_error | OrderUpdateFailed db_error
  | ActivateFailed db_error | CommitFailed db_error

section \<open>Creating an order\<close>

record pay_user =
  USRSeq :: int
  USRName :: string

record CreateOrderRequest =
  req_Amount :: int
  req_PayType :: string
  req_Gate :: string

record PaymentParams =
  pp_MallID :: string
  pp_OrderNo :: string
  pp_ProductAmt :: string
  pp_ProductName :: string
  pp_PayType :: string
  pp_ReturnURL :: string
  pp_RelayURL :: string
  pp_WindowType :: string
  pp_UserName :: string
  pp_MallName :: string
  pp_Currency :: string
  pp_Charset :: string
  pp_LangFlag :: string

record CreateOrderResponse =
  resp_OrderSeq :: int
  resp_PaymentParams :: "PaymentParams option"

definition resolveEasyPayType :: "string \<Rightarrow> string \<Rightarrow> string" where
  "resolveEasyPayType payType gate =
     (if gate = ''profile'' \<and> payType = ''CARD'' then ''81''
      else if payType = ''HP'' then ''31'' else ''11'')"

text \<open>The loop of \<^verbatim>\<open>formatComma\<close>: \<open>rest\<close> bytes are still to come, so a comma goes before a byte
  that is not the first and leaves a multiple of three.\<close>

fun comma_loop :: "bool \<Rightarrow> string \<Rightarrow> string" where
  "comma_loop first [] = []"
| "comma_loop first (c # cs) =
     (if \<not> first \<and> (Suc (length cs)) mod 3 = 0 then [CHR '','', c] else [c]) @ comma_loop False cs"

definition formatComma :: "int \<Rightarrow> string" where
  "formatComma n = (let s = go_Itoa n in if length s \<le> 3 then s else comma_loop True s)"

text \<open>The Korean texts of the payment window, as UTF-8 bytes.\<close>

definition kr_nim :: string where "kr_nim = [CHR 0xEB, CHR 0x8B, CHR 0x98, CHR 0x5F]"
definition kr_once :: string where
  "kr_once = [CHR 0xEC, CHR 0x9D, CHR 0xBC, CHR 0xEC, CHR 0x8B, CHR 0x9C, CHR 0xED, CHR 0x9B,
    CHR 0x84, CHR 0xEC, CHR 0x9B, CHR 0x90]"
definition kr_regular :: string where
  "kr_regular = [CHR 0xEC, CHR 0xA0, CHR 0x95, CHR 0xEA, CHR 0xB8, CHR 0xB0, CHR 0xED, CHR 0x9B,
    CHR 0x84, CHR 0xEC, CHR 0x9B, CHR 0x90]"
definition kr_won :: string where "kr_won = [CHR 0xEC, CHR 0x9B, CHR 0x90]"
definition kr_mall :: string where
  "kr_mall = [CHR 0xEB, CHR 0x8C, CHR 0x80, CHR 0xEC, CHR 0x9D, CHR 0xBC, CHR 0xEC, CHR 0x99,
    CHR 0xB8, CHR 0xEA, CHR 0xB5, CHR 0xAD, CHR 0xEC, CHR 0x96, CHR 0xB4, CHR 0xEA, CHR 0xB3,
    CHR 0xA0, CHR 0xEB, CHR 0x93, CHR 0xB1, CHR 0xED, CHR 0x95, CHR 0x99, CHR 0xEA, CHR 0xB5,
    CHR 0x90, CHR 0x20, CHR 0xEC, CHR 0x9E, CHR 0xA5, CHR 0xED, CHR 0x95, CHR 0x99, CHR 0xED,
    CHR 0x9A, CHR 0x8C]"

definition payment_params ::
  "EasyPayConfig \<Rightarrow> pay_user \<Rightarrow> CreateOrderRequest \<Rightarrow> int \<Rightarrow> PaymentParams" where
  "payment_params cfg user req orderSeq =
     (let profile = (req_Gate req = ''profile'')
      in \<lparr>pp_MallID = (if profile then ProfileMallID cfg else ImmediatelyMallID cfg),
          pp_OrderNo = go_Itoa orderSeq,
          pp_ProductAmt = go_Itoa (req_Amount req),
          pp_ProductName = USRName user @ kr_nim @ (if profile then kr_regular else kr_once)
            @ ''_'' @ formatComma (req_Amount req) @ kr_won,
          pp_PayType = resolveEasyPayType (req_PayType req) (req_Gate req),
          pp_ReturnURL = ReturnBaseURL cfg @ ''/pg/easypay/return'',
          pp_RelayURL = ReturnBaseURL cfg @ ''/pg/easypay/relay'',
          pp_WindowType = (if profile then ''submit'' else ''iframe''),
          pp_UserName = USRName user, pp_MallName = kr_mall, pp_Currency = ''00'',
          pp_Charset = ''UTF-8'', pp_LangFlag = ''KOR''\<rparr>)"

definition CreateOrder ::
  "pay_ctx \<Rightarrow> pay_user \<Rightarrow> CreateOrderRequest \<Rightarrow> string \<Rightarrow> pay_state
    \<Rightarrow> (pay_error, CreateOrderResponse) result \<times> pay_state" where
  "CreateOrder ctx user req ip st =
     (if req_Amount req < 10000 then (Inl MinimumAmount, st)
      else if req_PayType req \<notin> {''CARD'', ''BANK'', ''HP''} then (Inl UnsupportedPayType, st)
      else if req_Gate req \<notin> {''immediately'', ''profile''} then (Inl UnsupportedGate, st)
      else
        (let gateCode = (if req_Gate req = ''profile'' then ''P'' else ''S'')
         in case InsertOrder (px_db ctx) (USRSeq user) gateCode (req_PayType req) (req_Amount req)
                   ip (ps_db st) of
              (Inl e, db) \<Rightarrow> (Inl (OrderInsertFailed e), st\<lparr>ps_db := db\<rparr>)
            | (Inr orderSeq, db) \<Rightarrow>
                (Inr \<lparr>resp_OrderSeq = orderSeq,
                      resp_PaymentParams =
                        (if req_PayType req = ''BANK'' then None
                         else Some (payment_params (px_cfg ctx) user req orderSeq))\<rparr>,
                 st\<lparr>ps_db := db\<rparr>)))"

section \<open>Activating the subscription of a first payment\<close>

definition ComputeNextBillDate :: "gotime \<Rightarrow> int \<Rightarrow> gotime" where
  "ComputeNextBillDate from_t billDay =
     (let b = (if billDay < 1 then 1 else billDay);
          b = (if b > 28 then 28 else b);
          nxt = go_AddDate from_t 0 1 0;
          candidate = go_Date (year nxt) (month nxt) b 0
      in if \<not> go_Add24h from_t < candidate then go_AddDate candidate 0 1 0 else candidate)"

definition LookupPendingByOrder :: "db_env \<Rightarrow> int \<Rightarrow> pay_db \<Rightarrow> Subscription option" where
  "LookupPendingByOrder env orderSeq db =
     (case GetByOrderSeq env orderSeq db of Inl _ \<Rightarrow> None | Inr s \<Rightarrow> s)"

definition MarkFirstPaymentFailed :: "db_env \<Rightarrow> int \<Rightarrow> pay_db \<Rightarrow> pay_db" where
  "MarkFirstPaymentFailed env subSeq db = snd (MarkFailed env subSeq db)"

definition ActivateAfterFirstPayment ::
  "db_env \<Rightarrow> Subscription \<Rightarrow> ApproveResult \<Rightarrow> gotime \<Rightarrow> pay_db \<Rightarrow> (db_error, pay_db) result" where
  "ActivateAfterFirstPayment env s result now db =
     (let billDay = (case sub_bill_day s of None \<Rightarrow> 1 | Some d \<Rightarrow> d)
      in ActivateWithBillingKeyTx env (sub_seq s) (CNO result) (CardNo result)
           (ComputeNextBillDate now billDay) db)"

section \<open>Confirming a payment\<close>

definition pg_data_of :: "ApproveResult \<Rightarrow> int \<Rightarrow> int \<Rightarrow> PGData" where
  "pg_data_of result amount orderSeq =
     \<lparr>pg_cno = CNO result, pg_res_cd = ResCode result, pg_res_msg = ResMsg result,
      pg_amount = amount, pg_num_card = CardNo result, pg_tran_date = TranDate result,
      pg_auth_no = AuthNo result, pg_pay_type = PayType result, pg_o_seq = orderSeq\<rparr>"

text \<open>The transaction that records an approved payment. The deferred \<^verbatim>\<open>tx.Rollback()\<close> makes every
  early return leave the tables as they were.\<close>

definition record_payment ::
  "pay_ctx \<Rightarrow> string \<Rightarrow> int \<Rightarrow> int \<Rightarrow> string \<Rightarrow> Subscription option \<Rightarrow> ApproveResult \<Rightarrow> pay_state
    \<Rightarrow> pay_error option \<times> pay_state" where
  "record_payment ctx orderNo orderSeq amount clientIP pendingSub result st =
     (let env = px_db ctx;
          fail = (\<lambda>event err. (Some err, pgAudit_Log orderNo event (AuditApprovePtr (Some result)) True st))
      in case faults env StBegin of
           Some e \<Rightarrow> fail ''db_tx_begin_fail'' (TxBeginFailed e)
         | None \<Rightarrow>
      (case InsertPGDataTx env (pg_data_of result amount orderSeq) (ps_db st) of
           Inl e \<Rightarrow> fail ''db_insert_fail'' (PGDataInsertFailed e)
         | Inr (pgSeq, tx1) \<Rightarrow>
      (case UpdateOrderPaymentTx env orderSeq amount pgSeq clientIP tx1 of
           Inl e \<Rightarrow> fail ''db_update_fail'' (OrderUpdateFailed e)
         | Inr (affected, tx2) \<Rightarrow>
      (case (case pendingSub of
               None \<Rightarrow> Inr tx2
             | Some s \<Rightarrow> ActivateAfterFirstPayment env s result (px_now ctx) tx2) of
           Inl e \<Rightarrow> fail ''subscription_activate_fail'' (ActivateFailed e)
         | Inr tx3 \<Rightarrow>
      (case faults env StCommit of
           Some e \<Rightarrow> fail ''db_tx_commit_fail'' (CommitFailed e)
         | None \<Rightarrow>
             (let st' = st\<lparr>ps_db := tx3\<rparr>
              in (None, if affected = 0 then st' else refresh_summary ctx st')))))))"

definition ConfirmPayment ::
  "pay_ctx \<Rightarrow> string \<Rightarrow> string \<Rightarrow> string \<Rightarrow> string \<Rightarrow> string \<Rightarrow> pay_state
    \<Rightarrow> pay_error option \<times> pay_state" where
  "ConfirmPayment ctx orderNo encData sessionKey traceNo clientIP st =
     (let env = px_db ctx
      in case go_Atoi orderNo of
           (_, Some e) \<Rightarrow> (Some (InvalidOrderNumber e), st)
         | (orderSeq, None) \<Rightarrow>
      (case GetOrderGate env orderSeq (ps_db st) of
           Inl e \<Rightarrow> (Some (GateLookupFailed e), st)
         | Inr gateCode \<Rightarrow>
             (let gate = (if gateCode = ''P'' then ''profile'' else ''immediately'');
                  pendingSub = (if gateCode = ''P''
                                then LookupPendingByOrder env orderSeq (ps_db st) else None);
                  mark_failed = (\<lambda>s. case pendingSub of
                      None \<Rightarrow> s
                    | Some p \<Rightarrow> s\<lparr>ps_db := MarkFirstPaymentFailed env (sub_seq p) (ps_db s)\<rparr>)
              in case GetOrderPrice env orderSeq (ps_db st) of
                   Inl e \<Rightarrow> (Some (OrderLookupFailed e), st)
                 | Inr (orderPrice, paymentStatus) \<Rightarrow>
                     if paymentStatus = ''Y'' then (None, st)
                     else
      (case Approve (px_ep ctx) (px_cfg ctx)
              \<lparr>ar_OrderNo = orderNo, ar_EncryptData = encData, ar_SessionKey = sessionKey,
               ar_TraceNo = traceNo, ar_ClientIP = clientIP\<rparr> gate of
           Inl e \<Rightarrow>
             (Some (ApproveFailed e),
              mark_failed (pgAudit_Log orderNo ''approve_fail'' AuditNil True st))
         | Inr result \<Rightarrow>
             if ResCode result \<noteq> ''0000'' then
               (Some (PGRejected (ResMsg result) (ResCode result)),
                mark_failed (pgAudit_Log orderNo ''approve_fail'' (AuditApprovePtr (Some result)) False st))
             else
               (let st1 = pgAudit_Log orderNo ''approve_success'' (AuditApprovePtr (Some result)) False st;
                    approvedAmount = fst (go_Atoi (Amount result))
                in if orderPrice \<noteq> approvedAmount
                   then (Some (AmountMismatch orderPrice approvedAmount), st1)
                   else record_payment ctx orderNo orderSeq approvedAmount clientIP pendingSub
                          result st1)))))"

end
