(* ===== verification/Subscription_Service.thy ===== *)
theory Subscription_Service
  imports Donate_Service
begin

text \<open>
  Recurring donations: creating and cancelling a subscription
  (\<^verbatim>\<open>service/subscription_service.go\<close>) and the daily batch that charges the stored billing keys
  (\<^verbatim>\<open>job/subscription_billing.go\<close>).
\<close>

section \<open>Subscription lifecycle\<close>

record CreateSubscriptionRequest =
  csr_Amount :: int
  csr_PayType :: string

datatype sub_error =
    SubMinimumAmount | SubCardOnly | SubLookupFailed | SubAlreadyExists | SubOrderFailed pay_error
  | SubInsertFailed | SubNotFound | SubCancelFailed

definition clamp_day28 :: "int \<Rightarrow> int" where
  "clamp_day28 d = (if d > 28 then 28 else d)"

definition pending_subscription ::
  "gotime \<Rightarrow> pay_user \<Rightarrow> CreateSubscriptionRequest \<Rightarrow> int \<Rightarrow> Subscription" where
  "pending_subscription now user req orderSeq =
     \<lparr>sub_seq = 0, sub_usr_seq = USRSeq user, sub_amount = csr_Amount req,
      sub_pay_type = csr_PayType req, sub_billing_key = None, sub_card_no = None,
      sub_status = ''pending'', sub_start_date = now,
      sub_next_bill = ComputeNextBillDate now (clamp_day28 (day now)),
      sub_bill_day = Some (clamp_day28 (day now)), sub_end_yyyymm = None,
      sub_last_billed_at = None, sub_fail_count = 0, sub_order_seq = Some orderSeq,
      sub_reg_date = now, sub_edt_date = None\<rparr>"

definition CreateSubscription ::
  "pay_ctx \<Rightarrow> pay_user \<Rightarrow> CreateSubscriptionRequest \<Rightarrow> string \<Rightarrow> pay_state
    \<Rightarrow> (sub_error, CreateOrderResponse) result \<times> pay_state" where
  "CreateSubscription ctx user req ip st =
     (if csr_Amount req < 10000 then (Inl SubMinimumAmount, st)
      else if csr_PayType req \<noteq> ''CARD'' then (Inl SubCardOnly, st)
      else case GetByUser (px_db ctx) (USRSeq user) (ps_db st) of
        Inl _ \<Rightarrow> (Inl SubLookupFailed, st)
      | Inr (Some _) \<Rightarrow> (Inl SubAlreadyExists, st)
      | Inr None \<Rightarrow>
          (case CreateOrder ctx user
                  \<lparr>req_Amount = csr_Amount req, req_PayType = csr_PayType req, req_Gate = ''profile''\<rparr>
                  ip st of
             (Inl e, st1) \<Rightarrow> (Inl (SubOrderFailed e), st1)
           | (Inr orderResp, st1) \<Rightarrow>
               (case Insert (px_db ctx)
                       (pending_subscription (px_now ctx) user req (resp_OrderSeq orderResp))
                       (ps_db st1) of
                  (Inl _, db) \<Rightarrow> (Inl SubInsertFailed, st1\<lparr>ps_db := db\<rparr>)
                | (Inr _, db) \<Rightarrow> (Inr orderResp, st1\<lparr>ps_db := db\<rparr>))))"

definition GetMySubscription ::
  "pay_ctx \<Rightarrow> int \<Rightarrow> pay_state \<Rightarrow> (db_error, Subscription option) result" where
  "GetMySubscription ctx usrSeq st = GetByUser (px_db ctx) usrSeq (ps_db st)"

definition revoke_key :: "Subscription \<Rightarrow> int \<Rightarrow> pay_state \<Rightarrow> pay_state" where
  "revoke_key s subSeq st =
     (case sub_billing_key s of
        None \<Rightarrow> st
      | Some key \<Rightarrow>
          if key = [] then st
          else (case RevokeBillingKey key of
                  Some _ \<Rightarrow> pgAudit_Log (go_Itoa subSeq) ''billing_key_revoke_skipped''
                             (AuditOther [(''reason'', ''manual revocation required via EasyPay merchant console'')])
                             True st
                | None \<Rightarrow> pgAudit_Log (go_Itoa subSeq) ''billing_key_revoke_success'' AuditNil False st))"

definition CancelSubscription ::
  "pay_ctx \<Rightarrow> int \<Rightarrow> int \<Rightarrow> pay_state \<Rightarrow> sub_error option \<times> pay_state" where
  "CancelSubscription ctx usrSeq subSeq st =
     (case GetByUser (px_db ctx) usrSeq (ps_db st) of
        Inl _ \<Rightarrow> (Some SubLookupFailed, st)
      | Inr None \<Rightarrow> (Some SubNotFound, st)
      | Inr (Some s) \<Rightarrow>
          if sub_seq s \<noteq> subSeq then (Some SubNotFound, st)
          else
            (let st1 = revoke_key s subSeq st
             in case UpdateStatus (px_db ctx) subSeq ''cancelled'' (ps_db st1) of
                  (Some _, db) \<Rightarrow> (Some SubCancelFailed, st1\<lparr>ps_db := db\<rparr>)
                | (None, db) \<Rightarrow> (None, st1\<lparr>ps_db := db\<rparr>)))"

section \<open>The daily billing job\<close>

abbreviation (input) MaxConsecutiveFails :: int where "MaxConsecutiveFails \<equiv> 3"
abbreviation (input) AutoBillingHour :: int where "AutoBillingHour \<equiv> 3"
abbreviation (input) AutoBillingMinute :: int where "AutoBillingMinute \<equiv> 0"

datatype billing_error =
    MissingBillingKey | BillingOrderInsert db_error | BillingApprove ep_error
  | BillingRejected string string | BillingAmountMismatch int int | BillingTxBegin db_error
  | BillingPGInsert db_error | BillingOrderUpdate db_error | BillingSubUpdate db_error
  | BillingCommit db_error | BillingListDue db_error

definition persistPGAndOrderTx ::
  "db_env \<Rightarrow> int \<Rightarrow> int \<Rightarrow> ApproveResult \<Rightarrow> pay_db \<Rightarrow> (string \<times> billing_error, pay_db) result" where
  "persistPGAndOrderTx env orderSeq amount result tx =
     (case InsertPGDataTx env (pg_data_of result amount orderSeq) tx of
        Inl e \<Rightarrow> Inl (''auto_billing_db_pg_insert_fail'', BillingPGInsert e)
      | Inr (pgSeq, tx1) \<Rightarrow>
          (case UpdateOrderPaymentTx env orderSeq amount pgSeq ''auto-billing'' tx1 of
             Inl e \<Rightarrow> Inl (''auto_billing_db_order_update_fail'', BillingOrderUpdate e)
           | Inr (_, tx2) \<Rightarrow> Inr tx2))"

definition commitChargeTx ::
  "pay_ctx \<Rightarrow> Subscription \<Rightarrow> int \<Rightarrow> int \<Rightarrow> ApproveResult \<Rightarrow> string \<Rightarrow> gotime \<Rightarrow> pay_state
    \<Rightarrow> billing_error option \<times> pay_state" where
  "commitChargeTx ctx s orderSeq amount result orderNo now st =
     (let env = px_db ctx;
          fail = (\<lambda>event err. (Some err, pgAudit_Log orderNo event (AuditApprovePtr (Some result)) True st))
      in case faults env StBegin of
           Some e \<Rightarrow> fail ''auto_billing_db_tx_begin_fail'' (BillingTxBegin e)
         | None \<Rightarrow>
      (case persistPGAndOrderTx env orderSeq amount result (ps_db st) of
           Inl (event, err) \<Rightarrow> fail event err
         | Inr tx1 \<Rightarrow>
             (let billDay = (case sub_bill_day s of None \<Rightarrow> 0 | Some d \<Rightarrow> d)
              in case MarkBilledTx env (sub_seq s) now (ComputeNextBillDate now billDay) tx1 of
                   Inl e \<Rightarrow> fail ''auto_billing_db_sub_update_fail'' (BillingSubUpdate e)
                 | Inr tx2 \<Rightarrow>
                     (case faults env StCommit of
                        Some e \<Rightarrow> fail ''auto_billing_db_tx_commit_fail'' (BillingCommit e)
                      | None \<Rightarrow> (None, st\<lparr>ps_db := tx2\<rparr>)))))"

definition handleFailure :: "pay_ctx \<Rightarrow> Subscription \<Rightarrow> pay_state \<Rightarrow> pay_state" where
  "handleFailure ctx s st =
     (case IncrementFailCount (px_db ctx) (sub_seq s) (ps_db st) of
        (Inl _, db) \<Rightarrow> st\<lparr>ps_db := db\<rparr>
      | (Inr failCount, db) \<Rightarrow>
          if failCount \<ge> MaxConsecutiveFails then
            (case MarkSuspended (px_db ctx) (sub_seq s) db of
               (Some _, db') \<Rightarrow> st\<lparr>ps_db := db'\<rparr>
             | (None, db') \<Rightarrow>
                 pgAudit_Log (go_Itoa (sub_seq s)) ''auto_billing_suspended''
                   (AuditCounts [(''failCount'', failCount)]) True (st\<lparr>ps_db := db'\<rparr>))
          else st\<lparr>ps_db := db\<rparr>)"

definition auto_trace_no :: "int \<Rightarrow> int \<Rightarrow> gotime \<Rightarrow> string" where
  "auto_trace_no offset subSeq now =
     ''auto-'' @ go_Itoa subSeq @ ''-'' @ go_Itoa (unix_millis offset now)"

definition processOne ::
  "pay_ctx \<Rightarrow> Subscription \<Rightarrow> gotime \<Rightarrow> pay_state \<Rightarrow> billing_error option \<times> pay_state" where
  "processOne ctx s now st =
     (case sub_billing_key s of
        None \<Rightarrow> (Some MissingBillingKey, st)
      | Some key \<Rightarrow>
          if key = [] then (Some MissingBillingKey, st)
          else
      (case InsertOrder (px_db ctx) (sub_usr_seq s) ''P'' (sub_pay_type s) (sub_amount s)
              ''auto-billing'' (ps_db st) of
         (Inl e, db) \<Rightarrow> (Some (BillingOrderInsert e), st\<lparr>ps_db := db\<rparr>)
       | (Inr orderSeq, db) \<Rightarrow>
           (let st0 = st\<lparr>ps_db := db\<rparr>;
                orderNo = go_Itoa orderSeq
            in case AutoBilling (px_ep ctx) (px_cfg ctx) key orderNo (sub_amount s)
                      (auto_trace_no (px_utc_offset ctx) (sub_seq s) now) ''auto-billing'' of
                 Inl e \<Rightarrow>
                   (Some (BillingApprove e),
                    handleFailure ctx s (pgAudit_Log orderNo ''auto_billing_fail'' AuditNil True st0))
               | Inr result \<Rightarrow>
                   if ResCode result \<noteq> ''0000'' then
                     (Some (BillingRejected (ResMsg result) (ResCode result)),
                      handleFailure ctx s
                        (pgAudit_Log orderNo ''auto_billing_fail'' (AuditApprovePtr (Some result)) False st0))
                   else
                     (let st1 = pgAudit_Log orderNo ''auto_billing_success''
                                  (AuditApprovePtr (Some result)) False st0;
                          approved = fst (go_Atoi (Amount result))
                      in if approved \<noteq> sub_amount s then
                           (Some (BillingAmountMismatch (sub_amount s) approved),
                            handleFailure ctx s
                              (pgAudit_Log orderNo ''auto_billing_amount_mismatch''
                                 (AuditApprovePtr (Some result)) True st1))
                         else
                           (case commitChargeTx ctx s orderSeq approved result orderNo now st1 of
                              (Some err, st2) \<Rightarrow> (Some err, handleFailure ctx s st2)
                            | (None, st2) \<Rightarrow> (None, st2))))))"

text \<open>The loop over the due subscriptions. Every call has its own request context: \<open>ctx s\<close> is
  what the database and the gateway do while subscription \<open>s\<close> is charged. No statement of
  \<open>processOne\<close> panics, so the recovery in \<^verbatim>\<open>safeProcessOne\<close> never runs.\<close>

definition safeProcessOne ::
  "pay_ctx \<Rightarrow> Subscription \<Rightarrow> gotime \<Rightarrow> pay_state \<Rightarrow> billing_error option \<times> pay_state" where
  "safeProcessOne ctx s now st = processOne ctx s now st"

fun billing_loop ::
  "(int \<Rightarrow> pay_ctx) \<Rightarrow> gotime \<Rightarrow> Subscription list \<Rightarrow> int \<Rightarrow> (int \<times> billing_error) list \<Rightarrow> pay_state
    \<Rightarrow> int \<times> (int \<times> billing_error) list \<times> pay_state" where
  "billing_loop ctx now [] processed errs st = (processed, errs, st)"
| "billing_loop ctx now (s # due) processed errs st =
     (case safeProcessOne (ctx (sub_seq s)) s now st of
        (Some err, st') \<Rightarrow> billing_loop ctx now due processed (errs @ [(sub_seq s, err)]) st'
      | (None, st') \<Rightarrow> billing_loop ctx now due (processed + 1) errs st')"

definition RunOnce ::
  "pay_ctx \<Rightarrow> (int \<Rightarrow> pay_ctx) \<Rightarrow> gotime \<Rightarrow> pay_state
    \<Rightarrow> int \<times> (int \<times> billing_error) list \<times> pay_state" where
  "RunOnce ctx ctxs now st =
     (case ListDueForBilling (px_db ctx) (clamp_day28 (day now)) (yyyymm now) (ps_db st) of
        Inl e \<Rightarrow> (0, [(0, BillingListDue e)], st)
      | Inr due \<Rightarrow>
          (case billing_loop ctxs now due 0 [] st of
             (processed, errs, st') \<Rightarrow>
               (processed, errs, if processed > 0 then refresh_summary ctx st' else st')))"

definition nextRunAt :: "gotime \<Rightarrow> gotime" where
  "nextRunAt now =
     (let candidate = go_Date (year now) (month now) (day now)
            ((AutoBillingHour * 60 + AutoBillingMinute) * 60000000000)
      in if \<not> now < candidate then go_AddDate candidate 0 0 1 else candidate)"

end
