(* ===== verification/Next_Bill.thy ===== *)
theory Next_Bill
  imports Subscription_Service
begin

text \<open>
  The billing calendar: when \<^verbatim>\<open>ComputeNextBillDate\<close> and \<^verbatim>\<open>nextRunAt\<close> land, and that comparing
  the six-digit year-month texts of the due query is comparing months.
\<close>

section \<open>The next bill date\<close>

definition clamp_bill_day :: "int \<Rightarrow> int" where
  "clamp_bill_day b = max 1 (min 28 b)"

lemma clamp_bill_day_range [simp]: "1 \<le> clamp_bill_day b" "clamp_bill_day b \<le> 28"
  by (simp_all add: clamp_bill_day_def)

text \<open>A date with a day that exists in every month.\<close>

lemma go_Date_small_day:
  assumes "1 \<le> b" "b \<le> 28"
  shows "time_index (go_Date y m b ns) = month_index y m" "day (go_Date y m b ns) = b"
proof -
  have "norm_day (month_index y m) b = (month_index y m, b)"
    using assms daysIn_idx_bounds [of "month_index y m"] by (intro norm_day_in) auto
  then show "time_index (go_Date y m b ns) = month_index y m" "day (go_Date y m b ns) = b"
    by (simp_all add: go_Date_index go_Date_day)
qed

lemma month_index_add: "month_index y (m + k) = month_index y m + k"
  by (simp add: month_index_def)

lemma month_index_time [simp]: "month_index (year t) (month t) = time_index t"
  by (simp add: time_index_def)

lemma next_month_index:
  assumes "valid_time t"
  shows "time_index (go_AddDate t 0 1 0) =
    time_index t + (if day t > daysIn_idx (time_index t + 1) then 2 else 1)"
proof -
  have d: "1 \<le> day t" "day t \<le> 31"
    using assms daysIn_bounds [of "year t" "month t"] by (auto simp: valid_time_def)
  show ?thesis
  proof (cases "day t > daysIn_idx (time_index t + 1)")
    case True
    then have "norm_day (time_index t + 1) (day t) =
        (time_index t + 1 + 1, day t - daysIn_idx (time_index t + 1))"
      using d by (intro norm_day_over) auto
    with True show ?thesis by (simp add: go_AddDate_def go_Date_index month_index_add)
  next
    case False
    then have "norm_day (time_index t + 1) (day t) = (time_index t + 1, day t)"
      using d by (intro norm_day_in) auto
    with False show ?thesis by (simp add: go_AddDate_def go_Date_index month_index_add)
  qed
qed

lemma add24h_index:
  assumes "valid_time t"
  shows "time_index (go_Add24h t) = time_index t + (if day t = daysIn (year t) (month t) then 1 else 0)"
    and "day (go_Add24h t) = (if day t = daysIn (year t) (month t) then 1 else day t + 1)"
    and "nsec (go_Add24h t) = nsec t"
proof -
  have dim: "daysIn_idx (time_index t) = daysIn (year t) (month t)"
    using assms valid_time_index by blast
  have n: "norm_day (time_index t) (day t + 1) =
    (if day t = daysIn (year t) (month t) then (time_index t + 1, 1) else (time_index t, day t + 1))"
  proof (cases "day t = daysIn (year t) (month t)")
    case True
    then show ?thesis
      using norm_day_over [of "time_index t" "day t + 1"] dim daysIn_bounds [of "year t" "month t"]
      by simp
  next
    case False
    then show ?thesis
      using norm_day_in [of "day t + 1" "time_index t"] dim assms by (auto simp: valid_time_def)
  qed
  show "time_index (go_Add24h t) = time_index t + (if day t = daysIn (year t) (month t) then 1 else 0)"
    "day (go_Add24h t) = (if day t = daysIn (year t) (month t) then 1 else day t + 1)"
    "nsec (go_Add24h t) = nsec t"
    using n by (auto simp: go_Add24h_def go_Date_index go_Date_day)
qed

definition bill_candidate :: "gotime \<Rightarrow> int \<Rightarrow> gotime" where
  "bill_candidate t b = go_Date (year (go_AddDate t 0 1 0)) (month (go_AddDate t 0 1 0)) (clamp_bill_day b) 0"

lemma ComputeNextBillDate_alt:
  "ComputeNextBillDate t b =
     (if go_Add24h t < bill_candidate t b then bill_candidate t b
      else go_AddDate (bill_candidate t b) 0 1 0)"
  by (simp add: ComputeNextBillDate_def bill_candidate_def clamp_bill_day_def Let_def max_def min_def)

lemma bill_candidate_facts:
  "valid_time (bill_candidate t b)" "day (bill_candidate t b) = clamp_bill_day b"
  "nsec (bill_candidate t b) = 0"
  "time_index (bill_candidate t b) = time_index (go_AddDate t 0 1 0)"
  by (simp_all add: bill_candidate_def go_Date_valid go_Date_small_day)

lemma candidate_too_soon:
  assumes v: "valid_time t"
  shows "\<not> go_Add24h t < bill_candidate t b \<longleftrightarrow>
    clamp_bill_day b = 1 \<and> day t = daysIn (year t) (month t) \<and>
    \<not> day t > daysIn_idx (time_index t + 1)"
proof -
  let ?c = "bill_candidate t b" and ?n = "go_Add24h t"
  have vn: "valid_time ?n" and vc: "valid_time ?c"
    using go_Add24h_after [OF v] bill_candidate_facts(1) by auto
  have ic: "time_index ?c = time_index t + (if day t > daysIn_idx (time_index t + 1) then 2 else 1)"
    using next_month_index [OF v] bill_candidate_facts(4) by simp
  show ?thesis
  proof (cases "time_index ?n < time_index ?c")
    case True
    then have "?n < ?c" using vn vc by (intro time_index_less)
    moreover from True have "\<not> (day t = daysIn (year t) (month t)) \<or> day t > daysIn_idx (time_index t + 1)"
      using ic add24h_index(1) [OF v] by (auto split: if_splits)
    ultimately show ?thesis by auto
  next
    case False
    then have e: "day t = daysIn (year t) (month t)" "\<not> day t > daysIn_idx (time_index t + 1)"
      "time_index ?n = time_index ?c"
      using ic add24h_index(1) [OF v] by (auto split: if_splits)
    have one: "1 < clamp_bill_day b \<or> clamp_bill_day b = 1"
      using clamp_bill_day_range(1) [of b] by linarith
    have "0 \<le> nsec t" using v by (simp add: valid_time_def)
    moreover have "day ?n = 1" "nsec ?n = nsec t" using e add24h_index(2,3) [OF v] by auto
    moreover have "?n < ?c \<longleftrightarrow> day ?n < day ?c \<or> day ?n = day ?c \<and> nsec ?n < nsec ?c"
      using time_less_same_index [OF vn vc e(3)] .
    ultimately show ?thesis
      using e bill_candidate_facts(2,3) [of t b] one by auto
  qed
qed

lemma next_bill_spec:
  fixes t :: gotime and b :: int
  assumes v: "valid_time t"
  defines "r \<equiv> ComputeNextBillDate t b"
  shows "valid_time r" "day r = clamp_bill_day b" "nsec r = 0" "go_Add24h t < r"
    "time_index r = time_index t +
       (if day t > daysIn_idx (time_index t + 1)
          \<or> day t = daysIn (year t) (month t) \<and> clamp_bill_day b = 1 then 2 else 1)"
proof -
  let ?c = "bill_candidate t b"
  have vn: "valid_time (go_Add24h t)" using go_Add24h_after [OF v] by simp
  have ic: "time_index ?c = time_index t + (if day t > daysIn_idx (time_index t + 1) then 2 else 1)"
    using next_month_index [OF v] bill_candidate_facts(4) by simp
  have soon: "go_Add24h t < ?c \<longleftrightarrow> \<not> (clamp_bill_day b = 1 \<and> day t = daysIn (year t) (month t) \<and>
    \<not> day t > daysIn_idx (time_index t + 1))"
    using candidate_too_soon [OF v] by blast
  have later: "go_AddDate ?c 0 1 0 = go_Date (year ?c) (month ?c + 1) (clamp_bill_day b) 0"
    by (simp add: go_AddDate_def bill_candidate_facts)
  have il: "time_index (go_AddDate ?c 0 1 0) = time_index ?c + 1"
    by (simp add: later go_Date_small_day month_index_add)
  show "valid_time r" "day r = clamp_bill_day b" "nsec r = 0"
    by (simp_all add: r_def ComputeNextBillDate_alt bill_candidate_facts later go_Date_valid go_Date_small_day)
  show "time_index r = time_index t +
       (if day t > daysIn_idx (time_index t + 1)
          \<or> day t = daysIn (year t) (month t) \<and> clamp_bill_day b = 1 then 2 else 1)"
    using soon ic il by (auto simp: r_def ComputeNextBillDate_alt)
  show "go_Add24h t < r"
  proof (cases "go_Add24h t < ?c")
    case True
    then show ?thesis by (simp add: r_def ComputeNextBillDate_alt)
  next
    case False
    have "time_index (go_Add24h t) < time_index (go_AddDate ?c 0 1 0)"
      using il ic add24h_index(1) [OF v] by (auto split: if_splits)
    with vn False show ?thesis
      by (simp add: r_def ComputeNextBillDate_alt time_index_less later go_Date_valid)
  qed
qed

section \<open>The next run of the daily job\<close>

abbreviation (input) three_am :: int where "three_am \<equiv> 10800000000000"

lemma nextRunAt_alt:
  "nextRunAt t =
     (if t < go_Date (year t) (month t) (day t) three_am
      then go_Date (year t) (month t) (day t) three_am
      else go_AddDate (go_Date (year t) (month t) (day t) three_am) 0 0 1)"
  by (simp add: nextRunAt_def Let_def)

lemma go_Date_self:
  assumes "valid_time t"
  shows "go_Date (year t) (month t) (day t) ns = GoTime (year t) (month t) (day t) ns"
proof -
  have "norm_day (time_index t) (day t) = (time_index t, day t)"
    using assms valid_time_index [OF assms] by (intro norm_day_in) (auto simp: valid_time_def)
  then show ?thesis using valid_time_index [OF assms] by (simp add: go_Date_def)
qed

lemma go_Date_nsec_less:
  "go_Date y m d a \<le> go_Date y m d b \<longleftrightarrow> a \<le> b"
  by (auto simp: go_Date_def less_eq_gotime_def less_gotime_def split: prod.splits)

lemma nextRunAt_spec:
  assumes v: "valid_time t"
  shows "t < nextRunAt t" "nextRunAt t \<le> go_Add24h t" "nsec (nextRunAt t) = three_am"
proof -
  let ?c = "GoTime (year t) (month t) (day t) three_am"
  have c: "go_Date (year t) (month t) (day t) three_am = ?c" by (rule go_Date_self [OF v])
  have vc: "valid_time ?c" using v by (simp add: valid_time_def)
  have lt: "t < ?c \<longleftrightarrow> nsec t < three_am" by (simp add: less_gotime_def)
  have late: "go_AddDate ?c 0 0 1 = go_Date (year t) (month t) (day t + 1) three_am"
    by (simp add: go_AddDate_def)
  have a: "go_Add24h ?c = go_Date (year t) (month t) (day t + 1) three_am"
    by (simp add: go_Add24h_def)
  have step: "?c < go_Date (year t) (month t) (day t + 1) three_am"
    using go_Add24h_after [OF vc] a by simp
  show "nsec (nextRunAt t) = three_am" using c late by (simp add: nextRunAt_alt)
  show "t < nextRunAt t"
  proof (cases "nsec t < three_am")
    case True
    then show ?thesis using c lt by (simp add: nextRunAt_alt)
  next
    case False
    then have "?c \<le> t" using lt by simp
    have "t < go_Add24h t" using go_Add24h_after [OF v] by simp
    have "t < go_Date (year t) (month t) (day t + 1) three_am"
      using go_Add24h_after [OF v] add24h_index [OF v] add24h_index [OF vc] a
      by (auto simp: less_gotime_def go_Add24h_def go_Date_def split: prod.splits if_splits)
    with False c lt late show ?thesis by (simp add: nextRunAt_alt)
  qed
  show "nextRunAt t \<le> go_Add24h t"
  proof (cases "nsec t < three_am")
    case True
    have "go_Add24h t = go_Date (year t) (month t) (day t + 1) (nsec t)" by (simp add: go_Add24h_def)
    moreover have "?c < go_Add24h t"
      using step by (auto simp: less_gotime_def go_Add24h_def go_Date_def split: prod.splits)
    ultimately show ?thesis using True c lt by (simp add: nextRunAt_alt)
  next
    case False
    then show ?thesis using c lt late by (simp add: nextRunAt_alt go_Add24h_def go_Date_nsec_less)
  qed
qed

section \<open>Year-month texts\<close>

fun digits_val :: "string \<Rightarrow> int" where
  "digits_val [] = 0"
| "digits_val (c # cs) = digit_val c * 10 ^ length cs + digits_val cs"

abbreviation all_digits :: "string \<Rightarrow> bool" where
  "all_digits s \<equiv> \<forall>c \<in> set s. is_digit c"

lemma digits_val_range: "0 \<le> digits_val s \<and> digits_val s < 10 ^ length s"
proof (induction s)
  case (Cons c cs)
  have "digit_val c * 10 ^ length cs \<le> 9 * (10::int) ^ length cs"
    using digit_val_range [of c] by (intro mult_right_mono) auto
  moreover have "(10::int) ^ length (c # cs) = 9 * 10 ^ length cs + 10 ^ length cs" by simp
  ultimately have "digits_val (c # cs) < 10 ^ length (c # cs)"
    using Cons unfolding digits_val.simps by linarith
  moreover have "0 \<le> digit_val c * 10 ^ length cs" using digit_val_range [of c] by simp
  ultimately show ?case using Cons by simp
qed simp

lemma of_char_digit: "is_digit c \<Longrightarrow> int (of_char c) = 48 + digit_val c"
  unfolding is_digit_def list.set insert_iff empty_iff
  by (elim disjE) (simp_all add: digit_val_def)

lemma digit_order:
  assumes "is_digit x" "is_digit y"
  shows "(of_char x :: nat) < of_char y \<longleftrightarrow> digit_val x < digit_val y"
  using of_char_digit [OF assms(1)] of_char_digit [OF assms(2)] by linarith

lemma digit_val_inj: "is_digit x \<Longrightarrow> is_digit y \<Longrightarrow> digit_val x = digit_val y \<Longrightarrow> x = y"
  by (metis digit_char_digit_val)

lemma lead_digit_less:
  assumes "a < (b::int)" "u < 10 ^ n" "0 \<le> v"
  shows "a * 10 ^ n + u < b * 10 ^ n + v"
proof -
  have "(a + 1) * 10 ^ n \<le> b * (10::int) ^ n" using assms(1) by (intro mult_right_mono) auto
  with assms(2,3) show ?thesis by (simp add: algebra_simps)
qed

lemma str_less_digits:
  "length xs = length ys \<Longrightarrow> all_digits xs \<Longrightarrow> all_digits ys \<Longrightarrow>
   str_less xs ys \<longleftrightarrow> digits_val xs < digits_val ys"
proof (induction xs ys rule: str_less.induct)
  case (4 x xs y ys)
  show ?case
  proof (cases "x = y")
    case True
    with 4 show ?thesis by simp
  next
    case False
    have d12: "is_digit x" "is_digit y" using "4.prems"(2,3) by simp_all
    then have d: "is_digit x" "is_digit y" "digit_val x \<noteq> digit_val y"
      using False digit_val_inj by blast+
    have l: "length xs = length ys" using "4.prems"(1) by simp
    have r: "0 \<le> digits_val zs" "digits_val zs < 10 ^ length ys" if "zs = xs \<or> zs = ys" for zs
      using that l digits_val_range [of xs] digits_val_range [of ys] by auto
    have "digit_val x < digit_val y \<Longrightarrow> digits_val (x # xs) < digits_val (y # ys)"
      unfolding digits_val.simps l by (rule lead_digit_less) (use r in simp_all)
    moreover have "digit_val y < digit_val x \<Longrightarrow> digits_val (y # ys) < digits_val (x # xs)"
      unfolding digits_val.simps l by (rule lead_digit_less) (use r in simp_all)
    ultimately have "digit_val x < digit_val y \<longleftrightarrow> digits_val (x # xs) < digits_val (y # ys)"
      using d(3) less_asym neqE by blast
    moreover have "str_less (x # xs) (y # ys) \<longleftrightarrow> digit_val x < digit_val y"
      using False digit_order [OF d(1,2)] by simp
    ultimately show ?thesis by blast
  qed
qed auto

lemma digits_val_append: "digits_val (xs @ ys) = digits_val xs * 10 ^ length ys + digits_val ys"
  by (induction xs) (auto simp: power_add algebra_simps)

lemma digits_val_show: "0 \<le> n \<Longrightarrow> digits_val (show_digits n) = n"
proof (induction n rule: show_digits.induct)
  case (1 n)
  show ?case
  proof (cases "n < 10")
    case True
    with 1 show ?thesis by (simp add: show_digits.simps [of n])
  next
    case False
    with 1 have "digits_val (show_digits (n div 10)) = n div 10" by simp
    with False show ?thesis by (simp add: show_digits.simps [of n] digits_val_append)
  qed
qed

lemma show_digits_length: "0 \<le> n \<Longrightarrow> n < 10 ^ k \<Longrightarrow> 1 \<le> k \<Longrightarrow> length (show_digits n) \<le> k"
proof (induction n arbitrary: k rule: show_digits.induct)
  case (1 n)
  show ?case
  proof (cases "n < 10")
    case True
    with 1 show ?thesis by (simp add: show_digits.simps [of n])
  next
    case False
    obtain j where j: "k = Suc j" using 1 by (cases k) auto
    have "1 \<le> j" using False "1.prems" j by (cases j) auto
    moreover have "n div 10 < 10 ^ j" using "1.prems" j by simp
    ultimately have "length (show_digits (n div 10)) \<le> j" using False "1.prems" by (intro 1) auto
    with False j show ?thesis by (simp add: show_digits.simps [of n])
  qed
qed

lemma pad_num_facts:
  assumes "0 \<le> n" "n < 10 ^ k" "1 \<le> k"
  shows "length (pad_num k n) = k" "digits_val (pad_num k n) = n" "all_digits (pad_num k n)"
proof -
  have z: "digits_val (replicate j (CHR ''0'')) = 0" for j
    by (induction j) (auto simp: digit_val_def)
  have i: "go_Itoa n = show_digits n" using assms(1) by (simp add: go_Itoa_def)
  have "length (go_Itoa n) \<le> k" unfolding i using assms by (rule show_digits_length)
  then show "length (pad_num k n) = k" by (simp add: pad_num_def)
  show "digits_val (pad_num k n) = n"
    unfolding pad_num_def digits_val_append z i using digits_val_show [OF assms(1)] by simp
  have zero: "is_digit (CHR ''0'')" by (simp add: is_digit_def)
  then show "all_digits (pad_num k n)"
    unfolding pad_num_def i using show_digits_digits by (auto simp: set_replicate_conv_if)
qed

definition civil_year :: "gotime \<Rightarrow> bool" where
  "civil_year t = (0 \<le> year t \<and> year t < 10000)"

lemma yyyymm_less:
  assumes "valid_time s" "valid_time t" "civil_year s" "civil_year t"
  shows "str_less (yyyymm s) (yyyymm t) \<longleftrightarrow> time_index s < time_index t"
proof -
  have m: "0 \<le> month x \<and> month x < 10 ^ 2" if "valid_time x" for x
    using that by (simp add: valid_time_def)
  have y: "0 \<le> year x \<and> year x < 10 ^ 4" if "civil_year x" for x
    using that by (simp add: civil_year_def)
  note f = pad_num_facts [of "year s" 4] pad_num_facts [of "year t" 4]
    pad_num_facts [of "month s" 2] pad_num_facts [of "month t" 2]
  have v: "digits_val (yyyymm x) = year x * 100 + month x" "length (yyyymm x) = 6"
      "all_digits (yyyymm x)" if "valid_time x" "civil_year x" for x
    using pad_num_facts [of "year x" 4] pad_num_facts [of "month x" 2] m [OF that(1)] y [OF that(2)]
    by (auto simp: yyyymm_def digits_val_append)
  have "str_less (yyyymm s) (yyyymm t) \<longleftrightarrow> year s * 100 + month s < year t * 100 + month t"
    using assms v by (subst str_less_digits) auto
  also have "\<dots> \<longleftrightarrow> time_index s < time_index t"
  proof -
    have b: "1 \<le> month s" "month s \<le> 12" "1 \<le> month t" "month t \<le> 12"
      using assms(1,2) by (simp_all add: valid_time_def)
    consider "year s < year t" | "year s = year t" | "year t < year s" by linarith
    then show ?thesis
      using b by cases (simp_all add: time_index_def month_index_def)
  qed
  finally show ?thesis .
qed

end
