(* ===== verification/Pay_Ledger.thy ===== *)
theory Pay_Ledger
  imports Next_Bill
begin

text \<open>
  The ledger invariant of the donation tables and that every operation on them keeps it: keys are
  unique, an order is either pending with nothing received or completed with exactly its price
  received and an approval row to show for it, and what the orders received is what the gateway
  approved. The operations are \<^verbatim>\<open>CreateOrder\<close>, \<^verbatim>\<open>ConfirmPayment\<close>, \<^verbatim>\<open>CreateSubscription\<close>,
  \<^verbatim>\<open>CancelSubscription\<close> and a run of the billing job.
\<close>

section \<open>The invariant\<close>

definition pending_order :: "weo_order \<Rightarrow> bool" where
  "pending_order r =
     (o_payment r = ''N'' \<and> o_lifecycle_status r = ''pending'' \<and> o_net_received_amount r = 0
      \<and> o_pg_seq r = None)"

definition approves :: "int \<times> PGData \<Rightarrow> weo_order \<Rightarrow> bool" where
  "approves row r =
     (o_pg_seq r = Some (fst row) \<and> pg_o_seq (snd row) = o_seq r
      \<and> pg_amount (snd row) = o_price r \<and> pg_res_cd (snd row) = ''0000'')"

definition completed_order :: "pay_db \<Rightarrow> weo_order \<Rightarrow> bool" where
  "completed_order db r =
     (o_payment r = ''Y'' \<and> o_lifecycle_status r = ''completed'' \<and> o_pay r = o_price r
      \<and> o_net_received_amount r = o_price r \<and> (\<exists>row \<in> set (pg_rows db). approves row r))"

definition order_ok :: "pay_db \<Rightarrow> weo_order \<Rightarrow> bool" where
  "order_ok db r =
     ((pending_order r \<or> completed_order db r) \<and> 10000 \<le> o_price r \<and> o_gross_amount r = o_price r)"

definition received_total :: "pay_db \<Rightarrow> int" where
  "received_total db = (\<Sum>r \<leftarrow> orders db. o_net_received_amount r)"

definition approved_total :: "pay_db \<Rightarrow> int" where
  "approved_total db = (\<Sum>row \<leftarrow> pg_rows db. pg_amount (snd row))"

definition tables_ok :: "pay_db \<Rightarrow> bool" where
  "tables_ok db =
     (keys_ok o_seq (order_next db) (orders db) \<and> keys_ok fst (pg_next db) (pg_rows db)
      \<and> keys_ok sub_seq (sub_next db) (subs db) \<and> (\<forall>s \<in> set (subs db). 10000 \<le> sub_amount s))"

definition ledger_ok :: "pay_db \<Rightarrow> bool" where
  "ledger_ok db =
     (tables_ok db \<and> (\<forall>r \<in> set (orders db). order_ok db r) \<and> received_total db = approved_total db)"

definition empty_db :: pay_db where
  "empty_db = \<lparr>orders = [], order_next = 1, pg_rows = [], pg_next = 1, subs = [], sub_next = 1\<rparr>"

lemma ledger_ok_empty: "ledger_ok empty_db"
  by (simp add: ledger_ok_def tables_ok_def keys_ok_def empty_db_def received_total_def
      approved_total_def)

section \<open>The primitive changes\<close>

lemma ledger_add_order:
  assumes "ledger_ok db" "10000 \<le> price"
  shows "ledger_ok (add_order now u g t price ip db)"
proof -
  have k: "keys_ok o_seq (order_next (add_order now u g t price ip db)) (orders (add_order now u g t price ip db))"
    using ord.keys_ins [of db "(now, u, g, t, price, ip)"] assms(1) by (simp add: ledger_ok_def tables_ok_def)
  have "order_ok (add_order now u g t price ip db) (new_order now (order_next db) u g t price ip)"
    using assms(2) by (simp add: order_ok_def pending_order_def new_order_def)
  moreover have "order_ok (add_order now u g t price ip db) r" if "order_ok db r" for r
    using that by (simp add: order_ok_def completed_order_def add_order_def)
  ultimately show ?thesis using assms(1) k
    by (auto simp: ledger_ok_def tables_ok_def add_order_def received_total_def approved_total_def
        new_order_def)
qed

lemma ledger_add_sub:
  assumes "ledger_ok db" "10000 \<le> sub_amount s"
  shows "ledger_ok (add_sub now s db)"
proof -
  have k: "keys_ok sub_seq (sub_next (add_sub now s db)) (subs (add_sub now s db))"
    using sbt.keys_ins [of db "(now, s)"] assms(1) by (simp add: ledger_ok_def tables_ok_def)
  have "order_ok (add_sub now s db) r" if "order_ok db r" for r
    using that by (simp add: order_ok_def completed_order_def add_sub_def)
  with assms k show ?thesis
    by (auto simp: ledger_ok_def tables_ok_def add_sub_def received_total_def approved_total_def
        new_sub_def)
qed

lemma ledger_update_sub:
  assumes "ledger_ok db" "\<And>r. sub_seq (f r) = sub_seq r" "\<And>r. sub_amount (f r) = sub_amount r"
  shows "ledger_ok (update_sub i f db)"
proof -
  have k: "keys_ok sub_seq (sub_next (update_sub i f db)) (subs (update_sub i f db))"
    using sbt.keys_upd [of db "(i, f)"] assms(1,2) by (simp add: ledger_ok_def tables_ok_def)
  have "order_ok (update_sub i f db) r" if "order_ok db r" for r
    using that by (simp add: order_ok_def completed_order_def update_sub_def)
  with assms k show ?thesis
    by (auto simp: ledger_ok_def tables_ok_def update_sub_def received_total_def
        approved_total_def set_sql_update)
qed

text \<open>Recording an approved payment: the approval row and the order row change together.\<close>

definition record_paid :: "db_env \<Rightarrow> int \<Rightarrow> int \<Rightarrow> PGData \<Rightarrow> string \<Rightarrow> pay_db \<Rightarrow> pay_db" where
  "record_paid env i amount d ip db = set_paid env i amount (pg_next db) ip (add_pg d db)"

lemma received_update:
  assumes "distinct (map o_seq t)" "r \<in> set t" "unpaid_order i r" "o_net_received_amount r = 0"
  shows "(\<Sum>x \<leftarrow> sql_update (unpaid_order i) (pay_order env a pg ip) t. o_net_received_amount x)
     = (\<Sum>x \<leftarrow> t. o_net_received_amount x) + a"
  using assms
proof (induction t)
  case (Cons y t)
  have y: "o_seq y \<noteq> o_seq x" if "x \<in> set t" for x using that Cons.prems(1) by force
  have i: "o_seq r = i" using Cons.prems(3) by (simp add: unpaid_order_def)
  show ?case
  proof (cases "y = r")
    case True
    have "sql_update (unpaid_order i) (pay_order env a pg ip) t = t"
      using y i True by (intro sql_update_none) (metis unpaid_order_def)
    with True Cons.prems show ?thesis by simp
  next
    case False
    with Cons.prems(2) have "r \<in> set t" by simp
    with y i have "\<not> unpaid_order i y" by (metis unpaid_order_def)
    with Cons \<open>r \<in> set t\<close> show ?thesis by simp
  qed
qed simp

lemma approves_fresh:
  "keys_ok fst n t \<Longrightarrow> row \<in> set t \<Longrightarrow> approves row r \<Longrightarrow> o_pg_seq r \<noteq> Some n"
  by (auto simp: keys_ok_def approves_def)

lemma ledger_record_paid:
  assumes ok: "ledger_ok db" and r: "r \<in> set (orders db)" "unpaid_order i r" "o_price r = amount"
    and d: "pg_res_cd d = ''0000''" "pg_amount d = amount" "pg_o_seq d = i"
  shows "ledger_ok (record_paid env i amount d ip db)"
proof -
  let ?t = "record_paid env i amount d ip db"
  have keys: "keys_ok o_seq (order_next ?t) (orders ?t)" "keys_ok fst (pg_next ?t) (pg_rows ?t)"
    using ok pgt.keys_ins [of db d] ord.keys_upd [of "add_pg d db" "(env, i, amount, pg_next db, ip)"]
    by (simp_all add: record_paid_def ledger_ok_def tables_ok_def set_paid_def add_pg_def)
  have dist: "distinct (map o_seq (orders db))" using ok by (simp add: ledger_ok_def tables_ok_def keys_ok_def)
  have pend: "pending_order r"
    using ok r by (auto simp: ledger_ok_def order_ok_def completed_order_def unpaid_order_def)
  have one: "x = r" if "x \<in> set (orders db)" "unpaid_order i x" for x
    using that r(1,2) dist by (auto simp: unpaid_order_def distinct_map inj_on_def)
  have ords: "order_ok ?t x" if x: "x \<in> set (orders ?t)" for x
  proof -
    from x have "x = pay_order env amount (pg_next db) ip r \<or> x \<in> set (orders db)"
      using one by (auto simp: record_paid_def set_paid_def add_pg_def set_sql_update)
    then show ?thesis
    proof
      assume "x = pay_order env amount (pg_next db) ip r"
      moreover have "order_ok db r" using ok r by (simp add: ledger_ok_def)
      ultimately show ?thesis using r d
        by (auto simp: order_ok_def completed_order_def record_paid_def set_paid_def
            add_pg_def approves_def unpaid_order_def)
    next
      assume "x \<in> set (orders db)"
      then have "order_ok db x" using ok by (simp add: ledger_ok_def)
      then show ?thesis
        by (auto simp: order_ok_def completed_order_def record_paid_def set_paid_def add_pg_def)
    qed
  qed
  have "received_total ?t = received_total db + amount"
    using received_update [OF dist r(1,2), of env amount "pg_next db" ip] pend
    by (simp add: received_total_def record_paid_def set_paid_def add_pg_def pending_order_def)
  moreover have "approved_total ?t = approved_total db + amount"
    using d by (simp add: approved_total_def record_paid_def set_paid_def add_pg_def)
  ultimately show ?thesis using ok keys ords
    by (auto simp: ledger_ok_def tables_ok_def record_paid_def set_paid_def add_pg_def)
qed

section \<open>The operations keep the ledger\<close>

text \<open>What the code relies on the driver for: the generated key of an inserted row is reported.\<close>

definition reports_ids :: "pay_ctx \<Rightarrow> bool" where
  "reports_ids ctx = (faults (px_db ctx) StLastInsertId = None)"

lemma ps_db_simps [simp]:
  "ps_db (pgAudit_Log n e d f st) = ps_db st" "ps_db (refresh_summary ctx st) = ps_db st"
  by (simp_all add: pgAudit_Log_def refresh_summary_def)

lemma InsertOrder_cases:
  assumes "faults env StLastInsertId = None" "1 \<le> order_next db"
  shows "InsertOrder env u g t p ip db =
    (case faults env StInsertOrder of
       Some e \<Rightarrow> (Inl e, db)
     | None \<Rightarrow> (Inr (order_next db), add_order (db_now env) u g t p ip db))"
  using assms by (simp add: InsertOrder_def Let_def split: option.splits)

lemma order_next_pos: "ledger_ok db \<Longrightarrow> 1 \<le> order_next db"
  by (simp add: ledger_ok_def tables_ok_def keys_ok_def)

lemma ledger_InsertOrder:
  assumes "ledger_ok db" "10000 \<le> p"
  shows "ledger_ok (snd (InsertOrder env u g t p ip db))"
  using assms ledger_add_order by (simp add: InsertOrder_def Let_def split: option.splits)

lemma CreateOrder_db:
  "ps_db (snd (CreateOrder ctx user req ip st)) =
     (if req_Amount req < 10000 \<or> req_PayType req \<notin> {''CARD'', ''BANK'', ''HP''}
        \<or> req_Gate req \<notin> {''immediately'', ''profile''} then ps_db st
      else snd (InsertOrder (px_db ctx) (USRSeq user) (if req_Gate req = ''profile'' then ''P'' else ''S'')
             (req_PayType req) (req_Amount req) ip (ps_db st)))"
  by (simp add: CreateOrder_def Let_def split_beta split: sum.split)

lemma ledger_CreateOrder: "ledger_ok (ps_db st) \<Longrightarrow> ledger_ok (ps_db (snd (CreateOrder ctx user req ip st)))"
  unfolding CreateOrder_db by (simp add: ledger_InsertOrder del: insert_iff)

lemma ledger_Insert:
  "ledger_ok db \<Longrightarrow> 10000 \<le> sub_amount s \<Longrightarrow> ledger_ok (snd (Insert env s db))"
  by (simp add: Insert_def ledger_add_sub split: option.splits)

lemma ledger_UpdateStatus: "ledger_ok db \<Longrightarrow> ledger_ok (snd (UpdateStatus env i st db))"
  by (simp add: UpdateStatus_def ledger_update_sub split: option.splits)

lemma ledger_IncrementFailCount: "ledger_ok db \<Longrightarrow> ledger_ok (snd (IncrementFailCount env i db))"
  by (simp add: IncrementFailCount_def Let_def ledger_update_sub split: option.splits)

lemma ledger_MarkFirstPaymentFailed: "ledger_ok db \<Longrightarrow> ledger_ok (MarkFirstPaymentFailed env i db)"
  by (simp add: MarkFirstPaymentFailed_def MarkFailed_def ledger_UpdateStatus)

lemma handleFailure_db:
  "ps_db (handleFailure ctx s st) =
     (let x = IncrementFailCount (px_db ctx) (sub_seq s) (ps_db st)
      in case fst x of
           Inl _ \<Rightarrow> snd x
         | Inr n \<Rightarrow> if n \<ge> MaxConsecutiveFails then snd (MarkSuspended (px_db ctx) (sub_seq s) (snd x)) else snd x)"
  by (simp add: handleFailure_def Let_def split_beta split: sum.split option.split)

lemma ledger_handleFailure: "ledger_ok (ps_db st) \<Longrightarrow> ledger_ok (ps_db (handleFailure ctx s st))"
  unfolding handleFailure_db Let_def MarkSuspended_def
  by (simp add: ledger_IncrementFailCount ledger_UpdateStatus split: sum.split)

text \<open>Both transactions that record an approval end in \<open>record_paid\<close> and a change to one
  subscription row, or change nothing.\<close>

lemma record_payment_db:
  "ps_db (snd (record_payment ctx n i a ip sub res st)) = ps_db st \<or>
   (let db = record_paid (px_db ctx) i a (pg_data_of res a i) ip (ps_db st)
    in ps_db (snd (record_payment ctx n i a ip sub res st)) = db \<or>
       (\<exists>s. sub = Some s \<and>
          Inr (ps_db (snd (record_payment ctx n i a ip sub res st))) =
            ActivateAfterFirstPayment (px_db ctx) s res (px_now ctx) db))"
  by (auto simp: record_payment_def record_paid_def InsertPGDataTx_def UpdateOrderPaymentTx_def Let_def
      split: option.splits sum.splits prod.splits)

lemma ledger_Activate:
  "ledger_ok db \<Longrightarrow> ActivateAfterFirstPayment env s res now db = Inr db' \<Longrightarrow> ledger_ok db'"
  by (auto simp: ActivateAfterFirstPayment_def ActivateWithBillingKeyTx_def Let_def ledger_update_sub
      split: option.splits)

lemma ledger_record_payment:
  assumes "ledger_ok (ps_db st)" "r \<in> set (orders (ps_db st))" "unpaid_order i r" "o_price r = a"
    "ResCode res = ''0000''"
  shows "ledger_ok (ps_db (snd (record_payment ctx n i a ip sub res st)))"
proof -
  have "ledger_ok (record_paid (px_db ctx) i a (pg_data_of res a i) ip (ps_db st))"
    using assms by (intro ledger_record_paid) (simp_all add: pg_data_of_def)
  then show ?thesis
    using record_payment_db [of ctx n i a ip sub res st] assms(1) ledger_Activate
    by (auto simp: Let_def)
qed

lemma GetOrderPrice_row:
  assumes "GetOrderPrice env i db = Inr (p, y)"
  shows "\<exists>r \<in> set (orders db). o_seq r = i \<and> o_price r = p \<and> o_payment r = y"
  using assms by (auto simp: GetOrderPrice_def split: option.splits dest: sql_get_Some)

lemma order_ok_payment: "order_ok db r \<Longrightarrow> o_payment r = ''N'' \<or> o_payment r = ''Y''"
  by (auto simp: order_ok_def pending_order_def completed_order_def)

lemma ledger_ConfirmPayment:
  assumes ok: "ledger_ok (ps_db st)"
  shows "ledger_ok (ps_db (snd (ConfirmPayment ctx n enc key tr ip st)))"
proof -
  have rp: "ledger_ok (ps_db (snd (record_payment ctx n i p ip sub res
      (pgAudit_Log n' e d f st))))"
    if "GetOrderPrice env i (ps_db st) = Inr (p, y)" "y \<noteq> ''Y''" "ResCode res = ''0000''"
    for i p y sub res n' e d f env
  proof -
    from GetOrderPrice_row [OF that(1)] obtain r where
      r: "r \<in> set (orders (ps_db st))" "o_seq r = i" "o_price r = p" "o_payment r = y" by blast
    have "order_ok (ps_db st) r" using ok r by (simp add: ledger_ok_def)
    with that(2) r have "unpaid_order i r"
      using order_ok_payment by (auto simp: unpaid_order_def)
    then show ?thesis using ok r that(3) by (intro ledger_record_payment [of _ r]) simp_all
  qed
  show ?thesis
    using ok rp ledger_MarkFirstPaymentFailed
    by (auto simp: ConfirmPayment_def Let_def split: option.splits sum.splits prod.splits)
qed

lemma CreateSubscription_db:
  "ps_db (snd (CreateSubscription ctx user req ip st)) =
     (if csr_Amount req < 10000 \<or> csr_PayType req \<noteq> ''CARD''
        \<or> GetByUser (px_db ctx) (USRSeq user) (ps_db st) \<noteq> Inr None then ps_db st
      else
        (let x = CreateOrder ctx user
               \<lparr>req_Amount = csr_Amount req, req_PayType = csr_PayType req, req_Gate = ''profile''\<rparr> ip st
         in case fst x of
              Inl _ \<Rightarrow> ps_db (snd x)
            | Inr resp \<Rightarrow> snd (Insert (px_db ctx)
                (pending_subscription (px_now ctx) user req (resp_OrderSeq resp)) (ps_db (snd x)))))"
  by (simp add: CreateSubscription_def Let_def split_beta split: sum.split option.split)

lemma ledger_CreateSubscription:
  "ledger_ok (ps_db st) \<Longrightarrow> ledger_ok (ps_db (snd (CreateSubscription ctx user req ip st)))"
  unfolding CreateSubscription_db Let_def
  by (simp add: ledger_CreateOrder ledger_Insert pending_subscription_def split: sum.split)

lemma revoke_key_db [simp]: "ps_db (revoke_key s i st) = ps_db st"
  by (simp add: revoke_key_def split: option.split)

lemma CancelSubscription_db:
  "ps_db (snd (CancelSubscription ctx u i st)) =
     (case GetByUser (px_db ctx) u (ps_db st) of
        Inr (Some s) \<Rightarrow> if sub_seq s = i then snd (UpdateStatus (px_db ctx) i ''cancelled'' (ps_db st)) else ps_db st
      | _ \<Rightarrow> ps_db st)"
  by (simp add: CancelSubscription_def Let_def split_beta split: sum.split option.split)

lemma ledger_CancelSubscription:
  "ledger_ok (ps_db st) \<Longrightarrow> ledger_ok (ps_db (snd (CancelSubscription ctx u i st)))"
  by (simp add: CancelSubscription_db ledger_UpdateStatus split: sum.split option.split)

lemma commitChargeTx_db:
  "ps_db (snd (commitChargeTx ctx s i a res n now st)) =
     (case commitChargeTx ctx s i a res n now st of
        (None, _) \<Rightarrow>
          update_sub (sub_seq s)
            (\<lambda>r. r\<lparr>sub_last_billed_at := Some now,
                   sub_next_bill := ComputeNextBillDate now (case sub_bill_day s of None \<Rightarrow> 0 | Some d \<Rightarrow> d),
                   sub_fail_count := 0, sub_edt_date := Some (db_now (px_db ctx))\<rparr>)
            (record_paid (px_db ctx) i a (pg_data_of res a i) ''auto-billing'' (ps_db st))
      | (Some _, _) \<Rightarrow> ps_db st)"
  by (auto simp: commitChargeTx_def persistPGAndOrderTx_def record_paid_def InsertPGDataTx_def
      UpdateOrderPaymentTx_def MarkBilledTx_def Let_def split: option.splits sum.splits prod.splits)

lemma ledger_commitChargeTx:
  assumes "ledger_ok (ps_db st)" "r \<in> set (orders (ps_db st))" "unpaid_order i r" "o_price r = a"
    "ResCode res = ''0000''"
  shows "ledger_ok (ps_db (snd (commitChargeTx ctx s i a res n now st)))"
proof -
  have "ledger_ok (record_paid (px_db ctx) i a (pg_data_of res a i) ''auto-billing'' (ps_db st))"
    using assms by (intro ledger_record_paid) (simp_all add: pg_data_of_def)
  then show ?thesis unfolding commitChargeTx_db
    using assms(1) by (auto simp: ledger_update_sub split: prod.splits option.splits)
qed

lemma new_order_unpaid:
  "new_order now (order_next db) u g t p ip \<in> set (orders (add_order now u g t p ip db))"
  "unpaid_order (order_next db) (new_order now (order_next db) u g t p ip)"
  "o_price (new_order now (order_next db) u g t p ip) = p"
  by (simp_all add: add_order_def unpaid_order_def new_order_def)

lemma ledger_processOne:
  assumes ok: "ledger_ok (ps_db st)" and ids: "reports_ids ctx" and amt: "10000 \<le> sub_amount s"
  shows "ledger_ok (ps_db (snd (processOne ctx s now st)))"
proof -
  let ?db = "add_order (db_now (px_db ctx)) (sub_usr_seq s) ''P'' (sub_pay_type s) (sub_amount s)
      ''auto-billing'' (ps_db st)"
  have ins: "InsertOrder (px_db ctx) (sub_usr_seq s) ''P'' (sub_pay_type s) (sub_amount s)
      ''auto-billing'' (ps_db st) = (case faults (px_db ctx) StInsertOrder of
       Some e \<Rightarrow> (Inl e, ps_db st) | None \<Rightarrow> (Inr (order_next (ps_db st)), ?db))"
    using ids order_next_pos [OF ok] by (intro InsertOrder_cases) (simp_all add: reports_ids_def)
  have add: "ledger_ok ?db" using ok amt by (rule ledger_add_order)
  have tx: "ledger_ok (ps_db (snd (commitChargeTx ctx s (order_next (ps_db st)) (sub_amount s) res n now
      (pgAudit_Log n' e d f (st\<lparr>ps_db := ?db\<rparr>)))))" if "ResCode res = ''0000''" for res n n' e d f
    using add that
    by (intro ledger_commitChargeTx
        [of _ "new_order (db_now (px_db ctx)) (order_next (ps_db st)) (sub_usr_seq s) ''P''
           (sub_pay_type s) (sub_amount s) ''auto-billing''"])
       (simp_all add: new_order_unpaid)
  show ?thesis
    using ok add tx ledger_handleFailure
    by (simp add: processOne_def ins Let_def split_beta split: option.split sum.split)
qed

lemma ledger_billing_loop:
  "ledger_ok (ps_db st) \<Longrightarrow> (\<And>i. reports_ids (ctx i)) \<Longrightarrow> \<forall>s \<in> set due. 10000 \<le> sub_amount s \<Longrightarrow>
   ledger_ok (ps_db (snd (snd (billing_loop ctx now due k errs st))))"
proof (induction due arbitrary: k errs st)
  case (Cons s due)
  have "ledger_ok (ps_db (snd (processOne (ctx (sub_seq s)) s now st)))"
    using Cons.prems by (intro ledger_processOne) simp_all
  with Cons show ?case by (auto simp: safeProcessOne_def split: prod.splits option.splits)
qed simp

lemma ListDue_facts:
  assumes "ListDueForBilling env d c db = Inr due"
  shows "set due = {s \<in> set (subs db). due_for_billing d c s}"
  using assms by (auto simp: ListDueForBilling_def split: option.splits)

lemma ledger_RunOnce:
  assumes ok: "ledger_ok (ps_db st)" and ids: "\<And>i. reports_ids (ctxs i)"
  shows "ledger_ok (ps_db (snd (snd (RunOnce ctx ctxs now st))))"
proof (cases "ListDueForBilling (px_db ctx) (clamp_day28 (day now)) (yyyymm now) (ps_db st)")
  case (Inl e)
  with ok show ?thesis by (simp add: RunOnce_def)
next
  case (Inr due)
  have "\<forall>s \<in> set due. 10000 \<le> sub_amount s"
    using ListDue_facts [OF Inr] ok by (simp add: ledger_ok_def tables_ok_def)
  then have "ledger_ok (ps_db (snd (snd (billing_loop ctxs now due 0 [] st))))"
    by (rule ledger_billing_loop [OF ok ids])
  with Inr show ?thesis by (simp add: RunOnce_def split_beta)
qed

section \<open>Runs\<close>

datatype pay_op =
    OpCreateOrder pay_ctx pay_user CreateOrderRequest string
  | OpConfirmPayment pay_ctx string string string string string
  | OpCreateSubscription pay_ctx pay_user CreateSubscriptionRequest string
  | OpCancelSubscription pay_ctx int int
  | OpRunOnce pay_ctx "int \<Rightarrow> pay_ctx" gotime

fun pay_step :: "pay_state \<Rightarrow> pay_op \<Rightarrow> pay_state" where
  "pay_step st (OpCreateOrder ctx user req ip) = snd (CreateOrder ctx user req ip st)"
| "pay_step st (OpConfirmPayment ctx n enc key tr ip) = snd (ConfirmPayment ctx n enc key tr ip st)"
| "pay_step st (OpCreateSubscription ctx user req ip) = snd (CreateSubscription ctx user req ip st)"
| "pay_step st (OpCancelSubscription ctx u i) = snd (CancelSubscription ctx u i st)"
| "pay_step st (OpRunOnce ctx ctxs now) = snd (snd (RunOnce ctx ctxs now st))"

fun driver_reports_ids :: "pay_op \<Rightarrow> bool" where
  "driver_reports_ids (OpRunOnce ctx ctxs now) = (\<forall>i. reports_ids (ctxs i))"
| "driver_reports_ids _ = True"

interpretation ledger: invariant pay_step "\<lambda>st. ps_db st = empty_db" driver_reports_ids
  "\<lambda>st. ledger_ok (ps_db st)"
proof
  show "ledger_ok (ps_db s)" if "ps_db s = empty_db" for s
    using that by (simp add: ledger_ok_empty)
  show "ledger_ok (ps_db (pay_step s x))" if "ledger_ok (ps_db s)" "driver_reports_ids x" for s x
    using that
    by (cases x) (simp_all add: ledger_CreateOrder ledger_ConfirmPayment ledger_CreateSubscription
        ledger_CancelSubscription ledger_RunOnce)
qed

end
