(* ===== verification/Pay_Confirm.thy ===== *)
theory Pay_Confirm
  imports Pay_Ledger
begin

text \<open>
  What a confirmation of a payment does, by its outcome: a paid order answers at once, an error
  leaves orders and approvals alone, a success completes the order and touches no other, and an
  order created by \<^verbatim>\<open>CreateOrder\<close> can be confirmed with the parameters it returned.
\<close>

section \<open>Outcomes of a confirmation\<close>

abbreviation order_row :: "pay_state \<Rightarrow> int \<Rightarrow> weo_order option" where
  "order_row st i \<equiv> sql_get (\<lambda>r. o_seq r = i) (orders (ps_db st))"

abbreviation sub_row :: "pay_state \<Rightarrow> int \<Rightarrow> Subscription option" where
  "sub_row st i \<equiv> sql_get (\<lambda>r. sub_seq r = i) (subs (ps_db st))"

lemma ConfirmPayment_paid:
  assumes "go_Atoi n = (i, None)" "order_row st i = Some r" "o_payment r = ''Y''"
  shows "ConfirmPayment ctx n enc key tr ip st =
    ((case faults (px_db ctx) StGetOrderGate of Some e \<Rightarrow> Some (GateLookupFailed e)
      | None \<Rightarrow> (case faults (px_db ctx) StGetOrderPrice of Some e \<Rightarrow> Some (OrderLookupFailed e) | None \<Rightarrow> None)), st)"
  using assms
  by (simp add: ConfirmPayment_def Let_def GetOrderGate_def GetOrderPrice_def split: option.split)

lemma record_paid_rows:
  "sql_get (\<lambda>r. o_seq r = i) (orders (record_paid env i a d ip db)) =
     map_option (\<lambda>r. if o_payment r = ''N'' then pay_order env a (pg_next db) ip r else r)
       (sql_get (\<lambda>r. o_seq r = i) (orders db))"
  "i \<noteq> j \<Longrightarrow> sql_get (\<lambda>r. o_seq r = j) (orders (record_paid env i a d ip db)) =
     sql_get (\<lambda>r. o_seq r = j) (orders db)"
  "pg_rows (record_paid env i a d ip db) = pg_rows db @ [(pg_next db, d)]"
  "subs (record_paid env i a d ip db) = subs db"
  unfolding record_paid_def set_paid_def add_pg_def unpaid_order_def
  by (simp_all add: sql_get_update_key sql_get_update_other)

lemma update_sub_frame [simp]:
  "orders (update_sub i f db) = orders db" "pg_rows (update_sub i f db) = pg_rows db"
  by (simp_all add: update_sub_def)

lemma Activate_frame:
  "ActivateAfterFirstPayment env s res now db = Inr db' \<Longrightarrow> orders db' = orders db \<and> pg_rows db' = pg_rows db"
  by (auto simp: ActivateAfterFirstPayment_def ActivateWithBillingKeyTx_def Let_def split: option.splits)

lemma record_payment_cases:
  fixes st :: pay_state
  assumes "record_payment ctx n i a ip sub res st = (e, st')"
  shows "case e of
      Some err \<Rightarrow> ps_db st' = ps_db st
    | None \<Rightarrow> orders (ps_db st') = orders (record_paid (px_db ctx) i a (pg_data_of res a i) ip (ps_db st))
           \<and> pg_rows (ps_db st') = pg_rows (ps_db st) @ [(pg_next (ps_db st), pg_data_of res a i)]"
  using assms
  by (auto simp: record_payment_def record_paid_def InsertPGDataTx_def UpdateOrderPaymentTx_def Let_def
      set_paid_def add_pg_def dest!: Activate_frame split: option.splits sum.splits prod.splits)

lemma MarkFirst_frame: "orders (MarkFirstPaymentFailed env i db) = orders db"
  "pg_rows (MarkFirstPaymentFailed env i db) = pg_rows db"
  by (simp_all add: MarkFirstPaymentFailed_def MarkFailed_def UpdateStatus_def split: option.split)

definition gateway_refused :: "pay_error \<Rightarrow> bool" where
  "gateway_refused e = (case e of ApproveFailed _ \<Rightarrow> True | PGRejected _ _ \<Rightarrow> True | _ \<Rightarrow> False)"

lemma confirm_error_frame:
  assumes "ConfirmPayment ctx n enc key tr ip st = (Some e, st')"
  shows "orders (ps_db st') = orders (ps_db st) \<and> pg_rows (ps_db st') = pg_rows (ps_db st)
      \<and> (gateway_refused e \<or> ps_db st' = ps_db st)"
proof -
  have rp: "ps_db s' = ps_db st" if "record_payment ctx n i a ip sub res (pgAudit_Log n' ev d f st) = (Some e, s')"
    for i a sub res n' ev d f s'
    using record_payment_cases [OF that] by simp
  show ?thesis
    using assms rp MarkFirst_frame
    by (auto simp: ConfirmPayment_def Let_def gateway_refused_def split: option.splits sum.splits prod.splits if_splits)
qed

text \<open>The stages of a confirmation that gets past the checks.\<close>

lemma ConfirmPayment_stages:
  assumes "ConfirmPayment ctx n enc key tr ip st = (None, st')" "go_Atoi n = (i, None)"
  obtains (paid) r where "order_row st i = Some r" "o_payment r = ''Y''" "st' = st"
  | (now) r res where "order_row st i = Some r" "o_payment r \<noteq> ''Y''"
      "Approve (px_ep ctx) (px_cfg ctx)
         \<lparr>ar_OrderNo = n, ar_EncryptData = enc, ar_SessionKey = key, ar_TraceNo = tr, ar_ClientIP = ip\<rparr>
         (if o_gate r = ''P'' then ''profile'' else ''immediately'') = Inr res"
      "ResCode res = ''0000''" "fst (go_Atoi (Amount res)) = o_price r"
      "orders (ps_db st') = orders (record_paid (px_db ctx) i (o_price r) (pg_data_of res (o_price r) i) ip (ps_db st))"
      "pg_rows (ps_db st') = pg_rows (ps_db st) @ [(pg_next (ps_db st), pg_data_of res (o_price r) i)]"
proof -
  obtain r where r: "order_row st i = Some r"
    using assms by (auto simp: ConfirmPayment_def Let_def GetOrderGate_def split: option.splits)
  show thesis
  proof (cases "o_payment r = ''Y''")
    case True
    with assms r show thesis
      by (intro paid) (auto simp: ConfirmPayment_paid split: option.splits)
  next
    case False
    let ?gate = "if o_gate r = ''P'' then ''profile'' else ''immediately''"
    let ?req = "\<lparr>ar_OrderNo = n, ar_EncryptData = enc, ar_SessionKey = key, ar_TraceNo = tr, ar_ClientIP = ip\<rparr>"
    let ?sub = "if o_gate r = ''P'' then LookupPendingByOrder (px_db ctx) i (ps_db st) else None"
    have f: "faults (px_db ctx) StGetOrderGate = None" "faults (px_db ctx) StGetOrderPrice = None"
      using assms r by (auto simp: ConfirmPayment_def Let_def GetOrderGate_def GetOrderPrice_def split: option.splits)
    obtain res where res: "Approve (px_ep ctx) (px_cfg ctx) ?req ?gate = Inr res"
      using assms r f False
      by (auto simp: ConfirmPayment_def Let_def GetOrderGate_def GetOrderPrice_def split: sum.splits)
    have code: "ResCode res = ''0000''" and amt: "fst (go_Atoi (Amount res)) = o_price r"
      using assms r f False res
      by (auto simp: ConfirmPayment_def Let_def GetOrderGate_def GetOrderPrice_def split: if_splits)
    have "record_payment ctx n i (o_price r) ip ?sub res
        (pgAudit_Log n ''approve_success'' (AuditApprovePtr (Some res)) False st) = (None, st')"
      using assms r f False res code amt
      by (simp add: ConfirmPayment_def Let_def GetOrderGate_def GetOrderPrice_def)
    from record_payment_cases [OF this] show thesis
      by (intro now [OF r False res code amt]) simp_all
  qed
qed

lemma confirm_success_paid:
  assumes ok: "ledger_ok (ps_db st)" and c: "ConfirmPayment ctx n enc key tr ip st = (None, st')"
    and n: "go_Atoi n = (i, None)"
  shows "(\<exists>r r'. order_row st i = Some r \<and> order_row st' i = Some r' \<and> o_price r' = o_price r
      \<and> completed_order (ps_db st') r')
    \<and> (\<forall>j. j \<noteq> i \<longrightarrow> order_row st' j = order_row st j)"
  using c n
proof (cases rule: ConfirmPayment_stages)
  case (paid r)
  then have "order_ok (ps_db st) r" using ok by (auto simp: ledger_ok_def dest: sql_get_Some)
  with paid show ?thesis by (auto simp: order_ok_def pending_order_def)
next
  case (now r res)
  have rin: "r \<in> set (orders (ps_db st))" "o_seq r = i" using now(1) by (auto dest: sql_get_Some)
  then have N: "o_payment r = ''N''"
    using ok now(2) order_ok_payment by (auto simp: ledger_ok_def)
  let ?r = "pay_order (px_db ctx) (o_price r) (pg_next (ps_db st)) ip r"
  have "order_row st' i = Some ?r" using now(1,6) N by (simp add: record_paid_rows(1))
  moreover have "completed_order (ps_db st') ?r"
    using now(4,7) rin by (auto simp: completed_order_def approves_def pg_data_of_def)
  moreover have "order_row st' j = order_row st j" if "j \<noteq> i" for j
    using now(6) that by (simp add: record_paid_rows(2))
  ultimately show ?thesis using now(1) by (metis pay_order_fields(2))
qed

section \<open>From the order to its confirmation\<close>

definition no_faults :: "pay_ctx \<Rightarrow> bool" where
  "no_faults ctx = (\<forall>q. faults (px_db ctx) q = None)"

lemma record_payment_ok:
  assumes "no_faults ctx"
  shows "fst (record_payment ctx n i a ip sub res st) = None"
  using assms
  by (simp add: no_faults_def record_payment_def InsertPGDataTx_def UpdateOrderPaymentTx_def Let_def
      ActivateAfterFirstPayment_def ActivateWithBillingKeyTx_def split: option.split)

lemma ConfirmPayment_approved:
  assumes "no_faults ctx" "go_Atoi n = (i, None)" "order_row st i = Some r" "o_payment r = ''N''"
    and "Approve (px_ep ctx) (px_cfg ctx)
         \<lparr>ar_OrderNo = n, ar_EncryptData = enc, ar_SessionKey = key, ar_TraceNo = tr, ar_ClientIP = ip\<rparr>
         (if o_gate r = ''P'' then ''profile'' else ''immediately'') = Inr res"
      "ResCode res = ''0000''" "fst (go_Atoi (Amount res)) = o_price r"
  shows "ConfirmPayment ctx n enc key tr ip st =
    record_payment ctx n i (o_price r) ip
      (if o_gate r = ''P'' then LookupPendingByOrder (px_db ctx) i (ps_db st) else None) res
      (pgAudit_Log n ''approve_success'' (AuditApprovePtr (Some res)) False st)"
  using assms
  by (simp add: ConfirmPayment_def Let_def GetOrderGate_def GetOrderPrice_def no_faults_def)

lemma CreateOrder_success:
  assumes ok: "ledger_ok (ps_db st)" and ids: "reports_ids ctx"
    and c: "CreateOrder ctx user req ip st = (Inr resp, st')"
  shows "resp_OrderSeq resp = order_next (ps_db st)"
    "order_row st' (resp_OrderSeq resp) =
       Some (new_order (db_now (px_db ctx)) (resp_OrderSeq resp) (USRSeq user)
         (if req_Gate req = ''profile'' then ''P'' else ''S'') (req_PayType req) (req_Amount req) ip)"
    "req_PayType req \<noteq> ''BANK'' \<Longrightarrow> resp_PaymentParams resp =
       Some (payment_params (px_cfg ctx) user req (resp_OrderSeq resp))"
proof -
  let ?g = "if req_Gate req = ''profile'' then ''P'' else ''S''"
  let ?db = "add_order (db_now (px_db ctx)) (USRSeq user) ?g (req_PayType req) (req_Amount req) ip (ps_db st)"
  have ins: "InsertOrder (px_db ctx) (USRSeq user) ?g (req_PayType req) (req_Amount req) ip (ps_db st) =
     (case faults (px_db ctx) StInsertOrder of Some e \<Rightarrow> (Inl e, ps_db st)
      | None \<Rightarrow> (Inr (order_next (ps_db st)), ?db))"
    using ids order_next_pos [OF ok] by (intro InsertOrder_cases) (simp_all add: reports_ids_def)
  have f: "faults (px_db ctx) StInsertOrder = None"
    using c ins by (auto simp: CreateOrder_def Let_def split: if_splits option.splits)
  have r: "resp_OrderSeq resp = order_next (ps_db st)" "ps_db st' = ?db"
    "req_PayType req \<noteq> ''BANK'' \<Longrightarrow> resp_PaymentParams resp =
       Some (payment_params (px_cfg ctx) user req (resp_OrderSeq resp))"
    using c ins f by (auto simp: CreateOrder_def Let_def split: if_splits)
  show "resp_OrderSeq resp = order_next (ps_db st)" by (rule r(1))
  show "req_PayType req \<noteq> ''BANK'' \<Longrightarrow> resp_PaymentParams resp =
       Some (payment_params (px_cfg ctx) user req (resp_OrderSeq resp))" by (rule r(3))
  have "keys_ok o_seq (order_next (ps_db st)) (orders (ps_db st))"
    using ok by (simp add: ledger_ok_def tables_ok_def)
  from ord.get_new [OF this, of "(db_now (px_db ctx), USRSeq user, ?g, req_PayType req, req_Amount req, ip)"]
  show "order_row st' (resp_OrderSeq resp) =
       Some (new_order (db_now (px_db ctx)) (resp_OrderSeq resp) (USRSeq user) ?g (req_PayType req) (req_Amount req) ip)"
    using r by simp
qed

lemma create_then_confirm:
  assumes ok: "ledger_ok (ps_db st)" and ids: "reports_ids ctx" and big: "order_next (ps_db st) < two63"
    and c: "CreateOrder ctx user req ip st = (Inr resp, st1)" and p: "resp_PaymentParams resp = Some params"
    and nf: "no_faults ctx'"
    and g: "\<And>gate. Approve (px_ep ctx') (px_cfg ctx')
         \<lparr>ar_OrderNo = pp_OrderNo params, ar_EncryptData = enc, ar_SessionKey = key, ar_TraceNo = tr,
          ar_ClientIP = ip'\<rparr> gate = Inr res"
      "ResCode res = ''0000''" "Amount res = pp_ProductAmt params" and amt: "req_Amount req < two63"
  shows "case ConfirmPayment ctx' (pp_OrderNo params) enc key tr ip' st1 of
      (e, st2) \<Rightarrow> e = None \<and> (\<exists>r. order_row st2 (resp_OrderSeq resp) = Some r
        \<and> completed_order (ps_db st2) r \<and> o_net_received_amount r = req_Amount req)"
proof -
  have bank: "req_PayType req \<noteq> ''BANK''"
    using c p by (auto simp: CreateOrder_def Let_def split: if_splits sum.splits prod.splits)
  note s = CreateOrder_success [OF ok ids c]
  let ?i = "resp_OrderSeq resp"
  obtain r where r: "order_row st1 ?i = Some r" "o_payment r = ''N''" "o_price r = req_Amount req" "o_seq r = ?i"
    using s(2) by (auto simp: new_order_def)
  have pp: "pp_OrderNo params = go_Itoa ?i" "pp_ProductAmt params = go_Itoa (req_Amount req)"
    using s(3) [OF bank] p by (auto simp: payment_params_def Let_def)
  have a10: "10000 \<le> req_Amount req" using c by (auto simp: CreateOrder_def split: if_splits)
  have at: "go_Atoi (pp_OrderNo params) = (?i, None)"
    unfolding pp using s(1) order_next_pos [OF ok] big by (intro go_Atoi_Itoa) simp
  have am: "fst (go_Atoi (Amount res)) = o_price r"
    unfolding g(3) pp using a10 amt r(3) by (subst go_Atoi_Itoa) simp_all
  obtain e st2 where e: "ConfirmPayment ctx' (pp_OrderNo params) enc key tr ip' st1 = (e, st2)" by fastforce
  have "e = None"
    using ConfirmPayment_approved [OF nf at r(1,2) g(1,2) am] record_payment_ok [OF nf] e by (metis fst_conv)
  moreover have ok1: "ledger_ok (ps_db st1)" using ledger_CreateOrder [OF ok, of ctx user req ip] c by simp
  ultimately obtain r1 r2 where r2: "order_row st1 ?i = Some r1" "order_row st2 ?i = Some r2"
      "o_price r2 = o_price r1" "completed_order (ps_db st2) r2"
    using confirm_success_paid [OF ok1 _ at] e by blast
  with r have "o_net_received_amount r2 = req_Amount req" by (simp add: completed_order_def)
  with r2 e \<open>e = None\<close> show ?thesis by simp
qed

end
