(* ===== verification/Pay_Billing.thy ===== *)
theory Pay_Billing
  imports Pay_Confirm
begin

text \<open>
  What the daily billing job does to the subscriptions, row by row: rows that are not due are not
  touched, a charge moves the row out of the month, a refusal counts and suspends, and what
  cancellation and late first payments do to the status.
\<close>

section \<open>Billing\<close>

lemma add_order_frame [simp]:
  "subs (add_order now u g t p ip db) = subs db" "pg_rows (add_order now u g t p ip db) = pg_rows db"
  by (simp_all add: add_order_def)

lemma InsertOrder_subs [simp]: "subs (snd (InsertOrder env u g t p ip db)) = subs db"
  by (simp add: InsertOrder_def Let_def split: option.split)

lemma subs_update_sub [simp]: "subs (update_sub i f db) = sql_update (\<lambda>r. sub_seq r = i) f (subs db)"
  by (simp add: update_sub_def)

lemma get_update_sub:
  assumes "\<And>r. sub_seq (f r) = sub_seq r"
  shows "sql_get (\<lambda>r. sub_seq r = j) (sql_update (\<lambda>r. sub_seq r = i) f t) =
    map_option (\<lambda>r. if j = i then f r else r) (sql_get (\<lambda>r. sub_seq r = j) t)"
proof (cases "j = i")
  case True
  then show ?thesis using sql_get_update_key [of sub_seq f i "\<lambda>_. True" t] assms by simp
next
  case False
  then show ?thesis using sql_get_update_other [of sub_seq f i j "\<lambda>_. True" t] assms
    by (simp add: option.map_ident)
qed

lemma record_paid_subs [simp]: "subs (record_paid env i a d ip db) = subs db"
  by (rule record_paid_rows(4))

text \<open>What a failed charge does to the subscription's row.\<close>

definition bump_fail :: "db_env \<Rightarrow> Subscription \<Rightarrow> Subscription" where
  "bump_fail env r = r\<lparr>sub_fail_count := sub_fail_count r + 1, sub_edt_date := Some (db_now env)\<rparr>"

definition suspend :: "db_env \<Rightarrow> Subscription \<Rightarrow> Subscription" where
  "suspend env r = r\<lparr>sub_status := ''suspended'', sub_edt_date := Some (db_now env)\<rparr>"

lemma bump_suspend_fields [simp]:
  "sub_seq (bump_fail env r) = sub_seq r" "sub_seq (suspend env r) = sub_seq r"
  "sub_fail_count (bump_fail env r) = sub_fail_count r + 1" "sub_status (bump_fail env r) = sub_status r"
  "sub_status (suspend env r) = ''suspended''"
  "due_for_billing d c (bump_fail env r) = due_for_billing d c r"
  by (simp_all add: bump_fail_def suspend_def due_for_billing_def)

lemma handleFailure_row:
  assumes nf: "faults (px_db ctx) StIncrementFail = None" "faults (px_db ctx) StReadFail = None"
      "faults (px_db ctx) StUpdateStatus = None"
    and r: "sub_row st (sub_seq s) = Some r"
  shows "sub_row (handleFailure ctx s st) (sub_seq s) = Some
    (if sub_fail_count r + 1 \<ge> MaxConsecutiveFails
     then suspend (px_db ctx) (bump_fail (px_db ctx) r) else bump_fail (px_db ctx) r)"
proof -
  let ?db = "update_sub (sub_seq s) (bump_fail (px_db ctx)) (ps_db st)"
  have g: "sql_get (\<lambda>x. sub_seq x = sub_seq s) (subs ?db) = Some (bump_fail (px_db ctx) r)"
    using r by (simp add: get_update_sub)
  have i: "IncrementFailCount (px_db ctx) (sub_seq s) (ps_db st) = (Inr (sub_fail_count r + 1), ?db)"
    using nf g by (simp add: IncrementFailCount_def Let_def bump_fail_def [abs_def])
  have m: "snd (MarkSuspended (px_db ctx) (sub_seq s) ?db) = update_sub (sub_seq s) (suspend (px_db ctx)) ?db"
    using nf by (simp add: MarkSuspended_def UpdateStatus_def suspend_def [abs_def])
  show ?thesis
    using r by (simp add: handleFailure_db i m get_update_sub)
qed

lemma handleFailure_other:
  "j \<noteq> sub_seq s \<Longrightarrow> sub_row (handleFailure ctx s st) j = sub_row st j"
  by (auto simp: handleFailure_db Let_def MarkSuspended_def UpdateStatus_def IncrementFailCount_def
      get_update_sub option.map_ident split: sum.split option.split)

lemma pgAudit_sub_row [simp]: "subs (ps_db (pgAudit_Log n e d f st)) = subs (ps_db st)"
  by simp

lemma commitChargeTx_other:
  "j \<noteq> sub_seq s \<Longrightarrow> sub_row (snd (commitChargeTx ctx s i a res n now st)) j = sub_row st j"
  unfolding commitChargeTx_db
  by (auto simp: get_update_sub option.map_ident split: prod.split option.split)

lemma processOne_other:
  assumes "j \<noteq> sub_seq s"
  shows "sub_row (snd (processOne ctx s now st)) j = sub_row st j"
  using assms InsertOrder_subs [of "px_db ctx" "sub_usr_seq s" "''P''" "sub_pay_type s" "sub_amount s" "''auto-billing''" "ps_db st"]
  by (simp add: processOne_def Let_def split_beta handleFailure_other commitChargeTx_other
      split: option.split sum.split del: InsertOrder_subs)

lemma billing_loop_other:
  assumes "j \<notin> sub_seq ` set due"
  shows "sub_row (snd (snd (billing_loop ctx now due k errs st))) j = sub_row st j"
  using assms
proof (induction due arbitrary: k errs st)
  case (Cons s due)
  have "sub_row (snd (processOne (ctx (sub_seq s)) s now st)) j = sub_row st j"
    using Cons.prems by (intro processOne_other) auto
  with Cons show ?case by (auto simp: safeProcessOne_def split: prod.splits option.splits)
qed simp

lemma due_rows_by_key:
  assumes k: "keys_ok sub_seq n (subs db)" and l: "ListDueForBilling env d c db = Inr due"
    and r: "r \<in> set (subs db)" "\<not> due_for_billing d c r"
  shows "sub_seq r \<notin> sub_seq ` set due"
  using k r ListDue_facts [OF l] by (auto simp: keys_ok_def distinct_map inj_on_def)

lemma RunOnce_frame:
  assumes ok: "ledger_ok (ps_db st)" and r: "sub_row st j = Some r"
    and nd: "\<not> due_for_billing (clamp_day28 (day now)) (yyyymm now) r"
  shows "sub_row (snd (snd (RunOnce ctx ctxs now st))) j = Some r"
proof (cases "ListDueForBilling (px_db ctx) (clamp_day28 (day now)) (yyyymm now) (ps_db st)")
  case (Inl e)
  with r show ?thesis by (simp add: RunOnce_def)
next
  case (Inr due)
  have rj: "r \<in> set (subs (ps_db st))" "sub_seq r = j" using sql_get_Some [OF r] by auto
  have "keys_ok sub_seq (sub_next (ps_db st)) (subs (ps_db st))"
    using ok by (simp add: ledger_ok_def tables_ok_def)
  with due_rows_by_key [OF _ Inr rj(1) nd] rj have "j \<notin> sub_seq ` set due" by simp
  from billing_loop_other [OF this, of ctxs now 0 "[]" st] r Inr show ?thesis
    by (simp add: RunOnce_def split_beta)
qed

lemma clamp_month_due:
  assumes "valid_time t" "valid_time t'" "civil_year t" "civil_year t'" "time_index t = time_index t'"
    and "sub_last_billed_at r = Some t"
  shows "\<not> due_for_billing d (yyyymm t') r"
  using assms yyyymm_less [of t t'] by (simp add: due_for_billing_def)

text \<open>The stages of a charge whose gateway call returned.\<close>

lemma processOne_stages:
  assumes "sub_billing_key s = Some key" "key \<noteq> []"
    and "InsertOrder (px_db ctx) (sub_usr_seq s) ''P'' (sub_pay_type s) (sub_amount s) ''auto-billing''
       (ps_db st) = (Inr i, db)"
    and "AutoBilling (px_ep ctx) (px_cfg ctx) key (go_Itoa i) (sub_amount s)
       (auto_trace_no (px_utc_offset ctx) (sub_seq s) now) ''auto-billing'' = Inr res"
    and "ResCode res = ''0000''" "fst (go_Atoi (Amount res)) = sub_amount s"
  shows "processOne ctx s now st =
    (case commitChargeTx ctx s i (sub_amount s) res (go_Itoa i) now
        (pgAudit_Log (go_Itoa i) ''auto_billing_success'' (AuditApprovePtr (Some res)) False (st\<lparr>ps_db := db\<rparr>)) of
       (Some err, st2) \<Rightarrow> (Some err, handleFailure ctx s st2)
     | (None, st2) \<Rightarrow> (None, st2))"
  using assms by (simp add: processOne_def Let_def)

definition charge_approved :: "pay_ctx \<Rightarrow> Subscription \<Rightarrow> gotime \<Rightarrow> pay_state \<Rightarrow> ApproveResult \<Rightarrow> int \<Rightarrow> pay_db \<Rightarrow> bool" where
  "charge_approved ctx s now st res i db =
     (\<exists>key. sub_billing_key s = Some key \<and> key \<noteq> []
      \<and> InsertOrder (px_db ctx) (sub_usr_seq s) ''P'' (sub_pay_type s) (sub_amount s) ''auto-billing''
          (ps_db st) = (Inr i, db)
      \<and> AutoBilling (px_ep ctx) (px_cfg ctx) key (go_Itoa i) (sub_amount s)
          (auto_trace_no (px_utc_offset ctx) (sub_seq s) now) ''auto-billing'' = Inr res
      \<and> ResCode res = ''0000'' \<and> fst (go_Atoi (Amount res)) = sub_amount s)"

lemma processOne_success:
  assumes p: "processOne ctx s now st = (None, st')"
  shows "\<exists>res i db. charge_approved ctx s now st res i db \<and>
     commitChargeTx ctx s i (sub_amount s) res (go_Itoa i) now
        (pgAudit_Log (go_Itoa i) ''auto_billing_success'' (AuditApprovePtr (Some res)) False (st\<lparr>ps_db := db\<rparr>))
      = (None, st')"
proof -
  obtain key where key: "sub_billing_key s = Some key" "key \<noteq> []"
    using p by (auto simp: processOne_def split: option.splits if_splits)
  obtain i db where ins: "InsertOrder (px_db ctx) (sub_usr_seq s) ''P'' (sub_pay_type s) (sub_amount s)
      ''auto-billing'' (ps_db st) = (Inr i, db)"
    using p key by (auto simp: processOne_def split: prod.splits sum.splits)
  obtain res where res: "AutoBilling (px_ep ctx) (px_cfg ctx) key (go_Itoa i) (sub_amount s)
       (auto_trace_no (px_utc_offset ctx) (sub_seq s) now) ''auto-billing'' = Inr res"
    using p key ins by (auto simp: processOne_def Let_def split: sum.splits)
  have ok: "ResCode res = ''0000''" "fst (go_Atoi (Amount res)) = sub_amount s"
    using p key ins res by (auto simp: processOne_def Let_def split: if_splits)
  show ?thesis
    using p key ins res ok processOne_stages [OF key ins res ok]
    by (intro exI [of _ res] exI [of _ i] exI [of _ db])
       (auto simp: charge_approved_def split: prod.splits option.splits)
qed

lemma InsertOrder_Inr_subs: "InsertOrder env u g t p ip db = (x, db') \<Longrightarrow> subs db' = subs db"
  using InsertOrder_subs [of env u g t p ip db] by simp

lemma charged_row:
  assumes p: "processOne ctx s now st = (None, st')" and r: "sub_row st (sub_seq s) = Some r"
  shows "\<exists>r'. sub_row st' (sub_seq s) = Some r' \<and> sub_last_billed_at r' = Some now \<and> sub_fail_count r' = 0"
proof -
  obtain res i db where a: "charge_approved ctx s now st res i db"
    and c: "commitChargeTx ctx s i (sub_amount s) res (go_Itoa i) now
        (pgAudit_Log (go_Itoa i) ''auto_billing_success'' (AuditApprovePtr (Some res)) False (st\<lparr>ps_db := db\<rparr>))
      = (None, st')" using processOne_success [OF p] by blast
  have "subs db = subs (ps_db st)" using a InsertOrder_Inr_subs by (auto simp: charge_approved_def)
  with r c commitChargeTx_db [of ctx s i "sub_amount s" res "go_Itoa i" now
      "pgAudit_Log (go_Itoa i) ''auto_billing_success'' (AuditApprovePtr (Some res)) False (st\<lparr>ps_db := db\<rparr>)"]
  show ?thesis by (simp add: get_update_sub)
qed

lemma charged_once_per_month:
  assumes p: "processOne ctx s now st = (None, st')" and r: "sub_row st (sub_seq s) = Some r"
    and v: "valid_time now" "valid_time later" "civil_year now" "civil_year later" "time_index later = time_index now"
  shows "\<exists>r'. sub_row st' (sub_seq s) = Some r' \<and> \<not> due_for_billing d (yyyymm later) r'"
proof -
  obtain r' where "sub_row st' (sub_seq s) = Some r'" "sub_last_billed_at r' = Some now"
    using charged_row [OF p r] by blast
  with clamp_month_due [of now later r' d] v show ?thesis by auto
qed

text \<open>An approved charge whose transaction does not commit leaves the subscription due.\<close>

lemma uncommitted_charge_stays_due:
  assumes a: "charge_approved ctx s now st res i db" and f: "faults (px_db ctx) StCommit = Some e"
    and h: "faults (px_db ctx) StIncrementFail = None" "faults (px_db ctx) StReadFail = None"
      "faults (px_db ctx) StUpdateStatus = None"
    and r: "sub_row st (sub_seq s) = Some r" "sub_fail_count r < 2" "due_for_billing d c r"
  shows "\<exists>err r'. fst (processOne ctx s now st) = Some err
    \<and> sub_row (snd (processOne ctx s now st)) (sub_seq s) = Some r' \<and> due_for_billing d c r'"
proof -
  let ?st = "pgAudit_Log (go_Itoa i) ''auto_billing_success'' (AuditApprovePtr (Some res)) False (st\<lparr>ps_db := db\<rparr>)"
  have d: "subs db = subs (ps_db st)" using a InsertOrder_Inr_subs by (auto simp: charge_approved_def)
  have "fst (commitChargeTx ctx s i (sub_amount s) res (go_Itoa i) now ?st) \<noteq> None"
    using f by (simp add: commitChargeTx_def Let_def split: option.split sum.split)
  then obtain err st2 where c: "commitChargeTx ctx s i (sub_amount s) res (go_Itoa i) now ?st = (Some err, st2)"
    by (metis not_None_eq prod.collapse)
  then have s2: "ps_db st2 = db"
    using commitChargeTx_db [of ctx s i "sub_amount s" res "go_Itoa i" now ?st] by simp
  have p: "processOne ctx s now st = (Some err, handleFailure ctx s st2)"
    using a c processOne_stages by (auto simp: charge_approved_def)
  have "sub_row st2 (sub_seq s) = Some r" using r s2 d by simp
  from handleFailure_row [OF h this] p r show ?thesis by simp
qed

lemma gateway_refusal_row:
  assumes key: "sub_billing_key s = Some key" "key \<noteq> []"
    and ins: "InsertOrder (px_db ctx) (sub_usr_seq s) ''P'' (sub_pay_type s) (sub_amount s) ''auto-billing''
       (ps_db st) = (Inr i, db)"
    and ref: "case AutoBilling (px_ep ctx) (px_cfg ctx) key (go_Itoa i) (sub_amount s)
       (auto_trace_no (px_utc_offset ctx) (sub_seq s) now) ''auto-billing'' of
         Inl _ \<Rightarrow> True | Inr res \<Rightarrow> ResCode res \<noteq> ''0000''"
    and h: "faults (px_db ctx) StIncrementFail = None" "faults (px_db ctx) StReadFail = None"
      "faults (px_db ctx) StUpdateStatus = None"
    and r: "sub_row st (sub_seq s) = Some r"
  shows "fst (processOne ctx s now st) \<noteq> None \<and>
    sub_row (snd (processOne ctx s now st)) (sub_seq s) = Some
      (if sub_fail_count r + 1 \<ge> MaxConsecutiveFails
       then suspend (px_db ctx) (bump_fail (px_db ctx) r) else bump_fail (px_db ctx) r)"
proof -
  have d: "subs db = subs (ps_db st)" using ins InsertOrder_Inr_subs by blast
  have hf: "sub_row (handleFailure ctx s (pgAudit_Log n e x f (st\<lparr>ps_db := db\<rparr>))) (sub_seq s) = Some
      (if sub_fail_count r + 1 \<ge> MaxConsecutiveFails
       then suspend (px_db ctx) (bump_fail (px_db ctx) r) else bump_fail (px_db ctx) r)" for n e x f
    using r d by (intro handleFailure_row [OF h]) simp
  show ?thesis
    using key ins ref hf by (auto simp: processOne_def Let_def split: sum.splits)
qed

section \<open>Cancelled subscriptions and late payments\<close>

lemma sub_row_of_order:
  assumes "sql_get (\<lambda>r. sub_order_seq r = Some i) (subs (ps_db st)) = Some s"
    "keys_ok sub_seq n (subs (ps_db st))"
  shows "sub_row st (sub_seq s) = Some s"
  using assms by (auto simp: keys_ok_def dest!: sql_get_Some intro: sql_get_unique)

lemma late_payment_activates:
  assumes ok: "ledger_ok (ps_db st)" and nf: "no_faults ctx" and n: "go_Atoi n = (i, None)"
    and r: "order_row st i = Some r" "o_payment r = ''N''" "o_gate r = ''P''"
    and s: "sql_get (\<lambda>x. sub_order_seq x = Some i) (subs (ps_db st)) = Some s"
    and g: "Approve (px_ep ctx) (px_cfg ctx)
         \<lparr>ar_OrderNo = n, ar_EncryptData = enc, ar_SessionKey = key, ar_TraceNo = tr, ar_ClientIP = ip\<rparr>
         ''profile'' = Inr res" "ResCode res = ''0000''" "fst (go_Atoi (Amount res)) = o_price r"
  shows "\<exists>s'. sub_row (snd (ConfirmPayment ctx n enc key tr ip st)) (sub_seq s) = Some s'
     \<and> sub_status s' = ''active'' \<and> sub_billing_key s' = Some (CNO res) \<and> sub_last_billed_at s' = Some (db_now (px_db ctx))"
proof -
  have c: "ConfirmPayment ctx n enc key tr ip st =
    record_payment ctx n i (o_price r) ip (Some s) res
      (pgAudit_Log n ''approve_success'' (AuditApprovePtr (Some res)) False st)"
    using ConfirmPayment_approved [OF nf n r(1,2), of enc key tr ip res] r(3) g s nf
    by (simp add: LookupPendingByOrder_def GetByOrderSeq_def no_faults_def)
  have "sub_row st (sub_seq s) = Some s"
    using sub_row_of_order [OF s, of "sub_next (ps_db st)"] ok by (simp add: ledger_ok_def tables_ok_def)
  then show ?thesis unfolding c using nf
    by (auto simp: record_payment_def no_faults_def InsertPGDataTx_def UpdateOrderPaymentTx_def Let_def
        ActivateAfterFirstPayment_def ActivateWithBillingKeyTx_def set_paid_def add_pg_def
        refresh_summary_def get_update_sub)
qed

lemma cancel_row:
  assumes c: "CancelSubscription ctx u i st = (None, st')" and ok: "ledger_ok (ps_db st)"
  shows "\<exists>r r'. sub_row st i = Some r \<and> sub_usr_seq r = u \<and> live_status (sub_status r)
    \<and> sub_row st' i = Some r' \<and> sub_status r' = ''cancelled''"
proof -
  obtain s where s: "GetByUser (px_db ctx) u (ps_db st) = Inr (Some s)" "sub_seq s = i"
    using c by (auto simp: CancelSubscription_def Let_def split: sum.splits option.splits if_splits prod.splits)
  let ?rows = "sort_key sub_seq (filter (\<lambda>r. sub_usr_seq r = u \<and> live_status (sub_status r)) (subs (ps_db st)))"
  have "?rows \<noteq> []" "s = last ?rows"
    using s by (simp_all add: GetByUser_def Let_def split: option.splits if_splits)
  then have "s \<in> set ?rows" using last_in_set by blast
  then have sin: "s \<in> set (subs (ps_db st))" "sub_usr_seq s = u" "live_status (sub_status s)" by auto
  then have row: "sub_row st i = Some s"
    using ok s(2) sql_get_unique [of sub_seq "subs (ps_db st)" s]
    by (auto simp: ledger_ok_def tables_ok_def keys_ok_def)
  have "faults (px_db ctx) StUpdateStatus = None"
    using c s by (auto simp: CancelSubscription_def Let_def UpdateStatus_def split: option.splits)
  then have "sub_row st' i = Some (s\<lparr>sub_status := ''cancelled'', sub_edt_date := Some (db_now (px_db ctx))\<rparr>)"
    using CancelSubscription_db [of ctx u i st] c s row by (simp add: UpdateStatus_def get_update_sub)
  with row sin show ?thesis by auto
qed

end
