(* ===== verification/Pay_Props.thy ===== *)
theory Pay_Props
  imports Pay_Billing
begin

text \<open>
  The properties of donations and recurring billing, each with the claim it proves and, where it
  has hypotheses, its application to a concrete scenario.
\<close>

section \<open>Scenario\<close>

text \<open>A gateway that approves every request for 20,000 won, a database without faults, an empty
  ledger and a donor.\<close>

definition demo_answer :: string where
  "demo_answer = ''res_cd=0000'' @ [CHR 0x1F] @ ''cno=K1'' @ [CHR 0x1F] @ ''amount=20000''"

definition demo_refusal :: string where
  "demo_refusal = ''res_cd=1234'' @ [CHR 0x1F] @ ''res_msg=limit''"

definition demo_time :: gotime where
  "demo_time = GoTime 2025 1 29 0"

definition demo_ctx :: "string \<Rightarrow> (stmt \<Rightarrow> db_error option) \<Rightarrow> pay_ctx" where
  "demo_ctx answer f =
     \<lparr>px_db = \<lparr>faults = f, db_now = demo_time, pool_last_id = 0\<rparr>,
      px_ep = \<lparr>run_ep_cli = \<lambda>_ _. Inr answer, euckr_decode = \<lambda>_. None\<rparr>,
      px_cfg = \<lparr>ImmediatelyMallID = ''M'', ProfileMallID = ''P'', GatewayURL = ''gw'', GatewayPort = ''80'',
                BinBase = ''/opt'', ReturnBaseURL = ''https://x'', AutoTrCd = []\<rparr>,
      px_now = demo_time, px_utc_offset = 32400, px_summary = False\<rparr>"

abbreviation (input) good_ctx :: pay_ctx where "good_ctx \<equiv> demo_ctx demo_answer (\<lambda>_. None)"
abbreviation (input) bad_ctx :: pay_ctx where "bad_ctx \<equiv> demo_ctx demo_refusal (\<lambda>_. None)"
abbreviation (input) commit_fault_ctx :: pay_ctx where
  "commit_fault_ctx \<equiv> demo_ctx demo_answer (\<lambda>q. if q = StCommit then Some (DriverError ''gone'') else None)"

definition demo_user :: pay_user where
  "demo_user = \<lparr>USRSeq = 7, USRName = ''Kim''\<rparr>"

definition demo_init :: pay_state where
  "demo_init = \<lparr>ps_db = empty_db, ps_audit = [], ps_effects = []\<rparr>"

definition demo_order :: CreateOrderRequest where
  "demo_order = \<lparr>req_Amount = 20000, req_PayType = ''CARD'', req_Gate = ''immediately''\<rparr>"

definition demo_ordered :: pay_state where
  "demo_ordered = snd (CreateOrder good_ctx demo_user demo_order ''ip'' demo_init)"

definition demo_confirmed :: pay_state where
  "demo_confirmed = snd (ConfirmPayment good_ctx ''1'' ''e'' ''k'' ''t'' ''ip'' demo_ordered)"

definition demo_subscribed :: pay_state where
  "demo_subscribed = snd (CreateSubscription good_ctx demo_user \<lparr>csr_Amount = 20000, csr_PayType = ''CARD''\<rparr> ''ip'' demo_init)"

definition demo_active :: pay_state where
  "demo_active = snd (ConfirmPayment good_ctx ''1'' ''e'' ''k'' ''t'' ''ip'' demo_subscribed)"

text \<open>The month after the first payment.\<close>

definition demo_next :: gotime where
  "demo_next = GoTime 2025 2 28 10800000000000"

definition demo_sub :: Subscription where
  "demo_sub =
     \<lparr>sub_seq = 1, sub_usr_seq = 7, sub_amount = 20000, sub_pay_type = ''CARD'',
      sub_billing_key = Some ''K1'', sub_card_no = Some [], sub_status = ''active'',
      sub_start_date = demo_time, sub_next_bill = GoTime 2025 3 28 0, sub_bill_day = Some 28,
      sub_end_yyyymm = None, sub_last_billed_at = Some demo_time, sub_fail_count = 0,
      sub_order_seq = Some 1, sub_reg_date = demo_time, sub_edt_date = Some demo_time\<rparr>"

lemma demo_sub_row: "sub_row demo_active 1 = Some demo_sub" "order_next (ps_db demo_active) = 2"
  by code_simp+

lemma demo_sub_fields [simp]: "sub_seq demo_sub = 1" "sub_billing_key demo_sub = Some ''K1''"
  "sub_amount demo_sub = 20000" "sub_fail_count demo_sub = 0"
  by (simp_all add: demo_sub_def)

lemma demo_ctx_simps [simp]: "faults (px_db (demo_ctx a f)) = f"
  "AutoBilling (px_ep (demo_ctx a f)) cfg k n m t ip = Inr (parseEasyPayResponse a)"
  "Approve (px_ep (demo_ctx a f)) cfg req gate = Inr (parseEasyPayResponse a)"
  by (simp_all add: demo_ctx_def AutoBilling_def Approve_def ep_answer_def)

lemma demo_no_faults: "no_faults (demo_ctx a (\<lambda>_. None))" "reports_ids (demo_ctx a (\<lambda>_. None))"
  by (simp_all add: no_faults_def reports_ids_def)

lemma demo_ledgers: "ledger_ok (ps_db demo_init)" "ledger_ok (ps_db demo_ordered)"
  "ledger_ok (ps_db demo_subscribed)" "ledger_ok (ps_db demo_active)"
  by (simp_all add: demo_init_def demo_ordered_def demo_subscribed_def demo_active_def ledger_ok_empty
      ledger_CreateOrder ledger_CreateSubscription ledger_ConfirmPayment)

section \<open>The ledger\<close>


definition demo_ops :: "pay_op list" where
  "demo_ops = [OpCreateOrder good_ctx demo_user demo_order ''ip'',
     OpConfirmPayment bad_ctx ''1'' ''e'' ''k'' ''t'' ''ip'',
     OpConfirmPayment good_ctx ''1'' ''e'' ''k'' ''t'' ''ip'',
     OpCreateSubscription good_ctx demo_user \<lparr>csr_Amount = 20000, csr_PayType = ''CARD''\<rparr> ''ip'',
     OpConfirmPayment good_ctx ''2'' ''e'' ''k'' ''t'' ''ip'',
     OpRunOnce good_ctx (\<lambda>_. good_ctx) demo_next]"


section \<open>Confirmation\<close>

text \<open>C2. A confirmation that reports success leaves the order with the number the browser sent
  completed, at its own price, against an approval row, and changes no other order.\<close>

theorem confirm_completes_order:
  assumes "ledger_ok (ps_db st)" "ConfirmPayment ctx n enc key tr ip st = (None, st')"
    "go_Atoi n = (i, None)"
  shows "(\<exists>r r'. order_row st i = Some r \<and> order_row st' i = Some r' \<and> o_price r' = o_price r
      \<and> completed_order (ps_db st') r')
    \<and> (\<forall>j. j \<noteq> i \<longrightarrow> order_row st' j = order_row st j)"
  using assms by (rule confirm_success_paid)

theorem confirm_completes_order_witness:
  "\<exists>r. order_row demo_confirmed 1 = Some r \<and> completed_order (ps_db demo_confirmed) r"
proof -
  have "fst (ConfirmPayment good_ctx ''1'' ''e'' ''k'' ''t'' ''ip'' demo_ordered) = None"
    "go_Atoi ''1'' = (1, None)" by code_simp+
  then show ?thesis
    using confirm_completes_order [OF demo_ledgers(2), of good_ctx "''1''" "''e''" "''k''" "''t''" "''ip''" demo_confirmed 1]
    by (auto simp: demo_confirmed_def prod_eq_iff)
qed

text \<open>C3. Confirming the same order again after a success returns success without asking the
  gateway and changes nothing, whatever the request carries and whatever the gateway would say.\<close>

theorem confirm_idempotent:
  assumes "ledger_ok (ps_db st)" "ConfirmPayment ctx n enc key tr ip st = (None, st')"
    "faults (px_db ctx') StGetOrderGate = None" "faults (px_db ctx') StGetOrderPrice = None"
  shows "ConfirmPayment ctx' n enc' key' tr' ip' st' = (None, st')"
proof -
  obtain i where i: "go_Atoi n = (i, None)"
    using assms(2) by (auto simp: ConfirmPayment_def Let_def split: prod.splits option.splits)
  obtain r' where "order_row st' i = Some r'" "o_payment r' = ''Y''"
    using confirm_success_paid [OF assms(1,2) i] by (auto simp: completed_order_def)
  then show ?thesis using ConfirmPayment_paid [OF i] assms(3,4) by simp
qed

theorem confirm_idempotent_witness:
  "ConfirmPayment bad_ctx ''1'' ''other'' ''k2'' ''t2'' ''ip2'' demo_confirmed = (None, demo_confirmed)"
proof -
  have "fst (ConfirmPayment good_ctx ''1'' ''e'' ''k'' ''t'' ''ip'' demo_ordered) = None" by code_simp
  then have "ConfirmPayment good_ctx ''1'' ''e'' ''k'' ''t'' ''ip'' demo_ordered = (None, demo_confirmed)"
    by (simp add: demo_confirmed_def prod_eq_iff)
  from confirm_idempotent [OF demo_ledgers(2) this] show ?thesis by simp
qed

text \<open>C4. A confirmation that reports an error changes no order and records no approval; the
  tables change at all only when the gateway refused, and then only in the subscription table.\<close>

theorem confirm_error_atomic:
  assumes "ConfirmPayment ctx n enc key tr ip st = (Some e, st')"
  shows "orders (ps_db st') = orders (ps_db st) \<and> pg_rows (ps_db st') = pg_rows (ps_db st)
      \<and> (gateway_refused e \<or> ps_db st' = ps_db st)"
  using assms by (rule confirm_error_frame)

theorem confirm_error_atomic_witness:
  "ps_db (snd (ConfirmPayment commit_fault_ctx ''1'' ''e'' ''k'' ''t'' ''ip'' demo_ordered)) = ps_db demo_ordered"
proof -
  let ?c = "ConfirmPayment commit_fault_ctx ''1'' ''e'' ''k'' ''t'' ''ip'' demo_ordered"
  have f: "fst ?c = Some (CommitFailed (DriverError ''gone''))" by code_simp
  then have "?c = (Some (CommitFailed (DriverError ''gone'')), snd ?c)" by (simp add: prod_eq_iff)
  from confirm_error_atomic [OF this] show ?thesis by (simp add: gateway_refused_def)
qed

text \<open>An order created with card or mobile payment can be paid: confirming with the order
  number and amount the response handed to the payment window, once the gateway approves that
  amount and the database answers, succeeds and books exactly the requested amount.\<close>

theorem order_can_be_paid:
  assumes "ledger_ok (ps_db st)" "reports_ids ctx" "order_next (ps_db st) < two63"
    "CreateOrder ctx user req ip st = (Inr resp, st1)" "resp_PaymentParams resp = Some params"
    "no_faults ctx'"
    "\<And>gate. Approve (px_ep ctx') (px_cfg ctx')
         \<lparr>ar_OrderNo = pp_OrderNo params, ar_EncryptData = enc, ar_SessionKey = key, ar_TraceNo = tr,
          ar_ClientIP = ip'\<rparr> gate = Inr res"
    "ResCode res = ''0000''" "Amount res = pp_ProductAmt params" "req_Amount req < two63"
  shows "case ConfirmPayment ctx' (pp_OrderNo params) enc key tr ip' st1 of
      (e, st2) \<Rightarrow> e = None \<and> (\<exists>r. order_row st2 (resp_OrderSeq resp) = Some r
        \<and> completed_order (ps_db st2) r \<and> o_net_received_amount r = req_Amount req)"
  using assms by (rule create_then_confirm)

theorem order_can_be_paid_witness:
  "\<exists>st2 r. ConfirmPayment good_ctx ''1'' ''e'' ''k'' ''t'' ''ip'' demo_ordered = (None, st2)
     \<and> order_row st2 1 = Some r \<and> o_net_received_amount r = 20000"
proof -
  let ?resp = "\<lparr>resp_OrderSeq = 1, resp_PaymentParams = Some (payment_params (px_cfg good_ctx) demo_user demo_order 1)\<rparr>"
  have c: "CreateOrder good_ctx demo_user demo_order ''ip'' demo_init = (Inr ?resp, demo_ordered)"
    by (simp add: demo_ordered_def prod_eq_iff CreateOrder_def demo_order_def InsertOrder_def demo_ctx_def
        demo_init_def empty_db_def)
  have pp: "pp_OrderNo (payment_params (px_cfg good_ctx) demo_user demo_order 1) = ''1''"
    "pp_ProductAmt (payment_params (px_cfg good_ctx) demo_user demo_order 1) = ''20000''" by code_simp+
  have res: "ResCode (parseEasyPayResponse demo_answer) = ''0000''"
    "Amount (parseEasyPayResponse demo_answer) = ''20000''" by code_simp+
  have "order_next (ps_db demo_init) < two63" "req_Amount demo_order < two63" by code_simp+
  with order_can_be_paid [OF demo_ledgers(1) demo_no_faults(2) _ c _ demo_no_faults(1) [of demo_answer],
      of _ "''e''" "''k''" "''t''" "''ip''" "parseEasyPayResponse demo_answer"] pp res
  show ?thesis
    by (auto simp: demo_order_def split: prod.splits)
qed

section \<open>Billing dates\<close>

text \<open>The next billing date is a real date at midnight, on the billing day clamped to 1..28,
  more than 24 hours after the payment, in the next month; it is two months ahead exactly when the
  payment day does not exist in the next month, or when the payment falls on the last day of a month
  and the billing day is the first.\<close>

theorem next_bill_date:
  assumes "valid_time t"
  shows "valid_time (ComputeNextBillDate t b) \<and> day (ComputeNextBillDate t b) = clamp_bill_day b
    \<and> nsec (ComputeNextBillDate t b) = 0 \<and> go_Add24h t < ComputeNextBillDate t b
    \<and> time_index (ComputeNextBillDate t b) = time_index t +
       (if day t > daysIn_idx (time_index t + 1)
          \<or> day t = daysIn (year t) (month t) \<and> clamp_bill_day b = 1 then 2 else 1)"
  using next_bill_spec [OF assms] by blast

theorem next_bill_date_witness:
  "go_Add24h (GoTime 2024 12 31 5) < ComputeNextBillDate (GoTime 2024 12 31 5) 1
   \<and> ComputeNextBillDate (GoTime 2024 12 31 5) 1 = GoTime 2025 2 1 0"
proof
  have "valid_time (GoTime 2024 12 31 5)" by code_simp
  from next_bill_date [OF this] show "go_Add24h (GoTime 2024 12 31 5) < ComputeNextBillDate (GoTime 2024 12 31 5) 1"
    by blast
  show "ComputeNextBillDate (GoTime 2024 12 31 5) 1 = GoTime 2025 2 1 0" by code_simp
qed

text \<open>A donor who first pays on 29, 30 or 31 January of a common year is promised 28 March as
  the next billing date: the date arithmetic overflows the short month and February is skipped,
  although the billing day is clamped to 28 so that it exists in every month.\<close>

theorem next_bill_skips_february:
  assumes "\<not> isLeap y" "day t \<in> {29, 30, 31}" "t = GoTime y 1 (day t) (nsec t)" "0 \<le> nsec t"
    "nsec t < 86400000000000"
  shows "ComputeNextBillDate t (clamp_day28 (day t)) = GoTime y 3 28 0"
proof -
  have v: "valid_time t" using assms by (cases t) (auto simp: valid_time_def daysIn_def)
  have i: "time_index t = month_index y 1" by (metis assms(3) gotime.sel(1,2) month_index_time)
  have "daysIn_idx (month_index y 1 + 1) = 28"
    using assms(1) idx_of_month_index [of 2 y] month_index_add [of y 1 1] by (simp add: daysIn_idx_def daysIn_def)
  then have n: "time_index (ComputeNextBillDate t (clamp_day28 (day t))) = month_index y 3"
    using next_bill_spec(5) [OF v, of "clamp_day28 (day t)"] assms(2) i month_index_add [of y 1 2] by auto
  have d: "clamp_bill_day (clamp_day28 (day t)) = 28"
    using assms(2) by (auto simp: clamp_bill_day_def clamp_day28_def)
  note s = next_bill_spec(1-3) [OF v, of "clamp_day28 (day t)"]
  obtain yy mm dd nn where r: "ComputeNextBillDate t (clamp_day28 (day t)) = GoTime yy mm dd nn"
    by (cases "ComputeNextBillDate t (clamp_day28 (day t))")
  have "yy = y \<and> mm = 3"
    using n r valid_time_index [OF s(1)] idx_of_month_index [of 3 y] by simp
  with r s(2,3) d show ?thesis by simp
qed

theorem next_bill_skips_february_witness:
  "ComputeNextBillDate (GoTime 2025 1 31 0) 28 = GoTime 2025 3 28 0"
proof -
  have "\<not> isLeap 2025" by code_simp
  from next_bill_skips_february [OF this, of "GoTime 2025 1 31 0"] show ?thesis
    by (simp add: clamp_day28_def)
qed

text \<open>The job's next start is at three in the morning, after now and within the next 24 hours.\<close>

theorem next_run_within_a_day:
  assumes "valid_time t"
  shows "t < nextRunAt t \<and> nextRunAt t \<le> go_Add24h t \<and> nsec (nextRunAt t) = 3 * 3600 * 1000000000"
  using nextRunAt_spec [OF assms] by simp

theorem next_run_within_a_day_witness:
  "GoTime 2025 2 28 10800000000000 < nextRunAt (GoTime 2025 2 28 10800000000000)
   \<and> nextRunAt (GoTime 2025 2 28 10800000000000) = GoTime 2025 3 1 10800000000000"
proof
  have "valid_time (GoTime 2025 2 28 10800000000000)" by code_simp
  from next_run_within_a_day [OF this]
  show "GoTime 2025 2 28 10800000000000 < nextRunAt (GoTime 2025 2 28 10800000000000)" by blast
  show "nextRunAt (GoTime 2025 2 28 10800000000000) = GoTime 2025 3 1 10800000000000" by code_simp
qed

section \<open>The billing job\<close>

text \<open>C5. A subscription charged by the job is not due again in the same month, on any billing
  day: whatever later time of that month the job runs at, the row it wrote no longer matches the
  query for due subscriptions.\<close>

theorem charged_at_most_once_a_month:
  assumes "processOne ctx s now st = (None, st')" "sub_row st (sub_seq s) = Some r"
    "valid_time now" "valid_time later" "civil_year now" "civil_year later"
    "time_index later = time_index now"
  shows "\<exists>r'. sub_row st' (sub_seq s) = Some r' \<and> \<not> due_for_billing d (yyyymm later) r'"
  using assms by (rule charged_once_per_month)

theorem charged_at_most_once_a_month_witness:
  "\<exists>r'. sub_row (snd (processOne good_ctx demo_sub demo_next demo_active)) 1 = Some r'
     \<and> \<not> due_for_billing 28 (yyyymm (GoTime 2025 2 28 82800000000000)) r'"
proof -
  let ?p = "processOne good_ctx demo_sub demo_next demo_active"
  have p: "fst ?p = None" by code_simp
  have t: "valid_time demo_next" "valid_time (GoTime 2025 2 28 82800000000000)" "civil_year demo_next"
    "civil_year (GoTime 2025 2 28 82800000000000)"
    "time_index (GoTime 2025 2 28 82800000000000) = time_index demo_next" by code_simp+
  have "?p = (None, snd ?p)" using p by (simp add: prod_eq_iff)
  from charged_at_most_once_a_month [OF this _ t] demo_sub_row show ?thesis by simp
qed

text \<open>A run of the job touches no subscription that is not due: rows that are not active, have
  another billing day, have ended or were already billed this month are as they were, whatever the
  gateway and the database do for the others.\<close>

theorem run_leaves_others_alone:
  assumes "ledger_ok (ps_db st)" "sub_row st j = Some r"
    "\<not> due_for_billing (clamp_day28 (day now)) (yyyymm now) r"
  shows "sub_row (snd (snd (RunOnce ctx ctxs now st))) j = Some r"
  using assms by (rule RunOnce_frame)

theorem run_leaves_others_alone_witness:
  "sub_row (snd (snd (RunOnce good_ctx (\<lambda>_. good_ctx) demo_time demo_active))) 1 = Some demo_sub"
proof -
  have "\<not> due_for_billing (clamp_day28 (day demo_time)) (yyyymm demo_time) demo_sub" by code_simp
  from run_leaves_others_alone [OF demo_ledgers(4) demo_sub_row(1) this] show ?thesis .
qed

text \<open>When the gateway cannot be reached or refuses a charge, the subscription's failure count
  goes up by one, and the third consecutive failure suspends it.\<close>

theorem refused_charge_counts:
  assumes "sub_billing_key s = Some key" "key \<noteq> []"
    "InsertOrder (px_db ctx) (sub_usr_seq s) ''P'' (sub_pay_type s) (sub_amount s) ''auto-billing''
       (ps_db st) = (Inr i, db)"
    "case AutoBilling (px_ep ctx) (px_cfg ctx) key (go_Itoa i) (sub_amount s)
       (auto_trace_no (px_utc_offset ctx) (sub_seq s) now) ''auto-billing'' of
         Inl _ \<Rightarrow> True | Inr res \<Rightarrow> ResCode res \<noteq> ''0000''"
    "faults (px_db ctx) StIncrementFail = None" "faults (px_db ctx) StReadFail = None"
    "faults (px_db ctx) StUpdateStatus = None" "sub_row st (sub_seq s) = Some r"
  shows "fst (processOne ctx s now st) \<noteq> None \<and>
    (\<exists>r'. sub_row (snd (processOne ctx s now st)) (sub_seq s) = Some r'
      \<and> sub_fail_count r' = sub_fail_count r + 1
      \<and> sub_status r' = (if sub_fail_count r + 1 \<ge> 3 then ''suspended'' else sub_status r))"
  using gateway_refusal_row [OF assms] by (auto simp: suspend_def bump_fail_def)

theorem refused_charge_counts_witness:
  "\<exists>r'. sub_row (snd (processOne bad_ctx demo_sub demo_next demo_active)) 1 = Some r' \<and> sub_fail_count r' = 1"
proof -
  have i: "fst (InsertOrder (px_db bad_ctx) (sub_usr_seq demo_sub) ''P'' (sub_pay_type demo_sub)
      (sub_amount demo_sub) ''auto-billing'' (ps_db demo_active)) = Inr 2"
    using demo_sub_row(2) by (simp add: InsertOrder_def)
  have r: "ResCode (parseEasyPayResponse demo_refusal) = ''1234''" by code_simp
  show ?thesis
    using refused_charge_counts [of demo_sub "''K1''" bad_ctx demo_active 2
        "snd (InsertOrder (px_db bad_ctx) (sub_usr_seq demo_sub) ''P'' (sub_pay_type demo_sub)
           (sub_amount demo_sub) ''auto-billing'' (ps_db demo_active))" demo_next demo_sub] demo_sub_row(1) i r
    by (auto simp: prod_eq_iff)
qed

text \<open>When the gateway approved a charge but the transaction that records it does not commit,
  the subscription stays due: the money is taken and the next run of the same billing day charges
  the card again. Days 29 to 31 are all mapped to billing day 28, so that run may be the next morning.\<close>

theorem uncommitted_charge_is_charged_again:
  assumes "charge_approved ctx s now st res i db" "faults (px_db ctx) StCommit = Some e"
    "faults (px_db ctx) StIncrementFail = None" "faults (px_db ctx) StReadFail = None"
    "faults (px_db ctx) StUpdateStatus = None"
    "sub_row st (sub_seq s) = Some r" "sub_fail_count r < 2" "due_for_billing d c r"
  shows "\<exists>err r'. fst (processOne ctx s now st) = Some err
    \<and> sub_row (snd (processOne ctx s now st)) (sub_seq s) = Some r' \<and> due_for_billing d c r'"
  using assms by (rule uncommitted_charge_stays_due)

theorem uncommitted_charge_is_charged_again_witness:
  "\<exists>r'. sub_row (snd (processOne commit_fault_ctx demo_sub demo_next demo_active)) 1 = Some r'
     \<and> due_for_billing (clamp_day28 29) (yyyymm demo_next) r'"
proof -
  have a: "due_for_billing (clamp_day28 29) (yyyymm demo_next) demo_sub" by code_simp
  let ?i = "InsertOrder (px_db commit_fault_ctx) (sub_usr_seq demo_sub) ''P'' (sub_pay_type demo_sub)
      (sub_amount demo_sub) ''auto-billing'' (ps_db demo_active)"
  have i: "fst ?i = Inr 2"
    using demo_sub_row(2) by (simp add: InsertOrder_def)
  have r: "ResCode (parseEasyPayResponse demo_answer) = ''0000''"
    "fst (go_Atoi (Amount (parseEasyPayResponse demo_answer))) = 20000" by code_simp+
  have c: "charge_approved commit_fault_ctx demo_sub demo_next demo_active (parseEasyPayResponse demo_answer) 2 (snd ?i)"
    using i r by (simp add: charge_approved_def prod_eq_iff)
  have f: "faults (px_db commit_fault_ctx) StCommit = Some (DriverError ''gone'')"
    "faults (px_db commit_fault_ctx) StIncrementFail = None" "faults (px_db commit_fault_ctx) StReadFail = None"
    "faults (px_db commit_fault_ctx) StUpdateStatus = None" by simp_all
  from uncommitted_charge_is_charged_again [OF c f, of demo_sub] a demo_sub_row(1) show ?thesis by auto
qed

section \<open>Subscriptions\<close>

lemma sort_key_Nil_iff: "sort_key k xs = [] \<longleftrightarrow> xs = []"
  by (metis length_0_conv length_sort)

text \<open>A subscription request that succeeds found no live subscription of the user and leaves one
  new pending row with the requested amount, tied to a new recurring order of that price, billed on
  a day every month has; a request that fails leaves the subscriptions as they were.\<close>

theorem subscription_created:
  assumes ok: "ledger_ok (ps_db st)" and ids: "reports_ids ctx" and now: "valid_time (px_now ctx)"
    and c: "CreateSubscription ctx user req ip st = (x, st')"
  shows "case x of
      Inl _ \<Rightarrow> subs (ps_db st') = subs (ps_db st)
    | Inr resp \<Rightarrow>
        (\<forall>s \<in> set (subs (ps_db st)). sub_usr_seq s = USRSeq user \<longrightarrow> \<not> live_status (sub_status s))
        \<and> (\<exists>s r d. subs (ps_db st') = subs (ps_db st) @ [s] \<and> sub_seq s = sub_next (ps_db st)
             \<and> sub_usr_seq s = USRSeq user \<and> sub_status s = ''pending'' \<and> sub_amount s = csr_Amount req
             \<and> sub_order_seq s = Some (resp_OrderSeq resp) \<and> sub_bill_day s = Some d \<and> 1 \<le> d \<and> d \<le> 28
             \<and> order_row st' (resp_OrderSeq resp) = Some r \<and> o_gate r = ''P'' \<and> o_price r = csr_Amount req)"
proof (cases x)
  case (Inl e)
  let ?r = "\<lparr>req_Amount = csr_Amount req, req_PayType = csr_PayType req, req_Gate = ''profile''\<rparr>"
  have "subs (ps_db (snd (CreateOrder ctx user ?r ip st))) = subs (ps_db st)" by (simp add: CreateOrder_db)
  with c Inl show ?thesis
    by (auto simp: CreateSubscription_def Insert_def split: if_splits sum.splits option.splits prod.splits)
next
  case (Inr resp)
  let ?r = "\<lparr>req_Amount = csr_Amount req, req_PayType = csr_PayType req, req_Gate = ''profile''\<rparr>"
  have g: "GetByUser (px_db ctx) (USRSeq user) (ps_db st) = Inr None"
    using c Inr by (auto simp: CreateSubscription_def split: if_splits sum.splits option.splits)
  then have live: "\<forall>s \<in> set (subs (ps_db st)). sub_usr_seq s = USRSeq user \<longrightarrow> \<not> live_status (sub_status s)"
    by (auto simp: GetByUser_def Let_def sort_key_Nil_iff filter_empty_conv split: option.splits if_splits)
  obtain st1 where o: "CreateOrder ctx user ?r ip st = (Inr resp, st1)"
    and i: "ps_db st' = add_sub (db_now (px_db ctx)) (pending_subscription (px_now ctx) user req (resp_OrderSeq resp)) (ps_db st1)"
    using c Inr g
    by (auto simp: CreateSubscription_def Insert_def split: if_splits sum.splits option.splits prod.splits)
  have st1: "subs (ps_db st1) = subs (ps_db st)" "sub_next (ps_db st1) = sub_next (ps_db st)"
    using CreateOrder_db [of ctx user ?r ip st] o by (auto simp: InsertOrder_def Let_def add_order_def split: option.splits if_splits)
  have row: "order_row st' (resp_OrderSeq resp) = Some (new_order (db_now (px_db ctx)) (resp_OrderSeq resp)
      (USRSeq user) ''P'' (csr_PayType req) (csr_Amount req) ip)"
    using CreateOrder_success(2) [OF ok ids o] i by (simp add: add_sub_def)
  have "1 \<le> clamp_day28 (day (px_now ctx))" "clamp_day28 (day (px_now ctx)) \<le> 28"
    using now by (auto simp: clamp_day28_def valid_time_def)
  with Inr live row i st1 show ?thesis
    by (simp add: add_sub_def new_sub_def pending_subscription_def new_order_def)
qed

theorem subscription_created_witness:
  "\<exists>s. subs (ps_db demo_subscribed) = [s] \<and> sub_status s = ''pending'' \<and> sub_amount s = 20000"
proof -
  let ?c = "CreateSubscription good_ctx demo_user \<lparr>csr_Amount = 20000, csr_PayType = ''CARD''\<rparr> ''ip'' demo_init"
  have "is_ok (fst ?c)" "valid_time (px_now good_ctx)" by code_simp+
  then obtain resp where "?c = (Inr resp, demo_subscribed)"
    by (auto simp: is_ok_iff demo_subscribed_def prod_eq_iff)
  from subscription_created [OF demo_ledgers(1) demo_no_faults(2) \<open>valid_time (px_now good_ctx)\<close> this]
  show ?thesis by (auto simp: demo_init_def empty_db_def)
qed

text \<open>A cancellation that succeeds was asked for by the owner of a live subscription, and that
  row is cancelled.\<close>

theorem cancellation_by_owner:
  assumes "CancelSubscription ctx u i st = (None, st')" "ledger_ok (ps_db st)"
  shows "\<exists>r r'. sub_row st i = Some r \<and> sub_usr_seq r = u \<and> live_status (sub_status r)
    \<and> sub_row st' i = Some r' \<and> sub_status r' = ''cancelled''"
  using assms by (rule cancel_row)

definition demo_cancelled :: pay_state where
  "demo_cancelled = snd (CancelSubscription good_ctx 7 1 demo_subscribed)"

theorem cancellation_by_owner_witness:
  "\<exists>r'. sub_row demo_cancelled 1 = Some r' \<and> sub_status r' = ''cancelled''"
proof -
  have "fst (CancelSubscription good_ctx 7 1 demo_subscribed) = None" by code_simp
  then have "CancelSubscription good_ctx 7 1 demo_subscribed = (None, demo_cancelled)"
    by (simp add: demo_cancelled_def prod_eq_iff)
  from cancellation_by_owner [OF this demo_ledgers(3)] show ?thesis by blast
qed

text \<open>A first payment that is confirmed after its subscription was cancelled makes the
  subscription active again with the new billing key: the confirmation looks the subscription up by
  order alone and activates it whatever its status.\<close>

theorem late_payment_revives_cancelled:
  assumes "ledger_ok (ps_db st)" "no_faults ctx" "go_Atoi n = (i, None)"
    "order_row st i = Some r" "o_payment r = ''N''" "o_gate r = ''P''"
    "sql_get (\<lambda>x. sub_order_seq x = Some i) (subs (ps_db st)) = Some s" "sub_status s = ''cancelled''"
    "Approve (px_ep ctx) (px_cfg ctx)
         \<lparr>ar_OrderNo = n, ar_EncryptData = enc, ar_SessionKey = key, ar_TraceNo = tr, ar_ClientIP = ip\<rparr>
         ''profile'' = Inr res" "ResCode res = ''0000''" "fst (go_Atoi (Amount res)) = o_price r"
  shows "\<exists>s'. sub_row (snd (ConfirmPayment ctx n enc key tr ip st)) (sub_seq s) = Some s'
     \<and> sub_status s' = ''active'' \<and> sub_billing_key s' = Some (CNO res)"
  using late_payment_activates [OF assms(1-7) assms(9-11)] by blast

theorem late_payment_revives_cancelled_witness:
  "\<exists>s'. sub_row (snd (ConfirmPayment good_ctx ''1'' ''e'' ''k'' ''t'' ''ip'' demo_cancelled)) 1 = Some s'
     \<and> sub_status s' = ''active''"
proof -
  let ?r = "the (order_row demo_cancelled 1)" and ?s = "the (sub_row demo_cancelled 1)"
  have a: "go_Atoi ''1'' = (1, None)" "order_row demo_cancelled 1 = Some ?r" "o_payment ?r = ''N''" "o_gate ?r = ''P''"
    "sql_get (\<lambda>x. sub_order_seq x = Some 1) (subs (ps_db demo_cancelled)) = Some ?s"
    "sub_status ?s = ''cancelled''" "sub_seq ?s = 1" by code_simp+
  have r: "ResCode (parseEasyPayResponse demo_answer) = ''0000''"
    "fst (go_Atoi (Amount (parseEasyPayResponse demo_answer))) = o_price ?r" by code_simp+
  have ok: "ledger_ok (ps_db demo_cancelled)"
    by (simp add: demo_cancelled_def ledger_CancelSubscription demo_ledgers)
  from late_payment_revives_cancelled [OF ok demo_no_faults(1) [of demo_answer] a(1-6) _ r, of "''e''" "''k''" "''t''" "''ip''"] a(7)
  show ?thesis by auto
qed

definition demo_twice :: "pay_op list" where
  "demo_twice =
     [OpCreateSubscription good_ctx demo_user \<lparr>csr_Amount = 20000, csr_PayType = ''CARD''\<rparr> ''ip'',
      OpCancelSubscription good_ctx 7 1,
      OpCreateSubscription good_ctx demo_user \<lparr>csr_Amount = 20000, csr_PayType = ''CARD''\<rparr> ''ip'',
      OpConfirmPayment good_ctx ''2'' ''e'' ''k'' ''t'' ''ip'',
      OpConfirmPayment good_ctx ''1'' ''e'' ''k'' ''t'' ''ip'']"

text \<open>So one donor can end up paying twice a month: subscribe, cancel, subscribe again, pay the
  second order and then the first. Both rows are active.\<close>

theorem two_active_subscriptions:
  "map (\<lambda>s. (sub_usr_seq s, sub_status s)) (subs (ps_db (run pay_step demo_init demo_twice)))
   = [(7, ''active''), (7, ''active'')]"
  by code_simp

section \<open>Texts\<close>

text \<open>The gateway's answer as it prints it.\<close>

definition render_result :: "ApproveResult \<Rightarrow> string" where
  "render_result r = go_Join CHR 0x1F (map render_field
     [(''res_cd'', ResCode r), (''res_msg'', ResMsg r), (''cno'', CNO r), (''amount'', Amount r),
      (''auth_no'', AuthNo r), (''tran_date'', TranDate r), (''card_no'', CardNo r),
      (''pay_type'', PayType r), (''issuer_nm'', IssuerName r), (''acquirer_nm'', AcquirerName r)])"

definition clean_value :: "string \<Rightarrow> bool" where
  "clean_value v = (CHR 0x1F \<notin> set v \<and> go_TrimSpace v = v)"

lemma easypay_keys_trim [simp]:
  "go_TrimSpace ''res_cd'' = ''res_cd''" "go_TrimSpace ''res_msg'' = ''res_msg''" "go_TrimSpace ''cno'' = ''cno''"
  "go_TrimSpace ''amount'' = ''amount''" "go_TrimSpace ''auth_no'' = ''auth_no''" "go_TrimSpace ''tran_date'' = ''tran_date''"
  "go_TrimSpace ''card_no'' = ''card_no''" "go_TrimSpace ''pay_type'' = ''pay_type''"
  "go_TrimSpace ''issuer_nm'' = ''issuer_nm''" "go_TrimSpace ''acquirer_nm'' = ''acquirer_nm''"
  by (simp_all add: go_TrimSpace_plain plain_byte_def)

text \<open>An approval printed the way the gateway does is read back field by field, also when a
  value holds equals signs, as long as values carry no unit separator and no outer white space.\<close>

theorem easypay_answer_round_trip:
  assumes "clean_value (ResCode r)" "clean_value (ResMsg r)" "clean_value (CNO r)" "clean_value (Amount r)"
    "clean_value (AuthNo r)" "clean_value (TranDate r)" "clean_value (CardNo r)" "clean_value (PayType r)"
    "clean_value (IssuerName r)" "clean_value (AcquirerName r)"
  shows "parseEasyPayResponse (render_result r) = r"
proof -
  let ?kvs = "[(''res_cd'', ResCode r), (''res_msg'', ResMsg r), (''cno'', CNO r), (''amount'', Amount r),
      (''auth_no'', AuthNo r), (''tran_date'', TranDate r), (''card_no'', CardNo r),
      (''pay_type'', PayType r), (''issuer_nm'', IssuerName r), (''acquirer_nm'', AcquirerName r)]"
  have "go_Split CHR 0x1F (render_result r) = map render_field ?kvs"
    unfolding render_result_def
    by (rule go_Split_Join) (use assms in \<open>simp_all add: clean_value_def render_field_def\<close>)
  moreover have "easypay_fields (map render_field ?kvs) Map.empty = Map.empty ++ map_of (rev ?kvs)"
    using assms by (intro easypay_fields_render) (simp add: clean_value_def)
  ultimately show ?thesis by (simp add: parseEasyPayResponse_def map_get_def)
qed

theorem easypay_answer_round_trip_witness:
  "CNO (parseEasyPayResponse (render_result
     \<lparr>ResCode = ''0000'', ResMsg = ''a=b'', CNO = ''K9'', Amount = ''20000'', AuthNo = ''1'', TranDate = ''2'',
      CardNo = [], PayType = ''11'', IssuerName = [], AcquirerName = []\<rparr>)) = ''K9''"
  by (subst easypay_answer_round_trip) (simp_all add: clean_value_def go_TrimSpace_plain plain_byte_def)

lemma comma_groups:
  assumes "CHR '','' \<notin> set s"
  shows "\<exists>g gs. go_Split CHR '','' (comma_loop False s) = g # gs \<and> concat (g # gs) = s
    \<and> length g = length s mod 3 \<and> (\<forall>h \<in> set gs. length h = 3)"
  using assms
proof (induction s)
  case (Cons c s)
  then obtain g gs where g: "go_Split CHR '','' (comma_loop False s) = g # gs" "concat (g # gs) = s"
    "length g = length s mod 3" "\<forall>h \<in> set gs. length h = 3" by auto
  have c: "c \<noteq> CHR '',''" using Cons.prems by auto
  show ?case
  proof (cases "Suc (length s) mod 3 = 0")
    case True
    then have "length s mod 3 = 2" by presburger
    with True g c show ?thesis by simp
  next
    case False
    then have "Suc (length s) mod 3 = Suc (length s mod 3)" by presburger
    with False g c show ?thesis by simp
  qed
qed simp

lemma go_Itoa_no_comma: "CHR '','' \<notin> set (go_Itoa n)"
  using show_digits_digits by (auto simp: go_Itoa_def is_digit_def)

text \<open>The amount in the product name is the amount in decimal, cut by commas into a first group
  of one to three digits and further groups of exactly three, for every amount that is not negative.\<close>

theorem formatComma_groups:
  assumes "0 \<le> n"
  shows "\<exists>g gs. go_Split CHR '','' (formatComma n) = g # gs \<and> concat (g # gs) = go_Itoa n
    \<and> 1 \<le> length g \<and> length g \<le> 3 \<and> (\<forall>h \<in> set gs. length h = 3)"
proof (cases "length (go_Itoa n) \<le> 3")
  case True
  have "go_Itoa n \<noteq> []" using assms by (simp add: go_Itoa_def)
  then have "1 \<le> length (go_Itoa n)" by (cases "go_Itoa n") simp_all
  with True show ?thesis by (simp add: formatComma_def go_Split_single go_Itoa_no_comma)
next
  case False
  then obtain c cs where c: "go_Itoa n = c # cs" by (cases "go_Itoa n") auto
  then have cs: "CHR '','' \<notin> set cs" "c \<noteq> CHR '',''" using go_Itoa_no_comma [of n] by auto
  obtain g gs where g: "go_Split CHR '','' (comma_loop False cs) = g # gs" "concat (g # gs) = cs"
    "length g = length cs mod 3" "\<forall>h \<in> set gs. length h = 3" using comma_groups [OF cs(1)] by blast
  have "formatComma n = c # comma_loop False cs" using False c by (simp add: formatComma_def)
  then have "go_Split CHR '','' (formatComma n) = (c # g) # gs" using cs g by simp
  moreover have "length g < 3" using g(3) by simp
  ultimately show ?thesis using g(2,4) c by simp
qed

theorem formatComma_groups_witness:
  "formatComma 1234567 = ''1,234,567'' \<and> concat (go_Split CHR '','' (formatComma 1234567)) = go_Itoa 1234567"
proof
  show "formatComma 1234567 = ''1,234,567''" by code_simp
  show "concat (go_Split CHR '','' (formatComma 1234567)) = go_Itoa 1234567"
    using formatComma_groups [of 1234567, OF zero_le_numeral] by metis
qed

end
