(* ===== verification/App_Update.thy ===== *)
theory App_Update
  imports Go_Strings
begin

text \<open>
  Update enforcement for the mobile apps: the decision rules (\<^verbatim>\<open>service/app_update_evaluator.go\<close>),
  the validation of a policy an administrator submits
  (\<^verbatim>\<open>service/app_update_policy_validation.go\<close>), the version headers
  (\<^verbatim>\<open>middleware/client_app_headers.go\<close>) and the gate in front of the API
  (\<^verbatim>\<open>middleware/app_version_gate.go\<close>). The lemmas relate them: a policy that passes validation
  never reaches a client on the newest build, and the gate never turns a client away for a reason
  other than a forced update it can perform.
\<close>

section \<open>Policies and decisions\<close>

record AppUpdatePolicy =
  ForceEnabled :: bool
  MinBuild :: int
  RecommendEnabled :: bool
  RecommendedBuild :: int
  MinOSVersion :: string
  StoreURL :: string

datatype AppUpdateDecision = DecisionNone | DecisionRecommend | DecisionForce | DecisionUnsupportedOS

definition IsSupportedAppPlatform :: "string \<Rightarrow> bool" where
  "IsSupportedAppPlatform platform = (platform = ''ios'' \<or> platform = ''android'')"

definition AppUpdatePolicyKey :: "string \<Rightarrow> string" where
  "AppUpdatePolicyKey platform = ''app_update_policy_'' @ platform"

section \<open>Evaluation\<close>

text \<open>The loop over the segments; \<open>None\<close> is the early return with \<^verbatim>\<open>false\<close>.\<close>

fun parse_segments :: "string list \<Rightarrow> int list option" where
  "parse_segments [] = Some []"
| "parse_segments (s # ss) =
     (case go_Atoi s of
        (_, Some _) \<Rightarrow> None
      | (v, None) \<Rightarrow>
          if v < 0 then None
          else (case parse_segments ss of None \<Rightarrow> None | Some vs \<Rightarrow> Some (v # vs)))"

abbreviation (input) maxOSVersionSegments :: nat where "maxOSVersionSegments \<equiv> 3"

definition parseOSVersion :: "string \<Rightarrow> (int \<times> int \<times> int) option" where
  "parseOSVersion version =
     (let trimmed = go_TrimSpace version;
          segments = go_Split CHR ''.'' trimmed
      in if trimmed = [] then None
         else if length segments > maxOSVersionSegments then None
         else (case parse_segments segments of
                 None \<Rightarrow> None
               | Some vs \<Rightarrow>
                   (case vs @ [0, 0, 0] of
                      a # b # c # _ \<Rightarrow> Some (a, b, c)
                    | _ \<Rightarrow> None)))"

definition isOSVersionBelow :: "string \<Rightarrow> string \<Rightarrow> bool" where
  "isOSVersionBelow deviceVersion minimumVersion =
     (case (parseOSVersion deviceVersion, parseOSVersion minimumVersion) of
        (Some (d0, d1, d2), Some (m0, m1, m2)) \<Rightarrow>
          if d0 \<noteq> m0 then d0 < m0
          else if d1 \<noteq> m1 then d1 < m1
          else if d2 \<noteq> m2 then d2 < m2
          else False
      | _ \<Rightarrow> False)"

definition needsForce :: "AppUpdatePolicy \<Rightarrow> int \<Rightarrow> bool" where
  "needsForce policy build = (ForceEnabled policy \<and> MinBuild policy > 0 \<and> build < MinBuild policy)"

definition needsRecommend :: "AppUpdatePolicy \<Rightarrow> int \<Rightarrow> bool" where
  "needsRecommend policy build =
     (RecommendEnabled policy \<and> RecommendedBuild policy > 0 \<and> build < RecommendedBuild policy)"

definition EvaluateAppUpdate :: "AppUpdatePolicy \<Rightarrow> int \<Rightarrow> string \<Rightarrow> AppUpdateDecision" where
  "EvaluateAppUpdate policy build osVersion =
     (if build \<le> 0 then DecisionNone
      else if \<not> needsForce policy build \<and> \<not> needsRecommend policy build then DecisionNone
      else if isOSVersionBelow osVersion (MinOSVersion policy) then DecisionUnsupportedOS
      else if needsForce policy build then DecisionForce
      else DecisionRecommend)"

section \<open>Validation\<close>

datatype policy_reason =
    UnsupportedPlatform | MustBeNonNegative | ForceNeedsMinBuild | RecommendNeedsBuild
  | RecommendedBelowMin | UnobservedBuild | AndroidNeedsApiLevel | DottedVersionNeeded
  | StoreURLUnused | StoreURLRequired | StoreURLPrefix

record AppUpdatePolicyFieldError =
  Field :: string
  Reason :: policy_reason

definition all_digits :: "string \<Rightarrow> bool" where
  "all_digits s = (s \<noteq> [] \<and> list_all is_digit s)"

text \<open>\<^verbatim>\<open>^\d+(\.\d+){0,2}$\<close> and \<^verbatim>\<open>^\d+$\<close>.\<close>

definition dottedOSVersionPattern :: "string \<Rightarrow> bool" where
  "dottedOSVersionPattern s =
     (let segs = go_Split CHR ''.'' s in length segs \<le> 3 \<and> list_all all_digits segs)"

definition apiLevelPattern :: "string \<Rightarrow> bool" where
  "apiLevelPattern s = all_digits s"

definition iosStoreURLPrefix :: string where
  "iosStoreURLPrefix = ''https://apps.apple.com/''"

definition validateIOSStoreURL :: "AppUpdatePolicy \<Rightarrow> AppUpdatePolicyFieldError list" where
  "validateIOSStoreURL policy =
     (let storeURL = go_TrimSpace (StoreURL policy)
      in if storeURL = [] then
           (if ForceEnabled policy \<or> RecommendEnabled policy
            then [\<lparr>Field = ''storeUrl'', Reason = StoreURLRequired\<rparr>] else [])
         else if \<not> go_HasPrefix storeURL iosStoreURLPrefix
         then [\<lparr>Field = ''storeUrl'', Reason = StoreURLPrefix\<rparr>] else [])"

definition add_if :: "bool \<Rightarrow> string \<Rightarrow> policy_reason \<Rightarrow> AppUpdatePolicyFieldError list" where
  "add_if c field reason = (if c then [\<lparr>Field = field, Reason = reason\<rparr>] else [])"

text \<open>The rejected fields in the order the code adds them; no field means the policy is accepted.\<close>

definition ValidateAppUpdatePolicy ::
  "string \<Rightarrow> AppUpdatePolicy \<Rightarrow> int \<Rightarrow> bool \<Rightarrow> AppUpdatePolicyFieldError list" where
  "ValidateAppUpdatePolicy platform policy latestObservedBuild allowUnobservedBuild =
     add_if (\<not> IsSupportedAppPlatform platform) ''platform'' UnsupportedPlatform
   @ add_if (MinBuild policy < 0) ''minBuild'' MustBeNonNegative
   @ add_if (RecommendedBuild policy < 0) ''recommendedBuild'' MustBeNonNegative
   @ add_if (ForceEnabled policy \<and> MinBuild policy \<le> 0) ''minBuild'' ForceNeedsMinBuild
   @ add_if (RecommendEnabled policy \<and> RecommendedBuild policy \<le> 0) ''recommendedBuild'' RecommendNeedsBuild
   @ add_if (ForceEnabled policy \<and> RecommendEnabled policy \<and> RecommendedBuild policy < MinBuild policy)
       ''recommendedBuild'' RecommendedBelowMin
   @ (if \<not> allowUnobservedBuild then
        add_if (ForceEnabled policy \<and> MinBuild policy > latestObservedBuild) ''minBuild'' UnobservedBuild
      @ add_if (RecommendEnabled policy \<and> RecommendedBuild policy > latestObservedBuild)
          ''recommendedBuild'' UnobservedBuild
      else [])
   @ (if platform = ''android'' then
        add_if (\<not> apiLevelPattern (MinOSVersion policy)) ''minOsVersion'' AndroidNeedsApiLevel
      else add_if (\<not> dottedOSVersionPattern (MinOSVersion policy)) ''minOsVersion'' DottedVersionNeeded)
   @ (if platform = ''ios'' then validateIOSStoreURL policy
      else add_if (go_TrimSpace (StoreURL policy) \<noteq> []) ''storeUrl'' StoreURLUnused)"

section \<open>The request headers and the gate\<close>

text \<open>A request: \<^verbatim>\<open>Header.Get\<close> (empty when absent) and the path.\<close>

record http_request =
  header :: "string \<Rightarrow> string"
  url_path :: string

record clientAppHeaders =
  Platform :: string
  Build :: int
  VersionName :: string
  OSVersion :: string

text \<open>\<^verbatim>\<open>strings.ToLower\<close> on the bytes of a string, as far as the comparison with the platform
  names can see it: besides the ASCII letters, the only characters whose lower case is ASCII are
  the dotted capital I (\<^verbatim>\<open>C4 B0\<close>) and the Kelvin sign (\<^verbatim>\<open>E2 84 AA\<close>).\<close>

fun go_ToLower :: "string \<Rightarrow> string" where
  "go_ToLower [] = []"
| "go_ToLower (a # rest) =
     (case rest of
        b # rest2 \<Rightarrow>
          if a = CHR 0xC4 \<and> b = CHR 0xB0 then CHR ''i'' # go_ToLower rest2
          else (case rest2 of
                  c # rest3 \<Rightarrow>
                    if a = CHR 0xE2 \<and> b = CHR 0x84 \<and> c = CHR 0xAA then CHR ''k'' # go_ToLower rest3
                    else ascii_lower a # go_ToLower rest
                | [] \<Rightarrow> ascii_lower a # go_ToLower rest)
      | [] \<Rightarrow> [ascii_lower a])"

definition readClientAppHeaders :: "http_request \<Rightarrow> clientAppHeaders option" where
  "readClientAppHeaders r =
     (let platform = go_ToLower (go_TrimSpace (header r ''X-App-Platform''))
      in if \<not> IsSupportedAppPlatform platform then None
         else (case go_Atoi (go_TrimSpace (header r ''X-App-Build'')) of
                 (_, Some _) \<Rightarrow> None
               | (build, None) \<Rightarrow>
                   if build \<le> 0 then None
                   else Some \<lparr>Platform = platform, Build = build,
                              VersionName = header r ''X-App-Version'',
                              OSVersion = header r ''X-App-OS-Version''\<rparr>))"

definition appVersionGateExemptPaths :: "string list" where
  "appVersionGateExemptPaths =
     [''/api/mobile/telemetry'', ''/api/health'', ''/api/settings/public'', ''/api/auth/logout'',
      ''/api/auth/logout/deferred'', ''/api/auth/logout/all/deferred'', ''/api/auth/logout/all'']"

datatype gate_outcome = ServeNext | UpgradeRequired

text \<open>\<open>getPolicy\<close> is the policy provider; \<open>None\<close> is its error.\<close>

definition AppVersionGate :: "(string \<Rightarrow> AppUpdatePolicy option) \<Rightarrow> http_request \<Rightarrow> gate_outcome" where
  "AppVersionGate getPolicy r =
     (case readClientAppHeaders r of
        None \<Rightarrow> ServeNext
      | Some headers \<Rightarrow>
          if url_path r \<in> set appVersionGateExemptPaths then ServeNext
          else (case getPolicy (Platform headers) of
                  None \<Rightarrow> ServeNext
                | Some policy \<Rightarrow>
                    if EvaluateAppUpdate policy (Build headers) (OSVersion headers) \<noteq> DecisionForce
                    then ServeNext else UpgradeRequired))"

section \<open>Lemmas\<close>

lemma add_if_Nil [simp]: "add_if c f r = [] \<longleftrightarrow> \<not> c"
  by (simp add: add_if_def)

lemma EvaluateAppUpdate_force:
  "EvaluateAppUpdate p b os = DecisionForce \<longleftrightarrow>
     0 < b \<and> needsForce p b \<and> \<not> isOSVersionBelow os (MinOSVersion p)"
  by (auto simp: EvaluateAppUpdate_def)

lemma EvaluateAppUpdate_none:
  "EvaluateAppUpdate p b os = DecisionNone \<longleftrightarrow> b \<le> 0 \<or> \<not> needsForce p b \<and> \<not> needsRecommend p b"
  by (auto simp: EvaluateAppUpdate_def)

lemma validated_thresholds:
  assumes "ValidateAppUpdatePolicy pl p latest False = []"
  shows "ForceEnabled p \<Longrightarrow> 0 < MinBuild p \<and> MinBuild p \<le> latest"
    "RecommendEnabled p \<Longrightarrow> 0 < RecommendedBuild p \<and> RecommendedBuild p \<le> latest"
  using assms by (simp_all add: ValidateAppUpdatePolicy_def)

lemma validated_newest_none:
  assumes "ValidateAppUpdatePolicy pl p latest False = []" "latest \<le> b"
  shows "EvaluateAppUpdate p b os = DecisionNone"
  using validated_thresholds [OF assms(1)] assms(2)
  by (auto simp: EvaluateAppUpdate_none needsForce_def needsRecommend_def)

lemma AppVersionGate_blocks:
  "AppVersionGate gp r = UpgradeRequired \<longleftrightarrow>
     (\<exists>h p. readClientAppHeaders r = Some h \<and> url_path r \<notin> set appVersionGateExemptPaths
        \<and> gp (Platform h) = Some p \<and> EvaluateAppUpdate p (Build h) (OSVersion h) = DecisionForce)"
  by (auto simp: AppVersionGate_def split: option.splits)

text \<open>Digit strings of up to 18 digits are read by \<open>go_Atoi\<close>.\<close>

lemma scan_uint_small:
  assumes "list_all is_digit s" "0 \<le> a" "a < 10 ^ (18 - length s)" "length s \<le> 18"
  shows "\<exists>v. scan_uint a s = Inr v \<and> 0 \<le> v \<and> v < 10 ^ 18"
  using assms
proof (induction s arbitrary: a)
  case (Cons c s)
  have d: "0 \<le> digit_val c" "digit_val c < 10" using digit_val_range by auto
  have "(10::int) ^ (18 - length s) = 10 * 10 ^ (18 - length (c # s))"
    using Cons.prems(4) by (simp add: Suc_diff_Suc [symmetric] del: power_Suc) (simp add: Suc_diff_le)
  then have b: "a * 10 + digit_val c < 10 ^ (18 - length s)" using Cons.prems(3) d by linarith
  also have "(10::int) ^ (18 - length s) \<le> 10 ^ 18" by (rule power_increasing) simp_all
  finally have "a * 10 + digit_val c \<le> max_uint64" by simp
  with Cons.IH [of "a * 10 + digit_val c"] Cons.prems b d show ?case by simp
qed simp

lemma go_Atoi_digits:
  assumes "all_digits s" "length s \<le> 18"
  shows "\<exists>v. go_Atoi s = (v, None) \<and> 0 \<le> v"
proof -
  obtain c cs where c: "s = c # cs" using assms(1) by (cases s) (auto simp: all_digits_def)
  then have "c \<noteq> CHR ''-''" "c \<noteq> CHR ''+''"
    using assms(1) digit_not_sign [of c] by (auto simp: all_digits_def)
  moreover obtain v where "scan_uint 0 s = Inr v" "0 \<le> v" "v < 10 ^ 18"
    using scan_uint_small [of s 0] assms by (auto simp: all_digits_def)
  ultimately show ?thesis using c by (simp add: go_Atoi_def parse_magnitude_def)
qed

lemma parse_segments_digits:
  "list_all (\<lambda>s. all_digits s \<and> length s \<le> 18) ss \<Longrightarrow> \<exists>vs. parse_segments ss = Some vs \<and> length vs = length ss"
proof (induction ss)
  case (Cons s ss)
  then obtain v vs where "go_Atoi s = (v, None)" "0 \<le> v" "parse_segments ss = Some vs" "length vs = length ss"
    using go_Atoi_digits [of s] by auto
  then show ?case by simp
qed simp

lemma plain_digit: "is_digit c \<Longrightarrow> plain_byte c"
  by (auto simp: is_digit_def plain_byte_def)

text \<open>A dotted version has digits at both ends, so that nothing is trimmed.\<close>

lemma go_Join_ends:
  "ps \<noteq> [] \<Longrightarrow> list_all all_digits ps \<Longrightarrow>
   go_Join c ps \<noteq> [] \<and> hd (go_Join c ps) = hd (hd ps) \<and> last (go_Join c ps) = last (last ps)"
  by (induction c ps rule: go_Join.induct) (auto simp: all_digits_def)

lemma split_ends:
  assumes "list_all all_digits (go_Split c s)"
  shows "s \<noteq> [] \<and> is_digit (hd s) \<and> is_digit (last s)"
proof -
  have "all_digits (hd (go_Split c s))" "all_digits (last (go_Split c s))"
    using assms by (simp_all add: list_all_iff)
  then have "is_digit (hd (hd (go_Split c s)))" "is_digit (last (last (go_Split c s)))"
    by (simp_all add: all_digits_def list_all_iff)
  with go_Join_ends [OF go_Split_nonempty assms, of c] show ?thesis by (simp add: go_Join_Split)
qed

lemma dotted_version_parses:
  assumes "dottedOSVersionPattern s" "list_all (\<lambda>x. length x \<le> 18) (go_Split CHR ''.'' s)"
  shows "parseOSVersion s \<noteq> None"
proof -
  let ?ss = "go_Split CHR ''.'' s"
  have d: "list_all all_digits ?ss" "length ?ss \<le> 3" using assms(1) by (simp_all add: dottedOSVersionPattern_def Let_def)
  have t: "s \<noteq> []" "go_TrimSpace s = s"
    using split_ends [OF d(1)] by (auto intro: go_TrimSpace_plain plain_digit)
  obtain vs where vs: "parse_segments ?ss = Some vs" "length vs = length ?ss"
    using parse_segments_digits [of ?ss] d(1) assms(2) by (auto simp: list_all_iff)
  then have "\<exists>a b c r. vs @ [0, 0, 0] = a # b # c # r"
    by (cases vs; cases "tl vs"; cases "tl (tl vs)") auto
  with vs d t show ?thesis by (auto simp: parseOSVersion_def)
qed

section \<open>Properties\<close>

text \<open>A scenario: the newest build seen is 120, and older ones than 100 are turned away.\<close>

definition demo_policy :: AppUpdatePolicy where
  "demo_policy = \<lparr>ForceEnabled = True, MinBuild = 100, RecommendEnabled = True, RecommendedBuild = 120,
     MinOSVersion = ''16.4'', StoreURL = ''https://apps.apple.com/app/1''\<rparr>"

definition demo_request :: "string \<Rightarrow> string \<Rightarrow> http_request" where
  "demo_request build path =
     \<lparr>header = (\<lambda>h. if h = ''X-App-Platform'' then '' IOS'' else if h = ''X-App-Build'' then build
                    else if h = ''X-App-OS-Version'' then ''17.1'' else []),
      url_path = path\<rparr>"

text \<open>A policy that validation accepted against the newest observed build shows nothing to a
  client on that build or a newer one, and when the gate uses only such policies it lets every
  such client through: an administrator cannot lock out the users of the current release.\<close>

theorem validated_policy_spares_newest:
  assumes "ValidateAppUpdatePolicy pl p latest False = []" "latest \<le> build"
    "\<And>q. getPolicy (Platform h) = Some q \<Longrightarrow> q = p"
    "readClientAppHeaders r = Some h" "Build h = build"
  shows "EvaluateAppUpdate p build os = DecisionNone \<and> AppVersionGate getPolicy r = ServeNext"
proof -
  have n: "EvaluateAppUpdate p build v = DecisionNone" for v
    by (rule validated_newest_none [OF assms(1,2)])
  have "AppVersionGate getPolicy r \<noteq> UpgradeRequired"
    unfolding AppVersionGate_blocks using assms(3-5) n by (metis AppUpdateDecision.distinct(3) option.inject)
  with n show ?thesis by (metis gate_outcome.exhaust)
qed

theorem validated_policy_spares_newest_witness:
  "AppVersionGate (\<lambda>_. Some demo_policy) (demo_request ''120'' ''/api/feed'') = ServeNext
   \<and> AppVersionGate (\<lambda>_. Some demo_policy) (demo_request ''99'' ''/api/feed'') = UpgradeRequired"
proof
  let ?r = "demo_request ''120'' ''/api/feed''"
  let ?h = "\<lparr>Platform = ''ios'', Build = 120, VersionName = [], OSVersion = ''17.1''\<rparr>"
  have v: "ValidateAppUpdatePolicy ''ios'' demo_policy 120 False = []" by code_simp
  have h: "readClientAppHeaders ?r = Some ?h" by code_simp
  show "AppVersionGate (\<lambda>_. Some demo_policy) ?r = ServeNext"
    using validated_policy_spares_newest [OF v, of 120 "\<lambda>_. Some demo_policy" ?h ?r] h by simp
  show "AppVersionGate (\<lambda>_. Some demo_policy) (demo_request ''99'' ''/api/feed'') = UpgradeRequired" by code_simp
qed


text \<open>Updating the app never makes things worse: if a build is told to update, or is turned
  away, then so is every older known build on the same device.\<close>

theorem older_builds_are_treated_no_better:
  assumes "0 < older" "older \<le> newer"
  shows "(EvaluateAppUpdate p newer os = DecisionForce \<longrightarrow> EvaluateAppUpdate p older os = DecisionForce)
    \<and> (EvaluateAppUpdate p newer os = DecisionUnsupportedOS \<longrightarrow> EvaluateAppUpdate p older os = DecisionUnsupportedOS)
    \<and> (EvaluateAppUpdate p newer os \<noteq> DecisionNone \<longrightarrow> EvaluateAppUpdate p older os \<noteq> DecisionNone)"
  using assms by (auto simp: EvaluateAppUpdate_def needsForce_def needsRecommend_def)

theorem older_builds_are_treated_no_better_witness:
  "EvaluateAppUpdate demo_policy 90 ''17'' = DecisionForce"
proof -
  have "EvaluateAppUpdate demo_policy 99 ''17'' = DecisionForce" by code_simp
  with older_builds_are_treated_no_better [of 90 99 demo_policy "''17''"] show ?thesis by simp
qed

text \<open>A minimum system version that validation accepts for iOS, with segments of up to 18 digits,
  is one the evaluator can read, so that the notice it configures is not switched off.\<close>

theorem accepted_version_is_read:
  assumes "ValidateAppUpdatePolicy ''ios'' p latest b = []"
    "list_all (\<lambda>x. length x \<le> 18) (go_Split CHR ''.'' (MinOSVersion p))"
  shows "parseOSVersion (MinOSVersion p) \<noteq> None"
proof -
  have "dottedOSVersionPattern (MinOSVersion p)" using assms(1) by (simp add: ValidateAppUpdatePolicy_def)
  then show ?thesis using assms(2) by (rule dotted_version_parses)
qed

theorem accepted_version_is_read_witness: "parseOSVersion (MinOSVersion demo_policy) \<noteq> None"
proof -
  have "ValidateAppUpdatePolicy ''ios'' demo_policy 120 False = []"
    "list_all (\<lambda>x. length x \<le> 18) (go_Split CHR ''.'' (MinOSVersion demo_policy))" by code_simp+
  then show ?thesis by (rule accepted_version_is_read)
qed

text \<open>The bound on the digits matters: a policy with a longer number is accepted, the evaluator
  cannot read it, and a device the operator meant to exempt is forced to update.\<close>

theorem accepted_version_out_of_range:
  "ValidateAppUpdatePolicy ''android''
     \<lparr>ForceEnabled = True, MinBuild = 10, RecommendEnabled = False, RecommendedBuild = 0,
      MinOSVersion = ''99999999999999999999'', StoreURL = []\<rparr> 10 False = []
   \<and> EvaluateAppUpdate
     \<lparr>ForceEnabled = True, MinBuild = 10, RecommendEnabled = False, RecommendedBuild = 0,
      MinOSVersion = ''99999999999999999999'', StoreURL = []\<rparr> 9 ''26'' = DecisionForce"
  by code_simp

end
