(* ===== verification/Realtime_Hub.thy ===== *)
theory Realtime_Hub
  imports Go_Strings
begin

text \<open>
  The in-process event hub (\<^verbatim>\<open>realtime/hub.go\<close>). Subscribers and payload maps are heap objects:
  a subscriber is a pointer to its channel, a map payload is an address, and publishing writes the
  event number into the map the caller passed. Every operation runs under the hub's mutex. A send
  on a full channel that has no \<^verbatim>\<open>default\<close> blocks, a send on a closed channel and a second close
  panic; both are outcomes of the model. The lemmas show that neither is reached, and what a client
  that reconnects receives.
\<close>

section \<open>The heap\<close>

datatype go_any = AnyInt64 int | AnyOther string

text \<open>A payload is a \<^verbatim>\<open>map[string]any\<close> (an address; one that is not allocated is the nil map) or
  any other value.\<close>

datatype payload = PMap nat | POther string

record Event =
  ev_Type :: string
  ev_Payload :: payload

record Subscriber =
  sb_UserSeq :: int
  sb_Ch :: "Event list"
  sb_closed :: bool

record Hub =
  subscribers :: "int \<rightharpoonup> nat list"
  history :: "int \<Rightarrow> Event list"
  nextEventID :: int
  sub_heap :: "nat \<rightharpoonup> Subscriber"
  sub_brk :: nat
  map_heap :: "nat \<rightharpoonup> (string \<rightharpoonup> go_any)"
  map_brk :: nat

abbreviation (input) eventHistoryLimit :: nat where "eventHistoryLimit \<equiv> 256"
abbreviation (input) subscriberBuffer :: nat where "subscriberBuffer \<equiv> eventHistoryLimit"

datatype 'a hub_out = HubDone 'a Hub | HubPanic | HubBlocked

text \<open>Wrap-around of a 64-bit signed integer.\<close>

definition go_int64 :: "int \<Rightarrow> int" where
  "go_int64 i = (i + two63) mod (2 * two63) - two63"

lemma go_int64_id [simp]: "int64 i \<Longrightarrow> go_int64 i = i"
  by (simp add: go_int64_def)

section \<open>Operations\<close>

definition NewHub :: "int \<Rightarrow> Hub" where
  "NewHub nowMilli =
     \<lparr>subscribers = Map.empty, history = (\<lambda>_. []), nextEventID = nowMilli, sub_heap = Map.empty,
      sub_brk = 0, map_heap = Map.empty, map_brk = 1\<rparr>"

definition eventID :: "(nat \<rightharpoonup> (string \<rightharpoonup> go_any)) \<Rightarrow> Event \<Rightarrow> int" where
  "eventID heap ev =
     (case ev_Payload ev of
        POther _ \<Rightarrow> 0
      | PMap a \<Rightarrow>
          (case heap a of
             None \<Rightarrow> 0
           | Some m \<Rightarrow> (case m ''eventId'' of Some (AnyInt64 i) \<Rightarrow> i | _ \<Rightarrow> 0)))"

text \<open>The replay loop of \<^verbatim>\<open>Subscribe\<close>: a plain send, which blocks when the buffer is full.\<close>

fun replay :: "(nat \<rightharpoonup> (string \<rightharpoonup> go_any)) \<Rightarrow> int \<Rightarrow> Event list \<Rightarrow> Event list \<Rightarrow> Event list option" where
  "replay heap after [] ch = Some ch"
| "replay heap after (e # es) ch =
     (if eventID heap e > after
      then (if length ch < subscriberBuffer then replay heap after es (ch @ [e]) else None)
      else replay heap after es ch)"

definition Subscribe :: "int \<Rightarrow> int option \<Rightarrow> Hub \<Rightarrow> nat hub_out" where
  "Subscribe userSeq afterEventID h =
     (let p = sub_brk h;
          ps = (case subscribers h userSeq of None \<Rightarrow> [p] | Some s \<Rightarrow> s @ [p])
      in case (case afterEventID of
                 None \<Rightarrow> Some []
               | Some a \<Rightarrow> replay (map_heap h) a (history h userSeq) []) of
           None \<Rightarrow> HubBlocked
         | Some ch \<Rightarrow>
             HubDone p (h\<lparr>subscribers := (subscribers h)(userSeq \<mapsto> ps),
                          sub_heap := (sub_heap h)(p \<mapsto> \<lparr>sb_UserSeq = userSeq, sb_Ch = ch, sb_closed = False\<rparr>),
                          sub_brk := Suc p\<rparr>))"

definition Unsubscribe :: "nat option \<Rightarrow> Hub \<Rightarrow> unit hub_out" where
  "Unsubscribe s h =
     (case s of
        None \<Rightarrow> HubDone () h
      | Some p \<Rightarrow>
          (case sub_heap h p of
             None \<Rightarrow> HubPanic
           | Some sb \<Rightarrow>
               (case subscribers h (sb_UserSeq sb) of
                  None \<Rightarrow> HubDone () h
                | Some ps \<Rightarrow>
                    (let ps' = removeAll p ps;
                         h1 = h\<lparr>subscribers := (subscribers h)(sb_UserSeq sb := (if ps' = [] then None else Some ps'))\<rparr>
                     in if sb_closed sb then HubPanic
                        else HubDone () (h1\<lparr>sub_heap := (sub_heap h)(p \<mapsto> sb\<lparr>sb_closed := True\<rparr>)\<rparr>)))))"

text \<open>The delivery loop: a send with \<^verbatim>\<open>default\<close> drops the event when the buffer is full.\<close>

definition try_send :: "Event \<Rightarrow> Subscriber \<Rightarrow> Subscriber" where
  "try_send ev sb = (if length (sb_Ch sb) < subscriberBuffer then sb\<lparr>sb_Ch := sb_Ch sb @ [ev]\<rparr> else sb)"

fun deliver :: "Event \<Rightarrow> nat list \<Rightarrow> (nat \<rightharpoonup> Subscriber) \<Rightarrow> (nat \<rightharpoonup> Subscriber) option" where
  "deliver ev [] heap = Some heap"
| "deliver ev (p # ps) heap =
     (case heap p of
        None \<Rightarrow> None
      | Some sb \<Rightarrow> if sb_closed sb then None else deliver ev ps (heap(p \<mapsto> try_send ev sb)))"

definition push_history :: "Event list \<Rightarrow> Event \<Rightarrow> Event list" where
  "push_history hist ev =
     (let h = hist @ [ev]
      in if length h > eventHistoryLimit then drop (length h - eventHistoryLimit) h else h)"

definition Publish :: "int \<Rightarrow> Event \<Rightarrow> Hub \<Rightarrow> unit hub_out" where
  "Publish userSeq ev h =
     (let n = go_int64 (nextEventID h + 1)
      in case (case ev_Payload ev of
                 POther _ \<Rightarrow> Some (map_heap h)
               | PMap a \<Rightarrow> (case map_heap h a of
                             None \<Rightarrow> None
                           | Some m \<Rightarrow> Some ((map_heap h)(a \<mapsto> m(''eventId'' \<mapsto> AnyInt64 n))))) of
           None \<Rightarrow> HubPanic
         | Some heap \<Rightarrow>
             (let h1 = h\<lparr>nextEventID := n, map_heap := heap,
                         history := (history h)(userSeq := push_history (history h userSeq) ev)\<rparr>
              in case subscribers h1 userSeq of
                   None \<Rightarrow> HubDone () h1
                 | Some ps \<Rightarrow>
                     (case deliver ev ps (sub_heap h1) of
                        None \<Rightarrow> HubPanic
                      | Some subs' \<Rightarrow> HubDone () (h1\<lparr>sub_heap := subs'\<rparr>))))"

definition new_map :: "(string \<rightharpoonup> go_any) \<Rightarrow> Hub \<Rightarrow> nat \<times> Hub" where
  "new_map m h = (map_brk h, h\<lparr>map_heap := (map_heap h)(map_brk h \<mapsto> m), map_brk := Suc (map_brk h)\<rparr>)"

definition copyPayload :: "payload \<Rightarrow> Hub \<Rightarrow> payload \<times> Hub" where
  "copyPayload p h =
     (case p of
        POther x \<Rightarrow> (p, h)
      | PMap a \<Rightarrow>
          (case new_map (case map_heap h a of None \<Rightarrow> Map.empty | Some m \<Rightarrow> m) h of
             (b, h') \<Rightarrow> (PMap b, h')))"

text \<open>\<open>userSeqs\<close> is the order in which Go's map iteration visits the connected users.\<close>

fun publish_all :: "int list \<Rightarrow> Event \<Rightarrow> Hub \<Rightarrow> unit hub_out" where
  "publish_all [] ev h = HubDone () h"
| "publish_all (u # us) ev h =
     (case copyPayload (ev_Payload ev) h of
        (pl, h1) \<Rightarrow>
          (case Publish u \<lparr>ev_Type = ev_Type ev, ev_Payload = pl\<rparr> h1 of
             HubDone _ h2 \<Rightarrow> publish_all us ev h2
           | HubPanic \<Rightarrow> HubPanic
           | HubBlocked \<Rightarrow> HubBlocked))"

definition PublishToConnected :: "int list \<Rightarrow> Event \<Rightarrow> Hub \<Rightarrow> nat hub_out" where
  "PublishToConnected userSeqs ev h =
     (case publish_all userSeqs ev h of
        HubDone _ h' \<Rightarrow> HubDone (length userSeqs) h'
      | HubPanic \<Rightarrow> HubPanic
      | HubBlocked \<Rightarrow> HubBlocked)"

definition Count :: "Hub \<Rightarrow> nat" where
  "Count h = (\<Sum>u \<in> dom (subscribers h). case subscribers h u of None \<Rightarrow> 0 | Some ps \<Rightarrow> length ps)"

text \<open>A client's receive takes the oldest event of its channel.\<close>

definition receive :: "nat \<Rightarrow> Hub \<Rightarrow> Event option \<times> Hub" where
  "receive p h =
     (case sub_heap h p of
        None \<Rightarrow> (None, h)
      | Some sb \<Rightarrow>
          (case sb_Ch sb of
             [] \<Rightarrow> (None, h)
           | e # es \<Rightarrow> (Some e, h\<lparr>sub_heap := (sub_heap h)(p \<mapsto> sb\<lparr>sb_Ch := es\<rparr>)\<rparr>)))"

section \<open>The loops\<close>

lemma replay_filter:
  "length ch + length es \<le> subscriberBuffer \<Longrightarrow>
   replay heap a es ch = Some (ch @ filter (\<lambda>e. eventID heap e > a) es)"
  by (induction es arbitrary: ch) auto

lemma deliver_all:
  assumes "distinct ps" "\<forall>p \<in> set ps. \<exists>sb. heap p = Some sb \<and> \<not> sb_closed sb"
  shows "deliver ev ps heap = Some (\<lambda>p. if p \<in> set ps then map_option (try_send ev) (heap p) else heap p)"
  using assms
proof (induction ps arbitrary: heap)
  case (Cons p ps)
  then obtain sb where sb: "heap p = Some sb" "\<not> sb_closed sb" by auto
  have "deliver ev ps (heap(p \<mapsto> try_send ev sb)) =
    Some (\<lambda>q. if q \<in> set ps then map_option (try_send ev) ((heap(p \<mapsto> try_send ev sb)) q)
              else (heap(p \<mapsto> try_send ev sb)) q)"
    using Cons.prems by (intro Cons.IH) auto
  with sb Cons.prems(1) show ?case by (auto simp: fun_eq_iff)
qed simp

lemma try_send_fields [simp]: "sb_UserSeq (try_send ev sb) = sb_UserSeq sb" "sb_closed (try_send ev sb) = sb_closed sb"
  by (simp_all add: try_send_def)

lemma push_history_length: "length hist \<le> eventHistoryLimit \<Longrightarrow> length (push_history hist ev) \<le> eventHistoryLimit"
  by (simp add: push_history_def Let_def)

section \<open>The invariant of the channels\<close>

text \<open>Registered subscribers are open and belong to their user, open subscribers are registered,
  and neither histories nor channels exceed their limit.\<close>

definition registered :: "Hub \<Rightarrow> int \<Rightarrow> nat list \<Rightarrow> bool" where
  "registered h u ps =
     (ps \<noteq> [] \<and> distinct ps
      \<and> (\<forall>p \<in> set ps. \<exists>sb. sub_heap h p = Some sb \<and> sb_UserSeq sb = u \<and> \<not> sb_closed sb))"

definition sub_ok :: "Hub \<Rightarrow> nat \<Rightarrow> Subscriber \<Rightarrow> bool" where
  "sub_ok h p sb =
     (p < sub_brk h \<and> length (sb_Ch sb) \<le> subscriberBuffer
      \<and> (sb_closed sb \<or> (\<exists>ps. subscribers h (sb_UserSeq sb) = Some ps \<and> p \<in> set ps)))"

definition hub_ok :: "Hub \<Rightarrow> bool" where
  "hub_ok h =
     ((\<forall>u ps. subscribers h u = Some ps \<longrightarrow> registered h u ps)
      \<and> (\<forall>p sb. sub_heap h p = Some sb \<longrightarrow> sub_ok h p sb)
      \<and> (\<forall>u. length (history h u) \<le> eventHistoryLimit)
      \<and> (\<forall>a. map_heap h a \<noteq> None \<longrightarrow> a < map_brk h))"

lemma hub_okD:
  assumes "hub_ok h"
  shows "subscribers h u = Some ps \<Longrightarrow> registered h u ps" "sub_heap h p = Some sb \<Longrightarrow> sub_ok h p sb"
    "length (history h u) \<le> eventHistoryLimit" "map_heap h a \<noteq> None \<Longrightarrow> a < map_brk h"
  using assms by (auto simp: hub_ok_def)

lemma hub_ok_new: "hub_ok (NewHub t)"
  by (simp add: hub_ok_def NewHub_def)

lemma registered_frame [simp]:
  "registered (h\<lparr>map_heap := x\<rparr>) u ps = registered h u ps" "registered (h\<lparr>map_brk := y\<rparr>) u ps = registered h u ps"
  "registered (h\<lparr>nextEventID := n\<rparr>) u ps = registered h u ps" "registered (h\<lparr>history := z\<rparr>) u ps = registered h u ps"
  by (simp_all add: registered_def)

lemma sub_ok_frame [simp]:
  "sub_ok (h\<lparr>map_heap := x\<rparr>) p sb = sub_ok h p sb" "sub_ok (h\<lparr>map_brk := y\<rparr>) p sb = sub_ok h p sb"
  "sub_ok (h\<lparr>nextEventID := n\<rparr>) p sb = sub_ok h p sb" "sub_ok (h\<lparr>history := z\<rparr>) p sb = sub_ok h p sb"
  by (simp_all add: sub_ok_def)

lemma hub_ok_new_map: "hub_ok h \<Longrightarrow> new_map m h = (a, h') \<Longrightarrow> hub_ok h'"
  by (auto simp: hub_ok_def new_map_def less_Suc_eq split: if_splits)

text \<open>Subscribing: the buffer is as long as the history, so that the replay never blocks.\<close>

lemma Subscribe_done:
  assumes "hub_ok h"
  shows "Subscribe u after h = HubDone (sub_brk h)
    (h\<lparr>subscribers := (subscribers h)(u \<mapsto> (case subscribers h u of None \<Rightarrow> [] | Some s \<Rightarrow> s) @ [sub_brk h]),
       sub_heap := (sub_heap h)(sub_brk h \<mapsto> \<lparr>sb_UserSeq = u,
          sb_Ch = (case after of None \<Rightarrow> [] | Some a \<Rightarrow> filter (\<lambda>e. eventID (map_heap h) e > a) (history h u)),
          sb_closed = False\<rparr>),
       sub_brk := Suc (sub_brk h)\<rparr>)"
  using hub_okD(3) [OF assms, of u]
  by (auto simp: Subscribe_def Let_def replay_filter split: option.splits)

lemma hub_ok_Subscribe:
  assumes ok: "hub_ok h" and s: "Subscribe u after h = HubDone p h'"
  shows "hub_ok h'"
proof -
  have fresh: "sub_heap h (sub_brk h) = None"
    using hub_okD(2) [OF ok, of "sub_brk h"] by (cases "sub_heap h (sub_brk h)") (auto simp: sub_ok_def)
  have nin: "sub_brk h \<notin> set ps" if "subscribers h v = Some ps" for v ps
    using hub_okD(1) [OF ok that] fresh by (auto simp: registered_def)
  have "registered h' v ps" if "subscribers h' v = Some ps" for v ps
    using that s [symmetric] nin fresh hub_okD(1) [OF ok]
    by (auto simp: Subscribe_done [OF ok] registered_def split: option.splits if_splits)
  moreover have "sub_ok h' q sb" if "sub_heap h' q = Some sb" for q sb
  proof (cases "q = sub_brk h")
    case True
    with that s [symmetric] show ?thesis
      using hub_okD(3) [OF ok, of u] le_trans [OF length_filter_le]
      by (auto simp: Subscribe_done [OF ok] sub_ok_def split: option.splits)
  next
    case False
    with that s [symmetric] hub_okD(2) [OF ok, of q sb] show ?thesis
      by (auto simp: Subscribe_done [OF ok] sub_ok_def split: option.splits)
  qed
  ultimately show ?thesis using s [symmetric] ok by (auto simp: Subscribe_done [OF ok] hub_ok_def)
qed

text \<open>Unsubscribing an open subscriber closes its channel once.\<close>

lemma Unsubscribe_open:
  assumes "hub_ok h" "sub_heap h p = Some sb" "\<not> sb_closed sb"
  shows "\<exists>h'. Unsubscribe (Some p) h = HubDone () h'"
  using hub_okD(2) [OF assms(1,2)] assms(2,3) by (auto simp: Unsubscribe_def Let_def sub_ok_def)

lemma hub_ok_Unsubscribe:
  assumes ok: "hub_ok h" and s: "Unsubscribe (Some p) h = HubDone () h'"
  shows "hub_ok h'"
proof -
  obtain sb where sb: "sub_heap h p = Some sb" using s by (auto simp: Unsubscribe_def split: option.splits)
  show ?thesis
  proof (cases "subscribers h (sb_UserSeq sb)")
    case None
    with s sb ok show ?thesis by (simp add: Unsubscribe_def)
  next
    case (Some ps)
    let ?ps = "removeAll p ps"
    have h': "\<not> sb_closed sb" "h' = h\<lparr>subscribers := (subscribers h)(sb_UserSeq sb := (if ?ps = [] then None else Some ?ps)),
        sub_heap := (sub_heap h)(p \<mapsto> sb\<lparr>sb_closed := True\<rparr>)\<rparr>"
      using s sb Some by (auto simp: Unsubscribe_def Let_def split: if_splits)
    have other: "p \<notin> set qs" if "subscribers h v = Some qs" "v \<noteq> sb_UserSeq sb" for v qs
      using hub_okD(1) [OF ok that(1)] that(2) sb by (auto simp: registered_def)
    have "registered h' v qs" if "subscribers h' v = Some qs" for v qs
      using that other hub_okD(1) [OF ok] Some
      by (force simp: h'(2) registered_def distinct_removeAll split: if_splits)
    moreover have "sub_ok h' q qb" if "sub_heap h' q = Some qb" for q qb
    proof (cases "q = p")
      case True
      with that hub_okD(2) [OF ok sb] show ?thesis by (auto simp: h'(2) sub_ok_def)
    next
      case False
      then have "q \<in> set ps \<Longrightarrow> q \<in> set ?ps" by simp
      with that hub_okD(2) [OF ok, of q qb] Some False show ?thesis
        by (fastforce simp: h'(2) sub_ok_def simp del: set_removeAll)
    qed
    ultimately show ?thesis using ok by (auto simp: hub_ok_def h'(2))
  qed
qed

text \<open>Publishing an event whose payload map exists.\<close>

definition stamped :: "Event \<Rightarrow> Hub \<Rightarrow> nat \<rightharpoonup> (string \<rightharpoonup> go_any)" where
  "stamped ev h =
     (case ev_Payload ev of
        POther _ \<Rightarrow> map_heap h
      | PMap a \<Rightarrow> (map_heap h)(a \<mapsto> (the (map_heap h a))(''eventId'' \<mapsto> AnyInt64 (go_int64 (nextEventID h + 1)))))"

definition payload_exists :: "Event \<Rightarrow> Hub \<Rightarrow> bool" where
  "payload_exists ev h = (case ev_Payload ev of POther _ \<Rightarrow> True | PMap a \<Rightarrow> map_heap h a \<noteq> None)"

definition delivered :: "int \<Rightarrow> Event \<Rightarrow> Hub \<Rightarrow> nat \<rightharpoonup> Subscriber" where
  "delivered u ev h = (\<lambda>p. map_option (\<lambda>sb. if sb_UserSeq sb = u \<and> \<not> sb_closed sb then try_send ev sb else sb) (sub_heap h p))"

lemma Publish_done:
  assumes ok: "hub_ok h" and pl: "payload_exists ev h"
  shows "Publish u ev h = HubDone () (h\<lparr>nextEventID := go_int64 (nextEventID h + 1), map_heap := stamped ev h,
     history := (history h)(u := push_history (history h u) ev), sub_heap := delivered u ev h\<rparr>)"
proof (cases "subscribers h u")
  case None
  then have "\<And>p sb. sub_heap h p = Some sb \<Longrightarrow> sb_UserSeq sb = u \<Longrightarrow> sb_closed sb"
    using hub_okD(2) [OF ok] unfolding sub_ok_def by (metis option.distinct(1))
  then have "delivered u ev h p = sub_heap h p" for p by (cases "sub_heap h p") (auto simp: delivered_def)
  then have "delivered u ev h = sub_heap h" by blast
  with None pl show ?thesis
    by (auto simp: Publish_def payload_exists_def stamped_def Let_def split: payload.splits)
next
  case (Some ps)
  note reg = hub_okD(1) [OF ok Some]
  have "deliver ev ps (sub_heap h) = Some (\<lambda>p. if p \<in> set ps then map_option (try_send ev) (sub_heap h p) else sub_heap h p)"
    using reg by (intro deliver_all) (auto simp: registered_def)
  moreover have "(\<lambda>p. if p \<in> set ps then map_option (try_send ev) (sub_heap h p) else sub_heap h p) = delivered u ev h"
  proof
    fix p
    show "(if p \<in> set ps then map_option (try_send ev) (sub_heap h p) else sub_heap h p) = delivered u ev h p"
      using reg hub_okD(2) [OF ok, of p] Some
      by (cases "sub_heap h p") (auto simp: delivered_def registered_def sub_ok_def)
  qed
  ultimately show ?thesis using Some pl
    by (auto simp: Publish_def payload_exists_def stamped_def Let_def split: payload.splits)
qed

text \<open>Changing the contents of channels within their capacity.\<close>

lemma hub_ok_map_subs:
  assumes ok: "hub_ok h"
    and f: "\<And>p sb. sub_heap h p = Some sb \<Longrightarrow> sb_UserSeq (f p sb) = sb_UserSeq sb \<and> sb_closed (f p sb) = sb_closed sb
       \<and> length (sb_Ch (f p sb)) \<le> subscriberBuffer"
  shows "hub_ok (h\<lparr>sub_heap := \<lambda>p. map_option (f p) (sub_heap h p)\<rparr>)" (is "hub_ok ?h")
proof -
  have "registered ?h u ps" if r: "registered h u ps" for u ps
  proof -
    have "\<exists>sb. sub_heap ?h p = Some sb \<and> sb_UserSeq sb = u \<and> \<not> sb_closed sb" if pin: "p \<in> set ps" for p
    proof -
      obtain sb where sb: "sub_heap h p = Some sb" "sb_UserSeq sb = u" "\<not> sb_closed sb"
        using r pin unfolding registered_def by blast
      with f [OF sb(1)] show ?thesis by simp
    qed
    with r show ?thesis by (simp add: registered_def)
  qed
  moreover have "sub_ok ?h p sb" if psb: "sub_heap ?h p = Some sb" for p sb
  proof -
    obtain sb0 where sb0: "sub_heap h p = Some sb0" "sb = f p sb0" using psb by auto
    with f [OF sb0(1)] hub_okD(2) [OF ok sb0(1)] show ?thesis by (simp add: sub_ok_def)
  qed
  ultimately show ?thesis using ok by (simp add: hub_ok_def)
qed

lemma try_send_length: "length (sb_Ch sb) \<le> subscriberBuffer \<Longrightarrow> length (sb_Ch (try_send ev sb)) \<le> subscriberBuffer"
  by (simp add: try_send_def)

lemma hub_ok_Publish:
  assumes ok: "hub_ok h" and pl: "payload_exists ev h" and p: "Publish u ev h = HubDone () h'"
  shows "hub_ok h'"
proof -
  let ?f = "\<lambda>p sb. if sb_UserSeq sb = u \<and> \<not> sb_closed sb then try_send ev sb else sb"
  let ?h = "h\<lparr>sub_heap := delivered u ev h\<rparr>"
  have h': "h' = ?h\<lparr>nextEventID := go_int64 (nextEventID h + 1), map_heap := stamped ev h,
     history := (history h)(u := push_history (history h u) ev)\<rparr>"
    using p Publish_done [OF ok pl, of u] by (cases h) simp
  have okh: "hub_ok ?h" unfolding delivered_def
  proof (rule hub_ok_map_subs [OF ok])
    fix p sb assume "sub_heap h p = Some sb"
    then have "length (sb_Ch sb) \<le> subscriberBuffer" using hub_okD(2) [OF ok] by (auto simp: sub_ok_def)
    then show "sb_UserSeq (?f p sb) = sb_UserSeq sb \<and> sb_closed (?f p sb) = sb_closed sb
       \<and> length (sb_Ch (?f p sb)) \<le> subscriberBuffer" by (simp add: try_send_length)
  qed
  have "length (history h' v) \<le> eventHistoryLimit" for v
    using hub_okD(3) [OF ok] push_history_length by (simp add: h')
  moreover have "a < map_brk h'" if "map_heap h' a \<noteq> None" for a
    using that pl hub_okD(4) [OF ok] by (auto simp: h' stamped_def payload_exists_def split: payload.splits if_splits)
  ultimately show ?thesis using okh by (simp add: hub_ok_def h')
qed

lemma receive_alt:
  "snd (receive p h) = h\<lparr>sub_heap := \<lambda>q. map_option (\<lambda>sb. if q = p then sb\<lparr>sb_Ch := tl (sb_Ch sb)\<rparr> else sb) (sub_heap h q)\<rparr>"
proof -
  have "(\<lambda>q. map_option (\<lambda>sb. if q = p then sb\<lparr>sb_Ch := tl (sb_Ch sb)\<rparr> else sb) (sub_heap h q)) =
    (sub_heap h)(p := map_option (\<lambda>sb. sb\<lparr>sb_Ch := tl (sb_Ch sb)\<rparr>) (sub_heap h p))"
    by (auto simp: fun_eq_iff option.map_ident)
  then show ?thesis
    by (auto simp: receive_def fun_upd_idem split: option.splits list.splits)
qed

lemma hub_ok_receive:
  assumes ok: "hub_ok h" and r: "receive p h = (x, h')"
  shows "hub_ok h'"
proof -
  have "h' = snd (receive p h)" using r by simp
  also have "hub_ok \<dots>" unfolding receive_alt
  proof (rule hub_ok_map_subs [OF ok])
    fix q sb assume "sub_heap h q = Some sb"
    then have "length (sb_Ch sb) \<le> subscriberBuffer" using hub_okD(2) [OF ok] by (auto simp: sub_ok_def)
    then show "sb_UserSeq (if q = p then sb\<lparr>sb_Ch := tl (sb_Ch sb)\<rparr> else sb) = sb_UserSeq sb \<and>
      sb_closed (if q = p then sb\<lparr>sb_Ch := tl (sb_Ch sb)\<rparr> else sb) = sb_closed sb \<and>
      length (sb_Ch (if q = p then sb\<lparr>sb_Ch := tl (sb_Ch sb)\<rparr> else sb)) \<le> subscriberBuffer" by auto
  qed
  finally show ?thesis .
qed

section \<open>Event numbers\<close>

text \<open>A sequence of events with strictly increasing numbers up to \<open>n\<close>, whose maps exist.\<close>

definition numbered :: "(nat \<rightharpoonup> (string \<rightharpoonup> go_any)) \<Rightarrow> int \<Rightarrow> Event list \<Rightarrow> bool" where
  "numbered heap n es =
     (sorted_wrt (<) (map (eventID heap) es)
      \<and> (\<forall>e \<in> set es. (\<exists>a. ev_Payload e = PMap a \<and> heap a \<noteq> None) \<and> eventID heap e \<le> n))"

definition ids_ok :: "Hub \<Rightarrow> bool" where
  "ids_ok h =
     (0 \<le> nextEventID h \<and> nextEventID h < two63
      \<and> (\<forall>u. numbered (map_heap h) (nextEventID h) (history h u))
      \<and> (\<forall>p sb. sub_heap h p = Some sb \<longrightarrow> numbered (map_heap h) (nextEventID h) (sb_Ch sb)))"

lemma ids_okD:
  assumes "ids_ok h"
  shows "0 \<le> nextEventID h" "nextEventID h < two63" "numbered (map_heap h) (nextEventID h) (history h u)"
    "sub_heap h p = Some sb \<Longrightarrow> numbered (map_heap h) (nextEventID h) (sb_Ch sb)"
  using assms by (auto simp: ids_ok_def)

lemma numbered_filter: "numbered heap n es \<Longrightarrow> numbered heap n (filter q es)"
  by (auto simp: numbered_def sorted_wrt_map sorted_wrt_filter)

lemma numbered_drop: "numbered heap n es \<Longrightarrow> numbered heap n (drop k es)"
  by (auto simp: numbered_def drop_map [symmetric] sorted_wrt_drop dest: in_set_dropD)

lemma numbered_tl: "numbered heap n es \<Longrightarrow> numbered heap n (tl es)"
  using numbered_drop [of heap n es 1] by (simp add: drop_Suc)

text \<open>A map allocated after the events of a sequence does not change their numbers.\<close>

lemma numbered_fresh:
  assumes "numbered heap n es" "heap a = None" "n \<le> n'"
  shows "numbered (heap(a \<mapsto> m)) n' es"
proof -
  have e: "\<exists>b. ev_Payload e = PMap b \<and> heap b \<noteq> None \<and> b \<noteq> a" "eventID heap e \<le> n" if "e \<in> set es" for e
    using assms(1,2) that unfolding numbered_def by metis+
  have id: "eventID (heap(a \<mapsto> m)) e = eventID heap e" if "e \<in> set es" for e
    using e(1) [OF that] by (auto simp: eventID_def)
  then have "map (eventID (heap(a \<mapsto> m))) es = map (eventID heap) es" by simp
  then have "sorted_wrt (<) (map (eventID (heap(a \<mapsto> m))) es)"
    using assms(1) by (simp only: numbered_def)
  moreover have "\<exists>b. ev_Payload e = PMap b \<and> (heap(a \<mapsto> m)) b \<noteq> None" if "e \<in> set es" for e
    using e(1) [OF that] by auto
  moreover have "eventID (heap(a \<mapsto> m)) e \<le> n'" if "e \<in> set es" for e
    using id [OF that] e(2) [OF that] assms(3) by simp
  ultimately show ?thesis by (simp add: numbered_def)
qed

lemma numbered_snoc:
  assumes "numbered heap n es" "heap a = None" "n < n'"
  shows "numbered (heap(a \<mapsto> m(''eventId'' \<mapsto> AnyInt64 n'))) n' (es @ [\<lparr>ev_Type = t, ev_Payload = PMap a\<rparr>])"
proof -
  let ?heap = "heap(a \<mapsto> m(''eventId'' \<mapsto> AnyInt64 n'))"
  have "numbered ?heap n es" using numbered_fresh [OF assms(1,2) order_refl] .
  then show ?thesis
    using assms(3) by (force simp: numbered_def sorted_wrt_append eventID_def)
qed

lemma ids_ok_new: "0 \<le> t \<Longrightarrow> t < two63 \<Longrightarrow> ids_ok (NewHub t)"
  by (simp add: ids_ok_def NewHub_def numbered_def)

lemma ids_ok_Subscribe:
  assumes ok: "hub_ok h" "ids_ok h" and s: "Subscribe u after h = HubDone p h'"
  shows "ids_ok h'"
proof -
  have "numbered (map_heap h) (nextEventID h) (case after of None \<Rightarrow> [] | Some a \<Rightarrow> filter (\<lambda>e. eventID (map_heap h) e > a) (history h u))"
    using ids_okD(3) [OF ok(2), of u] by (cases after) (auto simp: numbered_filter, simp add: numbered_def)
  with s [symmetric] ok(2) show ?thesis by (auto simp: Subscribe_done [OF ok(1)] ids_ok_def)
qed

lemma ids_ok_Unsubscribe: "ids_ok h \<Longrightarrow> Unsubscribe p h = HubDone () h' \<Longrightarrow> ids_ok h'"
  by (auto simp: Unsubscribe_def Let_def ids_ok_def split: option.splits if_splits)

lemma ids_ok_receive:
  assumes ok: "ids_ok h" and r: "receive p h = (x, h')"
  shows "ids_ok h'"
proof -
  have "h' = snd (receive p h)" using r by simp
  then show ?thesis using ok unfolding receive_alt by (auto simp: ids_ok_def numbered_tl)
qed

text \<open>Publishing a new map, as every caller does.\<close>

definition publish_new :: "int \<Rightarrow> string \<Rightarrow> (string \<rightharpoonup> go_any) \<Rightarrow> Hub \<Rightarrow> unit hub_out" where
  "publish_new u t m h = (case new_map m h of (a, h1) \<Rightarrow> Publish u \<lparr>ev_Type = t, ev_Payload = PMap a\<rparr> h1)"

lemma publish_new_done:
  assumes ok: "hub_ok h"
  shows "publish_new u t m h = HubDone ()
    (h\<lparr>nextEventID := go_int64 (nextEventID h + 1),
       map_heap := (map_heap h)(map_brk h \<mapsto> m(''eventId'' \<mapsto> AnyInt64 (go_int64 (nextEventID h + 1)))),
       map_brk := Suc (map_brk h),
       history := (history h)(u := push_history (history h u) \<lparr>ev_Type = t, ev_Payload = PMap (map_brk h)\<rparr>),
       sub_heap := delivered u \<lparr>ev_Type = t, ev_Payload = PMap (map_brk h)\<rparr> h\<rparr>)" (is "_ = HubDone () ?h")
proof -
  let ?h1 = "h\<lparr>map_heap := (map_heap h)(map_brk h \<mapsto> m), map_brk := Suc (map_brk h)\<rparr>"
  let ?ev = "\<lparr>ev_Type = t, ev_Payload = PMap (map_brk h)\<rparr>"
  have ok1: "hub_ok ?h1" using hub_ok_new_map [OF ok, of m] by (simp add: new_map_def)
  have "Publish u ?ev ?h1 = HubDone () ?h"
    using Publish_done [OF ok1, of ?ev u]
    by (cases h) (simp add: payload_exists_def stamped_def delivered_def)
  then show ?thesis by (simp add: publish_new_def new_map_def)
qed

lemma hub_ok_publish_new:
  assumes ok: "hub_ok h" and p: "publish_new u t m h = HubDone () h'"
  shows "hub_ok h'"
proof -
  obtain a h1 where n: "new_map m h = (a, h1)" by fastforce
  then have "payload_exists \<lparr>ev_Type = t, ev_Payload = PMap a\<rparr> h1" by (auto simp: new_map_def payload_exists_def)
  from hub_ok_Publish [OF hub_ok_new_map [OF ok n] this] p n show ?thesis by (simp add: publish_new_def)
qed

lemma ids_ok_publish_new:
  assumes ok: "hub_ok h" "ids_ok h" and b: "nextEventID h + 1 < two63"
    and p: "publish_new u t m h = HubDone () h'"
  shows "ids_ok h'" "nextEventID h' = nextEventID h + 1"
proof -
  let ?n = "nextEventID h + 1"
  have n: "go_int64 ?n = ?n" using ids_okD(1) [OF ok(2)] b by simp
  note h' = p [unfolded publish_new_done [OF ok(1)] n, simplified, symmetric]
  show "nextEventID h' = ?n" by (simp add: h')
  have fresh: "map_heap h (map_brk h) = None" using hub_okD(4) [OF ok(1)] by blast
  have keep: "numbered (map_heap h') ?n es" if "numbered (map_heap h) (nextEventID h) es" for es
    using numbered_fresh [OF that fresh, of ?n] by (simp add: h')
  have app: "numbered (map_heap h') ?n (es @ [\<lparr>ev_Type = t, ev_Payload = PMap (map_brk h)\<rparr>])"
    if "numbered (map_heap h) (nextEventID h) es" for es
    using numbered_snoc [OF that fresh, of ?n] by (simp add: h')
  have "numbered (map_heap h') ?n (history h' v)" for v
    using ids_okD(3) [OF ok(2)] keep app by (simp add: h' push_history_def Let_def numbered_drop)
  moreover have "numbered (map_heap h') ?n (sb_Ch sb)" if "sub_heap h' q = Some sb" for q sb
    using that ids_okD(4) [OF ok(2)] keep app by (auto simp: h' delivered_def try_send_def)
  ultimately show "ids_ok h'" using b ids_okD(1) [OF ok(2)] by (simp add: ids_ok_def) (simp add: h')
qed

lemma ids_ok_new_map:
  assumes "hub_ok h" "ids_ok h" "new_map m h = (a, h')"
  shows "ids_ok h'"
proof -
  have "map_heap h (map_brk h) = None" using hub_okD(4) [OF assms(1)] by blast
  then show ?thesis using assms(2,3) numbered_fresh [OF _ _ order_refl]
    by (auto simp: ids_ok_def new_map_def)
qed

text \<open>A broadcast is a sequence of such publications, one copy per user.\<close>

lemma publish_all_Cons:
  assumes "ev_Payload ev = PMap a"
  shows "publish_all (u # us) ev h =
    (case publish_new u (ev_Type ev) (case map_heap h a of None \<Rightarrow> Map.empty | Some m \<Rightarrow> m) h of
       HubDone _ h2 \<Rightarrow> publish_all us ev h2 | HubPanic \<Rightarrow> HubPanic | HubBlocked \<Rightarrow> HubBlocked)"
  using assms by (simp add: copyPayload_def publish_new_def split: prod.split)

lemma publish_all_ok:
  assumes "hub_ok h" "ids_ok h" "ev_Payload ev = PMap a" "nextEventID h + int (length us) < two63"
  shows "\<exists>h'. publish_all us ev h = HubDone () h' \<and> hub_ok h' \<and> ids_ok h'"
  using assms
proof (induction us arbitrary: h)
  case (Cons u us)
  let ?m = "case map_heap h a of None \<Rightarrow> Map.empty | Some m \<Rightarrow> m"
  obtain h2 where h2: "publish_new u (ev_Type ev) ?m h = HubDone () h2"
    using publish_new_done [OF Cons.prems(1)] by blast
  have ok2: "hub_ok h2" "ids_ok h2" "nextEventID h2 = nextEventID h + 1"
    using hub_ok_publish_new [OF Cons.prems(1) h2] ids_ok_publish_new [OF Cons.prems(1,2) _ h2] Cons.prems(4) by auto
  have "\<exists>h'. publish_all us ev h2 = HubDone () h' \<and> hub_ok h' \<and> ids_ok h'"
    using Cons.prems ok2 by (intro Cons.IH) simp_all
  then show ?case by (simp add: publish_all_Cons [OF Cons.prems(3)] h2 del: publish_all.simps)
qed simp

section \<open>Reachable states\<close>

text \<open>What the program does with the hub: subscribe, unsubscribe, publish a new map to one user or
  to everyone connected, and receive. The guards say that the 64-bit event number does not wrap; it
  starts at the time in milliseconds.\<close>

inductive hub_step :: "Hub \<Rightarrow> Hub \<Rightarrow> bool" where
  step_subscribe: "Subscribe u after h = HubDone p h' \<Longrightarrow> hub_step h h'"
| step_unsubscribe: "Unsubscribe (Some p) h = HubDone () h' \<Longrightarrow> hub_step h h'"
| step_publish: "publish_new u t m h = HubDone () h' \<Longrightarrow> nextEventID h + 1 < two63 \<Longrightarrow> hub_step h h'"
| step_connected: "new_map m h = (a, h1) \<Longrightarrow> nextEventID h + int (length us) < two63 \<Longrightarrow>
    PublishToConnected us \<lparr>ev_Type = t, ev_Payload = PMap a\<rparr> h1 = HubDone n h' \<Longrightarrow> hub_step h h'"
| step_receive: "receive p h = (x, h') \<Longrightarrow> hub_step h h'"

inductive hub_reach :: "Hub \<Rightarrow> bool" where
  reach_new: "0 \<le> t \<Longrightarrow> t < two63 \<Longrightarrow> hub_reach (NewHub t)"
| reach_step: "hub_reach h \<Longrightarrow> hub_step h h' \<Longrightarrow> hub_reach h'"

lemma hub_step_ok: "hub_step h h' \<Longrightarrow> hub_ok h \<Longrightarrow> ids_ok h \<Longrightarrow> hub_ok h' \<and> ids_ok h'"
proof (induction rule: hub_step.induct)
  case (step_connected m h a h1 us t n h')
  have ok1: "hub_ok h1" "ids_ok h1" "nextEventID h1 = nextEventID h"
    using step_connected hub_ok_new_map ids_ok_new_map by (auto simp: new_map_def)
  with publish_all_ok [OF ok1(1,2), of "\<lparr>ev_Type = t, ev_Payload = PMap a\<rparr>" a us] step_connected.hyps
  show ?case by (auto simp: PublishToConnected_def split: hub_out.splits)
next
  case (step_publish u t m h h')
  then show ?case using hub_ok_publish_new ids_ok_publish_new(1) by blast
qed (blast intro: hub_ok_Subscribe ids_ok_Subscribe hub_ok_Unsubscribe ids_ok_Unsubscribe
      hub_ok_receive ids_ok_receive)+

lemma hub_reach_ok: "hub_reach h \<Longrightarrow> hub_ok h \<and> ids_ok h"
  by (induction rule: hub_reach.induct) (auto simp: hub_ok_new ids_ok_new dest: hub_step_ok)

section \<open>Properties\<close>

text \<open>A scenario: user 7 has two streams and has been sent two events; one stream has read one.\<close>

definition hub_of :: "'a hub_out \<Rightarrow> Hub" where
  "hub_of r = (case r of HubDone _ h \<Rightarrow> h | _ \<Rightarrow> NewHub 0)"

definition is_done :: "'a hub_out \<Rightarrow> bool" where
  "is_done r = (case r of HubDone _ _ \<Rightarrow> True | _ \<Rightarrow> False)"

definition is_panic :: "'a hub_out \<Rightarrow> bool" where
  "is_panic r = (case r of HubPanic \<Rightarrow> True | _ \<Rightarrow> False)"

definition demo_hub :: Hub where
  "demo_hub = hub_of (publish_new 7 ''message'' [''id'' \<mapsto> AnyOther ''b''] (hub_of (publish_new 7 ''message'' Map.empty
     (hub_of (Subscribe 7 None (hub_of (Subscribe 7 None (NewHub 1000))))))))"

lemma demo_hub_reach: "hub_reach demo_hub"
proof -
  let ?h0 = "NewHub 1000"
  let ?h1 = "hub_of (Subscribe 7 None ?h0)"
  let ?h2 = "hub_of (Subscribe 7 None ?h1)"
  let ?h3 = "hub_of (publish_new 7 ''message'' Map.empty ?h2)"
  have h0: "hub_reach ?h0" by (rule reach_new) simp_all
  have s: "Subscribe 7 None h = HubDone (sub_brk h) (hub_of (Subscribe 7 None h))" if "hub_reach h" for h
    using Subscribe_done [of h 7 None] hub_reach_ok [OF that] by (simp add: hub_of_def)
  have h1: "hub_reach ?h1" using h0 step_subscribe [OF s [OF h0]] by (rule reach_step)
  have h2: "hub_reach ?h2" using h1 step_subscribe [OF s [OF h1]] by (rule reach_step)
  have p: "publish_new 7 t m h = HubDone () (hub_of (publish_new 7 t m h))" if "hub_reach h" for t m h
    using publish_new_done [of h 7 t m] hub_reach_ok [OF that] by (simp add: hub_of_def)
  have n2: "nextEventID ?h2 = 1000" by (simp add: hub_of_def Subscribe_def NewHub_def)
  have b2: "nextEventID ?h2 + 1 < two63" unfolding n2 by simp
  have h3: "hub_reach ?h3" by (rule reach_step [OF h2 step_publish [OF p [OF h2] b2]])
  have ok2: "hub_ok ?h2" "ids_ok ?h2" using hub_reach_ok [OF h2] by blast+
  have "nextEventID ?h3 = nextEventID ?h2 + 1" by (rule ids_ok_publish_new(2) [OF ok2 b2 p [OF h2]])
  then have b3: "nextEventID ?h3 + 1 < two63" unfolding n2 by simp
  show ?thesis unfolding demo_hub_def by (rule reach_step [OF h3 step_publish [OF p [OF h3] b3]])
qed

text \<open>C6. In every state the program can bring the hub to, no operation blocks while it holds the lock
  and none panics: a subscription with replay returns, a publication returns, and closing a stream
  that is still open returns.\<close>

theorem hub_never_stuck:
  assumes "hub_reach h"
  shows "(\<exists>p h'. Subscribe u after h = HubDone p h') \<and> (\<exists>h'. publish_new u t m h = HubDone () h')
    \<and> (\<forall>p sb. sub_heap h p = Some sb \<longrightarrow> \<not> sb_closed sb \<longrightarrow> (\<exists>h'. Unsubscribe (Some p) h = HubDone () h'))"
proof -
  have ok: "hub_ok h" using hub_reach_ok [OF assms] by simp
  have "\<exists>p h'. Subscribe u after h = HubDone p h'" by (rule exI, rule exI, rule Subscribe_done [OF ok])
  moreover have "\<exists>h'. publish_new u t m h = HubDone () h'" by (rule exI, rule publish_new_done [OF ok])
  moreover have "\<exists>h'. Unsubscribe (Some p) h = HubDone () h'" if "sub_heap h p = Some sb" "\<not> sb_closed sb" for p sb
    using that by (rule Unsubscribe_open [OF ok])
  ultimately show ?thesis by simp
qed

theorem hub_never_stuck_witness:
  "\<exists>p h'. Subscribe 7 (Some 1001) demo_hub = HubDone p h'"
  using hub_never_stuck [OF demo_hub_reach, of 7 "Some 1001"] by blast

text \<open>C7. A client that reconnects with the number of the last event it saw gets exactly the events
  published to it after that one, in order, out of the kept history.\<close>

theorem reconnect_resumes_exactly:
  assumes "hub_reach h" "history h u = xs @ e # ys"
    "Subscribe u (Some (eventID (map_heap h) e)) h = HubDone p h'"
  shows "\<exists>sb. sub_heap h' p = Some sb \<and> sb_Ch sb = ys"
proof -
  have ok: "hub_ok h" "ids_ok h" using hub_reach_ok [OF assms(1)] by auto
  have "sorted_wrt (<) (map (eventID (map_heap h)) (xs @ e # ys))"
    using ids_okD(3) [OF ok(2), of u] assms(2) by (simp add: numbered_def)
  then have x: "\<forall>x \<in> set xs. \<not> eventID (map_heap h) x > eventID (map_heap h) e"
    and y: "\<forall>y \<in> set ys. eventID (map_heap h) y > eventID (map_heap h) e"
    by (auto simp: sorted_wrt_append)
  have "filter (\<lambda>z. eventID (map_heap h) z > eventID (map_heap h) e) (history h u) = ys"
    using x y by (simp add: assms(2) filter_id_conv)
  then show ?thesis using assms(3) [symmetric] by (simp add: Subscribe_done [OF ok(1)])
qed

theorem reconnect_resumes_exactly_witness:
  "\<exists>sb. sub_heap (hub_of (Subscribe 7 (Some 1001) demo_hub)) 2 = Some sb
     \<and> sb_Ch sb = [\<lparr>ev_Type = ''message'', ev_Payload = PMap 2\<rparr>]"
proof -
  have h: "history demo_hub 7 = [] @ \<lparr>ev_Type = ''message'', ev_Payload = PMap 1\<rparr> # [\<lparr>ev_Type = ''message'', ev_Payload = PMap 2\<rparr>]"
    "eventID (map_heap demo_hub) \<lparr>ev_Type = ''message'', ev_Payload = PMap 1\<rparr> = 1001" "sub_brk demo_hub = 2" by code_simp+
  have "Subscribe 7 (Some 1001) demo_hub = HubDone 2 (hub_of (Subscribe 7 (Some 1001) demo_hub))"
    using hub_reach_ok [OF demo_hub_reach] h(3) by (simp add: Subscribe_done hub_of_def)
  then show ?thesis using reconnect_resumes_exactly [OF demo_hub_reach h(1)] h(2) by simp
qed

text \<open>What waits in a stream's channel has strictly increasing event numbers and fits the buffer,
  and a publication appends to the open streams of its user that have room, drops the event for
  those that are full, and leaves every other stream alone.\<close>

theorem streams_stay_ordered:
  assumes "hub_reach h" "sub_heap h p = Some sb" "publish_new u t m h = HubDone () h'"
  shows "sorted_wrt (<) (map (eventID (map_heap h)) (sb_Ch sb)) \<and> length (sb_Ch sb) \<le> 256
    \<and> (\<exists>ev sb'. ev_Type ev = t \<and> last (history h' u) = ev \<and> sub_heap h' p = Some sb'
         \<and> sb_Ch sb' = (if sb_UserSeq sb = u \<and> \<not> sb_closed sb \<and> length (sb_Ch sb) < 256
                        then sb_Ch sb @ [ev] else sb_Ch sb))"
proof -
  have ok: "hub_ok h" "ids_ok h" using hub_reach_ok [OF assms(1)] by auto
  let ?ev = "\<lparr>ev_Type = t, ev_Payload = PMap (map_brk h)\<rparr>"
  have "last (push_history es ev) = ev" for es ev by (simp add: push_history_def Let_def)
  then have "last (history h' u) = ?ev" "sub_heap h' p = delivered u ?ev h p"
    using assms(3) [symmetric] by (simp_all add: publish_new_done [OF ok(1)])
  moreover have "sorted_wrt (<) (map (eventID (map_heap h)) (sb_Ch sb))" "length (sb_Ch sb) \<le> 256"
    using ids_okD(4) [OF ok(2) assms(2)] hub_okD(2) [OF ok(1) assms(2)] by (simp_all add: numbered_def sub_ok_def)
  ultimately show ?thesis using assms(2) by (auto simp: delivered_def try_send_def)
qed

theorem streams_stay_ordered_witness:
  "\<exists>sb'. sub_heap (hub_of (publish_new 7 ''notice'' Map.empty demo_hub)) 0 = Some sb' \<and> length (sb_Ch sb') = 3"
proof -
  let ?p = "publish_new 7 ''notice'' Map.empty demo_hub"
  obtain sb where sb: "sub_heap demo_hub 0 = Some sb" "sb_UserSeq sb = 7" "\<not> sb_closed sb" "length (sb_Ch sb) = 2"
  proof
    show "sub_heap demo_hub 0 = Some \<lparr>sb_UserSeq = 7, sb_Ch = [\<lparr>ev_Type = ''message'', ev_Payload = PMap 1\<rparr>,
       \<lparr>ev_Type = ''message'', ev_Payload = PMap 2\<rparr>], sb_closed = False\<rparr>" by code_simp
  qed simp_all
  have "?p = HubDone () (hub_of ?p)" using hub_reach_ok [OF demo_hub_reach] by (simp add: publish_new_done hub_of_def)
  from streams_stay_ordered [OF demo_hub_reach sb(1) this] sb(2-4) show ?thesis by force
qed

text \<open>Closing the same stream twice panics while the user has another stream open, but passes
  silently when it was the user's last: the guard looks at the user's set and not at the stream.\<close>

theorem second_unsubscribe_panics:
  "is_panic (Unsubscribe (Some 0) (hub_of (Unsubscribe (Some 0) demo_hub)))
   \<and> is_done (Unsubscribe (Some 0) (hub_of (Unsubscribe (Some 0) (hub_of (Subscribe 7 None (NewHub 1000))))))"
  by code_simp

end
