(* ===== verification/Phone_Verification.thy ===== *)
theory Phone_Verification
  imports Go_Strings
begin

text \<open>
  Phone ownership at signup: the canonical phone number (\<^verbatim>\<open>model/phone_number.go\<close>; \<open>NormalizePhoneNumber\<close> is with the strings), the table of
  issued codes (\<^verbatim>\<open>repository/phone_verification_repo.go\<close>) and the service that issues codes, checks
  them and spends the resulting grant (\<^verbatim>\<open>service/phone_verification_service.go\<close>). Times are whole
  seconds, as the \<^verbatim>\<open>DATETIME\<close> columns keep them. SHA-256, the random source, the SMS provider, the
  message template and the database's faults are parameters.
\<close>

section \<open>Canonical phone numbers\<close>

definition phone_Valid :: "string \<Rightarrow> bool" where
  "phone_Valid p = (7 \<le> length p \<and> length p \<le> 15)"

section \<open>State\<close>

record PhoneVerification =
  APVSeq :: int
  APVID :: string
  Phone :: string
  CodeHash :: string
  GrantTokenHash :: "string option"
  Attempts :: int
  VerifiedYN :: string
  ConsumedYN :: string
  ExpiresAt :: int
  GrantExpiresAt :: "int option"
  RegDate :: int
  ConsumedUsrSeq :: "int option"
  ConsumedAt :: "int option"

record pv_member =
  m_usr_seq :: int
  m_phone :: string
  m_status :: string

record pv_state =
  apv :: "PhoneVerification list"
  apv_next :: int
  members :: "pv_member list"
  sms_sent :: "(string \<times> string) list"

datatype pv_stmt =
    PvInsert | PvCount | PvFindPending | PvIncrement | PvReadAttempts | PvExpire | PvMarkVerified
  | PvFindGrant | PvBegin | PvSelectGrant | PvSelectMember | PvConsume | PvCommit

datatype pv_error =
    ErrInvalidPhone | ErrPhoneVerificationNotFound | ErrPhoneVerificationCodeMismatch
  | ErrPhoneVerificationAttemptsExceeded | ErrPhoneVerificationThrottled | ErrPhoneNotVerified
  | ErrSMSTemplateEmpty | PvDatabase string | PvRandom string | PvSend string

text \<open>What a request meets: the clocks of the program and of the database, the faults of the
  statements, the collation of \<^verbatim>\<open>APV_ID\<close>, the hash, the random draws, the rendered message and the
  provider's answer, and the numbers registered for app review.\<close>

record pv_env =
  go_now :: int
  sql_now :: int
  pv_fault :: "pv_stmt \<Rightarrow> string option"
  collates :: "string \<Rightarrow> string \<Rightarrow> bool"
  hashSecret :: "string \<Rightarrow> string"
  randomHex :: "nat \<Rightarrow> (string, string) result"
  randomNumericCode :: "nat \<Rightarrow> (string, string) result"
  render_sms :: "string \<Rightarrow> string"
  send_sms :: "string \<Rightarrow> string \<Rightarrow> string option"
  reviewTestPhones :: "string \<rightharpoonup> string"

abbreviation (input) phoneCodeExpiry :: int where "phoneCodeExpiry \<equiv> 300"
abbreviation (input) phoneGrantExpiry :: int where "phoneGrantExpiry \<equiv> 1800"
abbreviation (input) phoneCodeMaxAttempts :: int where "phoneCodeMaxAttempts \<equiv> 5"
abbreviation (input) phoneRequestWindow :: int where "phoneRequestWindow \<equiv> 3600"
abbreviation (input) phoneRequestsPerWindow :: int where "phoneRequestsPerWindow \<equiv> 5"

section \<open>PhoneVerificationRepository\<close>

text \<open>\<^verbatim>\<open>APV_ID\<close> and \<^verbatim>\<open>GRANT_TOKEN_HASH\<close> have unique keys: a statement that would repeat a value
  fails.\<close>

definition new_verification :: "pv_env \<Rightarrow> int \<Rightarrow> string \<Rightarrow> string \<Rightarrow> string \<Rightarrow> int \<Rightarrow> PhoneVerification" where
  "new_verification env seq vid phone codeHash expiresAt =
     \<lparr>APVSeq = seq, APVID = vid, Phone = phone, CodeHash = codeHash, GrantTokenHash = None,
      Attempts = 0, VerifiedYN = ''N'', ConsumedYN = ''N'', ExpiresAt = expiresAt,
      GrantExpiresAt = None, RegDate = sql_now env, ConsumedUsrSeq = None, ConsumedAt = None\<rparr>"

definition InsertVerification ::
  "pv_env \<Rightarrow> string \<Rightarrow> string \<Rightarrow> string \<Rightarrow> int \<Rightarrow> pv_state \<Rightarrow> (pv_error, pv_state) result" where
  "InsertVerification env vid phone codeHash expiresAt st =
     (case pv_fault env PvInsert of
        Some e \<Rightarrow> Inl (PvDatabase e)
      | None \<Rightarrow>
          if \<exists>r \<in> set (apv st). collates env (APVID r) vid then Inl (PvDatabase ''duplicate key'')
          else Inr (st\<lparr>apv := apv st @ [new_verification env (apv_next st) vid phone codeHash expiresAt],
                       apv_next := apv_next st + 1\<rparr>))"

definition recent_requests :: "string \<Rightarrow> int \<Rightarrow> PhoneVerification list \<Rightarrow> int" where
  "recent_requests phone since rows = int (length (filter (\<lambda>r. Phone r = phone \<and> RegDate r \<ge> since) rows))"

definition CountRecentRequests :: "pv_env \<Rightarrow> string \<Rightarrow> int \<Rightarrow> pv_state \<Rightarrow> (pv_error, int) result" where
  "CountRecentRequests env phone since st =
     (case pv_fault env PvCount of
        Some e \<Rightarrow> Inl (PvDatabase e)
      | None \<Rightarrow> Inr (recent_requests phone since (apv st)))"

definition pending_row :: "pv_env \<Rightarrow> string \<Rightarrow> PhoneVerification \<Rightarrow> bool" where
  "pending_row env vid r = (collates env (APVID r) vid \<and> VerifiedYN r = ''N'' \<and> ExpiresAt r > sql_now env)"

definition FindPendingVerification ::
  "pv_env \<Rightarrow> string \<Rightarrow> pv_state \<Rightarrow> (pv_error, PhoneVerification option) result" where
  "FindPendingVerification env vid st =
     (case pv_fault env PvFindPending of
        Some e \<Rightarrow> Inl (PvDatabase e)
      | None \<Rightarrow> Inr (sql_get (pending_row env vid) (apv st)))"

definition update_apv :: "int \<Rightarrow> (PhoneVerification \<Rightarrow> PhoneVerification) \<Rightarrow> pv_state \<Rightarrow> pv_state" where
  "update_apv seq f st = st\<lparr>apv := sql_update (\<lambda>r. APVSeq r = seq) f (apv st)\<rparr>"

definition IncrementAttempts :: "pv_env \<Rightarrow> int \<Rightarrow> pv_state \<Rightarrow> (pv_error, int) result \<times> pv_state" where
  "IncrementAttempts env seq st =
     (case pv_fault env PvIncrement of
        Some e \<Rightarrow> (Inl (PvDatabase e), st)
      | None \<Rightarrow>
          (let st1 = update_apv seq (\<lambda>r. r\<lparr>Attempts := Attempts r + 1\<rparr>) st
           in case pv_fault env PvReadAttempts of
                Some e \<Rightarrow> (Inl (PvDatabase e), st1)
              | None \<Rightarrow>
                  (case sql_get (\<lambda>r. APVSeq r = seq) (apv st1) of
                     None \<Rightarrow> (Inl (PvDatabase ''no rows''), st1)
                   | Some r \<Rightarrow> (Inr (Attempts r), st1))))"

definition ExpireVerification :: "pv_env \<Rightarrow> int \<Rightarrow> pv_state \<Rightarrow> (pv_error, pv_state) result" where
  "ExpireVerification env seq st =
     (case pv_fault env PvExpire of
        Some e \<Rightarrow> Inl (PvDatabase e)
      | None \<Rightarrow> Inr (update_apv seq (\<lambda>r. r\<lparr>ExpiresAt := sql_now env\<rparr>) st))"

definition MarkVerified :: "pv_env \<Rightarrow> int \<Rightarrow> string \<Rightarrow> int \<Rightarrow> pv_state \<Rightarrow> (pv_error, pv_state) result" where
  "MarkVerified env seq grantTokenHash grantExpiresAt st =
     (case pv_fault env PvMarkVerified of
        Some e \<Rightarrow> Inl (PvDatabase e)
      | None \<Rightarrow>
          if \<exists>r \<in> set (apv st). APVSeq r \<noteq> seq \<and> GrantTokenHash r = Some grantTokenHash
          then Inl (PvDatabase ''duplicate key'')
          else Inr (update_apv seq (\<lambda>r. r\<lparr>VerifiedYN := ''Y'', GrantTokenHash := Some grantTokenHash,
                                           GrantExpiresAt := Some grantExpiresAt\<rparr>) st))"

definition usable_grant :: "pv_env \<Rightarrow> string \<Rightarrow> PhoneVerification \<Rightarrow> bool" where
  "usable_grant env h r =
     (GrantTokenHash r = Some h \<and> VerifiedYN r = ''Y'' \<and> ConsumedYN r = ''N''
      \<and> (case GrantExpiresAt r of None \<Rightarrow> False | Some t \<Rightarrow> t > sql_now env))"

definition FindUsableGrant :: "pv_env \<Rightarrow> string \<Rightarrow> pv_state \<Rightarrow> (pv_error, string) result" where
  "FindUsableGrant env h st =
     (case pv_fault env PvFindGrant of
        Some e \<Rightarrow> Inl (PvDatabase e)
      | None \<Rightarrow> Inr (case sql_get (usable_grant env h) (apv st) of None \<Rightarrow> [] | Some r \<Rightarrow> Phone r))"

text \<open>\<^verbatim>\<open>consumeGrant\<close>: the empty string is the grant that is not usable. The deferred rollback makes
  every early return leave the table as it was.\<close>

definition consumeGrant ::
  "pv_env \<Rightarrow> string \<Rightarrow> string \<Rightarrow> int \<Rightarrow> pv_state \<Rightarrow> (pv_error, string) result \<times> pv_state" where
  "consumeGrant env h expectedPhone user st =
     (case pv_fault env PvBegin of
        Some e \<Rightarrow> (Inl (PvDatabase e), st)
      | None \<Rightarrow>
     (case pv_fault env PvSelectGrant of
        Some e \<Rightarrow> (Inl (PvDatabase e), st)
      | None \<Rightarrow>
     (case sql_get (usable_grant env h) (apv st) of
        None \<Rightarrow> (Inr [], st)
      | Some r \<Rightarrow>
          if expectedPhone \<noteq> [] \<and> Phone r \<noteq> expectedPhone then (Inr [], st)
          else
            (let finish = (\<lambda>f. case pv_fault env PvConsume of
                    Some e \<Rightarrow> (Inl (PvDatabase e), st)
                  | None \<Rightarrow>
                      (case pv_fault env PvCommit of
                         Some e \<Rightarrow> (Inl (PvDatabase e), st)
                       | None \<Rightarrow> (Inr (Phone r), update_apv (APVSeq r) f st)))
             in if user > 0 then
                  (case pv_fault env PvSelectMember of
                     Some e \<Rightarrow> (Inl (PvDatabase e), st)
                   | None \<Rightarrow>
                       (case sql_get (\<lambda>m. m_usr_seq m = user \<and> m_phone m = Phone r \<and> m_status m \<noteq> ''AAA'') (members st) of
                          None \<Rightarrow> (Inr [], st)
                        | Some _ \<Rightarrow> finish (\<lambda>r. r\<lparr>ConsumedYN := ''Y'', ConsumedUsrSeq := Some user,
                                                   ConsumedAt := Some (sql_now env)\<rparr>)))
                else finish (\<lambda>r. r\<lparr>ConsumedYN := ''Y''\<rparr>)))))"

definition ConsumeGrant :: "pv_env \<Rightarrow> string \<Rightarrow> pv_state \<Rightarrow> (pv_error, string) result \<times> pv_state" where
  "ConsumeGrant env h st = consumeGrant env h [] 0 st"

definition repo_ConsumeGrantForMember ::
  "pv_env \<Rightarrow> string \<Rightarrow> string \<Rightarrow> int \<Rightarrow> pv_state \<Rightarrow> (pv_error, string) result \<times> pv_state" where
  "repo_ConsumeGrantForMember env h phone user st =
     (if user \<le> 0 then (Inr [], st) else consumeGrant env h phone user st)"

definition DeleteExpiredBefore :: "pv_env \<Rightarrow> int \<Rightarrow> pv_state \<Rightarrow> pv_state" where
  "DeleteExpiredBefore env cutoff st =
     st\<lparr>apv := sql_delete (\<lambda>r. RegDate r < cutoff \<and>
          (ConsumedYN r = ''Y'' \<or> ExpiresAt r \<le> sql_now env \<and>
            (case GrantExpiresAt r of None \<Rightarrow> True | Some t \<Rightarrow> t \<le> sql_now env))) (apv st)\<rparr>"

section \<open>PhoneVerificationService\<close>

definition ConfigureReviewTestNumbers :: "string list \<Rightarrow> string \<Rightarrow> (string \<rightharpoonup> string)" where
  "ConfigureReviewTestNumbers phones code =
     map_of (map (\<lambda>p. (NormalizePhoneNumber p, code)) (filter (\<lambda>p. phone_Valid (NormalizePhoneNumber p)) phones))"

record PhoneVerificationRequestResult =
  VerificationID :: string
  ExpiresInSec :: int

definition requestReviewTestCode ::
  "pv_env \<Rightarrow> string \<Rightarrow> string \<Rightarrow> pv_state \<Rightarrow> (pv_error, PhoneVerificationRequestResult) result \<times> pv_state" where
  "requestReviewTestCode env canonicalPhone fixedCode st =
     (case CountRecentRequests env canonicalPhone (go_now env - phoneRequestWindow) st of
        Inl e \<Rightarrow> (Inl e, st)
      | Inr recent \<Rightarrow>
          if recent \<ge> phoneRequestsPerWindow then (Inl ErrPhoneVerificationThrottled, st)
          else (case randomHex env 16 of
                  Inl e \<Rightarrow> (Inl (PvRandom e), st)
                | Inr vid \<Rightarrow>
                    (case InsertVerification env vid canonicalPhone (hashSecret env fixedCode)
                            (go_now env + phoneCodeExpiry) st of
                       Inl e \<Rightarrow> (Inl e, st)
                     | Inr st1 \<Rightarrow> (Inr \<lparr>VerificationID = vid, ExpiresInSec = phoneCodeExpiry\<rparr>, st1))))"

definition RequestCode ::
  "pv_env \<Rightarrow> string \<Rightarrow> pv_state \<Rightarrow> (pv_error, PhoneVerificationRequestResult) result \<times> pv_state" where
  "RequestCode env phone st =
     (let canonicalPhone = NormalizePhoneNumber phone
      in if \<not> phone_Valid canonicalPhone then (Inl ErrInvalidPhone, st)
         else case reviewTestPhones env canonicalPhone of
           Some fixedCode \<Rightarrow> requestReviewTestCode env canonicalPhone fixedCode st
         | None \<Rightarrow>
      (case CountRecentRequests env canonicalPhone (go_now env - phoneRequestWindow) st of
        Inl e \<Rightarrow> (Inl e, st)
      | Inr recent \<Rightarrow>
          if recent \<ge> phoneRequestsPerWindow then (Inl ErrPhoneVerificationThrottled, st)
          else (case randomHex env 16 of
                  Inl e \<Rightarrow> (Inl (PvRandom e), st)
                | Inr vid \<Rightarrow>
               (case randomNumericCode env 6 of
                  Inl e \<Rightarrow> (Inl (PvRandom e), st)
                | Inr code \<Rightarrow>
               (case InsertVerification env vid canonicalPhone (hashSecret env code)
                       (go_now env + phoneCodeExpiry) st of
                  Inl e \<Rightarrow> (Inl e, st)
                | Inr st1 \<Rightarrow>
                    (let body = render_sms env code
                     in if body = [] then (Inl ErrSMSTemplateEmpty, st1)
                        else case send_sms env canonicalPhone body of
                               Some e \<Rightarrow> (Inl (PvSend e), st1)
                             | None \<Rightarrow> (Inr \<lparr>VerificationID = vid, ExpiresInSec = phoneCodeExpiry\<rparr>,
                                         st1\<lparr>sms_sent := sms_sent st1 @ [(canonicalPhone, body)]\<rparr>)))))))"

text \<open>\<^verbatim>\<open>ConfirmCode\<close> after the record was read, and the whole call.\<close>

definition confirm_record ::
  "pv_env \<Rightarrow> PhoneVerification option \<Rightarrow> string \<Rightarrow> pv_state \<Rightarrow> (pv_error, string \<times> int) result \<times> pv_state" where
  "confirm_record env rec code st =
     (case rec of
        None \<Rightarrow> (Inl ErrPhoneVerificationNotFound, st)
      | Some record \<Rightarrow>
          if Attempts record \<ge> phoneCodeMaxAttempts then (Inl ErrPhoneVerificationAttemptsExceeded, st)
          else if hashSecret env code \<noteq> CodeHash record then
            (case IncrementAttempts env (APVSeq record) st of
               (Inl e, st1) \<Rightarrow> (Inl e, st1)
             | (Inr attempts, st1) \<Rightarrow>
                 if attempts \<ge> phoneCodeMaxAttempts then
                   (case ExpireVerification env (APVSeq record) st1 of
                      Inl e \<Rightarrow> (Inl e, st1)
                    | Inr st2 \<Rightarrow> (Inl ErrPhoneVerificationAttemptsExceeded, st2))
                 else (Inl ErrPhoneVerificationCodeMismatch, st1))
          else
            (case randomHex env 32 of
               Inl e \<Rightarrow> (Inl (PvRandom e), st)
             | Inr grantToken \<Rightarrow>
                 (case MarkVerified env (APVSeq record) (hashSecret env grantToken) (go_now env + phoneGrantExpiry) st of
                    Inl e \<Rightarrow> (Inl e, st)
                  | Inr st1 \<Rightarrow> (Inr (grantToken, phoneGrantExpiry), st1))))"

definition ConfirmCode ::
  "pv_env \<Rightarrow> string \<Rightarrow> string \<Rightarrow> pv_state \<Rightarrow> (pv_error, string \<times> int) result \<times> pv_state" where
  "ConfirmCode env verificationID code st =
     (case FindPendingVerification env verificationID st of
        Inl e \<Rightarrow> (Inl e, st)
      | Inr rec \<Rightarrow> confirm_record env rec code st)"

definition grantSubject ::
  "pv_env \<Rightarrow> string \<Rightarrow> string \<Rightarrow> (string \<Rightarrow> pv_state \<Rightarrow> (pv_error, string) result \<times> pv_state) \<Rightarrow> pv_state
    \<Rightarrow> (pv_error, string) result \<times> pv_state" where
  "grantSubject env grantToken phone lookup st =
     (if grantToken = [] then (Inl ErrPhoneNotVerified, st)
      else let canonicalPhone = NormalizePhoneNumber phone
           in if \<not> phone_Valid canonicalPhone then (Inl ErrInvalidPhone, st)
              else (case lookup (hashSecret env grantToken) st of
                      (Inl e, st1) \<Rightarrow> (Inl e, st1)
                    | (Inr grantedPhone, st1) \<Rightarrow>
                        if grantedPhone = [] \<or> grantedPhone \<noteq> canonicalPhone
                        then (Inl ErrPhoneNotVerified, st1) else (Inr grantedPhone, st1)))"

definition AssertPhoneVerified :: "pv_env \<Rightarrow> string \<Rightarrow> string \<Rightarrow> pv_state \<Rightarrow> pv_error option" where
  "AssertPhoneVerified env grantToken phone st =
     (case fst (grantSubject env grantToken phone (\<lambda>h s. (FindUsableGrant env h s, s)) st) of
        Inl e \<Rightarrow> Some e | Inr _ \<Rightarrow> None)"

definition err_of :: "('e, 'a) result \<times> 's \<Rightarrow> 'e option \<times> 's" where
  "err_of x = ((case fst x of Inl e \<Rightarrow> Some e | Inr _ \<Rightarrow> None), snd x)"

definition ConsumeGrantForPhone :: "pv_env \<Rightarrow> string \<Rightarrow> string \<Rightarrow> pv_state \<Rightarrow> pv_error option \<times> pv_state" where
  "ConsumeGrantForPhone env grantToken phone st =
     err_of (grantSubject env grantToken phone (ConsumeGrant env) st)"

definition ConsumeGrantForMember ::
  "pv_env \<Rightarrow> string \<Rightarrow> string \<Rightarrow> int \<Rightarrow> pv_state \<Rightarrow> pv_error option \<times> pv_state" where
  "ConsumeGrantForMember env grantToken phone user st =
     (if user \<le> 0 then (Some ErrPhoneNotVerified, st)
      else err_of (grantSubject env grantToken phone
        (\<lambda>h. repo_ConsumeGrantForMember env h (NormalizePhoneNumber phone) user) st))"

definition SignupGrantHash :: "pv_env \<Rightarrow> string \<Rightarrow> string" where
  "SignupGrantHash env token = hashSecret env token"

section \<open>The table as a state machine\<close>

text \<open>What one request can do to the table of codes: the abstract view the invariants are proved on.\<close>

inductive row_step :: "pv_env \<Rightarrow> int \<Rightarrow> PhoneVerification list \<Rightarrow> PhoneVerification list \<Rightarrow> bool" where
  same: "row_step env n rows rows"
| issue: "recent_requests ph (go_now env - phoneRequestWindow) rows < phoneRequestsPerWindow \<Longrightarrow>
    row_step env n rows (rows @ [new_verification env n vid ph ch ex])"
| wrong: "r \<in> set rows \<Longrightarrow> VerifiedYN r = ''N'' \<Longrightarrow> Attempts r < phoneCodeMaxAttempts \<Longrightarrow>
    row_step env n rows (sql_update (\<lambda>x. APVSeq x = APVSeq r) (\<lambda>x. x\<lparr>Attempts := Attempts x + 1\<rparr>) rows)"
| retire: "r \<in> set rows \<Longrightarrow> VerifiedYN r = ''N'' \<Longrightarrow> Attempts r < phoneCodeMaxAttempts \<Longrightarrow>
    row_step env n rows (sql_update (\<lambda>x. APVSeq x = APVSeq r)
      (\<lambda>x. x\<lparr>Attempts := Attempts x + 1, ExpiresAt := sql_now env\<rparr>) rows)"
| verify: "r \<in> set rows \<Longrightarrow> VerifiedYN r = ''N'' \<Longrightarrow> Attempts r < phoneCodeMaxAttempts \<Longrightarrow>
    randomHex env 32 = Inr tok \<Longrightarrow> \<forall>x \<in> set rows. APVSeq x \<noteq> APVSeq r \<longrightarrow> GrantTokenHash x \<noteq> Some (hashSecret env tok) \<Longrightarrow>
    row_step env n rows (sql_update (\<lambda>x. APVSeq x = APVSeq r)
      (\<lambda>x. x\<lparr>VerifiedYN := ''Y'', GrantTokenHash := Some (hashSecret env tok),
             GrantExpiresAt := Some (go_now env + phoneGrantExpiry)\<rparr>) rows)"
| consume: "r \<in> set rows \<Longrightarrow> usable_grant env h r \<Longrightarrow>
    row_step env n rows (sql_update (\<lambda>x. APVSeq x = APVSeq r)
      (\<lambda>x. x\<lparr>ConsumedYN := ''Y'', ConsumedUsrSeq := u x, ConsumedAt := t x\<rparr>) rows)"
| purge: "row_step env n rows (sql_delete q rows)"

datatype pv_op =
    OpRequestCode pv_env string
  | OpConfirmCode pv_env string string
  | OpConsumePhone pv_env string string
  | OpConsumeMember pv_env string string int
  | OpDeleteExpired pv_env int

fun pv_step :: "pv_state \<Rightarrow> pv_op \<Rightarrow> pv_state" where
  "pv_step st (OpRequestCode env phone) = snd (RequestCode env phone st)"
| "pv_step st (OpConfirmCode env vid code) = snd (ConfirmCode env vid code st)"
| "pv_step st (OpConsumePhone env tok phone) = snd (ConsumeGrantForPhone env tok phone st)"
| "pv_step st (OpConsumeMember env tok phone u) = snd (ConsumeGrantForMember env tok phone u st)"
| "pv_step st (OpDeleteExpired env cutoff) = DeleteExpiredBefore env cutoff st"

fun op_env :: "pv_op \<Rightarrow> pv_env" where
  "op_env (OpRequestCode env _) = env"
| "op_env (OpConfirmCode env _ _) = env"
| "op_env (OpConsumePhone env _ _) = env"
| "op_env (OpConsumeMember env _ _ _) = env"
| "op_env (OpDeleteExpired env _) = env"

text \<open>Every request refines a step of the machine, and keeps the key counter in step.\<close>

definition refines :: "pv_env \<Rightarrow> pv_state \<Rightarrow> pv_state \<Rightarrow> bool" where
  "refines env st st' =
     (row_step env (apv_next st) (apv st) (apv st') \<and> apv_next st' = apv_next st + int (length (apv st') - length (apv st)))"

lemma refines_refl [simp]: "refines env st st"
  by (simp add: refines_def same)

lemma refines_update:
  assumes "row_step env (apv_next st) (apv st) (sql_update (\<lambda>x. APVSeq x = i) f (apv st))"
  shows "refines env st (update_apv i f st)"
  using assms by (simp add: refines_def update_apv_def)

lemma refines_insert:
  assumes "InsertVerification env vid ph ch ex st = Inr st1" "apv st2 = apv st1" "apv_next st2 = apv_next st1"
    "recent_requests ph (go_now env - phoneRequestWindow) (apv st) < phoneRequestsPerWindow"
  shows "refines env st st2"
  using assms by (auto simp: refines_def InsertVerification_def issue split: option.splits if_splits)

lemma refines_RequestCode: "refines env st (snd (RequestCode env phone st))"
proof -
  have ins: "refines env st st2"
    if "InsertVerification env vid ph ch ex st = Inr st1" "CountRecentRequests env ph (go_now env - phoneRequestWindow) st = Inr k"
      "k < phoneRequestsPerWindow" "apv st2 = apv st1" "apv_next st2 = apv_next st1" for vid ph ch ex st1 st2 k
    using that refines_insert [of env vid ph ch ex st st1 st2] by (auto simp: CountRecentRequests_def split: option.splits)
  have rev: "refines env st (snd (requestReviewTestCode env ph c st))" for ph c
    using ins by (auto simp: requestReviewTestCode_def split: sum.split)
  show ?thesis
    using ins rev by (simp add: RequestCode_def Let_def split: option.split sum.split)
qed

lemma update_apv_twice:
  assumes "\<And>r. APVSeq (f r) = APVSeq r"
  shows "update_apv i g (update_apv i f st) = update_apv i (\<lambda>r. g (f r)) st"
  using assms by (simp add: update_apv_def sql_update_def)

lemma refines_ConfirmCode: "refines env st (snd (ConfirmCode env vid code st))"
proof (cases "FindPendingVerification env vid st")
  case (Inl e)
  then show ?thesis by (simp add: ConfirmCode_def)
next
  case (Inr rec)
  show ?thesis
  proof (cases rec)
    case None
    with Inr show ?thesis by (simp add: ConfirmCode_def confirm_record_def)
  next
    case (Some r)
    have r: "r \<in> set (apv st)" "VerifiedYN r = ''N''"
      using Inr Some by (auto simp: FindPendingVerification_def pending_row_def split: option.splits dest: sql_get_Some)
    show ?thesis
    proof (cases "Attempts r < phoneCodeMaxAttempts")
      case False
      with Inr Some show ?thesis by (simp add: ConfirmCode_def confirm_record_def)
    next
      case True
      have w: "refines env st (update_apv (APVSeq r) (\<lambda>x. x\<lparr>Attempts := Attempts x + 1\<rparr>) st)"
        using r True by (intro refines_update wrong)
      have t: "refines env st (update_apv (APVSeq r) (\<lambda>x. x\<lparr>ExpiresAt := sql_now env\<rparr>)
          (update_apv (APVSeq r) (\<lambda>x. x\<lparr>Attempts := Attempts x + 1\<rparr>) st))"
        using r True by (subst update_apv_twice) (simp_all add: refines_update retire)
      have v: "refines env st st1" if "MarkVerified env (APVSeq r) (hashSecret env tok) (go_now env + phoneGrantExpiry) st = Inr st1"
        "randomHex env 32 = Inr tok" for tok st1
        using that r True by (auto simp: MarkVerified_def split: option.splits if_splits intro!: refines_update verify)
      show ?thesis
        using Inr Some True w t v
        by (simp add: ConfirmCode_def confirm_record_def IncrementAttempts_def ExpireVerification_def Let_def
            split: option.split sum.split)
    qed
  qed
qed

text \<open>Spending a grant, by its outcome.\<close>

lemma consumeGrant_outcome:
  assumes "consumeGrant env h e u st = (x, st')"
  shows "st' = st \<and> (\<forall>p. x = Inr p \<longrightarrow> p = [])
    \<or> (\<exists>r f. sql_get (usable_grant env h) (apv st) = Some r \<and> x = Inr (Phone r) \<and> st' = update_apv (APVSeq r) f st
         \<and> (f = (\<lambda>x. x\<lparr>ConsumedYN := ''Y''\<rparr>)
            \<or> f = (\<lambda>x. x\<lparr>ConsumedYN := ''Y'', ConsumedUsrSeq := Some u, ConsumedAt := Some (sql_now env)\<rparr>)))"
  using assms by (auto simp: consumeGrant_def Let_def split: option.splits if_splits)

lemma refines_consumeGrant: "refines env st (snd (consumeGrant env h e u st))"
proof -
  obtain x st' where c: "consumeGrant env h e u st = (x, st')" by fastforce
  have "refines env st st'" if "sql_get (usable_grant env h) (apv st) = Some r"
    "st' = update_apv (APVSeq r) f st" "f = (\<lambda>x. x\<lparr>ConsumedYN := ''Y''\<rparr>)" for r f
  proof -
    have f: "f = (\<lambda>x. x\<lparr>ConsumedYN := ''Y'', ConsumedUsrSeq := ConsumedUsrSeq x, ConsumedAt := ConsumedAt x\<rparr>)"
      unfolding that by (rule ext) simp
    show ?thesis unfolding that(2) f
      using sql_get_Some [OF that(1)] by (intro refines_update consume [where h = h]) simp_all
  qed
  moreover have "refines env st st'" if "sql_get (usable_grant env h) (apv st) = Some r"
    "st' = update_apv (APVSeq r) f st"
    "f = (\<lambda>x. x\<lparr>ConsumedYN := ''Y'', ConsumedUsrSeq := Some u, ConsumedAt := Some (sql_now env)\<rparr>)" for r f
    unfolding that using sql_get_Some [OF that(1)] by (intro refines_update consume [where h = h]) simp_all
  ultimately show ?thesis using consumeGrant_outcome [OF c] c by auto
qed

lemma grantSubject_state:
  "snd (grantSubject env tok ph look st) = st \<or> snd (grantSubject env tok ph look st) = snd (look (hashSecret env tok) st)"
  by (auto simp: grantSubject_def Let_def split: sum.split prod.split)

lemma refines_step: "refines (op_env op) st (pv_step st op)"
proof (cases op)
  case (OpConsumePhone env tok ph)
  then show ?thesis
    using grantSubject_state [of env tok ph "ConsumeGrant env" st] refines_consumeGrant [of env st "hashSecret env tok" "[]" 0]
    by (auto simp: ConsumeGrantForPhone_def err_of_def ConsumeGrant_def)
next
  case (OpConsumeMember env tok ph u)
  then show ?thesis
    using grantSubject_state [of env tok ph "\<lambda>h. repo_ConsumeGrantForMember env h (NormalizePhoneNumber ph) u" st]
      refines_consumeGrant [of env st "hashSecret env tok" "NormalizePhoneNumber ph" u]
    by (auto simp: ConsumeGrantForMember_def err_of_def repo_ConsumeGrantForMember_def)
next
  case (OpDeleteExpired env c)
  have "length (sql_delete q rows) - length rows = 0" for q and rows :: "PhoneVerification list"
    by (simp add: sql_delete_def)
  then show ?thesis using OpDeleteExpired by (simp add: refines_def DeleteExpiredBefore_def purge)
qed (simp_all add: refines_RequestCode refines_ConfirmCode)

section \<open>Invariants\<close>

text \<open>Keys are unique, attempts stay within the limit, no two rows carry the same grant, rows are not
  from the future, and no phone number has more than five codes in any hour.\<close>

definition in_hour :: "string \<Rightarrow> int \<Rightarrow> PhoneVerification \<Rightarrow> bool" where
  "in_hour ph t r = (Phone r = ph \<and> t - phoneRequestWindow \<le> RegDate r \<and> RegDate r \<le> t)"

definition grants_unique :: "PhoneVerification list \<Rightarrow> bool" where
  "grants_unique rows = (\<forall>x \<in> set rows. \<forall>y \<in> set rows.
     GrantTokenHash x \<noteq> None \<longrightarrow> GrantTokenHash x = GrantTokenHash y \<longrightarrow> APVSeq x = APVSeq y)"

definition rows_ok :: "int \<Rightarrow> int \<Rightarrow> PhoneVerification list \<Rightarrow> bool" where
  "rows_ok now n rows =
     (keys_ok APVSeq n rows \<and> grants_unique rows
      \<and> (\<forall>r \<in> set rows. 0 \<le> Attempts r \<and> Attempts r \<le> phoneCodeMaxAttempts \<and> RegDate r \<le> now)
      \<and> (\<forall>ph t. int (length (filter (in_hour ph t) rows)) \<le> phoneRequestsPerWindow))"

text \<open>An update of one row that keeps phone and date keeps the counts.\<close>

lemma filter_update_length:
  assumes "\<And>r. q (f r) = q r"
  shows "length (filter q (sql_update p f rows)) = length (filter q rows)"
  using assms by (induction rows) auto

lemma key_row:
  assumes "keys_ok APVSeq n rows" "r \<in> set rows" "x \<in> set rows" "APVSeq x = APVSeq r"
  shows "x = r"
  using assms by (auto simp: keys_ok_def distinct_map inj_on_def)

lemma rows_ok_update:
  assumes ok: "rows_ok now n rows" and t: "now \<le> now'" and r: "r \<in> set rows"
    and f: "\<And>x. APVSeq (f x) = APVSeq x" "\<And>x. Phone (f x) = Phone x" "\<And>x. RegDate (f x) = RegDate x"
    and a: "0 \<le> Attempts (f r)" "Attempts (f r) \<le> phoneCodeMaxAttempts"
    and g: "GrantTokenHash (f r) = GrantTokenHash r \<or>
       (\<forall>x \<in> set rows. APVSeq x \<noteq> APVSeq r \<longrightarrow> GrantTokenHash x \<noteq> GrantTokenHash (f r))"
  shows "rows_ok now' n (sql_update (\<lambda>x. APVSeq x = APVSeq r) f rows)" (is "rows_ok _ _ ?rows")
proof -
  have k: "keys_ok APVSeq n rows" using ok by (simp add: rows_ok_def)
  have "map APVSeq ?rows = map APVSeq rows" using f(1) by (rule map_key_sql_update)
  then have "keys_ok APVSeq n ?rows" using k unfolding keys_ok_def by (metis (no_types, lifting) image_iff list.set_map)
  moreover have mem: "x \<in> set rows \<and> APVSeq x \<noteq> APVSeq r \<or> x = f r" if "x \<in> set ?rows" for x
    using that key_row [OF k r] by (auto simp: set_sql_update)
  moreover have "grants_unique ?rows"
  proof -
    have u: "grants_unique rows" using ok by (simp add: rows_ok_def)
    have "APVSeq x = APVSeq y" if xy: "x \<in> set ?rows" "y \<in> set ?rows" "GrantTokenHash x \<noteq> None" "GrantTokenHash x = GrantTokenHash y" for x y
    proof -
      consider "x \<in> set rows" "y \<in> set rows" | "x = f r" "y = f r"
        | "x = f r" "y \<in> set rows" "APVSeq y \<noteq> APVSeq r" | "y = f r" "x \<in> set rows" "APVSeq x \<noteq> APVSeq r"
        using mem [OF xy(1)] mem [OF xy(2)] by blast
      then show ?thesis using u g r xy(3,4) f(1) unfolding grants_unique_def by cases metis+
    qed
    then show ?thesis unfolding grants_unique_def by blast
  qed
  moreover have "length (filter (in_hour ph s) ?rows) = length (filter (in_hour ph s) rows)" for ph s
    using f by (intro filter_update_length) (simp add: in_hour_def)
  ultimately show ?thesis
    using ok a t f(3) r unfolding rows_ok_def by (metis (no_types, lifting) order.trans)
qed

lemma rows_okD:
  assumes "rows_ok now n rows"
  shows "keys_ok APVSeq n rows" "grants_unique rows"
    "\<And>r. r \<in> set rows \<Longrightarrow> 0 \<le> Attempts r \<and> Attempts r \<le> phoneCodeMaxAttempts \<and> RegDate r \<le> now"
    "\<And>ph t. int (length (filter (in_hour ph t) rows)) \<le> phoneRequestsPerWindow"
  using assms unfolding rows_ok_def by blast+

lemma rows_ok_later: "rows_ok now n rows \<Longrightarrow> now \<le> now' \<Longrightarrow> rows_ok now' n rows"
  by (auto simp: rows_ok_def intro: order.trans)

lemma grants_unique_mono:
  assumes "grants_unique rows" "\<And>r. r \<in> set rows' \<Longrightarrow> r \<in> set rows \<or> GrantTokenHash r = None"
  shows "grants_unique rows'"
  unfolding grants_unique_def
proof (intro ballI impI)
  fix x y assume xy: "x \<in> set rows'" "y \<in> set rows'" "GrantTokenHash x \<noteq> None" "GrantTokenHash x = GrantTokenHash y"
  then have "GrantTokenHash y \<noteq> None" by simp
  with xy assms(2) [of x] assms(2) [of y] have "x \<in> set rows" "y \<in> set rows" by simp_all
  with assms(1) xy(3,4) show "APVSeq x = APVSeq y" unfolding grants_unique_def by blast
qed

lemma rows_ok_issue:
  assumes ok: "rows_ok now n rows" and t: "now \<le> sql_now env" "go_now env = sql_now env"
    and few: "recent_requests ph (go_now env - phoneRequestWindow) rows < phoneRequestsPerWindow"
  shows "rows_ok (sql_now env) (n + 1) (rows @ [new_verification env n vid ph ch ex])" (is "rows_ok _ _ (rows @ [?r])")
proof -
  have k: "keys_ok APVSeq (n + 1) (rows @ [?r])"
    using rows_okD(1) [OF ok] by (force simp: keys_ok_def new_verification_def)
  have u: "grants_unique (rows @ [?r])"
    using rows_okD(2) [OF ok] by (rule grants_unique_mono) (auto simp: new_verification_def)
  have c: "int (length (filter (in_hour q s) (rows @ [?r]))) \<le> phoneRequestsPerWindow" for q s
  proof (cases "in_hour q s ?r")
    case True
    then have "q = ph" "sql_now env \<le> s" by (simp_all add: in_hour_def new_verification_def)
    then have "length (filter (in_hour q s) rows) \<le> length (filter (\<lambda>r. Phone r = ph \<and> RegDate r \<ge> go_now env - phoneRequestWindow) rows)"
      using t(2) by (induction rows) (auto simp: in_hour_def)
    with few True show ?thesis by (simp add: recent_requests_def)
  next
    case False
    with rows_okD(4) [OF ok] show ?thesis by simp
  qed
  have "\<forall>r \<in> set (rows @ [?r]). 0 \<le> Attempts r \<and> Attempts r \<le> phoneCodeMaxAttempts \<and> RegDate r \<le> sql_now env"
    using rows_okD(3) [OF ok] t(1) by (auto simp: new_verification_def intro: order.trans)
  with k u c show ?thesis unfolding rows_ok_def by blast
qed

lemma rows_ok_purge: "rows_ok now n rows \<Longrightarrow> rows_ok now n (sql_delete q rows)"
proof -
  assume ok: "rows_ok now n rows"
  have "int (length (filter (in_hour ph t) (sql_delete q rows))) \<le> phoneRequestsPerWindow" for ph t
  proof -
    have "length (filter (in_hour ph t) (sql_delete q rows)) \<le> length (filter (in_hour ph t) rows)"
      by (induction rows) (auto simp: sql_delete_def)
    also have "int \<dots> \<le> phoneRequestsPerWindow" by (rule rows_okD(4) [OF ok])
    finally show ?thesis by simp
  qed
  moreover have "grants_unique (sql_delete q rows)"
    using rows_okD(2) [OF ok] by (rule grants_unique_mono) (simp add: sql_delete_def)
  moreover have "keys_ok APVSeq n (sql_delete q rows)"
    using rows_okD(1) [OF ok] by (simp add: keys_ok_def sql_delete_def distinct_map_filter)
  moreover have "\<forall>r \<in> set (sql_delete q rows). 0 \<le> Attempts r \<and> Attempts r \<le> phoneCodeMaxAttempts \<and> RegDate r \<le> now"
    using rows_okD(3) [OF ok] by (simp add: sql_delete_def)
  ultimately show ?thesis unfolding rows_ok_def by blast
qed

lemma rows_ok_step:
  assumes "row_step env n rows rows'" "rows_ok now n rows" "now \<le> sql_now env" "go_now env = sql_now env"
  shows "rows_ok (sql_now env) (n + int (length rows' - length rows)) rows'"
  using assms(1)
proof cases
  case same
  then show ?thesis using rows_ok_later [OF assms(2,3)] by simp
next
  case (issue ph vid ch ex)
  then show ?thesis using rows_ok_issue [OF assms(2,3,4)] by simp
next
  case (wrong r)
  then have "0 \<le> Attempts r" using assms(2) by (simp add: rows_ok_def)
  then show ?thesis unfolding wrong(1) length_sql_update using wrong(3,4)
    by (simp, intro rows_ok_update [OF assms(2,3) wrong(2)]) simp_all
next
  case (retire r)
  then have "0 \<le> Attempts r" using assms(2) by (simp add: rows_ok_def)
  then show ?thesis unfolding retire(1) length_sql_update using retire(3,4)
    by (simp, intro rows_ok_update [OF assms(2,3) retire(2)]) simp_all
next
  case (verify r tok)
  then have "0 \<le> Attempts r \<and> Attempts r \<le> phoneCodeMaxAttempts" using assms(2) by (simp add: rows_ok_def)
  then show ?thesis unfolding verify(1) length_sql_update using verify(6)
    by (simp, intro rows_ok_update [OF assms(2,3) verify(2)]) simp_all
next
  case (consume r h u t)
  then have "0 \<le> Attempts r \<and> Attempts r \<le> phoneCodeMaxAttempts" using assms(2) by (simp add: rows_ok_def)
  then show ?thesis unfolding consume(1) length_sql_update
    by (simp, intro rows_ok_update [OF assms(2,3) consume(2)]) simp_all
next
  case (purge q)
  have "length (sql_delete q rows) - length rows = 0" by (simp add: sql_delete_def)
  with purge rows_ok_purge [OF rows_ok_later [OF assms(2,3)]] show ?thesis by simp
qed

text \<open>Runs of requests under one clock that does not go back.\<close>

inductive pv_reach :: "int \<Rightarrow> pv_state \<Rightarrow> bool" where
  pv_init: "apv st = [] \<Longrightarrow> 1 \<le> apv_next st \<Longrightarrow> pv_reach t st"
| pv_next: "pv_reach t st \<Longrightarrow> t \<le> sql_now (op_env op) \<Longrightarrow> go_now (op_env op) = sql_now (op_env op) \<Longrightarrow>
    pv_reach (sql_now (op_env op)) (pv_step st op)"

lemma pv_reach_ok: "pv_reach t st \<Longrightarrow> rows_ok t (apv_next st) (apv st)"
proof (induction rule: pv_reach.induct)
  case (pv_init st t)
  then show ?case by (simp add: rows_ok_def keys_ok_def grants_unique_def)
next
  case (pv_next t st op)
  then show ?case using refines_step [of op st] rows_ok_step by (metis refines_def)
qed

section \<open>Grants\<close>

definition spent :: "string \<Rightarrow> PhoneVerification list \<Rightarrow> bool" where
  "spent h rows = (\<forall>r \<in> set rows. GrantTokenHash r = Some h \<longrightarrow> ConsumedYN r = ''Y'')"

lemma spent_step:
  assumes "row_step env n rows rows'" "spent h rows"
    "\<And>tok. randomHex env 32 = Inr tok \<Longrightarrow> hashSecret env tok \<noteq> h"
  shows "spent h rows'"
  using assms by (induction rule: row_step.induct)
    (auto simp: spent_def set_sql_update sql_delete_def new_verification_def)

lemma spent_no_lookup: "spent h (apv st) \<Longrightarrow> sql_get (usable_grant env h) (apv st) = None"
  by (auto simp: sql_get_None spent_def usable_grant_def)

lemma spent_consumeGrant: "spent h (apv st) \<Longrightarrow> fst (consumeGrant env h e u st) \<in> {Inr []} \<union> range Inl"
  by (auto simp: consumeGrant_def spent_no_lookup split: option.splits)

lemma spent_run:
  assumes "spent h (apv st)"
    "\<And>op tok. op \<in> set ops \<Longrightarrow> randomHex (op_env op) 32 = Inr tok \<Longrightarrow> hashSecret (op_env op) tok \<noteq> h"
  shows "spent h (apv (run pv_step st ops))"
  using assms
proof (induction ops arbitrary: st)
  case (Cons op ops)
  have "spent h (apv (pv_step st op))"
    using spent_step [of "op_env op" "apv_next st" "apv st" "apv (pv_step st op)" h] refines_step [of op st] Cons.prems
    by (auto simp: refines_def)
  then show ?case using Cons.IH [of "pv_step st op"] Cons.prems(2) by auto
qed simp

lemma consumed_spent:
  assumes ok: "grants_unique (apv st)" and c: "consumeGrant env h e u st = (Inr p, st')" "p \<noteq> []"
  shows "spent h (apv st') \<and> (\<exists>r \<in> set (apv st). usable_grant env h r \<and> Phone r = p)"
proof -
  obtain r f where r: "sql_get (usable_grant env h) (apv st) = Some r" "p = Phone r" "st' = update_apv (APVSeq r) f st"
    and f: "f = (\<lambda>x. x\<lparr>ConsumedYN := ''Y''\<rparr>)
        \<or> f = (\<lambda>x. x\<lparr>ConsumedYN := ''Y'', ConsumedUsrSeq := Some u, ConsumedAt := Some (sql_now env)\<rparr>)"
    using consumeGrant_outcome [OF c(1)] c(2) by auto
  have ru: "r \<in> set (apv st)" "usable_grant env h r" using sql_get_Some [OF r(1)] by auto
  have fx: "ConsumedYN (f x) = ''Y''" for x using f by auto
  have "APVSeq x = APVSeq r" if "x \<in> set (apv st)" "GrantTokenHash x = Some h" for x
    using ok ru that unfolding grants_unique_def usable_grant_def by (metis option.distinct(1))
  then have "spent h (apv st')" using fx r(3) by (auto simp: spent_def update_apv_def set_sql_update)
  with ru r(2) show ?thesis by blast
qed

lemma ConsumeGrantForMember_success:
  assumes "ConsumeGrantForMember env tok ph u st = (None, st')"
  shows "\<exists>p. p \<noteq> [] \<and> p = NormalizePhoneNumber ph \<and>
    consumeGrant env (hashSecret env tok) (NormalizePhoneNumber ph) u st = (Inr p, st')"
  using assms
  by (auto simp: ConsumeGrantForMember_def err_of_def grantSubject_def repo_ConsumeGrantForMember_def Let_def
      split: if_splits sum.splits prod.splits)

lemma spent_refuses:
  assumes "spent (hashSecret env tok) (apv st)"
  shows "fst (ConsumeGrantForMember env tok ph u st) \<noteq> None" "fst (ConsumeGrantForPhone env tok ph st) \<noteq> None"
    "AssertPhoneVerified env tok ph st \<noteq> None"
  using spent_consumeGrant [OF assms, of env "NormalizePhoneNumber ph" u] spent_consumeGrant [OF assms, of env "[]" 0]
    spent_no_lookup [OF assms, of env]
  by (auto simp: ConsumeGrantForMember_def ConsumeGrantForPhone_def AssertPhoneVerified_def err_of_def grantSubject_def
      repo_ConsumeGrantForMember_def ConsumeGrant_def FindUsableGrant_def Let_def split: sum.splits prod.splits option.splits)

section \<open>Properties\<close>

text \<open>A scenario: the hash is the identity, the code sent is 123456.\<close>

definition demo_env :: "int \<Rightarrow> string \<Rightarrow> pv_env" where
  "demo_env t tok = \<lparr>go_now = t, sql_now = t, pv_fault = \<lambda>_. None, collates = (=), hashSecret = id,
     randomHex = \<lambda>_. Inr tok, randomNumericCode = \<lambda>_. Inr ''123456'', render_sms = id,
     send_sms = \<lambda>_ _. None, reviewTestPhones = Map.empty\<rparr>"

lemma demo_env_simps [simp]: "hashSecret (demo_env t tok) = id" "randomHex (demo_env t tok) = (\<lambda>_. Inr tok)"
  "go_now (demo_env t tok) = t" "sql_now (demo_env t tok) = t" "pv_fault (demo_env t tok) q = None"
  by (simp_all add: demo_env_def)

definition demo_pv :: pv_state where
  "demo_pv = \<lparr>apv = [], apv_next = 1, members = [\<lparr>m_usr_seq = 7, m_phone = ''01012345678'', m_status = ''BBB''\<rparr>],
     sms_sent = []\<rparr>"

definition demo_requested :: pv_state where
  "demo_requested = pv_step demo_pv (OpRequestCode (demo_env 100 ''v1'') ''010-1234-5678'')"

definition demo_verified :: pv_state where
  "demo_verified = pv_step demo_requested (OpConfirmCode (demo_env 110 ''g1'') ''v1'' ''123456'')"

lemma demo_pv_reach: "pv_reach 100 demo_requested" "pv_reach 110 demo_verified"
proof -
  have "pv_reach 0 demo_pv" by (rule pv_init) (simp_all add: demo_pv_def)
  from pv_next [OF this, of "OpRequestCode (demo_env 100 ''v1'') ''010-1234-5678''"]
  show a: "pv_reach 100 demo_requested" by (simp add: demo_requested_def del: pv_step.simps)
  from pv_next [OF a, of "OpConfirmCode (demo_env 110 ''g1'') ''v1'' ''123456''"]
  show "pv_reach 110 demo_verified" by (simp add: demo_verified_def del: pv_step.simps)
qed





text \<open>Once five wrong codes were entered for a code, it stays unverified for good: the count never
  exceeds five, and no later request, the right code included, changes it.\<close>

theorem code_retires_after_five:
  assumes "pv_reach t st" "r \<in> set (apv st)" "Attempts r \<ge> 5" "VerifiedYN r = ''N''"
    "r' \<in> set (apv (pv_step st op))" "APVSeq r' = APVSeq r"
  shows "VerifiedYN r' = ''N'' \<and> Attempts r' = 5"
proof -
  have k: "keys_ok APVSeq (apv_next st) (apv st)" "Attempts r = 5"
    using rows_okD(1,3) [OF pv_reach_ok [OF assms(1)]] assms(2,3) by force+
  have same: "x = r" if "x \<in> set (apv st)" "APVSeq x = APVSeq r" for x using key_row [OF k(1) assms(2) that] .
  have upd: "r' = r" if "apv (pv_step st op) = sql_update (\<lambda>x. APVSeq x = APVSeq r0) f (apv st)" "r0 \<in> set (apv st)"
    "r0 \<noteq> r" "\<And>x. APVSeq (f x) = APVSeq x" for r0 f
  proof -
    have "APVSeq r0 \<noteq> APVSeq r" using same that(2,3) by blast
    then show ?thesis using assms(5,6) same that(1,4) by (auto simp: set_sql_update)
  qed
  have lt: "APVSeq r < apv_next st" using k(1) assms(2) by (simp add: keys_ok_def)
  have "row_step (op_env op) (apv_next st) (apv st) (apv (pv_step st op))"
    using refines_step [of op st] by (simp add: refines_def)
  then show ?thesis
  proof cases
    case (issue ph vid ch ex)
    with same assms(4-6) k(2) lt show ?thesis by (auto simp: new_verification_def)
  next
    case (wrong r0)
    then have "r0 \<noteq> r" using k(2) by auto
    with upd [OF wrong(1,2)] k(2) assms(4) show ?thesis by simp
  next
    case (retire r0)
    then have "r0 \<noteq> r" using k(2) by auto
    with upd [OF retire(1,2)] k(2) assms(4) show ?thesis by simp
  next
    case (verify r0 tok)
    then have "r0 \<noteq> r" using k(2) by auto
    with upd [OF verify(1,2)] k(2) assms(4) show ?thesis by simp
  next
    case (consume r0 h u t)
    then have "r0 \<noteq> r" using assms(4) by (auto simp: usable_grant_def)
    with upd [OF consume(1,2)] k(2) assms(4) show ?thesis by simp
  qed (use same assms(4-6) k(2) in \<open>auto simp: sql_delete_def\<close>)
qed

definition demo_wrong :: pv_state where
  "demo_wrong = run pv_step demo_requested (replicate 5 (OpConfirmCode (demo_env 110 ''g1'') ''v1'' ''000000''))"

lemma demo_wrong_reach: "pv_reach 110 demo_wrong"
proof -
  have s: "pv_reach 110 (pv_step st (OpConfirmCode (demo_env 110 ''g1'') ''v1'' ''000000''))" if "pv_reach t st" "t \<le> 110" for t st
    using pv_next [OF that(1), of "OpConfirmCode (demo_env 110 ''g1'') ''v1'' ''000000''"] that(2) by (simp del: pv_step.simps)
  have l: "pv_reach 110 (run pv_step st (replicate n (OpConfirmCode (demo_env 110 ''g1'') ''v1'' ''000000'')))"
    if "pv_reach 110 st" for n st
    using that by (induction n arbitrary: st) (simp_all add: s del: pv_step.simps)
  have "demo_wrong = run pv_step (pv_step demo_requested (OpConfirmCode (demo_env 110 ''g1'') ''v1'' ''000000''))
      (replicate 4 (OpConfirmCode (demo_env 110 ''g1'') ''v1'' ''000000''))"
    by (simp add: demo_wrong_def numeral_eq_Suc)
  also have "pv_reach 110 \<dots>" by (rule l, rule s [OF demo_pv_reach(1)]) simp
  finally show ?thesis .
qed

theorem code_retires_after_five_witness:
  "VerifiedYN (hd (apv (pv_step demo_wrong (OpConfirmCode (demo_env 111 ''g1'') ''v1'' ''123456'')))) = ''N''"
proof -
  let ?op = "OpConfirmCode (demo_env 111 ''g1'') ''v1'' ''123456''"
  have a: "apv demo_wrong \<noteq> []" "Attempts (hd (apv demo_wrong)) \<ge> 5" "VerifiedYN (hd (apv demo_wrong)) = ''N''"
    "apv (pv_step demo_wrong ?op) \<noteq> []" "APVSeq (hd (apv (pv_step demo_wrong ?op))) = APVSeq (hd (apv demo_wrong))" by code_simp+
  from code_retires_after_five [OF demo_wrong_reach hd_in_set [OF a(1)] a(2,3) hd_in_set [OF a(4)] a(5)]
  show ?thesis by blast
qed

text \<open>The limit of five holds for requests one after the other only. Requests that have all read the
  row before any of them writes are all compared with the code: after any number of wrong ones the
  right one is still accepted.\<close>

theorem concurrent_guesses_are_not_limited:
  assumes "Attempts r < 5" "hashSecret env code = CodeHash r"
    "\<And>w. w \<in> set ws \<Longrightarrow> hashSecret env w \<noteq> CodeHash r" "\<And>q. pv_fault env q = None"
    "randomHex env 32 = Inr tok" "\<forall>x \<in> set (apv st). GrantTokenHash x \<noteq> Some (hashSecret env tok)"
  shows "fst (confirm_record env (Some r) code
     (foldl (\<lambda>s w. snd (confirm_record env (Some r) w s)) st ws)) = Inr (tok, 1800)"
proof -
  have "\<forall>x \<in> set (apv (foldl (\<lambda>s w. snd (confirm_record env (Some r) w s)) st ws)).
      GrantTokenHash x \<noteq> Some (hashSecret env tok)"
    using assms(3,6)
  proof (induction ws arbitrary: st)
    case (Cons w ws)
    have "\<forall>x \<in> set (apv (snd (confirm_record env (Some r) w st))). GrantTokenHash x \<noteq> Some (hashSecret env tok)"
      using Cons.prems assms(1,4)
      by (auto simp: confirm_record_def IncrementAttempts_def ExpireVerification_def update_apv_def set_sql_update Let_def
          split: option.splits)
    with Cons show ?case by simp
  qed simp
  then show ?thesis using assms(1,2,4,5) by (simp add: confirm_record_def MarkVerified_def)
qed

theorem concurrent_guesses_are_not_limited_witness:
  "fst (confirm_record (demo_env 110 ''g1'') (Some (hd (apv demo_requested))) ''123456''
     (foldl (\<lambda>s w. snd (confirm_record (demo_env 110 ''g1'') (Some (hd (apv demo_requested))) w s)) demo_requested
        [''1'', ''2'', ''3'', ''4'', ''5'', ''6'', ''7''])) = Inr (''g1'', 1800)"
proof -
  have r: "Attempts (hd (apv demo_requested)) = 0" "CodeHash (hd (apv demo_requested)) = ''123456''"
    "\<forall>x \<in> set (apv demo_requested). GrantTokenHash x \<noteq> Some ''g1''" by code_simp+
  show ?thesis by (rule concurrent_guesses_are_not_limited) (use r in auto)
qed

end
