(* ===== verification/Messages.thy ===== *)
theory Messages
  imports Go_Strings
begin

text \<open>
  Direct messages between alumni: the tables and statements (\<^verbatim>\<open>repository/message_repo.go\<close>,
  \<^verbatim>\<open>repository/member_block_repo.go\<close>, \<^verbatim>\<open>repository/message_preferences_repo.go\<close>) and the services
  (\<^verbatim>\<open>service/message_service.go\<close>, \<^verbatim>\<open>service/message_content_filter.go\<close>,
  \<^verbatim>\<open>service/member_block_service.go\<close>). The enum columns \<^verbatim>\<open>'Y'\<close>/\<^verbatim>\<open>'N'\<close> are booleans. A
  \<^verbatim>\<open>DATETIME\<close> is the number of seconds its text stands for when it is read as UTC.
\<close>

section \<open>Tables and environment\<close>

record msg_row =
  am_seq :: int
  am_sender :: int
  am_recvr :: int
  am_client :: "string option"
  am_content :: string
  am_read :: bool
  am_del_sender :: bool
  am_del_recvr :: bool
  am_visible :: bool
  am_reason :: "string option"
  am_purge :: "int option"
  am_reg :: int
  am_read_date :: "int option"

record block_row =
  b_blocker :: int
  b_blocked :: int
  b_updated :: int

record msg_member =
  mm_seq :: int
  mm_name :: string
  mm_status :: string
  mm_allowed :: bool

datatype message_event =
    MessageReceived int int string int string
  | MessageSent int int
  | MessagesRead int int int

record msg_state =
  msgs :: "msg_row list"
  msg_next :: int
  blocks :: "block_row list"
  msg_members :: "msg_member list"
  verification :: "(int \<times> string) list"
  msg_events :: "message_event list"

datatype msg_stmt =
    MsFindAccepted | MsAccept | MsSelectAccepted | MsApproved | MsPreferences | MsBlockGet
  | MsMarkRead | MsSelectSender | MsDelete | MsCount | MsSelect | MsMarkConversation
  | MsBlockBegin | MsBlockStatus | MsBlockInsert | MsBlockSelect | MsBlockCommit | MsUnblock | MsPurge | MsSavePreferences

text \<open>What a request meets. \<open>utc\<close> is \<^verbatim>\<open>UTC_TIMESTAMP()\<close>, \<open>local_now\<close> is \<^verbatim>\<open>NOW()\<close>; \<open>add_month\<close> is
  \<^verbatim>\<open>DATE_ADD(.., INTERVAL 1 MONTH)\<close>; \<open>loc_offset\<close> is the offset of the connection's \<^verbatim>\<open>loc\<close> (the
  data source name says \<^verbatim>\<open>Asia/Seoul\<close>, nine hours), by which the driver shifts every \<^verbatim>\<open>time.Time\<close>
  it sends and reads; \<open>tie\<close> is the server's order of rows a query does not order; \<open>normalize\<close> is
  \<^verbatim>\<open>normalizeMessageForFiltering\<close>, built on the NFKC tables of \<^verbatim>\<open>golang.org/x/text\<close>.\<close>

record msg_env =
  utc :: int
  local_now :: int
  add_month :: "int \<Rightarrow> int"
  loc_offset :: int
  tie :: "msg_row \<Rightarrow> int"
  ms_fault :: "msg_stmt \<Rightarrow> string option"
  normalize :: "string \<Rightarrow> string"
  extra_phrases :: "string list"

datatype msg_error =
    MessageInvalid string | ContentRejected | RecipientUnavailable | RecipientBlockedByMe
  | ReceivingDisabled | MsgDatabase string | MsgValidation string | BlockTargetNotFound

section \<open>MessageRepository\<close>

record SendMessageResponse =
  MessageID :: int
  resp_client :: "string option"
  resp_created_at :: int
  WasCreated :: bool
  VisibleToRecipient :: bool

definition accepted_row :: "int \<Rightarrow> string \<Rightarrow> msg_row \<Rightarrow> bool" where
  "accepted_row senderSeq clientMessageID m = (am_sender m = senderSeq \<and> am_client m = Some clientMessageID)"

definition response_of :: "msg_row \<Rightarrow> bool \<Rightarrow> SendMessageResponse" where
  "response_of m created = \<lparr>MessageID = am_seq m, resp_client = am_client m, resp_created_at = am_reg m,
     WasCreated = created, VisibleToRecipient = am_visible m\<rparr>"

definition FindAcceptedMessage ::
  "msg_env \<Rightarrow> int \<Rightarrow> string \<Rightarrow> msg_state \<Rightarrow> (msg_error, SendMessageResponse option) result" where
  "FindAcceptedMessage env senderSeq clientMessageID st =
     (case ms_fault env MsFindAccepted of
        Some e \<Rightarrow> Inl (MsgDatabase e)
      | None \<Rightarrow> Inr (map_option (\<lambda>m. response_of m False) (sql_get (accepted_row senderSeq clientMessageID) (msgs st))))"

definition is_blocked :: "int \<Rightarrow> int \<Rightarrow> msg_state \<Rightarrow> bool" where
  "is_blocked blockerSeq blockedSeq st =
     (\<exists>b \<in> set (blocks st). b_blocker b = blockerSeq \<and> b_blocked b = blockedSeq)"

definition message_allowed :: "int \<Rightarrow> msg_state \<Rightarrow> bool" where
  "message_allowed usrSeq st = (\<exists>m \<in> set (msg_members st). mm_seq m = usrSeq \<and> mm_allowed m)"

definition new_message :: "msg_env \<Rightarrow> int \<Rightarrow> int \<Rightarrow> int \<Rightarrow> string \<Rightarrow> string \<Rightarrow> bool \<Rightarrow> msg_row" where
  "new_message env seq senderSeq recvrSeq clientMessageID content blocked =
     \<lparr>am_seq = seq, am_sender = senderSeq, am_recvr = recvrSeq, am_client = Some clientMessageID,
      am_content = content, am_read = False, am_del_sender = False, am_del_recvr = False,
      am_visible = (\<not> blocked), am_reason = (if blocked then Some ''recipient_blocked'' else None),
      am_purge = (if blocked then Some (add_month env (utc env)) else None), am_reg = utc env,
      am_read_date = None\<rparr>"

text \<open>\<^verbatim>\<open>INSERT ... SELECT ... ON DUPLICATE KEY UPDATE AM_SEQ = LAST_INSERT_ID(AM_SEQ)\<close>: nothing is
  inserted for a recipient who does not receive messages or for a repeated client id; the affected
  count is 1 exactly for a new row.\<close>

definition AcceptMessage ::
  "msg_env \<Rightarrow> int \<Rightarrow> int \<Rightarrow> string \<Rightarrow> string \<Rightarrow> msg_state
    \<Rightarrow> (msg_error, SendMessageResponse) result \<times> msg_state" where
  "AcceptMessage env senderSeq recvrSeq clientMessageID content st =
     (case ms_fault env MsAccept of
        Some e \<Rightarrow> (Inl (MsgDatabase e), st)
      | None \<Rightarrow>
          (let inserts = (message_allowed recvrSeq st
                 \<and> sql_get (accepted_row senderSeq clientMessageID) (msgs st) = None);
               st1 = (if inserts
                      then st\<lparr>msgs := msgs st @ [new_message env (msg_next st) senderSeq recvrSeq clientMessageID
                                                 content (is_blocked recvrSeq senderSeq st)],
                              msg_next := msg_next st + 1\<rparr>
                      else st)
           in case ms_fault env MsSelectAccepted of
                Some e \<Rightarrow> (Inl (MsgDatabase e), st1)
              | None \<Rightarrow>
                  (case sql_get (accepted_row senderSeq clientMessageID) (msgs st1) of
                     None \<Rightarrow> (Inl ReceivingDisabled, st1)
                   | Some m \<Rightarrow> (Inr (response_of m inserts), st1))))"

definition approved_alumni :: "int \<Rightarrow> msg_state \<Rightarrow> bool" where
  "approved_alumni usrSeq st =
     (\<exists>v \<in> set (verification st). fst v = usrSeq \<and> snd v = ''approved''
        \<and> (\<exists>m \<in> set (msg_members st). mm_seq m = usrSeq \<and> mm_status m \<in> {''BBB'', ''CCC'', ''ZZZ''}))"

definition IsApprovedAlumni :: "msg_env \<Rightarrow> int \<Rightarrow> msg_state \<Rightarrow> (msg_error, bool) result" where
  "IsApprovedAlumni env usrSeq st =
     (case ms_fault env MsApproved of Some e \<Rightarrow> Inl (MsgDatabase e) | None \<Rightarrow> Inr (approved_alumni usrSeq st))"

definition CanReceiveMessages :: "msg_env \<Rightarrow> int \<Rightarrow> msg_state \<Rightarrow> (msg_error, bool) result" where
  "CanReceiveMessages env usrSeq st =
     (case ms_fault env MsPreferences of
        Some e \<Rightarrow> Inl (MsgDatabase e)
      | None \<Rightarrow>
          (case sql_get (\<lambda>m. mm_seq m = usrSeq) (msg_members st) of
             None \<Rightarrow> Inl (MsgDatabase ''no rows'')
           | Some m \<Rightarrow> Inr (mm_allowed m)))"

definition Save_preferences :: "msg_env \<Rightarrow> int \<Rightarrow> bool \<Rightarrow> msg_state \<Rightarrow> msg_error option \<times> msg_state" where
  "Save_preferences env usrSeq allowed st =
     (case ms_fault env MsSavePreferences of
        Some e \<Rightarrow> (Some (MsgDatabase e), st)
      | None \<Rightarrow>
          (None, st\<lparr>msg_members := sql_update (\<lambda>m. mm_seq m = usrSeq) (\<lambda>m. m\<lparr>mm_allowed := allowed\<rparr>) (msg_members st)\<rparr>))"

text \<open>The messages a user may see: received and visible, or sent, and not deleted on the user's side.\<close>

definition in_inbox :: "int \<Rightarrow> msg_row \<Rightarrow> bool" where
  "in_inbox usrSeq m = (am_recvr m = usrSeq \<and> \<not> am_del_recvr m \<and> am_visible m)"

definition in_outbox :: "int \<Rightarrow> msg_row \<Rightarrow> bool" where
  "in_outbox usrSeq m = (am_sender m = usrSeq \<and> \<not> am_del_sender m)"

definition in_conversation :: "int \<Rightarrow> int \<Rightarrow> msg_row \<Rightarrow> bool" where
  "in_conversation usrSeq otherSeq m =
     (am_sender m = usrSeq \<and> am_recvr m = otherSeq \<and> \<not> am_del_sender m
      \<or> am_sender m = otherSeq \<and> am_recvr m = usrSeq \<and> \<not> am_del_recvr m \<and> am_visible m)"

text \<open>\<^verbatim>\<open>ORDER BY REG_DATE DESC\<close> and \<^verbatim>\<open>ORDER BY REG_DATE DESC, AM_SEQ DESC\<close>.\<close>

definition by_date :: "msg_env \<Rightarrow> msg_row list \<Rightarrow> msg_row list" where
  "by_date env rows = sort_key (\<lambda>m. - am_reg m) (sort_key (tie env) rows)"

definition newest_first :: "msg_row list \<Rightarrow> msg_row list" where
  "newest_first rows = sort_key (\<lambda>m. - am_reg m) (sort_key (\<lambda>m. - am_seq m) rows)"

definition page_rows :: "(msg_row \<Rightarrow> bool) \<Rightarrow> msg_env \<Rightarrow> int \<Rightarrow> int \<Rightarrow> msg_state \<Rightarrow> (msg_error, msg_row list \<times> int) result" where
  "page_rows q env page sz st =
     (case ms_fault env MsCount of
        Some e \<Rightarrow> Inl (MsgDatabase e)
      | None \<Rightarrow>
          (case ms_fault env MsSelect of
             Some e \<Rightarrow> Inl (MsgDatabase e)
           | None \<Rightarrow>
               (let rows = filter q (msgs st)
                in Inr (take (nat sz) (drop (nat ((page - 1) * sz)) (by_date env rows)), int (length rows)))))"

definition repo_GetInbox :: "msg_env \<Rightarrow> int \<Rightarrow> int \<Rightarrow> int \<Rightarrow> msg_state \<Rightarrow> (msg_error, msg_row list \<times> int) result" where
  "repo_GetInbox env usrSeq page sz st = page_rows (in_inbox usrSeq) env page sz st"

definition repo_GetOutbox :: "msg_env \<Rightarrow> int \<Rightarrow> int \<Rightarrow> int \<Rightarrow> msg_state \<Rightarrow> (msg_error, msg_row list \<times> int) result" where
  "repo_GetOutbox env usrSeq page sz st = page_rows (in_outbox usrSeq) env page sz st"

definition unread_row :: "int \<Rightarrow> int \<Rightarrow> msg_row \<Rightarrow> bool" where
  "unread_row amSeq usrSeq m = (am_seq m = amSeq \<and> am_recvr m = usrSeq \<and> \<not> am_read m \<and> am_visible m)"

definition set_read :: "msg_env \<Rightarrow> msg_row \<Rightarrow> msg_row" where
  "set_read env m = m\<lparr>am_read := True, am_read_date := Some (local_now env)\<rparr>"

definition repo_MarkAsRead ::
  "msg_env \<Rightarrow> int \<Rightarrow> int \<Rightarrow> msg_state \<Rightarrow> (msg_error, int \<times> bool) result \<times> msg_state" where
  "repo_MarkAsRead env amSeq usrSeq st =
     (case ms_fault env MsMarkRead of
        Some e \<Rightarrow> (Inl (MsgDatabase e), st)
      | None \<Rightarrow>
          (let st1 = st\<lparr>msgs := sql_update (unread_row amSeq usrSeq) (set_read env) (msgs st)\<rparr>
           in if sql_affected (unread_row amSeq usrSeq) (msgs st) = 0 then (Inr (0, False), st1)
              else (case ms_fault env MsSelectSender of
                      Some e \<Rightarrow> (Inl (MsgDatabase e), st1)
                    | None \<Rightarrow>
                        (case sql_get (\<lambda>m. am_seq m = amSeq \<and> am_recvr m = usrSeq \<and> am_visible m) (msgs st1) of
                           None \<Rightarrow> (Inr (0, False), st1)
                         | Some m \<Rightarrow> (Inr (am_sender m, True), st1)))))"

definition delete_for :: "int \<Rightarrow> msg_row \<Rightarrow> msg_row" where
  "delete_for usrSeq m =
     m\<lparr>am_del_sender := (am_sender m = usrSeq \<or> am_del_sender m),
       am_del_recvr := (am_recvr m = usrSeq \<or> am_del_recvr m)\<rparr>"

definition DeleteMessage :: "msg_env \<Rightarrow> int \<Rightarrow> int \<Rightarrow> msg_state \<Rightarrow> msg_error option \<times> msg_state" where
  "DeleteMessage env amSeq usrSeq st =
     (case ms_fault env MsDelete of
        Some e \<Rightarrow> (Some (MsgDatabase e), st)
      | None \<Rightarrow> (None, st\<lparr>msgs := sql_update (\<lambda>m. am_seq m = amSeq \<and> (am_sender m = usrSeq \<or> am_recvr m = usrSeq))
                                 (delete_for usrSeq) (msgs st)\<rparr>))"

definition unread_count :: "int \<Rightarrow> msg_state \<Rightarrow> int" where
  "unread_count usrSeq st = int (length (filter (\<lambda>m. in_inbox usrSeq m \<and> \<not> am_read m) (msgs st)))"

definition GetUnreadCount :: "msg_env \<Rightarrow> int \<Rightarrow> msg_state \<Rightarrow> (msg_error, int) result" where
  "GetUnreadCount env usrSeq st =
     (case ms_fault env MsCount of Some e \<Rightarrow> Inl (MsgDatabase e) | None \<Rightarrow> Inr (unread_count usrSeq st))"

text \<open>The paged form without a cursor, oldest first.\<close>

definition repo_GetConversationMessages ::
  "msg_env \<Rightarrow> int \<Rightarrow> int \<Rightarrow> int \<Rightarrow> int \<Rightarrow> msg_state \<Rightarrow> (msg_error, msg_row list \<times> int) result" where
  "repo_GetConversationMessages env usrSeq otherSeq page sz st =
     (case ms_fault env MsCount of
        Some e \<Rightarrow> Inl (MsgDatabase e)
      | None \<Rightarrow>
          (case ms_fault env MsSelect of
             Some e \<Rightarrow> Inl (MsgDatabase e)
           | None \<Rightarrow>
               (let rows = filter (in_conversation usrSeq otherSeq) (msgs st)
                in Inr (take (nat sz) (drop (nat ((page - 1) * sz)) (sort_key am_seq rows)), int (length rows)))))"

text \<open>A cursor is the pair its JSON text holds: an instant (seconds since the epoch, UTC) and a key.
  A \<^verbatim>\<open>time.Time\<close> argument reaches the server shifted by the connection's offset.\<close>

record messageCursor =
  CreatedAt :: int
  CursorID :: int

definition before_row :: "msg_env \<Rightarrow> messageCursor \<Rightarrow> msg_row \<Rightarrow> bool" where
  "before_row env c m =
     (let arg = CreatedAt c + loc_offset env
      in am_reg m < arg \<or> am_reg m = arg \<and> am_seq m < CursorID c)"

definition GetCanonicalConversationMessages ::
  "msg_env \<Rightarrow> int \<Rightarrow> int \<Rightarrow> messageCursor option \<Rightarrow> int \<Rightarrow> msg_state \<Rightarrow> (msg_error, msg_row list) result" where
  "GetCanonicalConversationMessages env usrSeq otherSeq before limit st =
     (case ms_fault env MsSelect of
        Some e \<Rightarrow> Inl (MsgDatabase e)
      | None \<Rightarrow>
          Inr (take (nat limit) (newest_first (filter (\<lambda>m. in_conversation usrSeq otherSeq m
                \<and> (case before of None \<Rightarrow> True | Some c \<Rightarrow> before_row env c m)) (msgs st)))))"

definition boundary_ok :: "int \<Rightarrow> int \<Rightarrow> int \<Rightarrow> msg_state \<Rightarrow> bool" where
  "boundary_ok usrSeq senderSeq throughID st =
     (\<exists>b \<in> set (msgs st). am_seq b = throughID \<and>
        (am_sender b = senderSeq \<and> am_recvr b = usrSeq \<and> \<not> am_del_recvr b \<and> am_visible b
         \<or> am_sender b = usrSeq \<and> am_recvr b = senderSeq \<and> \<not> am_del_sender b))"

definition to_mark :: "int \<Rightarrow> int \<Rightarrow> int \<Rightarrow> msg_row \<Rightarrow> bool" where
  "to_mark usrSeq senderSeq throughID m =
     (am_recvr m = usrSeq \<and> am_sender m = senderSeq \<and> am_seq m \<le> throughID \<and> \<not> am_read m
      \<and> \<not> am_del_recvr m \<and> am_visible m)"

definition repo_MarkConversationRead ::
  "msg_env \<Rightarrow> int \<Rightarrow> int \<Rightarrow> int \<Rightarrow> msg_state \<Rightarrow> (msg_error, bool) result \<times> msg_state" where
  "repo_MarkConversationRead env usrSeq senderSeq throughID st =
     (case ms_fault env MsMarkConversation of
        Some e \<Rightarrow> (Inl (MsgDatabase e), st)
      | None \<Rightarrow>
          (let p = (\<lambda>m. boundary_ok usrSeq senderSeq throughID st \<and> to_mark usrSeq senderSeq throughID m)
           in (Inr (sql_affected p (msgs st) > 0), st\<lparr>msgs := sql_update p (set_read env) (msgs st)\<rparr>)))"

section \<open>MemberBlockRepository\<close>

record MemberBlockState =
  blk_UserSeq :: int
  BlockedByMe :: bool
  blk_UpdatedAt :: "int option"

definition block_Get :: "msg_env \<Rightarrow> int \<Rightarrow> int \<Rightarrow> msg_state \<Rightarrow> (msg_error, MemberBlockState) result" where
  "block_Get env blockerSeq blockedSeq st =
     (case ms_fault env MsBlockGet of
        Some e \<Rightarrow> Inl (MsgDatabase e)
      | None \<Rightarrow>
          Inr (case sql_get (\<lambda>b. b_blocker b = blockerSeq \<and> b_blocked b = blockedSeq) (blocks st) of
                 None \<Rightarrow> \<lparr>blk_UserSeq = blockedSeq, BlockedByMe = False, blk_UpdatedAt = None\<rparr>
               | Some b \<Rightarrow> \<lparr>blk_UserSeq = blockedSeq, BlockedByMe = True, blk_UpdatedAt = Some (b_updated b)\<rparr>))"

text \<open>The status row of the transaction: the verification of a member who can log in.\<close>

definition block_status :: "int \<Rightarrow> msg_state \<Rightarrow> string option" where
  "block_status blockedSeq st =
     (if \<exists>m \<in> set (msg_members st). mm_seq m = blockedSeq \<and> mm_status m \<in> {''BBB'', ''CCC'', ''ZZZ''}
      then map_option snd (sql_get (\<lambda>v. fst v = blockedSeq) (verification st)) else None)"

definition repo_Block ::
  "msg_env \<Rightarrow> int \<Rightarrow> int \<Rightarrow> msg_state \<Rightarrow> (msg_error, MemberBlockState) result \<times> msg_state" where
  "repo_Block env blockerSeq blockedSeq st =
     (case ms_fault env MsBlockBegin of
        Some e \<Rightarrow> (Inl (MsgDatabase e), st)
      | None \<Rightarrow>
     (case ms_fault env MsBlockStatus of
        Some e \<Rightarrow> (Inl (MsgDatabase e), st)
      | None \<Rightarrow>
     (case block_status blockedSeq st of
        None \<Rightarrow> (Inl BlockTargetNotFound, st)
      | Some status \<Rightarrow>
          if status \<noteq> ''approved'' then (Inl BlockTargetNotFound, st)
          else
     (case ms_fault env MsBlockInsert of
        Some e \<Rightarrow> (Inl (MsgDatabase e), st)
      | None \<Rightarrow>
          (let st1 = (if is_blocked blockerSeq blockedSeq st then st
                      else st\<lparr>blocks := blocks st @ [\<lparr>b_blocker = blockerSeq, b_blocked = blockedSeq, b_updated = utc env\<rparr>]\<rparr>)
           in case ms_fault env MsBlockSelect of
                Some e \<Rightarrow> (Inl (MsgDatabase e), st)
              | None \<Rightarrow>
                  (case ms_fault env MsBlockCommit of
                     Some e \<Rightarrow> (Inl (MsgDatabase e), st)
                   | None \<Rightarrow>
                       (Inr \<lparr>blk_UserSeq = blockedSeq, BlockedByMe = True,
                             blk_UpdatedAt = map_option b_updated
                               (sql_get (\<lambda>b. b_blocker b = blockerSeq \<and> b_blocked b = blockedSeq) (blocks st1))\<rparr>, st1)))))))"

definition repo_Unblock ::
  "msg_env \<Rightarrow> int \<Rightarrow> int \<Rightarrow> msg_state \<Rightarrow> (msg_error, MemberBlockState) result \<times> msg_state" where
  "repo_Unblock env blockerSeq blockedSeq st =
     (case ms_fault env MsUnblock of
        Some e \<Rightarrow> (Inl (MsgDatabase e), st)
      | None \<Rightarrow>
          (Inr \<lparr>blk_UserSeq = blockedSeq, BlockedByMe = False, blk_UpdatedAt = None\<rparr>,
           st\<lparr>blocks := sql_delete (\<lambda>b. b_blocker b = blockerSeq \<and> b_blocked b = blockedSeq) (blocks st)\<rparr>))"

definition purgeable :: "msg_env \<Rightarrow> msg_row \<Rightarrow> bool" where
  "purgeable env m =
     ((case am_purge m of None \<Rightarrow> False | Some t \<Rightarrow> t \<le> utc env) \<and> \<not> am_visible m
      \<and> am_reason m = Some ''recipient_blocked'')"

definition DeleteExpiredSuppressedMessages ::
  "msg_env \<Rightarrow> int \<Rightarrow> msg_state \<Rightarrow> (msg_error, int) result \<times> msg_state" where
  "DeleteExpiredSuppressedMessages env limit st =
     (case ms_fault env MsPurge of
        Some e \<Rightarrow> (Inl (MsgDatabase e), st)
      | None \<Rightarrow>
          (let victims = map am_seq (take (nat limit) (sort_key (\<lambda>m. case am_purge m of None \<Rightarrow> 0 | Some t \<Rightarrow> t)
                 (sort_key am_seq (filter (purgeable env) (msgs st)))))
           in (Inr (int (length victims)), st\<lparr>msgs := sql_delete (\<lambda>m. am_seq m \<in> set victims) (msgs st)\<rparr>)))"

section \<open>Conversation summaries\<close>

definition withdrawn_name :: string where
  "withdrawn_name = [CHR 0xED, CHR 0x83, CHR 0x88, CHR 0xED, CHR 0x87, CHR 0xB4, CHR 0xED, CHR 0x95, CHR 0x9C, CHR 0x20, CHR 0xED, CHR 0x9A, CHR 0x8C, CHR 0xEC, CHR 0x9B, CHR 0x90]"

definition display_name :: "int \<Rightarrow> msg_state \<Rightarrow> string" where
  "display_name usrSeq st =
     (case sql_get (\<lambda>m. mm_seq m = usrSeq) (msg_members st) of
        None \<Rightarrow> withdrawn_name
      | Some m \<Rightarrow> if mm_name m = [] then withdrawn_name else mm_name m)"

text \<open>\<open>cs_created\<close> is the \<^verbatim>\<open>time.Time\<close> the driver makes of \<^verbatim>\<open>REG_DATE\<close>, shifted back by the offset.\<close>

record ConversationSummary =
  cs_user :: int
  cs_name :: string
  cs_last :: string
  cs_last_at :: int
  cs_unread :: int
  cs_blocked :: bool
  cs_available :: bool
  cs_created :: int
  cs_message_id :: int

definition peers :: "int \<Rightarrow> msg_row list \<Rightarrow> int list" where
  "peers usrSeq rows =
     remdups (map (\<lambda>m. if am_sender m = usrSeq then am_recvr m else am_sender m)
       (filter (\<lambda>m. in_outbox usrSeq m \<or> in_inbox usrSeq m) rows))"

definition latest_with :: "int \<Rightarrow> int \<Rightarrow> msg_row list \<Rightarrow> msg_row option" where
  "latest_with usrSeq otherSeq rows =
     (case newest_first (filter (in_conversation usrSeq otherSeq) rows) of [] \<Rightarrow> None | m # _ \<Rightarrow> Some m)"

definition summary_of :: "msg_env \<Rightarrow> int \<Rightarrow> int \<Rightarrow> msg_row \<Rightarrow> msg_state \<Rightarrow> ConversationSummary" where
  "summary_of env usrSeq otherSeq m st =
     \<lparr>cs_user = otherSeq, cs_name = display_name otherSeq st, cs_last = am_content m, cs_last_at = am_reg m,
      cs_unread = int (length (filter (\<lambda>x. in_inbox usrSeq x \<and> am_sender x = otherSeq \<and> \<not> am_read x) (msgs st))),
      cs_blocked = is_blocked usrSeq otherSeq st,
      cs_available = (otherSeq \<noteq> usrSeq \<and> approved_alumni otherSeq st),
      cs_created = am_reg m - loc_offset env, cs_message_id = am_seq m\<rparr>"

definition repo_GetConversations ::
  "msg_env \<Rightarrow> int \<Rightarrow> messageCursor option \<Rightarrow> int \<Rightarrow> msg_state \<Rightarrow> (msg_error, ConversationSummary list) result" where
  "repo_GetConversations env usrSeq before limit st =
     (case ms_fault env MsSelect of
        Some e \<Rightarrow> Inl (MsgDatabase e)
      | None \<Rightarrow>
          (let latest = List.map_filter (\<lambda>p. latest_with usrSeq p (msgs st)) (peers usrSeq (msgs st));
               kept = filter (\<lambda>m. case before of None \<Rightarrow> True | Some c \<Rightarrow> before_row env c m) latest
           in Inr (map (\<lambda>m. summary_of env usrSeq (if am_sender m = usrSeq then am_recvr m else am_sender m) m st)
                (take (nat limit) (newest_first kept)))))"

section \<open>MessageContentFilter\<close>

definition defaultBlockedMessagePhrases :: "string list" where
  "defaultBlockedMessagePhrases =
     [[CHR 0xEC, CHR 0x94, CHR 0xA8, CHR 0xEB, CHR 0xB0, CHR 0x9C],
      [CHR 0xEA, CHR 0xB0, CHR 0x9C, CHR 0xEC, CHR 0x83, CHR 0x88, CHR 0xEB, CHR 0x81, CHR 0xBC],
      [CHR 0xEC, CHR 0xA3, CHR 0xBD, CHR 0xEC, CHR 0x97, CHR 0xAC, CHR 0xEB, CHR 0xB2, CHR 0x84, CHR 0xEB, CHR 0xA6, CHR 0xB4],
      ''kill yourself'']"

definition NewMessageContentFilter :: "(string \<Rightarrow> string) \<Rightarrow> string list \<Rightarrow> string list" where
  "NewMessageContentFilter norm additional =
     filter (\<lambda>p. p \<noteq> []) (map norm (defaultBlockedMessagePhrases @ additional))"

definition Allows :: "(string \<Rightarrow> string) \<Rightarrow> string list \<Rightarrow> string \<Rightarrow> bool" where
  "Allows norm phrases content = list_all (\<lambda>p. \<not> go_Contains (norm content) p) phrases"

section \<open>MessageService\<close>

record SendMessageRequest =
  smr_UserSeq :: int
  smr_RecvrSeq :: int
  smr_ClientMessageID :: string
  smr_Content :: string

definition RecipientUserSeq :: "SendMessageRequest \<Rightarrow> int" where
  "RecipientUserSeq r = (if smr_UserSeq r > 0 then smr_UserSeq r else smr_RecvrSeq r)"

definition validateSendMessageRequest :: "SendMessageRequest \<Rightarrow> msg_error option" where
  "validateSendMessageRequest req =
     (if smr_Content req = [] then Some (MessageInvalid ''content'')
      else if rune_count (smr_Content req) > 1000 then Some (MessageInvalid ''length'')
      else if smr_ClientMessageID req = [] \<or> length (smr_ClientMessageID req) > 64
      then Some (MessageInvalid ''clientMessageId'')
      else None)"

definition isRecipientAvailable :: "msg_env \<Rightarrow> int \<Rightarrow> int \<Rightarrow> msg_state \<Rightarrow> (msg_error, bool) result" where
  "isRecipientAvailable env viewerSeq otherSeq st =
     (if otherSeq \<le> 0 \<or> otherSeq = viewerSeq then Inr False else IsApprovedAlumni env otherSeq st)"

definition notify :: "message_event list \<Rightarrow> msg_state \<Rightarrow> msg_state" where
  "notify es st = st\<lparr>msg_events := msg_events st @ es\<rparr>"

definition SendMessage ::
  "msg_env \<Rightarrow> int \<Rightarrow> string \<Rightarrow> SendMessageRequest \<Rightarrow> msg_state
    \<Rightarrow> (msg_error, SendMessageResponse) result \<times> msg_state" where
  "SendMessage env senderSeq senderName req st =
     (case validateSendMessageRequest req of
        Some e \<Rightarrow> (Inl e, st)
      | None \<Rightarrow>
     (case FindAcceptedMessage env senderSeq (smr_ClientMessageID req) st of
        Inl e \<Rightarrow> (Inl e, st)
      | Inr (Some existing) \<Rightarrow> (Inr existing, st)
      | Inr None \<Rightarrow>
          if \<not> Allows (normalize env) (NewMessageContentFilter (normalize env) (extra_phrases env)) (smr_Content req)
          then (Inl ContentRejected, st)
          else let recipientSeq = RecipientUserSeq req in
     (case isRecipientAvailable env senderSeq recipientSeq st of
        Inl e \<Rightarrow> (Inl e, st)
      | Inr available \<Rightarrow>
          if \<not> available then (Inl RecipientUnavailable, st)
          else
     (case CanReceiveMessages env recipientSeq st of
        Inl e \<Rightarrow> (Inl e, st)
      | Inr allowed \<Rightarrow>
          if \<not> allowed then (Inl ReceivingDisabled, st)
          else
     (case block_Get env senderSeq recipientSeq st of
        Inl e \<Rightarrow> (Inl e, st)
      | Inr blockState \<Rightarrow>
          if BlockedByMe blockState then (Inl RecipientBlockedByMe, st)
          else
     (case AcceptMessage env senderSeq recipientSeq (smr_ClientMessageID req) (smr_Content req) st of
        (Inl e, st1) \<Rightarrow> (Inl e, st1)
      | (Inr accepted, st1) \<Rightarrow>
          (Inr accepted,
           if WasCreated accepted \<and> VisibleToRecipient accepted
           then notify [MessageReceived recipientSeq senderSeq senderName (MessageID accepted) (smr_Content req),
                        MessageSent senderSeq recipientSeq] st1
           else st1)))))))"

text \<open>Pages of the inbox and the outbox.\<close>

record MessageListResponse =
  ml_Items :: "msg_row list"
  ml_TotalCount :: int
  ml_Page :: int
  ml_Size :: int
  ml_TotalPages :: int

definition clamp_size :: "int \<Rightarrow> int \<Rightarrow> int" where
  "clamp_size dflt sz = (if sz \<le> 0 then dflt else if sz > 50 then 50 else sz)"

definition list_page ::
  "(int \<Rightarrow> int \<Rightarrow> (msg_error, msg_row list \<times> int) result) \<Rightarrow> int \<Rightarrow> int \<Rightarrow> (msg_error, MessageListResponse) result" where
  "list_page fetch page0 size0 =
     (let page = (if page0 \<le> 0 then 1 else page0);
          sz = clamp_size 20 size0
      in case fetch page sz of
           Inl e \<Rightarrow> Inl e
         | Inr (messages, cnt) \<Rightarrow>
             Inr \<lparr>ml_Items = messages, ml_TotalCount = cnt, ml_Page = page, ml_Size = sz,
                  ml_TotalPages = (cnt + sz - 1) div sz\<rparr>)"

definition GetInbox :: "msg_env \<Rightarrow> int \<Rightarrow> int \<Rightarrow> int \<Rightarrow> msg_state \<Rightarrow> (msg_error, MessageListResponse) result" where
  "GetInbox env usrSeq page size0 st = list_page (\<lambda>p sz. repo_GetInbox env usrSeq p sz st) page size0"

definition GetOutbox :: "msg_env \<Rightarrow> int \<Rightarrow> int \<Rightarrow> int \<Rightarrow> msg_state \<Rightarrow> (msg_error, MessageListResponse) result" where
  "GetOutbox env usrSeq page size0 st = list_page (\<lambda>p sz. repo_GetOutbox env usrSeq p sz st) page size0"

definition MarkAsRead :: "msg_env \<Rightarrow> int \<Rightarrow> int \<Rightarrow> msg_state \<Rightarrow> msg_error option \<times> msg_state" where
  "MarkAsRead env amSeq usrSeq st =
     (case repo_MarkAsRead env amSeq usrSeq st of
        (Inl e, st1) \<Rightarrow> (Some e, st1)
      | (Inr (senderSeq, changed), st1) \<Rightarrow>
          (None, if changed then notify [MessagesRead senderSeq usrSeq amSeq] st1 else st1))"

definition MarkConversationRead :: "msg_env \<Rightarrow> int \<Rightarrow> int \<Rightarrow> int \<Rightarrow> msg_state \<Rightarrow> msg_error option \<times> msg_state" where
  "MarkConversationRead env usrSeq senderSeq throughID st =
     (case repo_MarkConversationRead env usrSeq senderSeq throughID st of
        (Inl e, st1) \<Rightarrow> (Some e, st1)
      | (Inr changed, st1) \<Rightarrow>
          (None, if changed then notify [MessagesRead senderSeq usrSeq throughID] st1 else st1))"

text \<open>The cursor argument of a request: absent, a text that does not decode, or a cursor.\<close>

datatype cursor_arg = NoCursor | BadCursor | Cursor messageCursor

abbreviation (input) zero_time :: int where "zero_time \<equiv> - 62135596800"

definition decodeMessageCursor :: "cursor_arg \<Rightarrow> (msg_error, messageCursor option) result" where
  "decodeMessageCursor a =
     (case a of
        NoCursor \<Rightarrow> Inr None
      | BadCursor \<Rightarrow> Inl (MsgValidation ''cursor'')
      | Cursor c \<Rightarrow> if CreatedAt c = zero_time \<or> CursorID c \<le> 0 then Inl (MsgValidation ''cursor'') else Inr (Some c))"

record ConversationListResponse =
  cl_Items :: "ConversationSummary list"
  cl_NextCursor :: "messageCursor option"
  cl_HasMore :: bool

definition GetConversations ::
  "msg_env \<Rightarrow> int \<Rightarrow> cursor_arg \<Rightarrow> int \<Rightarrow> msg_state \<Rightarrow> (msg_error, ConversationListResponse) result" where
  "GetConversations env usrSeq cursor size0 st =
     (case decodeMessageCursor cursor of
        Inl e \<Rightarrow> Inl e
      | Inr before \<Rightarrow>
          (let sz = clamp_size 20 size0
           in case repo_GetConversations env usrSeq before (sz + 1) st of
                Inl e \<Rightarrow> Inl e
              | Inr convs \<Rightarrow>
                  (let items = (case before of
                         None \<Rightarrow> convs
                       | Some c \<Rightarrow> filter (\<lambda>s. cs_created s < CreatedAt c
                                        \<or> cs_created s = CreatedAt c \<and> cs_message_id s < CursorID c) convs)
                   in if length items > nat sz
                      then (let page = take (nat sz) items
                            in Inr \<lparr>cl_Items = page,
                                    cl_NextCursor = Some \<lparr>CreatedAt = cs_created (last page), CursorID = cs_message_id (last page)\<rparr>,
                                    cl_HasMore = True\<rparr>)
                      else Inr \<lparr>cl_Items = items, cl_NextCursor = None, cl_HasMore = False\<rparr>)))"

record ConversationMessage =
  cm_MessageID :: int
  cm_ClientMessageID :: string
  cm_sender :: int
  cm_sender_name :: string
  cm_recipient :: int
  cm_Content :: string
  cm_Read :: bool
  cm_CreatedAt :: int
  cm_ReadAt :: "int option"

definition conversation_message :: "msg_state \<Rightarrow> msg_row \<Rightarrow> ConversationMessage" where
  "conversation_message st m =
     \<lparr>cm_MessageID = am_seq m,
      cm_ClientMessageID = (case am_client m of None \<Rightarrow> ''legacy-'' @ go_Itoa (am_seq m) | Some c \<Rightarrow> c),
      cm_sender = am_sender m, cm_sender_name = display_name (am_sender m) st, cm_recipient = am_recvr m,
      cm_Content = am_content m, cm_Read = am_read m, cm_CreatedAt = am_reg m, cm_ReadAt = am_read_date m\<rparr>"

record ConversationMessageListResponse =
  ms_Items :: "ConversationMessage list"
  ms_NextCursor :: "messageCursor option"
  ms_HasMore :: bool
  ms_RecipientAvailable :: bool
  ms_RecipientMessageAllowed :: bool

text \<open>The second check of the cursor, on the creation time parsed from its text.\<close>

definition before_cursor :: "messageCursor \<Rightarrow> msg_row \<Rightarrow> bool" where
  "before_cursor c m = (am_reg m < CreatedAt c \<or> am_reg m = CreatedAt c \<and> am_seq m < CursorID c)"

definition GetConversationMessages ::
  "msg_env \<Rightarrow> int \<Rightarrow> int \<Rightarrow> cursor_arg \<Rightarrow> int \<Rightarrow> msg_state \<Rightarrow> (msg_error, ConversationMessageListResponse) result" where
  "GetConversationMessages env usrSeq otherSeq before size0 st =
     (case decodeMessageCursor before of
        Inl e \<Rightarrow> Inl e
      | Inr cur \<Rightarrow>
          (let sz = clamp_size 30 size0
           in case GetCanonicalConversationMessages env usrSeq otherSeq cur (sz + 1) st of
                Inl e \<Rightarrow> Inl e
              | Inr rows \<Rightarrow>
             (case isRecipientAvailable env usrSeq otherSeq st of
                Inl e \<Rightarrow> Inl e
              | Inr available \<Rightarrow>
                  (let kept = (case cur of None \<Rightarrow> rows | Some c \<Rightarrow> filter (before_cursor c) rows);
                       hasMore = (length kept > nat sz);
                       page = (if hasMore then take (nat sz) kept else kept)
                   in case (if available then CanReceiveMessages env otherSeq st else Inr False) of
                        Inl e \<Rightarrow> Inl e
                      | Inr allowed \<Rightarrow>
                          Inr \<lparr>ms_Items = map (conversation_message st) page,
                               ms_NextCursor = (if hasMore
                                 then Some \<lparr>CreatedAt = am_reg (last page), CursorID = am_seq (last page)\<rparr> else None),
                               ms_HasMore = hasMore, ms_RecipientAvailable = available,
                               ms_RecipientMessageAllowed = allowed\<rparr>))))"

section \<open>MemberBlockService\<close>

definition validateBlockParticipants :: "int \<Rightarrow> int \<Rightarrow> msg_error option" where
  "validateBlockParticipants blockerSeq blockedSeq =
     (if blockerSeq \<le> 0 \<or> blockedSeq \<le> 0 \<or> blockerSeq = blockedSeq then Some (MsgValidation ''member'') else None)"

definition Get_block :: "msg_env \<Rightarrow> int \<Rightarrow> int \<Rightarrow> msg_state \<Rightarrow> (msg_error, MemberBlockState) result" where
  "Get_block env blockerSeq blockedSeq st =
     (case validateBlockParticipants blockerSeq blockedSeq of
        Some e \<Rightarrow> Inl e | None \<Rightarrow> block_Get env blockerSeq blockedSeq st)"

definition Block :: "msg_env \<Rightarrow> int \<Rightarrow> int \<Rightarrow> msg_state \<Rightarrow> (msg_error, MemberBlockState) result \<times> msg_state" where
  "Block env blockerSeq blockedSeq st =
     (case validateBlockParticipants blockerSeq blockedSeq of
        Some e \<Rightarrow> (Inl e, st)
      | None \<Rightarrow>
          (case IsApprovedAlumni env blockedSeq st of
             Inl e \<Rightarrow> (Inl e, st)
           | Inr approved \<Rightarrow>
               if \<not> approved then (Inl BlockTargetNotFound, st) else repo_Block env blockerSeq blockedSeq st))"

definition Unblock :: "msg_env \<Rightarrow> int \<Rightarrow> int \<Rightarrow> msg_state \<Rightarrow> (msg_error, MemberBlockState) result \<times> msg_state" where
  "Unblock env blockerSeq blockedSeq st =
     (case validateBlockParticipants blockerSeq blockedSeq of
        Some e \<Rightarrow> (Inl e, st) | None \<Rightarrow> repo_Unblock env blockerSeq blockedSeq st)"

end
