(* ===== verification/Message_Props.thy ===== *)
theory Message_Props
  imports Messages
begin

text \<open>
  The properties of direct messages: sending is idempotent per client id, a block silences without
  telling, a suppressed message stays suppressed, and paging through a conversation shows every
  message once when the connection's offset is zero, but loses messages with the configured one.
\<close>

section \<open>Sending\<close>

lemma FindAccepted_some:
  assumes "ms_fault env MsFindAccepted = None" "validateSendMessageRequest req = None"
    "sql_get (accepted_row s (smr_ClientMessageID req)) (msgs st) = Some m"
  shows "SendMessage env s name req st = (Inr (response_of m False), st)"
  using assms by (simp add: SendMessage_def FindAcceptedMessage_def)

lemma notify_fields [simp]: "msgs (notify es st) = msgs st" "msg_next (notify es st) = msg_next st"
  "blocks (notify es st) = blocks st" "msg_members (notify es st) = msg_members st"
  "verification (notify es st) = verification st"
  by (simp_all add: notify_def)

text \<open>The outcomes of a send that passed.\<close>

lemma SendMessage_success:
  assumes "SendMessage env s name req st = (Inr r, st1)"
  obtains (replay) m where "sql_get (accepted_row s (smr_ClientMessageID req)) (msgs st) = Some m"
      "r = response_of m False" "st1 = st"
  | (accept) st2 where "sql_get (accepted_row s (smr_ClientMessageID req)) (msgs st) = None"
      "RecipientUserSeq req \<noteq> s"
      "AcceptMessage env s (RecipientUserSeq req) (smr_ClientMessageID req) (smr_Content req) st = (Inr r, st2)"
      "st1 = (if WasCreated r \<and> VisibleToRecipient r
              then notify [MessageReceived (RecipientUserSeq req) s name (MessageID r) (smr_Content req),
                           MessageSent s (RecipientUserSeq req)] st2 else st2)"
proof (cases "sql_get (accepted_row s (smr_ClientMessageID req)) (msgs st)")
  case (Some m)
  with assms that(1) show thesis
    by (auto simp: SendMessage_def FindAcceptedMessage_def split: option.splits)
next
  case None
  have f: "FindAcceptedMessage env s (smr_ClientMessageID req) st = Inr None" "validateSendMessageRequest req = None"
    using assms None by (auto simp: SendMessage_def FindAcceptedMessage_def split: option.splits)
  have ne: "RecipientUserSeq req \<noteq> s"
    using assms f by (auto simp: SendMessage_def isRecipientAvailable_def Let_def split: if_splits)
  obtain st2 where "AcceptMessage env s (RecipientUserSeq req) (smr_ClientMessageID req) (smr_Content req) st = (Inr r, st2)"
      "st1 = (if WasCreated r \<and> VisibleToRecipient r
              then notify [MessageReceived (RecipientUserSeq req) s name (MessageID r) (smr_Content req),
                           MessageSent s (RecipientUserSeq req)] st2 else st2)"
    using assms f by (auto simp: SendMessage_def Let_def split: if_splits sum.splits prod.splits)
  with that(2) [OF None ne] show thesis by blast
qed

lemma AcceptMessage_success:
  assumes "AcceptMessage env s u cid content st = (Inr r, st2)"
    "sql_get (accepted_row s cid) (msgs st) = None"
  shows "st2 = st\<lparr>msgs := msgs st @ [new_message env (msg_next st) s u cid content (is_blocked u s st)], msg_next := msg_next st + 1\<rparr>"
    "r = response_of (new_message env (msg_next st) s u cid content (is_blocked u s st)) True"
  using assms
  by (auto simp: AcceptMessage_def Let_def sql_get_def find_snoc accepted_row_def new_message_def
      split: option.splits if_splits)

lemma SendMessage_row:
  assumes "SendMessage env s name req st = (Inr r, st1)"
  shows "\<exists>m b. sql_get (accepted_row s (smr_ClientMessageID req)) (msgs st1) = Some m \<and> r = response_of m b"
  using assms
proof (cases rule: SendMessage_success)
  case (replay m)
  then show ?thesis by blast
next
  case (accept st2)
  note a = AcceptMessage_success [OF accept(3,1)]
  have "sql_get (accepted_row s (smr_ClientMessageID req)) (msgs st2) =
     Some (new_message env (msg_next st) s (RecipientUserSeq req) (smr_ClientMessageID req) (smr_Content req) (is_blocked (RecipientUserSeq req) s st))"
    using accept(1) a(1) by (simp add: sql_get_def find_snoc accepted_row_def new_message_def)
  moreover have "msgs st1 = msgs st2" using accept(4) by simp
  ultimately show ?thesis using a(2) by metis
qed

section \<open>Ordered pages\<close>

lemma sorted_by_two_keys:
  fixes f g :: "'a \<Rightarrow> int"
  assumes "sorted (map f zs)" "\<And>k. sorted (map g (filter (\<lambda>y. f y = k) zs))"
  shows "sorted_wrt (\<lambda>x y. f x < f y \<or> f x = f y \<and> g x \<le> g y) zs"
  using assms
proof (induction zs)
  case (Cons x zs)
  have "f x < f y \<or> f x = f y \<and> g x \<le> g y" if "y \<in> set zs" for y
  proof (cases "f x = f y")
    case True
    with Cons.prems(2) [of "f x"] that show ?thesis by auto
  next
    case False
    with Cons.prems(1) that show ?thesis by force
  qed
  moreover have "sorted (map g (filter (\<lambda>y. f y = k) zs))" for k
    using Cons.prems(2) [of k] by (cases "f x = k") auto
  ultimately show ?case using Cons by simp
qed simp

definition newer :: "msg_row \<Rightarrow> msg_row \<Rightarrow> bool" where
  "newer x y = (am_reg x > am_reg y \<or> am_reg x = am_reg y \<and> am_seq x > am_seq y)"

lemma newest_first_sorted:
  assumes "distinct (map am_seq rows)"
  shows "sorted_wrt newer (newest_first rows)"
proof -
  have k: "filter (\<lambda>m. - am_reg m = k) (newest_first rows) = filter (\<lambda>m. - am_reg m = k) (sort_key (\<lambda>m. - am_seq m) rows)" for k
    unfolding newest_first_def by (rule sort_key_stable)
  have "sorted (map (\<lambda>m. - am_seq m) (filter (\<lambda>m. - am_reg m = k) (newest_first rows)))" for k
    unfolding k filter_sort by (rule sorted_sort_key)
  moreover have "sorted (map (\<lambda>m. - am_reg m) (newest_first rows))" unfolding newest_first_def by (rule sorted_sort_key)
  ultimately have s: "sorted_wrt (\<lambda>x y. - am_reg x < - am_reg y \<or> - am_reg x = - am_reg y \<and> - am_seq x \<le> - am_seq y) (newest_first rows)"
    by (intro sorted_by_two_keys) simp_all
  have "set (newest_first rows) = set rows" by (simp add: newest_first_def)
  moreover have "distinct (newest_first rows)" using assms by (simp add: newest_first_def distinct_map)
  ultimately have d: "distinct (map am_seq (newest_first rows))" using assms by (simp add: distinct_map)
  have "sorted_wrt (\<lambda>x y. am_seq x \<noteq> am_seq y) (newest_first rows)"
    using d by (simp add: distinct_conv_nth sorted_wrt_iff_nth_less)
  with s show ?thesis unfolding sorted_wrt_iff_nth_less newer_def by force
qed

lemma newest_first_filter: "newest_first (filter q rows) = filter q (newest_first rows)"
  by (simp add: newest_first_def filter_sort)

text \<open>The rows after a cursor are those behind the row it was made from.\<close>

lemma rows_after_cursor:
  assumes "sorted_wrt newer (xs @ m # ys)"
  shows "filter (before_cursor \<lparr>CreatedAt = am_reg m, CursorID = am_seq m\<rparr>) (xs @ m # ys) = ys"
proof -
  have "\<forall>x \<in> set xs. \<not> before_cursor \<lparr>CreatedAt = am_reg m, CursorID = am_seq m\<rparr> x"
    "\<forall>y \<in> set ys. before_cursor \<lparr>CreatedAt = am_reg m, CursorID = am_seq m\<rparr> y"
    using assms by (auto simp: sorted_wrt_append newer_def before_cursor_def)
  then show ?thesis by (simp add: before_cursor_def filter_id_conv)
qed

definition conversation :: "int \<Rightarrow> int \<Rightarrow> msg_state \<Rightarrow> msg_row list" where
  "conversation usrSeq otherSeq st = newest_first (filter (in_conversation usrSeq otherSeq) (msgs st))"

lemma canonical_rows:
  assumes "loc_offset env = 0" "ms_fault env MsSelect = None"
  shows "GetCanonicalConversationMessages env u v cur limit st =
    Inr (take (nat limit) (filter (\<lambda>m. case cur of None \<Rightarrow> True | Some c \<Rightarrow> before_cursor c m) (conversation u v st)))"
proof -
  have "before_row env c m = before_cursor c m" for c m
    using assms(1) by (simp add: before_row_def before_cursor_def Let_def)
  then have "filter (\<lambda>m. in_conversation u v m \<and> (case cur of None \<Rightarrow> True | Some c \<Rightarrow> before_row env c m)) (msgs st)
    = filter (\<lambda>m. case cur of None \<Rightarrow> True | Some c \<Rightarrow> before_cursor c m) (filter (in_conversation u v) (msgs st))"
    by (cases cur) (simp_all add: conj_commute)
  then show ?thesis
    using assms(2) by (simp add: GetCanonicalConversationMessages_def conversation_def newest_first_filter)
qed

lemma page_of_rows:
  assumes "loc_offset env = 0" "\<And>q. ms_fault env q = None" "decodeMessageCursor cur = Inr c"
    "\<exists>m \<in> set (msg_members st). mm_seq m = v"
    "filter (\<lambda>m. case c of None \<Rightarrow> True | Some k \<Rightarrow> before_cursor k m) (conversation u v st) = ys"
  shows "\<exists>resp. GetConversationMessages env u v cur size0 st = Inr resp
    \<and> ms_Items resp = map (conversation_message st) (take (nat (clamp_size 30 size0)) ys)
    \<and> ms_HasMore resp = (length ys > nat (clamp_size 30 size0))
    \<and> ms_NextCursor resp = (if length ys > nat (clamp_size 30 size0)
         then Some \<lparr>CreatedAt = am_reg (last (take (nat (clamp_size 30 size0)) ys)), CursorID = am_seq (last (take (nat (clamp_size 30 size0)) ys))\<rparr>
         else None)"
proof -
  let ?sz = "clamp_size 30 size0"
  have sz: "0 < ?sz" by (simp add: clamp_size_def)
  then have n: "nat (?sz + 1) = Suc (nat ?sz)" by simp
  have rows: "GetCanonicalConversationMessages env u v c (?sz + 1) st = Inr (take (Suc (nat ?sz)) ys)"
    using canonical_rows [OF assms(1), of u v c "?sz + 1" st] assms(2,5) n by simp
  have keep: "(case c of None \<Rightarrow> take (Suc (nat ?sz)) ys | Some k \<Rightarrow> filter (before_cursor k) (take (Suc (nat ?sz)) ys)) = take (Suc (nat ?sz)) ys"
  proof (cases c)
    case (Some k)
    then have "\<forall>y \<in> set ys. before_cursor k y" using assms(5) by auto
    then show ?thesis using Some by (auto simp: filter_id_conv dest: in_set_takeD)
  qed simp
  have a: "isRecipientAvailable env u v st = Inr (0 < v \<and> v \<noteq> u \<and> approved_alumni v st)"
    using assms(2) by (auto simp: isRecipientAvailable_def IsApprovedAlumni_def)
  obtain m where "sql_get (\<lambda>m. mm_seq m = v) (msg_members st) = Some m"
    using assms(4) sql_get_None [of "\<lambda>m. mm_seq m = v" "msg_members st"] by (metis option.exhaust)
  then obtain al where al: "CanReceiveMessages env v st = Inr al" using assms(2) by (auto simp: CanReceiveMessages_def)
  show ?thesis
    using assms(3) rows keep a al
    by (auto simp: GetConversationMessages_def Let_def min_def take_Suc_conv_app_nth less_Suc_eq_le)
qed

section \<open>Properties\<close>

text \<open>A scenario: members 7 and 8 exchange three messages within half a minute.\<close>

definition demo_menv :: "int \<Rightarrow> int \<Rightarrow> msg_env" where
  "demo_menv t off = \<lparr>utc = t, local_now = t, add_month = (\<lambda>x. x + 2592000), loc_offset = off, tie = (\<lambda>_. 0),
     ms_fault = (\<lambda>_. None), normalize = id, extra_phrases = []\<rparr>"

lemma demo_menv_simps [simp]: "ms_fault (demo_menv t off) q = None" "loc_offset (demo_menv t off) = off"
  by (simp_all add: demo_menv_def)

definition demo_req :: "string \<Rightarrow> SendMessageRequest" where
  "demo_req cid = \<lparr>smr_UserSeq = 8, smr_RecvrSeq = 0, smr_ClientMessageID = cid, smr_Content = ''hi''\<rparr>"

definition demo_mst :: msg_state where
  "demo_mst = \<lparr>msgs = [], msg_next = 1, blocks = [],
     msg_members = [\<lparr>mm_seq = 7, mm_name = ''Kim'', mm_status = ''BBB'', mm_allowed = True\<rparr>,
                    \<lparr>mm_seq = 8, mm_name = ''Lee'', mm_status = ''BBB'', mm_allowed = True\<rparr>],
     verification = [(7, ''approved''), (8, ''approved'')], msg_events = []\<rparr>"

definition demo_three :: msg_state where
  "demo_three = snd (SendMessage (demo_menv 30 0) 7 ''Kim'' (demo_req ''c'') (snd (SendMessage (demo_menv 20 0) 7 ''Kim'' (demo_req ''b'')
     (snd (SendMessage (demo_menv 10 0) 7 ''Kim'' (demo_req ''a'') demo_mst)))))"







definition page_ids :: "(msg_error, ConversationMessageListResponse) result \<Rightarrow> int list \<times> messageCursor option \<times> bool" where
  "page_ids r = (case r of Inl _ \<Rightarrow> ([], None, False) | Inr p \<Rightarrow> (map cm_MessageID (ms_Items p), ms_NextCursor p, ms_HasMore p))"

text \<open>With the nine-hour offset of the configured connection the same pages lose messages: the
  server compares with a time nine hours after the cursor, the rows it returns are mostly ones
  already shown, the second check removes them, and the client is told that nothing follows while the
  oldest message was never delivered.\<close>

theorem configured_offset_loses_messages:
  "page_ids (GetConversationMessages (demo_menv 50 32400) 7 8 NoCursor 1 demo_three) = ([3], Some \<lparr>CreatedAt = 30, CursorID = 3\<rparr>, True)
   \<and> page_ids (GetConversationMessages (demo_menv 50 32400) 7 8 (Cursor \<lparr>CreatedAt = 30, CursorID = 3\<rparr>) 1 demo_three) = ([2], None, False)
   \<and> map am_seq (conversation 7 8 demo_three) = [3, 2, 1]"
  by code_simp

section \<open>Suppressed messages\<close>

datatype msg_op =
    OpSend msg_env int string SendMessageRequest
  | OpMarkAsRead msg_env int int
  | OpMarkConversation msg_env int int int
  | OpDelete msg_env int int
  | OpBlock msg_env int int
  | OpUnblock msg_env int int
  | OpPreferences msg_env int bool
  | OpPurge msg_env int

fun msg_step :: "msg_state \<Rightarrow> msg_op \<Rightarrow> msg_state" where
  "msg_step st (OpSend env s name req) = snd (SendMessage env s name req st)"
| "msg_step st (OpMarkAsRead env i u) = snd (MarkAsRead env i u st)"
| "msg_step st (OpMarkConversation env u s i) = snd (MarkConversationRead env u s i st)"
| "msg_step st (OpDelete env i u) = snd (DeleteMessage env i u st)"
| "msg_step st (OpBlock env b u) = snd (Block env b u st)"
| "msg_step st (OpUnblock env b u) = snd (Unblock env b u st)"
| "msg_step st (OpPreferences env u a) = snd (Save_preferences env u a st)"
| "msg_step st (OpPurge env k) = snd (DeleteExpiredSuppressedMessages env k st)"

definition hidden_key :: "int \<Rightarrow> msg_state \<Rightarrow> bool" where
  "hidden_key i st = (i < msg_next st \<and> (\<forall>m \<in> set (msgs st). am_seq m = i \<longrightarrow> \<not> am_visible m \<and> \<not> am_read m))"

lemma hidden_frame: "msgs st' = msgs st \<Longrightarrow> msg_next st' = msg_next st \<Longrightarrow> hidden_key i st \<Longrightarrow> hidden_key i st'"
  by (simp add: hidden_key_def)

lemma hidden_update:
  assumes "hidden_key i st" "msg_next st' = msg_next st" "msgs st' = sql_update p f (msgs st)"
    "\<And>m. p m \<Longrightarrow> am_seq (f m) = am_seq m \<and> am_visible (f m) = am_visible m \<and> (\<not> am_visible m \<longrightarrow> am_read (f m) = am_read m)"
  shows "hidden_key i st'"
  using assms by (fastforce simp: hidden_key_def set_sql_update)

lemma hidden_Send: "hidden_key i st \<Longrightarrow> hidden_key i (snd (SendMessage env s name req st))"
proof -
  assume h: "hidden_key i st"
  have acc: "hidden_key i (snd (AcceptMessage env s u cid c st))" for u cid c
    using h by (auto simp: AcceptMessage_def Let_def hidden_key_def new_message_def split: option.split)
  then have "hidden_key i (if b then notify es (snd (AcceptMessage env s u cid c st)) else snd (AcceptMessage env s u cid c st))" for b es u cid c
    using hidden_frame by auto
  with h acc show ?thesis
    by (simp add: SendMessage_def Let_def split_beta split: option.split sum.split)
qed

lemma hidden_step: "hidden_key i st \<Longrightarrow> hidden_key i (msg_step st x)"
proof (cases x)
  case (OpSend env s name req)
  then show "hidden_key i st \<Longrightarrow> ?thesis" by (simp add: hidden_Send)
next
  case (OpMarkAsRead env j u)
  assume h: "hidden_key i st"
  have "hidden_key i (st\<lparr>msgs := sql_update (unread_row j u) (set_read env) (msgs st)\<rparr>)"
    by (rule hidden_update [OF h, where p = "unread_row j u" and f = "set_read env"]) (auto simp: unread_row_def set_read_def)
  with h OpMarkAsRead hidden_frame [of "notify es st'" st' i for es st'] show ?thesis
    by (simp add: MarkAsRead_def repo_MarkAsRead_def Let_def split: option.split)
next
  case (OpMarkConversation env u s j)
  assume h: "hidden_key i st"
  have "hidden_key i (st\<lparr>msgs := sql_update (\<lambda>m. boundary_ok u s j st \<and> to_mark u s j m) (set_read env) (msgs st)\<rparr>)"
    by (rule hidden_update [OF h, where p = "\<lambda>m. boundary_ok u s j st \<and> to_mark u s j m" and f = "set_read env"])
       (auto simp: to_mark_def set_read_def)
  with h OpMarkConversation hidden_frame [of "notify es st'" st' i for es st'] show ?thesis
    by (simp add: MarkConversationRead_def repo_MarkConversationRead_def Let_def split: option.split)
next
  case (OpDelete env j u)
  assume h: "hidden_key i st"
  have "hidden_key i (st\<lparr>msgs := sql_update (\<lambda>m. am_seq m = j \<and> (am_sender m = u \<or> am_recvr m = u)) (delete_for u) (msgs st)\<rparr>)"
    by (rule hidden_update [OF h, where p = "\<lambda>m. am_seq m = j \<and> (am_sender m = u \<or> am_recvr m = u)" and f = "delete_for u"])
       (auto simp: delete_for_def)
  with h OpDelete show ?thesis by (simp add: DeleteMessage_def split: option.split)
next
  case (OpPurge env k)
  assume h: "hidden_key i st"
  with OpPurge show ?thesis
    by (auto simp: DeleteExpiredSuppressedMessages_def Let_def hidden_key_def sql_delete_def split: option.split)
qed (auto simp: Block_def repo_Block_def Unblock_def repo_Unblock_def Save_preferences_def Let_def hidden_key_def
    split: option.split sum.split)

interpretation suppressed: invariant msg_step "hidden_key i" "\<lambda>_. True" "hidden_key i" for i
  by unfold_locales (simp_all add: hidden_step)

text \<open>A message sent to someone who has blocked the sender is gone for the recipient for good: after
  any sequence of sends, reads, deletions, blocks, unblocks, preference changes and purges it is still
  invisible and unread, or deleted. Unblocking does not bring it back, and the sender never gets a read
  receipt for it.\<close>

theorem suppressed_for_good:
  assumes "SendMessage env s name req st = (Inr r, st1)"
    "sql_get (accepted_row s (smr_ClientMessageID req)) (msgs st) = None"
    "is_blocked (RecipientUserSeq req) s st" "keys_ok am_seq (msg_next st) (msgs st)"
    "m \<in> set (msgs (run msg_step st1 ops))" "am_seq m = MessageID r"
  shows "\<not> am_visible m \<and> \<not> am_read m"
proof -
  have "hidden_key (MessageID r) st1"
    using assms(1)
  proof (cases rule: SendMessage_success)
    case (replay m)
    with assms(2) show ?thesis by simp
  next
    case (accept st2)
    have a: "msgs st1 = msgs st @ [new_message env (msg_next st) s (RecipientUserSeq req) (smr_ClientMessageID req) (smr_Content req) True]"
      "msg_next st1 = msg_next st + 1" "MessageID r = msg_next st"
      using AcceptMessage_success [OF accept(3,1)] assms(3) accept(4) by (simp_all add: response_of_def new_message_def)
    have "am_seq x \<noteq> msg_next st" if "x \<in> set (msgs st)" for x using assms(4) that by (auto simp: keys_ok_def)
    with a show ?thesis by (auto simp: hidden_key_def new_message_def)
  qed
  then have "hidden_key (MessageID r) (run msg_step st1 ops)" by (rule suppressed.run_inv) (simp add: list_all_iff)
  with assms(5,6) show ?thesis by (auto simp: hidden_key_def)
qed

theorem suppressed_for_good_witness:
  "\<not> am_visible (last (msgs (run msg_step
      (snd (SendMessage (demo_menv 40 0) 7 ''Kim'' (demo_req ''d'') (snd (Block (demo_menv 35 0) 8 7 demo_three))))
      [OpUnblock (demo_menv 41 0) 8 7, OpMarkConversation (demo_menv 42 0) 8 7 4, OpMarkAsRead (demo_menv 43 0) 4 8])))"
proof -
  let ?st = "snd (Block (demo_menv 35 0) 8 7 demo_three)"
  let ?ops = "[OpUnblock (demo_menv 41 0) 8 7, OpMarkConversation (demo_menv 42 0) 8 7 4, OpMarkAsRead (demo_menv 43 0) 4 8]"
  let ?c = "SendMessage (demo_menv 40 0) 7 ''Kim'' (demo_req ''d'') ?st"
  have "is_ok (fst ?c)" "(case fst ?c of Inr r \<Rightarrow> MessageID r | Inl _ \<Rightarrow> 0) = 4" by code_simp+
  then obtain r where c: "?c = (Inr r, snd ?c)" "MessageID r = 4" by (auto simp: is_ok_iff prod_eq_iff)
  have a: "sql_get (accepted_row 7 (smr_ClientMessageID (demo_req ''d''))) (msgs ?st) = None"
    "is_blocked (RecipientUserSeq (demo_req ''d'')) 7 ?st" "keys_ok am_seq (msg_next ?st) (msgs ?st)"
    "msgs (run msg_step (snd ?c) ?ops) \<noteq> []" "am_seq (last (msgs (run msg_step (snd ?c) ?ops))) = 4" by code_simp+
  from suppressed_for_good [OF c(1) a(1-3) last_in_set [OF a(4)]] a(5) c(2) show ?thesis by simp
qed

end
