(* ===== verification/Password_Reset.thy ===== *)
theory Password_Reset
  imports Go_Strings
begin

text \<open>
  Password reset by mail: the service (\<^verbatim>\<open>service/password_reset_service.go\<close>), the password policy
  (\<^verbatim>\<open>service/new_password_policy.go\<close>) and the transaction that replaces the password, spends the
  token and revokes the sessions (\<^verbatim>\<open>repository/password_reset_repo.go\<close>,
  \<^verbatim>\<open>repository/password_mutation_repo.go\<close>). The hashes, the random source, the mail template and the
  database's faults are parameters. The services have three constructors, hence three modes: the
  legacy column only, the legacy column beside the canonical credentials
  (\<^verbatim>\<open>service/canonical_password_service.go\<close>), and the transaction (\<^verbatim>\<open>atomicRepo\<close>). The password change of
  a member who is logged in (\<^verbatim>\<open>service/password_change_service.go\<close>) shares the transaction's helpers.
\<close>

section \<open>Tables\<close>

record PasswordResetToken =
  APRSeq :: int
  apr_USRSeq :: int
  apr_Token :: string
  apr_used :: bool
  apr_expires :: int
  apr_reg :: int

record pr_member =
  pr_seq :: int
  pr_name :: string
  pr_email :: string
  pr_status :: string
  pr_pwd :: "string option"

record pr_identity =
  IdentityID :: int
  id_account :: int
  id_provider :: string
  id_subject :: string
  id_status :: string
  id_verified :: bool

record PasswordCredential =
  pc_IdentityID :: int
  pc_Provider :: string
  pc_Algorithm :: string
  pc_ParametersText :: "string option"
  pc_PasswordHash :: string
  pc_Status :: string

record refresh_token =
  rt_usr :: int
  rt_revoked :: "int option"
  rt_mrt_revoked :: "int option"

record session_family =
  sf_account :: int
  sf_status :: string
  sf_revoked :: "int option"
  sf_reason :: "string option"
  sf_updated :: int

record pr_state =
  resets :: "PasswordResetToken list"
  reset_next :: int
  pr_members :: "pr_member list"
  identities :: "pr_identity list"
  account_states :: "(int \<times> string) list"
  credentials :: "PasswordCredential list"
  refresh_tokens :: "refresh_token list"
  families :: "session_family list"
  mail_queue :: "(string \<times> string) list"

datatype pr_stmt =
    PrFindAccount | PrListIdentities | PrStoreCredential int | PrFindCredential int | PrRehash int | PrGetHash | PrDeleteExpired
  | PrInsertToken | PrFindToken | PrName | PrBegin | PrSelectToken | PrLockMember
  | PrCountTokens | PrLoadIdentities | PrUpsert int | PrLegacy | PrConsume | PrRevokeTokens
  | PrRevokeFamilies | PrCommit | PrUpdatePassword | PrMarkUsed

datatype pr_error =
    EmailMissing | TokenMissing | PasswordTooShort | PasswordTooWeak | LinkInvalid | ChangeFailed
  | ProcessingFailed | NO_PASSWORD | WRONG_PASSWORD | IdentityMissing | NoSuchMember | HashFailed
  | InvalidHash | ProviderMismatch | InvalidCredential | InvalidRehash
  | PrDatabase string

datatype repo_error =
    RepoTokenInvalid | RepoIdentityMissing | RepoCredentialDisabled | RepoPasswordMissing
  | RepoPasswordMismatch | RepoNoRows | RepoVerify | RepoDb string

text \<open>The constructors of the two services: which of \<^verbatim>\<open>credentials\<close> and \<^verbatim>\<open>atomicRepo\<close> is set.\<close>

datatype pw_mode = LegacyOnly | WithPasswordCredentials | Atomic

record PasswordVerification =
  ver_Valid :: bool
  ver_NeedsRehash :: bool

text \<open>\<open>tok_eq\<close> is the collation of \<^verbatim>\<open>APR_TOKEN\<close>, \<open>sha256_hex\<close> is \<^verbatim>\<open>hashPasswordResetToken\<close>.\<close>

record pr_env =
  pr_go_now :: int
  pr_sql_now :: int
  pr_fault :: "pr_stmt \<Rightarrow> string option"
  tok_eq :: "string \<Rightarrow> string \<Rightarrow> bool"
  sha256_hex :: "string \<Rightarrow> string"
  MysqlNativePassword :: "string \<Rightarrow> string"
  NewCredential :: "int \<Rightarrow> string \<Rightarrow> string \<Rightarrow> PasswordCredential option"
  VerifyCredential :: "string \<Rightarrow> string \<Rightarrow> string \<Rightarrow> PasswordVerification option"
  random_token :: "string option"
  to_lower :: "string \<Rightarrow> string"
  render_reset :: "string \<Rightarrow> string \<Rightarrow> string option"
  siteBaseURL :: string
  queue_capacity :: nat
  mode :: pw_mode

section \<open>Policy\<close>

definition is_letter :: "char \<Rightarrow> bool" where
  "is_letter c = (let n = (of_char c :: int) in (65 \<le> n \<and> n \<le> 90) \<or> (97 \<le> n \<and> n \<le> 122))"

text \<open>\<^verbatim>\<open>[A-Za-z]\<close>, \<^verbatim>\<open>[0-9]\<close> and \<^verbatim>\<open>[^A-Za-z0-9]\<close>; the length is in bytes.\<close>

definition ValidateNewPassword :: "string \<Rightarrow> pr_error option" where
  "ValidateNewPassword password =
     (if length password < 8 then Some PasswordTooShort
      else if \<not> list_ex is_letter password \<or> \<not> list_ex is_digit password
              \<or> \<not> list_ex (\<lambda>c. \<not> is_letter c \<and> \<not> is_digit c) password
      then Some PasswordTooWeak else None)"

section \<open>PasswordResetRepository\<close>

definition InsertToken :: "pr_env \<Rightarrow> int \<Rightarrow> string \<Rightarrow> int \<Rightarrow> pr_state \<Rightarrow> (pr_error, pr_state) result" where
  "InsertToken env usrSeq token expiresAt st =
     (case pr_fault env PrInsertToken of
        Some e \<Rightarrow> Inl (PrDatabase e)
      | None \<Rightarrow>
          if \<exists>r \<in> set (resets st). tok_eq env (apr_Token r) token then Inl (PrDatabase ''duplicate token'')
          else Inr (st\<lparr>resets := resets st @ [\<lparr>APRSeq = reset_next st, apr_USRSeq = usrSeq, apr_Token = token,
                          apr_used = False, apr_expires = expiresAt, apr_reg = pr_sql_now env\<rparr>],
                        reset_next := reset_next st + 1\<rparr>))"

definition valid_token :: "pr_env \<Rightarrow> string list \<Rightarrow> PasswordResetToken \<Rightarrow> bool" where
  "valid_token env toks r =
     (list_ex (tok_eq env (apr_Token r)) toks \<and> \<not> apr_used r \<and> apr_expires r > pr_sql_now env)"

definition FindValidToken :: "pr_env \<Rightarrow> string \<Rightarrow> pr_state \<Rightarrow> (pr_error, PasswordResetToken option) result" where
  "FindValidToken env token st =
     (case pr_fault env PrFindToken of
        Some e \<Rightarrow> Inl (PrDatabase e)
      | None \<Rightarrow> Inr (sql_get (valid_token env [token]) (resets st)))"

definition MarkTokenUsed :: "pr_env \<Rightarrow> string \<Rightarrow> pr_state \<Rightarrow> pr_state" where
  "MarkTokenUsed env token st =
     (case pr_fault env PrMarkUsed of
        Some _ \<Rightarrow> st
      | None \<Rightarrow> st\<lparr>resets := sql_update (\<lambda>r. tok_eq env (apr_Token r) token) (\<lambda>r. r\<lparr>apr_used := True\<rparr>) (resets st)\<rparr>)"

definition UpdatePassword :: "pr_env \<Rightarrow> int \<Rightarrow> string \<Rightarrow> pr_state \<Rightarrow> (pr_error, pr_state) result" where
  "UpdatePassword env usrSeq hashed st =
     (case pr_fault env PrUpdatePassword of
        Some e \<Rightarrow> Inl (PrDatabase e)
      | None \<Rightarrow> Inr (st\<lparr>pr_members := sql_update (\<lambda>m. pr_seq m = usrSeq) (\<lambda>m. m\<lparr>pr_pwd := Some hashed\<rparr>) (pr_members st)\<rparr>))"

definition FindPasswordResetAccountByVerifiedEmail ::
  "pr_env \<Rightarrow> string \<Rightarrow> pr_state \<Rightarrow> (pr_error, pr_member option) result" where
  "FindPasswordResetAccountByVerifiedEmail env email st =
     (case pr_fault env PrFindAccount of
        Some e \<Rightarrow> Inl (PrDatabase e)
      | None \<Rightarrow>
          Inr (case sql_get (\<lambda>i. id_provider i = ''EMAIL'' \<and> id_subject i = email \<and> id_status i = ''ACTIVE'' \<and> id_verified i
                  \<and> (\<exists>a \<in> set (account_states st). fst a = id_account i \<and> snd a = ''ACTIVE'')
                  \<and> (\<exists>m \<in> set (pr_members st). pr_seq m = id_account i)) (identities st) of
                 None \<Rightarrow> None
               | Some i \<Rightarrow> sql_get (\<lambda>m. pr_seq m = id_account i) (pr_members st)))"

fun str_ge :: "string \<Rightarrow> string \<Rightarrow> bool" where
  "str_ge _ [] = True"
| "str_ge [] (_ # _) = False"
| "str_ge (x # xs) (y # ys) = (if x = y then str_ge xs ys else (of_char x :: int) > of_char y)"

definition FindMemberByEmail :: "pr_env \<Rightarrow> string \<Rightarrow> pr_state \<Rightarrow> (pr_error, pr_member option) result" where
  "FindMemberByEmail env email st =
     (case pr_fault env PrFindAccount of
        Some e \<Rightarrow> Inl (PrDatabase e)
      | None \<Rightarrow> Inr (sql_get (\<lambda>m. pr_email m = email \<and> str_ge (pr_status m) ''CCC'') (pr_members st)))"

definition DeleteExpiredTokens :: "pr_env \<Rightarrow> pr_state \<Rightarrow> (pr_error, nat \<times> pr_state) result" where
  "DeleteExpiredTokens env st =
     (case pr_fault env PrDeleteExpired of Some e \<Rightarrow> Inl (PrDatabase e) | None \<Rightarrow>
      let victims = map APRSeq (take 100 (sort_key apr_expires (filter (\<lambda>r. apr_expires r < pr_sql_now env) (resets st))))
      in Inr (length victims, st\<lparr>resets := sql_delete (\<lambda>r. APRSeq r \<in> set victims) (resets st)\<rparr>))"

section \<open>The transaction\<close>

text \<open>The active password identities of an account in key order, and whether one of them has a
  credential that is not active.\<close>

record passwordIdentityState =
  activeIdentities :: "pr_identity list"
  activeCredentials :: "PasswordCredential list"
  hasDisabledCredential :: bool

definition find_credential :: "pr_state \<Rightarrow> int \<Rightarrow> PasswordCredential option" where
  "find_credential st i = sql_get (\<lambda>c. pc_IdentityID c = i) (credentials st)"

definition SupportsPassword :: "string \<Rightarrow> bool" where
  "SupportsPassword p \<longleftrightarrow> p = ''EMAIL'' \<or> p = ''LOCAL_USERNAME''"

definition loadPasswordIdentityState :: "int \<Rightarrow> pr_state \<Rightarrow> passwordIdentityState" where
  "loadPasswordIdentityState accountSeq st =
     (let act = filter (\<lambda>i. id_status i = ''ACTIVE'')
            (sort_key IdentityID (filter (\<lambda>i. id_account i = accountSeq \<and> SupportsPassword (id_provider i)) (identities st)));
          creds = List.map_filter (\<lambda>i. find_credential st (IdentityID i)) act
      in \<lparr>activeIdentities = act,
          activeCredentials = filter (\<lambda>c. pc_Status c = ''ACTIVE'') creds,
          hasDisabledCredential = list_ex (\<lambda>c. pc_Status c \<noteq> ''ACTIVE'') creds\<rparr>)"

definition replaced_credential :: "pr_identity \<Rightarrow> PasswordCredential \<Rightarrow> PasswordCredential" where
  "replaced_credential i r =
     \<lparr>pc_IdentityID = IdentityID i, pc_Provider = id_provider i, pc_Algorithm = pc_Algorithm r,
      pc_ParametersText = pc_ParametersText r, pc_PasswordHash = pc_PasswordHash r, pc_Status = ''ACTIVE''\<rparr>"

definition upsert_credential :: "pr_identity \<Rightarrow> PasswordCredential \<Rightarrow> PasswordCredential list \<Rightarrow> PasswordCredential list" where
  "upsert_credential i r cs =
     (if \<exists>c \<in> set cs. pc_IdentityID c = IdentityID i
      then sql_update (\<lambda>c. pc_IdentityID c = IdentityID i) (\<lambda>_. replaced_credential i r) cs
      else cs @ [replaced_credential i r])"

fun upsertPasswordCredentials ::
  "pr_env \<Rightarrow> pr_identity list \<Rightarrow> PasswordCredential \<Rightarrow> PasswordCredential list \<Rightarrow> (repo_error, PasswordCredential list) result" where
  "upsertPasswordCredentials env [] r cs = Inr cs"
| "upsertPasswordCredentials env (i # is) r cs =
     (case pr_fault env (PrUpsert (IdentityID i)) of
        Some e \<Rightarrow> Inl (RepoDb e)
      | None \<Rightarrow> upsertPasswordCredentials env is r (upsert_credential i r cs))"

text \<open>The affected count of an \<^verbatim>\<open>UPDATE\<close> is the number of rows it changed, so that writing the value
  a row already has counts as no row.\<close>

definition updateLegacyPassword :: "int \<Rightarrow> string \<Rightarrow> pr_state \<Rightarrow> pr_state option" where
  "updateLegacyPassword accountSeq legacyHash st =
     (if sql_affected (\<lambda>m. pr_seq m = accountSeq \<and> pr_pwd m \<noteq> Some legacyHash) (pr_members st) \<noteq> 1 then None
      else Some (st\<lparr>pr_members := sql_update (\<lambda>m. pr_seq m = accountSeq) (\<lambda>m. m\<lparr>pr_pwd := Some legacyHash\<rparr>) (pr_members st)\<rparr>))"

definition coalesce :: "'a option \<Rightarrow> 'a \<Rightarrow> 'a option" where
  "coalesce x d = (case x of None \<Rightarrow> Some d | Some y \<Rightarrow> Some y)"

definition revoke_tokens :: "pr_env \<Rightarrow> int \<Rightarrow> pr_state \<Rightarrow> pr_state" where
  "revoke_tokens env accountSeq st =
     st\<lparr>refresh_tokens := sql_update (\<lambda>t. rt_usr t = accountSeq)
          (\<lambda>t. t\<lparr>rt_revoked := coalesce (rt_revoked t) (pr_sql_now env),
                 rt_mrt_revoked := coalesce (rt_mrt_revoked t) (pr_sql_now env)\<rparr>) (refresh_tokens st)\<rparr>"

definition revoke_families :: "pr_env \<Rightarrow> int \<Rightarrow> pr_state \<Rightarrow> pr_state" where
  "revoke_families env accountSeq st =
     st\<lparr>families := sql_update (\<lambda>f. sf_account f = accountSeq \<and> sf_status f = ''ACTIVE'')
          (\<lambda>f. f\<lparr>sf_status := ''REVOKED'', sf_revoked := coalesce (sf_revoked f) (pr_sql_now env),
                 sf_reason := coalesce (sf_reason f) ''PASSWORD_RESET'', sf_updated := pr_sql_now env\<rparr>) (families st)\<rparr>"

definition spend_tokens :: "int \<Rightarrow> pr_state \<Rightarrow> pr_state" where
  "spend_tokens accountSeq st =
     st\<lparr>resets := sql_update (\<lambda>r. apr_USRSeq r = accountSeq \<and> \<not> apr_used r) (\<lambda>r. r\<lparr>apr_used := True\<rparr>) (resets st)\<rparr>"

text \<open>A statement of the transaction fails with its fault; the deferred rollback undoes everything.\<close>

definition stmt_ok :: "pr_env \<Rightarrow> pr_stmt \<Rightarrow> (repo_error, 'a) result \<Rightarrow> (repo_error, 'a) result" where
  "stmt_ok env q r = (case pr_fault env q of Some e \<Rightarrow> Inl (RepoDb e) | None \<Rightarrow> r)"

definition reset_tx ::
  "pr_env \<Rightarrow> string \<Rightarrow> string \<Rightarrow> string \<Rightarrow> PasswordCredential \<Rightarrow> pr_state \<Rightarrow> (repo_error, pr_state) result" where
  "reset_tx env tokenHash legacyToken legacyHash replacement st =
     stmt_ok env PrBegin (stmt_ok env PrSelectToken
      (case sql_get (valid_token env [tokenHash, legacyToken]) (resets st) of
         None \<Rightarrow> Inl RepoTokenInvalid
       | Some row \<Rightarrow>
           (let acc = apr_USRSeq row; state = loadPasswordIdentityState acc st in
            stmt_ok env PrLockMember
             (if \<not> (\<exists>m \<in> set (pr_members st). pr_seq m = acc) then Inl RepoNoRows else
            stmt_ok env PrCountTokens
             (if sql_affected (\<lambda>r. apr_USRSeq r = acc \<and> valid_token env [tokenHash, legacyToken] r) (resets st) = 0
              then Inl RepoTokenInvalid else
            stmt_ok env PrLoadIdentities
             (if activeIdentities state = [] then Inl RepoIdentityMissing
              else if hasDisabledCredential state then Inl RepoCredentialDisabled else
            (case upsertPasswordCredentials env (activeIdentities state) replacement (credentials st) of
               Inl e \<Rightarrow> Inl e
             | Inr cs \<Rightarrow>
            stmt_ok env PrLegacy
             (case updateLegacyPassword acc legacyHash (st\<lparr>credentials := cs\<rparr>) of
                None \<Rightarrow> Inl RepoNoRows
              | Some st2 \<Rightarrow>
            stmt_ok env PrConsume
             (if sql_affected (\<lambda>r. apr_USRSeq r = acc \<and> \<not> apr_used r) (resets st2) < 1 then Inl RepoTokenInvalid else
            stmt_ok env PrRevokeTokens (stmt_ok env PrRevokeFamilies (stmt_ok env PrCommit
             (Inr (revoke_families env acc (revoke_tokens env acc (spend_tokens acc st2)))))))))))))))"

definition ConfirmResetAtomically ::
  "pr_env \<Rightarrow> string \<Rightarrow> string \<Rightarrow> string \<Rightarrow> PasswordCredential \<Rightarrow> pr_state \<Rightarrow> repo_error option \<times> pr_state" where
  "ConfirmResetAtomically env tokenHash legacyToken legacyHash replacement st =
     (case reset_tx env tokenHash legacyToken legacyHash replacement st of
        Inl e \<Rightarrow> (Some e, st) | Inr st' \<Rightarrow> (None, st'))"

section \<open>The password change transaction\<close>

text \<open>Every active credential is verified, and one match is enough; the first that cannot be read
  ends the loop.\<close>

fun verify_any :: "(PasswordCredential \<Rightarrow> bool option) \<Rightarrow> PasswordCredential list \<Rightarrow> bool \<Rightarrow> bool option" where
  "verify_any verify [] valid = Some valid"
| "verify_any verify (c # cs) valid =
     (case verify c of None \<Rightarrow> None | Some matches \<Rightarrow> verify_any verify cs (valid \<or> matches))"

definition legacy_hash :: "pr_member \<Rightarrow> string" where
  "legacy_hash m = (case pr_pwd m of None \<Rightarrow> [] | Some h \<Rightarrow> h)"

definition check_current ::
  "(PasswordCredential \<Rightarrow> bool option) \<Rightarrow> string \<Rightarrow> string \<Rightarrow> passwordIdentityState \<Rightarrow> repo_error option" where
  "check_current verify storedHash submittedHash state =
     (if activeIdentities state = [] then Some RepoIdentityMissing
      else if hasDisabledCredential state then Some RepoCredentialDisabled
      else if activeCredentials state \<noteq> [] then
        (case verify_any verify (activeCredentials state) False of
           None \<Rightarrow> Some RepoVerify
         | Some valid \<Rightarrow> if valid then None else Some RepoPasswordMismatch)
      else if storedHash = [] then Some RepoPasswordMissing
      else if storedHash \<noteq> submittedHash then Some RepoPasswordMismatch
      else None)"

definition change_tx ::
  "pr_env \<Rightarrow> int \<Rightarrow> string \<Rightarrow> string \<Rightarrow> PasswordCredential \<Rightarrow> (PasswordCredential \<Rightarrow> bool option) \<Rightarrow> pr_state
     \<Rightarrow> (repo_error, pr_state) result" where
  "change_tx env acc legacySubmittedHash legacyReplacementHash replacement verify st =
     stmt_ok env PrBegin (stmt_ok env PrLockMember
      (case sql_get (\<lambda>m. pr_seq m = acc) (pr_members st) of
         None \<Rightarrow> Inl RepoNoRows
       | Some m \<Rightarrow>
           (let state = loadPasswordIdentityState acc st in
            stmt_ok env PrLoadIdentities
             (case check_current verify (legacy_hash m) legacySubmittedHash state of
                Some e \<Rightarrow> Inl e
              | None \<Rightarrow>
            (case upsertPasswordCredentials env (activeIdentities state) replacement (credentials st) of
               Inl e \<Rightarrow> Inl e
             | Inr cs \<Rightarrow>
            stmt_ok env PrLegacy
             (case updateLegacyPassword acc legacyReplacementHash (st\<lparr>credentials := cs\<rparr>) of
                None \<Rightarrow> Inl RepoNoRows
              | Some st2 \<Rightarrow> stmt_ok env PrCommit (Inr st2)))))))"

definition ChangePasswordAtomically ::
  "pr_env \<Rightarrow> int \<Rightarrow> string \<Rightarrow> string \<Rightarrow> PasswordCredential \<Rightarrow> (PasswordCredential \<Rightarrow> bool option) \<Rightarrow> pr_state
     \<Rightarrow> repo_error option \<times> pr_state" where
  "ChangePasswordAtomically env acc submitted legacyHash replacement verify st =
     (case change_tx env acc submitted legacyHash replacement verify st of
        Inl e \<Rightarrow> (Some e, st) | Inr st' \<Rightarrow> (None, st'))"

section \<open>CredentialRepository and CanonicalPasswordService\<close>

definition UpsertPasswordCredential :: "pr_env \<Rightarrow> PasswordCredential \<Rightarrow> pr_state \<Rightarrow> (pr_error, pr_state) result" where
  "UpsertPasswordCredential env c st =
     (if \<not> SupportsPassword (pc_Provider c) \<or> pc_IdentityID c \<le> 0 \<or> pc_Algorithm c = [] \<or> pc_PasswordHash c = []
      then Inl InvalidCredential
      else case pr_fault env (PrStoreCredential (pc_IdentityID c)) of
        Some e \<Rightarrow> Inl (PrDatabase e)
      | None \<Rightarrow>
          Inr (if \<exists>d \<in> set (credentials st). pc_IdentityID d = pc_IdentityID c
               then st\<lparr>credentials := sql_update (\<lambda>d. pc_IdentityID d = pc_IdentityID c)
                      (\<lambda>d. d\<lparr>pc_Algorithm := pc_Algorithm c, pc_ParametersText := pc_ParametersText c,
                            pc_PasswordHash := pc_PasswordHash c, pc_Status := ''ACTIVE''\<rparr>) (credentials st)\<rparr>
               else st\<lparr>credentials := credentials st @ [c\<lparr>pc_Status := ''ACTIVE''\<rparr>]\<rparr>))"

definition FindPasswordCredential :: "pr_env \<Rightarrow> int \<Rightarrow> pr_state \<Rightarrow> (pr_error, PasswordCredential option) result" where
  "FindPasswordCredential env identityID st =
     (case pr_fault env (PrFindCredential identityID) of
        Some e \<Rightarrow> Inl (PrDatabase e) | None \<Rightarrow> Inr (find_credential st identityID))"

text \<open>A new hash has a fresh salt, so a row that matches is a row that changes.\<close>

definition RehashPasswordCredential ::
  "pr_env \<Rightarrow> int \<Rightarrow> string \<Rightarrow> PasswordCredential \<Rightarrow> pr_state \<Rightarrow> (pr_error, bool) result \<times> pr_state" where
  "RehashPasswordCredential env identityID previousHash c st =
     (if pc_IdentityID c \<noteq> identityID \<or> \<not> SupportsPassword (pc_Provider c) \<or> pc_Algorithm c \<noteq> ''ARGON2ID'' \<or> pc_PasswordHash c = []
      then (Inl InvalidRehash, st)
      else case pr_fault env (PrRehash identityID) of
        Some e \<Rightarrow> (Inl (PrDatabase e), st)
      | None \<Rightarrow>
          (let hit = (\<lambda>d. pc_IdentityID d = identityID \<and> pc_PasswordHash d = previousHash \<and> pc_Status d = ''ACTIVE'')
           in (Inr (sql_affected hit (credentials st) = 1),
               st\<lparr>credentials := sql_update hit
                    (\<lambda>d. d\<lparr>pc_Algorithm := pc_Algorithm c, pc_ParametersText := pc_ParametersText c,
                          pc_PasswordHash := pc_PasswordHash c, pc_Status := ''ACTIVE''\<rparr>) (credentials st)\<rparr>)))"

definition ListIdentities :: "pr_env \<Rightarrow> int \<Rightarrow> pr_state \<Rightarrow> (pr_error, pr_identity list) result" where
  "ListIdentities env accountSeq st =
     (case pr_fault env PrListIdentities of
        Some e \<Rightarrow> Inl (PrDatabase e)
      | None \<Rightarrow> Inr (sort_key IdentityID (filter (\<lambda>i. id_account i = accountSeq) (identities st))))"

datatype CanonicalPasswordAuthenticationState =
    CanonicalPasswordAbsent | CanonicalPasswordAuthenticated | CanonicalPasswordRejected | CanonicalPasswordDisabled

definition authenticateCurrentCredentialAfterRehashConflict ::
  "pr_env \<Rightarrow> pr_identity \<Rightarrow> string \<Rightarrow> pr_state \<Rightarrow> (pr_error, CanonicalPasswordAuthenticationState) result" where
  "authenticateCurrentCredentialAfterRehashConflict env i password st =
     (case FindPasswordCredential env (IdentityID i) st of
        Inl e \<Rightarrow> Inl e
      | Inr None \<Rightarrow> Inr CanonicalPasswordAbsent
      | Inr (Some c) \<Rightarrow>
          if pc_Status c \<noteq> ''ACTIVE'' then Inr CanonicalPasswordDisabled
          else case VerifyCredential env (pc_Algorithm c) password (pc_PasswordHash c) of
            None \<Rightarrow> Inl InvalidHash
          | Some v \<Rightarrow> Inr (if ver_Valid v then CanonicalPasswordAuthenticated else CanonicalPasswordRejected))"

definition authenticateIdentity ::
  "pr_env \<Rightarrow> pr_identity \<Rightarrow> string \<Rightarrow> pr_state \<Rightarrow> (pr_error, CanonicalPasswordAuthenticationState) result \<times> pr_state" where
  "authenticateIdentity env i password st =
     (case FindPasswordCredential env (IdentityID i) st of
        Inl e \<Rightarrow> (Inl e, st)
      | Inr None \<Rightarrow> (Inr CanonicalPasswordAbsent, st)
      | Inr (Some c) \<Rightarrow>
          if pc_Status c \<noteq> ''ACTIVE'' then (Inr CanonicalPasswordDisabled, st)
          else if pc_Provider c \<noteq> id_provider i \<or> \<not> SupportsPassword (pc_Provider c) then (Inl ProviderMismatch, st)
          else case VerifyCredential env (pc_Algorithm c) password (pc_PasswordHash c) of
            None \<Rightarrow> (Inl InvalidHash, st)
          | Some v \<Rightarrow>
              if ver_Valid v \<and> ver_NeedsRehash v then
                (case NewCredential env (IdentityID i) (id_provider i) password of
                   None \<Rightarrow> (Inl HashFailed, st)
                 | Some u \<Rightarrow>
                     (case RehashPasswordCredential env (IdentityID i) (pc_PasswordHash c) u st of
                        (Inl e, st1) \<Rightarrow> (Inl e, st1)
                      | (Inr updated, st1) \<Rightarrow>
                          if updated then (Inr CanonicalPasswordAuthenticated, st1)
                          else (authenticateCurrentCredentialAfterRehashConflict env i password st1, st1)))
              else (Inr (if ver_Valid v then CanonicalPasswordAuthenticated else CanonicalPasswordRejected), st))"

fun authenticate_all ::
  "pr_env \<Rightarrow> string \<Rightarrow> pr_identity list \<Rightarrow> CanonicalPasswordAuthenticationState \<Rightarrow> pr_state
     \<Rightarrow> (pr_error, CanonicalPasswordAuthenticationState) result \<times> pr_state" where
  "authenticate_all env password [] state st = (Inr state, st)"
| "authenticate_all env password (i # is) state st =
     (if \<not> SupportsPassword (id_provider i) then authenticate_all env password is state st
      else if id_status i \<noteq> ''ACTIVE'' then authenticate_all env password is CanonicalPasswordDisabled st
      else case authenticateIdentity env i password st of
        (Inl e, st1) \<Rightarrow> (Inl e, st1)
      | (Inr a, st1) \<Rightarrow>
          if a = CanonicalPasswordAuthenticated then (Inr a, st1)
          else authenticate_all env password is (if a \<noteq> CanonicalPasswordAbsent then a else state) st1)"

definition AuthenticateAccount ::
  "pr_env \<Rightarrow> int \<Rightarrow> string \<Rightarrow> pr_state \<Rightarrow> (pr_error, CanonicalPasswordAuthenticationState) result \<times> pr_state" where
  "AuthenticateAccount env accountSeq password st =
     (case ListIdentities env accountSeq st of
        Inl e \<Rightarrow> (Inl e, st)
      | Inr is \<Rightarrow> authenticate_all env password is CanonicalPasswordAbsent st)"

definition storeCredential :: "pr_env \<Rightarrow> pr_identity \<Rightarrow> string \<Rightarrow> pr_state \<Rightarrow> (pr_error, pr_state) result" where
  "storeCredential env i password st =
     (case NewCredential env (IdentityID i) (id_provider i) password of
        None \<Rightarrow> Inl HashFailed
      | Some c \<Rightarrow> UpsertPasswordCredential env c st)"

text \<open>Each credential is stored by its own statement: those before a failure stay.\<close>

fun store_all :: "pr_env \<Rightarrow> string \<Rightarrow> pr_identity list \<Rightarrow> nat \<Rightarrow> pr_state \<Rightarrow> pr_error option \<times> pr_state" where
  "store_all env password [] count st = (if count = 0 then Some IdentityMissing else None, st)"
| "store_all env password (i # is) count st =
     (if \<not> SupportsPassword (id_provider i) \<or> id_status i \<noteq> ''ACTIVE'' then store_all env password is count st
      else case storeCredential env i password st of
        Inl e \<Rightarrow> (Some e, st)
      | Inr st1 \<Rightarrow> store_all env password is (count + 1) st1)"

definition ReplaceAccountPassword :: "pr_env \<Rightarrow> int \<Rightarrow> string \<Rightarrow> pr_state \<Rightarrow> pr_error option \<times> pr_state" where
  "ReplaceAccountPassword env accountSeq password st =
     (case ListIdentities env accountSeq st of
        Inl e \<Rightarrow> (Some e, st)
      | Inr is \<Rightarrow> store_all env password is 0 st)"

text \<open>\<^verbatim>\<open>if s.credentials != nil\<close> in both services.\<close>

definition replace_if_managed :: "pr_env \<Rightarrow> int \<Rightarrow> string \<Rightarrow> pr_state \<Rightarrow> pr_error option \<times> pr_state" where
  "replace_if_managed env usrSeq password st =
     (if mode env = WithPasswordCredentials then ReplaceAccountPassword env usrSeq password st else (None, st))"

section \<open>PasswordResetService\<close>

text \<open>\<^verbatim>\<open>RequestReset\<close> answers the same whatever it finds, except for an empty address.\<close>

definition RequestReset :: "pr_env \<Rightarrow> string \<Rightarrow> pr_state \<Rightarrow> pr_error option \<times> pr_state" where
  "RequestReset env email st =
     (if email = [] then (Some EmailMissing, st)
      else case (if mode env = Atomic
                 then FindPasswordResetAccountByVerifiedEmail env (to_lower env (go_TrimSpace email)) st
                 else FindMemberByEmail env email st) of
        Inl _ \<Rightarrow> (None, st)
      | Inr None \<Rightarrow> (None, st)
      | Inr (Some user) \<Rightarrow>
     (case random_token env of
        None \<Rightarrow> (None, st)
      | Some token \<Rightarrow>
     (case InsertToken env (pr_seq user) (if mode env = Atomic then sha256_hex env token else token)
             (pr_go_now env + 900) st of
        Inl _ \<Rightarrow> (None, st)
      | Inr st1 \<Rightarrow>
     (case render_reset env (pr_name user) (siteBaseURL env @ ''/reset-password?token='' @ token) of
        None \<Rightarrow> (None, st1)
      | Some body \<Rightarrow>
          (None, if length (mail_queue st1) < queue_capacity env
                 then st1\<lparr>mail_queue := mail_queue st1 @ [(email, body)]\<rparr> else st1)))))"

definition ConfirmReset :: "pr_env \<Rightarrow> string \<Rightarrow> string \<Rightarrow> pr_state \<Rightarrow> pr_error option \<times> pr_state" where
  "ConfirmReset env token newPassword st =
     (if token = [] then (Some TokenMissing, st)
      else case ValidateNewPassword newPassword of
        Some e \<Rightarrow> (Some e, st)
      | None \<Rightarrow>
          if mode env = Atomic then
            (case NewCredential env 0 ''LOCAL_USERNAME'' newPassword of
               None \<Rightarrow> (Some ChangeFailed, st)
             | Some replacement \<Rightarrow>
                 (case ConfirmResetAtomically env (sha256_hex env token) token (MysqlNativePassword env newPassword) replacement st of
                    (None, st') \<Rightarrow> (None, st')
                  | (Some RepoTokenInvalid, st') \<Rightarrow> (Some LinkInvalid, st')
                  | (Some _, st') \<Rightarrow> (Some ChangeFailed, st')))
          else
            (case FindValidToken env token st of
               Inl _ \<Rightarrow> (Some ProcessingFailed, st)
             | Inr None \<Rightarrow> (Some LinkInvalid, st)
             | Inr (Some row) \<Rightarrow>
                 (case replace_if_managed env (apr_USRSeq row) newPassword st of
                    (Some _, st1) \<Rightarrow> (Some ChangeFailed, st1)
                  | (None, st1) \<Rightarrow>
                 (case UpdatePassword env (apr_USRSeq row) (MysqlNativePassword env newPassword) st1 of
                    Inl _ \<Rightarrow> (Some ChangeFailed, st1)
                  | Inr st2 \<Rightarrow> (None, MarkTokenUsed env token st2)))))"

definition ValidateToken :: "pr_env \<Rightarrow> string \<Rightarrow> pr_state \<Rightarrow> (pr_error, bool \<times> string) result" where
  "ValidateToken env token st =
     (if token = [] then Inr (False, [])
      else case (if mode env = Atomic
                 then (case FindValidToken env (sha256_hex env token) st of
                         Inl e \<Rightarrow> Inl e
                       | Inr None \<Rightarrow> Inr token
                       | Inr (Some _) \<Rightarrow> Inr (sha256_hex env token))
                 else Inr token) of
        Inl e \<Rightarrow> Inl e
      | Inr persistedToken \<Rightarrow>
          (case FindValidToken env persistedToken st of
             Inl e \<Rightarrow> Inl e
           | Inr None \<Rightarrow> Inr (False, [])
           | Inr (Some row) \<Rightarrow>
               (case pr_fault env PrName of
                  Some _ \<Rightarrow> Inr (True, [])
                | None \<Rightarrow>
                    (case sql_get (\<lambda>m. pr_seq m = apr_USRSeq row) (pr_members st) of
                       None \<Rightarrow> Inr (True, [])
                     | Some m \<Rightarrow> Inr (True, pr_name m)))))"

section \<open>PasswordChangeService\<close>

definition GetPasswordHash :: "pr_env \<Rightarrow> int \<Rightarrow> pr_state \<Rightarrow> (pr_error, string) result" where
  "GetPasswordHash env usrSeq st =
     (case pr_fault env PrGetHash of
        Some e \<Rightarrow> Inl (PrDatabase e)
      | None \<Rightarrow>
          (case sql_get (\<lambda>m. pr_seq m = usrSeq) (pr_members st) of
             None \<Rightarrow> Inl NoSuchMember | Some m \<Rightarrow> Inr (legacy_hash m)))"

definition change_error :: "repo_error \<Rightarrow> pr_error" where
  "change_error e = (case e of
     RepoPasswordMissing \<Rightarrow> NO_PASSWORD
   | RepoPasswordMismatch \<Rightarrow> WRONG_PASSWORD
   | RepoCredentialDisabled \<Rightarrow> WRONG_PASSWORD
   | RepoIdentityMissing \<Rightarrow> IdentityMissing
   | RepoNoRows \<Rightarrow> NoSuchMember
   | RepoVerify \<Rightarrow> InvalidHash
   | RepoTokenInvalid \<Rightarrow> LinkInvalid
   | RepoDb m \<Rightarrow> PrDatabase m)"

definition canonical_check :: "pr_env \<Rightarrow> int \<Rightarrow> string \<Rightarrow> pr_state \<Rightarrow> (pr_error, bool) result \<times> pr_state" where
  "canonical_check env usrSeq currentPwd st =
     (if mode env = WithPasswordCredentials then
        (case AuthenticateAccount env usrSeq currentPwd st of
           (Inl e, st1) \<Rightarrow> (Inl e, st1)
         | (Inr a, st1) \<Rightarrow>
             if a = CanonicalPasswordAbsent then (Inr False, st1)
             else if a \<noteq> CanonicalPasswordAuthenticated then (Inl WRONG_PASSWORD, st1)
             else (Inr True, st1))
      else (Inr False, st))"

definition legacy_check :: "pr_env \<Rightarrow> int \<Rightarrow> string \<Rightarrow> pr_state \<Rightarrow> pr_error option" where
  "legacy_check env usrSeq currentPwd st =
     (case GetPasswordHash env usrSeq st of
        Inl e \<Rightarrow> Some e
      | Inr stored \<Rightarrow>
          if stored = [] then Some NO_PASSWORD
          else if stored \<noteq> MysqlNativePassword env currentPwd then Some WRONG_PASSWORD else None)"

definition ChangePassword :: "pr_env \<Rightarrow> int \<Rightarrow> string \<Rightarrow> string \<Rightarrow> pr_state \<Rightarrow> pr_error option \<times> pr_state" where
  "ChangePassword env usrSeq currentPwd newPwd st =
     (case ValidateNewPassword newPwd of
        Some e \<Rightarrow> (Some e, st)
      | None \<Rightarrow>
          if mode env = Atomic then
            (case NewCredential env 0 ''LOCAL_USERNAME'' newPwd of
               None \<Rightarrow> (Some HashFailed, st)
             | Some replacement \<Rightarrow>
                 (case ChangePasswordAtomically env usrSeq (MysqlNativePassword env currentPwd) (MysqlNativePassword env newPwd)
                         replacement (\<lambda>c. map_option ver_Valid (VerifyCredential env (pc_Algorithm c) currentPwd (pc_PasswordHash c))) st of
                    (e, st') \<Rightarrow> (map_option change_error e, st')))
          else
            (case canonical_check env usrSeq currentPwd st of
               (Inl e, st1) \<Rightarrow> (Some e, st1)
             | (Inr authenticated, st1) \<Rightarrow>
                 (case (if authenticated then None else legacy_check env usrSeq currentPwd st1) of
                    Some e \<Rightarrow> (Some e, st1)
                  | None \<Rightarrow>
                 (case replace_if_managed env usrSeq newPwd st1 of
                    (Some e, st2) \<Rightarrow> (Some e, st2)
                  | (None, st2) \<Rightarrow>
                 (case UpdatePassword env usrSeq (MysqlNativePassword env newPwd) st2 of
                    Inl e \<Rightarrow> (Some e, st2)
                  | Inr st3 \<Rightarrow> (None, st3))))))"

end
