(* ===== verification/Password_Props.thy ===== *)
theory Password_Props
  imports Password_Reset
begin

text \<open>
  What a password reset and a password change do to an account: the credentials, the legacy column, the
  other reset tokens and the sessions of that account and of no other, all of it or nothing.
\<close>

section \<open>The credential table\<close>

lemma upsert_credential_hit:
  "c \<in> set (upsert_credential i r cs) \<Longrightarrow> pc_IdentityID c = IdentityID i \<Longrightarrow> c = replaced_credential i r"
  by (auto simp: upsert_credential_def sql_update_def replaced_credential_def split: if_splits)

lemma upsert_credential_in: "replaced_credential i r \<in> set (upsert_credential i r cs)"
  by (auto simp: upsert_credential_def sql_update_def)

lemma upsert_credential_other:
  "pc_IdentityID c \<noteq> IdentityID i \<Longrightarrow> c \<in> set (upsert_credential i r cs) \<longleftrightarrow> c \<in> set cs"
  by (auto simp: upsert_credential_def sql_update_def replaced_credential_def image_iff)

lemma upsert_credential_filter:
  "IdentityID i \<in> I \<Longrightarrow>
   filter (\<lambda>c. pc_IdentityID c \<notin> I) (upsert_credential i r cs) = filter (\<lambda>c. pc_IdentityID c \<notin> I) cs"
proof -
  assume I: "IdentityID i \<in> I"
  have "filter (\<lambda>c. pc_IdentityID c \<notin> I)
          (sql_update (\<lambda>c. pc_IdentityID c = IdentityID i) (\<lambda>_. replaced_credential i r) cs) =
        filter (\<lambda>c. pc_IdentityID c \<notin> I) cs"
    using I by (induction cs) (auto simp: replaced_credential_def)
  then show ?thesis using I by (simp add: upsert_credential_def replaced_credential_def)
qed

definition has_new_hash :: "string \<Rightarrow> PasswordCredential \<Rightarrow> bool" where
  "has_new_hash h c \<longleftrightarrow> pc_PasswordHash c = h \<and> pc_Status c = ''ACTIVE''"

lemma replaced_has_new_hash [simp]: "has_new_hash (pc_PasswordHash r) (replaced_credential i r)"
  by (simp add: has_new_hash_def replaced_credential_def)

lemma replaced_id [simp]: "pc_IdentityID (replaced_credential i r) = IdentityID i"
  by (simp add: replaced_credential_def)

lemma upsert_keeps_new:
  assumes "upsertPasswordCredentials env is r cs = Inr cs'"
    and "\<exists>c \<in> set cs. pc_IdentityID c = k \<and> has_new_hash (pc_PasswordHash r) c"
  shows "\<exists>c \<in> set cs'. pc_IdentityID c = k \<and> has_new_hash (pc_PasswordHash r) c"
  using assms
proof (induction env "is" r cs rule: upsertPasswordCredentials.induct)
  case (2 env i "is" r cs)
  have "\<exists>c \<in> set (upsert_credential i r cs). pc_IdentityID c = k \<and> has_new_hash (pc_PasswordHash r) c"
  proof (cases "k = IdentityID i")
    case True
    then show ?thesis using upsert_credential_in [of i r cs] replaced_has_new_hash replaced_id by blast
  next
    case False
    then show ?thesis using 2(3) upsert_credential_other by blast
  qed
  then show ?case using 2 by (auto split: option.splits)
qed simp

lemma upsert_all_new:
  assumes "upsertPasswordCredentials env is r cs = Inr cs'" "i \<in> set is"
  shows "\<exists>c \<in> set cs'. pc_IdentityID c = IdentityID i \<and> has_new_hash (pc_PasswordHash r) c"
  using assms
proof (induction env "is" r cs rule: upsertPasswordCredentials.induct)
  case (2 env j "is" r cs)
  from 2(2) have step: "upsertPasswordCredentials env is r (upsert_credential j r cs) = Inr cs'"
    by (auto split: option.splits)
  show ?case
  proof (cases "i = j")
    case True
    have "\<exists>c \<in> set (upsert_credential j r cs). pc_IdentityID c = IdentityID j \<and> has_new_hash (pc_PasswordHash r) c"
      using upsert_credential_in [of j r cs] replaced_has_new_hash replaced_id by blast
    from upsert_keeps_new [OF step this] True show ?thesis by simp
  next
    case False
    then show ?thesis using 2 by (auto split: option.splits)
  qed
qed simp

lemma upsert_other_unchanged:
  assumes "upsertPasswordCredentials env is r cs = Inr cs'" "IdentityID ` set is \<subseteq> I"
  shows "filter (\<lambda>c. pc_IdentityID c \<notin> I) cs' = filter (\<lambda>c. pc_IdentityID c \<notin> I) cs"
  using assms
proof (induction env "is" r cs rule: upsertPasswordCredentials.induct)
  case (2 env i "is" r cs)
  then have "IdentityID i \<in> I" by auto
  with 2 show ?case using upsert_credential_filter [of i I r cs] by (auto split: option.splits)
qed simp

lemma upsert_no_old:
  assumes "upsertPasswordCredentials env is r cs = Inr cs'" "c \<in> set cs'" "\<not> has_new_hash (pc_PasswordHash r) c"
  shows "pc_IdentityID c \<notin> IdentityID ` set is"
proof -
  have gen: "c \<in> set ds' \<Longrightarrow> upsertPasswordCredentials env is r ds = Inr ds' \<Longrightarrow>
      c \<in> set ds \<and> pc_IdentityID c \<notin> IdentityID ` set is" for ds ds'
  proof (induction "is" arbitrary: ds)
    case (Cons i "is")
    from Cons.prems(2) have "upsertPasswordCredentials env is r (upsert_credential i r ds) = Inr ds'"
      by (auto split: option.splits)
    from Cons.IH [OF Cons.prems(1) this] have in1: "c \<in> set (upsert_credential i r ds)" and
      out: "pc_IdentityID c \<notin> IdentityID ` set is" by auto
    have "pc_IdentityID c \<noteq> IdentityID i"
      using upsert_credential_hit [OF in1] assms(3) replaced_has_new_hash by metis
    then show ?case using in1 out upsert_credential_other by auto
  qed auto
  from gen [OF assms(2,1)] show ?thesis by simp
qed

section \<open>What a reset promises\<close>

text \<open>The identities by which the account logs in with a password.\<close>

definition login_ids :: "int \<Rightarrow> pr_state \<Rightarrow> int set" where
  "login_ids acc st = IdentityID ` set (activeIdentities (loadPasswordIdentityState acc st))"

definition password_replaced :: "int \<Rightarrow> string \<Rightarrow> string \<Rightarrow> pr_state \<Rightarrow> pr_state \<Rightarrow> bool" where
  "password_replaced acc h lh st st' \<longleftrightarrow>
     (\<forall>m \<in> set (pr_members st'). pr_seq m = acc \<longrightarrow> pr_pwd m = Some lh)
     \<and> login_ids acc st \<noteq> {}
     \<and> (\<forall>k \<in> login_ids acc st. \<exists>c \<in> set (credentials st'). pc_IdentityID c = k)
     \<and> (\<forall>c \<in> set (credentials st'). pc_IdentityID c \<in> login_ids acc st \<longrightarrow> has_new_hash h c)"

definition account_closed :: "int \<Rightarrow> pr_state \<Rightarrow> bool" where
  "account_closed acc st \<longleftrightarrow>
     (\<forall>r \<in> set (resets st). apr_USRSeq r = acc \<longrightarrow> apr_used r)
     \<and> (\<forall>t \<in> set (refresh_tokens st). rt_usr t = acc \<longrightarrow> rt_revoked t \<noteq> None \<and> rt_mrt_revoked t \<noteq> None)
     \<and> (\<forall>f \<in> set (families st). sf_account f = acc \<longrightarrow> sf_status f \<noteq> ''ACTIVE'')"

definition others_untouched :: "int \<Rightarrow> pr_state \<Rightarrow> pr_state \<Rightarrow> bool" where
  "others_untouched acc st st' \<longleftrightarrow>
     filter (\<lambda>m. pr_seq m \<noteq> acc) (pr_members st') = filter (\<lambda>m. pr_seq m \<noteq> acc) (pr_members st)
     \<and> filter (\<lambda>c. pc_IdentityID c \<notin> login_ids acc st) (credentials st') =
        filter (\<lambda>c. pc_IdentityID c \<notin> login_ids acc st) (credentials st)
     \<and> filter (\<lambda>r. apr_USRSeq r \<noteq> acc) (resets st') = filter (\<lambda>r. apr_USRSeq r \<noteq> acc) (resets st)
     \<and> filter (\<lambda>t. rt_usr t \<noteq> acc) (refresh_tokens st') = filter (\<lambda>t. rt_usr t \<noteq> acc) (refresh_tokens st)
     \<and> filter (\<lambda>f. sf_account f \<noteq> acc) (families st') = filter (\<lambda>f. sf_account f \<noteq> acc) (families st)
     \<and> identities st' = identities st \<and> account_states st' = account_states st \<and> mail_queue st' = mail_queue st"

lemma stmt_okD: "stmt_ok env q r = Inr x \<Longrightarrow> r = Inr x"
  by (auto simp: stmt_ok_def split: option.splits)

lemma stmt_ok_clean [simp]: "pr_fault env q = None \<Longrightarrow> stmt_ok env q r = r"
  by (simp add: stmt_ok_def)

lemma upsert_ok: "(\<And>q. pr_fault env q = None) \<Longrightarrow> upsertPasswordCredentials env is r cs \<noteq> Inl e"
  by (induction env "is" r cs rule: upsertPasswordCredentials.induct) auto

lemma filter_sql_update_other:
  "(\<And>r. k (f r) = k r) \<Longrightarrow> filter (\<lambda>r. k r \<noteq> a) (sql_update (\<lambda>r. k r = a \<and> p r) f t) = filter (\<lambda>r. k r \<noteq> a) t"
  by (induction t) auto

lemma filter_sql_update_key:
  "(\<And>r. k (f r) = k r) \<Longrightarrow> filter (\<lambda>r. k r \<noteq> a) (sql_update (\<lambda>r. k r = a) f t) = filter (\<lambda>r. k r \<noteq> a) t"
  by (induction t) auto

lemma reset_txD:
  assumes "reset_tx env th lt lh r st = Inr st'"
  obtains row cs st2 where
    "sql_get (valid_token env [th, lt]) (resets st) = Some row"
    "activeIdentities (loadPasswordIdentityState (apr_USRSeq row) st) \<noteq> []"
    "upsertPasswordCredentials env (activeIdentities (loadPasswordIdentityState (apr_USRSeq row) st)) r (credentials st) = Inr cs"
    "updateLegacyPassword (apr_USRSeq row) lh (st\<lparr>credentials := cs\<rparr>) = Some st2"
    "st' = revoke_families env (apr_USRSeq row) (revoke_tokens env (apr_USRSeq row) (spend_tokens (apr_USRSeq row) st2))"
  using assms unfolding reset_tx_def Let_def
  by (auto dest!: stmt_okD split: option.splits sum.splits if_splits)

lemma updateLegacyPasswordD:
  "updateLegacyPassword acc lh st = Some st2 \<Longrightarrow>
   st2 = st\<lparr>pr_members := sql_update (\<lambda>m. pr_seq m = acc) (\<lambda>m. m\<lparr>pr_pwd := Some lh\<rparr>) (pr_members st)\<rparr>"
  by (auto simp: updateLegacyPassword_def split: if_splits)

lemma replaced_by_upsert:
  assumes "activeIdentities (loadPasswordIdentityState acc st) \<noteq> []"
    and ups: "upsertPasswordCredentials env (activeIdentities (loadPasswordIdentityState acc st)) r (credentials st) = Inr cs"
    and leg: "updateLegacyPassword acc lh (st\<lparr>credentials := cs\<rparr>) = Some st2"
  shows "password_replaced acc (pc_PasswordHash r) lh st st2"
proof -
  have cs: "credentials st2 = cs"
    and mem: "pr_members st2 = sql_update (\<lambda>m. pr_seq m = acc) (\<lambda>m. m\<lparr>pr_pwd := Some lh\<rparr>) (pr_members st)"
    using updateLegacyPasswordD [OF leg] by simp_all
  have "\<exists>c \<in> set cs. pc_IdentityID c = k" if "k \<in> login_ids acc st" for k
    using that upsert_all_new [OF ups] by (fastforce simp: login_ids_def)
  moreover have "has_new_hash (pc_PasswordHash r) c" if "c \<in> set cs" "pc_IdentityID c \<in> login_ids acc st" for c
    using that upsert_no_old [OF ups that(1)] by (auto simp: login_ids_def)
  ultimately show ?thesis
    using assms(1) by (simp add: password_replaced_def cs mem all_sql_update login_ids_def)
qed

lemma untouched_by_upsert:
  assumes ups: "upsertPasswordCredentials env (activeIdentities (loadPasswordIdentityState acc st)) r (credentials st) = Inr cs"
    and leg: "updateLegacyPassword acc lh (st\<lparr>credentials := cs\<rparr>) = Some st2"
  shows "others_untouched acc st st2"
proof -
  have "filter (\<lambda>c. pc_IdentityID c \<notin> login_ids acc st) cs = filter (\<lambda>c. pc_IdentityID c \<notin> login_ids acc st) (credentials st)"
    by (rule upsert_other_unchanged [OF ups]) (simp add: login_ids_def)
  moreover have "filter (\<lambda>m. pr_seq m \<noteq> acc)
      (sql_update (\<lambda>m. pr_seq m = acc) (\<lambda>m. m\<lparr>pr_pwd := Some lh\<rparr>) (pr_members st)) = filter (\<lambda>m. pr_seq m \<noteq> acc) (pr_members st)"
    by (rule filter_sql_update_key) simp
  ultimately show ?thesis
    unfolding others_untouched_def updateLegacyPasswordD [OF leg] by simp
qed

definition close_account :: "pr_env \<Rightarrow> int \<Rightarrow> pr_state \<Rightarrow> pr_state" where
  "close_account env acc st = revoke_families env acc (revoke_tokens env acc (spend_tokens acc st))"

lemma close_account_fields [simp]:
  "pr_members (close_account env acc st) = pr_members st"
  "credentials (close_account env acc st) = credentials st"
  "identities (close_account env acc st) = identities st"
  "account_states (close_account env acc st) = account_states st"
  "mail_queue (close_account env acc st) = mail_queue st"
  "resets (close_account env acc st) = resets (spend_tokens acc st)"
  "refresh_tokens (close_account env acc st) = refresh_tokens (revoke_tokens env acc st)"
  "families (close_account env acc st) = families (revoke_families env acc st)"
  by (simp_all add: close_account_def revoke_families_def revoke_tokens_def spend_tokens_def)

lemma coalesce_not_None [simp]: "coalesce x d \<noteq> None"
  by (simp add: coalesce_def split: option.splits)

lemma close_account_closes: "account_closed acc (close_account env acc st)"
proof -
  have "\<forall>r \<in> set (resets (spend_tokens acc st)). apr_USRSeq r = acc \<longrightarrow> apr_used r"
    by (simp add: spend_tokens_def all_sql_update)
  moreover have "\<forall>t \<in> set (refresh_tokens (revoke_tokens env acc st)).
      rt_usr t = acc \<longrightarrow> rt_revoked t \<noteq> None \<and> rt_mrt_revoked t \<noteq> None"
    by (simp add: revoke_tokens_def all_sql_update del: not_None_eq)
  moreover have "\<forall>f \<in> set (families (revoke_families env acc st)). sf_account f = acc \<longrightarrow> sf_status f \<noteq> ''ACTIVE''"
    by (simp add: revoke_families_def all_sql_update)
  ultimately show ?thesis by (simp add: account_closed_def)
qed

lemma close_account_others:
  "others_untouched acc st0 st \<Longrightarrow> others_untouched acc st0 (close_account env acc st)"
  unfolding others_untouched_def
  by (simp add: spend_tokens_def revoke_tokens_def revoke_families_def filter_sql_update_other filter_sql_update_key)

lemma close_account_replaced:
  "password_replaced acc h lh st0 st \<Longrightarrow> password_replaced acc h lh st0 (close_account env acc st)"
  by (simp add: password_replaced_def)

lemmas close_account_lemmas = close_account_closes close_account_others close_account_replaced

lemma reset_tx_effect:
  assumes "reset_tx env th lt lh r st = Inr st'"
  shows "\<exists>row \<in> set (resets st). valid_token env [th, lt] row
           \<and> password_replaced (apr_USRSeq row) (pc_PasswordHash r) lh st st'
           \<and> account_closed (apr_USRSeq row) st' \<and> others_untouched (apr_USRSeq row) st st'"
  using assms
proof (rule reset_txD)
  fix row cs st2
  assume row: "sql_get (valid_token env [th, lt]) (resets st) = Some row"
    and ids: "activeIdentities (loadPasswordIdentityState (apr_USRSeq row) st) \<noteq> []"
    and ups: "upsertPasswordCredentials env (activeIdentities (loadPasswordIdentityState (apr_USRSeq row) st)) r (credentials st) = Inr cs"
    and leg: "updateLegacyPassword (apr_USRSeq row) lh (st\<lparr>credentials := cs\<rparr>) = Some st2"
    and st': "st' = revoke_families env (apr_USRSeq row) (revoke_tokens env (apr_USRSeq row) (spend_tokens (apr_USRSeq row) st2))"
  show ?thesis
    using sql_get_Some [OF row] replaced_by_upsert [OF ids ups leg] untouched_by_upsert [OF ups leg]
    unfolding st' close_account_def [symmetric] by (intro bexI [of _ row] conjI close_account_lemmas) auto
qed

section \<open>What a password change promises\<close>

lemma verify_any_True:
  "verify_any v cs b = Some True \<Longrightarrow> b \<or> (\<exists>c \<in> set cs. v c = Some True)"
  by (induction v cs b rule: verify_any.induct) (auto split: option.splits)

definition knows_password :: "pr_env \<Rightarrow> int \<Rightarrow> string \<Rightarrow> pr_state \<Rightarrow> bool" where
  "knows_password env acc pwd st \<longleftrightarrow>
     (let cs = activeCredentials (loadPasswordIdentityState acc st) in
      (\<exists>c \<in> set cs. \<exists>v. VerifyCredential env (pc_Algorithm c) pwd (pc_PasswordHash c) = Some v \<and> ver_Valid v)
      \<or> cs = [] \<and> (\<exists>m \<in> set (pr_members st). pr_seq m = acc \<and> pr_pwd m = Some (MysqlNativePassword env pwd)))"

lemma change_txD:
  assumes "change_tx env acc sub lh r verify st = Inr st'"
  obtains m cs where
    "sql_get (\<lambda>m. pr_seq m = acc) (pr_members st) = Some m"
    "check_current verify (legacy_hash m) sub (loadPasswordIdentityState acc st) = None"
    "upsertPasswordCredentials env (activeIdentities (loadPasswordIdentityState acc st)) r (credentials st) = Inr cs"
    "updateLegacyPassword acc lh (st\<lparr>credentials := cs\<rparr>) = Some st'"
  using assms unfolding change_tx_def Let_def
  by (auto dest!: stmt_okD split: option.splits sum.splits)

lemma check_current_None:
  assumes "check_current verify stored sub state = None"
  shows "activeIdentities state \<noteq> []"
    and "(\<exists>c \<in> set (activeCredentials state). verify c = Some True) \<or> activeCredentials state = [] \<and> stored \<noteq> [] \<and> stored = sub"
  using assms verify_any_True [of verify "activeCredentials state" False]
  by (auto simp: check_current_def split: if_splits option.splits)

section \<open>Properties\<close>

text \<open>C11. In the transactional mode a reset either changes nothing, or is opened by an unused and
  unexpired token of one account: then every password identity of that account has the new hash and no
  other, the legacy column has the new legacy hash, all reset tokens of the account are spent, its refresh
  tokens and session families are revoked, and no row of another account has changed.\<close>

theorem reset_is_all_or_nothing:
  assumes "mode env = Atomic" "NewCredential env 0 ''LOCAL_USERNAME'' pwd = Some r"
    and "ConfirmReset env token pwd st = (e, st')"
  shows "(e \<noteq> None \<and> st' = st) \<or>
    (e = None \<and> (\<exists>row \<in> set (resets st). valid_token env [sha256_hex env token, token] row
       \<and> password_replaced (apr_USRSeq row) (pc_PasswordHash r) (MysqlNativePassword env pwd) st st'
       \<and> account_closed (apr_USRSeq row) st' \<and> others_untouched (apr_USRSeq row) st st'))"
proof (cases "reset_tx env (sha256_hex env token) token (MysqlNativePassword env pwd) r st")
  case (Inl x)
  with assms show ?thesis
    by (auto simp: ConfirmReset_def ConfirmResetAtomically_def split: if_splits option.splits repo_error.splits)
next
  case (Inr s)
  with assms have "e \<noteq> None \<and> st' = st \<or> e = None \<and> st' = s"
    by (auto simp: ConfirmReset_def ConfirmResetAtomically_def split: if_splits option.splits)
  with reset_tx_effect [OF Inr] show ?thesis by blast
qed

text \<open>C12. A logged-in member's password change in the transactional mode either changes nothing, or the
  submitted current password is one the account knows (an active credential verifies it, or there is
  none and it is the legacy password), and then the password is replaced and no other account is touched.
  Unlike a reset it leaves sessions and refresh tokens as they are.\<close>

theorem change_needs_current_password:
  assumes "mode env = Atomic" "NewCredential env 0 ''LOCAL_USERNAME'' newPwd = Some r"
    and "ChangePassword env acc cur newPwd st = (e, st')"
  shows "(e \<noteq> None \<and> st' = st) \<or>
    (e = None \<and> knows_password env acc cur st
       \<and> password_replaced acc (pc_PasswordHash r) (MysqlNativePassword env newPwd) st st'
       \<and> others_untouched acc st st' \<and> families st' = families st \<and> refresh_tokens st' = refresh_tokens st)"
proof (cases "change_tx env acc (MysqlNativePassword env cur) (MysqlNativePassword env newPwd) r
    (\<lambda>c. map_option ver_Valid (VerifyCredential env (pc_Algorithm c) cur (pc_PasswordHash c))) st")
  case (Inl x)
  with assms show ?thesis
    by (auto simp: ChangePassword_def ChangePasswordAtomically_def split: option.splits)
next
  case (Inr s)
  from Inr show ?thesis
  proof (rule change_txD)
    fix m cs
    assume m: "sql_get (\<lambda>m. pr_seq m = acc) (pr_members st) = Some m"
      and chk: "check_current (\<lambda>c. map_option ver_Valid (VerifyCredential env (pc_Algorithm c) cur (pc_PasswordHash c)))
          (legacy_hash m) (MysqlNativePassword env cur) (loadPasswordIdentityState acc st) = None"
      and ups: "upsertPasswordCredentials env (activeIdentities (loadPasswordIdentityState acc st)) r (credentials st) = Inr cs"
      and leg: "updateLegacyPassword acc (MysqlNativePassword env newPwd) (st\<lparr>credentials := cs\<rparr>) = Some s"
    have "knows_password env acc cur st"
      using check_current_None(2) [OF chk] sql_get_Some [OF m]
      by (auto simp: knows_password_def Let_def legacy_hash_def split: option.splits)
    moreover have "families s = families st" "refresh_tokens s = refresh_tokens st"
      using updateLegacyPasswordD [OF leg] by simp_all
    moreover have "e \<noteq> None \<and> st' = st \<or> e = None \<and> st' = s"
      using assms Inr by (auto simp: ChangePassword_def ChangePasswordAtomically_def split: option.splits)
    ultimately show ?thesis
      using replaced_by_upsert [OF check_current_None(1) [OF chk] ups leg] untouched_by_upsert [OF ups leg] by blast
  qed
qed

text \<open>The transaction looks a token up by its hash or by itself, for links sent before tokens were
  hashed. So the stored hash is as good as the token: whoever reads the column can present its value and
  gets exactly what the holder of the mailed token gets.\<close>

theorem stored_hash_opens_account:
  assumes "mode env = Atomic" "tok_eq env = (=)"
    and "row \<in> set (resets st)" "apr_Token row = sha256_hex env token" "token \<noteq> []" "apr_Token row \<noteq> []"
    and "token \<notin> apr_Token ` set (resets st)" "sha256_hex env (apr_Token row) \<notin> apr_Token ` set (resets st)"
  shows "ConfirmReset env (apr_Token row) pwd st = ConfirmReset env token pwd st"
proof -
  let ?h = "apr_Token row"
  have valid: "valid_token env [sha256_hex env ?h, ?h] r = valid_token env [sha256_hex env token, token] r"
    if r: "r \<in> set (resets st)" for r
  proof -
    have "apr_Token r \<noteq> token" "apr_Token r \<noteq> sha256_hex env ?h" using r assms(7,8) by (metis image_eqI)+
    then show ?thesis using assms(2,4) by (simp add: valid_token_def)
  qed
  have get: "sql_get (valid_token env [sha256_hex env ?h, ?h]) (resets st) =
        sql_get (valid_token env [sha256_hex env token, token]) (resets st)"
    unfolding sql_get_def using valid by (intro find_cong) auto
  have cnt: "sql_affected (\<lambda>r. apr_USRSeq r = a \<and> valid_token env [sha256_hex env ?h, ?h] r) (resets st) =
        sql_affected (\<lambda>r. apr_USRSeq r = a \<and> valid_token env [sha256_hex env token, token] r) (resets st)" for a
    unfolding sql_affected_def by (rule arg_cong [where f = length], rule filter_cong) (simp_all add: valid)
  have "reset_tx env (sha256_hex env ?h) ?h lh r st = reset_tx env (sha256_hex env token) token lh r st" for lh r
    unfolding reset_tx_def get cnt ..
  then show ?thesis
    using assms by (simp add: ConfirmReset_def ConfirmResetAtomically_def cong: option.case_cong)
qed

text \<open>A member who resets to the password the account already has is refused: the legacy column is
  written with the value it has, the database reports no affected row, and the transaction takes this
  for a missing member. The link is valid, everything else would succeed, and nothing changes.\<close>

theorem same_password_is_refused:
  assumes "mode env = Atomic" "\<And>q. pr_fault env q = None"
    and "token \<noteq> []" "ValidateNewPassword pwd = None" "NewCredential env 0 ''LOCAL_USERNAME'' pwd = Some r"
    and "sql_get (valid_token env [sha256_hex env token, token]) (resets st) = Some row"
    and "\<exists>m \<in> set (pr_members st). pr_seq m = apr_USRSeq row"
    and same: "\<forall>m \<in> set (pr_members st). pr_seq m = apr_USRSeq row \<longrightarrow> pr_pwd m = Some (MysqlNativePassword env pwd)"
  shows "ConfirmReset env token pwd st = (Some ChangeFailed, st)"
proof -
  let ?acc = "apr_USRSeq row" and ?tok = "[sha256_hex env token, token]"
  have "updateLegacyPassword ?acc (MysqlNativePassword env pwd) (st\<lparr>credentials := cs\<rparr>) = None" for cs
  proof -
    have "sql_affected (\<lambda>m. pr_seq m = ?acc \<and> pr_pwd m \<noteq> Some (MysqlNativePassword env pwd)) (pr_members st) = 0"
      using same by (simp add: sql_affected_zero)
    then show ?thesis by (simp add: updateLegacyPassword_def)
  qed
  moreover have "sql_affected (\<lambda>r. apr_USRSeq r = ?acc \<and> valid_token env ?tok r) (resets st) \<noteq> 0"
    using sql_get_Some [OF assms(6)] by (auto simp: sql_affected_zero)
  ultimately have "\<exists>x. reset_tx env (sha256_hex env token) token (MysqlNativePassword env pwd) r st = Inl x \<and> x \<noteq> RepoTokenInvalid"
    using assms(2,6,7) upsert_ok
    by (auto simp: reset_tx_def Let_def split: sum.splits)
  then show ?thesis
    using assms by (auto simp: ConfirmReset_def ConfirmResetAtomically_def split: repo_error.splits)
qed

section \<open>A worked account\<close>

definition ex_env :: pr_env where
  "ex_env = \<lparr>pr_go_now = 1000, pr_sql_now = 1000, pr_fault = (\<lambda>_. None), tok_eq = (=),
     sha256_hex = (\<lambda>t. CHR ''#'' # t), MysqlNativePassword = (\<lambda>p. CHR ''*'' # p),
     NewCredential = (\<lambda>i p w. Some \<lparr>pc_IdentityID = i, pc_Provider = p, pc_Algorithm = ''ARGON2ID'',
        pc_ParametersText = None, pc_PasswordHash = CHR ''$'' # w, pc_Status = ''ACTIVE''\<rparr>),
     VerifyCredential = (\<lambda>a w h. Some \<lparr>ver_Valid = h = CHR ''$'' # w, ver_NeedsRehash = False\<rparr>),
     random_token = Some ''t'', to_lower = (\<lambda>x. x), render_reset = (\<lambda>n u. Some u), siteBaseURL = ''u'',
     queue_capacity = 5, mode = Atomic\<rparr>"

definition ex_state :: "string \<Rightarrow> pr_state" where
  "ex_state pwd =
     \<lparr>resets = [\<lparr>APRSeq = 1, apr_USRSeq = 7, apr_Token = ''#tok'', apr_used = False, apr_expires = 1900, apr_reg = 900\<rparr>],
      reset_next = 2,
      pr_members = [\<lparr>pr_seq = 7, pr_name = ''Kim'', pr_email = ''k'', pr_status = ''CCC'', pr_pwd = Some (CHR ''*'' # pwd)\<rparr>],
      identities = [\<lparr>IdentityID = 70, id_account = 7, id_provider = ''EMAIL'', id_subject = ''k'', id_status = ''ACTIVE'', id_verified = True\<rparr>],
      account_states = [(7, ''ACTIVE'')],
      credentials = [\<lparr>pc_IdentityID = 70, pc_Provider = ''EMAIL'', pc_Algorithm = ''ARGON2ID'', pc_ParametersText = None,
         pc_PasswordHash = CHR ''$'' # pwd, pc_Status = ''ACTIVE''\<rparr>],
      refresh_tokens = [\<lparr>rt_usr = 7, rt_revoked = None, rt_mrt_revoked = None\<rparr>],
      families = [\<lparr>sf_account = 7, sf_status = ''ACTIVE'', sf_revoked = None, sf_reason = None, sf_updated = 1\<rparr>],
      mail_queue = []\<rparr>"

lemma reset_is_all_or_nothing_witness:
  "\<exists>st'. ConfirmReset ex_env ''tok'' ''newpw123!'' (ex_state ''oldpw'') = (None, st')
     \<and> (\<exists>row \<in> set (resets (ex_state ''oldpw'')). apr_USRSeq row = 7
       \<and> password_replaced 7 ''$newpw123!'' ''*newpw123!'' (ex_state ''oldpw'') st' \<and> account_closed 7 st')"
proof -
  obtain e st' where c: "ConfirmReset ex_env ''tok'' ''newpw123!'' (ex_state ''oldpw'') = (e, st')" by fastforce
  have "fst (ConfirmReset ex_env ''tok'' ''newpw123!'' (ex_state ''oldpw'')) = None" by code_simp
  then have e: "e = None" using c by simp
  have h: "mode ex_env = Atomic" by (simp add: ex_env_def)
  have n: "NewCredential ex_env 0 ''LOCAL_USERNAME'' ''newpw123!'' = Some \<lparr>pc_IdentityID = 0, pc_Provider = ''LOCAL_USERNAME'',
      pc_Algorithm = ''ARGON2ID'', pc_ParametersText = None, pc_PasswordHash = ''$newpw123!'', pc_Status = ''ACTIVE''\<rparr>"
    by (simp add: ex_env_def)
  from reset_is_all_or_nothing [OF h n c] e c show ?thesis
    by (auto simp: ex_state_def ex_env_def)
qed

lemma change_needs_current_password_witness:
  "\<exists>st'. ChangePassword ex_env 7 ''oldpw'' ''newpw123!'' (ex_state ''oldpw'') = (None, st')
     \<and> knows_password ex_env 7 ''oldpw'' (ex_state ''oldpw'') \<and> families st' = families (ex_state ''oldpw'')"
proof -
  obtain e st' where c: "ChangePassword ex_env 7 ''oldpw'' ''newpw123!'' (ex_state ''oldpw'') = (e, st')" by fastforce
  have "fst (ChangePassword ex_env 7 ''oldpw'' ''newpw123!'' (ex_state ''oldpw'')) = None" by code_simp
  then have e: "e = None" using c by simp
  have h: "mode ex_env = Atomic" by (simp add: ex_env_def)
  have n: "NewCredential ex_env 0 ''LOCAL_USERNAME'' ''newpw123!'' = Some \<lparr>pc_IdentityID = 0, pc_Provider = ''LOCAL_USERNAME'',
      pc_Algorithm = ''ARGON2ID'', pc_ParametersText = None, pc_PasswordHash = ''$newpw123!'', pc_Status = ''ACTIVE''\<rparr>"
    by (simp add: ex_env_def)
  from change_needs_current_password [OF h n c] e c show ?thesis by blast
qed

lemma stored_hash_opens_account_witness:
  "ConfirmReset ex_env ''#tok'' ''newpw123!'' (ex_state ''oldpw'') = ConfirmReset ex_env ''tok'' ''newpw123!'' (ex_state ''oldpw'')
   \<and> fst (ConfirmReset ex_env ''tok'' ''newpw123!'' (ex_state ''oldpw'')) = None"
proof -
  let ?row = "\<lparr>APRSeq = 1, apr_USRSeq = 7, apr_Token = ''#tok'', apr_used = False, apr_expires = 1900, apr_reg = 900\<rparr>"
  have "ConfirmReset ex_env (apr_Token ?row) ''newpw123!'' (ex_state ''oldpw'') = ConfirmReset ex_env ''tok'' ''newpw123!'' (ex_state ''oldpw'')"
    by (rule stored_hash_opens_account) (simp_all add: ex_env_def ex_state_def)
  moreover have "fst (ConfirmReset ex_env ''tok'' ''newpw123!'' (ex_state ''oldpw'')) = None" by code_simp
  ultimately show ?thesis by simp
qed

lemma same_password_is_refused_witness:
  "ConfirmReset ex_env ''tok'' ''oldpw123!'' (ex_state ''oldpw123!'') = (Some ChangeFailed, ex_state ''oldpw123!'')"
proof (rule same_password_is_refused [where
      r = "\<lparr>pc_IdentityID = 0, pc_Provider = ''LOCAL_USERNAME'', pc_Algorithm = ''ARGON2ID'', pc_ParametersText = None,
        pc_PasswordHash = ''$oldpw123!'', pc_Status = ''ACTIVE''\<rparr>" and
      row = "\<lparr>APRSeq = 1, apr_USRSeq = 7, apr_Token = ''#tok'', apr_used = False, apr_expires = 1900, apr_reg = 900\<rparr>"])
  show "ValidateNewPassword ''oldpw123!'' = None" by code_simp
qed (simp_all add: ex_env_def ex_state_def sql_get_def valid_token_def)

end
