(* ===== verification/Social_Link.thy ===== *)
theory Social_Link
  imports Go_Strings "HOL-Library.Word" "HOL-Library.Multiset"
begin

text \<open>
  The store of social-login link tokens (\<^verbatim>\<open>service/social_link_token_store.go\<close>): a token is put for five
  minutes, a request leases it with \<^verbatim>\<open>Begin\<close>, and consumes or releases it; photos uploaded under a token
  are discarded unless they become the member's photo. The cache below it (\<^verbatim>\<open>go-cache\<close>) is code of another
  project, so its three operations are an argument of every definition, and their documented behaviour is
  the locale \<^verbatim>\<open>ttl_cache\<close>. Every operation holds the store's mutex, so a history is a sequence of
  operations; each reads the clock once.
\<close>

section \<open>Data\<close>

datatype socialLinkTokenStatus =
    socialLinkTokenReady | socialLinkTokenProcessing | socialLinkTokenConsumed | socialLinkTokenCancelled

record SocialLinkData =
  Provider :: string
  SocialID :: string
  sl_Email :: string
  Nickname :: string
  ProfileImageURL :: string
  AccessToken :: string
  RevocationToken :: string

definition empty_link_data :: SocialLinkData where
  "empty_link_data = \<lparr>Provider = [], SocialID = [], sl_Email = [], Nickname = [], ProfileImageURL = [],
     AccessToken = [], RevocationToken = []\<rparr>"

record UploadResult =
  ur_URL :: string
  ur_Width :: int
  ur_Height :: int
  FSeq :: int

text \<open>\<open>Uploads\<close> is a pointer: an address of the heap \<open>upload_heap\<close>, or \<open>None\<close> for \<^verbatim>\<open>nil\<close>.\<close>

record socialLinkTokenEntry =
  entry_Data :: SocialLinkData
  Status :: socialLinkTokenStatus
  LeaseID :: string
  ExpiresAt :: int
  Uploads :: "nat option"

record socialLinkUploads =
  Results :: "UploadResult list"
  Timer :: bool

record SocialLinkTokenLease =
  lease_Token :: string
  lease_ID :: string
  lease_Data :: SocialLinkData
  lease_ExpiresAt :: int

datatype link_error =
    ErrSocialLinkTokenInvalid | ErrSocialLinkTokenInProgress | ErrSocialLinkTokenConsumed
  | ErrSocialLinkTokenCancelled | ErrSocialLinkLeaseInvalid | NilDereference

text \<open>The cache is shared: a key may hold a value of another type.\<close>

datatype cache_value = LinkEntry socialLinkTokenEntry | OtherValue

record 'c cache_ops =
  cache_Get :: "'c \<Rightarrow> int \<Rightarrow> string \<Rightarrow> cache_value option"
  cache_Set :: "'c \<Rightarrow> int \<Rightarrow> string \<Rightarrow> cache_value \<Rightarrow> int \<Rightarrow> 'c"
  cache_Delete :: "'c \<Rightarrow> string \<Rightarrow> 'c"

definition NoExpiration :: int where "NoExpiration = - 1"

record 'c SocialLinkTokenStore =
  cache :: 'c
  leaseSequence :: "64 word"
  has_discarder :: bool
  upload_heap :: "socialLinkUploads list"
  discarding :: "UploadResult list"

section \<open>Helpers\<close>

definition lookup :: "'c cache_ops \<Rightarrow> int \<Rightarrow> string \<Rightarrow> 'c SocialLinkTokenStore \<Rightarrow> cache_value option" where
  "lookup C now token s = cache_Get C (cache s) now token"

definition store_set :: "'c cache_ops \<Rightarrow> int \<Rightarrow> string \<Rightarrow> socialLinkTokenEntry \<Rightarrow> int \<Rightarrow> 'c SocialLinkTokenStore \<Rightarrow> 'c SocialLinkTokenStore" where
  "store_set C now token e d s = s\<lparr>cache := cache_Set C (cache s) now token (LinkEntry e) d\<rparr>"

definition store_delete :: "'c cache_ops \<Rightarrow> string \<Rightarrow> 'c SocialLinkTokenStore \<Rightarrow> 'c SocialLinkTokenStore" where
  "store_delete C token s = s\<lparr>cache := cache_Delete C (cache s) token\<rparr>"

definition available :: "socialLinkTokenEntry \<Rightarrow> link_error option" where
  "available e = (case Status e of
     socialLinkTokenProcessing \<Rightarrow> Some ErrSocialLinkTokenInProgress
   | socialLinkTokenConsumed \<Rightarrow> Some ErrSocialLinkTokenConsumed
   | socialLinkTokenCancelled \<Rightarrow> Some ErrSocialLinkTokenCancelled
   | socialLinkTokenReady \<Rightarrow> None)"

definition entry :: "'c cache_ops \<Rightarrow> int \<Rightarrow> string \<Rightarrow> 'c SocialLinkTokenStore \<Rightarrow> (link_error, socialLinkTokenEntry) result" where
  "entry C now token s =
     (case lookup C now token s of
        Some (LinkEntry e) \<Rightarrow> if ExpiresAt e > now then Inr e else Inl ErrSocialLinkTokenInvalid
      | _ \<Rightarrow> Inl ErrSocialLinkTokenInvalid)"

text \<open>The prologue of \<^verbatim>\<open>Snapshot\<close>, \<^verbatim>\<open>Update\<close>, \<^verbatim>\<open>AttachUpload\<close> and \<^verbatim>\<open>Begin\<close>: the entry, if it is ready.\<close>

definition ready_entry :: "'c cache_ops \<Rightarrow> int \<Rightarrow> string \<Rightarrow> 'c SocialLinkTokenStore \<Rightarrow> (link_error, socialLinkTokenEntry) result" where
  "ready_entry C now token s =
     (case entry C now token s of
        Inl err \<Rightarrow> Inl err
      | Inr e \<Rightarrow> (case available e of Some err \<Rightarrow> Inl err | None \<Rightarrow> Inr e))"

definition leasedEntry :: "'c cache_ops \<Rightarrow> int \<Rightarrow> SocialLinkTokenLease \<Rightarrow> 'c SocialLinkTokenStore \<Rightarrow> (link_error, socialLinkTokenEntry) result" where
  "leasedEntry C now l s =
     (case lookup C now (lease_Token l) s of
        None \<Rightarrow> Inl ErrSocialLinkTokenInvalid
      | Some (LinkEntry e) \<Rightarrow>
          if Status e \<noteq> socialLinkTokenProcessing \<or> LeaseID e \<noteq> lease_ID l then Inl ErrSocialLinkLeaseInvalid else Inr e
      | Some OtherValue \<Rightarrow> Inl ErrSocialLinkLeaseInvalid)"

definition save :: "'c cache_ops \<Rightarrow> int \<Rightarrow> string \<Rightarrow> socialLinkTokenEntry \<Rightarrow> 'c SocialLinkTokenStore \<Rightarrow> 'c SocialLinkTokenStore" where
  "save C now token e s =
     (if ExpiresAt e - now \<le> 0 then store_delete C token s else store_set C now token e (ExpiresAt e - now) s)"

text \<open>\<open>discarding\<close> lists the results a discard goroutine has been started for.\<close>

definition cleanup :: "nat option \<Rightarrow> string \<Rightarrow> 'c SocialLinkTokenStore \<Rightarrow> 'c SocialLinkTokenStore" where
  "cleanup uploads retainedURL s =
     (case uploads of
        None \<Rightarrow> s
      | Some p \<Rightarrow>
          (let results = Results (upload_heap s ! p);
               s1 = s\<lparr>upload_heap := (upload_heap s)[p := \<lparr>Results = [], Timer = False\<rparr>]\<rparr>
           in if has_discarder s
              then s1\<lparr>discarding := discarding s @ filter (\<lambda>r. ur_URL r \<noteq> retainedURL) results\<rparr>
              else s1))"

section \<open>Operations\<close>

definition SetUploadDiscarder :: "bool \<Rightarrow> 'c SocialLinkTokenStore \<Rightarrow> 'c SocialLinkTokenStore" where
  "SetUploadDiscarder b s = s\<lparr>has_discarder := b\<rparr>"

definition Put :: "'c cache_ops \<Rightarrow> int \<Rightarrow> string \<Rightarrow> SocialLinkData \<Rightarrow> int \<Rightarrow> 'c SocialLinkTokenStore
    \<Rightarrow> (link_error, int) result \<times> 'c SocialLinkTokenStore" where
  "Put C now token d ttl s =
     (if token = [] \<or> ttl \<le> 0 then (Inl ErrSocialLinkTokenInvalid, s)
      else (Inr (now + ttl),
            store_set C now token \<lparr>entry_Data = d, Status = socialLinkTokenReady, LeaseID = [], ExpiresAt = now + ttl,
                Uploads = Some (length (upload_heap s))\<rparr> ttl
              (s\<lparr>upload_heap := upload_heap s @ [\<lparr>Results = [], Timer = True\<rparr>]\<rparr>)))"

definition Snapshot :: "'c cache_ops \<Rightarrow> int \<Rightarrow> string \<Rightarrow> 'c SocialLinkTokenStore \<Rightarrow> (link_error, SocialLinkData \<times> int) result" where
  "Snapshot C now token s =
     (case ready_entry C now token s of Inl err \<Rightarrow> Inl err | Inr e \<Rightarrow> Inr (entry_Data e, ExpiresAt e))"

definition Update :: "'c cache_ops \<Rightarrow> int \<Rightarrow> string \<Rightarrow> (SocialLinkData \<Rightarrow> SocialLinkData) \<Rightarrow> 'c SocialLinkTokenStore
    \<Rightarrow> (link_error, SocialLinkData \<times> int) result \<times> 'c SocialLinkTokenStore" where
  "Update C now token f s =
     (case ready_entry C now token s of
        Inl err \<Rightarrow> (Inl err, s)
      | Inr e \<Rightarrow>
          (let e' = e\<lparr>entry_Data := f (entry_Data e)\<rparr>
           in (Inr (entry_Data e', ExpiresAt e'), save C now token e' s)))"

definition AttachUpload :: "'c cache_ops \<Rightarrow> int \<Rightarrow> string \<Rightarrow> UploadResult option \<Rightarrow> 'c SocialLinkTokenStore
    \<Rightarrow> link_error option \<times> 'c SocialLinkTokenStore" where
  "AttachUpload C now token ro s =
     (case ro of
        None \<Rightarrow> (Some ErrSocialLinkTokenInvalid, s)
      | Some r \<Rightarrow>
          if FSeq r \<le> 0 \<or> ur_URL r = [] then (Some ErrSocialLinkTokenInvalid, s)
          else case ready_entry C now token s of
            Inl err \<Rightarrow> (Some err, s)
          | Inr e \<Rightarrow>
              (case Uploads e of
                 None \<Rightarrow> (Some NilDereference, s)
               | Some p \<Rightarrow>
                   (None, save C now token (e\<lparr>entry_Data := (entry_Data e)\<lparr>ProfileImageURL := ur_URL r\<rparr>\<rparr>)
                      (s\<lparr>upload_heap := (upload_heap s)[p := (upload_heap s ! p)\<lparr>Results := Results (upload_heap s ! p) @ [r]\<rparr>]\<rparr>))))"

definition lease_name :: "64 word \<Rightarrow> string" where
  "lease_name n = ''lease-'' @ go_Itoa (uint n)"

definition Begin :: "'c cache_ops \<Rightarrow> int \<Rightarrow> string \<Rightarrow> 'c SocialLinkTokenStore
    \<Rightarrow> (link_error, SocialLinkTokenLease) result \<times> 'c SocialLinkTokenStore" where
  "Begin C now token s =
     (case ready_entry C now token s of
        Inl err \<Rightarrow> (Inl err, s)
      | Inr e \<Rightarrow>
          (let n = leaseSequence s + 1;
               e' = e\<lparr>entry_Data := empty_link_data, Status := socialLinkTokenProcessing, LeaseID := lease_name n\<rparr>
           in (Inr \<lparr>lease_Token = token, lease_ID = lease_name n, lease_Data = entry_Data e, lease_ExpiresAt = ExpiresAt e\<rparr>,
               store_set C now token e' NoExpiration (s\<lparr>leaseSequence := n\<rparr>))))"

definition Release :: "'c cache_ops \<Rightarrow> int \<Rightarrow> SocialLinkTokenLease \<Rightarrow> 'c SocialLinkTokenStore
    \<Rightarrow> link_error option \<times> 'c SocialLinkTokenStore" where
  "Release C now l s =
     (case leasedEntry C now l s of
        Inl err \<Rightarrow> (Some err, s)
      | Inr e \<Rightarrow>
          if \<not> ExpiresAt e > now
          then (Some ErrSocialLinkTokenInvalid, cleanup (Uploads e) [] (store_delete C (lease_Token l) s))
          else (None, save C now (lease_Token l)
                  (e\<lparr>entry_Data := lease_Data l, Status := socialLinkTokenReady, LeaseID := []\<rparr>) s))"

definition ConsumeWithPhoto :: "'c cache_ops \<Rightarrow> int \<Rightarrow> SocialLinkTokenLease \<Rightarrow> string \<Rightarrow> 'c SocialLinkTokenStore
    \<Rightarrow> link_error option \<times> 'c SocialLinkTokenStore" where
  "ConsumeWithPhoto C now l committedPhoto s =
     (case leasedEntry C now l s of
        Inl err \<Rightarrow> (Some err, s)
      | Inr e \<Rightarrow>
          (let s1 = cleanup (Uploads e) committedPhoto s;
               e' = e\<lparr>entry_Data := empty_link_data, Status := socialLinkTokenConsumed, LeaseID := [], Uploads := None\<rparr>
           in (None, if \<not> ExpiresAt e > now then store_delete C (lease_Token l) s1 else save C now (lease_Token l) e' s1)))"

definition Consume :: "'c cache_ops \<Rightarrow> int \<Rightarrow> SocialLinkTokenLease \<Rightarrow> 'c SocialLinkTokenStore
    \<Rightarrow> link_error option \<times> 'c SocialLinkTokenStore" where
  "Consume C now l s = ConsumeWithPhoto C now l (ProfileImageURL (lease_Data l)) s"

definition Cancel :: "'c cache_ops \<Rightarrow> int \<Rightarrow> string \<Rightarrow> 'c SocialLinkTokenStore
    \<Rightarrow> link_error option \<times> 'c SocialLinkTokenStore" where
  "Cancel C now token s =
     (case lookup C now token s of
        Some (LinkEntry e) \<Rightarrow>
          if Status e \<noteq> socialLinkTokenProcessing \<and> \<not> ExpiresAt e > now then (None, s)
          else (case Status e of
             socialLinkTokenProcessing \<Rightarrow> (Some ErrSocialLinkTokenInProgress, s)
           | socialLinkTokenConsumed \<Rightarrow> (Some ErrSocialLinkTokenConsumed, s)
           | socialLinkTokenCancelled \<Rightarrow> (None, s)
           | socialLinkTokenReady \<Rightarrow>
               (None, save C now token
                  (e\<lparr>entry_Data := empty_link_data, Status := socialLinkTokenCancelled, LeaseID := [], Uploads := None\<rparr>)
                  (cleanup (Uploads e) [] s)))
      | _ \<Rightarrow> (None, s))"

definition expire :: "'c cache_ops \<Rightarrow> int \<Rightarrow> string \<Rightarrow> nat \<Rightarrow> 'c SocialLinkTokenStore \<Rightarrow> 'c SocialLinkTokenStore" where
  "expire C now token p s =
     (case lookup C now token s of
        Some (LinkEntry e) \<Rightarrow>
          if Uploads e \<noteq> Some p then s
          else if Status e = socialLinkTokenProcessing then s
          else cleanup (Some p) [] (store_delete C token s)
      | _ \<Rightarrow> cleanup (Some p) [] s)"

section \<open>Histories\<close>

text \<open>An operation as its callers make it; \<open>OpExpire\<close> is the timer that \<^verbatim>\<open>Put\<close> starts. \<^verbatim>\<open>Stop\<close> does not
  recall a timer that has fired and waits for the mutex, so a timer may also run after \<^verbatim>\<open>cleanup\<close>; there is none
  for an object that was never allocated.\<close>

datatype link_op =
    OpPut string SocialLinkData int
  | OpUpdate string "SocialLinkData \<Rightarrow> SocialLinkData"
  | OpAttach string "UploadResult option"
  | OpBegin string
  | OpRelease SocialLinkTokenLease
  | OpConsume SocialLinkTokenLease string
  | OpCancel string
  | OpExpire string nat

fun link_step :: "'c cache_ops \<Rightarrow> int \<Rightarrow> link_op \<Rightarrow> 'c SocialLinkTokenStore \<Rightarrow> 'c SocialLinkTokenStore" where
  "link_step C now (OpPut t d ttl) s = snd (Put C now t d ttl s)"
| "link_step C now (OpUpdate t f) s = snd (Update C now t f s)"
| "link_step C now (OpAttach t r) s = snd (AttachUpload C now t r s)"
| "link_step C now (OpBegin t) s = snd (Begin C now t s)"
| "link_step C now (OpRelease l) s = snd (Release C now l s)"
| "link_step C now (OpConsume l url) s = snd (ConsumeWithPhoto C now l url s)"
| "link_step C now (OpCancel t) s = snd (Cancel C now t s)"
| "link_step C now (OpExpire t p) s = (if p < length (upload_heap s) then expire C now t p s else s)"

end
