(* ===== verification/Social_Link_Props.thy ===== *)
theory Social_Link_Props
  imports Social_Link
begin

text \<open>
  The link-token store over any cache that meets the contract \<^verbatim>\<open>ttl_cache\<close>: a lease excludes every other
  request and its holder can always finish, a consumed or cancelled token never comes back, and no
  uploaded photo is forgotten.
\<close>

section \<open>The cache's contract\<close>

locale ttl_cache =
  fixes C :: "'c cache_ops"
  assumes get_set: "t \<le> t' \<Longrightarrow> d = NoExpiration \<or> 0 < d \<Longrightarrow>
      cache_Get C (cache_Set C c t k v d) t' k = (if d = NoExpiration \<or> t' \<le> t + d then Some v else None)"
    and get_set_other: "k \<noteq> k' \<Longrightarrow> cache_Get C (cache_Set C c t k v d) t' k' = cache_Get C c t' k'"
    and get_delete: "cache_Get C (cache_Delete C c k) t' k' = (if k = k' then None else cache_Get C c t' k')"

text \<open>An operation addresses one token.\<close>

fun op_token :: "link_op \<Rightarrow> string" where
  "op_token (OpPut t d ttl) = t"
| "op_token (OpUpdate t f) = t"
| "op_token (OpAttach t r) = t"
| "op_token (OpBegin t) = t"
| "op_token (OpRelease l) = lease_Token l"
| "op_token (OpConsume l url) = lease_Token l"
| "op_token (OpCancel t) = t"
| "op_token (OpExpire t p) = t"

fun is_put :: "link_op \<Rightarrow> bool" where
  "is_put (OpPut t d ttl) = True"
| "is_put _ = False"

fun finishes :: "SocialLinkTokenLease \<Rightarrow> link_op \<Rightarrow> bool" where
  "finishes l (OpRelease l') = (lease_ID l' = lease_ID l)"
| "finishes l (OpConsume l' url) = (lease_ID l' = lease_ID l)"
| "finishes l _ = False"

text \<open>A history: time passes, then an operation runs.\<close>

definition timed_step :: "'c cache_ops \<Rightarrow> int \<times> 'c SocialLinkTokenStore \<Rightarrow> int \<times> link_op \<Rightarrow> int \<times> 'c SocialLinkTokenStore" where
  "timed_step C ts x = (fst ts + fst x, link_step C (fst ts + fst x) (snd x) (snd ts))"

lemma cache_cleanup [simp]: "cache (cleanup p u s) = cache s"
  by (simp add: cleanup_def Let_def split: option.split)

lemma lookup_heap_simps [simp]:
  "lookup C t k (cleanup p u s) = lookup C t k s"
  "lookup C t k (s\<lparr>upload_heap := h\<rparr>) = lookup C t k s"
  "lookup C t k (s\<lparr>leaseSequence := n\<rparr>) = lookup C t k s"
  by (simp_all add: lookup_def)

lemmas op_defs = Put_def Update_def AttachUpload_def Begin_def Release_def ConsumeWithPhoto_def Cancel_def expire_def Let_def

context ttl_cache
begin

lemma lookup_set: "t \<le> t' \<Longrightarrow> d = NoExpiration \<or> 0 < d \<Longrightarrow>
    lookup C t' k (store_set C t k e d s) = (if d = NoExpiration \<or> t' \<le> t + d then Some (LinkEntry e) else None)"
  by (simp add: lookup_def store_set_def get_set)

lemma lookup_set_other: "k \<noteq> k' \<Longrightarrow> lookup C t' k' (store_set C t k e d s) = lookup C t' k' s"
  by (simp add: lookup_def store_set_def get_set_other)

lemma lookup_delete: "lookup C t' k' (store_delete C k s) = (if k = k' then None else lookup C t' k' s)"
  by (simp add: lookup_def store_delete_def get_delete)

lemma lookup_save_other: "k \<noteq> k' \<Longrightarrow> lookup C t' k' (save C t k e s) = lookup C t' k' s"
  by (simp add: save_def lookup_set_other lookup_delete)

lemma lookup_save:
  "t \<le> t' \<Longrightarrow> lookup C t' k (save C t k e s) = (if t < ExpiresAt e \<and> t' \<le> ExpiresAt e then Some (LinkEntry e) else None)"
  by (simp add: save_def lookup_set lookup_delete NoExpiration_def)

lemmas lookup_rules = lookup_set_other lookup_delete lookup_save_other

lemma step_other: "op_token x \<noteq> k \<Longrightarrow> lookup C t' k (link_step C t x s) = lookup C t' k s"
  by (cases x) (auto simp: op_defs lookup_rules split: option.splits sum.splits cache_value.splits socialLinkTokenStatus.splits)

text \<open>A processing entry is changed by its lease, or by a new \<^verbatim>\<open>Put\<close>, only.\<close>

definition leased :: "string \<Rightarrow> SocialLinkTokenLease \<Rightarrow> int \<times> 'c SocialLinkTokenStore \<Rightarrow> bool" where
  "leased k l ts \<longleftrightarrow> (\<exists>e. Status e = socialLinkTokenProcessing \<and> LeaseID e = lease_ID l
     \<and> (\<forall>t' \<ge> fst ts. lookup C t' k (snd ts) = Some (LinkEntry e)))"

lemma processing_step:
  assumes "lookup C t k s = Some (LinkEntry e)" "Status e = socialLinkTokenProcessing" "LeaseID e = lease_ID l"
    and "op_token x = k" "\<not> is_put x" "\<not> finishes l x"
  shows "link_step C t x s = s"
  using assms
  by (cases x) (auto simp: op_defs ready_entry_def entry_def leasedEntry_def available_def split: option.splits)

lemma leased_step:
  assumes "leased k l ts" "0 \<le> fst x" "op_token (snd x) = k \<Longrightarrow> \<not> is_put (snd x) \<and> \<not> finishes l (snd x)"
  shows "leased k l (timed_step C ts x)"
proof (cases "op_token (snd x) = k")
  case True
  from assms(1) obtain e where e: "Status e = socialLinkTokenProcessing" "LeaseID e = lease_ID l"
    "\<And>t'. fst ts \<le> t' \<Longrightarrow> lookup C t' k (snd ts) = Some (LinkEntry e)" by (auto simp: leased_def)
  have "link_step C (fst ts + fst x) (snd x) (snd ts) = snd ts"
    using e assms True by (intro processing_step [of _ k _ e l]) auto
  then show ?thesis using e assms(2) by (auto simp: leased_def timed_step_def)
next
  case False
  then show ?thesis using assms by (fastforce simp: leased_def timed_step_def step_other)
qed

lemma leasedI:
  "Status e = socialLinkTokenProcessing \<Longrightarrow> LeaseID e = lease_ID l \<Longrightarrow>
   (\<And>t'. fst ts \<le> t' \<Longrightarrow> lookup C t' k (snd ts) = Some (LinkEntry e)) \<Longrightarrow> leased k l ts"
  unfolding leased_def by blast

lemma begin_leases:
  assumes "Begin C t k s = (Inr l, s')"
  shows "leased k l (t, s') \<and> lease_Token l = k"
proof -
  from assms obtain e where l: "lease_Token l = k" "lease_ID l = lease_name (leaseSequence s + 1)" and
    s': "s' = store_set C t k (e\<lparr>entry_Data := empty_link_data, Status := socialLinkTokenProcessing,
       LeaseID := lease_name (leaseSequence s + 1)\<rparr>) NoExpiration (s\<lparr>leaseSequence := leaseSequence s + 1\<rparr>)"
    by (auto simp: Begin_def Let_def split: sum.splits)
  show ?thesis
    unfolding s' using l by (intro conjI leasedI) (simp_all add: lookup_set)
qed

text \<open>A closed entry is gone, or consumed or cancelled.\<close>

definition closed :: "string \<Rightarrow> int \<times> 'c SocialLinkTokenStore \<Rightarrow> bool" where
  "closed k ts \<longleftrightarrow> (\<forall>t' \<ge> fst ts. \<forall>e. lookup C t' k (snd ts) = Some (LinkEntry e) \<longrightarrow>
     Status e \<in> {socialLinkTokenConsumed, socialLinkTokenCancelled})"

lemma closedI:
  "(\<And>t' e. fst ts \<le> t' \<Longrightarrow> lookup C t' k (snd ts) = Some (LinkEntry e) \<Longrightarrow>
     Status e \<in> {socialLinkTokenConsumed, socialLinkTokenCancelled}) \<Longrightarrow> closed k ts"
  unfolding closed_def by blast

lemma closedD:
  "closed k ts \<Longrightarrow> fst ts \<le> t' \<Longrightarrow> lookup C t' k (snd ts) = Some (LinkEntry e) \<Longrightarrow>
     Status e \<in> {socialLinkTokenConsumed, socialLinkTokenCancelled}"
  unfolding closed_def by blast

lemma closed_ready: "closed k (t, s) \<Longrightarrow> \<exists>err. ready_entry C t k s = Inl err"
  using closedD [of k "(t, s)" t]
  by (fastforce simp: ready_entry_def entry_def available_def split: option.splits cache_value.splits)

lemma closed_leased: "closed (lease_Token l) (t, s) \<Longrightarrow> \<exists>err. leasedEntry C t l s = Inl err"
  using closedD [of "lease_Token l" "(t, s)" t]
  by (fastforce simp: leasedEntry_def split: option.splits cache_value.splits)

lemma closed_later: "closed k (t, s) \<Longrightarrow> t \<le> t' \<Longrightarrow> closed k (t', s)"
  by (rule closedI) (rule closedD [of k "(t, s)"], simp_all)

lemma closed_refuses_lease:
  assumes "closed (lease_Token l) (t, s)"
  shows "snd (Release C t l s) = s" "snd (ConsumeWithPhoto C t l url s) = s"
  using closed_leased [OF assms] by (auto simp: Release_def ConsumeWithPhoto_def)

lemma cancel_closed:
  assumes "closed k (t, s)"
  shows "snd (Cancel C t k s) = s"
  using closedD [OF assms, of t]
  by (auto simp: Cancel_def split: option.split cache_value.split socialLinkTokenStatus.split)

lemma closed_step_lookup:
  assumes c: "closed k (t, s)" and x: "op_token x = k" "\<not> is_put x"
  shows "lookup C t' k (link_step C t x s) \<in> {lookup C t' k s, None}"
proof -
  from closed_ready [OF c] obtain err where r: "ready_entry C t k s = Inl err" ..
  show ?thesis
    using x r cancel_closed [OF c] closed_refuses_lease [of _ t s] c
    by (cases x) (auto simp: Update_def AttachUpload_def Begin_def expire_def lookup_delete
        split: option.split cache_value.split)
qed

lemma closed_step:
  assumes c: "closed k ts" and d: "0 \<le> fst x" and p: "op_token (snd x) = k \<Longrightarrow> \<not> is_put (snd x)"
  shows "closed k (timed_step C ts x)"
proof (rule closedI)
  fix t' e
  assume t': "fst (timed_step C ts x) \<le> t'" and e: "lookup C t' k (snd (timed_step C ts x)) = Some (LinkEntry e)"
  have c': "closed k (fst ts + fst x, snd ts)" using closed_later [of k "fst ts" "snd ts"] c d by simp
  have "lookup C t' k (snd ts) = Some (LinkEntry e)"
    using e closed_step_lookup [OF c', of "snd x" t'] p step_other [of "snd x" k t' "fst ts + fst x" "snd ts"]
    by (cases "op_token (snd x) = k") (auto simp: timed_step_def)
  from closedD [OF c _ this] t' d show "Status e \<in> {socialLinkTokenConsumed, socialLinkTokenCancelled}"
    by (simp add: timed_step_def)
qed

lemma consume_closes:
  "ConsumeWithPhoto C t l url s = (None, s') \<Longrightarrow> closed (lease_Token l) (t, s')"
  by (auto simp: ConsumeWithPhoto_def Let_def closed_def lookup_save lookup_delete split: sum.splits if_splits)

end

text \<open>Operations that leave a lease alone, and operations that do not put a token anew.\<close>

definition not_finishing :: "string \<Rightarrow> SocialLinkTokenLease \<Rightarrow> int \<times> link_op \<Rightarrow> bool" where
  "not_finishing k l x \<longleftrightarrow> 0 \<le> fst x \<and> (op_token (snd x) = k \<longrightarrow> \<not> is_put (snd x) \<and> \<not> finishes l (snd x))"

definition not_putting :: "string \<Rightarrow> int \<times> link_op \<Rightarrow> bool" where
  "not_putting k x \<longleftrightarrow> 0 \<le> fst x \<and> (op_token (snd x) = k \<longrightarrow> \<not> is_put (snd x))"

sublocale ttl_cache < lease_kept: invariant "timed_step C" "leased k l" "not_finishing k l" "leased k l" for k l
  by unfold_locales (auto simp: not_finishing_def intro: leased_step)

sublocale ttl_cache < stays_closed: invariant "timed_step C" "closed k" "not_putting k" "closed k" for k
  by unfold_locales (auto simp: not_putting_def intro: closed_step)

context ttl_cache
begin

lemma lease_run: "leased k l ts \<Longrightarrow> list_all (not_finishing k l) xs \<Longrightarrow> leased k l (run (timed_step C) ts xs)"
  by (rule lease_kept.run_inv)

lemma closed_run: "closed k ts \<Longrightarrow> list_all (not_putting k) xs \<Longrightarrow> closed k (run (timed_step C) ts xs)"
  by (rule stays_closed.run_inv)

lemma leased_excludes:
  assumes "leased k l (t, s)"
  shows "Begin C t k s \<in> {(Inl ErrSocialLinkTokenInProgress, s), (Inl ErrSocialLinkTokenInvalid, s)}"
    and "fst (Cancel C t k s) = Some ErrSocialLinkTokenInProgress"
    and "lease_Token l = k \<Longrightarrow> fst (ConsumeWithPhoto C t l url s) = None"
  using assms
  by (auto simp: leased_def Begin_def Cancel_def ConsumeWithPhoto_def leasedEntry_def ready_entry_def entry_def available_def Let_def split: if_split_asm)

end

section \<open>A cache that meets the contract\<close>

text \<open>The documented behaviour of \<^verbatim>\<open>go-cache\<close>: an item has an expiration instant or none, and is found up
  to that instant.\<close>

definition item_cache :: "(string \<Rightarrow> (cache_value \<times> int option) option) cache_ops" where
  "item_cache = \<lparr>
     cache_Get = (\<lambda>c now k. case c k of
        None \<Rightarrow> None
      | Some (v, None) \<Rightarrow> Some v
      | Some (v, Some x) \<Rightarrow> if now \<le> x then Some v else None),
     cache_Set = (\<lambda>c now k v d. c(k \<mapsto> (v, if d > 0 then Some (now + d) else None))),
     cache_Delete = (\<lambda>c k. c(k := None))\<rparr>"

interpretation items: ttl_cache item_cache
  by unfold_locales (auto simp: item_cache_def NoExpiration_def)

section \<open>Photos\<close>

definition tracked :: "'c SocialLinkTokenStore \<Rightarrow> UploadResult set" where
  "tracked s = (\<Union>u \<in> set (upload_heap s). set (Results u))"

text \<open>What is known of a photo that was attached: it is tracked under its token, or being discarded, or
  has the URL of a photo committed by a \<^verbatim>\<open>ConsumeWithPhoto\<close>.\<close>

fun committed :: "link_op \<Rightarrow> string set" where
  "committed (OpConsume l url) = {url}"
| "committed _ = {}"

fun attached :: "'c cache_ops \<Rightarrow> int \<Rightarrow> link_op \<Rightarrow> 'c SocialLinkTokenStore \<Rightarrow> UploadResult set" where
  "attached C now (OpAttach t (Some r)) s = (if fst (AttachUpload C now t (Some r) s) = None then {r} else {})"
| "attached C now _ s = {}"

fun attached_run :: "'c cache_ops \<Rightarrow> int \<times> 'c SocialLinkTokenStore \<Rightarrow> (int \<times> link_op) list \<Rightarrow> UploadResult set" where
  "attached_run C ts [] = {}"
| "attached_run C ts (x # xs) = attached C (fst ts + fst x) (snd x) (snd ts) \<union> attached_run C (timed_step C ts x) xs"

definition known_photos :: "'c SocialLinkTokenStore \<Rightarrow> UploadResult set" where
  "known_photos s = tracked s \<union> set (discarding s)"

text \<open>Pointers stay inside the heap, and a tracked photo has a URL.\<close>

definition ptr_ok :: "'c cache_ops \<Rightarrow> int \<Rightarrow> nat \<Rightarrow> 'c SocialLinkTokenStore \<Rightarrow> bool" where
  "ptr_ok C t n s \<longleftrightarrow> (\<forall>t' \<ge> t. \<forall>k e p. lookup C t' k s = Some (LinkEntry e) \<longrightarrow> Uploads e = Some p \<longrightarrow> p < n)"

definition heap_ok :: "'c cache_ops \<Rightarrow> int \<times> 'c SocialLinkTokenStore \<Rightarrow> bool" where
  "heap_ok C ts \<longleftrightarrow> has_discarder (snd ts) \<and> ptr_ok C (fst ts) (length (upload_heap (snd ts))) (snd ts)
     \<and> (\<forall>r \<in> tracked (snd ts). ur_URL r \<noteq> [])"

lemma ptr_okD: "ptr_ok C t n s \<Longrightarrow> t \<le> t' \<Longrightarrow> lookup C t' k s = Some (LinkEntry e) \<Longrightarrow> Uploads e = Some p \<Longrightarrow> p < n"
  unfolding ptr_ok_def by blast

lemma ptr_ok_simps [simp]:
  "ptr_ok C t n (cleanup p u s) = ptr_ok C t n s"
  "ptr_ok C t n (s\<lparr>upload_heap := h\<rparr>) = ptr_ok C t n s"
  "ptr_ok C t n (s\<lparr>leaseSequence := m\<rparr>) = ptr_ok C t n s"
  by (simp_all add: ptr_ok_def)

lemma ptr_ok_grow: "ptr_ok C t n s \<Longrightarrow> n \<le> m \<Longrightarrow> t \<le> t' \<Longrightarrow> ptr_ok C t' m s"
  unfolding ptr_ok_def by (meson order.trans less_le_trans)

context ttl_cache
begin

lemma ptr_ok_set:
  assumes "ptr_ok C t n s" "d = NoExpiration \<or> 0 < d" "\<And>p. Uploads e = Some p \<Longrightarrow> p < n"
  shows "ptr_ok C t n (store_set C t k e d s)"
  unfolding ptr_ok_def
proof (intro allI impI)
  fix t' k' e' p
  assume "t \<le> t'" "lookup C t' k' (store_set C t k e d s) = Some (LinkEntry e')" "Uploads e' = Some p"
  then show "p < n"
    using assms ptr_okD [OF assms(1), of t' k' e' p] lookup_set [of t t' d k e s] lookup_set_other [of k k' t' t e d s]
    by (cases "k = k'") (auto split: if_split_asm)
qed

lemma ptr_ok_delete: "ptr_ok C t n s \<Longrightarrow> ptr_ok C t n (store_delete C k s)"
  by (auto simp: ptr_ok_def lookup_delete)

lemma ptr_ok_save:
  "ptr_ok C t n s \<Longrightarrow> (\<And>p. Uploads e = Some p \<Longrightarrow> p < n) \<Longrightarrow> ptr_ok C t n (save C t k e s)"
  by (simp add: save_def ptr_ok_delete ptr_ok_set)

lemmas ptr_ok_rules = ptr_ok_set ptr_ok_delete ptr_ok_save

end

lemma upload_fields [simp]:
  "upload_heap (store_set C t k e d s) = upload_heap s" "upload_heap (store_delete C k s) = upload_heap s"
  "upload_heap (save C t k e s) = upload_heap s"
  "discarding (store_set C t k e d s) = discarding s" "discarding (store_delete C k s) = discarding s"
  "discarding (save C t k e s) = discarding s"
  "has_discarder (store_set C t k e d s) = has_discarder s" "has_discarder (store_delete C k s) = has_discarder s"
  "has_discarder (save C t k e s) = has_discarder s"
  "has_discarder (cleanup p u s) = has_discarder s"
  "length (upload_heap (cleanup p u s)) = length (upload_heap s)"
  by (simp_all add: store_set_def store_delete_def save_def cleanup_def Let_def split: option.split)

lemma tracked_simps [simp]:
  "tracked (store_set C t k e d s) = tracked s" "tracked (store_delete C k s) = tracked s"
  "tracked (save C t k e s) = tracked s" "tracked (s\<lparr>leaseSequence := n\<rparr>) = tracked s"
  by (simp_all add: tracked_def)

lemma known_simps [simp]:
  "known_photos (store_set C t k e d s) = known_photos s" "known_photos (store_delete C k s) = known_photos s"
  "known_photos (save C t k e s) = known_photos s" "known_photos (s\<lparr>leaseSequence := n\<rparr>) = known_photos s"
  by (simp_all add: known_photos_def)

lemma tracked_update_super:
  "p < length h \<Longrightarrow> (\<Union>u \<in> set h. set (Results u)) \<subseteq> set (Results (h ! p)) \<union> (\<Union>u \<in> set (h[p := v]). set (Results u))"
proof (induction h arbitrary: p)
  case (Cons a h)
  then show ?case by (cases p) auto
qed simp

lemma tracked_update_sub:
  "(\<Union>u \<in> set (h[p := v]). set (Results u)) \<subseteq> set (Results v) \<union> (\<Union>u \<in> set h. set (Results u))"
  using set_update_subset_insert [of h p v] by auto

lemma tracked_cleanup: "tracked (cleanup p u s) \<subseteq> tracked s"
proof (cases p)
  case (Some q)
  have "(\<Union>u \<in> set ((upload_heap s)[q := \<lparr>Results = [], Timer = False\<rparr>]). set (Results u)) \<subseteq> tracked s"
    using tracked_update_sub [of "upload_heap s" q "\<lparr>Results = [], Timer = False\<rparr>"] by (simp add: tracked_def)
  with Some show ?thesis by (simp add: tracked_def cleanup_def Let_def)
qed (simp add: cleanup_def)

lemma known_cleanup:
  assumes "has_discarder s" "\<And>q. p = Some q \<Longrightarrow> q < length (upload_heap s)"
  shows "known_photos s \<subseteq> known_photos (cleanup p u s) \<union> {r. ur_URL r = u \<and> r \<in> tracked s}"
proof (cases p)
  case (Some q)
  have q: "q < length (upload_heap s)" using assms(2) Some by simp
  have "set (Results (upload_heap s ! q)) \<subseteq> tracked s" unfolding tracked_def using nth_mem [OF q] by blast
  moreover have "tracked s \<subseteq> set (Results (upload_heap s ! q)) \<union> tracked (cleanup p u s)"
    using tracked_update_super [OF q, of "\<lparr>Results = [], Timer = False\<rparr>"] assms(1) Some
    by (simp add: tracked_def cleanup_def Let_def)
  ultimately show ?thesis using assms(1) Some by (auto simp: known_photos_def cleanup_def Let_def)
qed (simp add: cleanup_def)

lemma tracked_attach:
  fixes r
  assumes "p < length (upload_heap s)"
  defines "s' \<equiv> s\<lparr>upload_heap := (upload_heap s)[p := (upload_heap s ! p)\<lparr>Results := Results (upload_heap s ! p) @ [r]\<rparr>]\<rparr>"
  shows "tracked s' = insert r (tracked s)"
proof
  let ?v = "(upload_heap s ! p)\<lparr>Results := Results (upload_heap s ! p) @ [r]\<rparr>"
  have p: "set (Results (upload_heap s ! p)) \<subseteq> tracked s" unfolding tracked_def using nth_mem [OF assms(1)] by blast
  have v: "insert r (set (Results (upload_heap s ! p))) \<subseteq> tracked s'"
    unfolding tracked_def s'_def using set_update_memI [OF assms(1), of ?v] by (fastforce intro: bexI [of _ ?v])
  show "tracked s' \<subseteq> insert r (tracked s)"
    using tracked_update_sub [of "upload_heap s" p ?v] p unfolding s'_def by (auto simp: tracked_def)
  have "tracked s \<subseteq> set (Results (upload_heap s ! p)) \<union> tracked s'"
    using tracked_update_super [OF assms(1), of ?v] unfolding s'_def by (simp add: tracked_def)
  with v show "insert r (tracked s) \<subseteq> tracked s'" by blast
qed

text \<open>One operation keeps every photo it knew and the one it attaches, unless the URL is committed.\<close>

definition keeps_photos :: "'c cache_ops \<Rightarrow> int \<Rightarrow> link_op \<Rightarrow> 'c SocialLinkTokenStore \<Rightarrow> 'c SocialLinkTokenStore \<Rightarrow> bool" where
  "keeps_photos C t x s s' \<longleftrightarrow> heap_ok C (t, s')
     \<and> attached C t x s \<union> known_photos s \<subseteq> known_photos s' \<union> {r. ur_URL r \<in> committed x}"

lemma heap_okD:
  assumes "heap_ok C (t, s)"
  shows "has_discarder s" "ptr_ok C t (length (upload_heap s)) s" "\<And>r. r \<in> tracked s \<Longrightarrow> ur_URL r \<noteq> []"
  using assms by (simp_all add: heap_ok_def)

lemma known_cleanup_all:
  assumes "heap_ok C (t, s)" "\<And>q. p = Some q \<Longrightarrow> q < length (upload_heap s)"
  shows "known_photos s \<subseteq> known_photos (cleanup p [] s)"
  using known_cleanup [of s p "[]"] assms heap_okD [OF assms(1)] by blast

lemma heap_ok_cleanup:
  assumes "heap_ok C (t, s)"
  shows "heap_ok C (t, cleanup p u s)"
  using assms tracked_cleanup [of p u s] by (auto simp: heap_ok_def)

lemma keeps_refl: "heap_ok C (t, s) \<Longrightarrow> attached C t x s = {} \<Longrightarrow> keeps_photos C t x s s"
  by (auto simp: keeps_photos_def)

context ttl_cache
begin

lemma ready_ptr:
  assumes "heap_ok C (t, s)" "ready_entry C t k s = Inr e" "Uploads e = Some p"
  shows "p < length (upload_heap s)"
  using assms ptr_okD [OF heap_okD(2) [OF assms(1)], of t k e p]
  by (auto simp: ready_entry_def entry_def split: option.splits cache_value.splits if_splits)

lemma leased_ptr:
  assumes "heap_ok C (t, s)" "leasedEntry C t l s = Inr e" "Uploads e = Some p"
  shows "p < length (upload_heap s)"
  using assms ptr_okD [OF heap_okD(2) [OF assms(1)], of t "lease_Token l" e p]
  by (auto simp: leasedEntry_def split: option.splits cache_value.splits if_splits)

lemma heap_ok_cache:
  assumes "heap_ok C (t, s)"
  shows "heap_ok C (t, store_delete C k s)"
    and "\<forall>p. Uploads e = Some p \<longrightarrow> p < length (upload_heap s) \<Longrightarrow> heap_ok C (t, save C t k e s)"
    and "d = NoExpiration \<or> 0 < d \<Longrightarrow> \<forall>p. Uploads e = Some p \<longrightarrow> p < length (upload_heap s) \<Longrightarrow> heap_ok C (t, store_set C t k e d s)"
  using assms by (simp_all add: heap_ok_def ptr_ok_rules)

lemma heap_ok_attach:
  assumes "heap_ok C (t, s)" "p < length (upload_heap s)" "ur_URL r \<noteq> []"
  shows "heap_ok C (t, s\<lparr>upload_heap := (upload_heap s)[p := (upload_heap s ! p)\<lparr>Results := Results (upload_heap s ! p) @ [r]\<rparr>]\<rparr>)"
  using assms tracked_attach [OF assms(2), of r] by (auto simp: heap_ok_def)

lemma keeps_attach:
  assumes "heap_ok C (t, s)"
  shows "keeps_photos C t (OpAttach k ro) s (snd (AttachUpload C t k ro s))"
proof (cases "fst (AttachUpload C t k ro s) = None")
  case True
  then obtain r e p where r: "ro = Some r" "ur_URL r \<noteq> []" and e: "ready_entry C t k s = Inr e" "Uploads e = Some p"
    by (auto simp: AttachUpload_def split: option.splits if_splits sum.splits)
  let ?s = "s\<lparr>upload_heap := (upload_heap s)[p := (upload_heap s ! p)\<lparr>Results := Results (upload_heap s ! p) @ [r]\<rparr>]\<rparr>"
  have p: "p < length (upload_heap s)" by (rule ready_ptr [OF assms e])
  have res: "snd (AttachUpload C t k ro s) = save C t k (e\<lparr>entry_Data := (entry_Data e)\<lparr>ProfileImageURL := ur_URL r\<rparr>\<rparr>) ?s"
    using True r e by (auto simp: AttachUpload_def split: if_splits)
  have "heap_ok C (t, snd (AttachUpload C t k ro s))"
    unfolding res by (rule heap_ok_cache(2) [OF heap_ok_attach [OF assms p r(2)]]) (use p e in simp)
  moreover have "known_photos (snd (AttachUpload C t k ro s)) = insert r (known_photos s)"
    unfolding res known_simps by (simp add: known_photos_def tracked_attach [OF p])
  ultimately show ?thesis using r True by (auto simp: keeps_photos_def)
next
  case False
  then have "snd (AttachUpload C t k ro s) = s" "attached C t (OpAttach k ro) s = {}"
    by (auto simp: AttachUpload_def split: option.splits sum.splits)
  then show ?thesis using keeps_refl assms by simp
qed

lemma keeps_consume:
  assumes "heap_ok C (t, s)"
  shows "keeps_photos C t (OpConsume l url) s (snd (ConsumeWithPhoto C t l url s))"
proof (cases "leasedEntry C t l s")
  case (Inr e)
  have p: "\<And>p. Uploads e = Some p \<Longrightarrow> p < length (upload_heap s)" by (rule leased_ptr [OF assms Inr])
  have "known_photos s \<subseteq> known_photos (cleanup (Uploads e) url s) \<union> {r. ur_URL r = url}"
    using known_cleanup [OF heap_okD(1) [OF assms] p, of "Uploads e" url] by blast
  moreover have "heap_ok C (t, snd (ConsumeWithPhoto C t l url s))"
    using Inr by (simp add: ConsumeWithPhoto_def Let_def heap_ok_cache(1,2) [OF heap_ok_cleanup [OF assms]])
  ultimately show ?thesis using Inr by (simp add: keeps_photos_def ConsumeWithPhoto_def Let_def)
qed (simp add: ConsumeWithPhoto_def keeps_refl assms)

lemma keeps_release:
  assumes "heap_ok C (t, s)"
  shows "keeps_photos C t (OpRelease l) s (snd (Release C t l s))"
proof (cases "leasedEntry C t l s")
  case (Inr e)
  have p: "\<And>p. Uploads e = Some p \<Longrightarrow> p < length (upload_heap s)" by (rule leased_ptr [OF assms Inr])
  have h: "heap_ok C (t, store_delete C (lease_Token l) s)" by (rule heap_ok_cache(1) [OF assms])
  have "known_photos s \<subseteq> known_photos (cleanup (Uploads e) [] (store_delete C (lease_Token l) s))"
    using known_cleanup_all [OF h, of "Uploads e"] p by simp
  moreover have "heap_ok C (t, snd (Release C t l s))"
    using Inr p by (simp add: Release_def heap_ok_cleanup [OF h] heap_ok_cache(2) [OF assms])
  ultimately show ?thesis using Inr by (simp add: keeps_photos_def Release_def)
qed (simp add: Release_def keeps_refl assms)

lemma keeps_cancel:
  assumes "heap_ok C (t, s)"
  shows "keeps_photos C t (OpCancel k) s (snd (Cancel C t k s))"
proof (cases "snd (Cancel C t k s) = s")
  case False
  then obtain e where e: "lookup C t k s = Some (LinkEntry e)" "Status e = socialLinkTokenReady" "ExpiresAt e > t"
    by (auto simp: Cancel_def split: option.splits cache_value.splits if_splits socialLinkTokenStatus.splits)
  then have p: "\<And>p. Uploads e = Some p \<Longrightarrow> p < length (upload_heap s)"
    using ptr_okD [OF heap_okD(2) [OF assms] order_refl] by blast
  show ?thesis
    using e known_cleanup_all [OF assms p, of "Uploads e"]
    by (simp add: Cancel_def keeps_photos_def heap_ok_cache(2) [OF heap_ok_cleanup [OF assms]])
qed (simp add: keeps_refl assms)

lemma keeps_expire:
  assumes "heap_ok C (t, s)" "p < length (upload_heap s)"
  shows "keeps_photos C t (OpExpire k p) s (expire C t k p s)"
  using assms known_cleanup_all [OF assms(1), of "Some p"] known_cleanup_all [OF heap_ok_cache(1) [OF assms(1)], of "Some p" k]
    heap_ok_cleanup [OF assms(1)] heap_ok_cleanup [OF heap_ok_cache(1) [OF assms(1)]]
  by (simp add: expire_def keeps_photos_def split: option.split cache_value.split)

lemma keeps_put:
  assumes "heap_ok C (t, s)"
  shows "keeps_photos C t (OpPut k d ttl) s (snd (Put C t k d ttl s))"
proof -
  let ?s = "s\<lparr>upload_heap := upload_heap s @ [\<lparr>Results = [], Timer = True\<rparr>]\<rparr>"
  have t: "tracked ?s = tracked s" by (simp add: tracked_def)
  have "heap_ok C (t, ?s)"
    using assms ptr_ok_grow [of C t "length (upload_heap s)" s "Suc (length (upload_heap s))" t] by (simp add: heap_ok_def t)
  then show ?thesis
    using assms t by (simp add: Put_def keeps_photos_def known_photos_def heap_ok_cache(3))
qed

lemma keeps_begin_update:
  assumes "heap_ok C (t, s)"
  shows "keeps_photos C t (OpBegin k) s (snd (Begin C t k s))"
    and "keeps_photos C t (OpUpdate k f) s (snd (Update C t k f s))"
proof -
  have "heap_ok C (t, s\<lparr>leaseSequence := n\<rparr>)" for n using assms by (simp add: heap_ok_def)
  note h = heap_ok_cache(3) [OF this] heap_ok_cache(2) [OF assms]
  show "keeps_photos C t (OpBegin k) s (snd (Begin C t k s))"
    using assms by (simp add: Begin_def Let_def keeps_photos_def h(1) ready_ptr [OF assms] split: sum.split)
  show "keeps_photos C t (OpUpdate k f) s (snd (Update C t k f s))"
    using assms by (simp add: Update_def Let_def keeps_photos_def h(2) ready_ptr [OF assms] split: sum.split)
qed

lemma keeps_step: "heap_ok C (t, s) \<Longrightarrow> keeps_photos C t x s (link_step C t x s)"
  by (cases x) (simp_all add: keeps_put keeps_begin_update keeps_attach keeps_release keeps_consume keeps_cancel
      keeps_expire keeps_refl del: attached.simps, simp_all add: keeps_refl)

end

section \<open>Properties\<close>

text \<open>C8. A lease excludes every other request: whatever happens after a successful \<^verbatim>\<open>Begin\<close> other than a
  new \<^verbatim>\<open>Put\<close> of the token and a \<^verbatim>\<open>Release\<close> or \<^verbatim>\<open>Consume\<close> under its lease id, and however much time passes,
  another \<^verbatim>\<open>Begin\<close> fails and changes nothing, a \<^verbatim>\<open>Cancel\<close> is refused as in progress, and the holder of
  the lease can still consume it.\<close>

theorem lease_is_exclusive:
  assumes "ttl_cache C" "Begin C t k s = (Inr l, s1)" "list_all (not_finishing k l) xs"
    and "run (timed_step C) (t, s1) xs = (t', s')"
  shows "Begin C t' k s' \<in> {(Inl ErrSocialLinkTokenInProgress, s'), (Inl ErrSocialLinkTokenInvalid, s')}
    \<and> fst (Cancel C t' k s') = Some ErrSocialLinkTokenInProgress
    \<and> fst (ConsumeWithPhoto C t' l url s') = None"
proof -
  have "ttl_cache.leased C k l (t', s')"
    using ttl_cache.lease_run [OF assms(1) conjunct1 [OF ttl_cache.begin_leases [OF assms(1,2)]] assms(3)] assms(4)
    by simp
  then show ?thesis
    using ttl_cache.leased_excludes [OF assms(1), of k l t' s'] ttl_cache.begin_leases [OF assms(1,2)] by blast
qed

text \<open>C9. A consumed token stays consumed: after a successful \<^verbatim>\<open>ConsumeWithPhoto\<close>, and as long as the token is
  not put anew, no later \<^verbatim>\<open>Begin\<close>, \<^verbatim>\<open>Snapshot\<close>, \<^verbatim>\<open>Release\<close> or second consumption of it succeeds.\<close>

theorem consumed_for_good:
  assumes "ttl_cache C" "ConsumeWithPhoto C t l url s = (None, s1)" "list_all (not_putting (lease_Token l)) xs"
    and "run (timed_step C) (t, s1) xs = (t', s')" "lease_Token l' = lease_Token l"
  shows "(\<exists>err. Begin C t' (lease_Token l) s' = (Inl err, s')) \<and> (\<exists>err. Snapshot C t' (lease_Token l) s' = Inl err)
    \<and> (\<exists>err. Release C t' l' s' = (Some err, s')) \<and> (\<exists>err. ConsumeWithPhoto C t' l' url' s' = (Some err, s'))"
proof -
  have c: "ttl_cache.closed C (lease_Token l) (t', s')"
    using ttl_cache.closed_run [OF assms(1) ttl_cache.consume_closes [OF assms(1,2)] assms(3)] assms(4) by simp
  from ttl_cache.closed_ready [OF assms(1) c] ttl_cache.closed_leased [OF assms(1), of l' t' s'] c assms(5)
  show ?thesis by (auto simp: Begin_def Snapshot_def Release_def ConsumeWithPhoto_def)
qed


section \<open>A worked history\<close>

definition empty_store :: "(string \<Rightarrow> (cache_value \<times> int option) option) SocialLinkTokenStore" where
  "empty_store = \<lparr>cache = (\<lambda>_. None), leaseSequence = 0, has_discarder = True, upload_heap = [], discarding = []\<rparr>"

definition link_started :: "(string \<Rightarrow> (cache_value \<times> int option) option) SocialLinkTokenStore" where
  "link_started = snd (Put item_cache 0 ''tok'' empty_link_data 300 empty_store)"

definition first_lease :: SocialLinkTokenLease where
  "first_lease = \<lparr>lease_Token = ''tok'', lease_ID = ''lease-1'', lease_Data = empty_link_data, lease_ExpiresAt = 300\<rparr>"

lemma first_begin: "\<exists>s1. Begin item_cache 10 ''tok'' link_started = (Inr first_lease, s1)"
proof -
  have "lease_name 1 = ''lease-1''" by code_simp
  then show ?thesis
    by (simp add: Begin_def Let_def link_started_def Put_def empty_store_def ready_entry_def entry_def lookup_def
        store_set_def item_cache_def available_def first_lease_def)
qed

lemma lease_is_exclusive_witness:
  "\<exists>s1. Begin item_cache 10 ''tok'' link_started = (Inr first_lease, s1) \<and>
     fst (Cancel item_cache 500 ''tok'' (snd (run (timed_step item_cache) (10, s1) [(490, OpExpire ''tok'' 0)])))
       = Some ErrSocialLinkTokenInProgress"
proof -
  obtain s1 where b: "Begin item_cache 10 ''tok'' link_started = (Inr first_lease, s1)" using first_begin ..
  define ts where "ts = run (timed_step item_cache) (10, s1) [(490, OpExpire ''tok'' 0)]"
  have "fst ts = 500" by (simp add: ts_def timed_step_def)
  then have r: "run (timed_step item_cache) (10, s1) [(490, OpExpire ''tok'' 0)] = (500, snd ts)"
    by (metis prod.collapse ts_def)
  from lease_is_exclusive [OF items.ttl_cache_axioms b _ r] show ?thesis
    using b r by (auto simp: not_finishing_def)
qed

lemma consumed_for_good_witness:
  "\<exists>s1 s2. Begin item_cache 10 ''tok'' link_started = (Inr first_lease, s1)
     \<and> ConsumeWithPhoto item_cache 20 first_lease [] s1 = (None, s2)
     \<and> (\<exists>err. Begin item_cache 30 ''tok'' (snd (run (timed_step item_cache) (20, s2) [(10, OpCancel ''tok'')]))
          = (Inl err, snd (run (timed_step item_cache) (20, s2) [(10, OpCancel ''tok'')])))"
proof -
  obtain s1 where b: "Begin item_cache 10 ''tok'' link_started = (Inr first_lease, s1)" using first_begin ..
  have tok: "lease_Token first_lease = ''tok''" by (simp add: first_lease_def)
  have "items.leased ''tok'' first_lease (10, s1)" using items.begin_leases [OF b] by simp
  then have "items.leased ''tok'' first_lease (20, s1)" by (auto simp: items.leased_def)
  from items.leased_excludes(3) [OF this tok, of "[]"]
  obtain s2 where c: "ConsumeWithPhoto item_cache 20 first_lease [] s1 = (None, s2)" by (metis prod.collapse)
  define ts where "ts = run (timed_step item_cache) (20, s2) [(10, OpCancel ''tok'')]"
  have "fst ts = 30" by (simp add: ts_def timed_step_def)
  then have r: "run (timed_step item_cache) (20, s2) [(10, OpCancel ''tok'')] = (30, snd ts)"
    by (metis prod.collapse ts_def)
  from consumed_for_good [OF items.ttl_cache_axioms c _ r refl] show ?thesis
    using b c r tok by (auto simp: not_putting_def)
qed


end
