(* ===== verification/Auth_Session.thy ===== *)
theory Auth_Session
  imports Go_Strings
begin

text \<open>
  Sessions: JSON web tokens (\<^verbatim>\<open>service/auth_jwt.go\<close>), mobile sessions with rotating refresh tokens
  (\<^verbatim>\<open>service/mobile_session_issuer.go\<close>), web login and logout (\<^verbatim>\<open>service/auth_session.go\<close>), who may log in
  (\<^verbatim>\<open>service/login_eligibility.go\<close>), the statements below them (\<^verbatim>\<open>repository/auth_repo.go\<close>,
  \<^verbatim>\<open>repository/auth_principal.go\<close>) and the middleware that resolves a request to a member
  (\<^verbatim>\<open>middleware/auth.go\<close>). Signing and parsing of tokens is the library \<^verbatim>\<open>golang-jwt\<close>, a parameter with its
  contract in the locale \<^verbatim>\<open>jwt_library\<close>. Times are Unix seconds.
\<close>

section \<open>Tables\<close>

record mrt_row =
  mrt_jti :: string
  mrt_usr :: int
  mrt_sid :: string
  mrt_expires :: int
  mrt_created :: int
  mrt_consumed :: "int option"
  mrt_revoked :: "int option"
  mrt_rotated_to :: "string option"

record login_log =
  lg_usr :: int
  lg_date :: int
  lg_ip :: string
  lg_session :: string
  lg_agent :: string

record AlumniVerification =
  av_Status :: string
  GraduationYear :: "int option"
  Cohort :: "string option"
  Department :: "string option"
  RejectionReason :: "string option"
  SubmittedAt :: "int option"
  ReviewedAt :: "int option"

record au_member =
  am_USRSeq :: int
  am_USRID :: string
  am_USRName :: string
  am_USRStatus :: string
  am_Email :: "string option"
  am_TotalLogCnt :: int
  am_LastLogDate :: "int option"

record apple_challenge =
  ch_id :: string
  ch_nonce :: string
  ch_expires :: int
  ch_consumed :: "int option"

record au_state =
  mrt :: "mrt_row list"
  login_logs :: "login_log list"
  au_members :: "au_member list"
  au_verifications :: "(int \<times> AlumniVerification) list"
  admin_roles :: "(int \<times> string) list"
  push_devices :: "(int \<times> string) list"
  challenges :: "apple_challenge list"
  code_replays :: "string list"

datatype au_stmt =
    AuPrincipal | AuMember | AuLegacy | AuInsertToken | AuRotateBegin | AuRotateSelect | AuRotateRevoke
  | AuRotateUpdate | AuRotateInsert | AuRotateCommit | AuRevoke | AuRevokeAll | AuActive | AuDeleteExpired
  | AuDeletePush | AuDeleteLegacyUser | AuDeleteLegacy | AuLoginLog | AuLastLogin
  | AuChallengeInsert | AuChallengeBegin | AuChallengeSelect | AuChallengeUpdate | AuChallengeCommit | AuCodeInsert

datatype au_error =
    ErrLoginSuspended | ErrLoginWithdrawn | PrincipalNotFound | SessionIDFailed | SigningFailed
  | ErrRefreshTokenInvalid | ErrRefreshTokenReplay | InvalidToken | InvalidSubject
  | InvalidVerificationStatus string | InvalidAdminRole string | ErrChallengeInvalid | ErrAuthorizationReplay
  | Unauthorized | AuDatabase string

section \<open>Tokens\<close>

text \<open>The claims of a token as its JSON object holds them; a claim that is absent is empty or \<open>None\<close>. The
  subject of a foreign token may be a number.\<close>

datatype subject = SubString string | SubNumber int | SubOther

record jwt_claims =
  c_iss :: string
  c_aud :: string
  c_sub :: subject
  c_name :: string
  c_status :: string
  c_exp :: int
  c_iat :: int
  c_nbf :: "int option"
  c_typ :: string
  c_ver :: int
  c_sid :: string
  c_jti :: string

text \<open>\<open>jwt_parse now req t\<close>: \<^verbatim>\<open>ParseWithClaims\<close> with the service's secret, HS256 only; \<open>req\<close> are the audience
  and issuer that must be present, if any.\<close>

record jwt_ops =
  jwt_sign :: "jwt_claims \<Rightarrow> string option"
  jwt_parse :: "int \<Rightarrow> (string \<times> string) option \<Rightarrow> string \<Rightarrow> jwt_claims option"

record au_env =
  au_now :: int
  au_sql_now :: int
  au_fault :: "au_stmt \<Rightarrow> string option"
  jwt :: jwt_ops
  MaxAge :: int
  AccessTokenTTL :: int
  RefreshTokenTTL :: int
  new_sid :: string
  new_access_jti :: string
  new_jti :: string

definition mobileTokenIssuer :: string where "mobileTokenIssuer = ''dflh-saf-v2-backend''"
definition mobileTokenAudience :: string where "mobileTokenAudience = ''dflh-saf-v2-mobile''"
definition mobileTokenTypeAccess :: string where "mobileTokenTypeAccess = ''access''"
definition mobileTokenTypeRefresh :: string where "mobileTokenTypeRefresh = ''refresh''"
definition mobileTokenVersion :: int where "mobileTokenVersion = 1"

record AuthUser =
  USRSeq :: int
  USRID :: string
  USRName :: string
  au_Email :: string
  AdminRole :: "string option"
  Verification :: AlumniVerification
  USRStatus :: string
  SessionID :: string

definition no_verification :: AlumniVerification where
  "no_verification = \<lparr>av_Status = [], GraduationYear = None, Cohort = None, Department = None, RejectionReason = None,
     SubmittedAt = None, ReviewedAt = None\<rparr>"

definition bare_user :: "int \<Rightarrow> string \<Rightarrow> string \<Rightarrow> string \<Rightarrow> AuthUser" where
  "bare_user seq name status sid = \<lparr>USRSeq = seq, USRID = [], USRName = name, au_Email = [], AdminRole = None,
     Verification = no_verification, USRStatus = status, SessionID = sid\<rparr>"

definition GenerateJWT :: "au_env \<Rightarrow> AuthUser \<Rightarrow> string option" where
  "GenerateJWT env u = jwt_sign (jwt env)
     \<lparr>c_iss = [], c_aud = [], c_sub = SubString (go_Itoa (USRSeq u)), c_name = USRName u, c_status = USRStatus u,
      c_exp = au_now env + MaxAge env, c_iat = au_now env, c_nbf = None, c_typ = [], c_ver = 0, c_sid = [], c_jti = []\<rparr>"

definition parseSubject :: "subject \<Rightarrow> int option" where
  "parseSubject s = (case s of
     SubString t \<Rightarrow> (case go_Atoi t of (n, None) \<Rightarrow> Some n | (_, Some _) \<Rightarrow> None)
   | SubNumber n \<Rightarrow> Some n
   | SubOther \<Rightarrow> None)"

definition ValidateJWT :: "au_env \<Rightarrow> string \<Rightarrow> (au_error, AuthUser) result" where
  "ValidateJWT env token =
     (case jwt_parse (jwt env) (au_now env) None token of
        None \<Rightarrow> Inl InvalidToken
      | Some c \<Rightarrow>
          (case parseSubject (c_sub c) of
             None \<Rightarrow> Inl InvalidSubject
           | Some n \<Rightarrow> if n = 0 then Inl InvalidSubject else Inr (bare_user n (c_name c) (c_status c) [])))"

definition mobile_claims :: "au_env \<Rightarrow> AuthUser \<Rightarrow> string \<Rightarrow> string \<Rightarrow> int \<Rightarrow> string \<Rightarrow> jwt_claims" where
  "mobile_claims env u sid typ ttl jti =
     \<lparr>c_iss = mobileTokenIssuer, c_aud = mobileTokenAudience, c_sub = SubString (go_Itoa (USRSeq u)),
      c_name = USRName u, c_status = USRStatus u, c_exp = au_now env + ttl, c_iat = au_now env,
      c_nbf = Some (au_now env), c_typ = typ, c_ver = mobileTokenVersion, c_sid = sid, c_jti = jti\<rparr>"

definition generateMobileAccessToken :: "au_env \<Rightarrow> AuthUser \<Rightarrow> string \<Rightarrow> (au_error, string \<times> int) result" where
  "generateMobileAccessToken env u sid =
     (case jwt_sign (jwt env) (mobile_claims env u sid mobileTokenTypeAccess (AccessTokenTTL env) (new_access_jti env)) of
        None \<Rightarrow> Inl SigningFailed
      | Some t \<Rightarrow> Inr (t, au_now env + AccessTokenTTL env))"

definition generateMobileRefreshToken :: "au_env \<Rightarrow> AuthUser \<Rightarrow> string \<Rightarrow> (au_error, string \<times> string \<times> int) result" where
  "generateMobileRefreshToken env u sid =
     (case jwt_sign (jwt env) (mobile_claims env u sid mobileTokenTypeRefresh (RefreshTokenTTL env) (new_jti env)) of
        None \<Rightarrow> Inl SigningFailed
      | Some t \<Rightarrow> Inr (t, new_jti env, au_now env + RefreshTokenTTL env))"

definition validateMobileToken :: "au_env \<Rightarrow> string \<Rightarrow> string \<Rightarrow> (au_error, jwt_claims) result" where
  "validateMobileToken env token expectedType =
     (case jwt_parse (jwt env) (au_now env) (Some (mobileTokenAudience, mobileTokenIssuer)) token of
        None \<Rightarrow> Inl InvalidToken
      | Some c \<Rightarrow>
          if c_typ c \<noteq> expectedType \<or> c_ver c \<noteq> mobileTokenVersion then Inl InvalidToken else Inr c)"

text \<open>The subject of \<^verbatim>\<open>RegisteredClaims\<close> is a string; a token with another one does not parse into it.\<close>

definition registered_subject :: "jwt_claims \<Rightarrow> int option" where
  "registered_subject c = (case c_sub c of
     SubString t \<Rightarrow> (case go_Atoi t of (n, None) \<Rightarrow> if n \<le> 0 then None else Some n | (_, Some _) \<Rightarrow> None)
   | _ \<Rightarrow> None)"

definition ValidateMobileAccessToken :: "au_env \<Rightarrow> string \<Rightarrow> (au_error, AuthUser) result" where
  "ValidateMobileAccessToken env token =
     (case validateMobileToken env token mobileTokenTypeAccess of
        Inl e \<Rightarrow> Inl e
      | Inr c \<Rightarrow>
          (case registered_subject c of
             None \<Rightarrow> Inl InvalidSubject
           | Some n \<Rightarrow> Inr (bare_user n (c_name c) (c_status c) (c_sid c))))"

definition ValidateMobileRefreshToken :: "au_env \<Rightarrow> string \<Rightarrow> (au_error, AuthUser \<times> string) result" where
  "ValidateMobileRefreshToken env token =
     (case validateMobileToken env token mobileTokenTypeRefresh of
        Inl e \<Rightarrow> Inl e
      | Inr c \<Rightarrow>
          (case registered_subject c of
             None \<Rightarrow> Inl InvalidSubject
           | Some n \<Rightarrow>
               if c_jti c = [] \<or> c_sid c = [] then Inl InvalidToken
               else Inr (bare_user n (c_name c) (c_status c) (c_sid c), c_jti c)))"

section \<open>LoginEligibilityPolicy\<close>

text \<open>The status of the member, or \<open>None\<close> for a member that is not found.\<close>

definition EnsureLoginAllowed :: "string option \<Rightarrow> au_error option" where
  "EnsureLoginAllowed status =
     (case status of
        None \<Rightarrow> Some ErrLoginSuspended
      | Some s \<Rightarrow>
          if s \<in> {''BAA'', ''BBB'', ''CCC'', ''ZZZ''} then None
          else if s = ''AAA'' then Some ErrLoginWithdrawn
          else Some ErrLoginSuspended)"

definition LoginErrorCode :: "au_error \<Rightarrow> string" where
  "LoginErrorCode e =
     (case e of
        ErrLoginWithdrawn \<Rightarrow> ''ACCOUNT_WITHDRAWN''
      | ErrLoginSuspended \<Rightarrow> ''ACCOUNT_SUSPENDED''
      | _ \<Rightarrow> ''LOGIN_NOT_ALLOWED'')"

section \<open>AuthRepository\<close>

definition verification_valid :: "string \<Rightarrow> bool" where
  "verification_valid s = (s \<in> {''unsubmitted'', ''pending'', ''rejected'', ''approved'', ''reapproval_pending''})"

definition admin_role_valid :: "string \<Rightarrow> bool" where
  "admin_role_valid r = (r = ''root'' \<or> r = ''operator'')"

text \<open>The joined row: the member, the verification (status \<^verbatim>\<open>unsubmitted\<close> if there is none) and the role.\<close>

definition mapAuthPrincipal :: "au_member \<Rightarrow> AlumniVerification \<Rightarrow> string option \<Rightarrow> (au_error, AuthUser) result" where
  "mapAuthPrincipal m v role =
     (if \<not> verification_valid (av_Status v) then Inl (InvalidVerificationStatus (av_Status v))
      else case role of
        Some r \<Rightarrow>
          if \<not> admin_role_valid r then Inl (InvalidAdminRole r)
          else Inr \<lparr>USRSeq = am_USRSeq m, USRID = am_USRID m, USRName = am_USRName m,
                    au_Email = (case am_Email m of None \<Rightarrow> [] | Some e \<Rightarrow> e), AdminRole = Some r, Verification = v,
                    USRStatus = am_USRStatus m, SessionID = []\<rparr>
      | None \<Rightarrow> Inr \<lparr>USRSeq = am_USRSeq m, USRID = am_USRID m, USRName = am_USRName m,
                    au_Email = (case am_Email m of None \<Rightarrow> [] | Some e \<Rightarrow> e), AdminRole = None, Verification = v,
                    USRStatus = am_USRStatus m, SessionID = []\<rparr>)"

definition GetAuthPrincipalBySeq :: "au_env \<Rightarrow> int \<Rightarrow> au_state \<Rightarrow> (au_error, AuthUser option) result" where
  "GetAuthPrincipalBySeq env usrSeq st =
     (case au_fault env AuPrincipal of
        Some e \<Rightarrow> Inl (AuDatabase e)
      | None \<Rightarrow>
          (case sql_get (\<lambda>m. am_USRSeq m = usrSeq) (au_members st) of
             None \<Rightarrow> Inr None
           | Some m \<Rightarrow>
               (case mapAuthPrincipal m
                       (case map_of (au_verifications st) usrSeq of
                          None \<Rightarrow> no_verification\<lparr>av_Status := ''unsubmitted''\<rparr> | Some v \<Rightarrow> v)
                       (map_of (admin_roles st) usrSeq) of
                  Inl e \<Rightarrow> Inl e | Inr u \<Rightarrow> Inr (Some u))))"

definition GetMemberBySeq :: "au_env \<Rightarrow> int \<Rightarrow> au_state \<Rightarrow> (au_error, au_member option) result" where
  "GetMemberBySeq env usrSeq st =
     (case au_fault env AuMember of
        Some e \<Rightarrow> Inl (AuDatabase e) | None \<Rightarrow> Inr (sql_get (\<lambda>m. am_USRSeq m = usrSeq) (au_members st)))"

definition LookupLegacySession :: "au_env \<Rightarrow> string \<Rightarrow> au_state \<Rightarrow> (au_error, au_member option) result" where
  "LookupLegacySession env sessionID st =
     (case au_fault env AuLegacy of
        Some e \<Rightarrow> Inl (AuDatabase e)
      | None \<Rightarrow>
          (let hits = filter (\<lambda>l. lg_session l = sessionID \<and> lg_date l > au_sql_now env - 86400
                 \<and> (\<exists>m \<in> set (au_members st). am_USRSeq m = lg_usr l)) (login_logs st)
           in Inr (case sort_key (\<lambda>l. - lg_date l) hits of
                     [] \<Rightarrow> None
                   | l # _ \<Rightarrow> sql_get (\<lambda>m. am_USRSeq m = lg_usr l) (au_members st))))"

text \<open>\<^verbatim>\<open>MRT_JTI\<close> is the primary key.\<close>

definition mrt_insert :: "au_env \<Rightarrow> int \<Rightarrow> string \<Rightarrow> string \<Rightarrow> int \<Rightarrow> au_state \<Rightarrow> (au_error, au_state) result" where
  "mrt_insert env usrSeq sid jti expiresAt st =
     (if \<exists>r \<in> set (mrt st). mrt_jti r = jti then Inl (AuDatabase ''duplicate key'')
      else Inr (st\<lparr>mrt := mrt st @ [\<lparr>mrt_jti = jti, mrt_usr = usrSeq, mrt_sid = sid, mrt_expires = expiresAt,
                     mrt_created = au_sql_now env, mrt_consumed = None, mrt_revoked = None, mrt_rotated_to = None\<rparr>]\<rparr>))"

definition InsertMobileRefreshToken ::
  "au_env \<Rightarrow> int \<Rightarrow> string \<Rightarrow> string \<Rightarrow> int \<Rightarrow> au_state \<Rightarrow> (au_error, au_state) result" where
  "InsertMobileRefreshToken env usrSeq sid jti expiresAt st =
     (case au_fault env AuInsertToken of
        Some e \<Rightarrow> Inl (AuDatabase e) | None \<Rightarrow> mrt_insert env usrSeq sid jti expiresAt st)"

definition in_session :: "int \<Rightarrow> string \<Rightarrow> mrt_row \<Rightarrow> bool" where
  "in_session usrSeq sid r = (mrt_usr r = usrSeq \<and> mrt_sid r = sid)"

definition set_revoked :: "au_env \<Rightarrow> mrt_row \<Rightarrow> mrt_row" where
  "set_revoked env r = r\<lparr>mrt_revoked := (case mrt_revoked r of None \<Rightarrow> Some (au_sql_now env) | Some t \<Rightarrow> Some t)\<rparr>"

definition revoke_session :: "au_env \<Rightarrow> int \<Rightarrow> string \<Rightarrow> au_state \<Rightarrow> au_state" where
  "revoke_session env usrSeq sid st = st\<lparr>mrt := sql_update (in_session usrSeq sid) (set_revoked env) (mrt st)\<rparr>"

definition set_consumed :: "au_env \<Rightarrow> string \<Rightarrow> mrt_row \<Rightarrow> mrt_row" where
  "set_consumed env newJTI r = r\<lparr>mrt_consumed := Some (au_sql_now env), mrt_rotated_to := Some newJTI\<rparr>"

text \<open>The transaction: the row of the old token is locked; a token that was used or revoked, or is over
  its time, revokes the session, and that is committed; otherwise the row is marked and the new token
  is inserted.\<close>

definition RotateMobileRefreshToken ::
  "au_env \<Rightarrow> int \<Rightarrow> string \<Rightarrow> string \<Rightarrow> string \<Rightarrow> int \<Rightarrow> au_state \<Rightarrow> au_error option \<times> au_state" where
  "RotateMobileRefreshToken env usrSeq sid oldJTI newJTI newExpiresAt st =
     (case au_fault env AuRotateBegin of Some e \<Rightarrow> (Some (AuDatabase e), st) | None \<Rightarrow>
     (case au_fault env AuRotateSelect of Some e \<Rightarrow> (Some (AuDatabase e), st) | None \<Rightarrow>
     (case sql_get (\<lambda>r. mrt_jti r = oldJTI \<and> mrt_usr r = usrSeq) (mrt st) of
        None \<Rightarrow> (Some ErrRefreshTokenInvalid, st)
      | Some row \<Rightarrow>
          if mrt_sid row \<noteq> sid then (Some ErrRefreshTokenInvalid, st)
          else if mrt_consumed row \<noteq> None \<or> mrt_revoked row \<noteq> None \<or> \<not> mrt_expires row > au_now env then
            (case au_fault env AuRotateRevoke of Some e \<Rightarrow> (Some (AuDatabase e), st) | None \<Rightarrow>
            (case au_fault env AuRotateCommit of Some e \<Rightarrow> (Some (AuDatabase e), st) | None \<Rightarrow>
               (Some (if mrt_consumed row \<noteq> None \<or> mrt_revoked row \<noteq> None then ErrRefreshTokenReplay else ErrRefreshTokenInvalid),
                revoke_session env usrSeq sid st)))
          else
            (case au_fault env AuRotateUpdate of Some e \<Rightarrow> (Some (AuDatabase e), st) | None \<Rightarrow>
            (let p = (\<lambda>r. mrt_jti r = oldJTI \<and> mrt_usr r = usrSeq \<and> mrt_consumed r = None \<and> mrt_revoked r = None);
                 st1 = st\<lparr>mrt := sql_update p (set_consumed env newJTI) (mrt st)\<rparr>
             in if sql_affected p (mrt st) \<noteq> 1 then (Some ErrRefreshTokenReplay, st)
                else
            (case au_fault env AuRotateInsert of Some e \<Rightarrow> (Some (AuDatabase e), st) | None \<Rightarrow>
            (case mrt_insert env usrSeq sid newJTI newExpiresAt st1 of
               Inl e \<Rightarrow> (Some e, st)
             | Inr st2 \<Rightarrow>
            (case au_fault env AuRotateCommit of Some e \<Rightarrow> (Some (AuDatabase e), st) | None \<Rightarrow> (None, st2)))))))))"

definition RevokeMobileSession :: "au_env \<Rightarrow> int \<Rightarrow> string \<Rightarrow> au_state \<Rightarrow> au_error option \<times> au_state" where
  "RevokeMobileSession env usrSeq sid st =
     (case au_fault env AuRevoke of
        Some e \<Rightarrow> (Some (AuDatabase e), st) | None \<Rightarrow> (None, revoke_session env usrSeq sid st))"

definition RevokeAllMobileSessions :: "au_env \<Rightarrow> int \<Rightarrow> au_state \<Rightarrow> au_error option \<times> au_state" where
  "RevokeAllMobileSessions env usrSeq st =
     (case au_fault env AuRevokeAll of
        Some e \<Rightarrow> (Some (AuDatabase e), st)
      | None \<Rightarrow> (None, st\<lparr>mrt := sql_update (\<lambda>r. mrt_usr r = usrSeq) (set_revoked env) (mrt st)\<rparr>))"

definition DeleteExpiredMobileRefreshTokens :: "au_env \<Rightarrow> int \<Rightarrow> au_state \<Rightarrow> (au_error, nat) result \<times> au_state" where
  "DeleteExpiredMobileRefreshTokens env revokedBefore st =
     (case au_fault env AuDeleteExpired of
        Some e \<Rightarrow> (Inl (AuDatabase e), st)
      | None \<Rightarrow>
          (let victims = map mrt_jti (take 100 (sort_key mrt_expires (filter (\<lambda>r. mrt_expires r < au_sql_now env
                 \<or> (case mrt_revoked r of None \<Rightarrow> False | Some t \<Rightarrow> t < revokedBefore)) (mrt st))))
           in (Inr (length victims), st\<lparr>mrt := sql_delete (\<lambda>r. mrt_jti r \<in> set victims) (mrt st)\<rparr>)))"

definition DeletePushDevicesByUser :: "au_env \<Rightarrow> int \<Rightarrow> au_state \<Rightarrow> au_error option \<times> au_state" where
  "DeletePushDevicesByUser env usrSeq st =
     (case au_fault env AuDeletePush of
        Some e \<Rightarrow> (Some (AuDatabase e), st)
      | None \<Rightarrow> (None, st\<lparr>push_devices := sql_delete (\<lambda>d. fst d = usrSeq) (push_devices st)\<rparr>))"

definition IsMobileSessionActive :: "au_env \<Rightarrow> int \<Rightarrow> string \<Rightarrow> au_state \<Rightarrow> (au_error, bool) result" where
  "IsMobileSessionActive env usrSeq sid st =
     (if usrSeq \<le> 0 \<or> sid = [] then Inr False
      else case au_fault env AuActive of
        Some e \<Rightarrow> Inl (AuDatabase e)
      | None \<Rightarrow> Inr (sql_affected (\<lambda>r. in_session usrSeq sid r \<and> mrt_revoked r = None \<and> mrt_expires r > au_sql_now env) (mrt st) > 0))"

definition InsertAppleChallenge :: "au_env \<Rightarrow> string \<Rightarrow> string \<Rightarrow> int \<Rightarrow> au_state \<Rightarrow> (au_error, au_state) result" where
  "InsertAppleChallenge env cid nonceHash expiresAt st =
     (case au_fault env AuChallengeInsert of
        Some e \<Rightarrow> Inl (AuDatabase e)
      | None \<Rightarrow>
          if \<exists>c \<in> set (challenges st). ch_id c = cid then Inl (AuDatabase ''duplicate key'')
          else Inr (st\<lparr>challenges := challenges st @ [\<lparr>ch_id = cid, ch_nonce = nonceHash, ch_expires = expiresAt, ch_consumed = None\<rparr>]\<rparr>))"

definition ConsumeAppleChallenge :: "au_env \<Rightarrow> string \<Rightarrow> au_state \<Rightarrow> (au_error, string) result \<times> au_state" where
  "ConsumeAppleChallenge env cid st =
     (case au_fault env AuChallengeBegin of Some e \<Rightarrow> (Inl (AuDatabase e), st) | None \<Rightarrow>
     (case au_fault env AuChallengeSelect of Some e \<Rightarrow> (Inl (AuDatabase e), st) | None \<Rightarrow>
     (case sql_get (\<lambda>c. ch_id c = cid) (challenges st) of
        None \<Rightarrow> (Inl ErrChallengeInvalid, st)
      | Some c \<Rightarrow>
          if ch_consumed c \<noteq> None \<or> \<not> ch_expires c > au_now env then (Inl ErrChallengeInvalid, st)
          else
     (case au_fault env AuChallengeUpdate of Some e \<Rightarrow> (Inl (AuDatabase e), st) | None \<Rightarrow>
     (case au_fault env AuChallengeCommit of Some e \<Rightarrow> (Inl (AuDatabase e), st) | None \<Rightarrow>
        (Inr (ch_nonce c),
         st\<lparr>challenges := sql_update (\<lambda>c. ch_id c = cid \<and> ch_consumed c = None)
              (\<lambda>c. c\<lparr>ch_consumed := Some (au_sql_now env)\<rparr>) (challenges st)\<rparr>))))))"

definition ConsumeAppleAuthorizationCode :: "au_env \<Rightarrow> string \<Rightarrow> au_state \<Rightarrow> au_error option \<times> au_state" where
  "ConsumeAppleAuthorizationCode env codeHash st =
     (case au_fault env AuCodeInsert of
        Some e \<Rightarrow> (Some (AuDatabase e), st)
      | None \<Rightarrow>
          if codeHash \<in> set (code_replays st) then (Some ErrAuthorizationReplay, st)
          else (None, st\<lparr>code_replays := code_replays st @ [codeHash]\<rparr>))"

definition DeleteLegacySessionsByUser :: "au_env \<Rightarrow> int \<Rightarrow> au_state \<Rightarrow> au_error option \<times> au_state" where
  "DeleteLegacySessionsByUser env usrSeq st =
     (case au_fault env AuDeleteLegacyUser of
        Some e \<Rightarrow> (Some (AuDatabase e), st)
      | None \<Rightarrow> (None, st\<lparr>login_logs := sql_delete (\<lambda>l. lg_usr l = usrSeq) (login_logs st)\<rparr>))"

definition DeleteLegacySession :: "au_env \<Rightarrow> string \<Rightarrow> au_state \<Rightarrow> au_error option \<times> au_state" where
  "DeleteLegacySession env sessionID st =
     (if sessionID = [] then (None, st)
      else case au_fault env AuDeleteLegacy of
        Some e \<Rightarrow> (Some (AuDatabase e), st)
      | None \<Rightarrow> (None, st\<lparr>login_logs := sql_delete (\<lambda>l. lg_session l = sessionID) (login_logs st)\<rparr>))"

definition InsertLoginLog :: "au_env \<Rightarrow> int \<Rightarrow> string \<Rightarrow> string \<Rightarrow> string \<Rightarrow> au_state \<Rightarrow> (au_error, au_state) result" where
  "InsertLoginLog env usrSeq sessionID ip agent st =
     (case au_fault env AuLoginLog of
        Some e \<Rightarrow> Inl (AuDatabase e)
      | None \<Rightarrow> Inr (st\<lparr>login_logs := login_logs st @ [\<lparr>lg_usr = usrSeq, lg_date = au_sql_now env, lg_ip = ip,
                        lg_session = sessionID, lg_agent = agent\<rparr>]\<rparr>))"

definition UpdateLastLogin :: "au_env \<Rightarrow> int \<Rightarrow> au_state \<Rightarrow> (au_error, au_state) result" where
  "UpdateLastLogin env usrSeq st =
     (case au_fault env AuLastLogin of
        Some e \<Rightarrow> Inl (AuDatabase e)
      | None \<Rightarrow> Inr (st\<lparr>au_members := sql_update (\<lambda>m. am_USRSeq m = usrSeq)
            (\<lambda>m. m\<lparr>am_TotalLogCnt := am_TotalLogCnt m + 1, am_LastLogDate := Some (au_sql_now env)\<rparr>) (au_members st)\<rparr>))"

section \<open>MobileSessionIssuer\<close>

record MobileSession =
  ms_User :: AuthUser
  AccessToken :: string
  RefreshToken :: string
  AccessIssuedAt :: int
  AccessExpiresAt :: int
  RefreshExpiresAt :: int
  SID :: string
  JTI :: string

text \<open>A session id is empty when the random source fails.\<close>

definition Issue :: "au_env \<Rightarrow> au_member \<Rightarrow> au_state \<Rightarrow> (au_error, MobileSession) result \<times> au_state" where
  "Issue env user st =
     (case EnsureLoginAllowed (Some (am_USRStatus user)) of Some e \<Rightarrow> (Inl e, st) | None \<Rightarrow>
     (case GetAuthPrincipalBySeq env (am_USRSeq user) st of
        Inl e \<Rightarrow> (Inl e, st)
      | Inr None \<Rightarrow> (Inl PrincipalNotFound, st)
      | Inr (Some authUser) \<Rightarrow>
          if new_sid env = [] then (Inl SessionIDFailed, st)
          else
     (case generateMobileAccessToken env authUser (new_sid env) of
        Inl e \<Rightarrow> (Inl e, st)
      | Inr (accessToken, accessExpiresAt) \<Rightarrow>
     (case generateMobileRefreshToken env authUser (new_sid env) of
        Inl e \<Rightarrow> (Inl e, st)
      | Inr (refreshToken, refreshJTI, refreshExpiresAt) \<Rightarrow>
     (case InsertMobileRefreshToken env (am_USRSeq user) (new_sid env) refreshJTI refreshExpiresAt st of
        Inl e \<Rightarrow> (Inl e, st)
      | Inr st1 \<Rightarrow>
          (Inr \<lparr>ms_User = authUser, AccessToken = accessToken, RefreshToken = refreshToken, AccessIssuedAt = au_now env,
                AccessExpiresAt = accessExpiresAt, RefreshExpiresAt = refreshExpiresAt, SID = new_sid env, JTI = refreshJTI\<rparr>,
           st1))))))"

definition Rotate :: "au_env \<Rightarrow> string \<Rightarrow> au_state \<Rightarrow> (au_error, MobileSession) result \<times> au_state" where
  "Rotate env refreshToken st =
     (case ValidateMobileRefreshToken env refreshToken of
        Inl _ \<Rightarrow> (Inl ErrRefreshTokenInvalid, st)
      | Inr (claimsUser, oldJTI) \<Rightarrow>
     (case GetMemberBySeq env (USRSeq claimsUser) st of
        Inl e \<Rightarrow> (Inl e, st)
      | Inr currentUser \<Rightarrow>
     (case EnsureLoginAllowed (map_option am_USRStatus currentUser) of
        Some e \<Rightarrow> (Inl e, snd (RevokeMobileSession env (USRSeq claimsUser) (SessionID claimsUser) st))
      | None \<Rightarrow>
     (case GetAuthPrincipalBySeq env (USRSeq claimsUser) st of
        Inl e \<Rightarrow> (Inl e, st)
      | Inr None \<Rightarrow> (Inl ErrRefreshTokenInvalid, snd (RevokeMobileSession env (USRSeq claimsUser) (SessionID claimsUser) st))
      | Inr (Some authUser) \<Rightarrow>
     (case generateMobileAccessToken env authUser (SessionID claimsUser) of
        Inl e \<Rightarrow> (Inl e, st)
      | Inr (accessToken, accessExpiresAt) \<Rightarrow>
     (case generateMobileRefreshToken env authUser (SessionID claimsUser) of
        Inl e \<Rightarrow> (Inl e, st)
      | Inr (newRefreshToken, newJTI, refreshExpiresAt) \<Rightarrow>
     (case RotateMobileRefreshToken env (USRSeq claimsUser) (SessionID claimsUser) oldJTI newJTI refreshExpiresAt st of
        (Some e, st1) \<Rightarrow> (Inl e, st1)
      | (None, st1) \<Rightarrow>
          (Inr \<lparr>ms_User = authUser, AccessToken = accessToken, RefreshToken = newRefreshToken, AccessIssuedAt = au_now env,
                AccessExpiresAt = accessExpiresAt, RefreshExpiresAt = refreshExpiresAt, SID = SessionID claimsUser, JTI = newJTI\<rparr>,
           st1))))))))"

definition RevokeCurrent :: "au_env \<Rightarrow> AuthUser option \<Rightarrow> au_state \<Rightarrow> au_error option \<times> au_state" where
  "RevokeCurrent env user st =
     (case user of
        None \<Rightarrow> (None, st)
      | Some u \<Rightarrow> if USRSeq u \<le> 0 \<or> SessionID u = [] then (None, st) else RevokeMobileSession env (USRSeq u) (SessionID u) st)"

definition RevokeAll :: "au_env \<Rightarrow> int \<Rightarrow> au_state \<Rightarrow> au_error option \<times> au_state" where
  "RevokeAll env usrSeq st = (if usrSeq \<le> 0 then (None, st) else RevokeAllMobileSessions env usrSeq st)"

section \<open>Web login and logout\<close>

text \<open>A cookie of the response: name, value, \<^verbatim>\<open>MaxAge\<close>. The legacy cookies come from a Go map, in any order.\<close>

type_synonym cookie = "string \<times> string \<times> int"

definition LoginWithBridge ::
  "au_env \<Rightarrow> au_member \<Rightarrow> string \<Rightarrow> string \<Rightarrow> au_state \<Rightarrow> (au_error, cookie list) result \<times> au_state" where
  "LoginWithBridge env user remoteAddr userAgent st =
     (case EnsureLoginAllowed (Some (am_USRStatus user)) of Some e \<Rightarrow> (Inl e, st) | None \<Rightarrow>
      if new_sid env = [] then (Inl SessionIDFailed, st)
      else
     (case GenerateJWT env ((bare_user (am_USRSeq user) (am_USRName user) (am_USRStatus user) [])\<lparr>USRID := am_USRID user\<rparr>) of
        None \<Rightarrow> (Inl SigningFailed, st)
      | Some token \<Rightarrow>
     (case InsertLoginLog env (am_USRSeq user) (new_sid env) remoteAddr userAgent st of
        Inl e \<Rightarrow> (Inl e, st)
      | Inr st1 \<Rightarrow>
     (case UpdateLastLogin env (am_USRSeq user) st1 of
        Inl e \<Rightarrow> (Inl e, st1)
      | Inr st2 \<Rightarrow>
          (Inr [(''alumni_token'', token, MaxAge env), (''DDusrSession_id'', new_sid env, 0),
                (''DDusrSEQ'', go_Itoa (am_USRSeq user), 0), (''DDusrID'', am_USRID user, 0),
                (''DDusrNAME'', am_USRName user, 0), (''DDusrSTATUS'', am_USRStatus user, 0)], st2)))))"

definition clearSessionCookies :: "cookie list" where
  "clearSessionCookies = map (\<lambda>n. (n, [], - 1))
     [''alumni_token'', ''DDusrSession_id'', ''DDusrSEQ'', ''DDusrID'', ''DDusrNAME'', ''DDusrSTATUS'']"

text \<open>\<^verbatim>\<open>errors.Join\<close>: the errors that occurred, none for success.\<close>

definition errs :: "au_error option list \<Rightarrow> au_error list" where
  "errs es = List.map_filter id es"

definition LogoutCurrent :: "au_env \<Rightarrow> AuthUser option \<Rightarrow> string \<Rightarrow> au_state \<Rightarrow> au_error list \<times> cookie list \<times> au_state" where
  "LogoutCurrent env user legacySessionID st =
     (let (e1, st1) = DeleteLegacySession env legacySessionID st;
          (e2, st2) = (case user of
             None \<Rightarrow> (None, st1)
           | Some u \<Rightarrow> if SessionID u \<noteq> [] then RevokeMobileSession env (USRSeq u) (SessionID u) st1 else (None, st1))
      in (errs [e1, e2], clearSessionCookies, st2))"

definition RevokeSessions :: "au_env \<Rightarrow> int \<Rightarrow> au_state \<Rightarrow> au_error list \<times> au_state" where
  "RevokeSessions env usrSeq st =
     (let (e1, st1) = DeleteLegacySessionsByUser env usrSeq st;
          (e2, st2) = RevokeAllMobileSessions env usrSeq st1;
          (e3, st3) = DeletePushDevicesByUser env usrSeq st2
      in (errs [e1, e2, e3], st3))"

definition LogoutAll :: "au_env \<Rightarrow> int \<Rightarrow> au_state \<Rightarrow> au_error list \<times> cookie list \<times> au_state" where
  "LogoutAll env usrSeq st = (let (es, st1) = RevokeSessions env usrSeq st in (es, clearSessionCookies, st1))"

definition GetLoginAllowedUser :: "au_env \<Rightarrow> int \<Rightarrow> au_state \<Rightarrow> (au_error, AuthUser option) result" where
  "GetLoginAllowedUser env usrSeq st =
     (case GetAuthPrincipalBySeq env usrSeq st of
        Inl e \<Rightarrow> Inl e
      | Inr None \<Rightarrow> Inr None
      | Inr (Some u) \<Rightarrow> (case EnsureLoginAllowed (Some (USRStatus u)) of Some e \<Rightarrow> Inl e | None \<Rightarrow> Inr (Some u)))"

section \<open>Middleware\<close>

text \<open>\<^verbatim>\<open>strings.Fields\<close>; the first argument collects the current field in reverse.\<close>

function go_Fields_from :: "string \<Rightarrow> string \<Rightarrow> string list" where
  "go_Fields_from w s =
     (if s = [] then (if w = [] then [] else [rev w])
      else if space_len id s = 0 then go_Fields_from (hd s # w) (tl s)
      else (if w = [] then [] else [rev w]) @ go_Fields_from [] (drop (space_len id s) s))"
  by pat_completeness auto
termination
  by (relation "measure (\<lambda>(w, s). length s)") auto

declare go_Fields_from.simps [simp del]

definition go_Fields :: "string \<Rightarrow> string list" where
  "go_Fields s = go_Fields_from [] s"

definition extractBearerToken :: "string \<Rightarrow> string option" where
  "extractBearerToken header =
     (case go_Fields (go_TrimSpace header) of
        [scheme, token] \<Rightarrow> if map ascii_lower scheme = ''bearer'' \<and> token \<noteq> [] then Some token else None
      | _ \<Rightarrow> None)"

record auth_request =
  Authorization :: string
  alumni_token :: "string option"
  DDusrSession_id :: "string option"

definition nonempty :: "string option \<Rightarrow> string option" where
  "nonempty c = (case c of Some v \<Rightarrow> if v = [] then None else Some v | None \<Rightarrow> None)"

definition legacy_user :: "au_env \<Rightarrow> auth_request \<Rightarrow> au_state \<Rightarrow> (au_error, AuthUser option) result" where
  "legacy_user env r st =
     (case nonempty (DDusrSession_id r) of
        None \<Rightarrow> Inl Unauthorized
      | Some sid \<Rightarrow>
          (case LookupLegacySession env sid st of
             Inr (Some m) \<Rightarrow> GetLoginAllowedUser env (am_USRSeq m) st
           | _ \<Rightarrow> Inl Unauthorized))"

definition resolveAuthUser :: "au_env \<Rightarrow> auth_request \<Rightarrow> au_state \<Rightarrow> (au_error, AuthUser option) result" where
  "resolveAuthUser env r st =
     (case extractBearerToken (Authorization r) of
        Some bearer \<Rightarrow>
          (case ValidateMobileAccessToken env bearer of
             Inl _ \<Rightarrow> Inl Unauthorized
           | Inr u \<Rightarrow>
               (case GetLoginAllowedUser env (USRSeq u) st of
                  Inr (Some current) \<Rightarrow>
                    (case IsMobileSessionActive env (USRSeq u) (SessionID u) st of
                       Inr True \<Rightarrow> Inr (Some (current\<lparr>SessionID := SessionID u\<rparr>))
                     | _ \<Rightarrow> Inl Unauthorized)
                | _ \<Rightarrow> Inl Unauthorized))
      | None \<Rightarrow>
          (case nonempty (alumni_token r) of
             None \<Rightarrow> legacy_user env r st
           | Some t \<Rightarrow>
               (case ValidateJWT env t of
                  Inr u \<Rightarrow> GetLoginAllowedUser env (USRSeq u) st
                | Inl _ \<Rightarrow> legacy_user env r st)))"

text \<open>The member the handler behind \<^verbatim>\<open>AuthMiddleware\<close> sees, or \<open>None\<close> for a 401.\<close>

definition AuthMiddleware :: "au_env \<Rightarrow> auth_request \<Rightarrow> au_state \<Rightarrow> AuthUser option" where
  "AuthMiddleware env r st = (case resolveAuthUser env r st of Inr (Some u) \<Rightarrow> Some u | _ \<Rightarrow> None)"

end
