(* ===== verification/Auth_Props.thy ===== *)
theory Auth_Props
  imports Auth_Session
begin

text \<open>
  What the sessions promise: a refresh token is used once, its reuse ends the session, a session that has
  ended stays ended, a session has one live token. And what they do not: a mobile token is also a web
  token, which no logout ends.
\<close>

section \<open>The token library's contract\<close>

definition claims_ok :: "int \<Rightarrow> (string \<times> string) option \<Rightarrow> jwt_claims \<Rightarrow> bool" where
  "claims_ok now req c \<longleftrightarrow> now < c_exp c \<and> (case c_nbf c of None \<Rightarrow> True | Some t \<Rightarrow> t \<le> now)
     \<and> (case req of None \<Rightarrow> True | Some (aud, iss) \<Rightarrow> c_aud c = aud \<and> c_iss c = iss)"

locale jwt_library =
  fixes J :: jwt_ops
  assumes parse_signed: "jwt_sign J c = Some t \<Longrightarrow> jwt_parse J now req t = (if claims_ok now req c then Some c else None)"
    and parse_stable: "jwt_parse J now req t = Some c \<Longrightarrow> jwt_parse J now' req' t = Some c' \<Longrightarrow> c' = c"
begin

lemma validate_stable:
  assumes "jwt env = J" "jwt env' = J"
    and "ValidateMobileRefreshToken env t = Inr x" "ValidateMobileRefreshToken env' t = Inr y"
  shows "y = x"
  using assms parse_stable
  by (fastforce simp: ValidateMobileRefreshToken_def validateMobileToken_def split: option.splits if_splits sum.splits)

lemma signed_is_web_token:
  assumes "jwt env = J" "jwt_sign J c = Some t" "claims_ok (au_now env) None c" "c_sub c = SubString (go_Itoa n)"
    and "int64 n" "n \<noteq> 0"
  shows "ValidateJWT env t = Inr (bare_user n (c_name c) (c_status c) [])"
  using assms parse_signed [OF assms(2)] by (simp add: ValidateJWT_def parseSubject_def go_Atoi_Itoa)

end

section \<open>Histories\<close>

datatype au_op =
    OpIssue au_env au_member
  | OpRotate au_env string
  | OpRevokeCurrent au_env "AuthUser option"
  | OpRevokeAll au_env int
  | OpLogin au_env au_member string string
  | OpLogoutCurrent au_env "AuthUser option" string
  | OpLogoutAll au_env int
  | OpCleanup au_env int

fun au_step :: "au_state \<Rightarrow> au_op \<Rightarrow> au_state" where
  "au_step st (OpIssue env m) = snd (Issue env m st)"
| "au_step st (OpRotate env t) = snd (Rotate env t st)"
| "au_step st (OpRevokeCurrent env u) = snd (RevokeCurrent env u st)"
| "au_step st (OpRevokeAll env u) = snd (RevokeAll env u st)"
| "au_step st (OpLogin env m ip agent) = snd (LoginWithBridge env m ip agent st)"
| "au_step st (OpLogoutCurrent env u s) = snd (snd (LogoutCurrent env u s st))"
| "au_step st (OpLogoutAll env u) = snd (snd (LogoutAll env u st))"
| "au_step st (OpCleanup env before) = snd (DeleteExpiredMobileRefreshTokens env before st)"

text \<open>Every operation does one of five things to the table of refresh tokens.\<close>

definition new_row :: "au_env \<Rightarrow> int \<Rightarrow> string \<Rightarrow> string \<Rightarrow> int \<Rightarrow> mrt_row" where
  "new_row env usr sid jti e = \<lparr>mrt_jti = jti, mrt_usr = usr, mrt_sid = sid, mrt_expires = e, mrt_created = au_sql_now env,
     mrt_consumed = None, mrt_revoked = None, mrt_rotated_to = None\<rparr>"

definition live :: "mrt_row \<Rightarrow> bool" where
  "live r \<longleftrightarrow> mrt_consumed r = None \<and> mrt_revoked r = None"

definition rotatable :: "int \<Rightarrow> string \<Rightarrow> string \<Rightarrow> mrt_row \<Rightarrow> bool" where
  "rotatable usr sid jti r \<longleftrightarrow> mrt_jti r = jti \<and> mrt_usr r = usr \<and> live r"

inductive token_change :: "mrt_row list \<Rightarrow> mrt_row list \<Rightarrow> bool" where
  same: "token_change t t"
| revoke: "token_change t (sql_update p (set_revoked env) t)"
| delete: "token_change t (sql_delete p t)"

definition issued :: "au_env \<Rightarrow> int \<Rightarrow> string \<Rightarrow> mrt_row list \<Rightarrow> mrt_row list \<Rightarrow> bool" where
  "issued env usr sid t t' \<longleftrightarrow> (\<exists>e. t' = t @ [new_row env usr sid (new_jti env) e]) \<and> new_jti env \<notin> mrt_jti ` set t"

definition rotated :: "au_env \<Rightarrow> int \<Rightarrow> string \<Rightarrow> string \<Rightarrow> mrt_row list \<Rightarrow> mrt_row list \<Rightarrow> bool" where
  "rotated env usr sid jti t t' \<longleftrightarrow>
     (\<exists>e row. sql_get (\<lambda>r. mrt_jti r = jti \<and> mrt_usr r = usr) t = Some row \<and> mrt_sid row = sid \<and> live row
        \<and> sql_affected (rotatable usr sid jti) t = 1 \<and> new_jti env \<notin> mrt_jti ` set t
        \<and> t' = sql_update (rotatable usr sid jti) (set_consumed env (new_jti env)) t @ [new_row env usr sid (new_jti env) e])"

lemma mrt_insertD:
  "mrt_insert env usr sid jti e st = Inr st' \<Longrightarrow> mrt st' = mrt st @ [new_row env usr sid jti e] \<and> jti \<notin> mrt_jti ` set (mrt st)"
  by (auto simp: mrt_insert_def new_row_def split: if_splits)

lemma issue_table:
  "Issue env m st = (Inr s, st') \<Longrightarrow> issued env (am_USRSeq m) (new_sid env) (mrt st) (mrt st')"
  by (auto simp: Issue_def issued_def generateMobileRefreshToken_def InsertMobileRefreshToken_def
      split: option.splits sum.splits if_splits dest!: mrt_insertD)

lemma issue_error: "Issue env m st = (Inl e, st') \<Longrightarrow> st' = st"
  by (auto simp: Issue_def split: option.splits sum.splits if_splits)

lemma revoke_session_change: "token_change (mrt st) (mrt (revoke_session env usr sid st))"
  by (simp add: revoke_session_def token_change.revoke)

lemma rotate_repo_error:
  "RotateMobileRefreshToken env usr sid jti njti e st = (Some err, st') \<Longrightarrow> token_change (mrt st) (mrt st')"
  unfolding RotateMobileRefreshToken_def Let_def
  by (auto simp: token_change.same revoke_session_change split: option.splits sum.splits if_splits)

lemma rotate_repo_ok:
  assumes "RotateMobileRefreshToken env usr sid jti (new_jti env) e st = (None, st')"
  shows "rotated env usr sid jti (mrt st) (mrt st')"
proof -
  let ?p = "\<lambda>r. mrt_jti r = jti \<and> mrt_usr r = usr \<and> mrt_consumed r = None \<and> mrt_revoked r = None"
  have p: "?p = rotatable usr sid jti" by (auto simp: rotatable_def live_def)
  from assms obtain row where row: "sql_get (\<lambda>r. mrt_jti r = jti \<and> mrt_usr r = usr) (mrt st) = Some row"
      "mrt_sid row = sid" "mrt_consumed row = None" "mrt_revoked row = None"
    and aff: "sql_affected ?p (mrt st) = 1"
    and ins: "mrt_insert env usr sid (new_jti env) e (st\<lparr>mrt := sql_update ?p (set_consumed env (new_jti env)) (mrt st)\<rparr>) = Inr st'"
    by (auto simp: RotateMobileRefreshToken_def Let_def split: option.splits sum.splits if_splits)
  from mrt_insertD [OF ins] have
    "mrt st' = sql_update ?p (set_consumed env (new_jti env)) (mrt st) @ [new_row env usr sid (new_jti env) e]"
    "new_jti env \<notin> mrt_jti ` set (sql_update ?p (set_consumed env (new_jti env)) (mrt st))" by simp_all
  moreover have "map mrt_jti (sql_update ?p (set_consumed env (new_jti env)) (mrt st)) = map mrt_jti (mrt st)"
    by (rule map_key_sql_update) (simp add: set_consumed_def)
  then have "mrt_jti ` set (sql_update ?p (set_consumed env (new_jti env)) (mrt st)) = mrt_jti ` set (mrt st)"
    by (metis list.set_map)
  ultimately show ?thesis using row aff unfolding p rotated_def live_def by blast
qed

lemma revoke_mobile_change: "token_change (mrt st) (mrt (snd (RevokeMobileSession env usr sid st)))"
  by (auto simp: RevokeMobileSession_def token_change.same revoke_session_change split: option.split)

lemma rotate_error: "Rotate env t st = (Inl e, st') \<Longrightarrow> token_change (mrt st) (mrt st')"
  unfolding Rotate_def
  by (auto simp: token_change.same revoke_mobile_change dest: rotate_repo_error split: option.splits sum.splits prod.splits)

lemma rotate_ok:
  assumes "Rotate env t st = (Inr s, st')"
  obtains u :: AuthUser and jti where "ValidateMobileRefreshToken env t = Inr (u, jti)" "rotated env (USRSeq u) (SessionID u) jti (mrt st) (mrt st')"
  using assms unfolding Rotate_def generateMobileRefreshToken_def
  by (auto dest: rotate_repo_ok split: option.splits sum.splits prod.splits)

lemma revoke_all_change: "token_change (mrt st) (mrt (snd (RevokeAllMobileSessions env usr st)))"
  by (auto simp: RevokeAllMobileSessions_def token_change.same token_change.revoke split: option.split)

lemma mrt_frames [simp]:
  "mrt (snd (DeleteLegacySession env x st)) = mrt st"
  "mrt (snd (DeleteLegacySessionsByUser env u st)) = mrt st"
  "mrt (snd (DeletePushDevicesByUser env u st)) = mrt st"
  by (simp_all add: DeleteLegacySession_def DeleteLegacySessionsByUser_def DeletePushDevicesByUser_def split: option.split)

lemma logout_current_change: "token_change (mrt st) (mrt (snd (snd (LogoutCurrent env u s st))))"
  using revoke_mobile_change [of "snd (DeleteLegacySession env s st)" env]
  by (auto simp: LogoutCurrent_def Let_def split_beta token_change.same split: option.split)

lemma logout_all_change: "token_change (mrt st) (mrt (snd (snd (LogoutAll env u st))))"
  using revoke_all_change [of "snd (DeleteLegacySessionsByUser env u st)" env u]
  by (simp add: LogoutAll_def RevokeSessions_def Let_def split_beta)

lemma login_frame: "mrt (snd (LoginWithBridge env m ip a st)) = mrt st"
  by (auto simp: LoginWithBridge_def InsertLoginLog_def UpdateLastLogin_def split: option.split sum.split)

text \<open>The cases of one step, for invariants of the token table.\<close>

lemma au_step_table:
  obtains (change) "token_change (mrt st) (mrt (au_step st x))"
  | (issue) env m where "x = OpIssue env m" "issued env (am_USRSeq m) (new_sid env) (mrt st) (mrt (au_step st x))"
  | (rotate) env t and u :: AuthUser and jti where "x = OpRotate env t" "rotated env (USRSeq u) (SessionID u) jti (mrt st) (mrt (au_step st x))"
proof (cases x)
  case (OpIssue env m)
  show thesis
  proof (cases "fst (Issue env m st)")
    case (Inl e)
    then have "au_step st x = st" using OpIssue issue_error by (metis au_step.simps(1) prod.collapse)
    then show thesis using change token_change.same by simp
  next
    case (Inr s)
    then have "Issue env m st = (Inr s, au_step st x)" using OpIssue by (metis au_step.simps(1) prod.collapse)
    then show thesis using issue OpIssue issue_table by blast
  qed
next
  case (OpRotate env t)
  show thesis
  proof (cases "fst (Rotate env t st)")
    case (Inl e)
    then have "Rotate env t st = (Inl e, au_step st x)" using OpRotate by (metis au_step.simps(2) prod.collapse)
    then show thesis using change rotate_error by blast
  next
    case (Inr s)
    then have "Rotate env t st = (Inr s, au_step st x)" using OpRotate by (metis au_step.simps(2) prod.collapse)
    then show thesis by (rule rotate_ok) (rule rotate [OF OpRotate])
  qed
next
  case (OpRevokeCurrent env u)
  then show thesis using change revoke_mobile_change
    by (auto simp: RevokeCurrent_def token_change.same split: option.splits if_splits)
next
  case (OpRevokeAll env u)
  then show thesis using change revoke_all_change by (auto simp: RevokeAll_def token_change.same split: if_splits)
next
  case (OpCleanup env b)
  then show thesis using change
    by (auto simp: DeleteExpiredMobileRefreshTokens_def Let_def token_change.same token_change.delete split: option.splits)
qed (use change logout_current_change logout_all_change login_frame token_change.same in \<open>auto\<close>)

section \<open>Ended sessions and spent tokens\<close>

definition dead :: "int \<Rightarrow> string \<Rightarrow> au_state \<Rightarrow> bool" where
  "dead usr sid st \<longleftrightarrow> (\<forall>r \<in> set (mrt st). in_session usr sid r \<longrightarrow> mrt_revoked r \<noteq> None)"

definition spent :: "int \<Rightarrow> string \<Rightarrow> au_state \<Rightarrow> bool" where
  "spent usr jti st \<longleftrightarrow> (\<forall>r \<in> set (mrt st). mrt_jti r = jti \<and> mrt_usr r = usr \<longrightarrow> \<not> live r)"

fun other_session :: "int \<Rightarrow> string \<Rightarrow> au_op \<Rightarrow> bool" where
  "other_session usr sid (OpIssue env m) = (am_USRSeq m = usr \<longrightarrow> new_sid env \<noteq> sid)"
| "other_session usr sid _ = True"

fun other_token :: "string \<Rightarrow> au_op \<Rightarrow> bool" where
  "other_token jti (OpIssue env m) = (new_jti env \<noteq> jti)"
| "other_token jti (OpRotate env t) = (new_jti env \<noteq> jti)"
| "other_token jti _ = True"

lemma set_revoked_fields [simp]:
  "mrt_jti (set_revoked env r) = mrt_jti r" "mrt_usr (set_revoked env r) = mrt_usr r" "mrt_sid (set_revoked env r) = mrt_sid r"
  "mrt_consumed (set_revoked env r) = mrt_consumed r" "mrt_expires (set_revoked env r) = mrt_expires r"
  "mrt_revoked (set_revoked env r) \<noteq> None" "in_session usr sid (set_revoked env r) = in_session usr sid r"
  "\<not> live (set_revoked env r)"
  by (simp_all add: set_revoked_def in_session_def live_def split: option.split)

lemma set_consumed_fields [simp]:
  "mrt_jti (set_consumed env j r) = mrt_jti r" "mrt_usr (set_consumed env j r) = mrt_usr r" "mrt_sid (set_consumed env j r) = mrt_sid r"
  "mrt_revoked (set_consumed env j r) = mrt_revoked r" "in_session usr sid (set_consumed env j r) = in_session usr sid r"
  "\<not> live (set_consumed env j r)"
  by (simp_all add: set_consumed_def in_session_def live_def)

lemma change_keeps:
  assumes "token_change t t'" "\<And>r env. Q r \<Longrightarrow> Q (set_revoked env r)" "\<forall>r \<in> set t. Q r"
  shows "\<forall>r \<in> set t'. Q r"
  using assms by (induction rule: token_change.induct) (auto simp: all_sql_update sql_delete_def)

lemma rotated_keeps:
  assumes "rotated env usr sid jti t t'" "\<And>r. Q r \<Longrightarrow> Q (set_consumed env (new_jti env) r)"
    and "\<And>e. Q (new_row env usr sid (new_jti env) e)" "\<forall>r \<in> set t. Q r"
  shows "\<forall>r \<in> set t'. Q r"
proof -
  from assms(1) obtain e where
    t': "t' = sql_update (rotatable usr sid jti) (set_consumed env (new_jti env)) t @ [new_row env usr sid (new_jti env) e]"
    by (auto simp: rotated_def)
  show ?thesis using assms(2-) unfolding t' set_append ball_Un all_sql_update by simp
qed

lemma dead_step:
  assumes "dead usr sid st" "other_session usr sid x"
  shows "dead usr sid (au_step st x)"
proof (cases rule: au_step_table [of st x])
  case change
  then show ?thesis
    using change_keeps [where Q = "\<lambda>r. in_session usr sid r \<longrightarrow> mrt_revoked r \<noteq> None"] assms(1) unfolding dead_def by simp
next
  case (issue env m)
  then show ?thesis using assms by (auto simp: dead_def issued_def new_row_def in_session_def)
next
  case (rotate env t u jti)
  then obtain row where row: "row \<in> set (mrt st)" "mrt_usr row = USRSeq u" "mrt_sid row = SessionID u" "live row"
    by (auto simp: rotated_def dest: sql_get_Some)
  then have "\<not> (USRSeq u = usr \<and> SessionID u = sid)"
    using assms(1) by (auto simp: dead_def in_session_def live_def)
  then show ?thesis
    using rotated_keeps [OF rotate(2), of "\<lambda>r. in_session usr sid r \<longrightarrow> mrt_revoked r \<noteq> None"] assms(1)
    unfolding dead_def by (simp add: in_session_def new_row_def)
qed

lemma spent_token_step:
  assumes "spent usr jti st" "other_token jti x"
  shows "spent usr jti (au_step st x)"
proof (cases rule: au_step_table [of st x])
  case change
  then show ?thesis
    using change_keeps [where Q = "\<lambda>r. mrt_jti r = jti \<and> mrt_usr r = usr \<longrightarrow> \<not> live r"] assms(1) unfolding spent_def by simp
next
  case (issue env m)
  then show ?thesis using assms by (auto simp: spent_def issued_def new_row_def)
next
  case (rotate env t u j)
  then show ?thesis
    using rotated_keeps [OF rotate(2), of "\<lambda>r. mrt_jti r = jti \<and> mrt_usr r = usr \<longrightarrow> \<not> live r"] assms
    unfolding spent_def by (simp add: new_row_def)
qed

interpretation ended: invariant au_step "dead usr sid" "other_session usr sid" "dead usr sid" for usr sid
  by unfold_locales (simp_all add: dead_step)

interpretation used_up: invariant au_step "spent usr jti" "other_token jti" "spent usr jti" for usr jti
  by unfold_locales (simp_all add: spent_token_step)

lemma rotated_spends:
  assumes "rotated env usr sid jti (mrt st) (mrt st')"
  shows "spent usr jti st'"
proof -
  from assms obtain e row where row: "sql_get (\<lambda>r. mrt_jti r = jti \<and> mrt_usr r = usr) (mrt st) = Some row"
    and new: "new_jti env \<notin> mrt_jti ` set (mrt st)"
    and t': "mrt st' = sql_update (rotatable usr sid jti) (set_consumed env (new_jti env)) (mrt st) @ [new_row env usr sid (new_jti env) e]"
    by (auto simp: rotated_def)
  have "new_jti env \<noteq> jti" using new sql_get_Some [OF row] by auto
  then show ?thesis unfolding spent_def t' set_append ball_Un all_sql_update by (simp add: rotatable_def new_row_def)
qed

lemma spent_not_rotated: "spent usr jti st \<Longrightarrow> \<not> rotated env usr sid jti (mrt st) t'"
  by (auto simp: spent_def rotated_def dest: sql_get_Some)

lemma dead_revoked: "dead usr sid (revoke_session env usr sid st)"
  unfolding dead_def revoke_session_def by (simp add: all_sql_update del: not_None_eq)

lemma replay_repo_dead:
  assumes "spent usr jti st" "RotateMobileRefreshToken env usr sid jti njti e st = (Some ErrRefreshTokenReplay, st')"
  shows "dead usr sid st'"
proof (cases "sql_get (\<lambda>r. mrt_jti r = jti \<and> mrt_usr r = usr) (mrt st)")
  case (Some row)
  then have "\<not> live row" using assms(1) sql_get_Some [OF Some] by (simp add: spent_def)
  with Some assms(2) have "st' = revoke_session env usr sid st"
    by (auto simp: RotateMobileRefreshToken_def live_def Let_def split: option.splits if_splits)
  then show ?thesis by (simp add: dead_revoked)
qed (use assms(2) in \<open>auto simp: RotateMobileRefreshToken_def split: option.splits\<close>)

lemma replay_dead:
  assumes "ValidateMobileRefreshToken env t = Inr (u, jti)" "spent (USRSeq u) jti st"
    and "Rotate env t st = (Inl ErrRefreshTokenReplay, st')"
  shows "dead (USRSeq u) (SessionID u) st'"
  using assms(3) replay_repo_dead [OF assms(2)]
  unfolding Rotate_def assms(1) GetMemberBySeq_def EnsureLoginAllowed_def GetAuthPrincipalBySeq_def mapAuthPrincipal_def
    generateMobileAccessToken_def generateMobileRefreshToken_def
  by (auto split: option.splits sum.splits prod.splits if_splits)

lemma dead_inactive: "dead usr sid st \<Longrightarrow> IsMobileSessionActive env usr sid st \<noteq> Inr True"
  by (auto simp: IsMobileSessionActive_def dead_def sql_affected_def filter_empty_conv split: option.split)

lemma dead_refused:
  assumes "dead usr sid st" "extractBearerToken (Authorization r) = Some t"
    and "ValidateMobileAccessToken env t = Inr v" "USRSeq v = usr" "SessionID v = sid"
  shows "AuthMiddleware env r st = None"
  using assms dead_inactive [OF assms(1), of env]
  by (auto simp: AuthMiddleware_def resolveAuthUser_def split: sum.split option.split bool.split)

section \<open>One live token per session\<close>

definition one_live :: "mrt_row list \<Rightarrow> bool" where
  "one_live t \<longleftrightarrow> (\<forall>usr sid. length (filter (\<lambda>r. in_session usr sid r \<and> live r) t) \<le> 1)"

text \<open>Session ids are fresh: 128 random bits.\<close>

fun fresh_session :: "au_state \<Rightarrow> au_op \<Rightarrow> bool" where
  "fresh_session st (OpIssue env m) = (\<forall>r \<in> set (mrt st). \<not> in_session (am_USRSeq m) (new_sid env) r)"
| "fresh_session st _ = True"

inductive au_reach :: "au_state \<Rightarrow> bool" where
  init: "mrt st = [] \<Longrightarrow> au_reach st"
| step: "au_reach st \<Longrightarrow> fresh_session st x \<Longrightarrow> au_reach (au_step st x)"

lemma change_length:
  assumes "token_change t t'"
  shows "length (filter (\<lambda>r. in_session usr sid r \<and> live r) t') \<le> length (filter (\<lambda>r. in_session usr sid r \<and> live r) t)"
  using assms
proof (induction rule: token_change.induct)
  case (revoke t p env)
  then show ?case by (induction t) auto
next
  case (delete t p)
  then show ?case by (induction t) (auto simp: sql_delete_def)
qed simp

lemma filter_le1_unique: "length (filter P t) \<le> 1 \<Longrightarrow> x \<in> set t \<Longrightarrow> P x \<Longrightarrow> y \<in> set t \<Longrightarrow> P y \<Longrightarrow> y = x"
proof -
  assume "length (filter P t) \<le> 1" "x \<in> set t" "P x" "y \<in> set t" "P y"
  then have "x \<in> set (filter P t)" "y \<in> set (filter P t)" "length (filter P t) \<le> 1" by auto
  then show "y = x" by (cases "filter P t") auto
qed

lemma rotated_one_live:
  assumes "one_live t" "rotated env usr sid jti t t'"
  shows "one_live t'"
  unfolding one_live_def
proof (intro allI)
  fix u i
  let ?P = "\<lambda>r. in_session u i r \<and> live r"
  let ?f = "sql_update (rotatable usr sid jti) (set_consumed env (new_jti env)) t"
  from assms(2) obtain e row where row: "sql_get (\<lambda>r. mrt_jti r = jti \<and> mrt_usr r = usr) t = Some row" "mrt_sid row = sid" "live row"
    and t': "t' = ?f @ [new_row env usr sid (new_jti env) e]" by (auto simp: rotated_def)
  have le: "length (filter ?P ?f) \<le> length (filter ?P t)" by (induction t) auto
  show "length (filter ?P t') \<le> 1"
  proof (cases "u = usr \<and> i = sid")
    case True
    have in_row: "row \<in> set t" "?P row" "rotatable usr sid jti row"
      using sql_get_Some [OF row(1)] row True by (auto simp: in_session_def rotatable_def)
    have "\<not> ?P r" if "r \<in> set ?f" for r
    proof
      assume r: "?P r"
      from that r obtain r0 where "r0 \<in> set t" "?P r0" "\<not> rotatable usr sid jti r0" unfolding set_sql_update by auto
      moreover have "length (filter ?P t) \<le> 1" using assms(1) by (simp add: one_live_def)
      ultimately show False using filter_le1_unique [of ?P t row r0] in_row by auto
    qed
    then have "filter ?P ?f = []" by (simp add: filter_empty_conv)
    then show ?thesis unfolding t' by simp
  next
    case False
    then have "\<not> ?P (new_row env usr sid (new_jti env) e)" by (auto simp: in_session_def new_row_def)
    then have "filter ?P t' = filter ?P ?f" unfolding t' by auto
    then show ?thesis using le assms(1) by (metis one_live_def order_trans)
  qed
qed

lemma reach_one_live: "au_reach st \<Longrightarrow> one_live (mrt st)"
proof (induction rule: au_reach.induct)
  case (step st x)
  show ?case
  proof (cases rule: au_step_table [of st x])
    case change
    then show ?thesis using step.IH change_length order_trans unfolding one_live_def by blast
  next
    case (issue env m)
    from step.hyps(2) issue(1) have "filter (\<lambda>r. in_session (am_USRSeq m) (new_sid env) r \<and> live r) (mrt st) = []"
      by (auto simp: filter_empty_conv)
    then show ?thesis using step.IH issue(2) by (auto simp: one_live_def issued_def new_row_def in_session_def)
  next
    case (rotate env t u jti)
    then show ?thesis using step.IH rotated_one_live by blast
  qed
qed (simp add: one_live_def)

section \<open>Properties\<close>


lemma logout_dead:
  assumes "(0 < length (SessionID u) \<and> LogoutCurrent env (Some u) leg st = ([], cs, st1)) \<or> LogoutAll env (USRSeq u) st = ([], cs, st1)"
  shows "dead (USRSeq u) (SessionID u) st1"
  using assms(1)
proof
  assume "0 < length (SessionID u) \<and> LogoutCurrent env (Some u) leg st = ([], cs, st1)"
  then have "RevokeMobileSession env (USRSeq u) (SessionID u) (snd (DeleteLegacySession env leg st)) = (None, st1)"
    by (auto simp: LogoutCurrent_def errs_def List.map_filter_def Let_def split_beta prod_eq_iff split: if_splits)
  then show ?thesis by (auto simp: RevokeMobileSession_def dead_revoked split: option.splits)
next
  assume "LogoutAll env (USRSeq u) st = ([], cs, st1)"
  then have all: "fst (RevokeAllMobileSessions env (USRSeq u) (snd (DeleteLegacySessionsByUser env (USRSeq u) st))) = None"
    and st1: "st1 = snd (DeletePushDevicesByUser env (USRSeq u) (snd (RevokeAllMobileSessions env (USRSeq u)
                (snd (DeleteLegacySessionsByUser env (USRSeq u) st)))))"
    by (auto simp: LogoutAll_def RevokeSessions_def errs_def List.map_filter_def Let_def split_beta split: if_splits)
  from all have "dead (USRSeq u) (SessionID u) (snd (RevokeAllMobileSessions env (USRSeq u) (snd (DeleteLegacySessionsByUser env (USRSeq u) st))))"
    by (auto simp: RevokeAllMobileSessions_def dead_def all_sql_update in_session_def split: option.splits simp del: not_None_eq)
  then show ?thesis unfolding st1 dead_def by simp
qed


text \<open>C15. In every reachable state each session has at most one refresh token that is neither consumed nor
  revoked.\<close>

theorem one_live_refresh_token:
  assumes "au_reach st"
  shows "length (filter (\<lambda>r. in_session usr sid r \<and> mrt_consumed r = None \<and> mrt_revoked r = None) (mrt st)) \<le> 1"
  using reach_one_live [OF assms] unfolding one_live_def live_def by blast

text \<open>\<^verbatim>\<open>ValidateJWT\<close> checks neither audience nor type, and mobile tokens are signed with the same secret. So
  the refresh token of a mobile session, sent as the web cookie, logs its holder in until it expires
  (thirty days as configured), whatever has become of the session: in any state in which the member may
  log in at all, also after every logout.\<close>

theorem refresh_token_is_a_web_session:
  assumes "jwt_library (jwt env)" "jwt env' = jwt env"
    and "Issue env m st = (Inr s, st1)" "int64 (am_USRSeq m)" "am_USRSeq m \<noteq> 0" "RefreshToken s \<noteq> []"
    and "au_now env \<le> au_now env'" "au_now env' < RefreshExpiresAt s"
    and "extractBearerToken (Authorization r) = None" "alumni_token r = Some (RefreshToken s)"
    and "GetLoginAllowedUser env' (am_USRSeq m) st' = Inr (Some u)"
  shows "AuthMiddleware env' r st' = Some u"
proof -
  from assms(3) obtain a where a: "GetAuthPrincipalBySeq env (am_USRSeq m) st = Inr (Some a)"
    and sign: "jwt_sign (jwt env) (mobile_claims env a (new_sid env) mobileTokenTypeRefresh (RefreshTokenTTL env) (new_jti env)) = Some (RefreshToken s)"
    and e: "RefreshExpiresAt s = au_now env + RefreshTokenTTL env"
    by (auto simp: Issue_def generateMobileRefreshToken_def split: option.splits sum.splits if_splits)
  from a have seq: "USRSeq a = am_USRSeq m"
    by (auto simp: GetAuthPrincipalBySeq_def mapAuthPrincipal_def split: option.splits if_splits sum.splits dest!: sql_get_Some)
  have "ValidateJWT env' (RefreshToken s) = Inr (bare_user (am_USRSeq m) (USRName a) (USRStatus a) [])"
    using jwt_library.signed_is_web_token [OF assms(1,2) sign, of "am_USRSeq m"] assms(4,5,7,8) e seq
    by (simp add: claims_ok_def mobile_claims_def)
  then show ?thesis
    using assms(6,9,10,11) by (simp add: AuthMiddleware_def resolveAuthUser_def nonempty_def bare_user_def)
qed

section \<open>A token library that meets the contract\<close>

text \<open>Claims printed field by field, each byte marked, with an end mark; a secret plays no part.\<close>

definition enc_field :: "string \<Rightarrow> string" where
  "enc_field x = concat (map (\<lambda>ch. [CHR ''1'', ch]) x) @ ''0''"

fun dec_fields :: "string \<Rightarrow> string \<Rightarrow> string list option" where
  "dec_fields acc [] = (if acc = [] then Some [] else None)"
| "dec_fields acc [m] = (if m = CHR ''0'' then Some [rev acc] else None)"
| "dec_fields acc (m # ch # rest) =
     (if m = CHR ''0'' then map_option ((#) (rev acc)) (dec_fields [] (ch # rest)) else dec_fields (ch # acc) rest)"

lemma dec_enc_field:
  "dec_fields acc (concat (map (\<lambda>ch. [CHR ''1'', ch]) x) @ CHR ''0'' # rest) = map_option ((#) (rev acc @ x)) (dec_fields [] rest)"
  by (induction x arbitrary: acc) (cases rest; simp)+

lemma dec_enc: "dec_fields [] (concat (map enc_field xs)) = Some xs"
  by (induction xs) (simp_all add: enc_field_def dec_enc_field)

definition dec_int :: "string \<Rightarrow> int option" where
  "dec_int t = (case go_Atoi t of (n, None) \<Rightarrow> Some n | _ \<Rightarrow> None)"

definition enc_subject :: "subject \<Rightarrow> string" where
  "enc_subject x = (case x of SubString t \<Rightarrow> CHR ''s'' # t | SubNumber n \<Rightarrow> CHR ''n'' # go_Itoa n | SubOther \<Rightarrow> ''o'')"

definition dec_subject :: "string \<Rightarrow> subject option" where
  "dec_subject t = (case t of
     [] \<Rightarrow> None
   | c # cs \<Rightarrow> if c = CHR ''s'' then Some (SubString cs) else if c = CHR ''n'' then map_option SubNumber (dec_int cs) else Some SubOther)"

definition ints_ok :: "jwt_claims \<Rightarrow> bool" where
  "ints_ok c \<longleftrightarrow> int64 (c_exp c) \<and> int64 (c_iat c) \<and> int64 (c_ver c) \<and> (case c_nbf c of None \<Rightarrow> True | Some n \<Rightarrow> int64 n)
     \<and> (case c_sub c of SubNumber n \<Rightarrow> int64 n | _ \<Rightarrow> True)"

definition to_fields :: "jwt_claims \<Rightarrow> string list" where
  "to_fields c = [c_iss c, c_aud c, enc_subject (c_sub c), c_name c, c_status c, go_Itoa (c_exp c), go_Itoa (c_iat c),
     (case c_nbf c of None \<Rightarrow> [] | Some n \<Rightarrow> go_Itoa n), c_typ c, go_Itoa (c_ver c), c_sid c, c_jti c]"

definition of_fields :: "string list \<Rightarrow> jwt_claims option" where
  "of_fields fs = (case fs of
     [iss, aud, sub, name, status, exp, iat, nbf, typ, ver, sid, jti] \<Rightarrow>
       (case (dec_subject sub, dec_int exp, dec_int iat, if nbf = [] then Some None else map_option Some (dec_int nbf), dec_int ver) of
          (Some s, Some e, Some i, Some n, Some v) \<Rightarrow>
            Some \<lparr>c_iss = iss, c_aud = aud, c_sub = s, c_name = name, c_status = status, c_exp = e, c_iat = i, c_nbf = n,
                  c_typ = typ, c_ver = v, c_sid = sid, c_jti = jti\<rparr>
        | _ \<Rightarrow> None)
   | _ \<Rightarrow> None)"

lemma dec_int_Itoa [simp]: "int64 n \<Longrightarrow> dec_int (go_Itoa n) = Some n"
  by (simp add: dec_int_def go_Atoi_Itoa)

lemma go_Itoa_nonempty: "go_Itoa n \<noteq> []"
  by (simp add: go_Itoa_def)

lemma of_to_fields: "ints_ok c \<Longrightarrow> of_fields (to_fields c) = Some c"
  by (cases c) (auto simp: ints_ok_def of_fields_def to_fields_def dec_subject_def enc_subject_def go_Itoa_nonempty
      split: option.splits subject.splits)

definition plain_jwt :: jwt_ops where
  "plain_jwt = \<lparr>
     jwt_sign = (\<lambda>c. if ints_ok c then Some (concat (map enc_field (to_fields c))) else None),
     jwt_parse = (\<lambda>now req t. case dec_fields [] t of
        None \<Rightarrow> None
      | Some fs \<Rightarrow> (case of_fields fs of None \<Rightarrow> None | Some c \<Rightarrow> if claims_ok now req c then Some c else None))\<rparr>"

interpretation plain: jwt_library plain_jwt
  by unfold_locales (auto simp: plain_jwt_def dec_enc of_to_fields split: option.splits if_splits)

section \<open>A worked session\<close>

definition demo_aenv :: "int \<Rightarrow> string \<Rightarrow> au_env" where
  "demo_aenv now jti = \<lparr>au_now = now, au_sql_now = now, au_fault = (\<lambda>_. None), jwt = plain_jwt, MaxAge = 86400,
     AccessTokenTTL = 900, RefreshTokenTTL = 2592000, new_sid = ''S'', new_access_jti = ''A'', new_jti = jti\<rparr>"

definition demo_member :: au_member where
  "demo_member = \<lparr>am_USRSeq = 7, am_USRID = ''kim'', am_USRName = ''Kim'', am_USRStatus = ''CCC'', am_Email = None,
     am_TotalLogCnt = 0, am_LastLogDate = None\<rparr>"

definition demo_ast :: au_state where
  "demo_ast = \<lparr>mrt = [], login_logs = [], au_members = [demo_member], au_verifications = [], admin_roles = [],
     push_devices = [], challenges = [], code_replays = []\<rparr>"

definition demo_session :: "MobileSession" where
  "demo_session = (case fst (Issue (demo_aenv 100 ''J1'') demo_member demo_ast) of Inr s \<Rightarrow> s)"

definition demo_issued :: au_state where
  "demo_issued = snd (Issue (demo_aenv 100 ''J1'') demo_member demo_ast)"

definition demo_rotated :: au_state where
  "demo_rotated = snd (Rotate (demo_aenv 200 ''J2'') (RefreshToken demo_session) demo_issued)"

definition demo_request :: auth_request where
  "demo_request = \<lparr>Authorization = ''Bearer '' @ AccessToken demo_session, alumni_token = None, DDusrSession_id = None\<rparr>"

definition demo_user :: AuthUser where
  "demo_user = bare_user 7 ''Kim'' ''CCC'' ''S''"

lemma demo_validates:
  "ValidateMobileRefreshToken (demo_aenv 200 ''J2'') (RefreshToken demo_session) = Inr (demo_user, ''J1'')"
  by code_simp

lemma demo_access:
  "ValidateMobileAccessToken (demo_aenv 310 ''J4'') (AccessToken demo_session) = Inr demo_user"
  "extractBearerToken (Authorization demo_request) = Some (AccessToken demo_session)"
  by code_simp+

lemma demo_reuse:
  "is_ok (fst (Rotate (demo_aenv 200 ''J2'') (RefreshToken demo_session) demo_issued))"
  "fst (Rotate (demo_aenv 300 ''J3'') (RefreshToken demo_session) demo_rotated) = Inl ErrRefreshTokenReplay"
  by code_simp+

lemma demo_env_jwt [simp]: "jwt (demo_aenv t j) = plain_jwt" "au_now (demo_aenv t j) = t"
  by (simp_all add: demo_aenv_def)



lemma one_live_refresh_token_witness:
  "length (filter (\<lambda>r. in_session 7 ''S'' r \<and> mrt_consumed r = None \<and> mrt_revoked r = None) (mrt demo_issued)) \<le> 1"
proof (rule one_live_refresh_token)
  have "au_reach (au_step demo_ast (OpIssue (demo_aenv 100 ''J1'') demo_member))"
    by (intro au_reach.step au_reach.init) (simp_all add: demo_ast_def)
  then show "au_reach demo_issued" by (simp add: demo_issued_def)
qed

lemma refresh_token_is_a_web_session_witness:
  "\<exists>u. AuthMiddleware (demo_aenv 500 ''J5'') \<lparr>Authorization = [], alumni_token = Some (RefreshToken demo_session), DDusrSession_id = None\<rparr>
     (snd (snd (LogoutAll (demo_aenv 250 ''J9'') 7 demo_issued))) = Some u \<and> USRSeq u = 7"
proof -
  let ?st = "snd (snd (LogoutAll (demo_aenv 250 ''J9'') 7 demo_issued))"
  have "is_ok (fst (Issue (demo_aenv 100 ''J1'') demo_member demo_ast))" by code_simp
  then have i: "Issue (demo_aenv 100 ''J1'') demo_member demo_ast = (Inr demo_session, demo_issued)"
    unfolding demo_session_def demo_issued_def is_ok_iff by (cases "Issue (demo_aenv 100 ''J1'') demo_member demo_ast") auto
  have "map_option USRSeq (case GetLoginAllowedUser (demo_aenv 500 ''J5'') 7 ?st of Inr (Some u) \<Rightarrow> Some u | _ \<Rightarrow> None) = Some 7" by code_simp
  then obtain u where u: "GetLoginAllowedUser (demo_aenv 500 ''J5'') 7 ?st = Inr (Some u)" "USRSeq u = 7"
    by (auto split: sum.splits option.splits)
  have x: "RefreshToken demo_session \<noteq> []" "500 < RefreshExpiresAt demo_session" "extractBearerToken [] = None" by code_simp+
  have "AuthMiddleware (demo_aenv 500 ''J5'') \<lparr>Authorization = [], alumni_token = Some (RefreshToken demo_session), DDusrSession_id = None\<rparr> ?st = Some u"
    by (rule refresh_token_is_a_web_session [OF _ _ i])
       (use x u plain.jwt_library_axioms in \<open>simp_all add: demo_member_def\<close>)
  with u show ?thesis by blast
qed

end
