(* ===== verification/Tx_Monad.thy ===== *)
theory Tx_Monad
  imports Prelude
begin

text \<open>
  Database transactions as a state and error monad: a body returns its error, which rolls the
  transaction back, or its value and the new state. A locale states what a relation between the states
  before and after needs so that the statements of a body establish it for the whole transaction.
\<close>

type_synonym ('e, 's, 'a) tx = "'s \<Rightarrow> ('e, 'a \<times> 's) result"

definition tx_return :: "'a \<Rightarrow> ('e, 's, 'a) tx" where
  "tx_return a s = Inr (a, s)"

definition tx_fail :: "'e \<Rightarrow> ('e, 's, 'a) tx" where
  "tx_fail e s = Inl e"

definition tx_bind :: "('e, 's, 'a) tx \<Rightarrow> ('a \<Rightarrow> ('e, 's, 'b) tx) \<Rightarrow> ('e, 's, 'b) tx" where
  "tx_bind m f s = (case m s of Inl e \<Rightarrow> Inl e | Inr (a, s') \<Rightarrow> f a s')"

definition tx_then :: "('e, 's, 'a) tx \<Rightarrow> ('e, 's, 'b) tx \<Rightarrow> ('e, 's, 'b) tx" where
  "tx_then m m' = tx_bind m (\<lambda>_. m')"

primrec tx_seq :: "('e, 's, unit) tx list \<Rightarrow> ('e, 's, unit) tx" where
  "tx_seq [] = tx_return ()"
| "tx_seq (m # ms) = tx_then m (tx_seq ms)"

text \<open>A condition under which the Go function returns early with an error.\<close>

definition tx_guard :: "bool \<Rightarrow> 'e \<Rightarrow> ('e, 's, unit) tx" where
  "tx_guard b e = (if b then tx_return () else tx_fail e)"

text \<open>Statements: each may fail on its own (\<open>Some e\<close>), in which case the server has done nothing. \<open>exec\<close> is a
  statement without a result, \<open>query\<close> one that reads, \<open>get_row\<close> a \<^verbatim>\<open>Get\<close> that fails with \<open>missing\<close> when no row
  matches, \<open>exec_count\<close> one whose affected count is read.\<close>

definition exec :: "'e option \<Rightarrow> ('s \<Rightarrow> 's) \<Rightarrow> ('e, 's, unit) tx" where
  "exec flt f s = (case flt of Some e \<Rightarrow> Inl e | None \<Rightarrow> Inr ((), f s))"

definition query :: "'e option \<Rightarrow> ('s \<Rightarrow> 'a) \<Rightarrow> ('e, 's, 'a) tx" where
  "query flt q s = (case flt of Some e \<Rightarrow> Inl e | None \<Rightarrow> Inr (q s, s))"

definition get_row :: "'e option \<Rightarrow> 'e \<Rightarrow> ('s \<Rightarrow> 'a option) \<Rightarrow> ('e, 's, 'a) tx" where
  "get_row flt missing q s =
     (case flt of Some e \<Rightarrow> Inl e
      | None \<Rightarrow> (case q s of None \<Rightarrow> Inl missing | Some a \<Rightarrow> Inr (a, s)))"

definition exec_count :: "'e option \<Rightarrow> ('s \<Rightarrow> 'a) \<Rightarrow> ('s \<Rightarrow> 's) \<Rightarrow> ('e, 's, 'a) tx" where
  "exec_count flt c f s = (case flt of Some e \<Rightarrow> Inl e | None \<Rightarrow> Inr (c s, f s))"

text \<open>\<^verbatim>\<open>Begin\<close>, the body, \<^verbatim>\<open>Commit\<close>, with \<^verbatim>\<open>defer tx.Rollback()\<close>.\<close>

definition transact :: "'e option \<Rightarrow> 'e option \<Rightarrow> ('e, 's, 'a) tx \<Rightarrow> 's \<Rightarrow> ('e, 'a) result \<times> 's" where
  "transact beginErr commitErr m s =
     (case beginErr of Some e \<Rightarrow> (Inl e, s) | None \<Rightarrow>
     (case m s of Inl e \<Rightarrow> (Inl e, s) | Inr (a, s') \<Rightarrow>
     (case commitErr of Some e \<Rightarrow> (Inl e, s) | None \<Rightarrow> (Inr a, s'))))"

text \<open>A body run statement by statement outside a transaction: what was done before an error stays. \<open>direct\<close> is
  only used for single statements, where the two agree.\<close>

definition direct :: "('e, 's, 'a) tx \<Rightarrow> 's \<Rightarrow> ('e, 'a) result \<times> 's" where
  "direct m s = (case m s of Inl e \<Rightarrow> (Inl e, s) | Inr (a, s') \<Rightarrow> (Inr a, s'))"

text \<open>The affected count of an \<^verbatim>\<open>UPDATE\<close> as MySQL reports it without \<^verbatim>\<open>clientFoundRows\<close>: rows that changed.\<close>

definition sql_changed :: "('r \<Rightarrow> bool) \<Rightarrow> ('r \<Rightarrow> 'r) \<Rightarrow> 'r list \<Rightarrow> nat" where
  "sql_changed p f t = length (filter (\<lambda>r. p r \<and> f r \<noteq> r) t)"

section \<open>What a body that succeeds has done\<close>

named_theorems tx_ok

lemma tx_return_ok [tx_ok]: "tx_return a s = Inr (b, s') \<longleftrightarrow> b = a \<and> s' = s"
  by (auto simp: tx_return_def)

lemma tx_fail_ok [tx_ok]: "tx_fail e s \<noteq> Inr x"
  by (simp add: tx_fail_def)

lemma tx_bind_ok [tx_ok]:
  "tx_bind m f s = Inr (b, s') \<longleftrightarrow> (\<exists>a s1. m s = Inr (a, s1) \<and> f a s1 = Inr (b, s'))"
  by (auto simp: tx_bind_def split: sum.splits prod.splits)

lemma tx_then_ok [tx_ok]:
  "tx_then m m' s = Inr (b, s') \<longleftrightarrow> (\<exists>a s1. m s = Inr (a, s1) \<and> m' s1 = Inr (b, s'))"
  by (simp add: tx_then_def tx_bind_ok)

lemma tx_guard_ok [tx_ok]: "tx_guard b e s = Inr (u, s') \<longleftrightarrow> b \<and> s' = s"
  by (auto simp: tx_guard_def tx_return_def tx_fail_def)

lemma exec_ok [tx_ok]: "exec flt f s = Inr (u, s') \<longleftrightarrow> flt = None \<and> s' = f s"
  by (auto simp: exec_def split: option.splits)

lemma query_ok [tx_ok]: "query flt q s = Inr (a, s') \<longleftrightarrow> flt = None \<and> a = q s \<and> s' = s"
  by (auto simp: query_def split: option.splits)

lemma get_row_ok [tx_ok]: "get_row flt e q s = Inr (a, s') \<longleftrightarrow> flt = None \<and> q s = Some a \<and> s' = s"
  by (auto simp: get_row_def split: option.splits)

lemma exec_count_ok [tx_ok]: "exec_count flt c f s = Inr (a, s') \<longleftrightarrow> flt = None \<and> a = c s \<and> s' = f s"
  by (auto simp: exec_count_def split: option.splits)

lemma transact_ok:
  "transact b c m s = (Inr a, s') \<longleftrightarrow> b = None \<and> c = None \<and> m s = Inr (a, s')"
  by (auto simp: transact_def split: option.splits sum.splits prod.splits)

lemma transact_error: "transact b c m s = (Inl e, s') \<Longrightarrow> s' = s"
  by (auto simp: transact_def split: option.splits sum.splits prod.splits)

lemma direct_ok: "direct m s = (Inr a, s') \<longleftrightarrow> m s = Inr (a, s')"
  by (auto simp: direct_def split: sum.splits prod.splits)

lemma direct_error: "direct m s = (Inl e, s') \<Longrightarrow> s' = s"
  by (auto simp: direct_def split: sum.splits prod.splits)

section \<open>Relations that bodies establish\<close>

text \<open>\<open>establishes R m\<close>: whenever the body succeeds, \<open>R\<close> relates the state before to the state after. For a
  reflexive and transitive relation this follows statement by statement.\<close>

definition establishes :: "('s \<Rightarrow> 's \<Rightarrow> bool) \<Rightarrow> ('e, 's, 'a) tx \<Rightarrow> bool" where
  "establishes R m \<longleftrightarrow> (\<forall>s a s'. m s = Inr (a, s') \<longrightarrow> R s s')"

locale tx_relation =
  fixes R :: "'s \<Rightarrow> 's \<Rightarrow> bool"
  assumes R_refl: "R s s"
    and R_trans: "R s t \<Longrightarrow> R t u \<Longrightarrow> R s u"
begin

lemma est_return: "establishes R (tx_return a)"
  by (simp add: establishes_def tx_ok R_refl)

lemma est_fail: "establishes R (tx_fail e)"
  by (simp add: establishes_def tx_ok)

lemma est_guard: "establishes R (tx_guard b e)"
  by (auto simp: establishes_def tx_ok R_refl)

lemma est_query: "establishes R (query flt q)"
  by (auto simp: establishes_def tx_ok R_refl)

lemma est_get_row: "establishes R (get_row flt e q)"
  by (auto simp: establishes_def tx_ok R_refl)

lemma est_exec: "(\<And>s. R s (f s)) \<Longrightarrow> establishes R (exec flt f)"
  by (auto simp: establishes_def tx_ok)

lemma est_exec_count: "(\<And>s. R s (f s)) \<Longrightarrow> establishes R (exec_count flt c f)"
  by (auto simp: establishes_def tx_ok)

lemma est_bind: "establishes R m \<Longrightarrow> (\<And>a. establishes R (f a)) \<Longrightarrow> establishes R (tx_bind m f)"
  unfolding establishes_def tx_bind_ok by (blast intro: R_trans)

lemma est_then: "establishes R m \<Longrightarrow> establishes R m' \<Longrightarrow> establishes R (tx_then m m')"
  unfolding tx_then_def by (rule est_bind)

lemma est_if: "establishes R m \<Longrightarrow> establishes R m' \<Longrightarrow> establishes R (if b then m else m')"
  by simp

lemma est_case_option:
  "establishes R m \<Longrightarrow> (\<And>x. establishes R (f x)) \<Longrightarrow> establishes R (case z of None \<Rightarrow> m | Some x \<Rightarrow> f x)"
  by (cases z) auto

lemma est_Let: "(\<And>x. establishes R (f x)) \<Longrightarrow> establishes R (Let v f)"
  by (simp add: Let_def)

lemma est_seq_Nil: "establishes R (tx_seq [])"
  by (simp add: est_return)

lemma est_seq_Cons: "establishes R m \<Longrightarrow> establishes R (tx_seq ms) \<Longrightarrow> establishes R (tx_seq (m # ms))"
  by (simp add: est_then)

lemmas est_rules = est_seq_Nil est_seq_Cons est_return est_fail est_guard est_query est_get_row est_exec est_exec_count
  est_bind est_then est_if est_case_option est_Let

lemma est_transact: "establishes R m \<Longrightarrow> R s (snd (transact b c m s))"
  by (auto simp: establishes_def transact_def R_refl split: option.splits sum.splits prod.splits)

lemma est_direct: "establishes R m \<Longrightarrow> R s (snd (direct m s))"
  by (auto simp: establishes_def direct_def R_refl split: sum.splits prod.splits)

lemma est_run:
  assumes "\<And>s x. ok x \<Longrightarrow> R s (step s x)"
  shows "list_all ok xs \<Longrightarrow> R s (run step s xs)"
  by (induction xs arbitrary: s) (auto intro: R_refl R_trans assms)

end

end
