(* ===== verification/Account_Deletion.thy ===== *)
theory Account_Deletion
  imports Tx_Monad Go_Strings
begin

text \<open>
  Account deletion requests: the receipt a member gets, cancellation while nothing has started, the
  operator's queue, the per-storage targets and the verified completion
  (\<^verbatim>\<open>repository/account_deletion_*.go\<close>, \<^verbatim>\<open>repository/account_erasure_repo.go\<close>, \<^verbatim>\<open>account_erasure_schedule.go\<close>,
  \<^verbatim>\<open>account_erasure_targets.go\<close>, \<^verbatim>\<open>account_erasure_context.go\<close>, \<^verbatim>\<open>account_erasure_restore.go\<close>,
  \<^verbatim>\<open>erasure_receipt_work.go\<close>, and the trigger of \<^verbatim>\<open>migrations/067_cancel_account_deletion.sql\<close>).
  \<^verbatim>\<open>DATETIME\<close> columns hold UTC seconds, a \<^verbatim>\<open>DATE\<close> its text.
\<close>

section \<open>Tables\<close>

record del_request =
  dr_id :: int
  dr_usr :: "int option"
  dr_receipt :: string
  dr_status :: string
  dr_apple :: bool
  dr_kakao :: bool
  dr_requested :: int
  dr_target :: int
  dr_due :: int
  dr_completed :: "int option"
  dr_operator :: "int option"
  dr_evidence :: string
  dr_retained :: string
  dr_until :: "string option"

record erasure_schedule =
  es_id :: int
  es_scheduled :: int
  es_expedited :: "int option"
  es_by :: "int option"
  es_created :: int

record cancellation =
  cx_id :: int
  cx_original :: string
  cx_hash :: string
  cx_blocked :: bool
  cx_started :: "int option"
  cx_cancelled :: "int option"

record account_erasure =
  er_id :: int
  er_mode :: string
  er_stage :: string
  er_code :: string
  er_next :: int
  er_evidence :: string
  er_updated :: int

record erasure_target =
  et_id :: int
  et_name :: string
  et_status :: string
  et_evidence :: string
  et_code :: string
  et_attempts :: int
  et_last_attempt :: "int option"
  et_wait_count :: int
  et_wait_until :: "int option"
  et_updated :: int

record receipt_work =
  rw_id :: int
  rw_status :: string
  rw_storage :: string
  rw_evidence :: string
  rw_operator :: "int option"
  rw_updated :: int
  rw_completed :: "int option"

record del_intake =
  in_id :: int
  in_operator :: int
  in_evidence :: string
  in_created :: int

record revocation =
  ob_usr :: int
  ob_provider :: string
  ob_action :: string
  ob_status :: string
  ob_attempts :: int
  ob_next :: int
  ob_claim :: "string option"
  ob_error :: "string option"
  ob_created :: int
  ob_updated :: int

record dl_member =
  dm_seq :: int
  dm_status :: "string option"

record erasure_file =
  ef_id :: int
  ef_request :: int
  ef_url :: string

record erasure_context =
  ec_id :: int
  ec_cipher :: string
  ec_expires :: int
  ec_created :: int

record restore_guard =
  rg_id :: int
  rg_usr :: int
  rg_completed :: int
  rg_expires :: int

text \<open>\<open>other_refs\<close> are the rows of all further tables that refer to a member: table, column, member.\<close>

record dl_state =
  requests :: "del_request list"
  request_next :: int
  schedules :: "erasure_schedule list"
  cancellations :: "cancellation list"
  erasures :: "account_erasure list"
  targets :: "erasure_target list"
  works :: "receipt_work list"
  intakes :: "del_intake list"
  outbox :: "revocation list"
  dl_members :: "dl_member list"
  dl_roles :: "(int \<times> string) list"
  socials :: "(int \<times> string) list"
  files :: "erasure_file list"
  contexts :: "erasure_context list"
  guards :: "restore_guard list"
  other_refs :: "(string \<times> string \<times> int) list"

datatype dl_error =
    DbError string | ErrNoRows | ErrDeletionIncomplete | ErrDeletionReceiptConflict
  | ErrDeletionCancellationClosed | ErrErasurePlanChanged | NotTransactional | ValidationError string
  | ErasureBlocked string | RandomFailed | ContextDone

text \<open>The clock of the server (\<^verbatim>\<open>UTC_TIMESTAMP()\<close>), its session time (\<^verbatim>\<open>NOW()\<close>), the statements that fail, the
  outcome of \<^verbatim>\<open>GET_LOCK\<close>, the configuration of the repository, the engine of the member table, the columns of
  the base tables in the order of the information schema query, and the offset of the driver's location.\<close>

record dl_env =
  dl_now :: int
  dl_local :: int
  dl_fault :: "string \<Rightarrow> string option"
  lock_free :: bool
  WaitHours :: int
  TestUserSeq :: int
  engine :: string
  base_columns :: "(string \<times> string) list"
  loc_offset :: int

definition flt :: "dl_env \<Rightarrow> string \<Rightarrow> dl_error option" where
  "flt env l = map_option DbError (dl_fault env l)"

definition hours :: "int \<Rightarrow> int" where "hours n = n * 3600"
definition days :: "int \<Rightarrow> int" where "days n = n * 86400"

definition ErasureTargetNames :: "string list" where
  "ErasureTargetNames = [''backups'', ''historical_files'', ''external_data'', ''other_identifiers'']"

definition open_status :: "string \<Rightarrow> bool" where
  "open_status s = (s = ''pending'' \<or> s = ''processing'')"

definition settled :: "string \<Rightarrow> bool" where
  "settled s = (s = ''complete'' \<or> s = ''not_applicable'')"

text \<open>The rows of a request, by their primary key.\<close>

definition request_row :: "int \<Rightarrow> dl_state \<Rightarrow> del_request option" where
  "request_row i s = sql_get (\<lambda>r. dr_id r = i) (requests s)"

definition cancellation_row :: "int \<Rightarrow> dl_state \<Rightarrow> cancellation option" where
  "cancellation_row i s = sql_get (\<lambda>c. cx_id c = i) (cancellations s)"

definition erasure_row :: "int \<Rightarrow> dl_state \<Rightarrow> account_erasure option" where
  "erasure_row i s = sql_get (\<lambda>e. er_id e = i) (erasures s)"

definition schedule_row :: "int \<Rightarrow> dl_state \<Rightarrow> erasure_schedule option" where
  "schedule_row i s = sql_get (\<lambda>e. es_id e = i) (schedules s)"

definition member_status :: "int \<Rightarrow> dl_state \<Rightarrow> string option option" where
  "member_status u s = map_option dm_status (sql_get (\<lambda>m. dm_seq m = u) (dl_members s))"

text \<open>Statements on one table.\<close>

definition upd_requests :: "(del_request \<Rightarrow> bool) \<Rightarrow> (del_request \<Rightarrow> del_request) \<Rightarrow> dl_state \<Rightarrow> dl_state" where
  "upd_requests p f s = s\<lparr>requests := sql_update p f (requests s)\<rparr>"

definition upd_cancellations :: "(cancellation \<Rightarrow> bool) \<Rightarrow> (cancellation \<Rightarrow> cancellation) \<Rightarrow> dl_state \<Rightarrow> dl_state" where
  "upd_cancellations p f s = s\<lparr>cancellations := sql_update p f (cancellations s)\<rparr>"

definition upd_erasures :: "(account_erasure \<Rightarrow> bool) \<Rightarrow> (account_erasure \<Rightarrow> account_erasure) \<Rightarrow> dl_state \<Rightarrow> dl_state" where
  "upd_erasures p f s = s\<lparr>erasures := sql_update p f (erasures s)\<rparr>"

definition upd_targets :: "(erasure_target \<Rightarrow> bool) \<Rightarrow> (erasure_target \<Rightarrow> erasure_target) \<Rightarrow> dl_state \<Rightarrow> dl_state" where
  "upd_targets p f s = s\<lparr>targets := sql_update p f (targets s)\<rparr>"

definition upd_works :: "(receipt_work \<Rightarrow> bool) \<Rightarrow> (receipt_work \<Rightarrow> receipt_work) \<Rightarrow> dl_state \<Rightarrow> dl_state" where
  "upd_works p f s = s\<lparr>works := sql_update p f (works s)\<rparr>"

definition upd_schedules :: "(erasure_schedule \<Rightarrow> bool) \<Rightarrow> (erasure_schedule \<Rightarrow> erasure_schedule) \<Rightarrow> dl_state \<Rightarrow> dl_state" where
  "upd_schedules p f s = s\<lparr>schedules := sql_update p f (schedules s)\<rparr>"

definition upd_outbox :: "(revocation \<Rightarrow> bool) \<Rightarrow> (revocation \<Rightarrow> revocation) \<Rightarrow> dl_state \<Rightarrow> dl_state" where
  "upd_outbox p f s = s\<lparr>outbox := sql_update p f (outbox s)\<rparr>"

text \<open>An update of a member row fires the trigger: a pending request of a member that was already
  disabled can no longer be cancelled.\<close>

definition pending_of :: "int \<Rightarrow> dl_state \<Rightarrow> int \<Rightarrow> bool" where
  "pending_of u s i = (\<exists>r \<in> set (requests s). dr_id r = i \<and> dr_usr r = Some u \<and> dr_status r = ''pending'')"

definition restore_guard_trigger :: "int \<Rightarrow> dl_state \<Rightarrow> dl_state" where
  "restore_guard_trigger u s =
     (if \<exists>m \<in> set (dl_members s). dm_seq m = u \<and> dm_status m = Some ''AAA''
      then upd_cancellations (\<lambda>c. pending_of u s (cx_id c)) (\<lambda>c. c\<lparr>cx_blocked := True\<rparr>) s else s)"

definition set_member_status :: "int \<Rightarrow> string \<Rightarrow> dl_state \<Rightarrow> dl_state" where
  "set_member_status u v s =
     (restore_guard_trigger u s)\<lparr>dl_members := sql_update (\<lambda>m. dm_seq m = u) (\<lambda>m. m\<lparr>dm_status := Some v\<rparr>) (dl_members s)\<rparr>"

section \<open>Receipts\<close>

record AccountDeletionReceipt =
  CanCancel :: bool
  CancelledAt :: "int option"
  ScheduledAt :: "int option"
  ExpeditedAt :: "int option"
  NeedsAttention :: bool
  ReceiptWorkPending :: bool
  DatabaseErased :: bool
  ReceiptID :: int
  ReceiptStatus :: string
  RequestedAt :: int
  TargetAt :: int
  DueAt :: int
  CompletedAt :: "int option"
  RetainedRecords :: string
  RetentionUntil :: "string option"

text \<open>The driver reads a \<^verbatim>\<open>DATETIME\<close> as wall clock time of its location, so the instant it returns is early by
  the offset; \<open>deletionTimeUTC\<close> takes the same wall clock time as UTC.\<close>

definition scan_time :: "dl_env \<Rightarrow> int \<Rightarrow> int" where
  "scan_time env t = t - loc_offset env"

definition deletionTimeUTC :: "dl_env \<Rightarrow> int \<Rightarrow> int" where
  "deletionTimeUTC env t = t + loc_offset env"

definition restorable :: "string \<Rightarrow> bool" where
  "restorable x = (x = ''CCC'' \<or> x = ''BBB'' \<or> x = ''BAA'' \<or> x = ''ZZZ'')"

definition can_cancel :: "dl_state \<Rightarrow> del_request \<Rightarrow> bool" where
  "can_cancel s r =
     (\<exists>c \<in> set (cancellations s). \<exists>m \<in> set (dl_members s).
        dr_usr r = Some (dm_seq m) \<and> cx_id c = dr_id r \<and> cx_hash c \<noteq> [] \<and> restorable (cx_original c)
        \<and> \<not> cx_blocked c \<and> cx_started c = None \<and> dm_status m = Some ''AAA'' \<and> dr_status r = ''pending''
        \<and> (\<forall>t \<in> set (targets s). et_id t = cx_id c \<longrightarrow> et_status t = ''pending'' \<or> et_status t = ''manual''))"

definition deletionReceiptColumns :: "dl_env \<Rightarrow> dl_state \<Rightarrow> del_request \<Rightarrow> AccountDeletionReceipt" where
  "deletionReceiptColumns env s r =
     \<lparr>CanCancel = can_cancel s r,
      CancelledAt = map_option (scan_time env) (Option.bind (cancellation_row (dr_id r) s) cx_cancelled),
      ScheduledAt = map_option (scan_time env \<circ> es_scheduled) (schedule_row (dr_id r) s),
      ExpeditedAt = map_option (scan_time env) (Option.bind (schedule_row (dr_id r) s) es_expedited),
      NeedsAttention = (\<exists>e \<in> set (erasures s). er_id e = dr_id r \<and> (er_mode e = ''manual'' \<or> er_code e \<noteq> [])),
      ReceiptWorkPending = (\<exists>w \<in> set (works s). rw_id w = dr_id r \<and> rw_status w = ''active''),
      DatabaseErased = (\<exists>e \<in> set (erasures s). er_id e = dr_id r \<and> (er_stage e = ''database_erased'' \<or> er_stage e = ''completed'')),
      ReceiptID = dr_id r, ReceiptStatus = dr_status r,
      RequestedAt = scan_time env (dr_requested r), TargetAt = scan_time env (dr_target r), DueAt = scan_time env (dr_due r),
      CompletedAt = map_option (scan_time env) (dr_completed r),
      RetainedRecords = dr_retained r, RetentionUntil = dr_until r\<rparr>"

definition normalizeDeletionReceiptTimes :: "dl_env \<Rightarrow> AccountDeletionReceipt \<Rightarrow> AccountDeletionReceipt" where
  "normalizeDeletionReceiptTimes env c =
     (let c = (if ReceiptStatus c = ''cancelled''
               then c\<lparr>CompletedAt := None, NeedsAttention := False, ReceiptWorkPending := False\<rparr> else c)
      in c\<lparr>CancelledAt := map_option (deletionTimeUTC env) (CancelledAt c),
           ScheduledAt := map_option (deletionTimeUTC env) (ScheduledAt c),
           ExpeditedAt := map_option (deletionTimeUTC env) (ExpeditedAt c),
           RequestedAt := deletionTimeUTC env (RequestedAt c), TargetAt := deletionTimeUTC env (TargetAt c),
           DueAt := deletionTimeUTC env (DueAt c), CompletedAt := map_option (deletionTimeUTC env) (CompletedAt c)\<rparr>)"

section \<open>Creating a request\<close>

definition insert_request :: "dl_env \<Rightarrow> int \<Rightarrow> string \<Rightarrow> dl_state \<Rightarrow> dl_state" where
  "insert_request env u h s =
     s\<lparr>requests := requests s @ [\<lparr>dr_id = request_next s, dr_usr = Some u, dr_receipt = h, dr_status = ''pending'',
          dr_apple = ((u, ''AP'') \<in> set (socials s)), dr_kakao = ((u, ''KT'') \<in> set (socials s)),
          dr_requested = dl_now env, dr_target = dl_now env + days 3, dr_due = dl_now env + days 10,
          dr_completed = None, dr_operator = None, dr_evidence = [], dr_retained = [], dr_until = None\<rparr>],
       request_next := request_next s + 1\<rparr>"

definition insert_schedule :: "dl_env \<Rightarrow> int \<Rightarrow> dl_state \<Rightarrow> dl_state" where
  "insert_schedule env i s =
     (if \<exists>e \<in> set (schedules s). es_id e = i then s
      else s\<lparr>schedules := schedules s @ [\<lparr>es_id = i, es_scheduled = dl_now env + hours (WaitHours env),
               es_expedited = None, es_by = None, es_created = dl_now env\<rparr>]\<rparr>)"

definition schedule_targets :: "int \<Rightarrow> dl_state \<Rightarrow> dl_state" where
  "schedule_targets i s =
     (case schedule_row i s of
        None \<Rightarrow> s
      | Some e \<Rightarrow> upd_requests (\<lambda>r. dr_id r = i) (\<lambda>r. r\<lparr>dr_target := es_scheduled e, dr_due := es_scheduled e + days 10\<rparr>) s)"

definition insert_cancellation :: "int \<Rightarrow> string \<Rightarrow> string \<Rightarrow> dl_state \<Rightarrow> dl_state" where
  "insert_cancellation i original h s =
     (if \<exists>c \<in> set (cancellations s). cx_id c = i then s
      else s\<lparr>cancellations := cancellations s @ [\<lparr>cx_id = i, cx_original = original, cx_hash = h, cx_blocked = False,
               cx_started = None, cx_cancelled = None\<rparr>]\<rparr>)"

definition insert_erasure :: "dl_env \<Rightarrow> int \<Rightarrow> dl_state \<Rightarrow> dl_state" where
  "insert_erasure env i s =
     (case schedule_row i s of
        None \<Rightarrow> s
      | Some e \<Rightarrow>
          if \<exists>x \<in> set (erasures s). er_id x = i then s
          else s\<lparr>erasures := erasures s @ [\<lparr>er_id = i, er_mode = ''automatic'', er_stage = ''queued'', er_code = [],
                  er_next = es_scheduled e, er_evidence = [], er_updated = dl_now env\<rparr>]\<rparr>)"

definition seed_target :: "dl_env \<Rightarrow> int \<Rightarrow> string \<Rightarrow> dl_state \<Rightarrow> dl_state" where
  "seed_target env i name s =
     (if \<exists>t \<in> set (targets s). et_id t = i \<and> et_name t = name then s
      else s\<lparr>targets := targets s @ [\<lparr>et_id = i, et_name = name, et_status = ''pending'', et_evidence = [], et_code = [],
               et_attempts = 0, et_last_attempt = None, et_wait_count = 0, et_wait_until = None, et_updated = dl_now env\<rparr>]\<rparr>)"

fun seed_targets :: "dl_env \<Rightarrow> int \<Rightarrow> string list \<Rightarrow> (dl_error, dl_state, unit) tx" where
  "seed_targets env i [] = tx_return ()"
| "seed_targets env i (n # ns) = tx_then (exec (flt env (''target.'' @ n)) (seed_target env i n)) (seed_targets env i ns)"

definition seedErasureTargets :: "dl_env \<Rightarrow> int \<Rightarrow> (dl_error, dl_state, unit) tx" where
  "seedErasureTargets env i = seed_targets env i ErasureTargetNames"

definition insert_work :: "dl_env \<Rightarrow> int \<Rightarrow> dl_state \<Rightarrow> dl_state" where
  "insert_work env i s =
     (if \<exists>w \<in> set (works s). rw_id w = i then s
      else s\<lparr>works := works s @ [\<lparr>rw_id = i, rw_status = ''unreviewed'', rw_storage = [], rw_evidence = [],
               rw_operator = None, rw_updated = dl_now env, rw_completed = None\<rparr>]\<rparr>)"

definition request_of_user :: "int \<Rightarrow> dl_state \<Rightarrow> del_request option" where
  "request_of_user u s = sql_get (\<lambda>r. dr_usr r = Some u) (requests s)"

text \<open>A statement keyed by the request of the member: \<^verbatim>\<open>... FROM ALUMNI_ACCOUNT_DELETION_REQUEST WHERE USR_SEQ=?\<close>.\<close>

definition for_request :: "int \<Rightarrow> (int \<Rightarrow> dl_state \<Rightarrow> dl_state) \<Rightarrow> dl_state \<Rightarrow> dl_state" where
  "for_request u f s = (case request_of_user u s of None \<Rightarrow> s | Some r \<Rightarrow> f (dr_id r) s)"

definition new_request :: "dl_env \<Rightarrow> int \<Rightarrow> string \<Rightarrow> (dl_error, dl_state, unit) tx" where
  "new_request env u receiptHash =
     tx_bind (query None (\<lambda>s. \<exists>r \<in> set (requests s). dr_receipt r = receiptHash)) (\<lambda>dup.
     tx_seq [tx_guard (\<not> dup) (DbError ''duplicate key''),
             exec (flt env ''request.insert'') (insert_request env u receiptHash)])"

text \<open>The schedule, the snapshot of the original status, and then the account is disabled.\<close>

definition disable_account :: "dl_env \<Rightarrow> int \<Rightarrow> string \<Rightarrow> string \<Rightarrow> (dl_error, dl_state, unit) tx" where
  "disable_account env u cancelHash status =
     tx_seq [exec (flt env ''schedule.insert'') (for_request u (insert_schedule env)),
             exec (flt env ''request.schedule'') (for_request u schedule_targets),
             exec (flt env ''cancellation.insert'') (for_request u (\<lambda>i. insert_cancellation i status cancelHash)),
             exec (flt env ''member.disable'') (set_member_status u ''AAA''),
             exec (flt env ''role.delete'') (\<lambda>s. s\<lparr>dl_roles := sql_delete (\<lambda>x. fst x = u) (dl_roles s)\<rparr>)]"

definition queue_erasure :: "dl_env \<Rightarrow> int \<Rightarrow> (dl_error, dl_state, unit) tx \<Rightarrow> (dl_error, dl_state, unit) tx" where
  "queue_erasure env i before =
     tx_seq [exec (flt env ''erasure.insert'') (insert_erasure env i),
             seedErasureTargets env i,
             exec (flt env ''work.insert'') (insert_work env i),
             before]"

definition read_receipt :: "dl_env \<Rightarrow> int \<Rightarrow> (dl_error, dl_state, AccountDeletionReceipt) tx" where
  "read_receipt env u = get_row (flt env ''receipt.read'') ErrNoRows (\<lambda>s. map_option (deletionReceiptColumns env s) (request_of_user u s))"

definition new_receipt ::
  "dl_env \<Rightarrow> int \<Rightarrow> string \<Rightarrow> string \<Rightarrow> string \<Rightarrow> (int \<Rightarrow> (dl_error, dl_state, unit) tx) \<Rightarrow> (dl_error, dl_state, AccountDeletionReceipt) tx" where
  "new_receipt env u receiptHash cancelHash status before =
     tx_then (new_request env u receiptHash) (
     tx_then (disable_account env u cancelHash status) (
     tx_bind (read_receipt env u) (\<lambda>result.
     tx_then (queue_erasure env (ReceiptID result) (before (ReceiptID result)))
       (tx_return (normalizeDeletionReceiptTimes env result)))))"

definition createReceipt ::
  "dl_env \<Rightarrow> int \<Rightarrow> string \<Rightarrow> string \<Rightarrow> (int \<Rightarrow> (dl_error, dl_state, unit) tx) \<Rightarrow> dl_state
    \<Rightarrow> (dl_error, AccountDeletionReceipt) result \<times> dl_state" where
  "createReceipt env u receiptHash cancelHash before s =
     (if WaitHours env \<le> 0 \<or> WaitHours env > 24 * 30 then (Inl (ValidationError ''wait''), s)
      else (case flt env ''engine'' of Some e \<Rightarrow> (Inl e, s) | None \<Rightarrow>
      if engine env \<noteq> ''InnoDB'' then (Inl NotTransactional, s)
      else transact (flt env ''begin'') (flt env ''commit'')
        (tx_bind (get_row (flt env ''member.lock'') ErrNoRows (member_status u)) (\<lambda>st.
         tx_bind (get_row None (DbError ''converting NULL to string'') (\<lambda>_. st)) (\<lambda>status.
         tx_bind (query (flt env ''request.read'') (request_of_user u)) (\<lambda>existing.
         case existing of
           Some r \<Rightarrow>
             tx_then (tx_guard (dr_receipt r = receiptHash) ErrDeletionReceiptConflict)
               (tx_bind (read_receipt env u) (\<lambda>c. tx_return (normalizeDeletionReceiptTimes env c)))
         | None \<Rightarrow> new_receipt env u receiptHash cancelHash status before)))) s))"

definition repo_CreateCancelable ::
  "dl_env \<Rightarrow> int \<Rightarrow> string \<Rightarrow> string \<Rightarrow> dl_state \<Rightarrow> (dl_error, AccountDeletionReceipt) result \<times> dl_state" where
  "repo_CreateCancelable env u receiptHash cancelHash s = createReceipt env u receiptHash cancelHash (\<lambda>_. tx_return ()) s"

definition repo_Create :: "dl_env \<Rightarrow> int \<Rightarrow> string \<Rightarrow> dl_state \<Rightarrow> (dl_error, AccountDeletionReceipt) result \<times> dl_state" where
  "repo_Create env u receiptHash s = repo_CreateCancelable env u receiptHash [] s"

definition insert_intake :: "dl_env \<Rightarrow> int \<Rightarrow> string \<Rightarrow> int \<Rightarrow> (dl_error, dl_state, unit) tx" where
  "insert_intake env operator evidence i =
     tx_bind (query None (\<lambda>s. \<exists>x \<in> set (intakes s). in_id x = i)) (\<lambda>dup.
     tx_then (tx_guard (\<not> dup) (DbError ''duplicate key''))
       (exec (flt env ''intake.insert'') (\<lambda>s. s\<lparr>intakes := intakes s @
          [\<lparr>in_id = i, in_operator = operator, in_evidence = evidence, in_created = dl_now env\<rparr>]\<rparr>)))"

definition repo_CreateOnBehalf ::
  "dl_env \<Rightarrow> int \<Rightarrow> int \<Rightarrow> string \<Rightarrow> string \<Rightarrow> string \<Rightarrow> dl_state \<Rightarrow> (dl_error, AccountDeletionReceipt) result \<times> dl_state" where
  "repo_CreateOnBehalf env u operator receiptHash cancelHash evidence s =
     (if operator \<le> 0 \<or> u = operator then (Inl (ValidationError ''own account''), s)
      else if TestUserSeq env > 0 \<and> u \<noteq> TestUserSeq env then (Inl (ValidationError ''test member''), s)
      else (case createReceipt env u receiptHash cancelHash (insert_intake env operator evidence) s of
              (Inl ErrNoRows, s') \<Rightarrow> (Inl (ValidationError ''no such member''), s')
            | x \<Rightarrow> x))"

definition repo_Receipt :: "dl_env \<Rightarrow> string \<Rightarrow> dl_state \<Rightarrow> (dl_error, AccountDeletionReceipt) result" where
  "repo_Receipt env h s =
     (case flt env ''receipt.find'' of Some e \<Rightarrow> Inl e | None \<Rightarrow>
     (case sql_get (\<lambda>r. dr_receipt r = h
             \<and> (case dr_completed r of None \<Rightarrow> True | Some t \<Rightarrow> t > dl_now env - days 30)
             \<and> \<not> (\<exists>c \<in> set (cancellations s). cx_id c = dr_id r
                    \<and> (case cx_cancelled c of None \<Rightarrow> False | Some t \<Rightarrow> t \<le> dl_now env - days 30))) (requests s) of
        None \<Rightarrow> Inl ErrNoRows
      | Some r \<Rightarrow> Inr (normalizeDeletionReceiptTimes env (deletionReceiptColumns env s r))))"

section \<open>Locks, scope and start\<close>

text \<open>\<^verbatim>\<open>GET_LOCK('dflh_account_erasure', 0)\<close> on a connection of its own. The operations below run under it or
  give up.\<close>

definition ErasureLock :: "dl_env \<Rightarrow> (dl_error, bool) result" where
  "ErasureLock env = (case flt env ''lock'' of Some e \<Rightarrow> Inl e | None \<Rightarrow> Inr (lock_free env))"

definition with_lock :: "dl_env \<Rightarrow> dl_error \<Rightarrow> (dl_state \<Rightarrow> (dl_error, 'a) result \<times> dl_state) \<Rightarrow> dl_state \<Rightarrow> (dl_error, 'a) result \<times> dl_state" where
  "with_lock env busy f s =
     (case ErasureLock env of Inl e \<Rightarrow> (Inl e, s) | Inr locked \<Rightarrow> if \<not> locked then (Inl busy, s) else f s)"

text \<open>The member of an open request that is not the operator's own.\<close>

definition open_request :: "int \<Rightarrow> int \<Rightarrow> dl_state \<Rightarrow> int option" where
  "open_request i operator s =
     Option.bind (sql_get (\<lambda>r. dr_id r = i \<and> open_status (dr_status r) \<and> dr_usr r \<noteq> None \<and> dr_usr r \<noteq> Some operator) (requests s)) dr_usr"

definition out_of_scope :: "dl_env \<Rightarrow> int \<Rightarrow> bool" where
  "out_of_scope env u = (TestUserSeq env > 0 \<and> u \<noteq> TestUserSeq env)"

definition checkOperatorErasureScope :: "dl_env \<Rightarrow> int \<Rightarrow> int \<Rightarrow> dl_state \<Rightarrow> dl_error option" where
  "checkOperatorErasureScope env i operator s =
     (case flt env ''scope'' of Some e \<Rightarrow> Some e | None \<Rightarrow>
     (case open_request i operator s of
        None \<Rightarrow> Some ErrNoRows
      | Some u \<Rightarrow> if out_of_scope env u then Some (ValidationError ''test member'') else None))"

definition enqueue_revocations :: "dl_env \<Rightarrow> int \<Rightarrow> int \<Rightarrow> dl_state \<Rightarrow> dl_state" where
  "enqueue_revocations env u i s =
     (let since = map_option dr_requested (request_row i s);
          queued = (\<lambda>g. \<exists>o' \<in> set (outbox s). ob_usr o' = u \<and> ob_provider o' = g \<and> ob_action o' = ''ACCOUNT_DELETE''
                          \<and> (case since of None \<Rightarrow> False | Some t \<Rightarrow> ob_created o' \<ge> t));
          gates = map snd (filter (\<lambda>(w, g). w = u \<and> (g = ''AP'' \<or> g = ''KT'') \<and> \<not> queued g) (socials s))
      in s\<lparr>outbox := outbox s @ map (\<lambda>g. \<lparr>ob_usr = u, ob_provider = g, ob_action = ''ACCOUNT_DELETE'', ob_status = ''PENDING'',
              ob_attempts = 0, ob_next = dl_now env, ob_claim = None, ob_error = Some [], ob_created = dl_now env,
              ob_updated = dl_now env\<rparr>) gates\<rparr>)"

definition start_tx :: "dl_env \<Rightarrow> int \<Rightarrow> int \<Rightarrow> (dl_error, dl_state, unit) tx" where
  "start_tx env i operator =
     tx_bind (get_row (flt env ''start.lock'') ErrNoRows (\<lambda>s. Option.bind (sql_get (\<lambda>r. dr_id r = i \<and> dr_status r = ''pending''
                \<and> dr_usr r \<noteq> None \<and> dr_usr r \<noteq> Some operator) (requests s)) dr_usr)) (\<lambda>u.
     tx_then (exec (flt env ''start.cancellation'') (upd_cancellations (\<lambda>c. cx_id c = i)
                (\<lambda>c. c\<lparr>cx_started := (case cx_started c of None \<Rightarrow> Some (dl_now env) | Some t \<Rightarrow> Some t)\<rparr>))) (
     tx_then (exec (flt env ''start.outbox'') (enqueue_revocations env u i)) (
     tx_then (if operator > 0 then exec (flt env ''start.mode'') (upd_erasures (\<lambda>e. er_id e = i) (\<lambda>e. e\<lparr>er_mode := ''manual''\<rparr>))
              else tx_return ())
       (exec (flt env ''start.request'') (upd_requests (\<lambda>r. dr_id r = i)
                (\<lambda>r. r\<lparr>dr_status := ''processing'', dr_operator := Some operator\<rparr>))))))"

definition repo_Start :: "dl_env \<Rightarrow> int \<Rightarrow> int \<Rightarrow> dl_state \<Rightarrow> (dl_error, unit) result \<times> dl_state" where
  "repo_Start env i operator s =
     (if operator > 0 then
        with_lock env (ValidationError ''running'') (\<lambda>s.
          case checkOperatorErasureScope env i operator s of
            Some e \<Rightarrow> (Inl e, s)
          | None \<Rightarrow> transact (flt env ''begin'') (flt env ''commit'') (start_tx env i operator) s) s
      else transact (flt env ''begin'') (flt env ''commit'') (start_tx env i operator) s)"

section \<open>Cancellation\<close>

definition restored_status :: "string \<Rightarrow> string option" where
  "restored_status original =
     (if original = ''CCC'' \<or> original = ''BBB'' \<or> original = ''BAA'' then Some original
      else if original = ''ZZZ'' then Some ''CCC'' else None)"

definition cancel_join :: "string \<Rightarrow> string \<Rightarrow> dl_state \<Rightarrow> (del_request \<times> cancellation) option" where
  "cancel_join receiptHash cancelHash s =
     find (\<lambda>(r, c). cx_id c = dr_id r \<and> dr_receipt r = receiptHash \<and> cx_hash c = cancelHash \<and> cx_hash c \<noteq> [])
       (List.product (requests s) (cancellations s))"

definition unsafe_targets :: "int \<Rightarrow> dl_state \<Rightarrow> nat" where
  "unsafe_targets i s = sql_affected (\<lambda>t. et_id t = i \<and> \<not> (et_status t = ''pending'' \<or> et_status t = ''manual'')) (targets s)"

definition mark_cancelled :: "dl_env \<Rightarrow> del_request \<Rightarrow> del_request" where
  "mark_cancelled env r = r\<lparr>dr_status := ''cancelled'', dr_usr := None, dr_completed := Some (dl_now env)\<rparr>"

definition cancel_writes :: "dl_env \<Rightarrow> int \<Rightarrow> int \<Rightarrow> string \<Rightarrow> (dl_error, dl_state, unit) tx" where
  "cancel_writes env i u restore =
     tx_seq [exec (flt env ''cancel.restore'') (set_member_status u restore),
             exec (flt env ''cancel.request'') (upd_requests (\<lambda>r. dr_id r = i) (mark_cancelled env)),
             exec (flt env ''cancel.erasure'') (upd_erasures (\<lambda>e. er_id e = i)
               (\<lambda>e. e\<lparr>er_mode := ''manual'', er_stage := ''cancelled'', er_code := [], er_updated := dl_now env\<rparr>)),
             exec (flt env ''cancel.cancellation'') (upd_cancellations (\<lambda>c. cx_id c = i)
               (\<lambda>c. c\<lparr>cx_cancelled := Some (dl_now env)\<rparr>))]"

text \<open>The result is whether the request had been cancelled before, in which case nothing is written.\<close>

definition cancel_tx :: "dl_env \<Rightarrow> string \<Rightarrow> string \<Rightarrow> (dl_error, dl_state, bool) tx" where
  "cancel_tx env receiptHash cancelHash =
     tx_bind (get_row (flt env ''cancel.row'') ErrNoRows (cancel_join receiptHash cancelHash)) (\<lambda>rc.
     let r = fst rc; c = snd rc
     in if dr_status r = ''cancelled'' then tx_return True
     else if dr_status r \<noteq> ''pending'' \<or> cx_started c \<noteq> None \<or> cx_blocked c then tx_fail ErrDeletionCancellationClosed
     else (case dr_usr r of None \<Rightarrow> tx_fail ErrDeletionCancellationClosed | Some u \<Rightarrow>
       tx_bind (get_row (flt env ''cancel.member'') ErrNoRows (member_status u)) (\<lambda>st.
       tx_bind (get_row None (DbError ''converting NULL to string'') (\<lambda>_. st)) (\<lambda>current.
       tx_then (tx_guard (current = ''AAA'') ErrDeletionCancellationClosed) (
       tx_bind (query (flt env ''cancel.targets'') (unsafe_targets (dr_id r))) (\<lambda>n.
       tx_then (tx_guard (n = 0) ErrDeletionCancellationClosed) (
       tx_bind (get_row None ErrDeletionCancellationClosed (\<lambda>_. restored_status (cx_original c))) (\<lambda>restore.
       tx_then (cancel_writes env (dr_id r) u restore) (tx_return False)))))))))"

definition repo_Cancel :: "dl_env \<Rightarrow> string \<Rightarrow> string \<Rightarrow> dl_state \<Rightarrow> (dl_error, AccountDeletionReceipt) result \<times> dl_state" where
  "repo_Cancel env receiptHash cancelHash =
     with_lock env ErrDeletionCancellationClosed (\<lambda>s.
       case flt env ''begin'' of Some e \<Rightarrow> (Inl e, s) | None \<Rightarrow>
       (case cancel_tx env receiptHash cancelHash s of
          Inl e \<Rightarrow> (Inl e, s)
        | Inr (already, s') \<Rightarrow>
            if already then (repo_Receipt env receiptHash s, s)
            else (case flt env ''commit'' of Some e \<Rightarrow> (Inl e, s) | None \<Rightarrow> (repo_Receipt env receiptHash s', s'))))"

definition CancelVerified :: "dl_env \<Rightarrow> int \<Rightarrow> int \<Rightarrow> string \<Rightarrow> dl_state \<Rightarrow> (dl_error, unit) result \<times> dl_state" where
  "CancelVerified env i operator evidence s =
     (if operator \<le> 0 then (Inl ErrDeletionCancellationClosed, s)
      else (case checkOperatorErasureScope env i operator s of Some e \<Rightarrow> (Inl e, s) | None \<Rightarrow>
      (case flt env ''verified.keys'' of Some e \<Rightarrow> (Inl e, s) | None \<Rightarrow>
      (case find (\<lambda>(r, c). cx_id c = dr_id r \<and> dr_id r = i \<and> dr_status r = ''pending'' \<and> cx_hash c \<noteq> [])
              (List.product (requests s) (cancellations s)) of
         None \<Rightarrow> (Inl ErrNoRows, s)
       | Some (r, c) \<Rightarrow>
           (case flt env ''verified.evidence'' of Some e \<Rightarrow> (Inl e, s) | None \<Rightarrow>
           (let s1 = upd_requests (\<lambda>x. dr_id x = i \<and> dr_status x = ''pending'')
                       (\<lambda>x. x\<lparr>dr_operator := Some operator, dr_evidence := evidence\<rparr>) s
            in (case repo_Cancel env (dr_receipt r) (cx_hash c) s1 of
                  (Inl e, s2) \<Rightarrow> (Inl e, s2) | (Inr _, s2) \<Rightarrow> (Inr (), s2))))))))"

section \<open>The operator's controls\<close>

definition retry_pred :: "int \<Rightarrow> revocation \<Rightarrow> bool" where
  "retry_pred u x = (ob_usr x = u \<and> ob_action x = ''ACCOUNT_DELETE''
     \<and> (ob_status x = ''FAILED'' \<or> ob_status x = ''FINALIZE_FAILED'' \<or> ob_status x = ''PENDING'' \<or> ob_status x = ''REVOKED''))"

text \<open>The assignments of an \<^verbatim>\<open>UPDATE\<close> are made from left to right: the attempts look at the old status.\<close>

definition retry_row :: "dl_env \<Rightarrow> revocation \<Rightarrow> revocation" where
  "retry_row env x =
     x\<lparr>ob_attempts := (if ob_status x = ''FAILED'' \<or> ob_status x = ''FINALIZE_FAILED'' then 0 else ob_attempts x),
       ob_status := (if ob_status x = ''FINALIZE_FAILED'' \<or> ob_status x = ''REVOKED'' then ''REVOKED'' else ''PENDING''),
       ob_claim := None, ob_next := dl_local env, ob_error := None, ob_updated := dl_local env\<rparr>"

definition expedite_schedule :: "dl_env \<Rightarrow> int \<Rightarrow> int \<Rightarrow> dl_state \<Rightarrow> dl_state" where
  "expedite_schedule env i operator =
     upd_schedules (\<lambda>e. es_id e = i)
       (\<lambda>e. e\<lparr>es_expedited := (case es_expedited e of None \<Rightarrow> Some (dl_now env) | Some t \<Rightarrow> Some t),
              es_by := (case es_by e of None \<Rightarrow> Some operator | Some b \<Rightarrow> Some b)\<rparr>)"

definition resume_erasure :: "dl_env \<Rightarrow> int \<Rightarrow> string \<Rightarrow> dl_state \<Rightarrow> dl_state" where
  "resume_erasure env i mode =
     upd_erasures (\<lambda>e. er_id e = i) (\<lambda>e. e\<lparr>er_mode := mode, er_code := [], er_next := dl_now env, er_updated := dl_now env\<rparr>)"

definition controlSchedule_tx ::
  "dl_env \<Rightarrow> int \<Rightarrow> int \<Rightarrow> string \<Rightarrow> (int \<Rightarrow> (dl_error, dl_state, unit) tx) \<Rightarrow> (dl_error, dl_state, unit) tx" where
  "controlSchedule_tx env i operator action review =
     tx_bind (get_row (flt env ''control.lock'') ErrNoRows (open_request i operator)) (\<lambda>u.
     tx_seq [tx_guard (\<not> out_of_scope env u) (ValidationError ''test member''),
             review u,
             if action = ''retry_social'' then
               tx_bind (exec_count (flt env ''control.outbox'') (\<lambda>s. sql_changed (retry_pred u) (retry_row env) (outbox s))
                          (upd_outbox (retry_pred u) (retry_row env)))
                 (\<lambda>n. tx_guard (n \<noteq> 0) (ValidationError ''nothing to retry''))
             else
               tx_seq [exec (flt env ''control.schedule'') (insert_schedule env i),
                       if action = ''expedite'' then exec (flt env ''control.expedite'') (expedite_schedule env i operator) else tx_return (),
                       exec (flt env ''control.request'') (schedule_targets i)],
             exec (flt env ''control.erasure'') (resume_erasure env i ''automatic'')])"

definition controlSchedule ::
  "dl_env \<Rightarrow> int \<Rightarrow> int \<Rightarrow> string \<Rightarrow> (int \<Rightarrow> (dl_error, dl_state, unit) tx) \<Rightarrow> dl_state \<Rightarrow> (dl_error, unit) result \<times> dl_state" where
  "controlSchedule env i operator action review s =
     (if operator \<le> 0 then (Inl (ValidationError ''operator''), s)
      else if action \<noteq> ''expedite'' \<and> action \<noteq> ''schedule'' \<and> action \<noteq> ''retry_social'' then (Inl (ValidationError ''action''), s)
      else if WaitHours env \<le> 0 \<or> WaitHours env > 24 * 30 then (Inl (ValidationError ''wait''), s)
      else with_lock env (ValidationError ''running'')
             (transact (flt env ''begin'') (flt env ''commit'') (controlSchedule_tx env i operator action review)) s)"

definition ControlSchedule :: "dl_env \<Rightarrow> int \<Rightarrow> int \<Rightarrow> string \<Rightarrow> dl_state \<Rightarrow> (dl_error, unit) result \<times> dl_state" where
  "ControlSchedule env i operator action s = controlSchedule env i operator action (\<lambda>_. tx_return ()) s"

definition SetErasureMode :: "dl_env \<Rightarrow> int \<Rightarrow> int \<Rightarrow> string \<Rightarrow> dl_state \<Rightarrow> (dl_error, unit) result \<times> dl_state" where
  "SetErasureMode env i operator mode =
     with_lock env (ValidationError ''running'') (\<lambda>s.
       if operator \<le> 0 then (Inl (ValidationError ''operator''), s)
       else (case checkOperatorErasureScope env i operator s of Some e \<Rightarrow> (Inl e, s) | None \<Rightarrow>
       if mode \<noteq> ''automatic'' \<and> mode \<noteq> ''manual'' then (Inl (ValidationError ''mode''), s)
       else (case flt env ''mode'' of Some e \<Rightarrow> (Inl e, s) | None \<Rightarrow>
         (let p = (\<lambda>e. er_id e = i \<and> open_request i operator s \<noteq> None);
              f = (\<lambda>e. e\<lparr>er_mode := mode, er_code := [], er_next := dl_now env, er_updated := dl_now env\<rparr>)
          in (if sql_changed p f (erasures s) = 0 then Inl ErrNoRows else Inr (), upd_erasures p f s)))))"

section \<open>The worker's queue\<close>

definition due_now :: "dl_env \<Rightarrow> dl_state \<Rightarrow> int \<Rightarrow> bool" where
  "due_now env s i = (\<exists>e \<in> set (schedules s). es_id e = i \<and> (es_scheduled e \<le> dl_now env \<or> es_expedited e \<noteq> None))"

record ErasureWork =
  w_RequestID :: int
  w_UserSeq :: int
  w_Stage :: string
  w_ExternalEvidence :: string

definition batch_rows :: "dl_env \<Rightarrow> dl_state \<Rightarrow> (del_request \<times> account_erasure) list" where
  "batch_rows env s =
     filter (\<lambda>(r, e). er_id e = dr_id r \<and> er_mode e = ''automatic'' \<and> open_status (dr_status r) \<and> er_next e \<le> dl_now env
               \<and> due_now env s (dr_id r) \<and> (TestUserSeq env = 0 \<or> dr_usr r = Some (TestUserSeq env)))
       (List.product (requests s) (erasures s))"

text \<open>A row without a member cannot be scanned and fails the whole batch.\<close>

definition ErasureBatch :: "dl_env \<Rightarrow> dl_state \<Rightarrow> (dl_error, ErasureWork list) result" where
  "ErasureBatch env s =
     (case flt env ''batch'' of Some e \<Rightarrow> Inl e | None \<Rightarrow>
     (let rows = take 10 (sort_key (\<lambda>(r, e). er_next e) (sort_key (\<lambda>(r, e). dr_id r) (batch_rows env s)))
      in if \<exists>(r, e) \<in> set rows. dr_usr r = None then Inl (DbError ''converting NULL to int'')
         else Inr (map (\<lambda>(r, e). \<lparr>w_RequestID = dr_id r, w_UserSeq = the (dr_usr r), w_Stage = er_stage e,
                                  w_ExternalEvidence = er_evidence e\<rparr>) rows)))"

definition ErasureActive :: "dl_env \<Rightarrow> int \<Rightarrow> dl_state \<Rightarrow> (dl_error, bool) result" where
  "ErasureActive env i s =
     (case flt env ''active'' of Some e \<Rightarrow> Inl e | None \<Rightarrow>
       Inr (length (filter (\<lambda>(r, e). er_id e = i \<and> er_id e = dr_id r \<and> er_mode e = ''automatic'' \<and> open_status (dr_status r)
                              \<and> due_now env s (dr_id r)) (List.product (requests s) (erasures s))) = 1))"

definition ErasureRetry :: "dl_env \<Rightarrow> int \<Rightarrow> string \<Rightarrow> dl_state \<Rightarrow> (dl_error, unit) result \<times> dl_state" where
  "ErasureRetry env i code =
     direct (exec (flt env ''retry'') (upd_erasures (\<lambda>e. er_id e = i)
       (\<lambda>e. e\<lparr>er_code := code, er_next := dl_now env + 300, er_updated := dl_now env\<rparr>)))"

section \<open>Storage targets\<close>

record ErasureTarget =
  TargetName :: string
  TargetStatus :: string
  TargetEvidence :: string
  TargetCode :: string
  TargetWaitCount :: int
  TargetWaitUntil :: "int option"
  TargetAttempts :: int
  LastAttemptAt :: "int option"
  TargetUpdatedAt :: int

definition target_of :: "string \<Rightarrow> string \<Rightarrow> string \<Rightarrow> ErasureTarget" where
  "target_of name status evidence =
     \<lparr>TargetName = name, TargetStatus = status, TargetEvidence = evidence, TargetCode = [], TargetWaitCount = 0,
      TargetWaitUntil = None, TargetAttempts = 0, LastAttemptAt = None, TargetUpdatedAt = 0\<rparr>"

definition Verified :: "ErasureTarget \<Rightarrow> bool" where
  "Verified t = (settled (TargetStatus t) \<and> TargetEvidence t \<noteq> [])"

definition PhoneVerificationWaitCode :: string where
  "PhoneVerificationWaitCode = ''PHONE_VERIFICATION_RETENTION_PENDING''"

text \<open>In the order of the target's name; the names of a request are distinct. The offset of the driver and
  \<open>deletionTimeUTC\<close> cancel out on every time that is read.\<close>

definition target_order :: "string list" where
  "target_order = [''backups'', ''external_data'', ''historical_files'', ''other_identifiers'']"

definition read_target :: "erasure_target \<Rightarrow> ErasureTarget" where
  "read_target t =
     \<lparr>TargetName = et_name t, TargetStatus = et_status t, TargetEvidence = et_evidence t, TargetCode = et_code t,
      TargetWaitCount = (if et_code t = PhoneVerificationWaitCode then et_wait_count t else 0),
      TargetWaitUntil = (if et_code t = PhoneVerificationWaitCode then et_wait_until t else None),
      TargetAttempts = et_attempts t, LastAttemptAt = et_last_attempt t, TargetUpdatedAt = et_updated t\<rparr>"

definition ErasureTargets :: "dl_env \<Rightarrow> int \<Rightarrow> dl_state \<Rightarrow> (dl_error, ErasureTarget list) result" where
  "ErasureTargets env i s =
     (case flt env ''targets'' of Some e \<Rightarrow> Inl e | None \<Rightarrow>
       Inr (map read_target (concat (map (\<lambda>n. filter (\<lambda>t. et_id t = i \<and> et_name t = n) (targets s)) target_order))))"

definition begin_pred :: "int \<Rightarrow> dl_state \<Rightarrow> erasure_target \<Rightarrow> bool" where
  "begin_pred i s t = (et_id t = i \<and> \<not> settled (et_status t) \<and> (\<exists>e \<in> set (erasures s). er_id e = i \<and> er_mode e = ''automatic''))"

definition begin_row :: "dl_env \<Rightarrow> erasure_target \<Rightarrow> erasure_target" where
  "begin_row env t = t\<lparr>et_status := ''running'', et_attempts := et_attempts t + 1, et_last_attempt := Some (dl_now env), et_updated := dl_now env\<rparr>"

definition BeginErasureTargets :: "dl_env \<Rightarrow> int \<Rightarrow> dl_state \<Rightarrow> (dl_error, unit) result \<times> dl_state" where
  "BeginErasureTargets env i s =
     (case flt env ''targets.begin'' of Some e \<Rightarrow> (Inl e, s) | None \<Rightarrow>
       (if sql_affected (begin_pred i s) (targets s) = 0 then (Inl ErrNoRows, s)
        else (Inr (), upd_targets (begin_pred i s) (begin_row env) s)))"

definition target_valid :: "string set \<Rightarrow> ErasureTarget \<Rightarrow> bool" where
  "target_valid seen t =
     (TargetName t \<in> set ErasureTargetNames \<and> TargetName t \<notin> seen \<and> length (TargetEvidence t) \<le> 200
      \<and> (TargetStatus t = ''pending'' \<or> TargetStatus t = ''failed'' \<or> TargetStatus t = ''manual''
         \<or> settled (TargetStatus t) \<and> go_TrimSpace (TargetEvidence t) \<noteq> [])
      \<and> (TargetCode t = PhoneVerificationWaitCode \<longrightarrow>
           TargetName t = ''other_identifiers'' \<and> TargetStatus t = ''pending'' \<and> TargetWaitCount t > 0 \<and> TargetWaitUntil t \<noteq> None))"

definition status_code :: "ErasureTarget \<Rightarrow> string" where
  "status_code t =
     (if TargetCode t = PhoneVerificationWaitCode then TargetCode t
      else if TargetStatus t = ''pending'' then ''EXTERNAL_ERASURE_PENDING''
      else if TargetStatus t = ''failed'' then ''EXTERNAL_ERASURE_RETRY_REQUIRED''
      else if TargetStatus t = ''manual'' then ''EXTERNAL_ERASURE_REVIEW_REQUIRED'' else [])"

definition open_target :: "int \<Rightarrow> string \<Rightarrow> erasure_target \<Rightarrow> bool" where
  "open_target i name t = (et_id t = i \<and> et_name t = name \<and> \<not> settled (et_status t))"

fun record_targets :: "dl_env \<Rightarrow> int \<Rightarrow> string set \<Rightarrow> ErasureTarget list \<Rightarrow> (dl_error, dl_state, unit) tx" where
  "record_targets env i seen [] = tx_return ()"
| "record_targets env i seen (t # ts) =
     tx_seq [tx_guard (target_valid seen t) ErrDeletionIncomplete,
             if TargetCode t = PhoneVerificationWaitCode then
               exec (flt env (''targets.wait.'' @ TargetName t)) (upd_targets (open_target i (TargetName t))
                 (\<lambda>x. x\<lparr>et_wait_count := TargetWaitCount t, et_wait_until := TargetWaitUntil t\<rparr>))
             else tx_return (),
             exec (flt env (''targets.record.'' @ TargetName t)) (upd_targets (open_target i (TargetName t))
               (\<lambda>x. x\<lparr>et_status := TargetStatus t, et_evidence := TargetEvidence t, et_code := status_code t, et_updated := dl_now env\<rparr>)),
             record_targets env i (insert (TargetName t) seen) ts]"

definition RecordErasureTargets :: "dl_env \<Rightarrow> int \<Rightarrow> ErasureTarget list \<Rightarrow> dl_state \<Rightarrow> (dl_error, unit) result \<times> dl_state" where
  "RecordErasureTargets env i ts =
     transact (flt env ''begin'') (flt env ''commit'')
       (tx_bind (get_row (flt env ''targets.mode'') ErrNoRows
                   (\<lambda>s. map_option er_mode (sql_get (\<lambda>e. er_id e = i \<and> er_stage e \<noteq> ''completed'') (erasures s)))) (\<lambda>mode.
        tx_then (tx_guard (mode = ''automatic'') ErrNoRows) (record_targets env i {} ts)))"

definition ReviewErasureTarget :: "dl_env \<Rightarrow> int \<Rightarrow> int \<Rightarrow> ErasureTarget \<Rightarrow> dl_state \<Rightarrow> (dl_error, unit) result \<times> dl_state" where
  "ReviewErasureTarget env i operator t s =
     (if TargetName t \<notin> set ErasureTargetNames \<or> operator \<le> 0 \<or> TargetEvidence t = [] \<or> length (TargetEvidence t) > 200
         \<or> (TargetStatus t \<noteq> ''manual'' \<and> TargetStatus t \<noteq> ''complete'' \<and> TargetStatus t \<noteq> ''not_applicable'')
      then (Inl (ValidationError ''target''), s)
      else with_lock env (ValidationError ''running'') (\<lambda>s.
        case flt env ''review.request'' of Some e \<Rightarrow> (Inl e, s) | None \<Rightarrow>
        (case open_request i operator s of
           None \<Rightarrow> (Inl ErrNoRows, s)
         | Some u \<Rightarrow>
             if out_of_scope env u then (Inl (ValidationError ''test member''), s)
             else (let t' = t\<lparr>TargetEvidence := ''admin:'' @ go_Itoa operator @ '' '' @ TargetEvidence t\<rparr>
                   in if length (TargetEvidence t') > 200 then (Inl (ValidationError ''evidence''), s)
                      else (case RecordErasureTargets env i [t'] s of
                              (Inl e, s1) \<Rightarrow> (Inl e, s1)
                            | (Inr _, s1) \<Rightarrow>
                                direct (exec (flt env ''review.erasure'') (upd_erasures (\<lambda>e. er_id e = i)
                                  (\<lambda>e. e\<lparr>er_code := [], er_next := dl_now env\<rparr>))) s1)))) s)"

definition verifiedErasureTargets :: "int \<Rightarrow> dl_state \<Rightarrow> bool" where
  "verifiedErasureTargets i s =
     (sql_affected (\<lambda>t. et_id t = i \<and> et_name t \<in> {''backups'', ''historical_files'', ''external_data'', ''other_identifiers''}
        \<and> settled (et_status t) \<and> et_evidence t \<noteq> []) (targets s) = length ErasureTargetNames)"

definition RecordExternalErasure :: "dl_env \<Rightarrow> int \<Rightarrow> string \<Rightarrow> dl_state \<Rightarrow> (dl_error, unit) result \<times> dl_state" where
  "RecordExternalErasure env i evidence s =
     (if go_TrimSpace evidence = [] \<or> length evidence > 200 then (Inl (ErasureBlocked ''EXTERNAL_ERASURE_PENDING''), s)
      else
      (let p = (\<lambda>s e. er_id e = i \<and> er_mode e = ''automatic'' \<and> (\<exists>r \<in> set (requests s). dr_id r = i \<and> open_status (dr_status r)));
           f = (\<lambda>e. e\<lparr>er_evidence := evidence, er_updated := dl_now env\<rparr>)
       in transact (flt env ''begin'') (flt env ''commit'')
        (tx_bind (exec_count (flt env ''external.erasure'') (\<lambda>s. sql_changed (p s) f (erasures s)) (\<lambda>s. upd_erasures (p s) f s)) (\<lambda>n.
         tx_then (tx_guard (n \<noteq> 0) ErrNoRows) (
         tx_then (exec (flt env ''external.targets'') (upd_targets (\<lambda>t. et_id t = i \<and> \<not> settled (et_status t))
                    (\<lambda>t. t\<lparr>et_status := ''complete'', et_evidence := evidence, et_code := [], et_updated := dl_now env\<rparr>))) (
         tx_bind (query (flt env ''external.verify'') (verifiedErasureTargets i)) (\<lambda>verified.
         tx_then (tx_guard verified ErrDeletionIncomplete)
           (exec (flt env ''external.context'') (\<lambda>s. s\<lparr>contexts := sql_delete (\<lambda>c. ec_id c = i) (contexts s)\<rparr>))))))) s))"

definition ErasureFiles :: "dl_env \<Rightarrow> int \<Rightarrow> dl_state \<Rightarrow> (dl_error, erasure_file list) result" where
  "ErasureFiles env i s =
     (case flt env ''files'' of Some e \<Rightarrow> Inl e | None \<Rightarrow>
       Inr (take 100 (sort_key ef_id (filter (\<lambda>f. ef_request f = i) (files s)))))"

definition ErasureFileDone :: "dl_env \<Rightarrow> int \<Rightarrow> dl_state \<Rightarrow> (dl_error, unit) result \<times> dl_state" where
  "ErasureFileDone env i = direct (exec (flt env ''file.done'') (\<lambda>s. s\<lparr>files := sql_delete (\<lambda>f. ef_id f = i) (files s)\<rparr>))"

section \<open>The protected context\<close>

definition erasureContextLifetimeDays :: int where "erasureContextLifetimeDays = 10"
definition maxErasureContextBytes :: nat where "maxErasureContextBytes = 2 ^ 20"

definition LoadErasureContext :: "dl_env \<Rightarrow> int \<Rightarrow> dl_state \<Rightarrow> (dl_error, string) result" where
  "LoadErasureContext env i s =
     (case flt env ''context.load'' of Some e \<Rightarrow> Inl e | None \<Rightarrow>
     (case sql_get (\<lambda>c. ec_id c = i \<and> ec_expires c > dl_now env) (contexts s) of None \<Rightarrow> Inl ErrNoRows | Some c \<Rightarrow> Inr (ec_cipher c)))"

definition SaveErasureContext :: "dl_env \<Rightarrow> int \<Rightarrow> string \<Rightarrow> dl_state \<Rightarrow> (dl_error, unit) result \<times> dl_state" where
  "SaveErasureContext env i encrypted s =
     (if encrypted = [] \<or> length encrypted > maxErasureContextBytes then (Inl (ErasureBlocked ''ERASURE_CONTEXT_UNREADABLE''), s)
      else (case flt env ''context.save'' of Some e \<Rightarrow> (Inl e, s) | None \<Rightarrow>
        if (\<exists>e \<in> set (erasures s). \<exists>r \<in> set (requests s). er_id e = i \<and> dr_id r = i \<and> er_mode e = ''automatic''
              \<and> er_stage e \<noteq> ''database_erased'' \<and> open_status (dr_status r)) \<and> \<not> (\<exists>c \<in> set (contexts s). ec_id c = i)
        then (Inr (), s\<lparr>contexts := contexts s @ [\<lparr>ec_id = i, ec_cipher = encrypted,
                ec_expires = dl_now env + days erasureContextLifetimeDays, ec_created = dl_now env\<rparr>]\<rparr>)
        else (case LoadErasureContext env i s of
                Inl ErrNoRows \<Rightarrow> (Inl (ErasureBlocked ''ERASURE_CONTEXT_EXPIRED_REVIEW_REQUIRED''), s)
              | Inl e \<Rightarrow> (Inl e, s)
              | Inr _ \<Rightarrow> (Inr (), s))))"

definition RefreshErasureContext :: "dl_env \<Rightarrow> int \<Rightarrow> string \<Rightarrow> dl_state \<Rightarrow> (dl_error, unit) result \<times> dl_state" where
  "RefreshErasureContext env i encrypted s =
     (if encrypted = [] \<or> length encrypted > maxErasureContextBytes then (Inl (ErasureBlocked ''ERASURE_CONTEXT_UNREADABLE''), s)
      else (case flt env ''context.refresh'' of Some e \<Rightarrow> (Inl e, s) | None \<Rightarrow>
        (let p = (\<lambda>c. ec_id c = i \<and> ec_expires c > dl_now env \<and> (\<exists>e \<in> set (erasures s). er_id e = i \<and> er_mode e = ''automatic''
                    \<and> er_stage e \<noteq> ''database_erased'' \<and> er_stage e \<noteq> ''completed''));
             f = (\<lambda>c. c\<lparr>ec_cipher := encrypted\<rparr>)
         in (if sql_changed p f (contexts s) \<noteq> 1 then Inl (ErasureBlocked ''ERASURE_CONTEXT_EXPIRED_REVIEW_REQUIRED'') else Inr (),
             s\<lparr>contexts := sql_update p f (contexts s)\<rparr>))))"

section \<open>Receipt work\<close>

record AccountDeletionResolution =
  Action :: string
  EvidenceReference :: string
  ResultNotified :: bool
  FilesErased :: bool
  BackupsErased :: bool
  ExternalDataErased :: bool
  OtherIdentifiersChecked :: bool
  res_RetainedRecords :: string
  res_RetentionUntil :: string
  res_Target :: string
  res_TargetStatus :: string
  ReceiptWorkStatus :: string
  OriginalStorage :: string
  ContactSecured :: bool
  ContactErased :: bool
  ReviewedPlanDigest :: string
  SubscriptionID :: int
  SourceFingerprint :: string
  ProviderClosureOutcome :: string
  ExternalClosureConfirmed :: bool

definition work_closed :: "string \<Rightarrow> string \<Rightarrow> bool" where
  "work_closed current next =
     (current = ''completed'' \<or> (next = ''not_required'' \<and> current \<noteq> ''unreviewed'')
      \<or> (next = ''active'' \<and> current \<noteq> ''unreviewed'') \<or> (next = ''completed'' \<and> current \<noteq> ''active''))"

definition ResolveReceiptWork :: "dl_env \<Rightarrow> int \<Rightarrow> int \<Rightarrow> AccountDeletionResolution \<Rightarrow> dl_state \<Rightarrow> (dl_error, unit) result \<times> dl_state" where
  "ResolveReceiptWork env i operator req =
     transact (flt env ''begin'') (flt env ''commit'')
      (tx_bind (get_row (flt env ''work.request'') ErrNoRows (open_request i operator)) (\<lambda>_.
       tx_bind (get_row (flt env ''work.lock'') ErrNoRows (\<lambda>s. map_option rw_status (sql_get (\<lambda>w. rw_id w = i) (works s)))) (\<lambda>current.
       let next = ReceiptWorkStatus req
       in tx_seq [tx_guard (\<not> work_closed current next) (ValidationError ''receipt work''),
                  tx_guard (next = ''not_required'' \<or> next = ''active'' \<or> next = ''completed'') ErrNoRows,
                  exec (flt env ''work.update'') (upd_works (\<lambda>w. rw_id w = i)
                    (\<lambda>w. w\<lparr>rw_status := next, rw_storage := (if next = ''active'' then OriginalStorage req else rw_storage w),
                           rw_evidence := EvidenceReference req, rw_operator := Some operator, rw_updated := dl_now env,
                           rw_completed := (if next = ''completed'' then Some (dl_now env) else None)\<rparr>)),
                  exec (flt env ''work.erasure'') (upd_erasures (\<lambda>e. er_id e = i) (\<lambda>e. e\<lparr>er_next := dl_now env, er_code := []\<rparr>))])))"

definition reviewReceiptWork :: "dl_env \<Rightarrow> int \<Rightarrow> bool \<Rightarrow> (dl_error, dl_state, unit) tx" where
  "reviewReceiptWork env i hasDonations =
     tx_bind (get_row (flt env ''review.work'') ErrNoRows (\<lambda>s. map_option rw_status (sql_get (\<lambda>w. rw_id w = i) (works s)))) (\<lambda>status.
     if status = ''unreviewed'' then
       tx_then (tx_guard (\<not> hasDonations) (ErasureBlocked ''RECEIPT_CONTACT_REVIEW_REQUIRED''))
         (exec (flt env ''review.update'') (upd_works (\<lambda>w. rw_id w = i)
            (\<lambda>w. w\<lparr>rw_status := ''not_required'', rw_evidence := ''verified-no-linked-app-donations'', rw_updated := dl_now env\<rparr>)))
     else tx_return ())"

definition receiptWorkFinished :: "int \<Rightarrow> dl_state \<Rightarrow> bool" where
  "receiptWorkFinished i s = (sql_affected (\<lambda>w. rw_id w = i \<and> (rw_status w = ''not_required'' \<or> rw_status w = ''completed'')) (works s) = 1)"

section \<open>Evidence and completion\<close>

definition scanned_column :: "string \<times> string \<Rightarrow> bool" where
  "scanned_column tc =
     (fst tc \<notin> {''ALUMNI_ACCOUNT_DELETION_REQUEST'', ''ALUMNI_ERASURE_RESTORE_GUARD''}
      \<and> snd tc \<in> {''USR_SEQ'', ''CONSUMED_USR_SEQ'', ''ACCOUNT_ID'', ''USER_ID'', ''AM_SENDER_SEQ'', ''AM_RECVR_SEQ'',
                   ''REPORTER_SEQ'', ''REPORTED_SEQ'', ''BLOCKER_USR_SEQ'', ''BLOCKED_USR_SEQ'', ''VD_USR_SEQ'', ''O_ACCOUNT_USR_SEQ''})"

definition deletionSQLIdentifier :: "string \<Rightarrow> bool" where
  "deletionSQLIdentifier x = (x \<noteq> [] \<and> list_all (\<lambda>c. c \<in> set ''ABCDEFGHIJKLMNOPQRSTUVWXYZabcdefghijklmnopqrstuvwxyz0123456789_'') x)"

text \<open>\<^verbatim>\<open>SELECT COUNT(*) FROM table WHERE column = user\<close>; delivered revocations do not count.\<close>

definition ref_count :: "dl_state \<Rightarrow> string \<times> string \<Rightarrow> int \<Rightarrow> nat" where
  "ref_count s tc u =
     (if tc = (''WEO_MEMBER'', ''USR_SEQ'') then sql_affected (\<lambda>m. dm_seq m = u) (dl_members s)
      else if tc = (''ALUMNI_ADMIN_ROLE'', ''USR_SEQ'') then sql_affected (\<lambda>x. fst x = u) (dl_roles s)
      else if tc = (''WEO_MEMBER_SOCIAL'', ''USR_SEQ'') then sql_affected (\<lambda>x. fst x = u) (socials s)
      else if tc = (''ALUMNI_SOCIAL_REVOCATION_OUTBOX'', ''USR_SEQ'')
        then sql_affected (\<lambda>x. ob_usr x = u \<and> ob_status x \<noteq> ''DELIVERED'') (outbox s)
      else sql_affected (\<lambda>(t, c, v). (t, c) = tc \<and> v = u) (other_refs s))"

fun footprint_items ::
  "dl_env \<Rightarrow> int \<Rightarrow> (string \<times> string) list \<Rightarrow> dl_state \<Rightarrow> (dl_error, (string \<times> string \<times> nat) list) result" where
  "footprint_items env u [] s = Inr []"
| "footprint_items env u (tc # tcs) s =
     (if \<not> deletionSQLIdentifier (fst tc) \<or> \<not> deletionSQLIdentifier (snd tc) then Inl ErrDeletionIncomplete
      else (case flt env (''footprint.'' @ fst tc @ ''.'' @ snd tc) of Some e \<Rightarrow> Inl e | None \<Rightarrow>
           (case footprint_items env u tcs s of
              Inl e \<Rightarrow> Inl e
            | Inr items \<Rightarrow> Inr (if ref_count s tc u > 0 then (fst tc, snd tc, ref_count s tc u) # items else items))))"

definition deletionFootprint :: "dl_env \<Rightarrow> int \<Rightarrow> dl_state \<Rightarrow> (dl_error, (string \<times> string \<times> nat) list) result" where
  "deletionFootprint env u s =
     (case flt env ''footprint'' of Some e \<Rightarrow> Inl e | None \<Rightarrow>
     (let columns = filter scanned_column (base_columns env)
      in case footprint_items env u columns s of
           Inl e \<Rightarrow> Inl e
         | Inr items \<Rightarrow> if (''WEO_MEMBER'', ''USR_SEQ'') \<in> set columns then Inr items else Inl ErrDeletionIncomplete))"

definition repo_Verify :: "dl_env \<Rightarrow> int \<Rightarrow> dl_state \<Rightarrow> (dl_error, (string \<times> string \<times> nat) list) result" where
  "repo_Verify env i s =
     (case flt env ''begin'' of Some e \<Rightarrow> Inl e | None \<Rightarrow>
     (case flt env ''verify.request'' of Some e \<Rightarrow> Inl e | None \<Rightarrow>
     (case sql_get (\<lambda>r. dr_id r = i \<and> open_status (dr_status r)) (requests s) of
        None \<Rightarrow> Inl ErrNoRows
      | Some r \<Rightarrow> (case dr_usr r of None \<Rightarrow> Inl (DbError ''converting NULL to int'') | Some u \<Rightarrow> deletionFootprint env u s))))"

definition provider_proof :: "del_request \<Rightarrow> int \<Rightarrow> string \<Rightarrow> dl_state \<Rightarrow> bool" where
  "provider_proof r u gate s =
     (\<exists>x \<in> set (outbox s). ob_usr x = u \<and> ob_provider x = gate \<and> ob_action x = ''ACCOUNT_DELETE'' \<and> ob_status x = ''DELIVERED''
        \<and> ob_created x \<ge> dr_requested r)"

definition verifyDeletionProviders :: "dl_env \<Rightarrow> int \<Rightarrow> int \<Rightarrow> (dl_error, dl_state, unit) tx" where
  "verifyDeletionProviders env i u =
     tx_bind (get_row (flt env ''providers'') ErrNoRows (\<lambda>s. map_option (\<lambda>r.
       (dr_apple r \<longrightarrow> provider_proof r u ''AP'' s) \<and> (dr_kakao r \<longrightarrow> provider_proof r u ''KT'' s)) (request_row i s)))
     (\<lambda>proved. tx_guard proved ErrDeletionIncomplete)"

definition RestoreGuardDays :: int where "RestoreGuardDays = 35"

definition recordRestoreGuard :: "dl_env \<Rightarrow> int \<Rightarrow> int \<Rightarrow> dl_state \<Rightarrow> dl_state" where
  "recordRestoreGuard env i u s =
     (let g = \<lparr>rg_id = i, rg_usr = u, rg_completed = dl_now env, rg_expires = dl_now env + days RestoreGuardDays\<rparr>
      in s\<lparr>guards := (if \<exists>x \<in> set (guards s). rg_id x = i then sql_update (\<lambda>x. rg_id x = i) (\<lambda>_. g) (guards s)
                      else guards s @ [g])\<rparr>)"

definition PurgeExpiredRestoreGuards :: "dl_env \<Rightarrow> dl_state \<Rightarrow> (dl_error, unit) result \<times> dl_state" where
  "PurgeExpiredRestoreGuards env = direct (exec (flt env ''guards.purge'')
     (\<lambda>s. s\<lparr>guards := sql_delete (\<lambda>g. rg_expires g < dl_now env) (guards s)\<rparr>))"

definition RestoreGuards :: "dl_env \<Rightarrow> dl_state \<Rightarrow> (dl_error, (int \<times> int \<times> bool) list) result" where
  "RestoreGuards env s =
     (case flt env ''guards'' of Some e \<Rightarrow> Inl e | None \<Rightarrow>
       Inr (map (\<lambda>g. (rg_id g, rg_usr g, \<exists>m \<in> set (dl_members s). dm_seq m = rg_usr g))
              (sort_key rg_id (filter (\<lambda>g. rg_expires g \<ge> dl_now env) (guards s)))))"

definition footprint_tx :: "dl_env \<Rightarrow> int \<Rightarrow> (dl_error, dl_state, unit) tx" where
  "footprint_tx env u s =
     (case deletionFootprint env u s of Inl e \<Rightarrow> Inl e | Inr items \<Rightarrow> if items \<noteq> [] then Inl ErrDeletionIncomplete else Inr ((), s))"

definition manual_evidence :: string where
  "manual_evidence = ''manual-completion: see request evidence''"

text \<open>What the automatic (\<open>operator = 0\<close>) and the manual completion require of the erasure row.\<close>

definition completion_ready :: "dl_env \<Rightarrow> int \<Rightarrow> int \<Rightarrow> account_erasure \<Rightarrow> (dl_error, dl_state, unit) tx" where
  "completion_ready env i operator e =
     (if operator = 0 then
        tx_bind (query (flt env ''complete.targets'') (verifiedErasureTargets i)) (\<lambda>verified.
        tx_then (tx_guard verified ErrDeletionIncomplete) (
        tx_bind (query (flt env ''complete.files'') (\<lambda>s. sql_affected (\<lambda>f. ef_request f = i) (files s))) (\<lambda>pendingFiles.
        tx_guard (er_mode e = ''automatic'' \<and> er_stage e = ''database_erased'' \<and> er_evidence e \<noteq> [] \<and> pendingFiles = 0) ErrDeletionIncomplete)))
      else tx_guard (er_mode e = ''manual'') ErrDeletionIncomplete)"

definition complete_writes :: "dl_env \<Rightarrow> int \<Rightarrow> int \<Rightarrow> AccountDeletionResolution \<Rightarrow> int \<Rightarrow> (dl_error, dl_state, unit) tx" where
  "complete_writes env i operator evidence u =
     tx_seq [exec (flt env ''complete.outbox'') (\<lambda>s. s\<lparr>outbox := sql_delete (\<lambda>x. ob_usr x = u \<and> ob_status x = ''DELIVERED'') (outbox s)\<rparr>),
             exec (flt env ''complete.guard'') (recordRestoreGuard env i u),
             exec (flt env ''complete.request'') (upd_requests (\<lambda>r. dr_id r = i)
               (\<lambda>r. r\<lparr>dr_status := ''completed'', dr_usr := None, dr_operator := Some operator, dr_completed := Some (dl_now env),
                      dr_evidence := EvidenceReference evidence, dr_retained := res_RetainedRecords evidence,
                      dr_until := (if res_RetentionUntil evidence = [] then None else Some (res_RetentionUntil evidence))\<rparr>)),
             if operator \<noteq> 0 then exec (flt env ''complete.settle'') (upd_targets (\<lambda>t. et_id t = i \<and> \<not> settled (et_status t))
               (\<lambda>t. t\<lparr>et_status := ''complete'', et_evidence := manual_evidence, et_code := [], et_updated := dl_now env\<rparr>))
             else tx_return (),
             exec (flt env ''complete.context'') (\<lambda>s. s\<lparr>contexts := sql_delete (\<lambda>c. ec_id c = i) (contexts s)\<rparr>),
             exec (flt env ''complete.file'') (\<lambda>s. s\<lparr>files := sql_delete (\<lambda>f. ef_request f = i) (files s)\<rparr>),
             exec (flt env ''complete.erasure'') (upd_erasures (\<lambda>e. er_id e = i)
               (\<lambda>e. e\<lparr>er_stage := ''completed'', er_code := [], er_evidence := [], er_updated := dl_now env\<rparr>))]"

definition close_unreviewed :: "dl_env \<Rightarrow> int \<Rightarrow> dl_state \<Rightarrow> dl_state" where
  "close_unreviewed env i = upd_works (\<lambda>w. rw_id w = i \<and> rw_status w = ''unreviewed'')
     (\<lambda>w. w\<lparr>rw_status := ''not_required'', rw_evidence := manual_evidence, rw_updated := dl_now env\<rparr>)"

definition complete_body :: "dl_env \<Rightarrow> int \<Rightarrow> int \<Rightarrow> AccountDeletionResolution \<Rightarrow> int \<Rightarrow> account_erasure \<Rightarrow> (dl_error, dl_state, unit) tx" where
  "complete_body env i operator evidence u e =
     tx_bind (query (flt env ''complete.finished'') (receiptWorkFinished i)) (\<lambda>finished.
     tx_seq [tx_guard finished ErrDeletionIncomplete,
             completion_ready env i operator e,
             footprint_tx env u,
             verifyDeletionProviders env i u,
             complete_writes env i operator evidence u])"

definition complete_tx :: "dl_env \<Rightarrow> int \<Rightarrow> int \<Rightarrow> AccountDeletionResolution \<Rightarrow> (dl_error, dl_state, unit) tx" where
  "complete_tx env i operator evidence =
     tx_bind (get_row (flt env ''complete.lock'') ErrNoRows (\<lambda>s. Option.bind (sql_get (\<lambda>r. dr_id r = i \<and> dr_status r = ''processing''
                \<and> dr_usr r \<noteq> None \<and> dr_usr r \<noteq> Some operator) (requests s)) dr_usr)) (\<lambda>u.
     tx_bind (get_row (flt env ''complete.automation'') ErrNoRows (erasure_row i)) (\<lambda>e.
     tx_then (if operator \<noteq> 0 then exec (flt env ''complete.work'') (close_unreviewed env i) else tx_return ())
       (complete_body env i operator evidence u e)))"

definition repo_Complete :: "dl_env \<Rightarrow> int \<Rightarrow> int \<Rightarrow> AccountDeletionResolution \<Rightarrow> dl_state \<Rightarrow> (dl_error, unit) result \<times> dl_state" where
  "repo_Complete env i operator evidence = transact (flt env ''begin'') (flt env ''commit'') (complete_tx env i operator evidence)"

definition no_resolution :: AccountDeletionResolution where
  "no_resolution = \<lparr>Action = [], EvidenceReference = [], ResultNotified = False, FilesErased = False, BackupsErased = False,
     ExternalDataErased = False, OtherIdentifiersChecked = False, res_RetainedRecords = [], res_RetentionUntil = [], res_Target = [],
     res_TargetStatus = [], ReceiptWorkStatus = [], OriginalStorage = [], ContactSecured = False, ContactErased = False,
     ReviewedPlanDigest = [], SubscriptionID = 0, SourceFingerprint = [], ProviderClosureOutcome = [],
     ExternalClosureConfirmed = False\<rparr>"

definition FinishAutomaticErasure :: "dl_env \<Rightarrow> ErasureWork \<Rightarrow> dl_state \<Rightarrow> (dl_error, unit) result \<times> dl_state" where
  "FinishAutomaticErasure env w s =
     (case ErasureActive env (w_RequestID w) s of
        Inl e \<Rightarrow> (Inl e, s)
      | Inr active \<Rightarrow>
          if \<not> active then (Inl ErrNoRows, s)
          else (case flt env ''finish.ready'' of Some e \<Rightarrow> (Inl e, s) | None \<Rightarrow>
          if sql_affected (\<lambda>e. er_id e = w_RequestID w \<and> er_stage e = ''database_erased'' \<and> er_evidence e \<noteq> []
                 \<and> \<not> (\<exists>f \<in> set (files s). ef_request f = er_id e)) (erasures s) \<noteq> 1
          then (Inl ErrDeletionIncomplete, s)
          else (case flt env ''finish.receipt'' of Some e \<Rightarrow> (Inl e, s) | None \<Rightarrow>
          (case request_row (w_RequestID w) s of
             None \<Rightarrow> (Inl ErrNoRows, s)
           | Some r \<Rightarrow>
               repo_Complete env (w_RequestID w) 0
                 (no_resolution\<lparr>res_RetainedRecords := dr_retained r,
                    EvidenceReference := ''automatic: verified database, files, provider revocation and external processor; receipt confirmation'',
                    res_RetentionUntil := (case dr_until r of None \<Rightarrow> [] | Some d \<Rightarrow> d)\<rparr>) s))))"

end
