(* ===== verification/Deletion_Service.thy ===== *)
theory Deletion_Service
  imports Account_Deletion Go_Time
begin

text \<open>
  The service in front of the deletion requests: receipt and cancel secrets, operator intake, and the
  validation of every operator action (\<^verbatim>\<open>service/account_deletion_request_service.go\<close>,
  \<^verbatim>\<open>account_deletion_intake_service.go\<close>, \<^verbatim>\<open>erasure_receipt_work.go\<close>, \<^verbatim>\<open>account_erasure_review.go\<close>). The service sees
  its store through an interface, some of whose methods are optional; \<open>repo_store\<close> is the repository in that
  role.
\<close>

section \<open>The store interface\<close>

type_synonym ('s, 'a) call = "'s \<Rightarrow> (dl_error, 'a) result \<times> 's"

record 's deletion_store =
  st_Create :: "int \<Rightarrow> string \<Rightarrow> ('s, AccountDeletionReceipt) call"
  st_Receipt :: "string \<Rightarrow> 's \<Rightarrow> (dl_error, AccountDeletionReceipt) result"
  st_Start :: "int \<Rightarrow> int \<Rightarrow> ('s, unit) call"
  st_Complete :: "int \<Rightarrow> int \<Rightarrow> AccountDeletionResolution \<Rightarrow> ('s, unit) call"
  st_CreateCancelable :: "(int \<Rightarrow> string \<Rightarrow> string \<Rightarrow> ('s, AccountDeletionReceipt) call) option"
  st_CreateOnBehalf :: "(int \<Rightarrow> int \<Rightarrow> string \<Rightarrow> string \<Rightarrow> string \<Rightarrow> ('s, AccountDeletionReceipt) call) option"
  st_Cancel :: "(string \<Rightarrow> string \<Rightarrow> ('s, AccountDeletionReceipt) call) option"
  st_CancelVerified :: "(int \<Rightarrow> int \<Rightarrow> string \<Rightarrow> ('s, unit) call) option"
  st_ReviewErasureSubscription :: "(int \<Rightarrow> int \<Rightarrow> AccountDeletionResolution \<Rightarrow> ('s, unit) call) option"
  st_ReviewErasureTarget :: "(int \<Rightarrow> int \<Rightarrow> ErasureTarget \<Rightarrow> ('s, unit) call) option"
  st_ExpediteReviewed :: "(int \<Rightarrow> int \<Rightarrow> string \<Rightarrow> ('s, unit) call) option"
  st_ControlSchedule :: "(int \<Rightarrow> int \<Rightarrow> string \<Rightarrow> ('s, unit) call) option"
  st_SetErasureMode :: "(int \<Rightarrow> int \<Rightarrow> string \<Rightarrow> ('s, unit) call) option"
  st_ResolveReceiptWork :: "(int \<Rightarrow> int \<Rightarrow> AccountDeletionResolution \<Rightarrow> ('s, unit) call) option"

definition optional :: "'m option \<Rightarrow> dl_error \<Rightarrow> ('m \<Rightarrow> ('s, 'a) call) \<Rightarrow> ('s, 'a) call" where
  "optional m e f s = (case m of None \<Rightarrow> (Inl e, s) | Some g \<Rightarrow> f g s)"

text \<open>SHA-256 in hexadecimal, two fresh random tokens (or the failure of the random source), and the clock in
  nanoseconds since 1970 UTC.\<close>

record sv_env =
  sha256_of :: "string \<Rightarrow> string"
  fresh_token :: "string option"
  fresh_token2 :: "string option"
  now_ns :: int

section \<open>Secrets\<close>

definition hex_digit :: "char \<Rightarrow> nat option" where
  "hex_digit c =
     (let n = of_char c :: nat
      in if 48 \<le> n \<and> n \<le> 57 then Some (n - 48)
         else if 97 \<le> n \<and> n \<le> 102 then Some (n - 87)
         else if 65 \<le> n \<and> n \<le> 70 then Some (n - 55) else None)"

text \<open>\<^verbatim>\<open>hex.DecodeString\<close> and \<^verbatim>\<open>hex.EncodeToString\<close>.\<close>

fun hex_decode :: "string \<Rightarrow> string option" where
  "hex_decode [] = Some []"
| "hex_decode [c] = None"
| "hex_decode (a # b # cs) =
     (case (hex_digit a, hex_digit b, hex_decode cs) of
        (Some x, Some y, Some bs) \<Rightarrow> Some (char_of (16 * x + y) # bs)
      | _ \<Rightarrow> None)"

definition hex_char :: "nat \<Rightarrow> char" where
  "hex_char n = char_of (if n < 10 then 48 + n else 87 + n)"

definition hex_encode :: "string \<Rightarrow> string" where
  "hex_encode bs = concat (map (\<lambda>b. [hex_char (of_char b div 16), hex_char (of_char b mod 16)]) bs)"

definition deletionTokenHash :: "sv_env \<Rightarrow> string \<Rightarrow> (dl_error, string) result" where
  "deletionTokenHash v token =
     (case hex_decode token of
        None \<Rightarrow> Inl (ValidationError ''token'')
      | Some bs \<Rightarrow> if length bs \<noteq> 32 then Inl (ValidationError ''token'') else Inr (hex_encode (sha256_of v bs)))"

definition newDeletionToken :: "string option \<Rightarrow> (dl_error, string) result" where
  "newDeletionToken r = (case r of None \<Rightarrow> Inl RandomFailed | Some bs \<Rightarrow> Inr (hex_encode bs))"

section \<open>Members\<close>

definition Create :: "sv_env \<Rightarrow> 's deletion_store \<Rightarrow> int \<Rightarrow> string \<Rightarrow> ('s, AccountDeletionReceipt \<times> string) call" where
  "Create v S u token s =
     (case (if token = [] then newDeletionToken (fresh_token v) else Inr token) of
        Inl e \<Rightarrow> (Inl e, s)
      | Inr t \<Rightarrow>
          (case deletionTokenHash v t of
             Inl e \<Rightarrow> (Inl e, s)
           | Inr h \<Rightarrow> (case st_Create S u h s of (Inl e, s') \<Rightarrow> (Inl e, s') | (Inr c, s') \<Rightarrow> (Inr (c, t), s'))))"

definition CreateCancelable :: "sv_env \<Rightarrow> 's deletion_store \<Rightarrow> int \<Rightarrow> string \<Rightarrow> string \<Rightarrow> ('s, AccountDeletionReceipt \<times> string) call" where
  "CreateCancelable v S u receiptToken cancelToken s =
     (if cancelToken = [] then Create v S u receiptToken s
      else (case deletionTokenHash v receiptToken of Inl e \<Rightarrow> (Inl e, s) | Inr rh \<Rightarrow>
           (case deletionTokenHash v cancelToken of Inl e \<Rightarrow> (Inl e, s) | Inr ch \<Rightarrow>
            if rh = ch then (Inl (ValidationError ''same token''), s)
            else optional (st_CreateCancelable S) (ValidationError ''unsupported'') (\<lambda>f s.
                   case f u rh ch s of (Inl e, s') \<Rightarrow> (Inl e, s') | (Inr c, s') \<Rightarrow> (Inr (c, receiptToken), s')) s)))"

definition Cancel_request :: "sv_env \<Rightarrow> 's deletion_store \<Rightarrow> string \<Rightarrow> string \<Rightarrow> ('s, AccountDeletionReceipt) call" where
  "Cancel_request v S receiptToken cancelToken s =
     (case deletionTokenHash v receiptToken of Inl e \<Rightarrow> (Inl e, s) | Inr rh \<Rightarrow>
     (case deletionTokenHash v cancelToken of Inl e \<Rightarrow> (Inl e, s) | Inr ch \<Rightarrow>
        optional (st_Cancel S) (ValidationError ''unsupported'') (\<lambda>f. f rh ch) s))"

definition Receipt :: "sv_env \<Rightarrow> 's deletion_store \<Rightarrow> string \<Rightarrow> 's \<Rightarrow> (dl_error, AccountDeletionReceipt) result" where
  "Receipt v S token s = (case deletionTokenHash v token of Inl e \<Rightarrow> Inl e | Inr h \<Rightarrow> st_Receipt S h s)"

section \<open>Operators\<close>

definition intakeEvidenceMaxRunes :: int where "intakeEvidenceMaxRunes = 200"

definition CreateOnBehalf :: "sv_env \<Rightarrow> 's deletion_store \<Rightarrow> int \<Rightarrow> int \<Rightarrow> string \<Rightarrow> ('s, AccountDeletionReceipt \<times> string \<times> string) call" where
  "CreateOnBehalf v S u operator evidence0 s =
     (let evidence = go_TrimSpace evidence0
      in if u \<le> 0 \<or> operator \<le> 0 then (Inl (ValidationError ''member''), s)
         else if u = operator then (Inl (ValidationError ''own account''), s)
         else if evidence = [] \<or> rune_count evidence > intakeEvidenceMaxRunes then (Inl (ValidationError ''evidence''), s)
         else optional (st_CreateOnBehalf S) (ValidationError ''unsupported'') (\<lambda>f s.
           case newDeletionToken (fresh_token v) of Inl e \<Rightarrow> (Inl e, s) | Inr rt \<Rightarrow>
           (case newDeletionToken (fresh_token2 v) of Inl e \<Rightarrow> (Inl e, s) | Inr ct \<Rightarrow>
           (case f u operator (case deletionTokenHash v rt of Inl _ \<Rightarrow> [] | Inr h \<Rightarrow> h)
                     (case deletionTokenHash v ct of Inl _ \<Rightarrow> [] | Inr h \<Rightarrow> h) evidence s of
              (Inl e, s') \<Rightarrow> (Inl e, s')
            | (Inr c, s') \<Rightarrow> (Inr (c, rt, ct), s')))) s)"

definition resolveReceiptWork :: "'s deletion_store \<Rightarrow> int \<Rightarrow> int \<Rightarrow> AccountDeletionResolution \<Rightarrow> ('s, unit) call" where
  "resolveReceiptWork S i operator req0 s =
     (let req = req0\<lparr>EvidenceReference := go_TrimSpace (EvidenceReference req0)\<rparr>;
          invalid = ValidationError ''receipt work evidence'';
          next = ReceiptWorkStatus req
      in if EvidenceReference req = [] \<or> length (EvidenceReference req) > 200 then (Inl invalid, s)
         else if next = ''active'' \<and> (\<not> ContactSecured req
                  \<or> (OriginalStorage req \<noteq> ''happy_nanum'' \<and> OriginalStorage req \<noteq> ''separate_excel'' \<and> OriginalStorage req \<noteq> ''both''))
           then (Inl invalid, s)
         else if next = ''completed'' \<and> (\<not> ResultNotified req \<or> \<not> ContactErased req) then (Inl invalid, s)
         else if next \<noteq> ''active'' \<and> next \<noteq> ''completed'' \<and> next \<noteq> ''not_required'' then (Inl invalid, s)
         else optional (st_ResolveReceiptWork S) invalid (\<lambda>f. f i operator req) s)"

definition erasurePlanDigest :: "string \<Rightarrow> bool" where
  "erasurePlanDigest d = (length d = 64 \<and> list_all (\<lambda>c. c \<in> set ''abcdef0123456789'') d)"

definition expediteReviewed :: "'s deletion_store \<Rightarrow> int \<Rightarrow> int \<Rightarrow> string \<Rightarrow> ('s, unit) call" where
  "expediteReviewed S i operator digest s =
     (if \<not> erasurePlanDigest digest then (Inl (ValidationError ''review first''), s)
      else optional (st_ExpediteReviewed S) (ValidationError ''unsupported'') (\<lambda>f. f i operator digest) s)"

text \<open>\<^verbatim>\<open>time.Parse("2006-01-02", v)\<close>: four, two and two digits; the month and the day in range.\<close>

definition digits_of :: "string \<Rightarrow> int option" where
  "digits_of ds = (if list_all is_digit ds then Some (foldl (\<lambda>n c. 10 * n + digit_val c) 0 ds) else None)"

definition go_ParseDate :: "string \<Rightarrow> (int \<times> int \<times> int) option" where
  "go_ParseDate v =
     (case v of
        [y1, y2, y3, y4, d1, m1, m2, d2, t1, t2] \<Rightarrow>
          (case (digits_of [y1, y2, y3, y4], digits_of [m1, m2], digits_of [t1, t2]) of
             (Some y, Some m, Some d) \<Rightarrow>
               if d1 = CHR ''-'' \<and> d2 = CHR ''-'' \<and> 1 \<le> m \<and> m \<le> 12 \<and> 1 \<le> d \<and> d \<le> daysIn y m then Some (y, m, d) else None
           | _ \<Rightarrow> None)
      | _ \<Rightarrow> None)"

definition future_date :: "sv_env \<Rightarrow> string \<Rightarrow> bool" where
  "future_date v text =
     (case go_ParseDate text of None \<Rightarrow> False | Some (y, m, d) \<Rightarrow> days_from_civil y m d * 86400 * 10 ^ 9 > now_ns v)"

text \<open>The word for no retained records, in UTF-8.\<close>

definition nothing_retained :: string where
  "nothing_retained = map char_of [236 :: nat, 151, 134, 236, 157, 140]"

definition attested :: "sv_env \<Rightarrow> AccountDeletionResolution \<Rightarrow> bool" where
  "attested v req =
     (Action req = ''complete'' \<and> ResultNotified req \<and> FilesErased req \<and> BackupsErased req \<and> ExternalDataErased req
      \<and> OtherIdentifiersChecked req \<and> EvidenceReference req \<noteq> [] \<and> res_RetainedRecords req \<noteq> []
      \<and> rune_count (EvidenceReference req) \<le> 1000 \<and> rune_count (res_RetainedRecords req) \<le> 1000)"

definition Resolve :: "sv_env \<Rightarrow> 's deletion_store \<Rightarrow> int \<Rightarrow> int \<Rightarrow> AccountDeletionResolution \<Rightarrow> ('s, unit) call" where
  "Resolve v S i operator req s =
     (if i \<le> 0 \<or> operator \<le> 0 then (Inl (ValidationError ''request''), s)
      else if Action req = ''cancel_verified'' then
        (if go_TrimSpace (EvidenceReference req) = [] \<or> length (EvidenceReference req) > 500 then (Inl (ValidationError ''evidence''), s)
         else optional (st_CancelVerified S) (ValidationError ''unsupported'') (\<lambda>f. f i operator (EvidenceReference req)) s)
      else if Action req = ''subscription_review'' then
        optional (st_ReviewErasureSubscription S) (ValidationError ''unsupported'') (\<lambda>f. f i operator req) s
      else if Action req = ''target'' then
        optional (st_ReviewErasureTarget S) (ValidationError ''unsupported'')
          (\<lambda>f. f i operator (target_of (res_Target req) (res_TargetStatus req) (go_TrimSpace (EvidenceReference req)))) s
      else if Action req = ''expedite'' then expediteReviewed S i operator (ReviewedPlanDigest req) s
      else if Action req = ''schedule'' \<or> Action req = ''retry_social'' then
        optional (st_ControlSchedule S) (ValidationError ''unsupported'') (\<lambda>f. f i operator (Action req)) s
      else if Action req = ''automatic'' \<or> Action req = ''manual'' then
        optional (st_SetErasureMode S) (ValidationError ''unsupported'') (\<lambda>f. f i operator (Action req)) s
      else if Action req = ''receipt_work'' then resolveReceiptWork S i operator req s
      else if Action req = ''start'' then st_Start S i operator s
      else
        (let req = req\<lparr>EvidenceReference := go_TrimSpace (EvidenceReference req), res_RetainedRecords := go_TrimSpace (res_RetainedRecords req)\<rparr>
         in if \<not> attested v req then (Inl (ValidationError ''attestation''), s)
            else if res_RetainedRecords req = nothing_retained \<and> res_RetentionUntil req \<noteq> [] then (Inl (ValidationError ''retention''), s)
            else if res_RetainedRecords req \<noteq> nothing_retained \<and> \<not> future_date v (res_RetentionUntil req)
              then (Inl (ValidationError ''retention''), s)
            else st_Complete S i operator req s))"

section \<open>The repository as the store\<close>

text \<open>\<open>plan_digest\<close> is the digest of the erasure preview and \<open>review_subscription\<close> the review of a subscription; both
  read tables outside this model and are arguments.\<close>

definition ExpediteReviewed ::
  "(int \<Rightarrow> int \<Rightarrow> dl_state \<Rightarrow> (dl_error, string) result) \<Rightarrow> dl_env \<Rightarrow> int \<Rightarrow> int \<Rightarrow> string \<Rightarrow> (dl_state, unit) call" where
  "ExpediteReviewed plan_digest env i operator digest =
     controlSchedule env i operator ''expedite'' (\<lambda>u s.
       case plan_digest i u s of Inl e \<Rightarrow> Inl e | Inr d \<Rightarrow> if d \<noteq> digest then Inl ErrErasurePlanChanged else Inr ((), s))"

definition repo_store ::
  "(int \<Rightarrow> int \<Rightarrow> dl_state \<Rightarrow> (dl_error, string) result)
   \<Rightarrow> (int \<Rightarrow> int \<Rightarrow> AccountDeletionResolution \<Rightarrow> (dl_state, unit) call) option \<Rightarrow> dl_env \<Rightarrow> dl_state deletion_store" where
  "repo_store plan_digest review_subscription env =
     \<lparr>st_Create = repo_Create env, st_Receipt = repo_Receipt env, st_Start = repo_Start env, st_Complete = repo_Complete env,
      st_CreateCancelable = Some (repo_CreateCancelable env), st_CreateOnBehalf = Some (repo_CreateOnBehalf env),
      st_Cancel = Some (repo_Cancel env), st_CancelVerified = Some (CancelVerified env),
      st_ReviewErasureSubscription = review_subscription, st_ReviewErasureTarget = Some (ReviewErasureTarget env),
      st_ExpediteReviewed = Some (ExpediteReviewed plan_digest env), st_ControlSchedule = Some (ControlSchedule env),
      st_SetErasureMode = Some (SetErasureMode env), st_ResolveReceiptWork = Some (ResolveReceiptWork env)\<rparr>"

end
