(* ===== verification/Deletion_Invariants.thy ===== *)
theory Deletion_Invariants
  imports Deletion_Service
begin

text \<open>
  The library under the properties of account deletion: histories of operations as a step function, what no
  operation undoes (settled targets, the snapshot of a request, its schedule), that the keys stay
  consistent and closed requests stay as they are, and what the two transactions of a request's end have
  checked. Statement by statement through the relations of \<^verbatim>\<open>Tx_Monad\<close>.
\<close>

section \<open>Histories\<close>

datatype dl_op =
    OpCreate dl_env int string string
  | OpOnBehalf dl_env int int string string string
  | OpStart dl_env int int
  | OpCancel dl_env string string
  | OpCancelVerified dl_env int int string
  | OpControl dl_env int int string
  | OpMode dl_env int int string
  | OpRetry dl_env int string
  | OpBegin dl_env int
  | OpRecord dl_env int "ErasureTarget list"
  | OpReview dl_env int int ErasureTarget
  | OpExternal dl_env int string
  | OpFileDone dl_env int
  | OpSaveContext dl_env int string
  | OpRefreshContext dl_env int string
  | OpWork dl_env int int AccountDeletionResolution
  | OpReviewWork dl_env int bool
  | OpComplete dl_env int int AccountDeletionResolution
  | OpFinish dl_env ErasureWork
  | OpPurgeGuards dl_env

fun dl_step :: "dl_state \<Rightarrow> dl_op \<Rightarrow> dl_state" where
  "dl_step s (OpCreate env u rh ch) = snd (repo_CreateCancelable env u rh ch s)"
| "dl_step s (OpOnBehalf env u p rh ch e) = snd (repo_CreateOnBehalf env u p rh ch e s)"
| "dl_step s (OpStart env i p) = snd (repo_Start env i p s)"
| "dl_step s (OpCancel env rh ch) = snd (repo_Cancel env rh ch s)"
| "dl_step s (OpCancelVerified env i p e) = snd (CancelVerified env i p e s)"
| "dl_step s (OpControl env i p a) = snd (ControlSchedule env i p a s)"
| "dl_step s (OpMode env i p m) = snd (SetErasureMode env i p m s)"
| "dl_step s (OpRetry env i c) = snd (ErasureRetry env i c s)"
| "dl_step s (OpBegin env i) = snd (BeginErasureTargets env i s)"
| "dl_step s (OpRecord env i ts) = snd (RecordErasureTargets env i ts s)"
| "dl_step s (OpReview env i p t) = snd (ReviewErasureTarget env i p t s)"
| "dl_step s (OpExternal env i e) = snd (RecordExternalErasure env i e s)"
| "dl_step s (OpFileDone env i) = snd (ErasureFileDone env i s)"
| "dl_step s (OpSaveContext env i x) = snd (SaveErasureContext env i x s)"
| "dl_step s (OpRefreshContext env i x) = snd (RefreshErasureContext env i x s)"
| "dl_step s (OpWork env i p req) = snd (ResolveReceiptWork env i p req s)"
| "dl_step s (OpReviewWork env i d) = snd (transact (flt env ''begin'') (flt env ''commit'') (reviewReceiptWork env i d) s)"
| "dl_step s (OpComplete env i p req) = snd (repo_Complete env i p req s)"
| "dl_step s (OpFinish env w) = snd (FinishAutomaticErasure env w s)"
| "dl_step s (OpPurgeGuards env) = snd (PurgeExpiredRestoreGuards env s)"

section \<open>Tables that only grow and advance\<close>

text \<open>Every row is still there, in its place, and has changed only as \<open>P\<close> allows; new rows are at the end.\<close>

definition grows :: "('r \<Rightarrow> 'r \<Rightarrow> bool) \<Rightarrow> 'r list \<Rightarrow> 'r list \<Rightarrow> bool" where
  "grows P xs ys = list_all2 P xs (take (length xs) ys)"

lemma growsD: "grows P xs ys \<Longrightarrow> x \<in> set xs \<Longrightarrow> \<exists>y \<in> set ys. P x y"
  unfolding grows_def by (metis in_set_takeD list_all2_iff in_set_zip set_zip_leftD in_set_conv_nth list_all2_conv_all_nth nth_mem)

lemma grows_refl: "(\<And>x. P x x) \<Longrightarrow> grows P xs xs"
  by (simp add: grows_def list_all2_refl)

lemma grows_trans:
  assumes "\<And>x y z. P x y \<Longrightarrow> P y z \<Longrightarrow> P x z" "grows P xs ys" "grows P ys zs"
  shows "grows P xs zs"
proof -
  have l: "length xs \<le> length ys" using assms(2) by (auto simp: grows_def list_all2_conv_all_nth)
  have m: "length ys \<le> length zs" using assms(3) by (auto simp: grows_def list_all2_conv_all_nth)
  show ?thesis unfolding grows_def list_all2_conv_all_nth
    using assms l m by (auto simp: grows_def list_all2_conv_all_nth min_def)
qed

lemma grows_append: "(\<And>x. P x x) \<Longrightarrow> grows P xs (xs @ ys)"
  by (simp add: grows_def list_all2_refl)

lemma grows_update: "(\<And>x. P x x) \<Longrightarrow> (\<And>x. q x \<Longrightarrow> P x (f x)) \<Longrightarrow> grows P xs (sql_update q f xs)"
  by (auto simp: grows_def sql_update_def list_all2_conv_all_nth)

text \<open>The queue of files only loses rows. A settled target stays as it is; the snapshot of a request keeps the original status and the cancel
  secret, and neither a block nor a start is undone; a schedule keeps its time and an expedition.\<close>

definition target_keeps :: "erasure_target \<Rightarrow> erasure_target \<Rightarrow> bool" where
  "target_keeps t t' = (et_id t' = et_id t \<and> et_name t' = et_name t \<and> (settled (et_status t) \<longrightarrow> t' = t))"

definition snapshot_keeps :: "cancellation \<Rightarrow> cancellation \<Rightarrow> bool" where
  "snapshot_keeps c c' = (cx_id c' = cx_id c \<and> cx_original c' = cx_original c \<and> cx_hash c' = cx_hash c
     \<and> (cx_blocked c \<longrightarrow> cx_blocked c') \<and> (cx_started c \<noteq> None \<longrightarrow> cx_started c' = cx_started c))"

definition schedule_keeps :: "erasure_schedule \<Rightarrow> erasure_schedule \<Rightarrow> bool" where
  "schedule_keeps e e' = (es_id e' = es_id e \<and> es_scheduled e' = es_scheduled e \<and> (es_expedited e \<noteq> None \<longrightarrow> es_expedited e' = es_expedited e))"

definition progress :: "dl_state \<Rightarrow> dl_state \<Rightarrow> bool" where
  "progress s s' = (grows target_keeps (targets s) (targets s') \<and> grows snapshot_keeps (cancellations s) (cancellations s')
     \<and> grows schedule_keeps (schedules s) (schedules s') \<and> subseq (files s') (files s))"

lemma row_keeps_refl: "target_keeps t t" "snapshot_keeps c c" "schedule_keeps e e"
  by (auto simp: target_keeps_def snapshot_keeps_def schedule_keeps_def)

lemma row_keeps_trans:
  "target_keeps t t' \<Longrightarrow> target_keeps t' t'' \<Longrightarrow> target_keeps t t''"
  "snapshot_keeps c c' \<Longrightarrow> snapshot_keeps c' c'' \<Longrightarrow> snapshot_keeps c c''"
  "schedule_keeps e e' \<Longrightarrow> schedule_keeps e' e'' \<Longrightarrow> schedule_keeps e e''"
  by (auto simp: target_keeps_def snapshot_keeps_def schedule_keeps_def)

interpretation prog: tx_relation progress
proof
  show "progress s s" for s by (simp add: progress_def grows_refl row_keeps_refl)
  show "progress s u" if "progress s t" "progress t u" for s t u
    using that unfolding progress_def by (blast intro: subseq_order.trans grows_trans [of target_keeps] grows_trans [of snapshot_keeps] grows_trans [of schedule_keeps] row_keeps_trans)
qed

lemma progress_same: "targets s' = targets s \<Longrightarrow> cancellations s' = cancellations s \<Longrightarrow> schedules s' = schedules s \<Longrightarrow> files s' = files s \<Longrightarrow> progress s s'"
  by (simp add: progress_def grows_refl row_keeps_refl)

lemmas upd_defs = upd_requests_def upd_cancellations_def upd_erasures_def upd_targets_def upd_works_def
  upd_schedules_def upd_outbox_def

lemma progress_upd:
  "progress s (upd_requests p f s)" "progress s (upd_erasures p' f' s)" "progress s (upd_works p'' f'' s)" "progress s (upd_outbox q g s)"
  by (rule progress_same; simp add: upd_defs)+

lemma progress_targets: "(\<And>t. p t \<Longrightarrow> target_keeps t (f t)) \<Longrightarrow> progress s (upd_targets p f s)"
  by (simp add: progress_def upd_targets_def grows_refl grows_update row_keeps_refl)

lemma progress_cancellations: "(\<And>c. p c \<Longrightarrow> snapshot_keeps c (f c)) \<Longrightarrow> progress s (upd_cancellations p f s)"
  by (simp add: progress_def upd_cancellations_def grows_refl grows_update row_keeps_refl)

lemma progress_schedules: "(\<And>e. p e \<Longrightarrow> schedule_keeps e (f e)) \<Longrightarrow> progress s (upd_schedules p f s)"
  by (simp add: progress_def upd_schedules_def grows_refl grows_update row_keeps_refl)

lemma progress_fields:
  "progress s (s\<lparr>contexts := cs\<rparr>)" "progress s (s\<lparr>guards := gs\<rparr>)" "progress s (s\<lparr>dl_roles := rs\<rparr>)"
  "progress s (s\<lparr>intakes := is\<rparr>)" "progress s (s\<lparr>outbox := os\<rparr>)"
  by (rule progress_same; simp)+

lemma progress_files: "progress s (s\<lparr>files := sql_delete p (files s)\<rparr>)"
  by (simp add: progress_def grows_refl row_keeps_refl sql_delete_def)

lemma progress_inserts:
  "progress s (insert_request env u h s)" "progress s (insert_schedule env i s)" "progress s (insert_cancellation i x h s)"
  "progress s (insert_erasure env i s)" "progress s (seed_target env i n s)" "progress s (insert_work env i s)"
  "progress s (schedule_targets i s)" "progress s (recordRestoreGuard env i u s)" "progress s (enqueue_revocations env u i s)"
  by (auto simp: progress_def insert_request_def insert_schedule_def insert_cancellation_def insert_erasure_def seed_target_def
        insert_work_def schedule_targets_def recordRestoreGuard_def enqueue_revocations_def upd_defs Let_def grows_refl grows_append row_keeps_refl
      split: option.splits)

lemma progress_member: "progress s (set_member_status u v s)"
proof -
  have "progress s (restore_guard_trigger u s)"
    by (auto simp: restore_guard_trigger_def prog.R_refl intro!: progress_cancellations) (auto simp: snapshot_keeps_def)
  then show ?thesis by (auto simp: set_member_status_def progress_def)
qed

lemma progress_for_request: "(\<And>i. progress s (f i s)) \<Longrightarrow> progress s (for_request u f s)"
  by (auto simp: for_request_def prog.R_refl split: option.splits)

lemmas progress_intros = prog.est_rules progress_upd progress_targets progress_cancellations progress_schedules progress_fields progress_files
  progress_inserts progress_member progress_for_request

lemma progress_seed: "establishes progress (seed_targets env i ns)"
  by (induction ns) (auto intro!: progress_intros)

lemma progress_new_receipt:
  "(\<And>j. establishes progress (before j)) \<Longrightarrow> establishes progress (new_receipt env u rh ch st before)"
  unfolding new_receipt_def new_request_def disable_account_def queue_erasure_def read_receipt_def seedErasureTargets_def by (intro progress_intros progress_seed)

lemma progress_createReceipt:
  assumes "\<And>j. establishes progress (before j)"
  shows "progress s (snd (createReceipt env u rh ch before s))"
proof -
  note rules = progress_intros progress_new_receipt [OF assms]
  show ?thesis unfolding createReceipt_def read_receipt_def
    by (auto simp: prog.R_refl split: option.splits intro!: prog.est_transact rules)
qed

lemma progress_create:
  "progress s (snd (repo_CreateCancelable env u rh ch s))"
  "progress s (snd (repo_CreateOnBehalf env u p rh ch e s))"
proof -
  show "progress s (snd (repo_CreateCancelable env u rh ch s))"
    unfolding repo_CreateCancelable_def by (intro progress_createReceipt progress_intros)
  have "progress s (snd (createReceipt env u rh ch (insert_intake env p e) s))"
    by (rule progress_createReceipt) (unfold insert_intake_def, intro progress_intros)
  then show "progress s (snd (repo_CreateOnBehalf env u p rh ch e s))"
    by (auto simp: repo_CreateOnBehalf_def prog.R_refl split: prod.splits sum.splits dl_error.splits)
qed

lemma progress_lock: "(\<And>s. progress s (snd (f s))) \<Longrightarrow> progress s (snd (with_lock env e f s))"
  by (auto simp: with_lock_def prog.R_refl split: sum.splits)

lemma progress_start: "progress s (snd (repo_Start env i p s))"
proof -
  have "establishes progress (start_tx env i p)"
    unfolding start_tx_def by (intro progress_intros) (auto simp: snapshot_keeps_def)
  then have "progress s (snd (transact b c (start_tx env i p) s))" for s b c by (rule prog.est_transact)
  then show ?thesis unfolding repo_Start_def by (auto intro!: progress_lock simp: prog.R_refl split: option.splits)
qed

lemma progress_cancel: "progress s (snd (repo_Cancel env rh ch s))"
proof -
  have "establishes progress (cancel_tx env rh ch)"
    unfolding cancel_tx_def cancel_writes_def by (intro progress_intros) (auto simp: snapshot_keeps_def)
  then show ?thesis unfolding repo_Cancel_def
    by (auto intro!: progress_lock simp: prog.R_refl establishes_def split: option.splits sum.splits)
qed

text \<open>The state after a call whose result is only passed on.\<close>

lemma snd_forward: "snd (case x of (Inl e, s') \<Rightarrow> (Inl (f e), s') | (Inr a, s') \<Rightarrow> (Inr (g a), s')) = snd x"
  by (auto split: prod.splits sum.splits)

lemma progress_cancel_verified: "progress s (snd (CancelVerified env i p e s))"
  unfolding CancelVerified_def
  by (auto simp: snd_forward prog.R_refl Let_def split: option.splits intro: prog.R_trans [OF progress_upd(1) progress_cancel])

lemma progress_control:
  assumes "\<And>u. establishes progress (review u)"
  shows "progress s (snd (controlSchedule env i p a review s))"
proof -
  have "establishes progress (controlSchedule_tx env i p a review)"
    unfolding controlSchedule_tx_def resume_erasure_def expedite_schedule_def
    by (intro progress_intros assms) (auto simp: schedule_keeps_def)
  then have "progress s (snd (transact b c (controlSchedule_tx env i p a review) s))" for s b c by (rule prog.est_transact)
  then show ?thesis unfolding controlSchedule_def by (auto intro!: progress_lock simp: prog.R_refl)
qed

lemma progress_record: "establishes progress (record_targets env i seen ts)"
  by (induction ts arbitrary: seen) (auto intro!: progress_intros simp: open_target_def target_keeps_def)

lemma progress_record_op: "progress s (snd (RecordErasureTargets env i ts s))"
  unfolding RecordErasureTargets_def by (intro prog.est_transact progress_intros progress_record)

lemma progress_review: "progress s (snd (ReviewErasureTarget env i p t s))"
proof -
  have *: "progress s (snd (case RecordErasureTargets env i ts s of (Inl e, s1) \<Rightarrow> (Inl e, s1)
             | (Inr _, s1) \<Rightarrow> direct (exec x (upd_erasures q f)) s1))" for s x q f ts
  proof (cases "RecordErasureTargets env i ts s")
    case (Pair r s1)
    with progress_record_op [of s env i ts] have 1: "progress s s1" by simp
    have "progress s1 (snd (direct (exec x (upd_erasures q f)) s1))"
      by (intro prog.est_direct progress_intros)
    with Pair prog.R_trans [OF 1 this] 1 show ?thesis by (cases r) auto
  qed
  show ?thesis unfolding ReviewErasureTarget_def
    by (auto intro!: progress_lock * simp: prog.R_refl Let_def split: option.splits)
qed

lemma progress_external: "progress s (snd (RecordExternalErasure env i e s))"
proof -
  have "progress s (snd (transact b c (tx_bind (exec_count flt1 cnt (\<lambda>s. upd_erasures (q s) f s)) (\<lambda>n.
         tx_then (tx_guard (n \<noteq> 0) ErrNoRows) (
         tx_then (exec flt2 (upd_targets (\<lambda>t. et_id t = i \<and> \<not> settled (et_status t))
                    (\<lambda>t. t\<lparr>et_status := ''complete'', et_evidence := e, et_code := [], et_updated := dl_now env\<rparr>))) (
         tx_bind (query flt3 (verifiedErasureTargets i)) (\<lambda>verified.
         tx_then (tx_guard verified ErrDeletionIncomplete)
           (exec flt4 (\<lambda>s. s\<lparr>contexts := sql_delete (\<lambda>c. ec_id c = i) (contexts s)\<rparr>))))))) s))"
    for s b c flt1 flt2 flt3 flt4 q f and cnt :: "dl_state \<Rightarrow> nat"
    by (intro prog.est_transact progress_intros) (auto simp: target_keeps_def)
  then show ?thesis by (simp add: RecordExternalErasure_def Let_def prog.R_refl)
qed

lemma progress_context:
  "progress s (snd (SaveErasureContext env i x s))" "progress s (snd (RefreshErasureContext env i x s))"
  by (auto simp: SaveErasureContext_def RefreshErasureContext_def Let_def prog.R_refl progress_fields
      split: option.splits sum.splits dl_error.splits)

lemma progress_footprint: "establishes progress (footprint_tx env u)"
  by (auto simp: establishes_def footprint_tx_def prog.R_refl split: sum.splits if_splits)

lemma progress_complete: "progress s (snd (repo_Complete env i p req s))"
  unfolding repo_Complete_def complete_tx_def complete_body_def close_unreviewed_def completion_ready_def verifyDeletionProviders_def complete_writes_def
  by (intro prog.est_transact progress_intros progress_footprint) (auto simp: target_keeps_def)

lemma progress_finish: "progress s (snd (FinishAutomaticErasure env w s))"
  by (auto simp: FinishAutomaticErasure_def prog.R_refl progress_complete split: sum.splits option.splits)

lemma progress_works:
  "progress s (snd (ResolveReceiptWork env i p req s))"
  "progress s (snd (transact b c (reviewReceiptWork env i d) s))"
  unfolding ResolveReceiptWork_def reviewReceiptWork_def by (intro prog.est_transact progress_intros)+

lemma progress_small:
  "progress s (snd (SetErasureMode env i p m s))" "progress s (snd (ErasureRetry env i c s))"
  "progress s (snd (BeginErasureTargets env i s))" "progress s (snd (ErasureFileDone env i s))"
  "progress s (snd (PurgeExpiredRestoreGuards env s))"
proof -
  show "progress s (snd (SetErasureMode env i p m s))" unfolding SetErasureMode_def
    by (auto intro!: progress_lock simp: prog.R_refl progress_upd Let_def split: option.splits)
  show "progress s (snd (BeginErasureTargets env i s))" unfolding BeginErasureTargets_def
    by (auto intro!: progress_targets simp: prog.R_refl target_keeps_def begin_pred_def begin_row_def split: option.splits)
qed (unfold ErasureRetry_def ErasureFileDone_def PurgeExpiredRestoreGuards_def, (intro prog.est_direct progress_intros)+)

lemma progress_step: "progress s (dl_step s x)"
  by (cases x) (simp_all add: progress_create progress_start progress_cancel progress_cancel_verified ControlSchedule_def
      progress_control prog.est_return progress_small progress_record_op progress_review progress_external progress_context progress_works
      progress_complete progress_finish)

lemma progress_run: "progress s (run dl_step s xs)"
  using prog.est_run [of "\<lambda>_. True" dl_step xs s] progress_step by (simp add: list_all_iff)

section \<open>Consistent tables and closed requests\<close>

definition terminal :: "del_request \<Rightarrow> bool" where
  "terminal r = (dr_status r = ''completed'' \<or> dr_status r = ''cancelled'')"

text \<open>Keys are unique, a member has one request at most, and the companion tables know only requests that exist.\<close>

definition dl_ok :: "dl_state \<Rightarrow> bool" where
  "dl_ok s =
     (keys_ok dr_id (request_next s) (requests s) \<and> distinct (map dr_receipt (requests s))
      \<and> (\<forall>r \<in> set (requests s). \<forall>r' \<in> set (requests s). dr_usr r \<noteq> None \<and> dr_usr r = dr_usr r' \<longrightarrow> dr_id r = dr_id r')
      \<and> distinct (map cx_id (cancellations s))
      \<and> (\<forall>i \<in> set (map cx_id (cancellations s)) \<union> set (map es_id (schedules s)) \<union> set (map et_id (targets s)). i < request_next s))"

lemma dl_okD:
  assumes "dl_ok s"
  shows "r \<in> set (requests s) \<Longrightarrow> r' \<in> set (requests s) \<Longrightarrow> dr_id r = dr_id r' \<Longrightarrow> r' = r"
    and "r \<in> set (requests s) \<Longrightarrow> r' \<in> set (requests s) \<Longrightarrow> dr_receipt r = dr_receipt r' \<Longrightarrow> r' = r"
    and "r \<in> set (requests s) \<Longrightarrow> r' \<in> set (requests s) \<Longrightarrow> dr_usr r = Some u \<Longrightarrow> dr_usr r' = Some u \<Longrightarrow> r' = r"
    and "c \<in> set (cancellations s) \<Longrightarrow> c' \<in> set (cancellations s) \<Longrightarrow> cx_id c = cx_id c' \<Longrightarrow> c' = c"
    and "r \<in> set (requests s) \<Longrightarrow> dr_id r < request_next s"
proof -
  from assms show r: "r \<in> set (requests s) \<Longrightarrow> r' \<in> set (requests s) \<Longrightarrow> dr_id r = dr_id r' \<Longrightarrow> r' = r"
    for r r' by (auto simp: dl_ok_def keys_ok_def distinct_map inj_on_def)
  from assms show "r \<in> set (requests s) \<Longrightarrow> r' \<in> set (requests s) \<Longrightarrow> dr_receipt r = dr_receipt r' \<Longrightarrow> r' = r"
    by (auto simp: dl_ok_def distinct_map inj_on_def)
  from assms r show "r \<in> set (requests s) \<Longrightarrow> r' \<in> set (requests s) \<Longrightarrow> dr_usr r = Some u \<Longrightarrow> dr_usr r' = Some u \<Longrightarrow> r' = r"
    unfolding dl_ok_def by (metis option.distinct(1))
  from assms show "c \<in> set (cancellations s) \<Longrightarrow> c' \<in> set (cancellations s) \<Longrightarrow> cx_id c = cx_id c' \<Longrightarrow> c' = c"
    by (auto simp: dl_ok_def distinct_map inj_on_def)
  from assms show "r \<in> set (requests s) \<Longrightarrow> dr_id r < request_next s"
    by (auto simp: dl_ok_def keys_ok_def)
qed

text \<open>What an operation keeps: consistency, and every closed request as it is.\<close>

definition safe :: "dl_state \<Rightarrow> dl_state \<Rightarrow> bool" where
  "safe s s' = (dl_ok s \<longrightarrow> dl_ok s' \<and> (\<forall>r \<in> set (requests s). terminal r \<longrightarrow> r \<in> set (requests s')))"

interpretation safe: tx_relation safe
  by unfold_locales (auto simp: safe_def)

text \<open>Statements that leave the requests and all keys alone.\<close>

definition same_keys :: "dl_state \<Rightarrow> dl_state \<Rightarrow> bool" where
  "same_keys s s' = (requests s' = requests s \<and> request_next s' = request_next s \<and> map cx_id (cancellations s') = map cx_id (cancellations s)
     \<and> map es_id (schedules s') = map es_id (schedules s) \<and> map et_id (targets s') = map et_id (targets s))"

interpretation keyed: tx_relation same_keys
  by unfold_locales (auto simp: same_keys_def)

lemma same_keys_safe: "same_keys s s' \<Longrightarrow> safe s s'"
proof -
  assume *: "same_keys s s'"
  then have "dl_ok s' \<longleftrightarrow> dl_ok s" unfolding same_keys_def dl_ok_def by (elim conjE) (simp only:)
  with * show "safe s s'" by (simp add: safe_def same_keys_def)
qed

lemma same_keys_upd:
  "same_keys s (upd_erasures p f s)" "same_keys s (upd_works p' f' s)" "same_keys s (upd_outbox p'' f'' s)"
  "same_keys s (s\<lparr>contexts := cs\<rparr>)" "same_keys s (s\<lparr>files := fs\<rparr>)" "same_keys s (s\<lparr>guards := gs\<rparr>)" "same_keys s (s\<lparr>dl_roles := rs\<rparr>)"
  "same_keys s (s\<lparr>intakes := is\<rparr>)" "same_keys s (s\<lparr>outbox := os\<rparr>)" "same_keys s (insert_erasure env i s)" "same_keys s (insert_work env i s)"
  "same_keys s (recordRestoreGuard env i u s)" "same_keys s (enqueue_revocations env u i s)"
  by (auto simp: same_keys_def upd_defs insert_erasure_def insert_work_def recordRestoreGuard_def enqueue_revocations_def Let_def
      split: option.splits)

lemma same_keys_tables:
  "(\<And>t. et_id (f t) = et_id t) \<Longrightarrow> same_keys s (upd_targets p f s)"
  "(\<And>c. cx_id (g c) = cx_id c) \<Longrightarrow> same_keys s (upd_cancellations q g s)"
  "(\<And>e. es_id (h e) = es_id e) \<Longrightarrow> same_keys s (upd_schedules q' h s)"
  by (simp_all add: same_keys_def upd_defs map_key_sql_update)

lemma same_keys_member: "same_keys s (set_member_status u v s)"
  by (auto simp: set_member_status_def restore_guard_trigger_def same_keys_def upd_defs map_key_sql_update)

lemmas keyed_intros = keyed.est_rules same_keys_upd same_keys_tables same_keys_member

lemma keyed_transact: "establishes same_keys m \<Longrightarrow> safe s (snd (transact b c m s))"
  by (intro same_keys_safe keyed.est_transact)

lemma keys_ok_cong:
  assumes "map key xs = map key ys"
  shows "keys_ok key n xs = keys_ok key n ys"
proof -
  have "keys_ok key n zs = (distinct (map key zs) \<and> (\<forall>k \<in> set (map key zs). 1 \<le> k \<and> k < n) \<and> 1 \<le> n)" for zs
    by (simp add: keys_ok_def)
  then show ?thesis by (simp only: assms)
qed

lemma dl_ok_rows:
  assumes ok: "dl_ok s" and i: "map dr_id (requests s') = map dr_id (requests s)" and h: "map dr_receipt (requests s') = map dr_receipt (requests s)"
    and u: "\<And>x. x \<in> set (requests s') \<Longrightarrow> \<exists>y \<in> set (requests s). dr_id x = dr_id y \<and> (dr_usr x = dr_usr y \<or> dr_usr x = None)"
    and n: "request_next s' = request_next s" and c: "map cx_id (cancellations s') = map cx_id (cancellations s)"
    and e: "\<And>k. k \<in> set (map es_id (schedules s')) \<Longrightarrow> k < request_next s" and t: "map et_id (targets s') = map et_id (targets s)"
  shows "dl_ok s'"
  unfolding dl_ok_def n c h t
proof (intro conjI ballI impI)
  show "keys_ok dr_id (request_next s) (requests s')" using ok keys_ok_cong [OF i] by (simp add: dl_ok_def)
  show "distinct (map dr_receipt (requests s))" "distinct (map cx_id (cancellations s))" using ok by (auto simp: dl_ok_def)
  show "dr_id x = dr_id y" if "x \<in> set (requests s')" "y \<in> set (requests s')" "dr_usr x \<noteq> None \<and> dr_usr x = dr_usr y" for x y
    using u [OF that(1)] u [OF that(2)] that(3) ok unfolding dl_ok_def by metis
  show "k < request_next s" if "k \<in> set (map cx_id (cancellations s)) \<union> set (map es_id (schedules s')) \<union> set (map et_id (targets s))" for k
    using that ok e unfolding dl_ok_def by blast
qed

text \<open>An operation that changes open requests only.\<close>

lemma touch_safe:
  assumes "dl_ok s \<Longrightarrow> r \<in> set (requests s) \<and> \<not> terminal r"
    and "requests s' = sql_update p f (requests s)" "\<And>x. p x \<Longrightarrow> dr_id x = dr_id r"
    and "\<And>x. dr_id (f x) = dr_id x \<and> dr_receipt (f x) = dr_receipt x \<and> (dr_usr (f x) = dr_usr x \<or> dr_usr (f x) = None)"
    and "request_next s' = request_next s" "map cx_id (cancellations s') = map cx_id (cancellations s)"
    and "set (map es_id (schedules s')) \<subseteq> insert (dr_id r) (set (map es_id (schedules s)))"
    and "map et_id (targets s') = map et_id (targets s)"
  shows "safe s s'"
  unfolding safe_def
proof (intro impI conjI ballI)
  assume ok: "dl_ok s"
  have r: "dr_id r < request_next s" using assms(1) [OF ok] dl_okD(5) [OF ok] by blast
  show "dl_ok s'"
  proof (rule dl_ok_rows [OF ok])
    show "map dr_id (requests s') = map dr_id (requests s)" "map dr_receipt (requests s') = map dr_receipt (requests s)"
      using assms(4) by (simp_all add: assms(2) map_key_sql_update)
    show "\<exists>y \<in> set (requests s). dr_id x = dr_id y \<and> (dr_usr x = dr_usr y \<or> dr_usr x = None)" if "x \<in> set (requests s')" for x
      using that assms(4) by (auto simp: assms(2) set_sql_update)
    show "k < request_next s" if "k \<in> set (map es_id (schedules s'))" for k
      using that assms(7) r ok unfolding dl_ok_def by blast
  qed (use assms(5,6,8) in auto)
  fix x assume x: "x \<in> set (requests s)" "terminal x"
  then have "\<not> p x" using assms(1) [OF ok] assms(3) dl_okD(1) [OF ok] by blast
  then show "x \<in> set (requests s')" using x by (auto simp: assms(2) set_sql_update)
qed

lemmas dl_fields = upd_defs enqueue_revocations_def recordRestoreGuard_def set_member_status_def restore_guard_trigger_def
  insert_schedule_def expedite_schedule_def resume_erasure_def schedule_targets_def Let_def

lemma open_not_terminal: "open_status (dr_status r) \<Longrightarrow> \<not> terminal r"
  by (auto simp: open_status_def terminal_def)

lemma safe_start_tx: "establishes safe (start_tx env i p)"
  unfolding establishes_def
proof (intro allI impI)
  fix s a s' assume *: "start_tx env i p s = Inr (a, s')"
  then obtain r where r: "sql_get (\<lambda>r. dr_id r = i \<and> dr_status r = ''pending'' \<and> dr_usr r \<noteq> None \<and> dr_usr r \<noteq> Some p) (requests s) = Some r"
    by (auto simp: start_tx_def tx_ok bind_eq_Some_conv)
  show "safe s s'"
    by (rule touch_safe [of s r _ "\<lambda>x. dr_id x = i" "\<lambda>r. r\<lparr>dr_status := ''processing'', dr_operator := Some p\<rparr>"])
      (use sql_get_Some [OF r] * in \<open>auto simp: start_tx_def tx_ok dl_fields terminal_def map_key_sql_update split: if_splits\<close>)
qed

lemma safe_lock: "(\<And>s. safe s (snd (f s))) \<Longrightarrow> safe s (snd (with_lock env e f s))"
  by (auto simp: with_lock_def safe.R_refl split: sum.splits)

lemma safe_start: "safe s (snd (repo_Start env i p s))"
  unfolding repo_Start_def
  by (auto intro!: safe_lock safe.est_transact safe_start_tx simp: safe.R_refl split: option.splits)

lemma cancel_joinD:
  assumes "cancel_join rh ch s = Some (r, c)"
  shows "r \<in> set (requests s)" "c \<in> set (cancellations s)" "cx_id c = dr_id r" "dr_receipt r = rh" "cx_hash c = ch" "ch \<noteq> []"
  using sql_get_Some [OF assms [unfolded cancel_join_def sql_get_def [symmetric]]] by auto

lemma cancel_txD:
  assumes "cancel_tx env rh ch s = Inr (False, s')"
  obtains r c u restore where "cancel_join rh ch s = Some (r, c)" "dr_status r = ''pending''" "cx_started c = None" "\<not> cx_blocked c"
    "dr_usr r = Some u" "member_status u s = Some (Some ''AAA'')" "unsafe_targets (dr_id r) s = 0"
    "restored_status (cx_original c) = Some restore" "cancel_writes env (dr_id r) u restore s = Inr ((), s')"
  using assms by (auto simp: cancel_tx_def tx_ok Let_def split: if_splits option.splits)

lemma cancel_tx_already: "cancel_tx env rh ch s = Inr (True, s') \<Longrightarrow> s' = s"
  by (auto simp: cancel_tx_def tx_ok Let_def split: if_splits option.splits)

lemma safe_cancel_tx: "establishes safe (cancel_tx env rh ch)"
  unfolding establishes_def
proof (intro allI impI)
  fix s a s' assume *: "cancel_tx env rh ch s = Inr (a, s')"
  show "safe s s'"
  proof (cases a)
    case True
    with * show ?thesis using cancel_tx_already safe.R_refl by metis
  next
    case False
    with * have "cancel_tx env rh ch s = Inr (False, s')" by simp
    then show ?thesis
    proof (rule cancel_txD)
      fix r c u restore
      assume r: "cancel_join rh ch s = Some (r, c)" "dr_status r = ''pending''" "cancel_writes env (dr_id r) u restore s = Inr ((), s')"
      show "safe s s'"
        by (rule touch_safe [of s r _ "\<lambda>x. dr_id x = dr_id r" "mark_cancelled env"])
          (use cancel_joinD [OF r(1)] r(2,3) in \<open>auto simp: cancel_writes_def tx_ok dl_fields terminal_def mark_cancelled_def map_key_sql_update\<close>)
    qed
  qed
qed

lemma safe_cancel: "safe s (snd (repo_Cancel env rh ch s))"
  using safe_cancel_tx [of env rh ch] unfolding repo_Cancel_def
  by (auto intro!: safe_lock simp: safe.R_refl establishes_def split: option.splits sum.splits)

lemma safe_same_id_upd:
  assumes "\<And>x. dr_id (f x) = dr_id x \<and> dr_receipt (f x) = dr_receipt x \<and> dr_usr (f x) = dr_usr x"
    and "\<And>x. p x \<Longrightarrow> \<not> terminal x"
  shows "safe s (upd_requests p f s)"
  unfolding safe_def
proof (intro impI conjI ballI)
  assume ok: "dl_ok s"
  show "dl_ok (upd_requests p f s)"
  proof (rule dl_ok_rows [OF ok])
    show "k < request_next s" if "k \<in> set (map es_id (schedules (upd_requests p f s)))" for k
      using that ok unfolding dl_ok_def by (simp add: upd_requests_def)
  qed (use assms(1) in \<open>auto simp: upd_requests_def map_key_sql_update set_sql_update\<close>)
  fix r assume "r \<in> set (requests s)" "terminal r"
  with assms(2) show "r \<in> set (requests (upd_requests p f s))" by (auto simp: upd_requests_def set_sql_update)
qed

lemma safe_cancel_verified: "safe s (snd (CancelVerified env i p e s))"
proof -
  have "safe s (upd_requests (\<lambda>x. dr_id x = i \<and> dr_status x = ''pending'') (\<lambda>x. x\<lparr>dr_operator := Some p, dr_evidence := e\<rparr>) s)"
    by (rule safe_same_id_upd) (auto simp: terminal_def)
  from safe.R_trans [OF this safe_cancel] show ?thesis unfolding CancelVerified_def
    by (auto simp: snd_forward safe.R_refl Let_def split: option.splits)
qed

lemma open_requestD:
  assumes "open_request i p s = Some u"
  obtains r where "r \<in> set (requests s)" "dr_id r = i" "open_status (dr_status r)" "dr_usr r = Some u" "u \<noteq> p"
  using assms by (auto simp: open_request_def bind_eq_Some_conv dest!: sql_get_Some)

lemma control_frames:
  "request_next (insert_schedule env i s) = request_next s" "cancellations (insert_schedule env i s) = cancellations s"
  "targets (insert_schedule env i s) = targets s"
  "request_next (expedite_schedule env i p s) = request_next s" "cancellations (expedite_schedule env i p s) = cancellations s"
  "targets (expedite_schedule env i p s) = targets s"
  "request_next (schedule_targets i s) = request_next s" "cancellations (schedule_targets i s) = cancellations s"
  "targets (schedule_targets i s) = targets s" "schedules (schedule_targets i s) = schedules s"
  "request_next (resume_erasure env i m s) = request_next s" "cancellations (resume_erasure env i m s) = cancellations s"
  "targets (resume_erasure env i m s) = targets s" "schedules (resume_erasure env i m s) = schedules s"
  by (simp_all add: insert_schedule_def expedite_schedule_def schedule_targets_def resume_erasure_def upd_defs split: option.split)

text \<open>A review reads only.\<close>

definition read_only :: "('e, 's, 'a) tx \<Rightarrow> bool" where
  "read_only m = establishes (=) m"

lemma safe_control_tx:
  assumes "\<And>u. read_only (review u)"
  shows "establishes safe (controlSchedule_tx env i p a review)"
  unfolding establishes_def
proof (intro allI impI)
  fix s x s' assume *: "controlSchedule_tx env i p a review s = Inr (x, s')"
  then obtain u where u: "open_request i p s = Some u" by (auto simp: controlSchedule_tx_def tx_ok)
  then obtain r where r: "r \<in> set (requests s)" "dr_id r = i" "open_status (dr_status r)" by (rule open_requestD)
  have rv: "review u t = Inr (y, t') \<Longrightarrow> t' = t" for u t y t' using assms [of u] by (auto simp: read_only_def establishes_def)
  show "safe s s'"
  proof (cases "a = ''retry_social''")
    case True
    with * have "s' = upd_erasures (\<lambda>e. er_id e = i) (\<lambda>e. e\<lparr>er_mode := ''automatic'', er_code := [], er_next := dl_now env, er_updated := dl_now env\<rparr>)
        (upd_outbox (retry_pred u) (retry_row env) s)"
      using u by (auto simp: controlSchedule_tx_def tx_ok resume_erasure_def dest: rv)
    then show ?thesis by (auto intro!: same_keys_safe keyed.R_trans [OF same_keys_upd(3) same_keys_upd(1)])
  next
    case False
    let ?s1 = "insert_schedule env i s"
    let ?s2 = "if a = ''expedite'' then expedite_schedule env i p ?s1 else ?s1"
    from * False u have s': "s' = resume_erasure env i ''automatic'' (schedule_targets i ?s2)"
      by (auto simp: controlSchedule_tx_def tx_ok dest: rv split: if_splits)
    have es: "es_id ` set (schedules ?s2) \<subseteq> insert i (es_id ` set (schedules s))"
      by (auto simp: insert_schedule_def expedite_schedule_def upd_defs set_sql_update)
    have rq: "requests ?s2 = requests s" by (auto simp: insert_schedule_def expedite_schedule_def upd_defs)
    have "\<exists>f. requests s' = sql_update (\<lambda>x. dr_id x = i) f (requests s) \<and>
        (\<forall>x. dr_id (f x) = dr_id x \<and> dr_receipt (f x) = dr_receipt x \<and> dr_usr (f x) = dr_usr x)"
    proof (cases "schedule_row i ?s2")
      case None
      then have "requests s' = sql_update (\<lambda>x. dr_id x = i) (\<lambda>x. x) (requests s)"
        by (simp add: s' schedule_targets_def resume_erasure_def upd_defs rq sql_update_def)
      then show ?thesis by (intro exI [of _ \<open>\<lambda>x. x\<close>]) simp
    next
      case (Some e)
      then have "requests s' = sql_update (\<lambda>x. dr_id x = i) (\<lambda>r. r\<lparr>dr_target := es_scheduled e, dr_due := es_scheduled e + days 10\<rparr>) (requests s)"
        by (simp add: s' schedule_targets_def resume_erasure_def upd_defs rq)
      then show ?thesis by (intro exI conjI) auto
    qed
    then obtain f where f: "requests s' = sql_update (\<lambda>x. dr_id x = i) f (requests s)"
        "\<forall>x. dr_id (f x) = dr_id x \<and> dr_receipt (f x) = dr_receipt x \<and> dr_usr (f x) = dr_usr x" by blast
    have fr: "request_next s' = request_next s" "cancellations s' = cancellations s" "targets s' = targets s" "schedules s' = schedules ?s2"
      by (simp_all add: s' control_frames)
    show ?thesis
      by (rule touch_safe [of s r _ "\<lambda>x. dr_id x = i" f]) (use r f es fr in \<open>simp_all add: open_not_terminal\<close>)
  qed
qed

lemma safe_control: "(\<And>u. read_only (review u)) \<Longrightarrow> safe s (snd (controlSchedule env i p a review s))"
  unfolding controlSchedule_def by (auto intro!: safe_lock safe.est_transact safe_control_tx simp: safe.R_refl)

lemma no_review: "read_only (tx_return x)"
  by (simp add: read_only_def establishes_def tx_ok)

lemma footprint_same: "footprint_tx env u s = Inr (a, s') \<Longrightarrow> s' = s"
  by (auto simp: footprint_tx_def split: sum.splits if_splits)

lemma ready_same: "completion_ready env i p e s = Inr (a, s') \<Longrightarrow> s' = s"
  by (auto simp: completion_ready_def tx_ok split: if_splits)

lemma providers_same: "verifyDeletionProviders env i u s = Inr (a, s') \<Longrightarrow> s' = s"
  by (auto simp: verifyDeletionProviders_def tx_ok)

lemma cond_exec_ok: "(if b then exec x f else tx_return ()) s = Inr (u, s') \<longleftrightarrow> (b \<longrightarrow> x = None) \<and> s' = (if b then f s else s)"
  by (simp add: tx_ok)

text \<open>What a completion found: \<open>s0\<close> is the state after a manual completion has closed unreviewed receipt work.\<close>

lemma complete_bodyD:
  assumes "complete_body env i p req u e s = Inr (a, s')"
  shows "receiptWorkFinished i s" "completion_ready env i p e s = Inr ((), s)" "deletionFootprint env u s = Inr []"
    "verifyDeletionProviders env i u s = Inr ((), s)" "complete_writes env i p req u s = Inr ((), s')"
proof -
  from assms obtain s1 s2 s3 where c: "receiptWorkFinished i s" "completion_ready env i p e s = Inr ((), s1)" "footprint_tx env u s1 = Inr ((), s2)"
      "verifyDeletionProviders env i u s2 = Inr ((), s3)" "complete_writes env i p req u s3 = Inr ((), s')"
    by (auto simp: complete_body_def tx_bind_ok tx_then_ok query_ok tx_guard_ok tx_return_ok)
  then have "s1 = s" "s2 = s" "s3 = s" using ready_same footprint_same providers_same by metis+
  with c show "receiptWorkFinished i s" "completion_ready env i p e s = Inr ((), s)" "deletionFootprint env u s = Inr []"
    "verifyDeletionProviders env i u s = Inr ((), s)" "complete_writes env i p req u s = Inr ((), s')"
    by (auto simp: footprint_tx_def split: sum.splits if_splits)
qed

lemma complete_txD:
  assumes "complete_tx env i p req s = Inr (a, s')"
  obtains r u e where "r \<in> set (requests s)" "dr_id r = i" "dr_status r = ''processing''" "dr_usr r = Some u" "u \<noteq> p"
    "erasure_row i s = Some e" "complete_body env i p req u e (if p \<noteq> 0 then close_unreviewed env i s else s) = Inr ((), s')"
proof -
  from assms obtain u r e where r: "sql_get (\<lambda>r. dr_id r = i \<and> dr_status r = ''processing'' \<and> dr_usr r \<noteq> None \<and> dr_usr r \<noteq> Some p) (requests s) = Some r"
      "dr_usr r = Some u" "erasure_row i s = Some e" "complete_body env i p req u e (if p \<noteq> 0 then close_unreviewed env i s else s) = Inr ((), s')"
    by (auto simp: complete_tx_def tx_bind_ok tx_then_ok get_row_ok cond_exec_ok bind_eq_Some_conv split del: if_split)
  with sql_get_Some [OF r(1)] show thesis by (intro that [of r u e]) auto
qed

lemma safe_complete: "safe s (snd (repo_Complete env i p req s))"
proof -
  have "establishes safe (complete_tx env i p req)"
    unfolding establishes_def
  proof (intro allI impI)
    fix s a s' assume "complete_tx env i p req s = Inr (a, s')"
    then obtain r u e where r: "r \<in> set (requests s)" "dr_id r = i" "dr_status r = ''processing''"
      "complete_body env i p req u e (if p \<noteq> 0 then close_unreviewed env i s else s) = Inr ((), s')" by (rule complete_txD)
    define s0 where "s0 = (if p \<noteq> 0 then close_unreviewed env i s else s)"
    have w: "complete_writes env i p req u s0 = Inr ((), s')" using complete_bodyD(5) [OF r(4)] by (simp add: s0_def)
    have s0: "requests s0 = requests s" "request_next s0 = request_next s" "cancellations s0 = cancellations s" "schedules s0 = schedules s" "targets s0 = targets s"
      by (auto simp: s0_def close_unreviewed_def upd_defs)
    show "safe s s'"
      by (rule touch_safe [of s r _ "\<lambda>x. dr_id x = i" "\<lambda>r. r\<lparr>dr_status := ''completed'', dr_usr := None, dr_operator := Some p, dr_completed := Some (dl_now env),
                      dr_evidence := EvidenceReference req, dr_retained := res_RetainedRecords req,
                      dr_until := (if res_RetentionUntil req = [] then None else Some (res_RetentionUntil req))\<rparr>"])
        (use r(1-3) w s0 in \<open>auto simp: complete_writes_def tx_ok dl_fields terminal_def map_key_sql_update split: if_splits\<close>)
  qed
  then show ?thesis unfolding repo_Complete_def by (rule safe.est_transact)
qed

lemma safe_finish: "safe s (snd (FinishAutomaticErasure env w s))"
  by (auto simp: FinishAutomaticErasure_def safe.R_refl safe_complete split: sum.splits option.splits)

text \<open>A request that has just been inserted, for the statements that follow in its transaction.\<close>

definition newborn :: "int \<Rightarrow> int \<Rightarrow> dl_state \<Rightarrow> bool" where
  "newborn n u s = (dl_ok s \<and> (\<exists>r \<in> set (requests s). dr_id r = n \<and> dr_usr r = Some u \<and> \<not> terminal r))"

definition raises :: "int \<Rightarrow> int \<Rightarrow> dl_state \<Rightarrow> dl_state \<Rightarrow> bool" where
  "raises n u s s' = (newborn n u s \<longrightarrow> newborn n u s' \<and> (\<forall>r \<in> set (requests s). terminal r \<longrightarrow> r \<in> set (requests s')))"

interpretation raises: tx_relation "raises n u" for n u
  by unfold_locales (auto simp: raises_def)

lemma same_keys_raises: "same_keys s s' \<Longrightarrow> raises n u s s'"
  using same_keys_safe [of s s'] by (auto simp: raises_def newborn_def safe_def same_keys_def)

lemma newborn_row:
  assumes "newborn n u s"
  obtains r where "request_of_user u s = Some r" "dr_id r = n" "r \<in> set (requests s)" "dr_usr r = Some u" "\<not> terminal r"
proof -
  from assms obtain r where r: "r \<in> set (requests s)" "dr_id r = n" "dr_usr r = Some u" "\<not> terminal r" and ok: "dl_ok s"
    by (auto simp: newborn_def)
  have "request_of_user u s = Some r" unfolding request_of_user_def sql_get_def
  proof (rule find_eq_Some_unique)
    fix y assume "y \<in> set (requests s)" "dr_usr y = Some u"
    then show "y = r" by (rule dl_okD(3) [OF ok r(1) _ r(3)])
  qed (use r in auto)
  with r show thesis by (intro that)
qed

lemma raises_add:
  assumes "dl_ok s \<Longrightarrow> n < request_next s \<Longrightarrow> dl_ok s'" "requests s' = requests s"
  shows "raises n u s s'"
  using assms dl_okD(5) by (fastforce simp: raises_def newborn_def)

lemma raises_for_request:
  assumes "raises n u s (f n s)"
  shows "raises n u s (for_request u f s)"
  using assms by (auto simp: raises_def for_request_def elim: newborn_row split: option.splits)

lemma raises_inserts:
  "raises n u s (insert_schedule env n s)" "raises n u s (insert_cancellation n x h s)" "raises n u s (seed_target env n name s)"
  by (rule raises_add; auto simp: insert_schedule_def insert_cancellation_def seed_target_def dl_ok_def)+

lemma raises_targets: "raises n u s (schedule_targets n s)"
proof (cases "schedule_row n s")
  case None
  then show ?thesis by (simp add: schedule_targets_def raises.R_refl)
next
  case (Some e)
  let ?f = "\<lambda>r. r\<lparr>dr_target := es_scheduled e, dr_due := es_scheduled e + days 10\<rparr>"
  show ?thesis unfolding raises_def
  proof
    assume nb: "newborn n u s"
    then obtain r where r: "r \<in> set (requests s)" "dr_id r = n" "dr_usr r = Some u" "\<not> terminal r" by (rule newborn_row)
    have s': "schedule_targets n s = upd_requests (\<lambda>r. dr_id r = n) ?f s" by (simp add: schedule_targets_def Some)
    have "safe s (schedule_targets n s)"
      by (rule touch_safe [of s r _ "\<lambda>r. dr_id r = n" ?f]) (use r in \<open>auto simp: s' upd_defs\<close>)
    moreover have "?f r \<in> set (requests (schedule_targets n s))" using r by (auto simp: s' upd_defs set_sql_update)
    moreover have "dr_id (?f r) = n \<and> dr_usr (?f r) = Some u \<and> \<not> terminal (?f r)" using r by (simp add: terminal_def)
    ultimately show "newborn n u (schedule_targets n s) \<and> (\<forall>r \<in> set (requests s). terminal r \<longrightarrow> r \<in> set (requests (schedule_targets n s)))"
      using nb unfolding newborn_def safe_def by blast
  qed
qed

lemmas raises_intros = raises.est_rules raises_for_request raises_inserts raises_targets same_keys_raises [OF same_keys_member]
  same_keys_raises [OF same_keys_upd(7)] same_keys_raises [OF same_keys_upd(10)] same_keys_raises [OF same_keys_upd(11)]

lemma raises_disable: "establishes (raises n u) (disable_account env u ch st)"
  unfolding disable_account_def by (intro raises_intros)

lemma raises_queue:
  assumes "establishes same_keys before"
  shows "establishes (raises n u) (queue_erasure env n before)"
proof -
  have seed: "establishes (raises n u) (seed_targets env n ns)" for ns
    by (induction ns) (auto intro!: raises_intros)
  have "establishes (raises n u) before" using assms same_keys_raises by (auto simp: establishes_def)
  with seed show ?thesis unfolding queue_erasure_def seedErasureTargets_def by (intro raises_intros)
qed

lemma newborn_insert:
  assumes ok: "dl_ok s" and u: "request_of_user u s = None" and h: "\<forall>r \<in> set (requests s). dr_receipt r \<noteq> rh"
  shows "newborn (request_next s) u (insert_request env u rh s)" "set (requests s) \<subseteq> set (requests (insert_request env u rh s))"
proof -
  let ?n = "request_next s" and ?s = "insert_request env u rh s"
  have nu: "dr_usr r \<noteq> Some u" if "r \<in> set (requests s)" for r using u that by (simp add: request_of_user_def sql_get_None)
  obtain x where x: "requests ?s = requests s @ [x]" "dr_id x = ?n" "dr_usr x = Some u" "dr_receipt x = rh" "\<not> terminal x"
    by (auto simp: insert_request_def terminal_def)
  have fr: "request_next ?s = ?n + 1" "cancellations ?s = cancellations s" "schedules ?s = schedules s" "targets ?s = targets s"
    by (simp_all add: insert_request_def)
  have "dl_ok ?s" unfolding dl_ok_def fr x(1)
  proof (intro conjI ballI impI)
    show "keys_ok dr_id (?n + 1) (requests s @ [x])" using ok x(2) by (fastforce simp: dl_ok_def keys_ok_def)
    show "distinct (map dr_receipt (requests s @ [x]))" using ok h x(4) by (auto simp: dl_ok_def)
    show "distinct (map cx_id (cancellations s))" using ok by (simp add: dl_ok_def)
    show "k < ?n + 1" if "k \<in> set (map cx_id (cancellations s)) \<union> set (map es_id (schedules s)) \<union> set (map et_id (targets s))" for k
      using ok that unfolding dl_ok_def by (meson less_trans zless_add1_eq)
    fix r r' assume r: "r \<in> set (requests s @ [x])" "r' \<in> set (requests s @ [x])" "dr_usr r \<noteq> None \<and> dr_usr r = dr_usr r'"
    show "dr_id r = dr_id r'"
    proof (cases "r = x \<or> r' = x")
      case True
      with r nu x(3) have "r = x \<and> r' = x" by fastforce
      then show ?thesis by simp
    next
      case False
      with r have "r \<in> set (requests s)" "r' \<in> set (requests s)" by auto
      with r(3) ok show ?thesis unfolding dl_ok_def by blast
    qed
  qed
  with x show "newborn ?n u ?s" "set (requests s) \<subseteq> set (requests ?s)" by (auto simp: newborn_def)
qed

lemma new_receipt_raises:
  assumes ok: "dl_ok s" and u: "request_of_user u s = None" and b: "\<And>j. establishes same_keys (before j)"
    and run: "new_receipt env u rh ch st before s = Inr (c, s')"
  shows "newborn (request_next s) u s'" "\<forall>r \<in> set (requests s). terminal r \<longrightarrow> r \<in> set (requests s')"
proof -
  let ?n = "request_next s" and ?s1 = "insert_request env u rh s"
  from run obtain s2 result where h: "\<forall>r \<in> set (requests s). dr_receipt r \<noteq> rh" and d: "disable_account env u ch st ?s1 = Inr ((), s2)"
    and c: "read_receipt env u s2 = Inr (result, s2)" and q: "queue_erasure env (ReceiptID result) (before (ReceiptID result)) s2 = Inr ((), s')"
    by (auto simp: new_receipt_def new_request_def tx_bind_ok tx_then_ok query_ok tx_guard_ok exec_ok tx_return_ok read_receipt_def get_row_ok)
  note nb = newborn_insert [OF ok u h, of env]
  from d raises_disable [of ?n u env ch st] have 1: "raises ?n u ?s1 s2" by (auto simp: establishes_def)
  with nb have nb2: "newborn ?n u s2" by (simp add: raises_def)
  then have "ReceiptID result = ?n" using c by (auto simp: read_receipt_def get_row_ok deletionReceiptColumns_def elim: newborn_row)
  with q raises_queue [OF b, of ?n u env ?n] have 2: "raises ?n u s2 s'" by (auto simp: establishes_def)
  from 1 2 nb nb2 show "newborn ?n u s'" "\<forall>r \<in> set (requests s). terminal r \<longrightarrow> r \<in> set (requests s')"
    by (auto simp: raises_def)
qed

text \<open>The two outcomes of a creation that succeeds.\<close>

lemma createReceiptD:
  assumes "createReceipt env u rh ch before s = (Inr c, s')"
  obtains (retry) r where "request_of_user u s = Some r" "dr_receipt r = rh" "s' = s"
  | (new) st where "request_of_user u s = None" "member_status u s = Some (Some st)" "new_receipt env u rh ch st before s = Inr (c, s')"
proof (cases "request_of_user u s")
  case None
  with assms new show thesis unfolding createReceipt_def
    by (auto simp: transact_ok tx_bind_ok get_row_ok query_ok split: if_splits option.splits)
next
  case (Some r)
  with assms retry show thesis unfolding createReceipt_def
    by (auto simp: transact_ok tx_ok read_receipt_def split: if_splits option.splits)
qed

lemma createReceipt_error: "createReceipt env u rh ch before s = (Inl e, s') \<Longrightarrow> s' = s"
  by (auto simp: createReceipt_def split: if_splits option.splits dest: transact_error)

lemma safe_createReceipt:
  assumes "\<And>j. establishes same_keys (before j)"
  shows "safe s (snd (createReceipt env u rh ch before s))"
proof (cases "createReceipt env u rh ch before s")
  case (Pair res s')
  show ?thesis
  proof (cases res)
    case (Inl e)
    with Pair createReceipt_error [of env u rh ch before s e s'] show ?thesis by (simp add: safe.R_refl)
  next
    case (Inr c)
    with Pair have "createReceipt env u rh ch before s = (Inr c, s')" by simp
    then show ?thesis
    proof (cases rule: createReceiptD)
      case retry
      then show ?thesis using Pair by (simp add: safe.R_refl)
    next
      case (new st)
      then show ?thesis using Pair new_receipt_raises [OF _ new(1) assms new(3)] by (auto simp: safe_def newborn_def)
    qed
  qed
qed

lemma safe_create:
  "safe s (snd (repo_CreateCancelable env u rh ch s))" "safe s (snd (repo_CreateOnBehalf env u p rh ch e s))"
proof -
  show "safe s (snd (repo_CreateCancelable env u rh ch s))"
    unfolding repo_CreateCancelable_def by (rule safe_createReceipt) (rule keyed.est_return)
  have "safe s (snd (createReceipt env u rh ch (insert_intake env p e) s))"
    by (rule safe_createReceipt) (unfold insert_intake_def, intro keyed_intros)
  then show "safe s (snd (repo_CreateOnBehalf env u p rh ch e s))"
    by (auto simp: repo_CreateOnBehalf_def safe.R_refl split: prod.splits sum.splits dl_error.splits)
qed

lemma keyed_record: "establishes same_keys (record_targets env i seen ts)"
  by (induction ts arbitrary: seen) (auto intro!: keyed_intros)

lemma safe_record: "safe s (snd (RecordErasureTargets env i ts s))"
  unfolding RecordErasureTargets_def by (intro keyed_transact keyed_intros keyed_record)

lemma safe_review: "safe s (snd (ReviewErasureTarget env i p t s))"
proof -
  have *: "safe s (snd (case RecordErasureTargets env i ts s of (Inl e, s1) \<Rightarrow> (Inl e, s1)
             | (Inr _, s1) \<Rightarrow> direct (exec x (upd_erasures q f)) s1))" for s x q f ts
  proof (cases "RecordErasureTargets env i ts s")
    case (Pair r s1)
    with safe_record [of s env i ts] have 1: "safe s s1" by simp
    have "safe s1 (snd (direct (exec x (upd_erasures q f)) s1))"
      by (intro same_keys_safe keyed.est_direct keyed_intros)
    with Pair safe.R_trans [OF 1 this] 1 show ?thesis by (cases r) auto
  qed
  show ?thesis unfolding ReviewErasureTarget_def
    by (auto intro!: safe_lock * simp: safe.R_refl Let_def split: option.splits)
qed

lemma safe_external: "safe s (snd (RecordExternalErasure env i e s))"
proof -
  have "safe s (snd (transact b c (tx_bind (exec_count flt1 cnt (\<lambda>s. upd_erasures (q s) f s)) (\<lambda>n.
         tx_then (tx_guard (n \<noteq> 0) ErrNoRows) (
         tx_then (exec flt2 (upd_targets (\<lambda>t. et_id t = i \<and> \<not> settled (et_status t))
                    (\<lambda>t. t\<lparr>et_status := ''complete'', et_evidence := e, et_code := [], et_updated := dl_now env\<rparr>))) (
         tx_bind (query flt3 (verifiedErasureTargets i)) (\<lambda>verified.
         tx_then (tx_guard verified ErrDeletionIncomplete)
           (exec flt4 (\<lambda>s. s\<lparr>contexts := sql_delete (\<lambda>c. ec_id c = i) (contexts s)\<rparr>))))))) s))"
    for s b c flt1 flt2 flt3 flt4 q f and cnt :: "dl_state \<Rightarrow> nat"
    by (intro keyed_transact keyed_intros) auto
  then show ?thesis by (simp add: RecordExternalErasure_def Let_def safe.R_refl)
qed

lemma safe_rest:
  "safe s (snd (SetErasureMode env i p m s))" "safe s (snd (ErasureRetry env i c s))"
  "safe s (snd (BeginErasureTargets env i s))" "safe s (snd (ErasureFileDone env i s))"
  "safe s (snd (PurgeExpiredRestoreGuards env s))" "safe s (snd (SaveErasureContext env i x s))" "safe s (snd (RefreshErasureContext env i x s))"
  "safe s (snd (ResolveReceiptWork env i p req s))" "safe s (snd (transact b c' (reviewReceiptWork env i d) s))"
proof -
  show "safe s (snd (SetErasureMode env i p m s))" unfolding SetErasureMode_def
    by (auto intro!: safe_lock same_keys_safe [OF same_keys_upd(1)] simp: safe.R_refl Let_def split: option.splits)
  show "safe s (snd (BeginErasureTargets env i s))" unfolding BeginErasureTargets_def
    by (auto intro!: same_keys_safe same_keys_tables simp: safe.R_refl begin_row_def split: option.splits)
  show "safe s (snd (SaveErasureContext env i x s))" "safe s (snd (RefreshErasureContext env i x s))"
    by (auto simp: SaveErasureContext_def RefreshErasureContext_def Let_def safe.R_refl same_keys_safe [OF same_keys_upd(4)]
      split: option.splits sum.splits dl_error.splits)
  show "safe s (snd (ResolveReceiptWork env i p req s))" "safe s (snd (transact b c' (reviewReceiptWork env i d) s))"
    unfolding ResolveReceiptWork_def reviewReceiptWork_def by (intro keyed_transact keyed_intros)+
qed (unfold ErasureRetry_def ErasureFileDone_def PurgeExpiredRestoreGuards_def, (intro same_keys_safe keyed.est_direct keyed_intros)+)

lemma safe_step: "safe s (dl_step s x)"
  by (cases x) (simp_all add: safe_create safe_start safe_cancel safe_cancel_verified ControlSchedule_def safe_control no_review
      safe_rest safe_record safe_review safe_external safe_complete safe_finish)

lemma safe_run: "safe s (run dl_step s xs)"
  using safe.est_run [of "\<lambda>_. True" dl_step xs s] safe_step by (simp add: list_all_iff)

end
