(* ===== verification/Deletion_Props.thy ===== *)
theory Deletion_Props
  imports Deletion_Invariants
begin

text \<open>
  Properties of account deletion: a cancellation restores the account, closed requests and settled targets
  are final, nothing is erased before its time, completion rests on evidence, and no operator handles the
  own request.
\<close>

section \<open>A request nobody has touched\<close>

definition idle :: "int \<Rightarrow> int \<Rightarrow> string \<Rightarrow> string \<Rightarrow> string \<Rightarrow> dl_state \<Rightarrow> bool" where
  "idle i u rh ch st s =
     (i < request_next s
      \<and> (\<exists>r \<in> set (requests s). dr_id r = i)
      \<and> (\<forall>r \<in> set (requests s). dr_id r = i \<longrightarrow> dr_usr r = Some u \<and> dr_receipt r = rh \<and> dr_status r = ''pending'')
      \<and> (\<exists>c \<in> set (cancellations s). cx_id c = i)
      \<and> (\<forall>c \<in> set (cancellations s). cx_id c = i \<longrightarrow> cx_original c = st \<and> cx_hash c = ch \<and> \<not> cx_blocked c \<and> cx_started c = None)
      \<and> (\<forall>t \<in> set (targets s). et_id t = i \<longrightarrow> et_status t = ''pending'' \<or> et_status t = ''manual'')
      \<and> member_status u s = Some (Some ''AAA''))"

definition quiet :: "int \<Rightarrow> int \<Rightarrow> string \<Rightarrow> string \<Rightarrow> string \<Rightarrow> dl_state \<Rightarrow> dl_state \<Rightarrow> bool" where
  "quiet i u rh ch st s s' = (idle i u rh ch st s \<longrightarrow> idle i u rh ch st s')"

interpretation quiet: tx_relation "quiet i u rh ch st" for i u rh ch st
  by unfold_locales (auto simp: quiet_def)

lemma quiet_same:
  "requests s' = requests s \<Longrightarrow> request_next s' = request_next s \<Longrightarrow> cancellations s' = cancellations s \<Longrightarrow> targets s' = targets s
   \<Longrightarrow> dl_members s' = dl_members s \<Longrightarrow> quiet i u rh ch st s s'"
  by (simp add: quiet_def idle_def member_status_def)

lemma quiet_upd:
  "quiet i u rh ch st s (upd_erasures p f s)" "quiet i u rh ch st s (upd_works p' f' s)" "quiet i u rh ch st s (upd_outbox p'' f'' s)"
  "quiet i u rh ch st s (upd_schedules q g s)"
  "quiet i u rh ch st s (s\<lparr>contexts := cs\<rparr>)" "quiet i u rh ch st s (s\<lparr>files := fs\<rparr>)" "quiet i u rh ch st s (s\<lparr>guards := gs\<rparr>)"
  "quiet i u rh ch st s (s\<lparr>dl_roles := rs\<rparr>)"
  "quiet i u rh ch st s (s\<lparr>intakes := is\<rparr>)" "quiet i u rh ch st s (s\<lparr>outbox := os\<rparr>)" "quiet i u rh ch st s (insert_erasure env j s)"
  "quiet i u rh ch st s (insert_work env j s)" "quiet i u rh ch st s (insert_schedule env j s)"
  "quiet i u rh ch st s (recordRestoreGuard env j w s)" "quiet i u rh ch st s (enqueue_revocations env w j s)"
  by (rule quiet_same; auto simp: upd_defs insert_erasure_def insert_work_def insert_schedule_def recordRestoreGuard_def enqueue_revocations_def Let_def
      split: option.splits)+

lemma quiet_requests:
  assumes "\<And>x. dr_id (f x) = dr_id x"
    and "\<And>x. p x \<Longrightarrow> dr_id x \<noteq> i \<or> (dr_usr (f x) = dr_usr x \<and> dr_receipt (f x) = dr_receipt x \<and> dr_status (f x) = dr_status x)"
  shows "quiet i u rh ch st s (upd_requests p f s)"
  using assms unfolding quiet_def idle_def upd_requests_def by (auto simp: all_sql_update ex_sql_update member_status_def)

lemma quiet_cancellations:
  assumes "\<And>x. cx_id (f x) = cx_id x" "\<And>x. p x \<Longrightarrow> cx_id x \<noteq> i"
  shows "quiet i u rh ch st s (upd_cancellations p f s)"
  using assms unfolding quiet_def idle_def upd_cancellations_def by (auto simp: all_sql_update ex_sql_update member_status_def)

lemma quiet_targets:
  assumes "\<And>x. et_id (f x) = et_id x" "\<And>x. p x \<Longrightarrow> et_id x \<noteq> i"
  shows "quiet i u rh ch st s (upd_targets p f s)"
  using assms unfolding quiet_def idle_def upd_targets_def by (auto simp: all_sql_update member_status_def)

lemma quiet_schedule_targets: "quiet i u rh ch st s (schedule_targets j s)"
  by (auto simp: schedule_targets_def quiet.R_refl split: option.splits intro!: quiet_requests)

lemma quiet_inserts:
  "quiet i u rh ch st s (insert_request env w h s)" "quiet i u rh ch st s (insert_cancellation j x h s)" "quiet i u rh ch st s (seed_target env j n s)"
  by (auto simp: quiet_def idle_def insert_request_def insert_cancellation_def seed_target_def member_status_def)

lemma member_status_set:
  "member_status w (set_member_status u v s) = (if w = u then map_option (\<lambda>_. Some v) (member_status u s) else member_status w s)"
proof -
  have "sql_get (\<lambda>m. dm_seq m = w) (sql_update (\<lambda>m. dm_seq m = u) (\<lambda>m. m\<lparr>dm_status := Some v\<rparr>) t) =
      map_option (\<lambda>m. if w = u then m\<lparr>dm_status := Some v\<rparr> else m) (sql_get (\<lambda>m. dm_seq m = w) t)" for t
    by (induction t) (auto simp: sql_get_def)
  from this [of "dl_members s"] show ?thesis
    by (cases "sql_get (\<lambda>m. dm_seq m = w) (dl_members s)") (auto simp: member_status_def set_member_status_def)
qed

lemma quiet_member:
  assumes "w \<noteq> u"
  shows "quiet i u rh ch st s (set_member_status w v s)"
  unfolding quiet_def
proof
  assume i: "idle i u rh ch st s"
  then have "\<not> pending_of w s i" using assms by (auto simp: idle_def pending_of_def)
  then have "idle i u rh ch st (restore_guard_trigger w s)"
    using i quiet_cancellations [of "\<lambda>c. c\<lparr>cx_blocked := True\<rparr>" "\<lambda>c. pending_of w s (cx_id c)" i u rh ch st s]
    by (auto simp: restore_guard_trigger_def quiet_def)
  then show "idle i u rh ch st (set_member_status w v s)"
    using i member_status_set [of u w v s] assms by (simp add: idle_def set_member_status_def)
qed

lemma quiet_for_request: "(\<And>j. quiet i u rh ch st s (f j s)) \<Longrightarrow> quiet i u rh ch st s (for_request w f s)"
  by (auto simp: for_request_def quiet.R_refl split: option.splits)

lemmas quiet_intros = quiet.est_rules quiet_upd quiet_cancellations quiet_targets quiet_schedule_targets quiet_inserts quiet_member quiet_for_request

text \<open>The operations after which the member can still cancel: all but those on this very request that start or
  record erasure work, or cancel it.\<close>

fun leaves_alone :: "int \<Rightarrow> string \<Rightarrow> dl_op \<Rightarrow> bool" where
  "leaves_alone i rh (OpStart env j p) = (j \<noteq> i)"
| "leaves_alone i rh (OpCancel env h c) = (h \<noteq> rh)"
| "leaves_alone i rh (OpCancelVerified env j p e) = (j \<noteq> i)"
| "leaves_alone i rh (OpBegin env j) = (j \<noteq> i)"
| "leaves_alone i rh (OpRecord env j ts) = (j \<noteq> i)"
| "leaves_alone i rh (OpReview env j p t) = (j \<noteq> i)"
| "leaves_alone i rh (OpExternal env j e) = (j \<noteq> i)"
| "leaves_alone i rh x = True"

lemma quiet_seed: "establishes (quiet i u rh ch st) (seed_targets env j ns)"
  by (induction ns) (auto intro!: quiet_intros)

lemma quiet_new_receipt:
  assumes "w \<noteq> u" "\<And>j. establishes (quiet i u rh ch st) (before j)"
  shows "establishes (quiet i u rh ch st) (new_receipt env w h k x before)"
  unfolding new_receipt_def new_request_def disable_account_def queue_erasure_def read_receipt_def seedErasureTargets_def
  by (intro quiet_intros quiet_seed assms)

lemma idle_has_request: "idle i u rh ch st s \<Longrightarrow> request_of_user u s \<noteq> None"
  by (auto simp: idle_def request_of_user_def sql_get_None)

lemma quiet_createReceipt:
  assumes "\<And>j. establishes (quiet i u rh ch st) (before j)"
  shows "quiet i u rh ch st s (snd (createReceipt env w h k before s))"
proof (cases "createReceipt env w h k before s")
  case (Pair res s')
  show ?thesis
  proof (cases res)
    case (Inl e)
    with Pair createReceipt_error [of env w h k before s e s'] show ?thesis by (simp add: quiet.R_refl)
  next
    case (Inr c)
    with Pair have "createReceipt env w h k before s = (Inr c, s')" by simp
    then show ?thesis
    proof (cases rule: createReceiptD)
      case retry
      then show ?thesis using Pair by (simp add: quiet.R_refl)
    next
      case (new x)
      show ?thesis
      proof (cases "w = u")
        case True
        with new(1) idle_has_request [of i u rh ch st s] show ?thesis by (auto simp: quiet_def)
      next
        case False
        from quiet_new_receipt [OF this, of i rh ch st before env h k x] assms new(3) have "quiet i u rh ch st s s'"
          by (auto simp: establishes_def)
        with Pair show ?thesis by simp
      qed
    qed
  qed
qed

lemma quiet_lock: "(\<And>s. quiet i u rh ch st s (snd (f s))) \<Longrightarrow> quiet i u rh ch st s (snd (with_lock env e f s))"
  by (auto simp: with_lock_def quiet.R_refl split: sum.splits)

lemma quiet_start:
  assumes "j \<noteq> i"
  shows "quiet i u rh ch st s (snd (repo_Start env j p s))"
proof -
  have "establishes (quiet i u rh ch st) (start_tx env j p)"
    unfolding start_tx_def by (intro quiet_intros quiet_requests) (use assms in auto)
  then have "quiet i u rh ch st s (snd (transact b c (start_tx env j p) s))" for s b c by (rule quiet.est_transact)
  then show ?thesis unfolding repo_Start_def by (auto intro!: quiet_lock simp: quiet.R_refl split: option.splits)
qed

lemma quiet_cancel:
  assumes "h \<noteq> rh"
  shows "dl_ok s \<longrightarrow> quiet i u rh ch st s (snd (repo_Cancel env h k s))"
proof (intro impI)
  assume ok: "dl_ok s"
  have "quiet i u rh ch st s s'" if run: "cancel_tx env h k s = Inr (False, s')" for s'
    unfolding quiet_def
  proof
    assume id: "idle i u rh ch st s"
    from run show "idle i u rh ch st s'"
    proof (rule cancel_txD)
      fix r c w restore
      assume r: "cancel_join h k s = Some (r, c)" "dr_usr r = Some w" "cancel_writes env (dr_id r) w restore s = Inr ((), s')"
      note j = cancel_joinD [OF r(1)]
      have ni: "dr_id r \<noteq> i" using id j(1,4) assms by (auto simp: idle_def)
      have "w \<noteq> u"
      proof
        assume "w = u"
        from id obtain r0 where r0: "r0 \<in> set (requests s)" "dr_id r0 = i" "dr_usr r0 = Some u" by (auto simp: idle_def)
        with \<open>w = u\<close> r(2) dl_okD(3) [OF ok r0(1) j(1) r0(3)] ni show False by simp
      qed
      then have "establishes (quiet i u rh ch st) (cancel_writes env (dr_id r) w restore)"
        unfolding cancel_writes_def by (intro quiet_intros quiet_requests) (use ni in \<open>auto simp: mark_cancelled_def\<close>)
      with r(3) id show "idle i u rh ch st s'" by (auto simp: establishes_def quiet_def)
    qed
  qed
  then show "quiet i u rh ch st s (snd (repo_Cancel env h k s))" unfolding repo_Cancel_def with_lock_def
    by (auto simp: quiet.R_refl split: option.splits sum.splits)
qed

lemma quiet_cancel_verified:
  assumes "j \<noteq> i"
  shows "dl_ok s \<longrightarrow> quiet i u rh ch st s (snd (CancelVerified env j p e s))"
proof (intro impI)
  assume ok: "dl_ok s"
  let ?s1 = "upd_requests (\<lambda>x. dr_id x = j \<and> dr_status x = ''pending'') (\<lambda>x. x\<lparr>dr_operator := Some p, dr_evidence := e\<rparr>) s"
  have q1: "quiet i u rh ch st s ?s1" by (rule quiet_requests) auto
  have "safe s ?s1" by (rule safe_same_id_upd) (auto simp: terminal_def)
  with ok have ok1: "dl_ok ?s1" by (simp add: safe_def)
  have "quiet i u rh ch st s (snd (repo_Cancel env (dr_receipt r) k ?s1))" if r: "r \<in> set (requests s)" "dr_id r = j" for r k
  proof (cases "dr_receipt r = rh")
    case True
    have "\<not> idle i u rh ch st s"
    proof
      assume "idle i u rh ch st s"
      then obtain r0 where r0: "r0 \<in> set (requests s)" "dr_id r0 = i" "dr_receipt r0 = rh" by (auto simp: idle_def)
      with dl_okD(2) [OF ok r0(1) r(1)] True r(2) assms show False by simp
    qed
    then show ?thesis by (simp add: quiet_def)
  next
    case False
    with quiet_cancel [OF False, of ?s1 i u ch st env k] ok1 q1 show ?thesis by (blast intro: quiet.R_trans)
  qed
  then show "quiet i u rh ch st s (snd (CancelVerified env j p e s))" unfolding CancelVerified_def
    by (auto simp: snd_forward quiet.R_refl Let_def split: option.splits dest!: sql_get_Some [unfolded sql_get_def])
qed

lemma quiet_control: "quiet i u rh ch st s (snd (ControlSchedule env j p a s))"
proof -
  have "establishes (quiet i u rh ch st) (controlSchedule_tx env j p a (\<lambda>_. tx_return ()))"
    unfolding controlSchedule_tx_def resume_erasure_def expedite_schedule_def by (intro quiet_intros)
  then have "quiet i u rh ch st s (snd (transact b c (controlSchedule_tx env j p a (\<lambda>_. tx_return ())) s))" for s b c
    by (rule quiet.est_transact)
  then show ?thesis unfolding ControlSchedule_def controlSchedule_def by (auto intro!: quiet_lock simp: quiet.R_refl)
qed

lemma quiet_record:
  assumes "j \<noteq> i"
  shows "quiet i u rh ch st s (snd (RecordErasureTargets env j ts s))"
proof -
  have "establishes (quiet i u rh ch st) (record_targets env j seen ts)" for seen
    by (induction ts arbitrary: seen) (use assms in \<open>auto intro!: quiet_intros simp: open_target_def\<close>)
  then show ?thesis unfolding RecordErasureTargets_def by (intro quiet.est_transact quiet_intros)
qed

lemma quiet_review:
  assumes "j \<noteq> i"
  shows "quiet i u rh ch st s (snd (ReviewErasureTarget env j p t s))"
proof -
  have *: "quiet i u rh ch st s (snd (case RecordErasureTargets env j ts s of (Inl e, s1) \<Rightarrow> (Inl e, s1)
             | (Inr _, s1) \<Rightarrow> direct (exec x (upd_erasures q f)) s1))" for s x q f ts
  proof (cases "RecordErasureTargets env j ts s")
    case (Pair r s1)
    with quiet_record [OF assms, of u rh ch st s env ts] have 1: "quiet i u rh ch st s s1" by simp
    have "quiet i u rh ch st s1 (snd (direct (exec x (upd_erasures q f)) s1))"
      by (intro quiet.est_direct quiet_intros)
    with Pair quiet.R_trans [OF 1 this] 1 show ?thesis by (cases r) auto
  qed
  show ?thesis unfolding ReviewErasureTarget_def
    by (auto intro!: quiet_lock * simp: quiet.R_refl Let_def split: option.splits)
qed

lemma quiet_external:
  assumes "j \<noteq> i"
  shows "quiet i u rh ch st s (snd (RecordExternalErasure env j e s))"
proof -
  have "quiet i u rh ch st s (snd (transact b c (tx_bind (exec_count flt1 cnt (\<lambda>s. upd_erasures (q s) f s)) (\<lambda>n.
         tx_then (tx_guard (n \<noteq> 0) ErrNoRows) (
         tx_then (exec flt2 (upd_targets (\<lambda>t. et_id t = j \<and> \<not> settled (et_status t))
                    (\<lambda>t. t\<lparr>et_status := ''complete'', et_evidence := e, et_code := [], et_updated := dl_now env\<rparr>))) (
         tx_bind (query flt3 (verifiedErasureTargets j)) (\<lambda>verified.
         tx_then (tx_guard verified ErrDeletionIncomplete)
           (exec flt4 (\<lambda>s. s\<lparr>contexts := sql_delete (\<lambda>c. ec_id c = j) (contexts s)\<rparr>))))))) s))"
    for s b c flt1 flt2 flt3 flt4 q f and cnt :: "dl_state \<Rightarrow> nat"
    by (intro quiet.est_transact quiet_intros) (use assms in auto)
  then show ?thesis by (simp add: RecordExternalErasure_def Let_def quiet.R_refl)
qed

text \<open>A completion finds its request in processing, so it cannot be the pending one.\<close>

lemma quiet_complete: "quiet i u rh ch st s (snd (repo_Complete env j p req s))"
proof (cases "j = i")
  case True
  have "\<not> idle i u rh ch st s" if "complete_tx env j p req s = Inr (a, s')" for a s'
    using that by (rule complete_txD) (auto simp: idle_def True)
  then show ?thesis unfolding repo_Complete_def transact_def quiet_def by (auto split: option.splits sum.splits)
next
  case False
  have "establishes (quiet i u rh ch st) (footprint_tx env w)" for w
    using footprint_same by (fastforce simp: establishes_def quiet.R_refl)
  then have "establishes (quiet i u rh ch st) (complete_tx env j p req)"
    unfolding complete_tx_def complete_body_def close_unreviewed_def completion_ready_def verifyDeletionProviders_def complete_writes_def
    by (intro quiet_intros quiet_requests) (use False in auto)
  then show ?thesis unfolding repo_Complete_def by (rule quiet.est_transact)
qed

lemma quiet_rest:
  "quiet i u rh ch st s (snd (SetErasureMode env j p m s))" "quiet i u rh ch st s (snd (ErasureRetry env j c s))"
  "quiet i u rh ch st s (snd (ErasureFileDone env j s))" "quiet i u rh ch st s (snd (PurgeExpiredRestoreGuards env s))"
  "quiet i u rh ch st s (snd (SaveErasureContext env j x s))" "quiet i u rh ch st s (snd (RefreshErasureContext env j x s))"
  "quiet i u rh ch st s (snd (ResolveReceiptWork env j p req s))" "quiet i u rh ch st s (snd (transact b c' (reviewReceiptWork env j d) s))"
  "quiet i u rh ch st s (snd (FinishAutomaticErasure env w s))"
proof -
  show "quiet i u rh ch st s (snd (SetErasureMode env j p m s))" unfolding SetErasureMode_def
    by (auto intro!: quiet_lock simp: quiet.R_refl quiet_upd Let_def split: option.splits)
  show "quiet i u rh ch st s (snd (SaveErasureContext env j x s))" "quiet i u rh ch st s (snd (RefreshErasureContext env j x s))"
    by (auto simp: SaveErasureContext_def RefreshErasureContext_def Let_def quiet.R_refl quiet_upd split: option.splits sum.splits dl_error.splits)
  show "quiet i u rh ch st s (snd (ResolveReceiptWork env j p req s))" "quiet i u rh ch st s (snd (transact b c' (reviewReceiptWork env j d) s))"
    unfolding ResolveReceiptWork_def reviewReceiptWork_def by (intro quiet.est_transact quiet_intros)+
  show "quiet i u rh ch st s (snd (FinishAutomaticErasure env w s))"
    by (auto simp: FinishAutomaticErasure_def quiet.R_refl quiet_complete split: sum.splits option.splits)
qed (unfold ErasureRetry_def ErasureFileDone_def PurgeExpiredRestoreGuards_def, (intro quiet.est_direct quiet_intros)+)

lemma quiet_begin:
  assumes "j \<noteq> i"
  shows "quiet i u rh ch st s (snd (BeginErasureTargets env j s))"
  unfolding BeginErasureTargets_def
  using assms by (auto intro!: quiet_targets simp: quiet.R_refl begin_pred_def begin_row_def split: option.splits)

lemma quiet_on_behalf: "quiet i u rh ch st s (snd (repo_CreateOnBehalf env w p h k e s))"
proof -
  have "quiet i u rh ch st s (snd (createReceipt env w h k (insert_intake env p e) s))"
    by (rule quiet_createReceipt) (unfold insert_intake_def, intro quiet_intros)
  then show ?thesis by (auto simp: repo_CreateOnBehalf_def quiet.R_refl split: prod.splits sum.splits dl_error.splits)
qed

lemma quiet_create: "quiet i u rh ch st s (snd (repo_CreateCancelable env w h k s))"
  unfolding repo_CreateCancelable_def by (rule quiet_createReceipt) (rule quiet.est_return)

lemma quiet_step: "dl_ok s \<Longrightarrow> leaves_alone i rh x \<Longrightarrow> quiet i u rh ch st s (dl_step s x)"
  by (cases x) (simp_all add: quiet_create quiet_on_behalf quiet_start quiet_cancel quiet_cancel_verified quiet_control
      quiet_record quiet_review quiet_external quiet_complete quiet_rest quiet_begin)

lemma idle_run:
  "dl_ok s \<Longrightarrow> idle i u rh ch st s \<Longrightarrow> list_all (leaves_alone i rh) xs \<Longrightarrow> idle i u rh ch st (run dl_step s xs)"
proof (induction xs arbitrary: s)
  case (Cons x xs)
  from Cons.prems safe_step [of s x] quiet_step [of s i rh x u ch st] show ?case
    by (intro Cons.IH [of "dl_step s x", simplified] | simp add: safe_def quiet_def)+
qed simp

section \<open>From the creation to the cancellation\<close>

lemma unique_status:
  "distinct (map dm_seq t) \<Longrightarrow> map_option dm_status (sql_get (\<lambda>m. dm_seq m = u) t) = Some st \<Longrightarrow> m \<in> set t \<Longrightarrow> dm_seq m = u \<Longrightarrow> dm_status m = st"
  by (induction t) (auto simp: sql_get_def split: if_splits)

text \<open>The statements that disable the account leave the new request idle, if the member was not disabled before.\<close>

lemma disable_idle:
  assumes nb: "newborn n u s" and rows: "\<forall>r \<in> set (requests s). dr_id r = n \<longrightarrow> dr_usr r = Some u \<and> dr_receipt r = rh \<and> dr_status r = ''pending''"
    and fresh: "\<forall>c \<in> set (cancellations s). cx_id c \<noteq> n" "\<forall>t \<in> set (targets s). et_id t \<noteq> n"
    and m: "distinct (map dm_seq (dl_members s))" "member_status u s = Some (Some st)" "st \<noteq> ''AAA''"
    and run: "disable_account env u ch st s = Inr ((), s')"
  shows "idle n u rh ch st s'"
proof -
  define t1 where "t1 = for_request u (insert_schedule env) s"
  define t2 where "t2 = for_request u schedule_targets t1"
  define t3 where "t3 = for_request u (\<lambda>i. insert_cancellation i st ch) t2"
  have s': "s' = (set_member_status u ''AAA'' t3)\<lparr>dl_roles := sql_delete (\<lambda>x. fst x = u) (dl_roles (set_member_status u ''AAA'' t3))\<rparr>"
    using run by (simp add: disable_account_def tx_ok t1_def t2_def t3_def)
  have nb1: "newborn n u t1" using raises_for_request [of n u s "insert_schedule env", OF raises_inserts(1)] nb by (simp add: t1_def raises_def)
  have nb2: "newborn n u t2" using raises_for_request [of n u t1 schedule_targets, OF raises_targets] nb1 by (simp add: t2_def raises_def)
  have f: "for_request u f x = f n x" if "newborn n u x" for f x using that by (auto simp: for_request_def elim: newborn_row)
  have t1: "t1 = insert_schedule env n s" and t2: "t2 = schedule_targets n t1" and t3: "t3 = insert_cancellation n st ch t2"
    using f nb nb1 nb2 by (simp_all add: t1_def t2_def t3_def)
  have fr: "requests t1 = requests s" "dl_members t2 = dl_members s" "cancellations t2 = cancellations s" "targets t2 = targets s"
    by (auto simp: t1 t2 control_frames) (auto simp: insert_schedule_def schedule_targets_def upd_defs split: option.splits)
  have r2: "\<forall>r \<in> set (requests t2). dr_id r = n \<longrightarrow> dr_usr r = Some u \<and> dr_receipt r = rh \<and> dr_status r = ''pending''"
    using rows by (auto simp: t2 schedule_targets_def upd_defs fr(1) all_sql_update split: option.splits)
  have c: "cancellations t3 = cancellations s @ [\<lparr>cx_id = n, cx_original = st, cx_hash = ch, cx_blocked = False, cx_started = None, cx_cancelled = None\<rparr>]"
    and t3s: "requests t3 = requests t2" "request_next t3 = request_next t2" "targets t3 = targets s" "dl_members t3 = dl_members s"
    using fresh(1) by (auto simp: t3 insert_cancellation_def fr)
  have "\<not> (\<exists>m \<in> set (dl_members t3). dm_seq m = u \<and> dm_status m = Some ''AAA'')"
    using unique_status [OF m(1) m(2) [unfolded member_status_def]] m(3) by (auto simp: t3s)
  then have "set_member_status u ''AAA'' t3 = t3\<lparr>dl_members := sql_update (\<lambda>m. dm_seq m = u) (\<lambda>m. m\<lparr>dm_status := Some ''AAA''\<rparr>) (dl_members t3)\<rparr>"
    unfolding set_member_status_def restore_guard_trigger_def by (simp only: if_False)
  then have f': "requests s' = requests t2" "request_next s' = request_next t2" "targets s' = targets s" "cancellations s' = cancellations t3"
    by (simp_all add: s' t3s)
  have "member_status u s' = member_status u (set_member_status u ''AAA'' t3)" by (simp add: s' member_status_def)
  then have "member_status u s' = Some (Some ''AAA'')" using m(2) by (auto simp: member_status_set) (auto simp: member_status_def t3s)
  moreover have "n < request_next t2" "\<exists>r \<in> set (requests t2). dr_id r = n" using nb2 dl_okD(5) by (auto simp: newborn_def)
  ultimately show ?thesis using r2 fresh c unfolding idle_def f' by auto
qed

lemma created_idle:
  assumes ok: "dl_ok s" and m: "distinct (map dm_seq (dl_members s))" "member_status u s = Some (Some st)" "st \<noteq> ''AAA''"
    and none: "request_of_user u s = None" and run: "repo_CreateCancelable env u rh ch s = (Inr c, s')"
  shows "idle (ReceiptID c) u rh ch st s'" "dl_ok s'"
proof -
  from run have "createReceipt env u rh ch (\<lambda>_. tx_return ()) s = (Inr c, s')" by (simp add: repo_CreateCancelable_def)
  then have new: "new_receipt env u rh ch st (\<lambda>_. tx_return ()) s = Inr (c, s')"
    by (cases rule: createReceiptD) (use none m(2) in auto)
  let ?n = "request_next s" and ?s1 = "insert_request env u rh s"
  from new obtain s2 result where h: "\<forall>r \<in> set (requests s). dr_receipt r \<noteq> rh" and d: "disable_account env u ch st ?s1 = Inr ((), s2)"
    and g: "read_receipt env u s2 = Inr (result, s2)" and q: "queue_erasure env (ReceiptID result) (tx_return ()) s2 = Inr ((), s')"
    and cc: "c = normalizeDeletionReceiptTimes env result"
    by (auto simp: new_receipt_def new_request_def tx_bind_ok tx_then_ok query_ok tx_guard_ok exec_ok tx_return_ok read_receipt_def get_row_ok)
  note nb = newborn_insert [OF ok none h, of env]
  have "idle ?n u rh ch st s2"
  proof (rule disable_idle [OF nb(1) _ _ _ _ _ m(3) d])
    show "\<forall>r \<in> set (requests ?s1). dr_id r = ?n \<longrightarrow> dr_usr r = Some u \<and> dr_receipt r = rh \<and> dr_status r = ''pending''"
      using ok by (auto simp: insert_request_def dl_ok_def keys_ok_def)
    show "\<forall>c \<in> set (cancellations ?s1). cx_id c \<noteq> ?n" "\<forall>t \<in> set (targets ?s1). et_id t \<noteq> ?n"
      using ok by (auto simp: insert_request_def dl_ok_def ball_Un)
  qed (use m in \<open>auto simp: insert_request_def member_status_def\<close>)
  moreover have "ReceiptID result = ?n"
  proof -
    have "raises ?n u ?s1 s2" using d raises_disable [of ?n u env ch st] by (auto simp: establishes_def)
    with nb(1) have "newborn ?n u s2" by (simp add: raises_def)
    then show ?thesis using g by (auto simp: read_receipt_def get_row_ok deletionReceiptColumns_def elim: newborn_row)
  qed
  moreover have "quiet ?n u rh ch st s2 s'"
  proof -
    have "establishes (quiet ?n u rh ch st) (queue_erasure env (ReceiptID result) (tx_return ()))"
      unfolding queue_erasure_def seedErasureTargets_def by (intro quiet_intros quiet_seed)
    with q show ?thesis by (auto simp: establishes_def)
  qed
  moreover have "ReceiptID c = ReceiptID result" by (simp add: cc normalizeDeletionReceiptTimes_def Let_def)
  ultimately show "idle (ReceiptID c) u rh ch st s'" by (simp add: quiet_def)
  show "dl_ok s'" using safe_create(1) [of s env u rh ch] ok run by (simp add: safe_def)
qed

lemma no_fault: "dl_fault env = (\<lambda>_. None) \<Longrightarrow> flt env l = None"
  by (simp add: flt_def)

text \<open>From an idle request a cancellation with both secrets goes through.\<close>

lemma idle_cancel:
  assumes ok: "dl_ok s" and id: "idle i u rh ch st s" and ch: "ch \<noteq> []" and re: "restored_status st = Some st'"
    and env: "dl_fault env = (\<lambda>_. None)" "lock_free env"
  obtains c' s2 r where "repo_Cancel env rh ch s = (Inr c', s2)" "ReceiptStatus c' = ''cancelled''"
    "r \<in> set (requests s)" "dr_id r = i" "cancel_writes env i u st' s = Inr ((), s2)"
proof -
  from id obtain r where r: "r \<in> set (requests s)" "dr_id r = i" "dr_usr r = Some u" "dr_receipt r = rh" "dr_status r = ''pending''"
    by (auto simp: idle_def)
  from id obtain c where c: "c \<in> set (cancellations s)" "cx_id c = i" "cx_original c = st" "cx_hash c = ch" "\<not> cx_blocked c" "cx_started c = None"
    by (auto simp: idle_def)
  have j: "cancel_join rh ch s = Some (r, c)" unfolding cancel_join_def
  proof (rule find_eq_Some_unique)
    fix y assume "y \<in> set (List.product (requests s) (cancellations s))"
      "case y of (r, c) \<Rightarrow> cx_id c = dr_id r \<and> dr_receipt r = rh \<and> cx_hash c = ch \<and> cx_hash c \<noteq> []"
    then obtain r2 c2 where y: "y = (r2, c2)" "r2 \<in> set (requests s)" "c2 \<in> set (cancellations s)" "cx_id c2 = dr_id r2" "dr_receipt r2 = rh"
      by auto
    then have "r2 = r" using dl_okD(2) [OF ok r(1) y(2)] r(4) by simp
    moreover have "c2 = c" using dl_okD(4) [OF ok c(1) y(3)] c(2) r(2) y(4) \<open>r2 = r\<close> by simp
    ultimately show "y = (r, c)" by (simp add: y(1))
  qed (use r c ch in auto)
  have un: "unsafe_targets i s = 0" using id by (auto simp: unsafe_targets_def sql_affected_zero idle_def)
  have ms: "member_status u s = Some (Some ''AAA'')" using id by (simp add: idle_def)
  obtain s2 where w: "cancel_writes env i u st' s = Inr ((), s2)"
    using no_fault [OF env(1)] by (simp add: cancel_writes_def tx_then_def tx_bind_def exec_def tx_return_def)
  have tx: "cancel_tx env rh ch s = Inr (False, s2)"
    using j r c un ms re w no_fault [OF env(1)]
    by (simp add: cancel_tx_def tx_then_def tx_bind_def get_row_def query_def tx_guard_def tx_return_def tx_fail_def Let_def)
  have rs: "requests s2 = sql_update (\<lambda>r. dr_id r = i) (mark_cancelled env) (requests s)"
    using w by (auto simp: cancel_writes_def tx_ok upd_defs set_member_status_def restore_guard_trigger_def)
  have "mark_cancelled env r \<in> set (requests s2)" using r by (auto simp: rs set_sql_update)
  moreover have cs: "cancellations s2 = sql_update (\<lambda>c. cx_id c = i) (\<lambda>c. c\<lparr>cx_cancelled := Some (dl_now env)\<rparr>) (cancellations (set_member_status u st' s))"
    using w by (auto simp: cancel_writes_def tx_ok upd_defs)
  have "safe s s2" using safe_cancel_tx [of env rh ch] tx by (auto simp: establishes_def)
  with ok have ok2: "dl_ok s2" by (simp add: safe_def)
  have old: "\<not> (\<exists>c \<in> set (cancellations s2). cx_id c = i \<and> (case cx_cancelled c of None \<Rightarrow> False | Some t \<Rightarrow> t \<le> dl_now env - days 30))"
    unfolding cs by (auto simp: ex_sql_update days_def)
  have "sql_get (\<lambda>r. dr_receipt r = rh \<and> (case dr_completed r of None \<Rightarrow> True | Some t \<Rightarrow> t > dl_now env - days 30)
             \<and> \<not> (\<exists>c \<in> set (cancellations s2). cx_id c = dr_id r
                    \<and> (case cx_cancelled c of None \<Rightarrow> False | Some t \<Rightarrow> t \<le> dl_now env - days 30))) (requests s2) = Some (mark_cancelled env r)"
    unfolding sql_get_def
  proof (rule find_eq_Some_unique)
    show m: "mark_cancelled env r \<in> set (requests s2)" by fact
    show "dr_receipt (mark_cancelled env r) = rh \<and> (case dr_completed (mark_cancelled env r) of None \<Rightarrow> True | Some t \<Rightarrow> t > dl_now env - days 30)
             \<and> \<not> (\<exists>c \<in> set (cancellations s2). cx_id c = dr_id (mark_cancelled env r)
                    \<and> (case cx_cancelled c of None \<Rightarrow> False | Some t \<Rightarrow> t \<le> dl_now env - days 30))"
      using old r by (simp add: mark_cancelled_def days_def)
    fix y assume "y \<in> set (requests s2)" "dr_receipt y = rh \<and> (case dr_completed y of None \<Rightarrow> True | Some t \<Rightarrow> t > dl_now env - days 30)
             \<and> \<not> (\<exists>c \<in> set (cancellations s2). cx_id c = dr_id y \<and> (case cx_cancelled c of None \<Rightarrow> False | Some t \<Rightarrow> t \<le> dl_now env - days 30))"
    then show "y = mark_cancelled env r" using dl_okD(2) [OF ok2 m] r(4) by (simp add: mark_cancelled_def)
  qed
  then have "repo_Receipt env rh s2 = Inr (normalizeDeletionReceiptTimes env (deletionReceiptColumns env s2 (mark_cancelled env r)))"
    using no_fault [OF env(1)] by (simp add: repo_Receipt_def)
  moreover have "ReceiptStatus (normalizeDeletionReceiptTimes env (deletionReceiptColumns env s2 (mark_cancelled env r))) = ''cancelled''"
    by (simp add: normalizeDeletionReceiptTimes_def deletionReceiptColumns_def mark_cancelled_def Let_def)
  ultimately show thesis
    using that r(1,2) w tx no_fault [OF env(1)] env(2) by (simp add: repo_Cancel_def with_lock_def ErasureLock_def)
qed


section \<open>What is final\<close>


text \<open>Evidence is monotonic: a storage target that is complete or not applicable keeps its status and its
  evidence for good, and the snapshot of a request keeps the original status and the cancel secret.\<close>

theorem recorded_evidence_is_final:
  "(t \<in> set (targets s) \<and> settled (et_status t) \<longrightarrow> t \<in> set (targets (run dl_step s xs)))
   \<and> (c \<in> set (cancellations s) \<longrightarrow> (\<exists>c' \<in> set (cancellations (run dl_step s xs)). cx_id c' = cx_id c
        \<and> cx_original c' = cx_original c \<and> cx_hash c' = cx_hash c \<and> (cx_blocked c \<longrightarrow> cx_blocked c')))"
  using progress_run [of s xs] growsD [of target_keeps "targets s" "targets (run dl_step s xs)" t]
    growsD [of snapshot_keeps "cancellations s" "cancellations (run dl_step s xs)" c]
  by (auto simp: progress_def target_keeps_def snapshot_keeps_def)

section \<open>What completion rests on\<close>

lemma footprint_itemsD: "footprint_items env u tcs s = Inr [] \<Longrightarrow> tc \<in> set tcs \<Longrightarrow> ref_count s tc u = 0"
  by (induction tcs) (auto split: if_splits option.splits sum.splits)

lemma footprint_empty:
  "deletionFootprint env u s = Inr [] \<Longrightarrow> tc \<in> set (base_columns env) \<Longrightarrow> scanned_column tc \<Longrightarrow> ref_count s tc u = 0"
  "deletionFootprint env u s = Inr [] \<Longrightarrow> (''WEO_MEMBER'', ''USR_SEQ'') \<in> set (base_columns env)"
  by (auto simp: deletionFootprint_def Let_def split: option.splits sum.splits if_splits intro: footprint_itemsD)

lemma request_row_unique: "dl_ok s \<Longrightarrow> r \<in> set (requests s) \<Longrightarrow> request_row (dr_id r) s = Some r"
  by (auto simp: request_row_def dl_ok_def keys_ok_def intro: sql_get_unique)


section \<open>Operators\<close>

lemma own_row_hidden:
  assumes "dl_ok s" "r \<in> set (requests s)" "dr_id r = i" "dr_usr r = Some p"
  shows "sql_get (\<lambda>r. dr_id r = i \<and> P r \<and> dr_usr r \<noteq> None \<and> dr_usr r \<noteq> Some p) (requests s) = None"
  unfolding sql_get_None
proof (intro ballI notI)
  fix x assume x: "x \<in> set (requests s)" "dr_id x = i \<and> P x \<and> dr_usr x \<noteq> None \<and> dr_usr x \<noteq> Some p"
  then have "x = r" using dl_okD(1) [OF assms(1,2) x(1)] assms(3) by simp
  with x assms(4) show False by simp
qed

lemma own_request_hidden:
  assumes "dl_ok s" "r \<in> set (requests s)" "dr_id r = i" "dr_usr r = Some p"
  shows "open_request i p s = None"
  using own_row_hidden [OF assms, of "\<lambda>r. open_status (dr_status r)"] by (simp add: open_request_def)

lemma transact_none: "q s = None \<Longrightarrow> \<exists>e. transact b c (tx_bind (get_row x e' q) f) s = (Inl e, s)"
  by (auto simp: transact_def tx_bind_def get_row_def split: option.splits)

lemma locked_none: "(\<And>s'. s' = s \<Longrightarrow> \<exists>e. f s' = (Inl e, s)) \<Longrightarrow> \<exists>e. with_lock env b f s = (Inl e, s)"
  by (auto simp: with_lock_def split: sum.splits)

text \<open>No operator handles the own request: whatever action is asked for, the service answers with an error and
  nothing has changed.\<close>

theorem own_request_is_refused:
  assumes "dl_ok s" "r \<in> set (requests s)" "dr_id r = i" "dr_usr r = Some p"
  shows "\<exists>e. Resolve v (repo_store digest None env) i p req s = (Inl e, s)"
proof -
  note hid = own_request_hidden [OF assms]
  have scope: "\<exists>e. checkOperatorErasureScope env i p s = Some e" by (auto simp: checkOperatorErasureScope_def hid split: option.splits)
  have 1: "\<exists>e. CancelVerified env i p x s = (Inl e, s)" for x using scope by (auto simp: CancelVerified_def)
  have 2: "\<exists>e. controlSchedule env i p a rv s = (Inl e, s)" for a rv
    unfolding controlSchedule_def controlSchedule_tx_def by (auto intro!: locked_none transact_none simp: hid)
  have 3: "\<exists>e. SetErasureMode env i p m s = (Inl e, s)" for m
    unfolding SetErasureMode_def using scope by (auto intro!: locked_none split: option.splits)
  have 4: "\<exists>e. ResolveReceiptWork env i p x s = (Inl e, s)" for x
    unfolding ResolveReceiptWork_def by (rule transact_none) (rule hid)
  have 5: "\<exists>e. ReviewErasureTarget env i p t s = (Inl e, s)" for t
    unfolding ReviewErasureTarget_def by (auto intro!: locked_none simp: hid split: option.splits)
  have row: "Option.bind (sql_get (\<lambda>r. dr_id r = i \<and> dr_status r = x \<and> dr_usr r \<noteq> None \<and> dr_usr r \<noteq> Some p) (requests s)) dr_usr = None" for x
    using own_row_hidden [OF assms, of "\<lambda>r. dr_status r = x"] by simp
  have 6: "\<exists>e. repo_Complete env i p x s = (Inl e, s)" for x
    unfolding repo_Complete_def complete_tx_def by (rule transact_none) (rule row)
  have 7: "\<exists>e. repo_Start env i p s = (Inl e, s)" if "0 < p"
    unfolding repo_Start_def using scope that by (auto intro!: locked_none)
  have 8: "\<exists>e. resolveReceiptWork (repo_store digest None env) i p x s = (Inl e, s)" for x
    using 4 by (auto simp: resolveReceiptWork_def repo_store_def optional_def Let_def)
  have 9: "\<exists>e. expediteReviewed (repo_store digest None env) i p d s = (Inl e, s)" for d
    using 2 by (auto simp: expediteReviewed_def repo_store_def optional_def ExpediteReviewed_def)
  show ?thesis unfolding Resolve_def using 1 2 3 5 6 7 8 9
    by (auto simp: repo_store_def optional_def ControlSchedule_def Let_def)
qed

section \<open>Nothing is erased early\<close>

definition waits :: "int \<Rightarrow> int \<Rightarrow> dl_state \<Rightarrow> bool" where
  "waits i T s = (i < request_next s \<and> (\<exists>e \<in> set (schedules s). es_id e = i)
     \<and> (\<forall>e \<in> set (schedules s). es_id e = i \<longrightarrow> es_scheduled e = T \<and> es_expedited e = None))"

definition patient :: "int \<Rightarrow> int \<Rightarrow> dl_state \<Rightarrow> dl_state \<Rightarrow> bool" where
  "patient i T s s' = (waits i T s \<longrightarrow> waits i T s')"

interpretation patient: tx_relation "patient i T" for i T
  by unfold_locales (auto simp: patient_def)

lemma patient_same: "schedules s' = schedules s \<Longrightarrow> request_next s \<le> request_next s' \<Longrightarrow> patient i T s s'"
  by (auto simp: patient_def waits_def)

lemma patient_upd:
  "patient i T s (upd_requests p f s)" "patient i T s (upd_erasures p1 f1 s)" "patient i T s (upd_works p2 f2 s)" "patient i T s (upd_outbox p3 f3 s)"
  "patient i T s (upd_targets p4 f4 s)" "patient i T s (upd_cancellations p5 f5 s)"
  "patient i T s (s\<lparr>contexts := cs\<rparr>)" "patient i T s (s\<lparr>files := fs\<rparr>)" "patient i T s (s\<lparr>guards := gs\<rparr>)" "patient i T s (s\<lparr>dl_roles := rs\<rparr>)"
  "patient i T s (s\<lparr>intakes := is\<rparr>)" "patient i T s (s\<lparr>outbox := os\<rparr>)" "patient i T s (insert_erasure env j s)" "patient i T s (insert_work env j s)"
  "patient i T s (insert_request env u h s)" "patient i T s (insert_cancellation j x h s)" "patient i T s (seed_target env j n s)"
  "patient i T s (schedule_targets j s)" "patient i T s (set_member_status u v s)"
  "patient i T s (recordRestoreGuard env j u s)" "patient i T s (enqueue_revocations env u j s)"
  by (rule patient_same; auto simp: upd_defs insert_erasure_def insert_work_def insert_request_def insert_cancellation_def seed_target_def schedule_targets_def
      set_member_status_def restore_guard_trigger_def recordRestoreGuard_def enqueue_revocations_def Let_def split: option.splits)+

lemma patient_schedule: "patient i T s (insert_schedule env j s)"
  by (auto simp: patient_def waits_def insert_schedule_def)

lemma patient_expedite: "j \<noteq> i \<Longrightarrow> patient i T s (expedite_schedule env j p s)"
  by (auto simp: patient_def waits_def expedite_schedule_def upd_defs all_sql_update ex_sql_update)

lemma patient_for_request: "(\<And>j. patient i T s (f j s)) \<Longrightarrow> patient i T s (for_request w f s)"
  by (auto simp: for_request_def patient.R_refl split: option.splits)

lemmas patient_intros = patient.est_rules patient_upd patient_schedule patient_for_request

lemma patient_lock: "(\<And>s. patient i T s (snd (f s))) \<Longrightarrow> patient i T s (snd (with_lock env e f s))"
  by (auto simp: with_lock_def patient.R_refl split: sum.splits)

lemma patient_create:
  "patient i T s (snd (repo_CreateCancelable env u rh ch s))" "patient i T s (snd (repo_CreateOnBehalf env u p rh ch e s))"
proof -
  have seed: "establishes (patient i T) (seed_targets env j ns)" for i T j ns
    by (induction ns) (auto intro!: patient_intros)
  have cr: "patient i T s (snd (createReceipt env u rh ch before s))" if "\<And>j. establishes (patient i T) (before j)" for before
    unfolding createReceipt_def new_receipt_def new_request_def disable_account_def queue_erasure_def read_receipt_def seedErasureTargets_def
    by (auto simp: patient.R_refl split: option.splits intro!: patient.est_transact patient_intros seed that)
  show "patient i T s (snd (repo_CreateCancelable env u rh ch s))"
    unfolding repo_CreateCancelable_def by (rule cr) (rule patient.est_return)
  have "patient i T s (snd (createReceipt env u rh ch (insert_intake env p e) s))"
    by (rule cr) (unfold insert_intake_def, intro patient_intros)
  then show "patient i T s (snd (repo_CreateOnBehalf env u p rh ch e s))"
    by (auto simp: repo_CreateOnBehalf_def patient.R_refl split: prod.splits sum.splits dl_error.splits)
qed

lemma patient_start: "patient i T s (snd (repo_Start env j p s))"
proof -
  have "patient i T s (snd (transact b c (start_tx env j p) s))" for s b c
    unfolding start_tx_def by (intro patient.est_transact patient_intros)
  then show ?thesis unfolding repo_Start_def by (auto intro!: patient_lock simp: patient.R_refl split: option.splits)
qed

lemma patient_cancel: "patient i T s (snd (repo_Cancel env rh ch s))"
proof -
  have "establishes (patient i T) (cancel_tx env rh ch)"
    unfolding cancel_tx_def cancel_writes_def by (intro patient_intros)
  then show ?thesis unfolding repo_Cancel_def
    by (auto intro!: patient_lock simp: patient.R_refl establishes_def split: option.splits sum.splits)
qed

lemma patient_cancel_verified: "patient i T s (snd (CancelVerified env j p e s))"
  unfolding CancelVerified_def
  by (auto simp: snd_forward patient.R_refl Let_def split: option.splits intro: patient.R_trans [OF patient_upd(1) patient_cancel])

text \<open>All operations but the one that expedites the request.\<close>

fun no_haste :: "int \<Rightarrow> dl_op \<Rightarrow> bool" where
  "no_haste i (OpControl env j p a) = (j \<noteq> i \<or> a \<noteq> ''expedite'')"
| "no_haste i x = True"

lemma patient_control:
  assumes "j \<noteq> i \<or> a \<noteq> ''expedite''"
  shows "patient i T s (snd (ControlSchedule env j p a s))"
proof -
  have "establishes (patient i T) (controlSchedule_tx env j p a (\<lambda>_. tx_return ()))"
  proof (cases "j = i")
    case True
    with assms have "a \<noteq> ''expedite''" by simp
    then show ?thesis unfolding controlSchedule_tx_def resume_erasure_def by (auto intro!: patient_intros)
  next
    case False
    then show ?thesis unfolding controlSchedule_tx_def resume_erasure_def by (intro patient_intros patient_expedite)
  qed
  then have "patient i T s (snd (transact b c (controlSchedule_tx env j p a (\<lambda>_. tx_return ())) s))" for s b c
    by (rule patient.est_transact)
  then show ?thesis unfolding ControlSchedule_def controlSchedule_def by (auto intro!: patient_lock simp: patient.R_refl)
qed

lemma patient_record: "patient i T s (snd (RecordErasureTargets env j ts s))"
proof -
  have "establishes (patient i T) (record_targets env j seen ts)" for seen
    by (induction ts arbitrary: seen) (auto intro!: patient_intros)
  then show ?thesis unfolding RecordErasureTargets_def by (intro patient.est_transact patient_intros)
qed

lemma patient_review: "patient i T s (snd (ReviewErasureTarget env j p t s))"
proof -
  have *: "patient i T s (snd (case RecordErasureTargets env j ts s of (Inl e, s1) \<Rightarrow> (Inl e, s1)
             | (Inr _, s1) \<Rightarrow> direct (exec x (upd_erasures q f)) s1))" for s x q f ts
  proof (cases "RecordErasureTargets env j ts s")
    case (Pair r s1)
    with patient_record [of i T s env j ts] have 1: "patient i T s s1" by simp
    have "patient i T s1 (snd (direct (exec x (upd_erasures q f)) s1))"
      by (intro patient.est_direct patient_intros)
    with Pair patient.R_trans [OF 1 this] 1 show ?thesis by (cases r) auto
  qed
  show ?thesis unfolding ReviewErasureTarget_def
    by (auto intro!: patient_lock * simp: patient.R_refl Let_def split: option.splits)
qed

lemma patient_complete: "patient i T s (snd (repo_Complete env j p req s))"
proof -
  have "establishes (patient i T) (footprint_tx env w)" for w
    using footprint_same by (fastforce simp: establishes_def patient.R_refl)
  then show ?thesis
    unfolding repo_Complete_def complete_tx_def complete_body_def close_unreviewed_def completion_ready_def verifyDeletionProviders_def complete_writes_def
    by (intro patient.est_transact patient_intros)
qed

lemma patient_external: "patient i T s (snd (RecordExternalErasure env j e s))"
  unfolding RecordExternalErasure_def Let_def by (auto simp: patient.R_refl intro!: patient.est_transact patient_intros)

lemma patient_rest:
  "patient i T s (snd (SetErasureMode env j p m s))" "patient i T s (snd (ErasureRetry env j c s))"
  "patient i T s (snd (BeginErasureTargets env j s))" "patient i T s (snd (ErasureFileDone env j s))"
  "patient i T s (snd (PurgeExpiredRestoreGuards env s))" "patient i T s (snd (SaveErasureContext env j x s))"
  "patient i T s (snd (RefreshErasureContext env j x s))"
  "patient i T s (snd (ResolveReceiptWork env j p req s))" "patient i T s (snd (transact b c' (reviewReceiptWork env j d) s))"
  "patient i T s (snd (FinishAutomaticErasure env w s))"
proof -
  show "patient i T s (snd (SetErasureMode env j p m s))" unfolding SetErasureMode_def
    by (auto intro!: patient_lock simp: patient.R_refl patient_upd Let_def split: option.splits)
  show "patient i T s (snd (BeginErasureTargets env j s))" unfolding BeginErasureTargets_def
    by (auto simp: patient.R_refl patient_upd split: option.splits)
  show "patient i T s (snd (SaveErasureContext env j x s))" "patient i T s (snd (RefreshErasureContext env j x s))"
    by (auto simp: SaveErasureContext_def RefreshErasureContext_def Let_def patient.R_refl patient_upd split: option.splits sum.splits dl_error.splits)
  show "patient i T s (snd (ResolveReceiptWork env j p req s))" "patient i T s (snd (transact b c' (reviewReceiptWork env j d) s))"
    unfolding ResolveReceiptWork_def reviewReceiptWork_def by (intro patient.est_transact patient_intros)+
  show "patient i T s (snd (FinishAutomaticErasure env w s))"
    by (auto simp: FinishAutomaticErasure_def patient.R_refl patient_complete split: sum.splits option.splits)
qed (unfold ErasureRetry_def ErasureFileDone_def PurgeExpiredRestoreGuards_def, (intro patient.est_direct patient_intros)+)

lemma patient_run: "list_all (no_haste i) xs \<Longrightarrow> patient i T s (run dl_step s xs)"
proof (rule patient.est_run)
  show "patient i T s (dl_step s x)" if "no_haste i x" for s x
    using that by (cases x) (simp_all add: patient_create patient_start patient_cancel patient_cancel_verified patient_control
      patient_record patient_review patient_external patient_complete patient_rest)
qed

lemma disable_waits:
  assumes nb: "newborn n u s" and fresh: "\<forall>e \<in> set (schedules s). es_id e \<noteq> n" and run: "disable_account env u ch st s = Inr ((), s')"
  shows "waits n (dl_now env + hours (WaitHours env)) s'"
proof -
  have s1: "for_request u (insert_schedule env) s = insert_schedule env n s" using nb by (auto simp: for_request_def elim: newborn_row)
  have "n < request_next s" using nb dl_okD(5) by (auto simp: newborn_def)
  then have w: "waits n (dl_now env + hours (WaitHours env)) (insert_schedule env n s)"
    using fresh by (auto simp: waits_def insert_schedule_def)
  let ?m = "tx_seq [exec (flt env ''request.schedule'') (for_request u schedule_targets),
             exec (flt env ''cancellation.insert'') (for_request u (\<lambda>i. insert_cancellation i st ch)),
             exec (flt env ''member.disable'') (set_member_status u ''AAA''),
             exec (flt env ''role.delete'') (\<lambda>s. s\<lparr>dl_roles := sql_delete (\<lambda>x. fst x = u) (dl_roles s)\<rparr>)]"
  have m: "?m (insert_schedule env n s) = Inr ((), s')"
    using run s1 by (simp add: disable_account_def tx_then_ok exec_ok)
  have "establishes (patient n (dl_now env + hours (WaitHours env))) ?m" by (intro patient_intros)
  with m have "patient n (dl_now env + hours (WaitHours env)) (insert_schedule env n s) s'" unfolding establishes_def by blast
  with w show ?thesis by (simp add: patient_def)
qed

lemma created_waits:
  assumes ok: "dl_ok s" and none: "request_of_user u s = None" and run: "repo_CreateCancelable env u rh ch s = (Inr c, s')"
  shows "waits (ReceiptID c) (dl_now env + hours (WaitHours env)) s'"
proof -
  from run have "createReceipt env u rh ch (\<lambda>_. tx_return ()) s = (Inr c, s')" by (simp add: repo_CreateCancelable_def)
  then obtain st where new: "new_receipt env u rh ch st (\<lambda>_. tx_return ()) s = Inr (c, s')"
    by (cases rule: createReceiptD) (use none in auto)
  let ?n = "request_next s" and ?s1 = "insert_request env u rh s" and ?T = "dl_now env + hours (WaitHours env)"
  from new obtain s2 result where h: "\<forall>r \<in> set (requests s). dr_receipt r \<noteq> rh" and d: "disable_account env u ch st ?s1 = Inr ((), s2)"
    and g: "read_receipt env u s2 = Inr (result, s2)" and q: "queue_erasure env (ReceiptID result) (tx_return ()) s2 = Inr ((), s')"
    and cc: "c = normalizeDeletionReceiptTimes env result"
    by (auto simp: new_receipt_def new_request_def tx_bind_ok tx_then_ok query_ok tx_guard_ok exec_ok tx_return_ok read_receipt_def get_row_ok)
  note nb = newborn_insert [OF ok none h, of env]
  have "waits ?n ?T s2" by (rule disable_waits [OF nb(1) _ d]) (use ok in \<open>auto simp: insert_request_def dl_ok_def ball_Un\<close>)
  moreover have "raises ?n u ?s1 s2" using d raises_disable [of ?n u env ch st] by (auto simp: establishes_def)
  with nb(1) have "newborn ?n u s2" by (simp add: raises_def)
  then have "ReceiptID c = ?n" using g
    by (auto simp: cc read_receipt_def get_row_ok deletionReceiptColumns_def normalizeDeletionReceiptTimes_def Let_def elim: newborn_row)
  moreover have "establishes (patient ?n ?T) (queue_erasure env (ReceiptID result) (tx_return ()))"
  proof -
    have "establishes (patient ?n ?T) (seed_targets env j ns)" for j ns by (induction ns) (auto intro!: patient_intros)
    then show ?thesis unfolding queue_erasure_def seedErasureTargets_def by (intro patient_intros)
  qed
  ultimately show ?thesis using q by (auto simp: establishes_def patient_def)
qed

text \<open>C17. Nothing is erased before its time: from the creation of a request until the configured waiting hours are
  over, the worker neither picks it up nor regards it as active, whatever operations happen in between,
  unless an operator has expedited it.\<close>

theorem no_early_erasure:
  assumes "dl_ok s" "request_of_user u s = None" "repo_CreateCancelable env u rh ch s = (Inr c, s1)"
    and "list_all (no_haste (ReceiptID c)) xs" "dl_now env' < dl_now env + hours (WaitHours env)"
  shows "(\<forall>ws. ErasureBatch env' (run dl_step s1 xs) = Inr ws \<longrightarrow> ReceiptID c \<notin> w_RequestID ` set ws)
    \<and> ErasureActive env' (ReceiptID c) (run dl_step s1 xs) \<noteq> Inr True"
proof -
  let ?s = "run dl_step s1 xs" and ?i = "ReceiptID c"
  have "waits ?i (dl_now env + hours (WaitHours env)) ?s"
    using patient_run [OF assms(4)] created_waits [OF assms(1-3)] by (auto simp: patient_def)
  then have due: "\<not> due_now env' ?s ?i" using assms(5) by (auto simp: waits_def due_now_def)
  have "?i \<notin> w_RequestID ` set ws" if "ErasureBatch env' ?s = Inr ws" for ws
  proof -
    let ?rows = "take 10 (sort_key (\<lambda>(r, e). er_next e) (sort_key (\<lambda>(r, e). dr_id r) (batch_rows env' ?s)))"
    have sub: "set ?rows \<subseteq> set (batch_rows env' ?s)" using set_take_subset by (metis set_sort)
    have "\<exists>(r, e) \<in> set ?rows. w_RequestID w = dr_id r" if "w \<in> set ws" for w
      using \<open>ErasureBatch env' ?s = Inr ws\<close> that by (fastforce simp: ErasureBatch_def Let_def split: option.splits if_splits)
    with sub have "\<exists>(r, e) \<in> set (batch_rows env' ?s). w_RequestID w = dr_id r" if "w \<in> set ws" for w
      using that by (meson subsetD)
    then show ?thesis using due by (fastforce simp: batch_rows_def)
  qed
  moreover have "filter (\<lambda>(r, e). er_id e = ?i \<and> er_id e = dr_id r \<and> er_mode e = ''automatic'' \<and> open_status (dr_status r)
                              \<and> due_now env' ?s (dr_id r)) (List.product (requests ?s) (erasures ?s)) = []"
    using due by (auto simp: filter_empty_conv)
  then have "ErasureActive env' ?i ?s \<noteq> Inr True" by (auto simp: ErasureActive_def split: option.splits)
  ultimately show ?thesis by blast
qed

section \<open>Witnesses\<close>

definition demo_denv :: dl_env where
  "demo_denv = \<lparr>dl_now = 1000, dl_local = 33400, dl_fault = (\<lambda>_. None), lock_free = True, WaitHours = 72, TestUserSeq = 0,
     engine = ''InnoDB'', base_columns = [(''WEO_MEMBER'', ''USR_SEQ''), (''WEO_ORDER'', ''O_SEQ'')], loc_offset = 32400\<rparr>"

definition demo_tables :: dl_state where
  "demo_tables = \<lparr>requests = [], request_next = 1, schedules = [], cancellations = [], erasures = [], targets = [], works = [], intakes = [],
     outbox = [], dl_members = [\<lparr>dm_seq = 7, dm_status = Some ''CCC''\<rparr>], dl_roles = [], socials = [], files = [], contexts = [], guards = [],
     other_refs = []\<rparr>"

definition demo_asked :: dl_state where
  "demo_asked = snd (repo_CreateCancelable demo_denv 7 ''r'' ''c'' demo_tables)"

text \<open>The request of the member 8, whose account is erased already, taken over by an operator.\<close>

definition demo_processing :: dl_state where
  "demo_processing = demo_tables\<lparr>requests := [\<lparr>dr_id = 1, dr_usr = Some 8, dr_receipt = ''r'', dr_status = ''processing'', dr_apple = True, dr_kakao = False,
       dr_requested = 10, dr_target = 20, dr_due = 30, dr_completed = None, dr_operator = Some 9, dr_evidence = [], dr_retained = [], dr_until = None\<rparr>],
     request_next := 2,
     erasures := [\<lparr>er_id = 1, er_mode = ''manual'', er_stage = ''queued'', er_code = [], er_next = 0, er_evidence = [], er_updated = 0\<rparr>],
     works := [\<lparr>rw_id = 1, rw_status = ''unreviewed'', rw_storage = [], rw_evidence = [], rw_operator = None, rw_updated = 0, rw_completed = None\<rparr>],
     outbox := [\<lparr>ob_usr = 8, ob_provider = ''AP'', ob_action = ''ACCOUNT_DELETE'', ob_status = ''DELIVERED'', ob_attempts = 1, ob_next = 0, ob_claim = None,
       ob_error = None, ob_created = 12, ob_updated = 13\<rparr>]\<rparr>"

definition demo_completed :: dl_state where
  "demo_completed = snd (repo_Complete demo_denv 1 9 no_resolution demo_processing)"

lemma demo_tables_ok: "dl_ok demo_tables" "dl_ok demo_processing"
  by (simp_all add: dl_ok_def demo_tables_def demo_processing_def keys_ok_def)

lemma demo_asked_ok: "\<exists>c. repo_CreateCancelable demo_denv 7 ''r'' ''c'' demo_tables = (Inr c, demo_asked)"
proof -
  have "is_ok (fst (repo_CreateCancelable demo_denv 7 ''r'' ''c'' demo_tables))" by code_simp
  then show ?thesis unfolding demo_asked_def by (metis is_ok_iff prod.collapse)
qed

lemma demo_completed_ok: "repo_Complete demo_denv 1 9 no_resolution demo_processing = (Inr (), demo_completed)"
proof -
  have "fst (repo_Complete demo_denv 1 9 no_resolution demo_processing) = Inr ()" by code_simp
  then show ?thesis unfolding demo_completed_def by (metis prod.collapse)
qed



definition demo_target :: erasure_target where
  "demo_target = \<lparr>et_id = 1, et_name = ''backups'', et_status = ''complete'', et_evidence = ''x'', et_code = [], et_attempts = 1, et_last_attempt = None,
     et_wait_count = 0, et_wait_until = None, et_updated = 0\<rparr>"

lemma recorded_evidence_is_final_witness:
  "demo_target \<in> set (targets (run dl_step (demo_processing\<lparr>targets := [demo_target]\<rparr>) [OpBegin demo_denv 1]))"
  using recorded_evidence_is_final [of demo_target "demo_processing\<lparr>targets := [demo_target]\<rparr>" "[OpBegin demo_denv 1]"]
  by (simp add: demo_target_def settled_def)


lemma own_request_is_refused_witness:
  "\<exists>e. Resolve \<lparr>sha256_of = id, fresh_token = None, fresh_token2 = None, now_ns = 0\<rparr> (repo_store (\<lambda>_ _ _. Inr []) None demo_denv) 1 8
     (no_resolution\<lparr>Action := ''manual''\<rparr>) demo_processing = (Inl e, demo_processing)"
  by (rule own_request_is_refused [OF demo_tables_ok(2)]) (auto simp: demo_processing_def)

lemma no_early_erasure_witness:
  "\<exists>i. ErasureActive (demo_denv\<lparr>dl_now := 260199\<rparr>) i (run dl_step demo_asked [OpControl demo_denv 1 9 ''schedule'']) \<noteq> Inr True"
proof -
  obtain c where c: "repo_CreateCancelable demo_denv 7 ''r'' ''c'' demo_tables = (Inr c, demo_asked)" using demo_asked_ok by blast
  show ?thesis
    using no_early_erasure [OF demo_tables_ok(1) _ c, of "[OpControl demo_denv 1 9 ''schedule'']" "demo_denv\<lparr>dl_now := 260199\<rparr>"]
    by (auto simp: demo_tables_def demo_denv_def request_of_user_def sql_get_def hours_def)
qed

end
