(* ===== verification/Erasure_Schema.thy ===== *)
theory Erasure_Schema
  imports Account_Deletion
begin

text \<open>
  What the erasure of an account deletes (\<^verbatim>\<open>repository/account_erasure_schema.go\<close>,
  \<^verbatim>\<open>repository/account_erasure_steps.go\<close>, \<^verbatim>\<open>repository/account_erasure_database.go\<close>), over the database
  as the information schema describes it: tables with their columns, engine and rows. The predicates of the
  deletions are terms of a small condition language with the server's meaning. The main lemma: the deletions,
  which run one after the other and read each other's tables, delete exactly the rows that match on the
  database the erasure started from.
\<close>

section \<open>Tables\<close>

datatype sql_val = Null | IntV int | StrV string

record gtable =
  t_columns :: "string list"
  t_engine :: "string option"
  t_base :: bool
  t_rows :: "sql_val list list"

text \<open>The tables in the order of the catalogue, and the server's \<open>=\<close> on values that are not \<open>NULL\<close> (it depends
  on collations and on conversions between strings and numbers).\<close>

record gdb =
  catalog :: "(string \<times> gtable) list"
  same_val :: "sql_val \<Rightarrow> sql_val \<Rightarrow> bool"

definition sql_eq :: "gdb \<Rightarrow> sql_val \<Rightarrow> sql_val \<Rightarrow> bool" where
  "sql_eq db v w = (v \<noteq> Null \<and> w \<noteq> Null \<and> same_val db v w)"

definition table_of :: "gdb \<Rightarrow> string \<Rightarrow> gtable option" where
  "table_of db t = map_of (catalog db) t"

definition rows_of :: "gdb \<Rightarrow> string \<Rightarrow> sql_val list list" where
  "rows_of db t = (case table_of db t of None \<Rightarrow> [] | Some x \<Rightarrow> t_rows x)"

definition columns_of :: "gdb \<Rightarrow> string \<Rightarrow> string list" where
  "columns_of db t = (case table_of db t of None \<Rightarrow> [] | Some x \<Rightarrow> t_columns x)"

definition cell :: "string list \<Rightarrow> sql_val list \<Rightarrow> string \<Rightarrow> sql_val" where
  "cell cols r c = (case map_of (zip cols r) c of Some v \<Rightarrow> v | None \<Rightarrow> Null)"

definition on_table :: "string \<Rightarrow> (gtable \<Rightarrow> gtable) \<Rightarrow> gdb \<Rightarrow> gdb" where
  "on_table t f db = db\<lparr>catalog := map (\<lambda>(n, x). (n, if n = t then f x else x)) (catalog db)\<rparr>"

section \<open>Conditions\<close>

text \<open>\<^verbatim>\<open>c=?\<close>, \<^verbatim>\<open>c IS NOT NULL\<close>, \<^verbatim>\<open>c>=?\<close>, \<^verbatim>\<open>c IN (?,...)\<close>, a parameter-only condition, \<^verbatim>\<open>AND\<close>, \<^verbatim>\<open>OR\<close>,
  \<^verbatim>\<open>c IN (SELECT c' FROM t WHERE w)\<close> and \<^verbatim>\<open>EXISTS (SELECT 1 FROM t WHERE w AND t.i=outer.o AND ...)\<close>.
  Without negation the unknown of SQL can be read as false.\<close>

datatype cond =
    ColEq string sql_val
  | NotNull string
  | AtLeast string int
  | InVals string "sql_val list"
  | Lit bool
  | AndC cond cond
  | OrC cond cond
  | InSelect string string string cond
  | ExistsIn string cond "(string \<times> string) list"

fun holds :: "gdb \<Rightarrow> string list \<Rightarrow> sql_val list \<Rightarrow> cond \<Rightarrow> bool" where
  "holds db cols r (ColEq c v) = sql_eq db (cell cols r c) v"
| "holds db cols r (NotNull c) = (cell cols r c \<noteq> Null)"
| "holds db cols r (AtLeast c n) = (case cell cols r c of IntV x \<Rightarrow> x \<ge> n | _ \<Rightarrow> False)"
| "holds db cols r (InVals c vs) = (\<exists>v \<in> set vs. sql_eq db (cell cols r c) v)"
| "holds db cols r (Lit b) = b"
| "holds db cols r (AndC a b) = (holds db cols r a \<and> holds db cols r b)"
| "holds db cols r (OrC a b) = (holds db cols r a \<or> holds db cols r b)"
| "holds db cols r (InSelect c c' t w) =
     (\<exists>x \<in> set (rows_of db t). holds db (columns_of db t) x w \<and> sql_eq db (cell cols r c) (cell (columns_of db t) x c'))"
| "holds db cols r (ExistsIn t w ps) =
     (\<exists>x \<in> set (rows_of db t). holds db (columns_of db t) x w
        \<and> (\<forall>p \<in> set ps. sql_eq db (cell (columns_of db t) x (fst p)) (cell cols r (snd p))))"

text \<open>The tables a condition reads besides the one it is about, and whether every table and column it names
  exists: the server refuses the statement otherwise.\<close>

fun reads :: "cond \<Rightarrow> string list" where
  "reads (AndC a b) = reads a @ reads b"
| "reads (OrC a b) = reads a @ reads b"
| "reads (InSelect c c' t w) = t # reads w"
| "reads (ExistsIn t w ps) = t # reads w"
| "reads _ = []"

fun known :: "gdb \<Rightarrow> string list \<Rightarrow> cond \<Rightarrow> bool" where
  "known db cols (ColEq c v) = (c \<in> set cols)"
| "known db cols (NotNull c) = (c \<in> set cols)"
| "known db cols (AtLeast c n) = (c \<in> set cols)"
| "known db cols (InVals c vs) = (c \<in> set cols)"
| "known db cols (Lit b) = True"
| "known db cols (AndC a b) = (known db cols a \<and> known db cols b)"
| "known db cols (OrC a b) = (known db cols a \<and> known db cols b)"
| "known db cols (InSelect c c' t w) =
     (c \<in> set cols \<and> table_of db t \<noteq> None \<and> c' \<in> set (columns_of db t) \<and> known db (columns_of db t) w)"
| "known db cols (ExistsIn t w ps) =
     (table_of db t \<noteq> None \<and> known db (columns_of db t) w \<and> (\<forall>p \<in> set ps. fst p \<in> set (columns_of db t) \<and> snd p \<in> set cols))"

definition matching :: "gdb \<Rightarrow> string \<Rightarrow> cond \<Rightarrow> sql_val list list" where
  "matching db t w = filter (\<lambda>r. holds db (columns_of db t) r w) (rows_of db t)"

definition delete_rows :: "string \<Rightarrow> cond \<Rightarrow> gdb \<Rightarrow> gdb" where
  "delete_rows t w db = on_table t (\<lambda>x. x\<lparr>t_rows := sql_delete (\<lambda>r. holds db (t_columns x) r w) (t_rows x)\<rparr>) db"

definition set_cells :: "string list \<Rightarrow> (string \<times> sql_val) list \<Rightarrow> sql_val list \<Rightarrow> sql_val list" where
  "set_cells cols sets r = map (\<lambda>(c, v). case map_of sets c of Some x \<Rightarrow> x | None \<Rightarrow> v) (zip cols r)"

definition update_rows :: "string \<Rightarrow> (string \<times> sql_val) list \<Rightarrow> cond \<Rightarrow> gdb \<Rightarrow> gdb" where
  "update_rows t sets w db =
     on_table t (\<lambda>x. x\<lparr>t_rows := sql_update (\<lambda>r. holds db (t_columns x) r w) (set_cells (t_columns x) sets) (t_rows x)\<rparr>) db"

definition unknown_name :: dl_error where
  "unknown_name = DbError ''unknown table or column''"

text \<open>A statement on a table: it may fail on its own, and does when a name in it is unknown.\<close>

definition statement :: "dl_env \<Rightarrow> string \<Rightarrow> string \<Rightarrow> cond \<Rightarrow> (gdb \<Rightarrow> gdb) \<Rightarrow> (dl_error, gdb, unit) tx" where
  "statement env label t w f db =
     (if table_of db t = None \<or> \<not> known db (columns_of db t) w then Inl unknown_name else exec (flt env label) f db)"

definition select :: "dl_env \<Rightarrow> string \<Rightarrow> string \<Rightarrow> cond \<Rightarrow> (gdb \<Rightarrow> 'a) \<Rightarrow> (dl_error, gdb, 'a) tx" where
  "select env label t w q db =
     (if table_of db t = None \<or> \<not> known db (columns_of db t) w then Inl unknown_name else query (flt env label) q db)"

section \<open>The schema and the deletion of rows\<close>

type_synonym erasureSchema = "(string \<times> string list) list"

definition readErasureSchema :: "dl_env \<Rightarrow> (dl_error, gdb, erasureSchema) tx" where
  "readErasureSchema env = query (flt env ''schema'') (\<lambda>db. map (\<lambda>(n, x). (n, t_columns x)) (catalog db))"

definition present :: "erasureSchema \<Rightarrow> string \<Rightarrow> bool" where
  "present s t = (map_of s t \<noteq> None)"

definition has :: "erasureSchema \<Rightarrow> string \<Rightarrow> string \<Rightarrow> bool" where
  "has s t c = (case map_of s t of None \<Rightarrow> False | Some cs \<Rightarrow> c \<in> set cs)"

text \<open>\<^verbatim>\<open>SELECT ENGINE ...\<close>: no row for an unknown table, and \<open>NULL\<close> (a view) cannot be scanned into a string.\<close>

definition read_engine :: "dl_env \<Rightarrow> string \<Rightarrow> (dl_error, gdb, string) tx" where
  "read_engine env t =
     tx_bind (get_row (flt env ''engine'') ErrNoRows (\<lambda>db. map_option t_engine (table_of db t))) (\<lambda>e.
     case e of None \<Rightarrow> tx_fail (DbError ''converting NULL to string'') | Some x \<Rightarrow> tx_return x)"

definition erase :: "dl_env \<Rightarrow> erasureSchema \<Rightarrow> string \<Rightarrow> cond \<Rightarrow> (dl_error, gdb, unit) tx" where
  "erase env s t w =
     (if \<not> present s t then tx_return ()
      else tx_bind (read_engine env t) (\<lambda>e.
           tx_then (tx_guard (e = ''InnoDB'') (ErasureBlocked (''NON_TRANSACTIONAL_TABLE_'' @ t)))
             (statement env (''delete.'' @ t) t w (delete_rows t w))))"

section \<open>The erasure rules\<close>

definition erasureMemberTables :: "string list" where
  "erasureMemberTables =
     [''ALUMNI_PUSH_OUTBOX'', ''ALUMNI_MOBILE_DEVICE_TOKEN'', ''ALUMNI_PUSH_DEVICE'', ''ALUMNI_PUSH_PREFERENCE'', ''ALUMNI_NOTIFICATION_INBOX_STATE'',
      ''ALUMNI_MOBILE_REFRESH_TOKEN'', ''ALUMNI_NOTIFICATION'', ''ALUMNI_PASSWORD_RESET'', ''USER_SESSION'',
      ''WEO_MEMBER_LOG'', ''WEO_MEMBER_PUSH'', ''WEO_MEMBER_OUT'', ''WEO_PUSH_NOTI'', ''WEO_SMS'', ''WEO_APP_PUSH'',
      ''ALUMNI_USER_TAG'', ''ALUMNI_ADMIN_ROLE'', ''ALUMNI_VERIFICATION'', ''FUNDAMENTAL_MEMBER'',
      ''WEO_BOARDLIKE'', ''WEO_BOARDCOMAND'', ''WEO_AD_COMMENT'', ''WEO_AD_LIKE'', ''WEO_AD_LOG'']"

definition boardPersonalColumns :: "string list" where
  "boardPersonalColumns =
     [''SUBJECT'', ''CONTENTS'', ''CONTENTS_MD'', ''SUMMARY'', ''THUMBNAIL_URL'', ''FILES'', ''RE_FILES'', ''USR_NAME'', ''USR_ID'', ''EMAIL'',
      ''PHONE'', ''IP'', ''BBS_IP'', ''PASSWORD'', ''REG_ID'', ''REG_NAME'', ''REG_EMAIL'', ''REG_TEL'', ''REG_PWD'', ''REG_IPADDR'']"

text \<open>The UTF-8 bytes of the Korean sentence.\<close>

definition erasedPostText :: string where
  "erasedPostText =
     [CHR 0xED, CHR 0x83, CHR 0x88, CHR 0xED, CHR 0x87, CHR 0xB4, CHR 0xED, CHR 0x95, CHR 0x9C, CHR 0x20, CHR 0xED,
      CHR 0x9A, CHR 0x8C, CHR 0xEC, CHR 0x9B, CHR 0x90, CHR 0xEC, CHR 0x9D, CHR 0x98, CHR 0x20, CHR 0xEC, CHR 0x82,
      CHR 0xAD, CHR 0xEC, CHR 0xA0, CHR 0x9C, CHR 0xEB, CHR 0x90, CHR 0x9C, CHR 0x20, CHR 0xEA, CHR 0xB2, CHR 0x8C,
      CHR 0xEC, CHR 0x8B, CHR 0x9C, CHR 0xEA, CHR 0xB8, CHR 0x80, CHR 0xEC, CHR 0x9E, CHR 0x85, CHR 0xEB, CHR 0x8B,
      CHR 0x88, CHR 0xEB, CHR 0x8B, CHR 0xA4, CHR 0x2E]"

definition boardAnonymizedColumns :: "erasureSchema \<Rightarrow> (string \<times> sql_val) list" where
  "boardAnonymizedColumns s =
     (''USR_SEQ'', IntV 0) # map (\<lambda>c. (c, StrV (if c = ''SUBJECT'' \<or> c = ''CONTENTS'' then erasedPostText else [])))
       (filter (has s ''WEO_BOARDBBS'') boardPersonalColumns)"

type_synonym erasureStep = "string \<times> cond"

definition user_eq :: "string \<Rightarrow> int \<Rightarrow> cond" where
  "user_eq c u = ColEq c (IntV u)"

definition message_of :: "int \<Rightarrow> cond" where
  "message_of u = OrC (user_eq ''AM_SENDER_SEQ'' u) (user_eq ''AM_RECVR_SEQ'' u)"

definition subjectMatch :: "int \<Rightarrow> cond" where
  "subjectMatch u = ExistsIn ''AUTH_IDENTITY'' (user_eq ''ACCOUNT_ID'' u) [(''PROVIDER'', ''PROVIDER''), (''SUBJECT_KEY'', ''SUBJECT_KEY'')]"

definition identity_steps :: "erasureSchema \<Rightarrow> int \<Rightarrow> erasureStep list" where
  "identity_steps s u =
     [(''AUTH_EMAIL_VERIFICATION'', InSelect ''NORMALIZED_EMAIL'' ''NORMALIZED_EMAIL'' ''AUTH_IDENTITY'' (user_eq ''ACCOUNT_ID'' u))]
     @ (if present s ''AUTH_SIGNUP_CONTINUATION'' then
          [(''AUTH_PROVIDER_CREDENTIAL'', InSelect ''CONTINUATION_TOKEN_HASH'' ''TOKEN_HASH'' ''AUTH_SIGNUP_CONTINUATION'' (subjectMatch u)),
           (''AUTH_SIGNUP_CONTINUATION'', subjectMatch u)]
        else [])
     @ map (\<lambda>t. (t, InSelect ''IDENTITY_ID'' ''IDENTITY_ID'' ''AUTH_IDENTITY'' (user_eq ''ACCOUNT_ID'' u)))
         [''AUTH_PROVIDER_REVOKE_OUTBOX'', ''AUTH_SESSION_FAMILY'', ''AUTH_PASSWORD_CREDENTIAL'', ''AUTH_PROVIDER_CREDENTIAL'']"

definition social_steps :: "int \<Rightarrow> erasureStep list" where
  "social_steps u =
     [(''ALUMNI_SOCIAL_LINK_CONTINUATION'', ExistsIn ''WEO_MEMBER_SOCIAL'' (user_eq ''USR_SEQ'' u) [(''NMS_GATE'', ''SLC_PROVIDER''), (''NMS_ID'', ''SLC_SUBJECT'')]),
      (''ALUMNI_SOCIAL_LINK_REAUTH_GUARD'', ExistsIn ''WEO_MEMBER_SOCIAL'' (user_eq ''USR_SEQ'' u) [(''NMS_GATE'', ''SLR_PROVIDER''), (''NMS_ID'', ''SLR_SUBJECT'')])]"

definition accountReferenceSteps :: "erasureSchema \<Rightarrow> int \<Rightarrow> string \<Rightarrow> erasureStep list" where
  "accountReferenceSteps s u email =
     (if has s ''ALUMNI_PHONE_VERIFICATION'' ''CONSUMED_USR_SEQ'' then
        [(''ALUMNI_PHONE_VERIFICATION'', AndC (AndC (user_eq ''CONSUMED_USR_SEQ'' u) (ColEq ''CONSUMED_YN'' (StrV ''Y''))) (NotNull ''CONSUMED_AT''))]
      else [])
     @ (if present s ''SUBSCRIPTION'' then [(''SUBSCRIPTION'', user_eq ''USR_SEQ'' u)] else [])
     @ (if present s ''ALUMNI_MESSAGE'' then
          [(''ALUMNI_PUSH_OUTBOX'', AndC (ColEq ''EVENT_TYPE'' (StrV ''message'')) (InSelect ''EVENT_ID'' ''AM_SEQ'' ''ALUMNI_MESSAGE'' (message_of u))),
           (''ALUMNI_NOTIFICATION'', AndC (ColEq ''AN_TYPE'' (StrV ''message'')) (InSelect ''AN_REF_SEQ'' ''AM_SEQ'' ''ALUMNI_MESSAGE'' (message_of u)))]
        else [])
     @ map (\<lambda>t. (t, user_eq ''USR_SEQ'' u)) erasureMemberTables
     @ (if has s ''WEO_BANNER_AD_LOG'' ''USR_SEQ'' then [(''WEO_BANNER_AD_LOG'', user_eq ''USR_SEQ'' u)] else [])
     @ [(''ALUMNI_COMMENT_REPORT'', OrC (OrC (user_eq ''REPORTER_SEQ'' u) (user_eq ''REPORTED_SEQ'' u)) (user_eq ''MODERATOR_SEQ'' u)),
        (''ALUMNI_MESSAGE_REPORT'', OrC (user_eq ''REPORTER_SEQ'' u) (user_eq ''REPORTED_SEQ'' u)),
        (''ALUMNI_MEMBER_BLOCK'', OrC (user_eq ''BLOCKER_USR_SEQ'' u) (user_eq ''BLOCKED_USR_SEQ'' u)),
        (''ALUMNI_MESSAGE'', message_of u),
        (''ALUMNI_MOBILE_APP_EVENT'', user_eq ''USER_ID'' u),
        (''WEO_VISIT_DAILY'', user_eq ''VD_USR_SEQ'' u),
        (''AUTH_EMAIL_VERIFICATION'', AndC (ColEq ''NORMALIZED_EMAIL'' (StrV email)) (Lit (email \<noteq> [])))]
     @ (if present s ''AUTH_IDENTITY'' then identity_steps s u else [])
     @ map (\<lambda>t. (t, user_eq ''ACCOUNT_ID'' u)) [''AUTH_PHONE_CLAIM'', ''AUTH_CONSENT'', ''AUTH_IDENTITY'', ''AUTH_ACCOUNT_STATE'']
     @ (if present s ''WEO_MEMBER_SOCIAL'' then social_steps u else [])
     @ map (\<lambda>t. (t, user_eq ''USR_SEQ'' u)) [''WEO_MEMBER_SOCIAL'', ''ALUMNI_SOCIAL_CREDENTIAL'', ''ALUMNI_UPLOAD_OWNER'', ''ALUMNI_PROFILE_FILE_HISTORY'']"

fun erase_steps :: "dl_env \<Rightarrow> erasureSchema \<Rightarrow> erasureStep list \<Rightarrow> (dl_error, gdb, unit) tx" where
  "erase_steps env s [] = tx_return ()"
| "erase_steps env s (x # xs) = tx_then (erase env s (fst x) (snd x)) (erase_steps env s xs)"

definition eraseAccountReferences :: "dl_env \<Rightarrow> erasureSchema \<Rightarrow> int \<Rightarrow> string \<Rightarrow> (dl_error, gdb, unit) tx" where
  "eraseAccountReferences env s u email = erase_steps env s (accountReferenceSteps s u email)"

text \<open>The author's posts are kept, anonymous and empty.\<close>

definition replied :: "gdb \<Rightarrow> int \<Rightarrow> nat" where
  "replied db u = length (filter (\<lambda>r. cell (columns_of db ''WEO_BOARDBBS'') r ''RE_CONTENTS'' \<noteq> Null
      \<and> \<not> same_val db (cell (columns_of db ''WEO_BOARDBBS'') r ''RE_CONTENTS'') (StrV [])) (matching db ''WEO_BOARDBBS'' (user_eq ''USR_SEQ'' u)))"

definition erasePostChildren :: "dl_env \<Rightarrow> erasureSchema \<Rightarrow> int \<Rightarrow> (dl_error, gdb, unit) tx" where
  "erasePostChildren env s u =
     (if \<not> present s ''WEO_BOARDBBS'' then tx_return ()
      else tx_bind (read_engine env ''WEO_BOARDBBS'') (\<lambda>e.
           tx_then (tx_guard (e = ''InnoDB'') (ErasureBlocked ''NON_TRANSACTIONAL_TABLE_WEO_BOARDBBS'')) (
           tx_then (if has s ''WEO_BOARDBBS'' ''RE_CONTENTS'' then
                      tx_bind (select env ''replies'' ''WEO_BOARDBBS'' (user_eq ''USR_SEQ'' u) (\<lambda>db. replied db u)) (\<lambda>n.
                        tx_guard (n = 0) (ErasureBlocked ''LEGACY_REPLY_REVIEW_REQUIRED''))
                    else tx_return ())
             (statement env ''posts'' ''WEO_BOARDBBS'' (user_eq ''USR_SEQ'' u)
                (update_rows ''WEO_BOARDBBS'' (boardAnonymizedColumns s) (user_eq ''USR_SEQ'' u))))))"

section \<open>One deletion\<close>

lemma map_of_on_table: "map_of (map (\<lambda>(n, x). (n, if n = t then f x else x)) xs) n = map_option (\<lambda>x. if n = t then f x else x) (map_of xs n)"
  by (induction xs) auto

lemma table_of_on_table [simp]: "table_of (on_table t f db) n = map_option (\<lambda>x. if n = t then f x else x) (table_of db n)"
  by (simp add: table_of_def on_table_def map_of_on_table)

lemma same_val_on_table [simp]: "same_val (on_table t f db) = same_val db"
  by (simp add: on_table_def)

lemma sql_eq_cong: "same_val db' = same_val db \<Longrightarrow> sql_eq db' = sql_eq db"
  by (intro ext) (simp add: sql_eq_def)

text \<open>The catalogue but for the rows.\<close>

definition same_shape :: "gdb \<Rightarrow> gdb \<Rightarrow> bool" where
  "same_shape db db' = (same_val db' = same_val db
     \<and> (\<forall>t. map_option (\<lambda>x. x\<lparr>t_rows := []\<rparr>) (table_of db' t) = map_option (\<lambda>x. x\<lparr>t_rows := []\<rparr>) (table_of db t)))"

lemma shape_refl: "same_shape db db"
  by (simp add: same_shape_def)

interpretation shape: tx_relation same_shape
  by unfold_locales (auto simp: same_shape_def)

lemma shape_on_table:
  assumes "\<And>x. (f x)\<lparr>t_rows := []\<rparr> = x\<lparr>t_rows := []\<rparr>"
  shows "same_shape db (on_table t f db)"
proof -
  have "(\<lambda>x. (if n = t then f x else x)\<lparr>t_rows := []\<rparr>) = (\<lambda>x. x\<lparr>t_rows := []\<rparr>)" for n by (rule ext) (cases "n = t"; simp only: if_True if_False refl assms)
  then show ?thesis by (simp add: same_shape_def option.map_comp comp_def)
qed

lemma shape_delete: "same_shape db (delete_rows t w db)" and shape_update: "same_shape db (update_rows t sets w db)"
  unfolding delete_rows_def update_rows_def by (rule shape_on_table; simp)+

lemma same_shapeD:
  assumes "same_shape db db'"
  shows "columns_of db' t = columns_of db t" "table_of db' t = None \<longleftrightarrow> table_of db t = None"
    "map_option t_engine (table_of db' t) = map_option t_engine (table_of db t)"
    "map_option t_columns (table_of db' t) = map_option t_columns (table_of db t)"
    "map_option t_base (table_of db' t) = map_option t_base (table_of db t)" "same_val db' = same_val db"
proof -
  have eq: "map_option (\<lambda>x. x\<lparr>t_rows := []\<rparr>) (table_of db' t) = map_option (\<lambda>x. x\<lparr>t_rows := []\<rparr>) (table_of db t)"
    using assms by (simp add: same_shape_def)
  have f: "map_option g (table_of db' t) = map_option g (table_of db t)" if "\<And>x. g (x\<lparr>t_rows := []\<rparr>) = g x" for g :: "gtable \<Rightarrow> 'x"
    using arg_cong [OF eq, of "map_option g"] by (simp add: option.map_comp comp_def that)
  show "map_option t_engine (table_of db' t) = map_option t_engine (table_of db t)"
    "map_option t_columns (table_of db' t) = map_option t_columns (table_of db t)"
    "map_option t_base (table_of db' t) = map_option t_base (table_of db t)" by (rule f; simp)+
  show "table_of db' t = None \<longleftrightarrow> table_of db t = None" using eq by (cases "table_of db' t"; cases "table_of db t"; simp)
  show "columns_of db' t = columns_of db t" using f [of t_columns] by (cases "table_of db' t"; cases "table_of db t"; simp add: columns_of_def)
  show "same_val db' = same_val db" using assms by (simp add: same_shape_def)
qed

lemma rows_of_on_table:
  "rows_of (on_table t f db) n = (case table_of db n of None \<Rightarrow> [] | Some x \<Rightarrow> t_rows (if n = t then f x else x))"
  by (simp add: rows_of_def split: option.splits)

lemma rows_of_delete:
  "rows_of (delete_rows t w db) n = (if n = t then filter (\<lambda>r. \<not> holds db (columns_of db t) r w) (rows_of db t) else rows_of db n)"
  by (cases "n = t"; cases "table_of db n") (simp_all add: delete_rows_def rows_of_on_table rows_of_def columns_of_def sql_delete_def)

lemma holds_frame:
  assumes "same_shape db db'" "\<And>t. t \<in> set (reads w) \<Longrightarrow> rows_of db' t = rows_of db t"
  shows "holds db' cols r w = holds db cols r w"
proof -
  have eq: "sql_eq db' = sql_eq db" by (rule sql_eq_cong [OF same_shapeD(6) [OF assms(1)]])
  note cols = same_shapeD(1) [OF assms(1)]
  show ?thesis using assms(2) by (induction w arbitrary: cols r) (simp_all add: eq cols)
qed

lemma statement_ok: "statement env l t w f db = Inr (u, db') \<longleftrightarrow> table_of db t \<noteq> None \<and> known db (columns_of db t) w \<and> flt env l = None \<and> db' = f db"
  by (auto simp: statement_def exec_ok)

lemma select_ok: "select env l t w q db = Inr (a, db') \<longleftrightarrow> table_of db t \<noteq> None \<and> known db (columns_of db t) w \<and> flt env l = None \<and> a = q db \<and> db' = db"
  by (auto simp: select_def query_ok)

lemma read_engine_ok: "read_engine env t db = Inr (e, db') \<longleftrightarrow> flt env ''engine'' = None \<and> db' = db \<and> (\<exists>x. table_of db t = Some x \<and> t_engine x = Some e)"
  by (auto simp: read_engine_def tx_bind_ok get_row_ok tx_fail_ok tx_return_ok split: option.splits)

lemma erase_ok:
  assumes "erase env s t w db = Inr (u, db')"
  shows "db' = (if present s t then delete_rows t w db else db)"
  using assms by (auto simp: erase_def tx_return_ok tx_bind_ok tx_then_ok tx_guard_ok read_engine_ok statement_ok split: if_splits)

section \<open>The deletions together\<close>

text \<open>No deletion reads a table that an earlier one deletes from.\<close>

fun reads_all :: "erasureStep list \<Rightarrow> string list" where
  "reads_all [] = []"
| "reads_all (x # xs) = reads (snd x) @ reads_all xs"

fun ordered :: "erasureStep list \<Rightarrow> bool" where
  "ordered [] = True"
| "ordered (x # xs) = (fst x \<notin> set (reads_all xs) \<and> ordered xs)"

lemma reads_all_append [simp]: "reads_all (xs @ ys) = reads_all xs @ reads_all ys"
  by (induction xs) auto

lemma ordered_append: "ordered (xs @ ys) \<longleftrightarrow> ordered xs \<and> ordered ys \<and> fst ` set xs \<inter> set (reads_all ys) = {}"
  by (induction xs) auto

lemma in_reads_all: "(t, w) \<in> set xs \<Longrightarrow> set (reads w) \<subseteq> set (reads_all xs)"
  by (induction xs) auto

definition hit :: "gdb \<Rightarrow> erasureStep list \<Rightarrow> string \<Rightarrow> sql_val list \<Rightarrow> bool" where
  "hit db xs t r = (\<exists>w. (t, w) \<in> set xs \<and> holds db (columns_of db t) r w)"

lemma shape_statement: "(\<And>db. same_shape db (f db)) \<Longrightarrow> establishes same_shape (statement env l t w f)"
  by (auto simp: establishes_def statement_ok)

lemma shape_erase: "establishes same_shape (erase env s t w)"
  by (auto simp: establishes_def shape_delete shape_refl dest!: erase_ok)

lemma shape_steps: "establishes same_shape (erase_steps env s xs)"
  by (induction xs) (auto intro!: shape.est_rules shape_erase)

lemma hit_Cons: "hit db (x # xs) t r \<longleftrightarrow> (t = fst x \<and> holds db (columns_of db t) r (snd x)) \<or> hit db xs t r"
  by (cases x) (auto simp: hit_def)

lemma hit_frame:
  assumes "same_shape db db'" "\<And>t. t \<in> set (reads_all xs) \<Longrightarrow> rows_of db' t = rows_of db t"
  shows "hit db' xs t r = hit db xs t r"
proof -
  have "holds db' (columns_of db' t) r w = holds db (columns_of db t) r w" if "(t, w) \<in> set xs" for w
    unfolding same_shapeD(1) [OF assms(1)] by (rule holds_frame [OF assms(1)]) (use in_reads_all [OF that] assms(2) in blast)
  then show ?thesis by (auto simp: hit_def)
qed

theorem erase_steps_rows:
  assumes "erase_steps env s xs db = Inr (u, db')" "ordered xs"
  shows "rows_of db' t = filter (\<lambda>r. \<not> (present s t \<and> hit db xs t r)) (rows_of db t)"
  using assms
proof (induction xs arbitrary: db)
  case Nil
  then show ?case by (simp add: tx_return_ok hit_def)
next
  case (Cons x xs)
  obtain db1 where e: "erase env s (fst x) (snd x) db = Inr ((), db1)" and rest: "erase_steps env s xs db1 = Inr (u, db')"
    using Cons.prems(1) by (auto simp: tx_then_ok)
  have db1: "db1 = (if present s (fst x) then delete_rows (fst x) (snd x) db else db)" by (rule erase_ok [OF e])
  have shape: "same_shape db db1" by (simp add: db1 shape_delete shape_refl)
  have "hit db1 xs t r = hit db xs t r" for t r
    using Cons.prems(2) by (intro hit_frame [OF shape]) (auto simp: db1 rows_of_delete)
  then show ?case using Cons.IH [OF rest] Cons.prems(2)
    by (auto simp: db1 rows_of_delete hit_Cons same_shapeD(1) [OF shape] intro!: filter_cong)
qed

end
