(* ===== verification/Erasure_Files.thy ===== *)
theory Erasure_Files
  imports Erasure_Schema
begin

text \<open>
  The files of an account: the storage identity of a URL (\<^verbatim>\<open>model/erasure_file_path.go\<close>), the conservative
  identity of a surviving reference (\<^verbatim>\<open>model/erasure_file_reference_path.go\<close>), the scan for references
  (\<^verbatim>\<open>repository/account_erasure_file_references.go\<close>), the plan of the files to unlink and its queue
  (\<^verbatim>\<open>repository/account_erasure_file_queue.go\<close>). \<^verbatim>\<open>net/url\<close>, the HTML tokenizer and the regular expressions are
  parameters without any assumption.
\<close>

section \<open>Identities of URLs\<close>

record parsed_url =
  u_Scheme :: string
  u_HasUser :: bool
  u_Host :: string
  u_Path :: string
  u_RawQuery :: string
  u_ForceQuery :: bool
  u_Fragment :: string

record url_env =
  url_Parse :: "string \<Rightarrow> parsed_url option"
  EscapedPath :: "string \<Rightarrow> string"
  survivingContentURLs :: "string \<Rightarrow> string list"
  managedContentFile :: "string \<Rightarrow> bool"
  SiteOrigin :: string
  url_hash :: "string \<Rightarrow> string"

definition lower :: "string \<Rightarrow> string" where
  "lower s = map ascii_lower s"

definition EqualFold :: "string \<Rightarrow> string \<Rightarrow> bool" where
  "EqualFold a b = (lower a = lower b)"

definition IsAbs :: "parsed_url \<Rightarrow> bool" where
  "IsAbs u = (u_Scheme u \<noteq> [])"

text \<open>\<^verbatim>\<open>URL.Hostname\<close>: the host without a numeric port and without the brackets of an IPv6 address.\<close>

definition strip_port :: "string \<Rightarrow> string" where
  "strip_port h =
     (let tail = takeWhile (\<lambda>c. c \<noteq> CHR '':'') (rev h)
      in if length tail < length h \<and> list_all is_digit tail then rev (drop (Suc (length tail)) (rev h)) else h)"

definition go_Hostname :: "string \<Rightarrow> string" where
  "go_Hostname host =
     (let h = strip_port host in if h \<noteq> [] \<and> hd h = CHR ''['' \<and> last h = CHR '']'' then butlast (tl h) else h)"

definition go_TrimPrefix :: "string \<Rightarrow> string \<Rightarrow> string" where
  "go_TrimPrefix s p = (if go_HasPrefix s p then drop (length p) s else s)"

definition go_TrimSuffix :: "string \<Rightarrow> string \<Rightarrow> string" where
  "go_TrimSuffix s p = (if go_HasPrefix (rev s) (rev p) then take (length s - length p) s else s)"

definition host_identity :: "string \<Rightarrow> string" where
  "host_identity s = go_TrimPrefix (go_TrimSuffix (lower s) ''.'') ''www.''"

definition path_blocked :: dl_error where
  "path_blocked = ErasureBlocked ''FILE_PATH_REVIEW_REQUIRED''"

definition managed_prefixes :: "string list" where
  "managed_prefixes = [''/uploads/'', ''/files/'', ''/upload/'', ''/old/upload/'']"

definition managed_identity :: "url_env \<Rightarrow> string \<Rightarrow> string option" where
  "managed_identity ue p =
     (case find (\<lambda>x. go_HasPrefix p x \<and> length p > length x) managed_prefixes of
        None \<Rightarrow> None
      | Some x \<Rightarrow> Some (EscapedPath ue ((if x = ''/uploads/'' then x else ''/files/'') @ go_TrimPrefix p x)))"

definition local_path :: "url_env \<Rightarrow> parsed_url \<Rightarrow> (dl_error, string \<times> bool) result" where
  "local_path ue u =
     (if u_RawQuery u \<noteq> [] \<or> u_ForceQuery u \<or> go_filepath_Clean (u_Path u) \<noteq> u_Path u then Inl path_blocked
      else case managed_identity ue (u_Path u) of None \<Rightarrow> Inl path_blocked | Some l \<Rightarrow> Inr (l, False))"

definition ErasureFilePath :: "url_env \<Rightarrow> string \<Rightarrow> (dl_error, string \<times> bool) result" where
  "ErasureFilePath ue raw =
     (case url_Parse ue raw of
        None \<Rightarrow> Inl path_blocked
      | Some u \<Rightarrow>
          if u_HasUser u \<or> u_Fragment u \<noteq> [] \<or> CHR 0x5C \<in> set (u_Path u) then Inl path_blocked
          else if u_Host u \<noteq> [] \<or> IsAbs u then
            (if (u_Scheme u \<noteq> ''https'' \<and> u_Scheme u \<noteq> ''http'') \<or> u_Host u = [] then Inl path_blocked
             else case url_Parse ue (SiteOrigin ue) of
                    None \<Rightarrow> Inr ([], True)
                  | Some origin \<Rightarrow>
                      if u_Host origin = [] \<or> \<not> EqualFold (u_Host u) (u_Host origin) \<or> u_Scheme u \<noteq> u_Scheme origin
                      then Inr ([], True) else local_path ue u)
          else local_path ue u)"

text \<open>The empty identity with \<open>False\<close> stands for a URL that names no managed file.\<close>

definition reference_path :: "url_env \<Rightarrow> parsed_url \<Rightarrow> (dl_error, string \<times> bool) result" where
  "reference_path ue u =
     (if CHR 0x5C \<in> set (u_Path u) then Inl path_blocked
      else Inr (case managed_identity ue (go_filepath_Clean (CHR ''/'' # dropWhile (\<lambda>c. c = CHR ''/'') (u_Path u))) of
                  None \<Rightarrow> [] | Some l \<Rightarrow> l, False))"

definition ErasureFileReferencePath :: "url_env \<Rightarrow> string \<Rightarrow> (dl_error, string \<times> bool) result" where
  "ErasureFileReferencePath ue raw0 =
     (let raw = go_TrimSpace raw0 in
      if raw = [] then Inr ([], False)
      else case url_Parse ue raw of
        None \<Rightarrow> Inl path_blocked
      | Some u \<Rightarrow>
          if u_Host u = [] \<and> go_HasPrefix raw ''//'' then Inl path_blocked
          else if u_Host u \<noteq> [] then
            (case url_Parse ue (SiteOrigin ue) of
               None \<Rightarrow> Inl path_blocked
             | Some origin \<Rightarrow>
                 if go_Hostname (u_Host origin) = [] then Inl path_blocked
                 else if host_identity (go_Hostname (u_Host u)) \<noteq> host_identity (go_Hostname (u_Host origin)) then Inr ([], True)
                 else if u_Scheme u \<noteq> [] \<and> u_Scheme u \<noteq> ''http'' \<and> u_Scheme u \<noteq> ''https'' then Inl path_blocked
                 else reference_path ue u)
          else if IsAbs u then
            (if EqualFold (u_Scheme u) ''http'' \<or> EqualFold (u_Scheme u) ''https'' then Inl path_blocked else Inr ([], True))
          else reference_path ue u)"

definition managedContentURLs :: "url_env \<Rightarrow> string \<Rightarrow> string list" where
  "managedContentURLs ue v =
     filter (\<lambda>raw. case url_Parse ue raw of
               None \<Rightarrow> managedContentFile ue raw
             | Some u \<Rightarrow> (\<exists>x \<in> set managed_prefixes. go_HasPrefix (go_filepath_Clean (CHR ''/'' # dropWhile (\<lambda>c. c = CHR ''/'') (u_Path u))) x))
       (survivingContentURLs ue v)"

section \<open>Surviving references\<close>

definition text_of :: "sql_val \<Rightarrow> string option" where
  "text_of v = (case v of Null \<Rightarrow> None | IntV i \<Rightarrow> Some (go_Itoa i) | StrV s \<Rightarrow> Some s)"

definition coalesce :: "sql_val \<Rightarrow> sql_val" where
  "coalesce v = (case v of Null \<Rightarrow> StrV [] | _ \<Rightarrow> v)"

definition concat_path :: "sql_val \<Rightarrow> sql_val \<Rightarrow> sql_val" where
  "concat_path a b = (case (text_of a, text_of b) of (Some x, Some y) \<Rightarrow> StrV (x @ ''/'' @ y) | _ \<Rightarrow> Null)"

text \<open>A \<^verbatim>\<open>Select\<close> of one text column: the table, the columns it names, the rows, the value of a row, and whether the
  value is a text that contains URLs rather than a URL. \<open>NULL\<close> cannot be scanned into a string.\<close>

record refquery =
  q_table :: string
  q_columns :: "string list"
  q_where :: "gdb \<Rightarrow> (string \<Rightarrow> sql_val) \<Rightarrow> bool"
  q_value :: "(string \<Rightarrow> sql_val) \<Rightarrow> sql_val"
  q_content :: bool

definition query_values :: "refquery \<Rightarrow> gdb \<Rightarrow> sql_val list" where
  "query_values q db =
     map (\<lambda>r. q_value q (cell (columns_of db (q_table q)) r))
       (filter (\<lambda>r. q_where q db (cell (columns_of db (q_table q)) r)) (rows_of db (q_table q)))"

definition select_texts :: "dl_env \<Rightarrow> refquery \<Rightarrow> (dl_error, gdb, string list) tx" where
  "select_texts env q db =
     (if table_of db (q_table q) = None \<or> \<not> set (q_columns q) \<subseteq> set (columns_of db (q_table q)) then Inl unknown_name
      else case flt env (''select.'' @ q_table q) of Some e \<Rightarrow> Inl e | None \<Rightarrow>
        if Null \<in> set (query_values q db) then Inl (DbError ''converting NULL to string'')
        else Inr (map (\<lambda>v. the (text_of v)) (query_values q db), db))"

definition other_user :: "int option \<Rightarrow> gdb \<Rightarrow> (string \<Rightarrow> sql_val) \<Rightarrow> bool" where
  "other_user excluded db r =
     (case excluded of None \<Rightarrow> True | Some u \<Rightarrow> r ''USR_SEQ'' = Null \<or> \<not> same_val db (r ''USR_SEQ'') (IntV u))"

definition user_columns :: "int option \<Rightarrow> string list" where
  "user_columns excluded = (case excluded of None \<Rightarrow> [] | Some u \<Rightarrow> [''USR_SEQ''])"

definition member_posts :: "gdb \<Rightarrow> int \<Rightarrow> sql_val list" where
  "member_posts db u = map (\<lambda>r. cell (columns_of db ''WEO_BOARDBBS'') r ''SEQ'') (matching db ''WEO_BOARDBBS'' (user_eq ''USR_SEQ'' u))"

text \<open>Metadata rows: those of the member's own posts and uploads and the unattached ones do not count for the
  member who is excluded; \<open>F_SEQ\<close> and \<open>SEQ\<close> are primary keys and never \<open>NULL\<close>.\<close>

definition files_where :: "erasureSchema \<Rightarrow> int option \<Rightarrow> int \<Rightarrow> gdb \<Rightarrow> (string \<Rightarrow> sql_val) \<Rightarrow> bool" where
  "files_where s excluded upload db r =
     ((case excluded of None \<Rightarrow> True | Some u \<Rightarrow>
         (r ''F_JOIN_SEQ'' = Null \<or> \<not> same_val db (r ''F_JOIN_SEQ'') (IntV 0))
         \<and> (present s ''WEO_BOARDBBS'' \<longrightarrow>
              \<not> (same_val db (coalesce (r ''F_GATE'')) (StrV ''BB'')
                 \<and> (\<exists>p \<in> set (member_posts db u). sql_eq db (if r ''F_JOIN_SEQ'' = Null then IntV 0 else r ''F_JOIN_SEQ'') p)))
         \<and> (present s ''ALUMNI_UPLOAD_OWNER'' \<longrightarrow>
              \<not> (\<exists>x \<in> set (matching db ''ALUMNI_UPLOAD_OWNER'' (AndC (user_eq ''USR_SEQ'' u) (NotNull ''F_SEQ''))).
                   sql_eq db (r ''F_SEQ'') (cell (columns_of db ''ALUMNI_UPLOAD_OWNER'') x ''F_SEQ''))))
      \<and> (upload > 0 \<longrightarrow> r ''F_SEQ'' \<noteq> Null \<and> \<not> same_val db (r ''F_SEQ'') (IntV upload)))"

definition files_columns :: "erasureSchema \<Rightarrow> int option \<Rightarrow> int \<Rightarrow> string list" where
  "files_columns s excluded upload =
     [''FILE_PATH'', ''FILE_NAME''] @ (if excluded = None then [] else ''F_JOIN_SEQ'' # (if present s ''WEO_BOARDBBS'' then [''F_GATE''] else []))
     @ (if upload > 0 \<or> (excluded \<noteq> None \<and> present s ''ALUMNI_UPLOAD_OWNER'') then [''F_SEQ''] else [])"

definition reference_queries :: "erasureSchema \<Rightarrow> int option \<Rightarrow> int \<Rightarrow> refquery list" where
  "reference_queries s excluded upload =
     map (\<lambda>t. \<lparr>q_table = t, q_columns = ''URL_PATH'' # user_columns excluded, q_where = other_user excluded, q_value = (\<lambda>r. r ''URL_PATH''), q_content = False\<rparr>)
       (filter (present s) [''ALUMNI_UPLOAD_OWNER'', ''ALUMNI_PROFILE_FILE_HISTORY''])
     @ map (\<lambda>c. \<lparr>q_table = ''WEO_MEMBER'', q_columns = c # user_columns excluded, q_where = other_user excluded, q_value = (\<lambda>r. coalesce (r c)), q_content = False\<rparr>)
       (filter (has s ''WEO_MEMBER'') [''USR_PHOTO'', ''USR_BIZ_CARD'', ''USR_THUMNAIL''])
     @ map (\<lambda>c. \<lparr>q_table = ''WEO_BOARDBBS'', q_columns = c # user_columns excluded, q_where = other_user excluded, q_value = (\<lambda>r. coalesce (r c)), q_content = (c \<noteq> ''THUMBNAIL_URL'')\<rparr>)
       (filter (has s ''WEO_BOARDBBS'') [''CONTENTS'', ''CONTENTS_MD'', ''THUMBNAIL_URL'', ''FILES'', ''RE_FILES''])
     @ (if has s ''MAIN_BANNER_AD_IMAGE'' ''IMAGE_URL'' then
          [\<lparr>q_table = ''MAIN_BANNER_AD_IMAGE'', q_columns = [''IMAGE_URL''], q_where = (\<lambda>_ _. True), q_value = (\<lambda>r. coalesce (r ''IMAGE_URL'')), q_content = False\<rparr>] else [])
     @ (if present s ''WEO_FILES'' then
          [\<lparr>q_table = ''WEO_FILES'', q_columns = files_columns s excluded upload, q_where = files_where s excluded upload, q_value = (\<lambda>r. concat_path (r ''FILE_PATH'') (r ''FILE_NAME'')), q_content = False\<rparr>] else [])"

fun scan_urls :: "url_env \<Rightarrow> string \<Rightarrow> (string \<Rightarrow> bool) \<Rightarrow> string list \<Rightarrow> dl_error option" where
  "scan_urls ue local candidate [] = None"
| "scan_urls ue local candidate (raw # urls) =
     (if \<not> candidate raw then scan_urls ue local candidate urls
      else case ErasureFileReferencePath ue raw of
             Inl e \<Rightarrow> Some e
           | Inr (identity, external) \<Rightarrow>
               if \<not> external \<and> identity = local then Some (ErasureBlocked ''FILE_STILL_REFERENCED'') else scan_urls ue local candidate urls)"

definition urls_of :: "url_env \<Rightarrow> bool \<Rightarrow> string \<Rightarrow> string list" where
  "urls_of ue content v = (if content then survivingContentURLs ue v else [v])"

fun scan_queries :: "dl_env \<Rightarrow> url_env \<Rightarrow> string \<Rightarrow> (string \<Rightarrow> bool) \<Rightarrow> refquery list \<Rightarrow> (dl_error, gdb, unit) tx" where
  "scan_queries env ue local candidate [] = tx_return ()"
| "scan_queries env ue local candidate (q # qs) =
     tx_bind (select_texts env q) (\<lambda>vs.
     case scan_urls ue local candidate (concat (map (urls_of ue (q_content q)) vs)) of
       Some e \<Rightarrow> tx_fail e
     | None \<Rightarrow> scan_queries env ue local candidate qs)"

definition scanSurvivingFileReferences ::
  "dl_env \<Rightarrow> url_env \<Rightarrow> erasureSchema \<Rightarrow> string \<Rightarrow> int option \<Rightarrow> int \<Rightarrow> (string \<Rightarrow> bool) \<Rightarrow> (dl_error, gdb, unit) tx" where
  "scanSurvivingFileReferences env ue s local excluded upload candidate = scan_queries env ue local candidate (reference_queries s excluded upload)"

definition rejectOtherErasureFileReferencesExceptUpload ::
  "dl_env \<Rightarrow> url_env \<Rightarrow> erasureSchema \<Rightarrow> string \<Rightarrow> int option \<Rightarrow> int \<Rightarrow> (dl_error, gdb, unit) tx" where
  "rejectOtherErasureFileReferencesExceptUpload env ue s local excluded upload =
     scanSurvivingFileReferences env ue s local excluded upload (\<lambda>_. True)"

definition rejectOtherErasureFileReferences :: "dl_env \<Rightarrow> url_env \<Rightarrow> erasureSchema \<Rightarrow> string \<Rightarrow> int option \<Rightarrow> (dl_error, gdb, unit) tx" where
  "rejectOtherErasureFileReferences env ue s local excluded = rejectOtherErasureFileReferencesExceptUpload env ue s local excluded 0"

section \<open>Unlinking a queued file\<close>

definition get_cell :: "dl_env \<Rightarrow> string \<Rightarrow> string \<Rightarrow> cond \<Rightarrow> (dl_error, gdb, sql_val) tx" where
  "get_cell env t c w db =
     (if c \<notin> set (columns_of db t) then Inl unknown_name
      else tx_bind (select env (''get.'' @ t) t w (\<lambda>db. matching db t w)) (\<lambda>rs.
             case rs of [] \<Rightarrow> tx_fail ErrNoRows | r # _ \<Rightarrow> tx_return (cell (columns_of db t) r c)) db)"

definition file_path_tx :: "url_env \<Rightarrow> string \<Rightarrow> (dl_error, gdb, string \<times> bool) tx" where
  "file_path_tx ue raw db = (case ErasureFilePath ue raw of Inl e \<Rightarrow> Inl e | Inr x \<Rightarrow> Inr (x, db))"

text \<open>What \<open>EraseFileIfUnreferenced\<close> checks in its transaction before it calls the storage. The two tables of the
  erasure that it reads are those of the deletion model; the references are in the tables at large.\<close>

definition queued_file :: "dl_env \<Rightarrow> int \<Rightarrow> int \<Rightarrow> string \<Rightarrow> (dl_error, dl_state, unit) tx" where
  "queued_file env request fileID fileURL =
     tx_bind (get_row (flt env ''file.active'') ErrNoRows
        (\<lambda>s. sql_get (\<lambda>e. er_id e = request \<and> er_mode e = ''automatic'' \<and> er_stage e = ''database_erased'') (erasures s))) (\<lambda>_.
     tx_bind (get_row (flt env ''file.row'') ErrNoRows (\<lambda>s. map_option ef_url (sql_get (\<lambda>f. ef_id f = fileID \<and> ef_request f = request) (files s)))) (\<lambda>raw.
     tx_guard (raw = fileURL) ErrNoRows))"

definition check_file :: "dl_env \<Rightarrow> url_env \<Rightarrow> string \<Rightarrow> (dl_error, gdb, string) tx" where
  "check_file env ue raw =
     tx_bind (file_path_tx ue raw) (\<lambda>(local, external).
     tx_then (tx_guard (\<not> external) (ErasureBlocked ''EXTERNAL_FILE_HANDOFF_REVIEW_REQUIRED'')) (
     tx_bind (readErasureSchema env) (\<lambda>s.
     tx_then (rejectOtherErasureFileReferences env ue s local None) (tx_return local))))"

definition file_done :: "dl_env \<Rightarrow> int \<Rightarrow> int \<Rightarrow> (dl_error, dl_state, unit) tx" where
  "file_done env request fileID =
     exec (flt env ''file.done'') (\<lambda>s. s\<lparr>files := sql_delete (\<lambda>f. ef_id f = fileID \<and> ef_request f = request) (files s)\<rparr>)"

text \<open>The database is rolled back when a later statement fails; what the storage did stays.\<close>

definition EraseFileIfUnreferenced ::
  "dl_env \<Rightarrow> url_env \<Rightarrow> int \<Rightarrow> erasure_file \<Rightarrow> (string \<Rightarrow> 'd \<Rightarrow> dl_error option \<times> 'd) \<Rightarrow> dl_state \<times> gdb \<times> 'd
     \<Rightarrow> (dl_error, unit) result \<times> dl_state \<times> gdb \<times> 'd" where
  "EraseFileIfUnreferenced env ue request file erase_file st =
     (case st of (s, db, d) \<Rightarrow>
     (case flt env ''begin'' of Some e \<Rightarrow> (Inl e, st) | None \<Rightarrow>
     (case queued_file env request (ef_id file) (ef_url file) s of
        Inl e \<Rightarrow> (Inl e, st)
      | Inr _ \<Rightarrow>
     (case check_file env ue (ef_url file) db of
        Inl e \<Rightarrow> (Inl e, st)
      | Inr (local, _) \<Rightarrow>
     (case erase_file local d of
        (Some e, d') \<Rightarrow> (Inl e, s, db, d')
      | (None, d') \<Rightarrow>
     (case transact None (flt env ''commit'') (file_done env request (ef_id file)) s of (r, s') \<Rightarrow> (r, s', db, d')))))))"

section \<open>The plan of the files\<close>

fun tx_map :: "('a \<Rightarrow> ('e, 's, 'b) tx) \<Rightarrow> 'a list \<Rightarrow> ('e, 's, 'b list) tx" where
  "tx_map f [] = tx_return []"
| "tx_map f (x # xs) = tx_bind (f x) (\<lambda>y. tx_bind (tx_map f xs) (\<lambda>ys. tx_return (y # ys)))"

definition own_query :: "string \<Rightarrow> string \<Rightarrow> int \<Rightarrow> bool \<Rightarrow> refquery" where
  "own_query t c u coalesced = \<lparr>q_table = t, q_columns = [c, ''USR_SEQ''], q_where = (\<lambda>db r. sql_eq db (r ''USR_SEQ'') (IntV u)),
     q_value = (\<lambda>r. if coalesced then coalesce (r c) else r c), q_content = False\<rparr>"

definition postErasureURLs :: "dl_env \<Rightarrow> url_env \<Rightarrow> erasureSchema \<Rightarrow> int \<Rightarrow> (dl_error, gdb, string list) tx" where
  "postErasureURLs env ue s u =
     tx_bind (tx_map (\<lambda>c. tx_bind (select_texts env (own_query ''WEO_BOARDBBS'' c u True)) (\<lambda>vs.
        tx_return (if c = ''THUMBNAIL_URL'' then filter (\<lambda>v. v \<noteq> []) vs else concat (map (managedContentURLs ue) vs))))
        (filter (has s ''WEO_BOARDBBS'') [''CONTENTS'', ''CONTENTS_MD'', ''THUMBNAIL_URL'', ''FILES'', ''RE_FILES'']))
       (\<lambda>us. tx_return (concat us))"

definition attachments :: "int \<Rightarrow> refquery" where
  "attachments u = \<lparr>q_table = ''WEO_FILES'', q_columns = [''FILE_PATH'', ''FILE_NAME'', ''F_GATE'', ''F_JOIN_SEQ''],
     q_where = (\<lambda>db r. sql_eq db (r ''F_GATE'') (StrV ''BB'') \<and> (\<exists>p \<in> set (member_posts db u). sql_eq db (r ''F_JOIN_SEQ'') p)),
     q_value = (\<lambda>r. concat_path (r ''FILE_PATH'') (r ''FILE_NAME'')), q_content = False\<rparr>"

definition when_tx :: "bool \<Rightarrow> (dl_error, gdb, 'a list) tx \<Rightarrow> (dl_error, gdb, 'a list) tx" where
  "when_tx b m = (if b then m else tx_return [])"

text \<open>The URLs found for the member, and those that show the file to be the member's own.\<close>

definition erasureFileCandidates :: "dl_env \<Rightarrow> url_env \<Rightarrow> erasureSchema \<Rightarrow> int \<Rightarrow> (dl_error, gdb, string list \<times> string list) tx" where
  "erasureFileCandidates env ue s u =
     tx_bind (postErasureURLs env ue s u) (\<lambda>posts.
     tx_bind (tx_map (\<lambda>c. tx_bind (get_cell env ''WEO_MEMBER'' c (user_eq ''USR_SEQ'' u)) (\<lambda>v. tx_return (the (text_of (coalesce v)))))
        (filter (has s ''WEO_MEMBER'') [''USR_PHOTO'', ''USR_BIZ_CARD'', ''USR_THUMNAIL''])) (\<lambda>photos.
     tx_bind (select_texts env (own_query ''ALUMNI_UPLOAD_OWNER'' ''URL_PATH'' u False)) (\<lambda>uploads.
     tx_bind (when_tx (present s ''ALUMNI_PROFILE_FILE_HISTORY'') (select_texts env (own_query ''ALUMNI_PROFILE_FILE_HISTORY'' ''URL_PATH'' u False))) (\<lambda>previous.
     tx_bind (when_tx (present s ''WEO_FILES'' \<and> present s ''WEO_BOARDBBS'') (select_texts env (attachments u))) (\<lambda>attached.
     let owned = filter (\<lambda>x. x \<noteq> []) photos @ uploads @ previous @ attached in tx_return (posts @ owned, owned))))))"

fun owned_locals :: "url_env \<Rightarrow> string list \<Rightarrow> (dl_error, string list) result" where
  "owned_locals ue [] = Inr []"
| "owned_locals ue (raw # xs) =
     (case ErasureFilePath ue raw of
        Inl e \<Rightarrow> Inl e
      | Inr (local, external) \<Rightarrow> (case owned_locals ue xs of Inl e \<Rightarrow> Inl e | Inr ls \<Rightarrow> Inr (if external then ls else local # ls)))"

text \<open>The metadata rows of a file, by the identity of their path.\<close>

definition metadata_ids :: "url_env \<Rightarrow> string \<Rightarrow> gdb \<Rightarrow> sql_val list" where
  "metadata_ids ue local db =
     map (\<lambda>r. cell (columns_of db ''WEO_FILES'') r ''F_SEQ'')
       (filter (\<lambda>r. case text_of (concat_path (cell (columns_of db ''WEO_FILES'') r ''FILE_PATH'') (cell (columns_of db ''WEO_FILES'') r ''FILE_NAME'')) of
            None \<Rightarrow> False | Some x \<Rightarrow> ErasureFilePath ue x = Inr (local, False)) (rows_of db ''WEO_FILES''))"

definition file_rows :: "dl_env \<Rightarrow> url_env \<Rightarrow> string \<Rightarrow> (dl_error, gdb, sql_val list) tx" where
  "file_rows env ue local =
     tx_then (select_texts env \<lparr>q_table = ''WEO_FILES'', q_columns = [''F_SEQ'', ''FILE_PATH'', ''FILE_NAME''], q_where = (\<lambda>_ _. True),
                q_value = (\<lambda>r. concat_path (r ''FILE_PATH'') (r ''FILE_NAME'')), q_content = False\<rparr>)
       (query None (metadata_ids ue local))"

text \<open>The loop over the URLs: external ones and files already planned are skipped, a file that is not the
  member's own or that anything else refers to stops the plan.\<close>

fun plan_urls :: "dl_env \<Rightarrow> url_env \<Rightarrow> erasureSchema \<Rightarrow> int \<Rightarrow> string list \<Rightarrow> string list \<Rightarrow> string list \<Rightarrow> (dl_error, gdb, (string \<times> sql_val list) list) tx" where
  "plan_urls env ue s u own seen [] = tx_return []"
| "plan_urls env ue s u own seen (raw # urls) =
     tx_bind (file_path_tx ue raw) (\<lambda>(local, external).
     if external \<or> local \<in> set seen then plan_urls env ue s u own seen urls
     else tx_then (tx_guard (local \<in> set own) (ErasureBlocked ''FILE_OWNERSHIP_REVIEW_REQUIRED'')) (
          tx_then (rejectOtherErasureFileReferences env ue s local (Some u)) (
          tx_bind (when_tx (present s ''WEO_FILES'') (file_rows env ue local)) (\<lambda>ids.
          tx_bind (plan_urls env ue s u own (local # seen) urls) (\<lambda>rest. tx_return ((local, ids) # rest))))))"

definition planErasureFiles :: "dl_env \<Rightarrow> url_env \<Rightarrow> erasureSchema \<Rightarrow> int \<Rightarrow> (dl_error, gdb, (string \<times> sql_val list) list) tx" where
  "planErasureFiles env ue s u =
     tx_bind (erasureFileCandidates env ue s u) (\<lambda>(urls, owned).
     case owned_locals ue owned of Inl e \<Rightarrow> tx_fail e | Inr own \<Rightarrow> plan_urls env ue s u own [] urls)"

definition plan_locals :: "(string \<times> sql_val list) list \<Rightarrow> string list" where "plan_locals plan = map fst plan"
definition plan_fileIDs :: "(string \<times> sql_val list) list \<Rightarrow> sql_val list" where "plan_fileIDs plan = concat (map snd plan)"

text \<open>The queue: a new row gets the next number; a file already queued for the request is left as it is.\<close>

definition queue_file :: "url_env \<Rightarrow> int \<Rightarrow> string \<Rightarrow> dl_state \<Rightarrow> dl_state" where
  "queue_file ue request local s =
     (if \<exists>f \<in> set (files s). ef_request f = request \<and> url_hash ue (ef_url f) = url_hash ue local then s
      else s\<lparr>files := files s @ [\<lparr>ef_id = 1 + foldr max (map ef_id (files s)) 0, ef_request = request, ef_url = local\<rparr>]\<rparr>)"

fun queue_files :: "dl_env \<Rightarrow> url_env \<Rightarrow> int \<Rightarrow> string list \<Rightarrow> (dl_error, dl_state, unit) tx" where
  "queue_files env ue request [] = tx_return ()"
| "queue_files env ue request (l # ls) = tx_then (exec (flt env ''queue.file'') (queue_file ue request l)) (queue_files env ue request ls)"

definition file_steps :: "sql_val list \<Rightarrow> erasureStep list" where
  "file_steps ids = map (\<lambda>i. (''WEO_FILES'', ColEq ''F_SEQ'' i)) ids"

definition queueErasureFiles :: "dl_env \<Rightarrow> url_env \<Rightarrow> erasureSchema \<Rightarrow> int \<Rightarrow> int \<Rightarrow> (dl_error, dl_state \<times> gdb, unit) tx" where
  "queueErasureFiles env ue s request u st =
     (case planErasureFiles env ue s u (snd st) of Inl e \<Rightarrow> Inl e | Inr (plan, db) \<Rightarrow>
     (case queue_files env ue request (plan_locals plan) (fst st) of Inl e \<Rightarrow> Inl e | Inr (_, q) \<Rightarrow>
     (case erase_steps env s (file_steps (plan_fileIDs plan)) db of Inl e \<Rightarrow> Inl e | Inr (_, db') \<Rightarrow> Inr ((), q, db'))))"

section \<open>References are recognised\<close>

lemma of_char_lower: "(of_char (ascii_lower c) :: nat) = (if 65 \<le> (of_char c :: nat) \<and> (of_char c :: nat) \<le> 90 then of_char c + 32 else of_char c)"
  by (simp add: ascii_lower_def)

lemma lower_fixes:
  "ascii_lower c = CHR '':'' \<longleftrightarrow> c = CHR '':''" "ascii_lower c = CHR ''['' \<longleftrightarrow> c = CHR ''[''" "ascii_lower c = CHR '']'' \<longleftrightarrow> c = CHR '']''"
  "is_digit (ascii_lower c) = is_digit c"
proof -
  have eq: "ascii_lower c = d \<longleftrightarrow> c = d" if "of_char d < (65 :: nat) \<or> (90 < (of_char d :: nat) \<and> of_char d < (97 :: nat))" for d
    using that of_char_lower [of c] by (auto simp: ascii_lower_def split: if_splits)
  show "ascii_lower c = CHR '':'' \<longleftrightarrow> c = CHR '':''" "ascii_lower c = CHR ''['' \<longleftrightarrow> c = CHR ''[''" "ascii_lower c = CHR '']'' \<longleftrightarrow> c = CHR '']''"
    by (rule eq; simp)+
  show "is_digit (ascii_lower c) = is_digit c" using of_char_lower [of c] by (auto simp: is_digit_def split: if_splits)
qed

lemma lower_rev: "lower (rev s) = rev (lower s)" and lower_length [simp]: "length (lower s) = length s" and lower_drop: "lower (drop n s) = drop n (lower s)"
  by (simp_all add: lower_def rev_map drop_map)

lemma lower_takeWhile: "takeWhile (\<lambda>c. c \<noteq> CHR '':'') (lower s) = lower (takeWhile (\<lambda>c. c \<noteq> CHR '':'') s)"
  by (simp add: lower_def takeWhile_map comp_def lower_fixes)

lemma strip_port_lower: "strip_port (lower h) = lower (strip_port h)"
proof -
  have "list_all is_digit (lower t) = list_all is_digit t" for t by (simp add: lower_def list.pred_map comp_def lower_fixes)
  then show ?thesis by (simp only: strip_port_def Let_def lower_rev [symmetric] lower_takeWhile lower_drop [symmetric] lower_length if_distrib [of lower])
qed

lemma go_Hostname_lower: "go_Hostname (lower h) = lower (go_Hostname h)"
proof -
  have "lower x \<noteq> [] \<and> hd (lower x) = CHR ''['' \<and> last (lower x) = CHR '']'' \<longleftrightarrow> x \<noteq> [] \<and> hd x = CHR ''['' \<and> last x = CHR '']''" for x
    by (auto simp: lower_def hd_map last_map lower_fixes)
  moreover have "butlast (tl (lower x)) = lower (butlast (tl x))" for x by (simp add: lower_def map_butlast map_tl)
  ultimately show ?thesis by (simp add: go_Hostname_def strip_port_lower Let_def)
qed

lemma same_host: "EqualFold h h' \<Longrightarrow> host_identity (go_Hostname h) = host_identity (go_Hostname h')"
  by (metis EqualFold_def go_Hostname_lower host_identity_def)

lemma managed_path_slash:
  assumes "managed_identity ue p = Some l"
  shows "CHR ''/'' # dropWhile (\<lambda>c. c = CHR ''/'') p = p"
proof -
  obtain x where "x \<in> set managed_prefixes" "go_HasPrefix p x"
    using assms by (auto simp: managed_identity_def find_Some_iff in_set_conv_nth split: option.splits)
  then obtain q where "p = x @ q" "x \<in> set managed_prefixes" by (auto simp: go_HasPrefix_iff prefix_def)
  then show ?thesis by (auto simp: managed_prefixes_def)
qed

lemma reference_local:
  "local_path ue u = Inr (l, False) \<Longrightarrow> CHR 0x5C \<notin> set (u_Path u) \<Longrightarrow> reference_path ue u = Inr (l, False)"
  by (auto simp: local_path_def reference_path_def managed_path_slash split: if_splits option.splits)

lemma recognised:
  assumes f: "ErasureFilePath ue raw = Inr (l, False)" and trimmed: "go_TrimSpace raw = raw" and nonempty: "raw \<noteq> []"
  shows "ErasureFileReferencePath ue raw = Inr (l, False) \<or> ErasureFileReferencePath ue raw = Inl path_blocked"
proof -
  obtain u where u: "url_Parse ue raw = Some u" and plain: "CHR 0x5C \<notin> set (u_Path u)" and loc: "local_path ue u = Inr (l, False)"
    and host: "u_Host u \<noteq> [] \<or> IsAbs u \<Longrightarrow> u_Host u \<noteq> [] \<and> u_Scheme u \<in> {''https'', ''http''}
        \<and> (\<exists>origin. url_Parse ue (SiteOrigin ue) = Some origin \<and> EqualFold (u_Host u) (u_Host origin))"
    using f by (auto simp: ErasureFilePath_def split: option.splits if_splits)
  show ?thesis
  proof (cases "u_Host u = []")
    case True
    then have "\<not> IsAbs u" using host by auto
    then show ?thesis using True u reference_local [OF loc plain] trimmed nonempty by (auto simp: ErasureFileReferencePath_def)
  next
    case False
    then obtain origin where "url_Parse ue (SiteOrigin ue) = Some origin" "EqualFold (u_Host u) (u_Host origin)" "u_Scheme u \<in> {''https'', ''http''}"
      using host by auto
    then show ?thesis using False u reference_local [OF loc plain] trimmed nonempty same_host [of "u_Host u" "u_Host origin"]
      by (auto simp: ErasureFileReferencePath_def)
  qed
qed

section \<open>The scan\<close>

lemma scan_urls_None:
  "scan_urls ue local candidate urls = None \<Longrightarrow> raw \<in> set urls \<Longrightarrow> candidate raw \<Longrightarrow>
   \<exists>x. ErasureFileReferencePath ue raw = Inr x \<and> x \<noteq> (local, False)"
  by (induction urls) (auto split: if_splits sum.splits prod.splits)

interpretation unchanged: tx_relation "(=)"
  by unfold_locales auto

lemma select_texts_ok:
  assumes "select_texts env q db = Inr (vs, db')"
  shows "db' = db" "Null \<notin> set (query_values q db)" "vs = map (\<lambda>v. the (text_of v)) (query_values q db)"
  using assms by (auto simp: select_texts_def split: if_splits option.splits)

lemma scan_queries_ok:
  assumes "scan_queries env ue local candidate qs db = Inr (u, db')"
  shows "db' = db \<and> (\<forall>q \<in> set qs. \<forall>v \<in> set (query_values q db). \<forall>raw \<in> set (urls_of ue (q_content q) (the (text_of v))).
           candidate raw \<longrightarrow> (\<exists>x. ErasureFileReferencePath ue raw = Inr x \<and> x \<noteq> (local, False)))"
  using assms
proof (induction qs arbitrary: db)
  case Nil
  then show ?case by (simp add: tx_return_ok)
next
  case (Cons q qs)
  obtain vs db1 where sel: "select_texts env q db = Inr (vs, db1)"
    and scan: "scan_urls ue local candidate (concat (map (urls_of ue (q_content q)) vs)) = None"
    and rest: "scan_queries env ue local candidate qs db1 = Inr (u, db')"
    using Cons.prems by (auto simp: tx_bind_ok tx_fail_ok split: option.splits)
  note vs = select_texts_ok [OF sel]
  have "\<exists>x. ErasureFileReferencePath ue raw = Inr x \<and> x \<noteq> (local, False)"
    if "v \<in> set (query_values q db)" "raw \<in> set (urls_of ue (q_content q) (the (text_of v)))" "candidate raw" for v raw
    using scan_urls_None [OF scan _ that(3)] that(1,2) vs(3) by auto
  then show ?case using Cons.IH [OF rest] vs(1) by auto
qed

text \<open>A row of the database refers to a file, seen from the scan that leaves nobody out.\<close>

definition schema_of :: "gdb \<Rightarrow> erasureSchema" where
  "schema_of db = map (\<lambda>(n, x). (n, t_columns x)) (catalog db)"

definition refers :: "url_env \<Rightarrow> gdb \<Rightarrow> int option \<Rightarrow> string \<Rightarrow> bool" where
  "refers ue db excluded raw = (\<exists>q \<in> set (reference_queries (schema_of db) excluded 0). \<exists>v \<in> set (query_values q db).
     v \<noteq> Null \<and> raw \<in> set (urls_of ue (q_content q) (the (text_of v))))"

lemma reject_ok:
  assumes "rejectOtherErasureFileReferences env ue (schema_of db) local excluded db = Inr (u, db')"
  shows "db' = db" "refers ue db excluded raw \<Longrightarrow> \<exists>x. ErasureFileReferencePath ue raw = Inr x \<and> x \<noteq> (local, False)"
  using scan_queries_ok [of env ue local "\<lambda>_. True" "reference_queries (schema_of db) excluded 0" db u db'] assms
  by (auto simp: rejectOtherErasureFileReferences_def rejectOtherErasureFileReferencesExceptUpload_def scanSurvivingFileReferences_def refers_def)

lemma get_cell_same: "get_cell env t c w db = Inr (v, db') \<Longrightarrow> db' = db"
  by (auto simp: get_cell_def tx_bind_ok select_ok tx_fail_ok tx_return_ok split: if_splits list.splits)

lemma file_path_ok: "file_path_tx ue raw db = Inr (x, db') \<longleftrightarrow> ErasureFilePath ue raw = Inr x \<and> db' = db"
  by (auto simp: file_path_tx_def split: sum.splits)

lemma schema_ok: "readErasureSchema env db = Inr (s, db') \<longleftrightarrow> flt env ''schema'' = None \<and> s = schema_of db \<and> db' = db"
  by (auto simp: readErasureSchema_def query_ok schema_of_def)

lemma check_fileD:
  assumes "check_file env ue raw0 db = Inr (local, db')"
  shows "ErasureFilePath ue raw0 = Inr (local, False)"
    "refers ue db None raw \<Longrightarrow> \<exists>x. ErasureFileReferencePath ue raw = Inr x \<and> x \<noteq> (local, False)"
proof -
  have *: "ErasureFilePath ue raw0 = Inr (local, False) \<and> rejectOtherErasureFileReferences env ue (schema_of db) local None db = Inr ((), db')"
    using assms by (auto simp: check_file_def tx_bind_ok tx_then_ok tx_guard_ok tx_return_ok file_path_ok schema_ok)
  then show "ErasureFilePath ue raw0 = Inr (local, False)" by blast
  show "\<exists>x. ErasureFileReferencePath ue raw = Inr x \<and> x \<noteq> (local, False)" if "refers ue db None raw"
    using * reject_ok(2) [OF _ that] by blast
qed


section \<open>The plan\<close>

lemma reads_tx_map: "(\<And>x. establishes (=) (f x)) \<Longrightarrow> establishes (=) (tx_map f xs)"
  by (induction xs) (auto intro!: unchanged.est_rules)

lemma reads_select_texts: "establishes (=) (select_texts env q)"
  by (auto simp: establishes_def dest: select_texts_ok)

lemma reads_get_cell: "establishes (=) (get_cell env t c w)"
  by (auto simp: establishes_def dest: get_cell_same)

lemma reads_when: "establishes (=) m \<Longrightarrow> establishes (=) (when_tx b m)"
  by (auto simp: when_tx_def intro: unchanged.est_rules)

lemma reads_posts: "establishes (=) (postErasureURLs env ue s u)"
  unfolding postErasureURLs_def by (intro unchanged.est_rules reads_tx_map reads_select_texts)

lemma reads_candidates: "establishes (=) (erasureFileCandidates env ue s u)"
  unfolding erasureFileCandidates_def Let_def
  by (intro unchanged.est_rules reads_tx_map reads_select_texts reads_get_cell reads_when reads_posts)

lemma reads_file_rows: "establishes (=) (file_rows env ue local)"
  unfolding file_rows_def by (intro unchanged.est_rules reads_select_texts)

lemma unchangedD: "establishes (=) m \<Longrightarrow> m db = Inr (a, db') \<Longrightarrow> db' = db"
  by (auto simp: establishes_def)

lemma owned_localsD: "owned_locals ue xs = Inr ls \<Longrightarrow> l \<in> set ls \<Longrightarrow> \<exists>raw \<in> set xs. ErasureFilePath ue raw = Inr (l, False)"
  by (induction xs arbitrary: ls) (auto split: sum.splits prod.splits if_splits)

definition free_of_others :: "url_env \<Rightarrow> gdb \<Rightarrow> int \<Rightarrow> string \<Rightarrow> bool" where
  "free_of_others ue db u l = (\<forall>raw. refers ue db (Some u) raw \<longrightarrow> (\<exists>x. ErasureFileReferencePath ue raw = Inr x \<and> x \<noteq> (l, False)))"

lemma plan_urlsD:
  assumes "plan_urls env ue (schema_of db) u own seen urls db = Inr (plan, db')"
  shows "db' = db \<and> distinct (plan_locals plan) \<and> set (plan_locals plan) \<inter> set seen = {} \<and> set (plan_locals plan) \<subseteq> set own
    \<and> set (plan_locals plan) \<union> set seen = {l. \<exists>raw \<in> set urls. ErasureFilePath ue raw = Inr (l, False)} \<union> set seen
    \<and> (\<forall>l \<in> set (plan_locals plan). free_of_others ue db u l)"
  using assms
proof (induction urls arbitrary: seen plan)
  case Nil
  then show ?case by (auto simp: tx_return_ok plan_locals_def)
next
  case (Cons raw urls)
  obtain l ext where p: "ErasureFilePath ue raw = Inr (l, ext)"
    and go: "(if ext \<or> l \<in> set seen then plan_urls env ue (schema_of db) u own seen urls
     else tx_then (tx_guard (l \<in> set own) (ErasureBlocked ''FILE_OWNERSHIP_REVIEW_REQUIRED'')) (
          tx_then (rejectOtherErasureFileReferences env ue (schema_of db) l (Some u)) (
          tx_bind (when_tx (present (schema_of db) ''WEO_FILES'') (file_rows env ue l)) (\<lambda>ids.
          tx_bind (plan_urls env ue (schema_of db) u own (l # seen) urls) (\<lambda>rest. tx_return ((l, ids) # rest)))))) db = Inr (plan, db')"
    using Cons.prems by (auto simp: tx_bind_ok file_path_ok)
  show ?case
  proof (cases "ext \<or> l \<in> set seen")
    case True
    then show ?thesis using Cons.IH [of seen plan] go p by auto
  next
    case False
    then obtain db1 db2 ids rest where own: "l \<in> set own"
      and rej: "rejectOtherErasureFileReferences env ue (schema_of db) l (Some u) db = Inr ((), db1)"
      and ids: "when_tx (present (schema_of db) ''WEO_FILES'') (file_rows env ue l) db1 = Inr (ids, db2)"
      and rest: "plan_urls env ue (schema_of db) u own (l # seen) urls db2 = Inr (rest, db')" and plan: "plan = (l, ids) # rest"
      using go by (auto simp: tx_bind_ok tx_then_ok tx_guard_ok tx_return_ok)
    have same: "db1 = db" "db2 = db1" by (rule reject_ok(1) [OF rej]) (rule unchangedD [OF reads_when [OF reads_file_rows] ids])
    have free: "free_of_others ue db u l" using reject_ok(2) [OF rej] by (auto simp: free_of_others_def)
    show ?thesis using Cons.IH [of "l # seen" rest] rest same own free p False by (auto simp: plan plan_locals_def)
  qed
qed

text \<open>C21. The plan of an erasure unlinks each file once, unlinks every local file found for the member, only files
  a record shows to be the member's own, and none that another record refers to; making it changes nothing.\<close>

theorem plan_is_own_files:
  assumes "planErasureFiles env ue (schema_of db) u db = Inr (plan, db')"
  shows "db' = db \<and> distinct (plan_locals plan)
    \<and> (\<exists>urls owned. erasureFileCandidates env ue (schema_of db) u db = Inr ((urls, owned), db)
         \<and> set (plan_locals plan) = {l. \<exists>raw \<in> set urls. ErasureFilePath ue raw = Inr (l, False)}
         \<and> (\<forall>l \<in> set (plan_locals plan). (\<exists>raw \<in> set owned. ErasureFilePath ue raw = Inr (l, False)) \<and> free_of_others ue db u l))"
proof -
  obtain urls owned db1 where c: "erasureFileCandidates env ue (schema_of db) u db = Inr ((urls, owned), db1)"
    and r: "(case owned_locals ue owned of Inl e \<Rightarrow> tx_fail e | Inr own \<Rightarrow> plan_urls env ue (schema_of db) u own [] urls) db1 = Inr (plan, db')"
    using assms by (auto simp: planErasureFiles_def tx_bind_ok)
  obtain own where own: "owned_locals ue owned = Inr own" and p: "plan_urls env ue (schema_of db) u own [] urls db1 = Inr (plan, db')"
    using r by (cases "owned_locals ue owned") (auto simp: tx_fail_ok)
  have "db1 = db" by (rule unchangedD [OF reads_candidates c])
  then show ?thesis using plan_urlsD [of env ue db u own "[]" urls plan db'] p c owned_localsD [OF own] by fastforce
qed

section \<open>An instance\<close>

definition demo_url :: url_env where
  "demo_url = \<lparr>url_Parse = (\<lambda>raw. Some \<lparr>u_Scheme = [], u_HasUser = False, u_Host = [], u_Path = raw, u_RawQuery = [], u_ForceQuery = False, u_Fragment = []\<rparr>),
     EscapedPath = (\<lambda>p. p), survivingContentURLs = (\<lambda>v. []), managedContentFile = (\<lambda>_. False), SiteOrigin = [], url_hash = (\<lambda>x. x)\<rparr>"

definition demo_files_db :: gdb where
  "demo_files_db = \<lparr>catalog = [
     (''WEO_MEMBER'', \<lparr>t_columns = [''USR_SEQ'', ''USR_PHOTO''], t_engine = Some ''InnoDB'', t_base = True, t_rows = [[IntV 7, StrV ''/files/a''], [IntV 8, StrV ''/files/b'']]\<rparr>),
     (''ALUMNI_UPLOAD_OWNER'', \<lparr>t_columns = [''F_SEQ'', ''USR_SEQ'', ''URL_PATH''], t_engine = Some ''InnoDB'', t_base = True, t_rows = [[IntV 1, IntV 7, StrV ''/upload/a'']]\<rparr>)],
     same_val = (=)\<rparr>"

definition demo_fenv :: dl_env where
  "demo_fenv = \<lparr>dl_now = 0, dl_local = 0, dl_fault = (\<lambda>_. None), lock_free = True, WaitHours = 24, TestUserSeq = 0, engine = ''InnoDB'', base_columns = [], loc_offset = 0\<rparr>"

lemma demo_refers: "refers demo_url demo_files_db None ''/files/b''"
  unfolding refers_def by code_simp

definition demo_queue :: dl_state where
  "demo_queue = \<lparr>requests = [], request_next = 2, schedules = [], cancellations = [], erasures = [\<lparr>er_id = 1, er_mode = ''automatic'', er_stage = ''database_erased'',
     er_code = [], er_next = 0, er_evidence = [], er_updated = 0\<rparr>], targets = [], works = [], intakes = [], outbox = [], dl_members = [], dl_roles = [], socials = [],
     files = [\<lparr>ef_id = 1, ef_request = 1, ef_url = ''/upload/b''\<rparr>], contexts = [], guards = [], other_refs = []\<rparr>"


lemma plan_is_own_files_witness:
  "\<exists>plan. planErasureFiles demo_fenv demo_url (schema_of demo_files_db) 7 demo_files_db = Inr (plan, demo_files_db) \<and> plan_locals plan = [''/files/a'']"
proof -
  have "map_sum id fst (planErasureFiles demo_fenv demo_url (schema_of demo_files_db) 7 demo_files_db) = Inr [(''/files/a'', [])]" by code_simp
  then obtain db' where *: "planErasureFiles demo_fenv demo_url (schema_of demo_files_db) 7 demo_files_db = Inr ([(''/files/a'', [])], db')"
    by (cases "planErasureFiles demo_fenv demo_url (schema_of demo_files_db) 7 demo_files_db") auto
  from plan_is_own_files [OF *] * show ?thesis by (auto simp: plan_locals_def)
qed

end
