(* ===== verification/Erasure_Preview.thy ===== *)
theory Erasure_Preview
  imports Erasure_Files "HOL-Library.List_Lexorder" "HOL-Library.Char_ord" "HOL-Library.Multiset"
begin

text \<open>
  The operator's preview of an erasure (\<^verbatim>\<open>repository/account_erasure_preview.go\<close>,
  \<^verbatim>\<open>repository/account_erasure_preview_rows.go\<close>) and the erasure after a restored backup
  (\<^verbatim>\<open>repository/account_erasure_restore.go\<close>): the queries of the preview, the masked samples, the digest that binds
  an approval to the reviewed rows. The preview lists exactly the rows the erasure changes, the sample shows
  nothing of a secret column, and equal digests mean equal rows.
\<close>

section \<open>The queries\<close>

record previewQuery =
  pq_table :: string
  pq_action :: string
  pq_where :: cond
  pq_after :: "(string \<times> sql_val) list"

definition ErasureActionDelete :: string where "ErasureActionDelete = ''delete''"
definition ErasureActionAnonymize :: string where "ErasureActionAnonymize = ''anonymize''"

text \<open>The position the closure's index holds for a table: the query last appended for it.\<close>

definition last_index :: "previewQuery list \<Rightarrow> string \<Rightarrow> nat option" where
  "last_index qs t = (case filter (\<lambda>i. pq_table (qs ! i) = t) [0..<length qs] of [] \<Rightarrow> None | is \<Rightarrow> Some (last is))"

definition add_query :: "erasureSchema \<Rightarrow> previewQuery list \<Rightarrow> previewQuery \<Rightarrow> previewQuery list" where
  "add_query s qs q =
     (if \<not> present s (pq_table q) then qs
      else case last_index qs (pq_table q) of
             None \<Rightarrow> qs @ [q]
           | Some i \<Rightarrow> if pq_action (qs ! i) = pq_action q then qs[i := (qs ! i)\<lparr>pq_where := OrC (pq_where (qs ! i)) (pq_where q)\<rparr>] else qs @ [q])"

definition delete_query :: "erasureStep \<Rightarrow> previewQuery" where
  "delete_query x = \<lparr>pq_table = fst x, pq_action = ErasureActionDelete, pq_where = snd x, pq_after = []\<rparr>"

definition order_of :: "int \<Rightarrow> cond" where
  "order_of u = OrC (user_eq ''USR_SEQ'' u) (user_eq ''O_ACCOUNT_USR_SEQ'' u)"

definition plan_queries :: "erasureSchema \<Rightarrow> int \<Rightarrow> string \<Rightarrow> sql_val list \<Rightarrow> previewQuery list" where
  "plan_queries s u email fileIDs =
     (if fileIDs \<noteq> [] then [delete_query (''WEO_FILES'', InVals ''F_SEQ'' fileIDs)] else [])
     @ (if present s ''WEO_ORDER'' then
          [delete_query (''WEO_PG_DATA'', InSelect ''O_SEQ'' ''O_SEQ'' ''WEO_ORDER'' (order_of u)),
           delete_query (''WEO_ORDER'', order_of u),
           delete_query (''ALUMNI_DONATION_RETENTION'', InSelect ''O_SEQ'' ''O_SEQ'' ''WEO_ORDER'' (order_of u))] else [])
     @ [\<lparr>pq_table = ''WEO_BOARDBBS'', pq_action = ErasureActionAnonymize, pq_where = user_eq ''USR_SEQ'' u, pq_after = boardAnonymizedColumns s\<rparr>]
     @ map delete_query (accountReferenceSteps s u email)
     @ [delete_query (''WEO_MEMBER'', user_eq ''USR_SEQ'' u)]"

definition erasurePreviewQueries :: "erasureSchema \<Rightarrow> int \<Rightarrow> string \<Rightarrow> sql_val list \<Rightarrow> previewQuery list" where
  "erasurePreviewQueries s u email fileIDs = foldl (add_query s) [] (plan_queries s u email fileIDs)"

section \<open>Rows, masks and digest\<close>

definition previewRowLimit :: nat where "previewRowLimit = 20"
definition previewValueRunes :: nat where "previewValueRunes = 120"

datatype mask = NoMask | MaskSecret | MaskPrivate

definition ascii_upper :: "char \<Rightarrow> char" where
  "ascii_upper c = (if 97 \<le> (of_char c :: nat) \<and> (of_char c :: nat) \<le> 122 then char_of (of_char c - 32 :: nat) else c)"

definition previewSecretColumn :: "string \<Rightarrow> bool" where
  "previewSecretColumn name =
     (let n = map ascii_upper name
      in list_ex (go_Contains n) [''PASS'', ''PWD'', ''TOKEN'', ''SECRET'', ''HASH'', ''CREDENTIAL'', ''CIPHER'', ''SALT'', ''NONCE'', ''OTP'', ''SESSION_ID'']
         \<or> go_HasPrefix (rev n) (rev ''_KEY'') \<or> n = ''KEY'' \<or> n = ''CARD_NO'')"

definition previewPrivateContent :: "string \<Rightarrow> bool" where
  "previewPrivateContent x = (x \<in> {''ALUMNI_MESSAGE.AM_CONTENT'', ''ALUMNI_COMMENT_REPORT.CONTENT_SNAPSHOT'', ''ALUMNI_COMMENT_REPORT.DETAILS'',
     ''ALUMNI_COMMENT_REPORT.MODERATOR_NOTE'', ''ALUMNI_MESSAGE_REPORT.CONTENT_SNAPSHOT'', ''ALUMNI_MESSAGE_REPORT.DETAILS''})"

definition column_mask :: "string \<Rightarrow> string \<Rightarrow> mask" where
  "column_mask t c = (if previewPrivateContent (t @ ''.'' @ c) then MaskPrivate else if previewSecretColumn c then MaskSecret else NoMask)"

text \<open>\<^verbatim>\<open>utf8.ValidString\<close>, and the prefix of a number of runes of a valid string.\<close>

definition cont :: "nat \<Rightarrow> bool" where "cont b = (128 \<le> b \<and> b < 192)"

fun valid_bytes :: "nat list \<Rightarrow> bool" where
  "valid_bytes (a # b # c # d # xs) =
     (if a < 128 then valid_bytes (b # c # d # xs)
      else if 194 \<le> a \<and> a < 224 then cont b \<and> valid_bytes (c # d # xs)
      else if 224 \<le> a \<and> a < 240 then cont b \<and> cont c \<and> (a = 224 \<longrightarrow> 160 \<le> b) \<and> (a = 237 \<longrightarrow> b < 160) \<and> valid_bytes (d # xs)
      else 240 \<le> a \<and> a < 245 \<and> cont b \<and> cont c \<and> cont d \<and> (a = 240 \<longrightarrow> 144 \<le> b) \<and> (a = 244 \<longrightarrow> b < 144) \<and> valid_bytes xs)"
| "valid_bytes [a, b, c] =
     (if a < 128 then valid_bytes [b, c]
      else if 194 \<le> a \<and> a < 224 then cont b \<and> valid_bytes [c]
      else 224 \<le> a \<and> a < 240 \<and> cont b \<and> cont c \<and> (a = 224 \<longrightarrow> 160 \<le> b) \<and> (a = 237 \<longrightarrow> b < 160))"
| "valid_bytes [a, b] = (if a < 128 then valid_bytes [b] else 194 \<le> a \<and> a < 224 \<and> cont b)"
| "valid_bytes [a] = (a < 128)"
| "valid_bytes [] = True"

definition go_ValidString :: "string \<Rightarrow> bool" where
  "go_ValidString s = valid_bytes (map of_char s)"

fun take_runes :: "nat \<Rightarrow> string \<Rightarrow> string" where
  "take_runes n [] = []"
| "take_runes n (c # cs) = (if cont (of_char c) then c # take_runes n cs else case n of 0 \<Rightarrow> [] | Suc m \<Rightarrow> c # take_runes m cs)"

section \<open>Samples\<close>

text \<open>The texts of the display: the hidden value, the length of a private text, the size of binary data, the ellipsis.\<close>

definition secret_text :: string where
  "secret_text = [CHR 0x5B, CHR 0xEB, CHR 0xB3, CHR 0xB4, CHR 0xEC, CHR 0x95, CHR 0x88, CHR 0xEA, CHR 0xB0, CHR 0x92, CHR 0x20, CHR 0xEB, CHR 0xB9, CHR 0x84, CHR 0xED, CHR 0x91, CHR 0x9C, CHR 0xEC, CHR 0x8B, CHR 0x9C, CHR 0x5D]"

definition private_text :: "int \<Rightarrow> string" where
  "private_text n = [CHR 0x5B, CHR 0xEC, CHR 0xAA, CHR 0xBD, CHR 0xEC, CHR 0xA7, CHR 0x80, CHR 0x20, CHR 0xEB, CHR 0x82, CHR 0xB4, CHR 0xEC, CHR 0x9A, CHR 0xA9, CHR 0x20, CHR 0xEB, CHR 0xB9, CHR 0x84, CHR 0xED, CHR 0x91, CHR 0x9C, CHR 0xEC, CHR 0x8B, CHR 0x9C, CHR 0x20, CHR 0xC2, CHR 0xB7, CHR 0x20] @ go_Itoa n @ [CHR 0xEC, CHR 0x9E, CHR 0x90, CHR 0x5D]"

definition binary_text :: "nat \<Rightarrow> string" where
  "binary_text n = [CHR 0x5B, CHR 0xEC, CHR 0x9D, CHR 0xB4, CHR 0xEC, CHR 0xA7, CHR 0x84, CHR 0x20, CHR 0xEB, CHR 0x8D, CHR 0xB0, CHR 0xEC, CHR 0x9D, CHR 0xB4, CHR 0xED, CHR 0x84, CHR 0xB0, CHR 0x20] @ go_Itoa (int n) @ [CHR 0xEB, CHR 0xB0, CHR 0x94, CHR 0xEC, CHR 0x9D, CHR 0xB4, CHR 0xED, CHR 0x8A, CHR 0xB8, CHR 0x5D]"

definition ellipsis :: string where "ellipsis = [CHR 0xE2, CHR 0x80, CHR 0xA6]"

definition previewRawValue :: "sql_val \<Rightarrow> string option" where
  "previewRawValue v = text_of v"

definition display_value :: "mask \<Rightarrow> string \<Rightarrow> string" where
  "display_value m v =
     (if m = MaskSecret then secret_text
      else if m = MaskPrivate then private_text (rune_count v)
      else if \<not> go_ValidString v then binary_text (length v)
      else if rune_count v > int previewValueRunes then take_runes previewValueRunes v @ ellipsis
      else v)"

definition previewDisplay :: "string option list \<Rightarrow> mask list \<Rightarrow> string option list" where
  "previewDisplay raw masks = map (\<lambda>(v, m). map_option (display_value m) v) (zip raw masks)"

definition row_bytes :: "string option list \<Rightarrow> string" where
  "row_bytes vs = concat (map (\<lambda>v. case v of None \<Rightarrow> ''N;'' | Some x \<Rightarrow> ''V'' @ go_Itoa (int (length x)) @ '':'' @ x @ '';'') vs)"

text \<open>\<open>sha\<close> is the hexadecimal SHA-256 sum.\<close>

definition previewRowHash :: "(string \<Rightarrow> string) \<Rightarrow> string option list \<Rightarrow> string" where
  "previewRowHash sha vs = sha (row_bytes vs)"

record previewTable =
  pt_Table :: string
  pt_Action :: string
  pt_Columns :: "string list"
  pt_MaskedColumns :: "string list"
  pt_ChangedColumns :: "string list"
  pt_Count :: int
  pt_Rows :: "(string option list \<times> string option list option) list"
  pt_rowHashes :: "string list"

definition raw_row :: "sql_val list \<Rightarrow> string option list" where
  "raw_row r = map previewRawValue r"

definition after_row :: "string list \<Rightarrow> (string \<times> sql_val) list \<Rightarrow> string option list \<Rightarrow> string option list" where
  "after_row cols after raw = map (\<lambda>(c, v). case map_of after c of Some x \<Rightarrow> text_of x | None \<Rightarrow> v) (zip cols raw)"

definition sample_row :: "previewQuery \<Rightarrow> string list \<Rightarrow> string option list \<Rightarrow> string option list \<times> string option list option" where
  "sample_row q cols raw =
     (let masks = map (column_mask (pq_table q)) cols
      in (previewDisplay raw masks,
          if list_ex (\<lambda>c. c \<in> fst ` set (pq_after q)) cols then Some (previewDisplay (after_row cols (pq_after q) raw) masks) else None))"

definition readPreviewTable :: "dl_env \<Rightarrow> (string \<Rightarrow> string) \<Rightarrow> previewQuery \<Rightarrow> (dl_error, gdb, previewTable) tx" where
  "readPreviewTable env sha q =
     tx_then (tx_guard (deletionSQLIdentifier (pq_table q)) ErrDeletionIncomplete)
       (select env ''preview'' (pq_table q) (pq_where q) (\<lambda>db.
          let cols = columns_of db (pq_table q); raws = map raw_row (matching db (pq_table q) (pq_where q))
          in \<lparr>pt_Table = pq_table q, pt_Action = pq_action q, pt_Columns = cols,
              pt_MaskedColumns = filter (\<lambda>c. column_mask (pq_table q) c \<noteq> NoMask) cols,
              pt_ChangedColumns = filter (\<lambda>c. c \<in> fst ` set (pq_after q)) cols,
              pt_Count = int (length raws), pt_Rows = map (sample_row q cols) (take previewRowLimit raws),
              pt_rowHashes = map (previewRowHash sha) raws\<rparr>))"

definition line :: "string \<Rightarrow> string" where "line x = x @ [CHR 0x0A]"

definition table_text :: "previewTable \<Rightarrow> string" where
  "table_text t = line (''T'' @ pt_Table t @ ''|'' @ pt_Action t @ ''|'' @ go_Join (CHR '','') (pt_ChangedColumns t) @ ''|'' @ go_Itoa (int (length (pt_rowHashes t))))
     @ concat (map line (sort (pt_rowHashes t)))"

definition file_text :: "string \<Rightarrow> string" where
  "file_text f = line (''F'' @ go_Itoa (int (length f)) @ '':'' @ f)"

definition digest_text :: "previewTable list \<Rightarrow> string list \<Rightarrow> string" where
  "digest_text ts fs = concat (map table_text ts) @ concat (map file_text (sort fs))"

definition previewDigest :: "(string \<Rightarrow> string) \<Rightarrow> previewTable list \<Rightarrow> string list \<Rightarrow> string" where
  "previewDigest sha ts fs = sha (digest_text ts fs)"

fun uniqueStrings_from :: "string list \<Rightarrow> string list \<Rightarrow> string list" where
  "uniqueStrings_from seen [] = []"
| "uniqueStrings_from seen (v # vs) = (if v \<in> set seen then uniqueStrings_from seen vs else v # uniqueStrings_from (v # seen) vs)"

definition uniqueStrings :: "string list \<Rightarrow> string list" where
  "uniqueStrings vs = uniqueStrings_from [] vs"

definition previewEngineBlocker :: "dl_env \<Rightarrow> string \<Rightarrow> (dl_error, gdb, string) tx" where
  "previewEngineBlocker env t =
     tx_bind (get_row (flt env ''engine'') ErrNoRows (\<lambda>db. map_option t_engine (table_of db t))) (\<lambda>e.
     tx_return (if e \<noteq> Some ''InnoDB'' then ''NON_TRANSACTIONAL_TABLE_'' @ t else []))"

section \<open>Erasing a restored member again\<close>

definition footprint_rows :: "gdb \<Rightarrow> string \<Rightarrow> string \<Rightarrow> int \<Rightarrow> nat" where
  "footprint_rows db t c u =
     length (filter (\<lambda>r. t \<noteq> ''ALUMNI_SOCIAL_REVOCATION_OUTBOX'' \<or> (cell (columns_of db t) r ''STATUS'' \<noteq> Null
        \<and> \<not> same_val db (cell (columns_of db t) r ''STATUS'') (StrV ''DELIVERED''))) (matching db t (user_eq c u)))"

definition scanned_columns :: "gdb \<Rightarrow> (string \<times> string) list" where
  "scanned_columns db = filter scanned_column (concat (map (\<lambda>(n, x). if t_base x then map (\<lambda>c. (n, c)) (t_columns x) else []) (catalog db)))"

fun footprint_from :: "dl_env \<Rightarrow> int \<Rightarrow> (string \<times> string) list \<Rightarrow> (dl_error, gdb, (string \<times> string \<times> nat) list) tx" where
  "footprint_from env u [] = tx_return []"
| "footprint_from env u (tc # tcs) =
     tx_then (tx_guard (deletionSQLIdentifier (fst tc) \<and> deletionSQLIdentifier (snd tc)) ErrDeletionIncomplete) (
     tx_bind (query (flt env (''footprint.'' @ fst tc @ ''.'' @ snd tc)) (\<lambda>db. footprint_rows db (fst tc) (snd tc) u)) (\<lambda>n.
     tx_bind (footprint_from env u tcs) (\<lambda>items. tx_return (if n > 0 then (fst tc, snd tc, n) # items else items))))"

definition table_footprint :: "dl_env \<Rightarrow> int \<Rightarrow> (dl_error, gdb, (string \<times> string \<times> nat) list) tx" where
  "table_footprint env u =
     tx_bind (query (flt env ''footprint'') scanned_columns) (\<lambda>tcs.
     tx_bind (footprint_from env u tcs) (\<lambda>items.
     tx_then (tx_guard ((''WEO_MEMBER'', ''USR_SEQ'') \<in> set tcs) ErrDeletionIncomplete) (tx_return items)))"

definition member_email :: "dl_env \<Rightarrow> erasureSchema \<Rightarrow> int \<Rightarrow> (dl_error, gdb, string) tx" where
  "member_email env s u =
     (if \<not> has s ''WEO_MEMBER'' ''USR_EMAIL'' then tx_return []
      else (\<lambda>db. case get_cell env ''WEO_MEMBER'' ''USR_EMAIL'' (user_eq ''USR_SEQ'' u) db of
              Inl ErrNoRows \<Rightarrow> Inr ([], db)
            | Inl e \<Rightarrow> Inl e
            | Inr (v, db') \<Rightarrow> Inr (the (text_of (coalesce v)), db')))"

definition guard_orders :: "dl_env \<Rightarrow> erasureSchema \<Rightarrow> int \<Rightarrow> (dl_error, gdb, unit) tx" where
  "guard_orders env s u =
     (if present s ''WEO_ORDER'' then
        tx_bind (select env ''orders'' ''WEO_ORDER'' (order_of u) (\<lambda>db. length (matching db ''WEO_ORDER'' (order_of u)))) (\<lambda>n.
          tx_guard (n = 0) (ErasureBlocked ''RESTORE_DONATION_REVIEW_REQUIRED''))
      else tx_return ())"

definition reapply_steps :: "erasureSchema \<Rightarrow> int \<Rightarrow> string \<Rightarrow> sql_val list \<Rightarrow> erasureStep list" where
  "reapply_steps s u email fileIDs =
     accountReferenceSteps s u email @ file_steps fileIDs
     @ [(''ALUMNI_SOCIAL_REVOCATION_OUTBOX'', user_eq ''USR_SEQ'' u), (''WEO_MEMBER'', user_eq ''USR_SEQ'' u)]"

definition reapply_tx :: "dl_env \<Rightarrow> url_env \<Rightarrow> int \<Rightarrow> (dl_error, gdb, string list) tx" where
  "reapply_tx env ue u =
     tx_bind (select env ''guarded'' ''ALUMNI_ERASURE_RESTORE_GUARD'' (AndC (user_eq ''USR_SEQ'' u) (AtLeast ''EXPIRES_AT'' (dl_now env)))
        (\<lambda>db. length (matching db ''ALUMNI_ERASURE_RESTORE_GUARD'' (AndC (user_eq ''USR_SEQ'' u) (AtLeast ''EXPIRES_AT'' (dl_now env)))))) (\<lambda>guarded.
     tx_then (tx_guard (guarded \<noteq> 0) ErrNoRows) (
     tx_bind (readErasureSchema env) (\<lambda>s.
     tx_then (guard_orders env s u) (
     tx_bind (member_email env s u) (\<lambda>email.
     tx_bind (planErasureFiles env ue s u) (\<lambda>plan.
     tx_then (erasePostChildren env s u) (
     tx_then (erase_steps env s (reapply_steps s u email (plan_fileIDs plan))) (
     tx_bind (table_footprint env u) (\<lambda>remaining.
     tx_then (tx_guard (remaining = []) (ErasureBlocked ''UNHANDLED_ACCOUNT_REFERENCE''))
       (tx_return (plan_locals plan)))))))))))"

definition ReapplyErasureAfterRestore :: "dl_env \<Rightarrow> url_env \<Rightarrow> int \<Rightarrow> gdb \<Rightarrow> (dl_error, string list) result \<times> gdb" where
  "ReapplyErasureAfterRestore env ue u = transact (flt env ''begin'') (flt env ''commit'') (reapply_tx env ue u)"

end
