(* ===== verification/Erasure_Plan_Props.thy ===== *)
theory Erasure_Plan_Props
  imports Erasure_Preview
begin

text \<open>
  The properties of the erasure plan: the preview is exact, its samples show nothing of a secret column, its
  digest determines the rows.
\<close>

section \<open>The order of the deletions\<close>

lemma reads_all_map: "(\<And>x. x \<in> set xs \<Longrightarrow> reads (snd (f x)) = []) \<Longrightarrow> reads_all (map f xs) = []"
  by (induction xs) auto

lemma ordered_map: "(\<And>x. x \<in> set xs \<Longrightarrow> reads (snd (f x)) = []) \<Longrightarrow> ordered (map f xs)"
  by (induction xs) (auto simp: reads_all_map)

lemma reads_steps:
  "reads (user_eq c u) = []" "reads (message_of u) = []" "reads (subjectMatch u) = [''AUTH_IDENTITY'']"
  by (simp_all add: user_eq_def message_of_def subjectMatch_def)

lemma ordered_subseq: "subseq xs ys \<Longrightarrow> ordered ys \<Longrightarrow> ordered xs \<and> set (reads_all xs) \<subseteq> set (reads_all ys) \<and> fst ` set xs \<subseteq> fst ` set ys"
  by (induction rule: list_emb.induct) auto

text \<open>The rules on a schema that has every table and column they look for; on any other they are fewer.\<close>

definition full_schema :: erasureSchema where
  "full_schema = [(''ALUMNI_PHONE_VERIFICATION'', [''CONSUMED_USR_SEQ'']), (''SUBSCRIPTION'', []), (''ALUMNI_MESSAGE'', []), (''WEO_BANNER_AD_LOG'', [''USR_SEQ'']),
     (''AUTH_IDENTITY'', []), (''AUTH_SIGNUP_CONTINUATION'', []), (''WEO_MEMBER_SOCIAL'', [])]"

lemma full_schema_has:
  "has full_schema ''ALUMNI_PHONE_VERIFICATION'' ''CONSUMED_USR_SEQ''" "present full_schema ''SUBSCRIPTION''" "present full_schema ''ALUMNI_MESSAGE''"
  "has full_schema ''WEO_BANNER_AD_LOG'' ''USR_SEQ''" "present full_schema ''AUTH_IDENTITY''" "present full_schema ''AUTH_SIGNUP_CONTINUATION''"
  "present full_schema ''WEO_MEMBER_SOCIAL''"
  by code_simp+

lemma subseq_cond: "c \<Longrightarrow> subseq xs ys \<Longrightarrow> subseq (if b then xs else []) (if c then ys else [])"
  by simp

lemma identity_steps_sub: "subseq (identity_steps s u) (identity_steps full_schema u)"
  unfolding identity_steps_def by (intro list_emb_append_mono subseq_cond subseq_order.refl full_schema_has)

lemma steps_sub: "subseq (accountReferenceSteps s u email) (accountReferenceSteps full_schema u email)"
  unfolding accountReferenceSteps_def
  by (intro list_emb_append_mono subseq_cond subseq_order.refl identity_steps_sub full_schema_has)

lemma full_steps_ordered:
  "ordered (accountReferenceSteps full_schema u email)" "''WEO_BOARDBBS'' \<notin> set (map fst (accountReferenceSteps full_schema u email))"
  "''WEO_BOARDBBS'' \<notin> set (reads_all (accountReferenceSteps full_schema u email))"
  by code_simp+

lemma accountReferenceSteps_ordered: "ordered (accountReferenceSteps s u email)"
  using ordered_subseq [OF steps_sub] full_steps_ordered(1) by blast

lemma accountReferenceSteps_tables: "''WEO_BOARDBBS'' \<notin> fst ` set (accountReferenceSteps s u email)" "''WEO_BOARDBBS'' \<notin> set (reads_all (accountReferenceSteps s u email))"
  using ordered_subseq [OF steps_sub [of s u email]] full_steps_ordered [of u email] by auto

lemma reapply_ordered: "ordered (reapply_steps s u email ids)" "''WEO_BOARDBBS'' \<notin> fst ` set (reapply_steps s u email ids)"
  "''WEO_BOARDBBS'' \<notin> set (reads_all (reapply_steps s u email ids))"
proof -
  have f: "reads_all (file_steps ids) = []" "ordered (file_steps ids)"
    unfolding file_steps_def by (intro reads_all_map ordered_map; simp)+
  show "ordered (reapply_steps s u email ids)" by (simp add: reapply_steps_def ordered_append accountReferenceSteps_ordered f reads_steps)
  show "''WEO_BOARDBBS'' \<notin> fst ` set (reapply_steps s u email ids)" using accountReferenceSteps_tables(1) by (auto simp: reapply_steps_def file_steps_def)
  show "''WEO_BOARDBBS'' \<notin> set (reads_all (reapply_steps s u email ids))" using accountReferenceSteps_tables(2) by (simp add: reapply_steps_def f reads_steps)
qed

section \<open>Merged queries\<close>

definition covers :: "gdb \<Rightarrow> previewQuery list \<Rightarrow> string \<Rightarrow> string \<Rightarrow> sql_val list \<Rightarrow> bool" where
  "covers db qs a t r = (\<exists>q \<in> set qs. pq_table q = t \<and> pq_action q = a \<and> holds db (columns_of db t) r (pq_where q))"

lemma covers_simps [simp]: "\<not> covers db [] a t r"
  "covers db (q # qs) a t r \<longleftrightarrow> (pq_table q = t \<and> pq_action q = a \<and> holds db (columns_of db t) r (pq_where q)) \<or> covers db qs a t r"
  "covers db (xs @ ys) a t r \<longleftrightarrow> covers db xs a t r \<or> covers db ys a t r"
  by (auto simp: covers_def)

lemma last_index_Some: "last_index qs t = Some i \<Longrightarrow> i < length qs \<and> pq_table (qs ! i) = t"
proof -
  assume "last_index qs t = Some i"
  then have "i \<in> set (filter (\<lambda>i. pq_table (qs ! i) = t) [0..<length qs])"
    unfolding last_index_def by (cases "filter (\<lambda>i. pq_table (qs ! i) = t) [0..<length qs]") (simp, metis last_in_set list.distinct(1) list.simps(5) option.inject)
  then show ?thesis by simp
qed

lemma covers_update:
  assumes "i < length qs" "pq_table (qs ! i) = pq_table q" "pq_action (qs ! i) = pq_action q"
  shows "covers db (qs[i := (qs ! i)\<lparr>pq_where := OrC (pq_where (qs ! i)) (pq_where q)\<rparr>]) a t r \<longleftrightarrow> covers db qs a t r \<or> covers db [q] a t r"
proof -
  have "qs = take i qs @ qs ! i # drop (Suc i) qs" using assms(1) by (simp add: id_take_nth_drop)
  then obtain xs ys where qs: "qs = xs @ qs ! i # ys" and i: "length xs = i" using assms(1) by (metis length_take min.absorb4)
  have "qs[i := y] = xs @ y # ys" for y using qs i by (metis list_update_length)
  then show ?thesis by (subst (2) qs) (use assms(2,3) in auto)
qed

lemma covers_add: "covers db (add_query s qs q) a t r \<longleftrightarrow> covers db qs a t r \<or> (present s (pq_table q) \<and> covers db [q] a t r)"
proof (cases "present s (pq_table q)")
  case True
  show ?thesis
  proof (cases "last_index qs (pq_table q)")
    case None
    then show ?thesis using True by (auto simp: add_query_def)
  next
    case (Some i)
    then show ?thesis using True last_index_Some [OF Some] covers_update [of i qs q] by (auto simp: add_query_def)
  qed
qed (simp add: add_query_def)

lemma covers_fold: "covers db (foldl (add_query s) qs xs) a t r \<longleftrightarrow> covers db qs a t r \<or> covers db (filter (\<lambda>q. present s (pq_table q)) xs) a t r"
  by (induction xs arbitrary: qs) (auto simp: covers_add)

lemma hit_append: "hit db (xs @ ys) t r \<longleftrightarrow> hit db xs t r \<or> hit db ys t r"
  by (auto simp: hit_def)

lemma covers_deletes: "covers db (map delete_query xs) ErasureActionDelete t r \<longleftrightarrow> hit db xs t r"
proof (induction xs)
  case (Cons x xs)
  then show ?case by (auto simp: delete_query_def hit_Cons)
qed (simp add: hit_def)

lemma actions_differ: "ErasureActionDelete \<noteq> ErasureActionAnonymize" "ErasureActionAnonymize \<noteq> ErasureActionDelete"
  by (simp_all add: ErasureActionDelete_def ErasureActionAnonymize_def)

lemma covers_anonymous: "\<not> covers db (map delete_query xs) ErasureActionAnonymize t r"
  by (auto simp: covers_def delete_query_def actions_differ)

lemma covers_filter: "covers db (filter (\<lambda>q. present s (pq_table q)) xs) a t r \<longleftrightarrow> present s t \<and> covers db xs a t r"
  by (induction xs) auto

section \<open>The preview is exact\<close>

lemma present_schema: "present (schema_of db) t \<longleftrightarrow> table_of db t \<noteq> None"
proof -
  have "map_of (map (\<lambda>(n, x). (n, t_columns x)) xs) t = map_option t_columns (map_of xs t)" for xs :: "(string \<times> gtable) list"
    by (induction xs) auto
  then show ?thesis by (simp add: present_def schema_of_def table_of_def)
qed

lemma absent_rows: "\<not> present (schema_of db) t \<Longrightarrow> rows_of db t = []"
  by (simp add: present_schema rows_of_def)

lemma rows_present: "r \<in> set (rows_of db t) \<Longrightarrow> present (schema_of db) t"
  using absent_rows [of db t] by (cases "present (schema_of db) t") auto

lemma guard_orders_ok:
  assumes "guard_orders env (schema_of db) u db = Inr (x, db')"
  shows "db' = db" "matching db ''WEO_ORDER'' (order_of u) = []"
proof -
  have "matching db ''WEO_ORDER'' (order_of u) = []" if "\<not> present (schema_of db) ''WEO_ORDER''"
    using absent_rows [OF that] by (simp add: matching_def)
  then show "db' = db" "matching db ''WEO_ORDER'' (order_of u) = []"
    using assms by (auto simp: guard_orders_def tx_bind_ok select_ok tx_guard_ok tx_return_ok split: if_splits)
qed

lemma posts_ok:
  assumes "erasePostChildren env (schema_of db) u db = Inr (x, db')"
  shows "db' = update_rows ''WEO_BOARDBBS'' (boardAnonymizedColumns (schema_of db)) (user_eq ''USR_SEQ'' u) db"
proof (cases "present (schema_of db) ''WEO_BOARDBBS''")
  case True
  then show ?thesis using assms
    by (auto simp: erasePostChildren_def tx_bind_ok tx_then_ok tx_guard_ok tx_return_ok read_engine_ok statement_ok select_ok split: if_splits)
next
  case False
  have "map (\<lambda>(n, x). (n, if n = t then f x else x)) xs = xs" if "map_of xs t = None" for t f and xs :: "(string \<times> gtable) list"
    using that by (induction xs) (auto split: if_splits)
  then have "update_rows ''WEO_BOARDBBS'' a w db = db" for a w
    using False by (simp add: update_rows_def on_table_def present_schema table_of_def)
  then show ?thesis using False assms by (simp add: erasePostChildren_def tx_return_ok)
qed

lemma member_email_same: "member_email env s u db = Inr (e, db') \<Longrightarrow> db' = db"
  by (auto simp: member_email_def tx_return_ok split: if_splits sum.splits dl_error.splits dest!: get_cell_same)

lemma reads_footprint_from: "establishes (=) (footprint_from env u tcs)"
  by (induction tcs) (auto intro!: unchanged.est_rules)

lemma reads_footprint: "establishes (=) (table_footprint env u)"
  unfolding table_footprint_def by (intro unchanged.est_rules reads_footprint_from)

lemma reads_reject: "establishes (=) (rejectOtherErasureFileReferences env ue s local excluded)"
  by (auto simp: establishes_def rejectOtherErasureFileReferences_def rejectOtherErasureFileReferencesExceptUpload_def scanSurvivingFileReferences_def
      dest: scan_queries_ok)

lemma reads_plan_urls: "establishes (=) (plan_urls env ue s u own seen urls)"
proof (induction urls arbitrary: seen)
  case (Cons raw urls)
  show ?case
    by (auto simp: establishes_def tx_bind_ok tx_then_ok tx_guard_ok tx_return_ok file_path_ok split: if_splits
        dest!: unchangedD [OF reads_reject] unchangedD [OF reads_when [OF reads_file_rows]] unchangedD [OF Cons.IH])
qed (auto intro: unchanged.est_rules)

lemma reads_plan: "establishes (=) (planErasureFiles env ue s u)"
  by (auto simp: establishes_def planErasureFiles_def tx_bind_ok tx_fail_ok split: sum.split_asm
      dest!: unchangedD [OF reads_candidates] unchangedD [OF reads_plan_urls])

lemma rows_of_update:
  "rows_of (update_rows t sets w db) n = (if n = t then sql_update (\<lambda>r. holds db (columns_of db t) r w) (set_cells (columns_of db t) sets) (rows_of db t) else rows_of db n)"
  by (cases "n = t"; cases "table_of db n") (simp_all add: update_rows_def rows_of_on_table rows_of_def columns_of_def)

lemma reapplyD:
  assumes "ReapplyErasureAfterRestore env ue u db = (Inr locals, db')"
  obtains email plan db1 where "member_email env (schema_of db) u db = Inr (email, db)" "planErasureFiles env ue (schema_of db) u db = Inr (plan, db)"
    "locals = plan_locals plan" "matching db ''WEO_ORDER'' (order_of u) = []"
    "db1 = update_rows ''WEO_BOARDBBS'' (boardAnonymizedColumns (schema_of db)) (user_eq ''USR_SEQ'' u) db"
    "erase_steps env (schema_of db) (reapply_steps (schema_of db) u email (plan_fileIDs plan)) db1 = Inr ((), db')"
    "table_footprint env u db' = Inr ([], db')"
proof -
  have tx: "reapply_tx env ue u db = Inr (locals, db')" using assms by (simp add: ReapplyErasureAfterRestore_def transact_ok)
  obtain d0 d1 d2 d3 d4 d5 email plan where
    g: "guard_orders env (schema_of db) u db = Inr ((), d1)" and em: "member_email env (schema_of db) u d1 = Inr (email, d2)"
    and pl: "planErasureFiles env ue (schema_of db) u d2 = Inr (plan, d3)" and po: "erasePostChildren env (schema_of db) u d3 = Inr ((), d4)"
    and st: "erase_steps env (schema_of db) (reapply_steps (schema_of db) u email (plan_fileIDs plan)) d4 = Inr ((), d5)"
    and fp: "table_footprint env u d5 = Inr ([], db')" and l: "locals = plan_locals plan"
    using tx by (auto simp: reapply_tx_def tx_bind_ok tx_then_ok tx_guard_ok tx_return_ok select_ok schema_ok)
  have d1: "d1 = db" by (rule guard_orders_ok(1) [OF g])
  have d2: "d2 = db" using member_email_same [OF em] d1 by simp
  have d3: "d3 = db" by (rule unchangedD [OF reads_plan pl [unfolded d2]])
  have d5: "db' = d5" by (rule unchangedD [OF reads_footprint fp])
  show ?thesis
    by (rule that [of email plan d4]) (use em pl po st fp l guard_orders_ok(2) [OF g] posts_ok [OF po [unfolded d3]] d1 d2 d3 d5 in auto)
qed

lemma file_hit: "hit db (file_steps ids) t r \<longleftrightarrow> t = ''WEO_FILES'' \<and> holds db (columns_of db t) r (InVals ''F_SEQ'' ids)"
  by (auto simp: hit_def file_steps_def)

lemma no_order_hit:
  assumes "matching db ''WEO_ORDER'' (order_of u) = []"
  shows "\<not> holds db cols r (InSelect c c' ''WEO_ORDER'' (order_of u))" "r \<in> set (rows_of db ''WEO_ORDER'') \<Longrightarrow> \<not> holds db (columns_of db ''WEO_ORDER'') r (order_of u)"
  using assms by (auto simp: matching_def filter_empty_conv)

text \<open>What a merged deletion query of the preview covers when the member has no donations.\<close>

lemma preview_covers:
  assumes "matching db ''WEO_ORDER'' (order_of u) = []" "r \<in> set (rows_of db t)"
  shows "covers db (erasurePreviewQueries (schema_of db) u email ids) ErasureActionDelete t r
    \<longleftrightarrow> hit db (accountReferenceSteps (schema_of db) u email @ file_steps ids @ [(''WEO_MEMBER'', user_eq ''USR_SEQ'' u)]) t r"
proof -
  have p: "present (schema_of db) t" by (rule rows_present [OF assms(2)])
  let ?a = ErasureActionDelete
  have files: "covers db (if ids \<noteq> [] then [delete_query (''WEO_FILES'', InVals ''F_SEQ'' ids)] else []) ?a t r \<longleftrightarrow> hit db (file_steps ids) t r"
    by (auto simp: file_hit delete_query_def)
  have orders: "\<not> covers db (if present (schema_of db) ''WEO_ORDER'' then
          [delete_query (''WEO_PG_DATA'', InSelect ''O_SEQ'' ''O_SEQ'' ''WEO_ORDER'' (order_of u)),
           delete_query (''WEO_ORDER'', order_of u),
           delete_query (''ALUMNI_DONATION_RETENTION'', InSelect ''O_SEQ'' ''O_SEQ'' ''WEO_ORDER'' (order_of u))] else []) ?a t r"
    using no_order_hit [OF assms(1)] assms(2) by (auto simp: delete_query_def simp del: holds.simps)
  have "covers db (plan_queries (schema_of db) u email ids) ?a t r
    \<longleftrightarrow> hit db (file_steps ids) t r \<or> hit db (accountReferenceSteps (schema_of db) u email) t r \<or> hit db [(''WEO_MEMBER'', user_eq ''USR_SEQ'' u)] t r"
    unfolding plan_queries_def covers_simps(3) files covers_deletes
    using orders by (simp add: covers_deletes [of db "[(''WEO_MEMBER'', user_eq ''USR_SEQ'' u)]", symmetric] ErasureActionDelete_def ErasureActionAnonymize_def)
  then show ?thesis unfolding erasurePreviewQueries_def covers_fold covers_filter hit_append using p by auto
qed

lemma anonymize_covers:
  "covers db (erasurePreviewQueries s u email ids) ErasureActionAnonymize ''WEO_BOARDBBS'' r
     \<longleftrightarrow> present s ''WEO_BOARDBBS'' \<and> holds db (columns_of db ''WEO_BOARDBBS'') r (user_eq ''USR_SEQ'' u)"
proof -
  let ?a = ErasureActionAnonymize
  have "\<not> covers db (if ids \<noteq> [] then [delete_query (''WEO_FILES'', InVals ''F_SEQ'' ids)] else []) ?a t r" for t
    by (simp add: delete_query_def actions_differ)
  moreover have "\<not> covers db (if present s ''WEO_ORDER'' then
          [delete_query (''WEO_PG_DATA'', InSelect ''O_SEQ'' ''O_SEQ'' ''WEO_ORDER'' (order_of u)),
           delete_query (''WEO_ORDER'', order_of u),
           delete_query (''ALUMNI_DONATION_RETENTION'', InSelect ''O_SEQ'' ''O_SEQ'' ''WEO_ORDER'' (order_of u))] else []) ?a t r" for t
    by (simp add: delete_query_def actions_differ)
  ultimately show ?thesis
    unfolding erasurePreviewQueries_def covers_fold covers_filter plan_queries_def covers_simps(3)
    using covers_anonymous by (simp add: delete_query_def [of "(''WEO_MEMBER'', user_eq ''USR_SEQ'' u)"])
qed


section \<open>Samples show nothing of a secret\<close>

text \<open>What an operator may learn of a value: all of it, its length in runes, or only whether there is one.\<close>

definition visible :: "mask \<Rightarrow> string option \<Rightarrow> string option \<Rightarrow> bool" where
  "visible m v w = (case m of NoMask \<Rightarrow> v = w | MaskPrivate \<Rightarrow> map_option rune_count v = map_option rune_count w | MaskSecret \<Rightarrow> (v = None) = (w = None))"

lemma visible_display: "visible m v w \<Longrightarrow> map_option (display_value m) v = map_option (display_value m) w"
  by (cases m; cases v; cases w) (auto simp: visible_def display_value_def)

lemma visible_after:
  assumes "list_all2 (\<lambda>c (v, w). visible (column_mask t c) v w) cols (zip raw raw')" "length raw' = length raw"
  shows "list_all2 (\<lambda>c (v, w). visible (column_mask t c) v w) cols (zip (after_row cols sets raw) (after_row cols sets raw'))"
  using assms by (auto simp: list_all2_conv_all_nth after_row_def visible_def split: option.splits mask.splits)

lemma display_cong:
  assumes "list_all2 (\<lambda>c (v, w). visible (column_mask t c) v w) cols (zip raw raw')" "length raw' = length raw"
  shows "previewDisplay raw (map (column_mask t) cols) = previewDisplay raw' (map (column_mask t) cols)"
  using assms by (auto simp: previewDisplay_def list_all2_conv_all_nth intro!: nth_equalityI visible_display)

text \<open>The sample of a row shows nothing of a secret column but whether it is \<open>NULL\<close>, and of a private text only
  its length: rows that agree on everything else have the same sample, before and after.\<close>

theorem preview_hides_secrets:
  assumes "length raw = length cols" "length raw' = length cols"
    and "\<And>i. i < length cols \<Longrightarrow> visible (column_mask (pq_table q) (cols ! i)) (raw ! i) (raw' ! i)"
  shows "sample_row q cols raw = sample_row q cols raw'"
proof -
  have v: "list_all2 (\<lambda>c (v, w). visible (column_mask (pq_table q) c) v w) cols (zip raw raw')"
    using assms by (simp add: list_all2_conv_all_nth)
  have l: "length raw' = length raw" using assms by simp
  have a: "length (after_row cols x raw') = length (after_row cols x raw)" for x using assms by (simp add: after_row_def)
  show ?thesis by (simp add: sample_row_def Let_def display_cong [OF v l] display_cong [OF visible_after [OF v l] a])
qed

section \<open>The digest determines the rows\<close>

lemma sep_inj: "c \<notin> set xs \<Longrightarrow> c \<notin> set xs' \<Longrightarrow> xs @ c # ys = xs' @ c # ys' \<Longrightarrow> xs = xs' \<and> ys = ys'"
proof (induction xs arbitrary: xs')
  case Nil
  then show ?case by (cases xs') auto
next
  case (Cons x xs)
  then show ?case by (cases xs') auto
qed

lemma digits_inj: "0 \<le> m \<Longrightarrow> 0 \<le> n \<Longrightarrow> show_digits m = show_digits n \<Longrightarrow> m = n"
proof (induction m arbitrary: n rule: show_digits.induct)
  case (1 m)
  have d: "digit_char (a mod 10) = digit_char (b mod 10) \<Longrightarrow> a mod 10 = b mod 10" for a b :: int
    by (metis digit_val_digit_char pos_mod_bound pos_mod_sign zero_less_numeral)
  show ?case
  proof (cases "m < 10")
    case True
    then have "show_digits n = [digit_char m]" using 1(4) by (subst (asm) show_digits.simps) simp
    then have "n < 10 \<and> digit_char n = digit_char m" by (subst (asm) show_digits.simps) (simp split: if_splits)
    then show ?thesis using True 1(2,3) d [of m n] by simp
  next
    case False
    then have *: "show_digits n = show_digits (m div 10) @ [digit_char (m mod 10)]" using 1(4) by (subst (asm) show_digits.simps) simp
    then have "\<not> n < 10" using show_digits_nonempty [of "m div 10"] by (subst (asm) show_digits.simps) (simp split: if_splits del: show_digits_nonempty)
    then have "show_digits (n div 10) = show_digits (m div 10)" "digit_char (n mod 10) = digit_char (m mod 10)"
      using * by (subst (asm) show_digits.simps, simp)+
    then have "m div 10 = n div 10" "m mod 10 = n mod 10" using 1(1) [of "n div 10"] 1(2,3) False d [of m n] by auto
    then show ?thesis by (metis div_mult_mod_eq)
  qed
qed

lemma itoa_nat: "go_Itoa (int n) = show_digits (int n)"
  by (simp add: go_Itoa_def)

lemma itoa_inj: "go_Itoa (int m) = go_Itoa (int n) \<Longrightarrow> m = n"
  using digits_inj [of "int m" "int n"] by (simp add: itoa_nat)

lemma itoa_plain: "\<not> is_digit c \<Longrightarrow> c \<notin> set (go_Itoa (int n))"
  using show_digits_digits by (auto simp: itoa_nat)

lemma sized_inj:
  assumes "go_Itoa (int (length x)) @ CHR '':'' # x @ r = go_Itoa (int (length y)) @ CHR '':'' # y @ r'"
  shows "x = y \<and> r = r'"
proof -
  have c: "CHR '':'' \<notin> set (go_Itoa (int n))" for n by (rule itoa_plain) code_simp
  have "go_Itoa (int (length x)) = go_Itoa (int (length y)) \<and> x @ r = y @ r'" by (rule sep_inj [OF c c assms])
  then show ?thesis using itoa_inj by auto
qed

lemma row_bytes_inj: "row_bytes vs = row_bytes ws \<Longrightarrow> vs = ws"
proof (induction vs arbitrary: ws)
  case Nil
  then show ?case by (cases ws) (auto simp: row_bytes_def split: option.splits)
next
  case (Cons v vs)
  then obtain w ws' where ws: "ws = w # ws'" by (cases ws) (auto simp: row_bytes_def split: option.splits)
  have cons: "row_bytes (y # ys) = (case y of None \<Rightarrow> ''N;'' | Some x \<Rightarrow> ''V'' @ go_Itoa (int (length x)) @ '':'' @ x @ '';'') @ row_bytes ys" for y ys
    by (simp add: row_bytes_def)
  have "v = w \<and> row_bytes vs = row_bytes ws'"
  proof (cases v; cases w)
    fix x y assume vw: "v = Some x" "w = Some y"
    then have "go_Itoa (int (length x)) @ CHR '':'' # x @ (CHR '';'' # row_bytes vs) = go_Itoa (int (length y)) @ CHR '':'' # y @ (CHR '';'' # row_bytes ws')"
      using Cons.prems by (simp add: ws cons)
    then show ?thesis using sized_inj [of x _ y] vw by blast
  qed (use Cons.prems in \<open>simp_all add: ws cons\<close>)
  then show ?case using Cons.IH ws by blast
qed

definition plain_text :: "string \<Rightarrow> bool" where
  "plain_text x = (CHR 0x0A \<notin> set x \<and> CHR ''|'' \<notin> set x)"

definition plain_table :: "previewTable \<Rightarrow> bool" where
  "plain_table t = (plain_text (pt_Table t) \<and> plain_text (pt_Action t) \<and> plain_text (go_Join (CHR '','') (pt_ChangedColumns t))
     \<and> (\<forall>h \<in> set (pt_rowHashes t). CHR 0x0A \<notin> set h))"

lemma lines_inj:
  "length xs = length ys \<Longrightarrow> \<forall>x \<in> set xs \<union> set ys. CHR 0x0A \<notin> set x \<Longrightarrow> concat (map line xs) @ r = concat (map line ys) @ r' \<Longrightarrow> xs = ys \<and> r = r'"
proof (induction xs ys rule: list_induct2)
  case (Cons x xs y ys)
  have "x @ CHR 0x0A # (concat (map line xs) @ r) = y @ CHR 0x0A # (concat (map line ys) @ r')" using Cons.prems(2) by (simp add: line_def [of x] line_def [of y])
  then have "x = y \<and> concat (map line xs) @ r = concat (map line ys) @ r'" using Cons.prems(1) by (intro sep_inj) auto
  then show ?case using Cons by auto
qed simp

lemma table_text_inj:
  assumes "plain_table t" "plain_table t'" "table_text t @ r = table_text t' @ r'"
  shows "pt_Table t = pt_Table t' \<and> pt_Action t = pt_Action t' \<and> sort (pt_rowHashes t) = sort (pt_rowHashes t') \<and> r = r'"
proof -
  let ?c = "\<lambda>t. go_Join (CHR '','') (pt_ChangedColumns t)" and ?n = "\<lambda>t. go_Itoa (int (length (pt_rowHashes t)))"
  let ?head = "\<lambda>t. pt_Table t @ CHR ''|'' # pt_Action t @ CHR ''|'' # ?c t @ CHR ''|'' # ?n t"
  have n: "CHR 0x0A \<notin> set (?n t)" for t by (rule itoa_plain) code_simp
  have h: "CHR 0x0A \<notin> set (?head t)" if "plain_table t" for t using that n [of t] by (auto simp: plain_table_def plain_text_def)
  have e: "?head t @ CHR 0x0A # (concat (map line (sort (pt_rowHashes t))) @ r) = ?head t' @ CHR 0x0A # (concat (map line (sort (pt_rowHashes t'))) @ r')"
    using assms(3) unfolding table_text_def line_def [of "''T'' @ _"] by simp
  have heads: "?head t = ?head t'" and body: "concat (map line (sort (pt_rowHashes t))) @ r = concat (map line (sort (pt_rowHashes t'))) @ r'"
    using sep_inj [OF h [OF assms(1)] h [OF assms(2)] e] by blast+
  have t: "pt_Table t = pt_Table t' \<and> pt_Action t @ CHR ''|'' # ?c t @ CHR ''|'' # ?n t = pt_Action t' @ CHR ''|'' # ?c t' @ CHR ''|'' # ?n t'"
    using assms(1,2) by (intro sep_inj [OF _ _ heads]) (auto simp: plain_table_def plain_text_def)
  then have b: "pt_Action t @ CHR ''|'' # ?c t @ CHR ''|'' # ?n t = pt_Action t' @ CHR ''|'' # ?c t' @ CHR ''|'' # ?n t'" by blast
  have a: "pt_Action t = pt_Action t' \<and> ?c t @ CHR ''|'' # ?n t = ?c t' @ CHR ''|'' # ?n t'"
    using assms(1,2) by (intro sep_inj [OF _ _ b]) (auto simp: plain_table_def plain_text_def)
  then have c: "?c t @ CHR ''|'' # ?n t = ?c t' @ CHR ''|'' # ?n t'" by blast
  have "?c t = ?c t' \<and> ?n t = ?n t'" using assms(1,2) by (intro sep_inj [OF _ _ c]) (auto simp: plain_table_def plain_text_def)
  then have len: "length (pt_rowHashes t) = length (pt_rowHashes t')" using itoa_inj by blast
  have "sort (pt_rowHashes t) = sort (pt_rowHashes t') \<and> r = r'"
    using assms(1,2) len body by (intro lines_inj) (auto simp: plain_table_def)
  then show ?thesis using t a by blast
qed

lemma files_inj: "concat (map file_text fs) = concat (map file_text gs) \<Longrightarrow> fs = gs"
proof (induction fs arbitrary: gs)
  case Nil
  then show ?case by (cases gs) (auto simp: file_text_def line_def)
next
  case (Cons f fs)
  then obtain g gs' where gs: "gs = g # gs'" by (cases gs) (auto simp: file_text_def line_def)
  have "go_Itoa (int (length f)) @ CHR '':'' # f @ (CHR 0x0A # concat (map file_text fs)) = go_Itoa (int (length g)) @ CHR '':'' # g @ (CHR 0x0A # concat (map file_text gs'))"
    using Cons.prems by (simp add: gs file_text_def [of f] file_text_def [of g] line_def)
  then have "f = g \<and> CHR 0x0A # concat (map file_text fs) = CHR 0x0A # concat (map file_text gs')" by (rule sized_inj)
  then show ?case using Cons.IH gs by blast
qed

lemma files_head: "concat (map file_text fs) = [] \<or> hd (concat (map file_text fs)) = CHR ''F''"
  by (cases fs) (auto simp: file_text_def line_def)

lemma table_head: "table_text t @ r \<noteq> [] \<and> hd (table_text t @ r) = CHR ''T''"
  by (simp add: table_text_def line_def)

lemma digest_text_inj:
  assumes "list_all plain_table ts" "list_all plain_table ts'" "concat (map table_text ts) @ concat (map file_text fs) = concat (map table_text ts') @ concat (map file_text gs)"
  shows "list_all2 (\<lambda>t t'. pt_Table t = pt_Table t' \<and> pt_Action t = pt_Action t' \<and> mset (pt_rowHashes t) = mset (pt_rowHashes t')) ts ts' \<and> fs = gs"
  using assms
proof (induction ts arbitrary: ts')
  case Nil
  show ?case
  proof (cases ts')
    case Nil
    then show ?thesis using Nil.prems files_inj by simp
  next
    case (Cons t us)
    then have "concat (map file_text fs) = table_text t @ (concat (map table_text us) @ concat (map file_text gs))" using Nil.prems by simp
    then show ?thesis using files_head [of fs] table_head [of t "concat (map table_text us) @ concat (map file_text gs)"] by auto
  qed
next
  case (Cons t ts)
  show ?case
  proof (cases ts')
    case Nil
    then have "concat (map file_text gs) = table_text t @ (concat (map table_text ts) @ concat (map file_text fs))" using Cons.prems by simp
    then show ?thesis using files_head [of gs] table_head [of t "concat (map table_text ts) @ concat (map file_text fs)"] by auto
  next
    case (Cons t' us)
    then have "table_text t @ (concat (map table_text ts) @ concat (map file_text fs)) = table_text t' @ (concat (map table_text us) @ concat (map file_text gs))"
      using Cons.prems by simp
    note eq = table_text_inj [OF _ _ this]
    then show ?thesis using Cons.IH [of us] Cons.prems Cons \<open>ts' = t' # us\<close> by (auto dest: arg_cong [of "sort _" _ mset])
  qed
qed

definition plain_query :: "previewQuery \<Rightarrow> bool" where
  "plain_query q = (plain_text (pq_action q) \<and> list_all (\<lambda>x. plain_text (fst x)) (pq_after q))"

lemma set_go_Join: "set (go_Join c xs) \<subseteq> insert c (\<Union> (set ` set xs))"
proof (induction xs)
  case (Cons x xs)
  then show ?case by (cases xs) auto
qed simp

lemma identifier_plain: "deletionSQLIdentifier x \<Longrightarrow> plain_text x"
proof -
  let ?A = "''ABCDEFGHIJKLMNOPQRSTUVWXYZabcdefghijklmnopqrstuvwxyz0123456789_''"
  assume "deletionSQLIdentifier x"
  then have "\<forall>c \<in> set x. c \<in> set ?A" unfolding deletionSQLIdentifier_def list_all_iff by blast
  moreover have "CHR 0x0A \<notin> set ?A" "CHR ''|'' \<notin> set ?A" by code_simp+
  ultimately show "plain_text x" unfolding plain_text_def by blast
qed

lemma tx_map_ok: "tx_map f xs db = Inr (ys, db') \<Longrightarrow> (\<And>x. establishes (=) (f x)) \<Longrightarrow> db' = db \<and> list_all2 (\<lambda>x y. f x db = Inr (y, db)) xs ys"
  by (induction xs arbitrary: ys db') (auto simp: tx_return_ok tx_bind_ok dest: unchangedD)

lemma reads_preview: "establishes (=) (readPreviewTable env sha q)"
  by (auto simp: establishes_def readPreviewTable_def tx_then_ok tx_guard_ok select_ok)

lemma readPreviewTableD:
  assumes "readPreviewTable env sha q db = Inr (t, db')" "plain_query q" "\<And>x. CHR 0x0A \<notin> set (sha x)"
  shows "plain_table t" "pt_Table t = pq_table q" "pt_Action t = pq_action q"
    "pt_rowHashes t = map (previewRowHash sha) (map raw_row (matching db (pq_table q) (pq_where q)))"
proof -
  let ?ch = "filter (\<lambda>c. c \<in> fst ` set (pq_after q)) (columns_of db (pq_table q))"
  have "plain_text (go_Join (CHR '','') ?ch)" using assms(2) set_go_Join [of "CHR '',''" ?ch] by (force simp: plain_query_def plain_text_def list_all_iff)
  then show "plain_table t" "pt_Table t = pq_table q" "pt_Action t = pq_action q"
    "pt_rowHashes t = map (previewRowHash sha) (map raw_row (matching db (pq_table q) (pq_where q)))"
    using assms by (auto simp: readPreviewTable_def tx_then_ok tx_guard_ok select_ok Let_def plain_table_def plain_query_def identifier_plain previewRowHash_def)
qed

lemma hashes_inj:
  assumes "inj sha" "mset (map (previewRowHash sha) xs) = mset (map (previewRowHash sha) ys)"
  shows "mset xs = mset ys"
proof -
  have "inj (previewRowHash sha)" using assms(1) row_bytes_inj by (auto simp: inj_def previewRowHash_def)
  then show ?thesis using assms(2) multiset.inj_map [of "previewRowHash sha"] by (simp add: inj_def)
qed

text \<open>C23. The digest of a plan determines it: if the digest computed later equals the reviewed one, then the same
  tables are affected in the same way, each in the same rows with the same values, and the same files are
  unlinked. \<open>sha\<close> is taken to be injective (no collision) and to print no line feed.\<close>

theorem digest_binds_rows:
  assumes "inj sha" "\<And>x. CHR 0x0A \<notin> set (sha x)" "list_all plain_query (qs @ qs')"
    and "tx_map (readPreviewTable env sha) qs db = Inr (ts, db1)" "tx_map (readPreviewTable env' sha) qs' db' = Inr (ts', db1')"
    and "previewDigest sha ts fs = previewDigest sha ts' fs'"
  shows "mset fs = mset fs' \<and> list_all2 (\<lambda>q q'. pq_table q = pq_table q' \<and> pq_action q = pq_action q'
    \<and> mset (map raw_row (matching db (pq_table q) (pq_where q))) = mset (map raw_row (matching db' (pq_table q') (pq_where q')))) qs qs'"
proof -
  have l: "list_all2 (\<lambda>q t. readPreviewTable env sha q db = Inr (t, db)) qs ts" using tx_map_ok [OF assms(4) reads_preview] by blast
  have l': "list_all2 (\<lambda>q t. readPreviewTable env' sha q db' = Inr (t, db')) qs' ts'" using tx_map_ok [OF assms(5) reads_preview] by blast
  have plain: "plain_query q" if "q \<in> set qs \<union> set qs'" for q using assms(3) that by (auto simp: list_all_iff)
  note D = readPreviewTableD [OF _ plain assms(2)]
  have "list_all plain_table ts" "list_all plain_table ts'"
    using l l' D(1) by (auto simp: list_all_length list_all2_conv_all_nth)
  moreover have "digest_text ts fs = digest_text ts' fs'" using assms(1,6) by (simp add: previewDigest_def inj_eq)
  ultimately have eq: "list_all2 (\<lambda>t t'. pt_Table t = pt_Table t' \<and> pt_Action t = pt_Action t' \<and> mset (pt_rowHashes t) = mset (pt_rowHashes t')) ts ts'"
    and f: "sort fs = sort fs'" using digest_text_inj unfolding digest_text_def by blast+
  have "pq_table (qs ! i) = pq_table (qs' ! i) \<and> pq_action (qs ! i) = pq_action (qs' ! i)
    \<and> mset (map raw_row (matching db (pq_table (qs ! i)) (pq_where (qs ! i)))) = mset (map raw_row (matching db' (pq_table (qs' ! i)) (pq_where (qs' ! i))))"
    if i: "i < length qs" for i
  proof -
    have r: "readPreviewTable env sha (qs ! i) db = Inr (ts ! i, db)" "qs ! i \<in> set qs \<union> set qs'" using l i by (auto simp: list_all2_conv_all_nth)
    have i': "i < length qs'" "i < length ts" using l l' eq i by (auto simp: list_all2_conv_all_nth)
    have r': "readPreviewTable env' sha (qs' ! i) db' = Inr (ts' ! i, db')" "qs' ! i \<in> set qs \<union> set qs'" using l' i' by (auto simp: list_all2_conv_all_nth)
    have "pt_Table (ts ! i) = pt_Table (ts' ! i) \<and> pt_Action (ts ! i) = pt_Action (ts' ! i) \<and> mset (pt_rowHashes (ts ! i)) = mset (pt_rowHashes (ts' ! i))"
      using eq i'(2) by (simp add: list_all2_conv_all_nth)
    then show ?thesis unfolding D(2-4) [OF r] D(2-4) [OF r'] using hashes_inj [OF assms(1)] by blast
  qed
  moreover have "length qs = length qs'" using l l' eq by (auto simp: list_all2_conv_all_nth)
  moreover have "mset fs = mset fs'" using arg_cong [OF f, of mset] by simp
  ultimately show ?thesis unfolding list_all2_conv_all_nth by blast
qed

section \<open>Instances\<close>

definition demo_restored :: gdb where
  "demo_restored = \<lparr>catalog = [
     (''ALUMNI_ERASURE_RESTORE_GUARD'', \<lparr>t_columns = [''REQUEST_ID'', ''USR_SEQ'', ''EXPIRES_AT''], t_engine = Some ''InnoDB'', t_base = True, t_rows = [[IntV 1, IntV 7, IntV 100]]\<rparr>),
     (''ALUMNI_UPLOAD_OWNER'', \<lparr>t_columns = [''F_SEQ'', ''USR_SEQ'', ''URL_PATH''], t_engine = Some ''InnoDB'', t_base = True, t_rows = [[IntV 1, IntV 7, StrV ''/upload/a'']]\<rparr>),
     (''WEO_MEMBER'', \<lparr>t_columns = [''USR_SEQ'', ''USR_PWD''], t_engine = Some ''InnoDB'', t_base = True, t_rows = [[IntV 7, StrV ''x''], [IntV 8, StrV ''y'']]\<rparr>)],
     same_val = (=)\<rparr>"


definition demo_query :: previewQuery where
  "demo_query = \<lparr>pq_table = ''WEO_MEMBER'', pq_action = ErasureActionDelete, pq_where = Lit True, pq_after = []\<rparr>"

lemma preview_hides_secrets_witness:
  "sample_row demo_query [''USR_SEQ'', ''USR_PWD''] [Some ''7'', Some ''x''] = sample_row demo_query [''USR_SEQ'', ''USR_PWD''] [Some ''7'', Some ''y'']"
proof (rule preview_hides_secrets)
  have "visible (column_mask ''WEO_MEMBER'' ''USR_SEQ'') (Some ''7'') (Some ''7'')" "visible (column_mask ''WEO_MEMBER'' ''USR_PWD'') (Some ''x'') (Some ''y'')" by code_simp+
  then show "visible (column_mask (pq_table demo_query) ([''USR_SEQ'', ''USR_PWD''] ! i)) ([Some ''7'', Some ''x''] ! i) ([Some ''7'', Some ''y''] ! i)"
    if "i < length [''USR_SEQ'', ''USR_PWD'']" for i using that by (auto simp: demo_query_def less_Suc_eq)
qed simp_all

text \<open>An injective function without line feeds in place of the hash: they are escaped.\<close>

definition escape :: "char \<Rightarrow> string" where
  "escape c = (if c = CHR 0x0A then ''ab'' else if c = CHR ''a'' then ''aa'' else [c])"

definition spell :: "string \<Rightarrow> string" where
  "spell x = concat (map escape x)"

lemma escape_inj: "escape c @ r = escape d @ r' \<Longrightarrow> c = d \<and> r = r'"
  by (auto simp: escape_def split: if_splits)

lemma spell_inj: "inj spell"
proof (rule injI)
  show "spell x = spell y \<Longrightarrow> x = y" for x y
  proof (induction x arbitrary: y)
    case Nil
    then show ?case by (cases y) (auto simp: spell_def escape_def split: if_splits)
  next
    case (Cons c x)
    then obtain d y' where y: "y = d # y'" by (cases y) (auto simp: spell_def escape_def split: if_splits)
    have "escape c @ spell x = escape d @ spell y'" using Cons.prems by (simp add: y spell_def)
    then show ?case using escape_inj Cons.IH y by blast
  qed
qed

lemma spell_plain: "CHR 0x0A \<notin> set (spell x)"
  by (auto simp: spell_def escape_def split: if_splits)

definition demo_reordered :: gdb where
  "demo_reordered = on_table ''WEO_MEMBER'' (\<lambda>t. t\<lparr>t_rows := rev (t_rows t)\<rparr>) demo_restored"

lemma digest_binds_rows_witness:
  "mset [''/files/a'', ''/files/b''] = mset [''/files/b'', ''/files/a'']
   \<and> mset (map raw_row (matching demo_restored ''WEO_MEMBER'' (Lit True))) = mset (map raw_row (matching demo_reordered ''WEO_MEMBER'' (Lit True)))"
proof -
  let ?r = "tx_map (readPreviewTable demo_fenv spell) [demo_query] demo_restored" and ?r' = "tx_map (readPreviewTable demo_fenv spell) [demo_query] demo_reordered"
  have e: "(case (?r, ?r') of (Inr (ts, _), Inr (ts', _)) \<Rightarrow>
     previewDigest spell ts [''/files/a'', ''/files/b''] = previewDigest spell ts' [''/files/b'', ''/files/a''] | _ \<Rightarrow> False)" by code_simp
  obtain ts db1 where r: "?r = Inr (ts, db1)" using e by (auto split: sum.splits)
  obtain ts' db1' where r': "?r' = Inr (ts', db1')" using e r by (auto split: sum.splits)
  have d: "previewDigest spell ts [''/files/a'', ''/files/b''] = previewDigest spell ts' [''/files/b'', ''/files/a'']" using e r r' by simp
  have p: "list_all plain_query ([demo_query] @ [demo_query])" by code_simp
  show ?thesis using digest_binds_rows [OF spell_inj spell_plain p r r' d] by (simp add: demo_query_def)
qed

end
