(* ===== verification/Erasure_Worker.thy ===== *)
theory Erasure_Worker
  imports Deletion_Invariants Erasure_Files
begin

text \<open>
  The automatic erasure worker (\<^verbatim>\<open>service/account_erasure.go\<close>, \<^verbatim>\<open>account_erasure_context.go\<close>,
  \<^verbatim>\<open>account_erasure_preflight.go\<close>, \<^verbatim>\<open>account_erasure_targets.go\<close>) over the interface of its store, the cipher of its
  protected context (\<^verbatim>\<open>account_erasure_context_cipher.go\<close>) and the two external processors
  (\<^verbatim>\<open>account_erasure_external.go\<close>, \<^verbatim>\<open>account_erasure_internal_verifier.go\<close>). Every call may change the state it is
  given. The loop over the queued files has no bound in the code; it is a partial function, and that it returns
  is a theorem.
\<close>

section \<open>Data\<close>

record DonationRetentionDecision =
  rd_SourceFingerprint :: string
  rd_OrderID :: int
  rd_Basis :: string
  rd_BasisDate :: "int option"
  rd_Until :: "int option"
  rd_Evidence :: string

record ErasureExternalSubject =
  ExternalFileURLs :: "string list"
  RequiredTargets :: "string list"
  Retentions :: "DonationRetentionDecision list"
  SubjectRequestID :: int
  SubjectUserSeq :: int
  Login :: string
  Email :: string
  Phone :: string
  ProviderSubjects :: "string list"

record ErasureReceiptWork =
  WorkStatus :: string
  WorkOriginalStorage :: string
  WorkEvidence :: string
  WorkUpdatedAt :: int
  WorkCompletedAt :: "int option"

text \<open>The work of a batch with the retentions that \<open>preserveContext\<close> adds to it.\<close>

type_synonym job = "ErasureWork \<times> DonationRetentionDecision list"

type_synonym 'd unlink = "string \<Rightarrow> 'd \<Rightarrow> dl_error option \<times> 'd"

record ('s, 'd) erasure_store =
  ae_PrepareErasure :: "ErasureWork \<Rightarrow> ('s, unit) call"
  ae_ErasureLock :: "('s, bool) call"
  ae_release :: "'s \<Rightarrow> 's"
  ae_PurgeExpiredRestoreGuards :: "('s, unit) call option"
  ae_ErasureBatch :: "('s, ErasureWork list) call"
  ae_ErasureActive :: "int \<Rightarrow> ('s, bool) call"
  ae_Start :: "int \<Rightarrow> int \<Rightarrow> ('s, unit) call"
  ae_ErasureRetry :: "int \<Rightarrow> string \<Rightarrow> ('s, unit) call"
  ae_ErasureExternalSubject :: "ErasureWork \<Rightarrow> ('s, ErasureExternalSubject) call"
  ae_RecordExternalErasure :: "int \<Rightarrow> string \<Rightarrow> ('s, unit) call"
  ae_SaveErasureContext :: "int \<Rightarrow> string \<Rightarrow> ('s, unit) call"
  ae_RefreshErasureContext :: "int \<Rightarrow> string \<Rightarrow> ('s, unit) call"
  ae_LoadErasureContext :: "int \<Rightarrow> ('s, string) call"
  ae_ReceiptWork :: "int \<Rightarrow> ('s, ErasureReceiptWork) call"
  ae_ErasureTargets :: "int \<Rightarrow> ('s, ErasureTarget list) call"
  ae_BeginErasureTargets :: "int \<Rightarrow> ('s, unit) call"
  ae_RecordErasureTargets :: "int \<Rightarrow> ErasureTarget list \<Rightarrow> ('s, unit) call"
  ae_EraseDatabase :: "job \<Rightarrow> ('s, unit) call"
  ae_ErasureFiles :: "int \<Rightarrow> ('s, erasure_file list) call"
  ae_EraseFileIfUnreferenced :: "ErasureWork \<Rightarrow> erasure_file \<Rightarrow> 'd unlink \<Rightarrow> ('s, unit) call"
  ae_FinishAutomaticErasure :: "ErasureWork \<Rightarrow> ('s, unit) call"

text \<open>An external processor; the detailed interface is optional.\<close>

record 's external =
  ex_Erase :: "ErasureExternalSubject \<Rightarrow> ('s, string) call"
  ex_EraseTargets :: "(ErasureExternalSubject \<Rightarrow> ('s, ErasureTarget list) call) option"

text \<open>The service: \<open>ctx_Err\<close> is the state of the context, \<open>DeepEqual\<close> the comparison of the reflection package.\<close>

record ('s, 'd) erasure_service =
  sv_Store :: "('s, 'd) erasure_store"
  sv_Open :: "ErasureWork \<Rightarrow> string \<Rightarrow> (dl_error, ErasureExternalSubject) result"
  sv_Seal :: "ErasureExternalSubject \<Rightarrow> ('s, string) call"
  sv_External :: "'s external option"
  sv_Files :: "'d unlink option"
  sv_InvalidateCache :: "('s \<Rightarrow> 's) option"
  ctx_Err :: "'s \<Rightarrow> dl_error option"
  DeepEqual :: "ErasureExternalSubject \<Rightarrow> ErasureExternalSubject \<Rightarrow> bool"

section \<open>Calls\<close>

definition c_return :: "'a \<Rightarrow> ('s, 'a) call" where
  "c_return a s = (Inr a, s)"

definition c_fail :: "dl_error \<Rightarrow> ('s, 'a) call" where
  "c_fail e s = (Inl e, s)"

definition c_bind :: "('s, 'a) call \<Rightarrow> ('a \<Rightarrow> ('s, 'b) call) \<Rightarrow> ('s, 'b) call" where
  "c_bind m f s = (case m s of (Inl e, s') \<Rightarrow> (Inl e, s') | (Inr a, s') \<Rightarrow> f a s')"

definition c_try :: "('s, 'a) call \<Rightarrow> ((dl_error, 'a) result \<Rightarrow> ('s, 'b) call) \<Rightarrow> ('s, 'b) call" where
  "c_try m f s = (case m s of (r, s') \<Rightarrow> f r s')"

definition c_lift :: "(dl_error, 'a) result \<Rightarrow> ('s, 'a) call" where
  "c_lift r s = (r, s)"

section \<open>External targets\<close>

definition pending :: dl_error where "pending = ErasureBlocked ''EXTERNAL_ERASURE_PENDING''"

fun check_targets :: "string set \<Rightarrow> ErasureTarget list \<Rightarrow> bool" where
  "check_targets expected [] = True"
| "check_targets expected (t # ts) =
     (TargetName t \<in> expected \<and> length (TargetEvidence t) \<le> 200
      \<and> (if TargetStatus t = ''pending'' \<or> TargetStatus t = ''manual'' \<or> TargetStatus t = ''failed'' then TargetEvidence t = []
         else if TargetStatus t = ''complete'' \<or> TargetStatus t = ''not_applicable'' then go_TrimSpace (TargetEvidence t) \<noteq> []
         else False)
      \<and> check_targets (expected - {TargetName t}) ts)"

definition validateExternalTargets :: "string list \<Rightarrow> ErasureTarget list \<Rightarrow> (dl_error, ErasureTarget list) result" where
  "validateExternalTargets required0 ts =
     (let required = (if required0 = [] then ErasureTargetNames else required0)
      in if length ts \<noteq> length required \<or> \<not> check_targets (set required) ts then Inl pending else Inr ts)"

definition verified_per_storage :: string where
  "verified_per_storage = ''verified-per-storage: see target evidence''"

definition ask_processor :: "'s external \<Rightarrow> ErasureExternalSubject \<Rightarrow> ('s, ErasureTarget list) call" where
  "ask_processor ext subject =
     (case ex_EraseTargets ext of
        Some f \<Rightarrow> c_bind (f subject) (\<lambda>ts. c_lift (validateExternalTargets (RequiredTargets subject) ts))
      | None \<Rightarrow> c_bind (ex_Erase ext subject) (\<lambda>evidence.
          c_lift (validateExternalTargets (RequiredTargets subject) (map (\<lambda>n. target_of n ''complete'' evidence) (RequiredTargets subject)))))"

definition erasePendingTargets :: "('s, 'd) erasure_service \<Rightarrow> 's external \<Rightarrow> ErasureExternalSubject \<Rightarrow> ('s, unit) call" where
  "erasePendingTargets sv ext subject0 =
     (let st = sv_Store sv; i = SubjectRequestID subject0 in
      c_bind (ae_ErasureTargets st i) (\<lambda>ts.
      if length ts \<noteq> length ErasureTargetNames then c_fail (ErasureBlocked ''ERASURE_TARGETS_REVIEW_REQUIRED'')
      else
      (let required = RequiredTargets subject0 @ map TargetName (filter (\<lambda>t. \<not> Verified t) ts);
           subject = subject0\<lparr>RequiredTargets := required\<rparr>
       in if required = [] then ae_RecordExternalErasure st i verified_per_storage
          else c_bind (ae_BeginErasureTargets st i) (\<lambda>_.
               c_try (ask_processor ext subject) (\<lambda>r.
               case r of
                 Inl e \<Rightarrow> c_bind (ae_RecordErasureTargets st i (map (\<lambda>n. target_of n ''failed'' []) required)) (\<lambda>_. c_fail e)
               | Inr results \<Rightarrow>
                   c_bind (ae_RecordErasureTargets st i results) (\<lambda>_.
                   if list_all Verified results then ae_RecordExternalErasure st i verified_per_storage else c_fail pending))))))"

section \<open>The protected context\<close>

definition preserveContext :: "('s, 'd) erasure_service \<Rightarrow> job \<Rightarrow> ('s, job) call" where
  "preserveContext sv job =
     (let st = sv_Store sv; w = fst job; i = w_RequestID w in
      if w_ExternalEvidence w \<noteq> [] then c_return job
      else c_try (ae_LoadErasureContext st i) (\<lambda>loaded.
           if (case loaded of Inl e \<Rightarrow> e \<noteq> ErrNoRows | Inr _ \<Rightarrow> False) then c_lift (map_sum id (\<lambda>_. job) loaded)
           else c_bind (ae_ErasureExternalSubject st w) (\<lambda>subject.
                let job' = (w, Retentions subject);
                    seal = (\<lambda>store. c_bind (sv_Seal sv subject) (\<lambda>x. c_bind (store st i x) (\<lambda>_. c_return job')))
                in case loaded of
                     Inr encrypted \<Rightarrow>
                       c_bind (c_lift (sv_Open sv w encrypted)) (\<lambda>previous.
                       if DeepEqual sv previous subject then c_return job' else seal ae_RefreshErasureContext)
                   | Inl _ \<Rightarrow> seal ae_SaveErasureContext)))"

definition processExternal :: "('s, 'd) erasure_service \<Rightarrow> ErasureWork \<Rightarrow> ('s, unit) call" where
  "processExternal sv w =
     (let st = sv_Store sv; i = w_RequestID w in
      if w_ExternalEvidence w \<noteq> [] then c_return ()
      else c_bind (ae_ErasureActive st i) (\<lambda>active.
           if \<not> active then c_fail ErrNoRows
           else c_bind (ae_ReceiptWork st i) (\<lambda>work.
                if WorkStatus work = ''active'' \<or> WorkStatus work = ''unreviewed'' then c_fail (ErasureBlocked ''RECEIPT_CONTACT_WORK_PENDING'')
                else c_bind (ae_ErasureTargets st i) (\<lambda>ts.
                     if length ts = length ErasureTargetNames \<and> list_all Verified ts then ae_RecordExternalErasure st i verified_per_storage
                     else case sv_External sv of
                            None \<Rightarrow> c_fail (ErasureBlocked ''EXTERNAL_ERASURE_PROCESSOR_REQUIRED'')
                          | Some ext \<Rightarrow>
                              c_try (ae_LoadErasureContext st i) (\<lambda>r.
                              case r of
                                Inl e \<Rightarrow> c_fail (if e = ErrNoRows then ErasureBlocked ''ERASURE_CONTEXT_EXPIRED_REVIEW_REQUIRED'' else e)
                              | Inr encrypted \<Rightarrow> c_bind (c_lift (sv_Open sv w encrypted)) (erasePendingTargets sv ext))))))"

definition externalReadyForDeletion :: "('s, 'd) erasure_service \<Rightarrow> ErasureWork \<Rightarrow> ('s, unit) call" where
  "externalReadyForDeletion sv w =
     (if sv_External sv \<noteq> None \<or> w_ExternalEvidence w \<noteq> [] then c_return ()
      else c_bind (ae_ErasureTargets (sv_Store sv) (w_RequestID w)) (\<lambda>ts.
           if length ts \<noteq> length ErasureTargetNames then c_fail (ErasureBlocked ''ERASURE_TARGETS_REVIEW_REQUIRED'')
           else if list_ex (\<lambda>t. \<not> Verified t \<and> TargetStatus t \<noteq> ''manual'') ts then c_fail (ErasureBlocked ''EXTERNAL_HANDOFF_REVIEW_REQUIRED'')
           else c_return ()))"

section \<open>One request\<close>

text \<open>The head of \<open>process\<close>: \<open>None\<close> when the request is not (or no longer) the worker's.\<close>

definition begin_request :: "('s, 'd) erasure_service \<Rightarrow> ErasureWork \<Rightarrow> ('s, bool) call" where
  "begin_request sv w =
     (let st = sv_Store sv; i = w_RequestID w in
      c_bind (ae_ErasureActive st i) (\<lambda>active.
      if \<not> active then c_return False
      else c_try (ae_Start st i 0) (\<lambda>r.
           if (case r of Inl e \<Rightarrow> e \<noteq> ErrNoRows | Inr _ \<Rightarrow> False) then c_lift (map_sum id (\<lambda>_. False) r)
           else ae_ErasureActive st i)))"

definition erase_records :: "('s, 'd) erasure_service \<Rightarrow> job \<Rightarrow> ('s, job) call" where
  "erase_records sv job =
     (let st = sv_Store sv; w = fst job in
      if w_Stage w = ''database_erased'' then c_return job
      else c_bind (ae_PrepareErasure st w) (\<lambda>_.
           c_bind (preserveContext sv job) (\<lambda>job'.
           c_bind (externalReadyForDeletion sv w) (\<lambda>_.
           c_bind (ae_EraseDatabase st job') (\<lambda>_ s.
             (Inr job', case sv_InvalidateCache sv of None \<Rightarrow> s | Some f \<Rightarrow> f s))))))"

fun erase_files :: "('s, 'd) erasure_service \<Rightarrow> ErasureWork \<Rightarrow> erasure_file list \<Rightarrow> ('s, unit) call" where
  "erase_files sv w [] s = (Inr (), s)"
| "erase_files sv w (f # fs) s =
     (case ctx_Err sv s of
        Some e \<Rightarrow> (Inl e, s)
      | None \<Rightarrow>
          (case sv_Files sv of
             None \<Rightarrow> (Inl (ErasureBlocked ''FILE_STORAGE_REQUIRED''), s)
           | Some unlink \<Rightarrow> c_bind (ae_EraseFileIfUnreferenced (sv_Store sv) w f unlink) (\<lambda>_. erase_files sv w fs) s))"

text \<open>\<open>for { ... }\<close>: the result says whether the request is still the worker's when the queue is empty.\<close>

partial_function (option) file_loop :: "('s, 'd) erasure_service \<Rightarrow> ErasureWork \<Rightarrow> 's \<Rightarrow> ((dl_error, bool) result \<times> 's) option" where
  "file_loop sv w s =
     (case ae_ErasureActive (sv_Store sv) (w_RequestID w) s of
        (Inl e, s1) \<Rightarrow> Some (Inl e, s1)
      | (Inr active, s1) \<Rightarrow>
          if \<not> active then Some (Inr False, s1)
          else (case ae_ErasureFiles (sv_Store sv) (w_RequestID w) s1 of
                  (Inl e, s2) \<Rightarrow> Some (Inl e, s2)
                | (Inr fs, s2) \<Rightarrow>
                    if fs = [] then Some (Inr True, s2)
                    else (case erase_files sv w fs s2 of
                            (Inl e, s3) \<Rightarrow> Some (Inl e, s3)
                          | (Inr _, s3) \<Rightarrow> file_loop sv w s3)))"

definition process :: "('s, 'd) erasure_service \<Rightarrow> ErasureWork \<Rightarrow> 's \<Rightarrow> ((dl_error, unit) result \<times> 's) option" where
  "process sv w s =
     (case begin_request sv w s of
        (Inl e, s1) \<Rightarrow> Some (Inl e, s1)
      | (Inr active, s1) \<Rightarrow>
          if \<not> active then Some (Inr (), s1)
          else (case erase_records sv (w, []) s1 of
                  (Inl e, s2) \<Rightarrow> Some (Inl e, s2)
                | (Inr job, s2) \<Rightarrow>
                    (case file_loop sv w s2 of
                       None \<Rightarrow> None
                     | Some (Inl e, s3) \<Rightarrow> Some (Inl e, s3)
                     | Some (Inr mine, s3) \<Rightarrow>
                         if \<not> mine then Some (Inr (), s3)
                         else Some (c_bind (processExternal sv w) (\<lambda>_. ae_FinishAutomaticErasure (sv_Store sv) w) s3))))"

section \<open>The run\<close>

definition retry_code :: "dl_error \<Rightarrow> string" where
  "retry_code e = (case e of ErasureBlocked code \<Rightarrow> code | _ \<Rightarrow> ''ERASURE_RETRY_REQUIRED'')"

fun run_batch :: "('s, 'd) erasure_service \<Rightarrow> ErasureWork list \<Rightarrow> 's \<Rightarrow> ((dl_error, unit) result \<times> 's) option" where
  "run_batch sv [] s = Some (Inr (), s)"
| "run_batch sv (w # ws) s =
     (case ctx_Err sv s of
        Some e \<Rightarrow> Some (Inl e, s)
      | None \<Rightarrow>
          (case process sv w s of
             None \<Rightarrow> None
           | Some (Inr _, s1) \<Rightarrow> run_batch sv ws s1
           | Some (Inl e, s1) \<Rightarrow>
               (case ae_ErasureRetry (sv_Store sv) (w_RequestID w) (retry_code e) s1 of
                  (Inl e', s2) \<Rightarrow> Some (Inl e', s2)
                | (Inr _, s2) \<Rightarrow> run_batch sv ws s2)))"

definition run_locked :: "('s, 'd) erasure_service \<Rightarrow> 's \<Rightarrow> ((dl_error, unit) result \<times> 's) option" where
  "run_locked sv s =
     (case (case ae_PurgeExpiredRestoreGuards (sv_Store sv) of None \<Rightarrow> (Inr (), s) | Some purge \<Rightarrow> purge s) of
        (Inl e, s1) \<Rightarrow> Some (Inl e, s1)
      | (Inr _, s1) \<Rightarrow>
          (case ae_ErasureBatch (sv_Store sv) s1 of
             (Inl e, s2) \<Rightarrow> Some (Inl e, s2)
           | (Inr ws, s2) \<Rightarrow> run_batch sv ws s2))"

definition worker_RunOnce :: "('s, 'd) erasure_service \<Rightarrow> 's \<Rightarrow> ((dl_error, unit) result \<times> 's) option" where
  "worker_RunOnce sv s =
     (case ae_ErasureLock (sv_Store sv) s of
        (Inl e, s1) \<Rightarrow> Some (Inl e, s1)
      | (Inr locked, s1) \<Rightarrow>
          if \<not> locked then Some (Inr (), s1)
          else map_option (\<lambda>(r, s2). (r, ae_release (sv_Store sv) s2)) (run_locked sv s1))"

section \<open>The repository as the worker's store\<close>

definition ReceiptWork :: "dl_env \<Rightarrow> int \<Rightarrow> dl_state \<Rightarrow> (dl_error, ErasureReceiptWork) result" where
  "ReceiptWork env i s =
     (case flt env ''receipt.work'' of Some e \<Rightarrow> Inl e | None \<Rightarrow>
     (case sql_get (\<lambda>w. rw_id w = i) (works s) of
        None \<Rightarrow> Inl ErrNoRows
      | Some w \<Rightarrow> Inr \<lparr>WorkStatus = rw_status w, WorkOriginalStorage = rw_storage w, WorkEvidence = rw_evidence w,
          WorkUpdatedAt = deletionTimeUTC env (scan_time env (rw_updated w)), WorkCompletedAt = map_option (\<lambda>t. deletionTimeUTC env (scan_time env t)) (rw_completed w)\<rparr>))"

text \<open>The world of the worker: the tables of the deletion model, the tables at large, the file storage, and the
  number of calls made. Each call of the store meets its own clock and faults, and finds whatever other
  operations on deletion requests have run since the call before.\<close>

record 'd world =
  wd :: dl_state
  wg :: gdb
  wk :: 'd
  tick :: nat

record 'd surroundings =
  envs :: "nat \<Rightarrow> dl_env"
  others :: "nat \<Rightarrow> dl_op list"
  urls :: url_env

definition now_db :: "'d surroundings \<Rightarrow> 'd world \<Rightarrow> dl_state" where
  "now_db sr w = run dl_step (wd w) (others sr (tick w))"

definition db_call :: "'d surroundings \<Rightarrow> (dl_env \<Rightarrow> dl_state \<Rightarrow> (dl_error, 'a) result \<times> dl_state) \<Rightarrow> ('d world, 'a) call" where
  "db_call sr f w = (case f (envs sr (tick w)) (now_db sr w) of (r, s) \<Rightarrow> (r, w\<lparr>wd := s, tick := Suc (tick w)\<rparr>))"

definition db_read :: "'d surroundings \<Rightarrow> (dl_env \<Rightarrow> dl_state \<Rightarrow> (dl_error, 'a) result) \<Rightarrow> ('d world, 'a) call" where
  "db_read sr f = db_call sr (\<lambda>env s. (f env s, s))"

definition unlink_call :: "'d surroundings \<Rightarrow> ErasureWork \<Rightarrow> erasure_file \<Rightarrow> 'd unlink \<Rightarrow> ('d world, unit) call" where
  "unlink_call sr x f unlink w =
     (case EraseFileIfUnreferenced (envs sr (tick w)) (urls sr) (w_RequestID x) f unlink (now_db sr w, wg w, wk w) of
        (r, s, db, d) \<Rightarrow> (r, \<lparr>wd = s, wg = db, wk = d, tick = Suc (tick w)\<rparr>))"

text \<open>The preparation, the subject and the erasure of the database are parameters here.\<close>

definition worker_store ::
  "'d surroundings \<Rightarrow> (ErasureWork \<Rightarrow> ('d world, unit) call) \<Rightarrow> (ErasureWork \<Rightarrow> ('d world, ErasureExternalSubject) call) \<Rightarrow> (job \<Rightarrow> ('d world, unit) call)
     \<Rightarrow> ('d world, 'd) erasure_store" where
  "worker_store sr prepare subject erase_db =
     \<lparr>ae_PrepareErasure = prepare,
      ae_ErasureLock = db_read sr (\<lambda>env _. ErasureLock env),
      ae_release = (\<lambda>w. w),
      ae_PurgeExpiredRestoreGuards = Some (db_call sr PurgeExpiredRestoreGuards),
      ae_ErasureBatch = db_read sr ErasureBatch,
      ae_ErasureActive = (\<lambda>i. db_read sr (\<lambda>env. ErasureActive env i)),
      ae_Start = (\<lambda>i p. db_call sr (\<lambda>env. repo_Start env i p)),
      ae_ErasureRetry = (\<lambda>i c. db_call sr (\<lambda>env. ErasureRetry env i c)),
      ae_ErasureExternalSubject = subject,
      ae_RecordExternalErasure = (\<lambda>i e. db_call sr (\<lambda>env. RecordExternalErasure env i e)),
      ae_SaveErasureContext = (\<lambda>i x. db_call sr (\<lambda>env. SaveErasureContext env i x)),
      ae_RefreshErasureContext = (\<lambda>i x. db_call sr (\<lambda>env. RefreshErasureContext env i x)),
      ae_LoadErasureContext = (\<lambda>i. db_read sr (\<lambda>env. LoadErasureContext env i)),
      ae_ReceiptWork = (\<lambda>i. db_read sr (\<lambda>env. ReceiptWork env i)),
      ae_ErasureTargets = (\<lambda>i. db_read sr (\<lambda>env. ErasureTargets env i)),
      ae_BeginErasureTargets = (\<lambda>i. db_call sr (\<lambda>env. BeginErasureTargets env i)),
      ae_RecordErasureTargets = (\<lambda>i ts. db_call sr (\<lambda>env. RecordErasureTargets env i ts)),
      ae_EraseDatabase = erase_db,
      ae_ErasureFiles = (\<lambda>i. db_read sr (\<lambda>env. ErasureFiles env i)),
      ae_EraseFileIfUnreferenced = unlink_call sr,
      ae_FinishAutomaticErasure = (\<lambda>x. db_call sr (\<lambda>env. FinishAutomaticErasure env x))\<rparr>"

section \<open>The queue runs empty\<close>

text \<open>What the loop needs of a store: a count of the files left for a request that listing does not raise and
  that every file unlinked lowers.\<close>

locale erasure_queue =
  fixes st :: "('s, 'd) erasure_store"
    and left :: "int \<Rightarrow> 's \<Rightarrow> nat"
  assumes active_left: "left i (snd (ae_ErasureActive st j s)) \<le> left i s"
    and listing_left: "left i (snd (ae_ErasureFiles st j s)) \<le> left i s"
    and unlink_left: "ae_EraseFileIfUnreferenced st w f u s = (Inr (), s') \<Longrightarrow> left (w_RequestID w) s' < left (w_RequestID w) s"
begin

lemma erase_files_left:
  "sv_Store sv = st \<Longrightarrow> erase_files sv w fs s = (Inr (), s') \<Longrightarrow> left (w_RequestID w) s' + length fs \<le> left (w_RequestID w) s"
proof (induction fs arbitrary: s)
  case (Cons f fs)
  obtain u s1 where e: "ae_EraseFileIfUnreferenced st w f u s = (Inr (), s1)" and r: "erase_files sv w fs s1 = (Inr (), s')"
    using Cons.prems by (auto simp: c_bind_def split: option.splits prod.splits sum.splits)
  show ?case using Cons.IH [OF Cons.prems(1) r] unlink_left [OF e] by simp
qed simp

lemma loop_returns: "sv_Store sv = st \<Longrightarrow> \<exists>r. file_loop sv w s = Some r"
proof (induction "left (w_RequestID w) s" arbitrary: s rule: less_induct)
  case less
  let ?i = "w_RequestID w"
  obtain ra s1 where a: "ae_ErasureActive st ?i s = (ra, s1)" by force
  obtain rf s2 where f: "ae_ErasureFiles st ?i s1 = (rf, s2)" by force
  have "left ?i s1 \<le> left ?i s" "left ?i s2 \<le> left ?i s1" using active_left [of ?i ?i s] listing_left [of ?i ?i s1] a f by auto
  moreover have dec: "left ?i s3 < left ?i s2" if "rf = Inr fs" "fs \<noteq> []" "erase_files sv w fs s2 = (Inr x, s3)" for fs x s3
  proof -
    have "erase_files sv w fs s2 = (Inr (), s3)" using that(3) by simp
    then have "left ?i s3 + length fs \<le> left ?i s2" by (rule erase_files_left [OF less.prems])
    then show ?thesis using that(2) by (cases fs) auto
  qed
  ultimately have lt: "left ?i s3 < left ?i s" if "rf = Inr fs" "fs \<noteq> []" "erase_files sv w fs s2 = (Inr x, s3)" for fs x s3
    using dec [OF that] by linarith
  have "\<exists>r. file_loop sv w s3 = Some r" if "rf = Inr fs" "fs \<noteq> []" "erase_files sv w fs s2 = (Inr x, s3)" for fs x s3
    by (rule less.hyps [OF lt [OF that] less.prems])
  then show ?case using a f less.prems by (subst file_loop.simps) (auto split: sum.splits prod.splits)
qed

lemma process_returns: "sv_Store sv = st \<Longrightarrow> \<exists>r. process sv w s = Some r"
proof -
  assume st: "sv_Store sv = st"
  have [simp]: "(file_loop sv x s' = None) = False" for x s' using loop_returns [OF st, of x s'] by auto
  show ?thesis by (auto simp: process_def split: prod.splits sum.splits option.splits)
qed

lemma batch_returns: "sv_Store sv = st \<Longrightarrow> \<exists>r. run_batch sv ws s = Some r"
proof (induction ws arbitrary: s)
  case (Cons w ws)
  have "process sv w s \<noteq> None" using process_returns [OF Cons.prems, of w s] by auto
  then show ?case using Cons by (auto split: prod.splits sum.splits option.splits)
qed simp

lemma run_returns: "sv_Store sv = st \<Longrightarrow> \<exists>r. worker_RunOnce sv s = Some r"
proof -
  assume st: "sv_Store sv = st"
  have "run_batch sv ws s' \<noteq> None" for ws s' using batch_returns [OF st, of ws s'] by auto
  then have "run_locked sv s' \<noteq> None" for s' by (auto simp: run_locked_def split: prod.splits sum.splits)
  then show ?thesis by (auto simp: worker_RunOnce_def split: prod.splits sum.splits)
qed

end

definition files_left :: "int \<Rightarrow> 'd world \<Rightarrow> nat" where
  "files_left i w = length (filter (\<lambda>f. ef_request f = i) (files (wd w)))"

lemma subseq_count: "subseq xs ys \<Longrightarrow> length (filter p xs) \<le> length (filter p ys)"
  by (induction rule: list_emb.induct) auto

lemma progress_count: "progress s s' \<Longrightarrow> length (filter p (files s')) \<le> length (filter p (files s))"
  by (auto simp: progress_def intro: subseq_count)

lemma now_db_left: "length (filter p (files (now_db sr w))) \<le> length (filter p (files (wd w)))"
  unfolding now_db_def by (rule progress_count [OF progress_run])

lemma db_read_left: "files_left i (snd (db_read sr f w)) \<le> files_left i w"
  using now_db_left [of "\<lambda>f. ef_request f = i" sr w] by (simp add: db_read_def db_call_def files_left_def)

lemma unlinked_left:
  assumes "EraseFileIfUnreferenced env ue i f unlink (s, db, d) = (Inr (), s', db', d')"
  shows "length (filter (\<lambda>f. ef_request f = i) (files s')) < length (filter (\<lambda>f. ef_request f = i) (files s))"
proof -
  have q: "queued_file env i (ef_id f) (ef_url f) s \<noteq> Inl e" for e
    using assms by (auto simp: EraseFileIfUnreferenced_def split: option.splits sum.splits)
  then obtain x where "queued_file env i (ef_id f) (ef_url f) s = Inr x" by (cases "queued_file env i (ef_id f) (ef_url f) s") auto
  then obtain g where g: "sql_get (\<lambda>g. ef_id g = ef_id f \<and> ef_request g = i) (files s) = Some g"
    by (cases x) (auto simp: queued_file_def tx_bind_ok get_row_ok)
  have s': "s' = s\<lparr>files := sql_delete (\<lambda>g. ef_id g = ef_id f \<and> ef_request g = i) (files s)\<rparr>"
    using assms by (auto simp: EraseFileIfUnreferenced_def file_done_def transact_ok exec_ok split: option.splits sum.splits prod.splits)
  have "g \<in> set (filter (\<lambda>f. ef_request f = i) (files s))" "g \<notin> set (filter (\<lambda>f. ef_request f = i) (files s'))"
    using sql_get_Some [OF g] by (auto simp: s' sql_delete_def)
  moreover have "filter (\<lambda>f. ef_request f = i) (files s') = filter (\<lambda>x. ef_id x \<noteq> ef_id f) (filter (\<lambda>f. ef_request f = i) (files s))"
    by (auto simp: s' sql_delete_def intro!: filter_cong)
  ultimately show ?thesis using length_filter_less [of g "filter (\<lambda>f. ef_request f = i) (files s)" "\<lambda>x. ef_id x \<noteq> ef_id f"] sql_get_Some [OF g] by simp
qed

interpretation repo_queue: erasure_queue "worker_store sr prepare subject erase_db" files_left
  for sr :: "'d surroundings" and prepare subject erase_db
proof
  show "files_left i (snd (ae_ErasureActive (worker_store sr prepare subject erase_db) j s)) \<le> files_left i s" for i j s
    by (simp add: worker_store_def db_read_left)
  show "files_left i (snd (ae_ErasureFiles (worker_store sr prepare subject erase_db) j s)) \<le> files_left i s" for i j s
    by (simp add: worker_store_def db_read_left)
  show "files_left (w_RequestID w) s' < files_left (w_RequestID w) s"
    if unl: "ae_EraseFileIfUnreferenced (worker_store sr prepare subject erase_db) w f u s = (Inr (), s')" for w f u s s'
  proof -
    obtain x db d where e: "EraseFileIfUnreferenced (envs sr (tick s)) (urls sr) (w_RequestID w) f u (now_db sr s, wg s, wk s) = (Inr (), x, db, d)" and x: "wd s' = x"
      using unl by (cases "EraseFileIfUnreferenced (envs sr (tick s)) (urls sr) (w_RequestID w) f u (now_db sr s, wg s, wk s)")
        (auto simp: worker_store_def unlink_call_def)
    show ?thesis unfolding files_left_def x by (rule less_le_trans [OF unlinked_left [OF e] now_db_left])
  qed
qed

text \<open>C24. A run of the worker over the repository always returns: whatever fails, however the clock moves, whatever
  the processors, the storage and the context do, and whatever operations on deletion requests run between its
  calls, no queue of files keeps the loop going for ever.\<close>

theorem worker_run_returns:
  "\<exists>r w'. worker_RunOnce (sv\<lparr>sv_Store := worker_store sr prepare subject erase_db\<rparr>) w = Some (r, w')"
  using repo_queue.run_returns [of "sv\<lparr>sv_Store := worker_store sr prepare subject erase_db\<rparr>" sr prepare subject erase_db w] by auto

end
