(* ===== verification/Go_Layout.thy ===== *)
theory Go_Layout
  imports Go_Strings Go_Time
begin

text \<open>
  The part of \<^verbatim>\<open>time.Parse\<close> and \<^verbatim>\<open>Time.Format\<close> the backend uses: layouts made of the year, month, day,
  hour, minute and second in their numeric forms and of literal text. A layout is the list of chunks into which
  the library splits the layout text; literal text runs up to the next element.
\<close>

section \<open>Layouts\<close>

datatype chunk = Lit string | LongYear | NumMonth | ZeroMonth | NumDay | ZeroDay | Hour24 | ZeroMinute | ZeroSecond

record parsed =
  p_year :: int
  p_month :: int
  p_day :: int
  p_hour :: int
  p_min :: int
  p_sec :: int

abbreviation starts_digit :: "string \<Rightarrow> bool" where
  "starts_digit s \<equiv> (case s of [] \<Rightarrow> False | c # _ \<Rightarrow> is_digit c)"

text \<open>\<^verbatim>\<open>getnum\<close>: one or two digits, exactly two when \<open>fixed\<close>.\<close>

fun getnum :: "bool \<Rightarrow> string \<Rightarrow> (int \<times> string) option" where
  "getnum fixed [] = None"
| "getnum fixed (a # s) =
     (if \<not> is_digit a then None
      else (case s of
              b # s' \<Rightarrow> if is_digit b then Some (digit_val a * 10 + digit_val b, s')
                       else if fixed then None else Some (digit_val a, s)
            | [] \<Rightarrow> if fixed then None else Some (digit_val a, s)))"

text \<open>\<^verbatim>\<open>skip\<close>: a blank in the layout stands for any number of blanks.\<close>

abbreviation cutspace :: "string \<Rightarrow> string" where
  "cutspace \<equiv> dropWhile (\<lambda>c. c = CHR '' '')"

function skip :: "string \<Rightarrow> string \<Rightarrow> string option" where
  "skip value [] = Some value"
| "skip value (p # ps) =
     (if p = CHR '' '' then
        (case value of
           v # _ \<Rightarrow> if v \<noteq> CHR '' '' then None else skip (cutspace value) (cutspace ps)
         | [] \<Rightarrow> skip [] (cutspace ps))
      else (case value of [] \<Rightarrow> None | v # vs \<Rightarrow> if v = p then skip vs ps else None))"
  by pat_completeness auto
termination
  by (relation "measure (\<lambda>(v, p). length p)") (auto simp: le_imp_less_Suc length_dropWhile_le)

definition parse_year :: "string \<Rightarrow> (int \<times> string) option" where
  "parse_year s =
     (if length s < 4 \<or> \<not> list_all is_digit (take 4 s) then None
      else Some (foldl (\<lambda>n c. n * 10 + digit_val c) 0 (take 4 s), drop 4 s))"

text \<open>After the seconds a fraction is accepted although the layout has none.\<close>

definition skip_fraction :: "string \<Rightarrow> string" where
  "skip_fraction s =
     (case s of c # r \<Rightarrow> if (c = CHR ''.'' \<or> c = CHR '','') \<and> starts_digit r then dropWhile is_digit r else s | [] \<Rightarrow> s)"

definition in_range :: "int \<Rightarrow> int \<Rightarrow> (int \<times> string) option \<Rightarrow> (int \<times> string) option" where
  "in_range lo hi r = (case r of Some (n, s) \<Rightarrow> if lo \<le> n \<and> n \<le> hi then r else None | None \<Rightarrow> None)"

fun parse_chunk :: "chunk \<Rightarrow> string \<Rightarrow> parsed \<Rightarrow> (parsed \<times> string) option" where
  "parse_chunk (Lit l) s t = map_option (Pair t) (skip s l)"
| "parse_chunk LongYear s t = map_option (\<lambda>(n, r). (t\<lparr>p_year := n\<rparr>, r)) (parse_year s)"
| "parse_chunk NumMonth s t = map_option (\<lambda>(n, r). (t\<lparr>p_month := n\<rparr>, r)) (in_range 1 12 (getnum False s))"
| "parse_chunk ZeroMonth s t = map_option (\<lambda>(n, r). (t\<lparr>p_month := n\<rparr>, r)) (in_range 1 12 (getnum True s))"
| "parse_chunk NumDay s t = map_option (\<lambda>(n, r). (t\<lparr>p_day := n\<rparr>, r)) (getnum False s)"
| "parse_chunk ZeroDay s t = map_option (\<lambda>(n, r). (t\<lparr>p_day := n\<rparr>, r)) (getnum True s)"
| "parse_chunk Hour24 s t = map_option (\<lambda>(n, r). (t\<lparr>p_hour := n\<rparr>, r)) (in_range 0 23 (getnum False s))"
| "parse_chunk ZeroMinute s t = map_option (\<lambda>(n, r). (t\<lparr>p_min := n\<rparr>, r)) (in_range 0 59 (getnum True s))"
| "parse_chunk ZeroSecond s t = map_option (\<lambda>(n, r). (t\<lparr>p_sec := n\<rparr>, skip_fraction r)) (in_range 0 59 (getnum True s))"

fun parse_chunks :: "chunk list \<Rightarrow> string \<Rightarrow> parsed \<Rightarrow> parsed option" where
  "parse_chunks [] s t = (if s = [] then Some t else None)"
| "parse_chunks (c # cs) s t = (case parse_chunk c s t of None \<Rightarrow> None | Some (t', s') \<Rightarrow> parse_chunks cs s' t')"

definition real_date :: "parsed \<Rightarrow> bool" where
  "real_date t = (1 \<le> p_day t \<and> p_day t \<le> daysIn (p_year t) (p_month t))"

definition go_Parse :: "chunk list \<Rightarrow> string \<Rightarrow> parsed option" where
  "go_Parse layout s =
     (case parse_chunks layout s \<lparr>p_year = 0, p_month = 1, p_day = 1, p_hour = 0, p_min = 0, p_sec = 0\<rparr> of
        None \<Rightarrow> None
      | Some t \<Rightarrow> if real_date t then Some t else None)"

text \<open>\<^verbatim>\<open>appendInt\<close> for a number that fits its width.\<close>

fun zero_pad :: "nat \<Rightarrow> int \<Rightarrow> string" where
  "zero_pad 0 n = []"
| "zero_pad (Suc w) n = zero_pad w (n div 10) @ [digit_char (n mod 10)]"

fun format_chunk :: "chunk \<Rightarrow> parsed \<Rightarrow> string" where
  "format_chunk (Lit l) t = l"
| "format_chunk LongYear t = zero_pad 4 (p_year t)"
| "format_chunk NumMonth t = go_Itoa (p_month t)"
| "format_chunk ZeroMonth t = zero_pad 2 (p_month t)"
| "format_chunk NumDay t = go_Itoa (p_day t)"
| "format_chunk ZeroDay t = zero_pad 2 (p_day t)"
| "format_chunk Hour24 t = zero_pad 2 (p_hour t)"
| "format_chunk ZeroMinute t = zero_pad 2 (p_min t)"
| "format_chunk ZeroSecond t = zero_pad 2 (p_sec t)"

definition go_Format :: "chunk list \<Rightarrow> parsed \<Rightarrow> string" where
  "go_Format layout t = concat (map (\<lambda>c. format_chunk c t) layout)"

text \<open>\<^verbatim>\<open>2006-01-02\<close> and \<^verbatim>\<open>2006-01-02T15:04:05Z\<close>.\<close>

definition date_layout :: "chunk list" where
  "date_layout = [LongYear, Lit ''-'', ZeroMonth, Lit ''-'', ZeroDay]"

definition stamp_layout :: "chunk list" where
  "stamp_layout = date_layout @ [Lit ''T'', Hour24, Lit '':'', ZeroMinute, Lit '':'', ZeroSecond, Lit ''Z'']"

text \<open>A text is canonical for a layout when it is the print of what it parses to.\<close>

definition canonical :: "chunk list \<Rightarrow> string \<Rightarrow> bool" where
  "canonical layout s = (case go_Parse layout s of None \<Rightarrow> False | Some t \<Rightarrow> go_Format layout t = s)"

section \<open>Printing and parsing\<close>

definition real_time :: "parsed \<Rightarrow> bool" where
  "real_time t \<longleftrightarrow> 0 \<le> p_year t \<and> p_year t \<le> 9999 \<and> 1 \<le> p_month t \<and> p_month t \<le> 12 \<and> real_date t
     \<and> 0 \<le> p_hour t \<and> p_hour t \<le> 23 \<and> 0 \<le> p_min t \<and> p_min t \<le> 59 \<and> 0 \<le> p_sec t \<and> p_sec t \<le> 59"

lemma zero_pad_2: "zero_pad 2 n = [digit_char (n div 10 mod 10), digit_char (n mod 10)]"
  by (simp add: numeral_2_eq_2)

lemma zero_pad_4:
  "zero_pad 4 n = [digit_char (n div 1000 mod 10), digit_char (n div 100 mod 10), digit_char (n div 10 mod 10), digit_char (n mod 10)]"
  by (simp add: eval_nat_numeral zdiv_zmult2_eq [symmetric])

lemma getnum_pad: "0 \<le> n \<Longrightarrow> n < 100 \<Longrightarrow> getnum fixed (zero_pad 2 n @ s) = Some (n, s)"
  by (simp add: zero_pad_2)

lemma parse_year_pad: "0 \<le> n \<Longrightarrow> n \<le> 9999 \<Longrightarrow> parse_year (zero_pad 4 n @ s) = Some (n, s)"
  by (simp add: parse_year_def zero_pad_4 eval_nat_numeral del: digit_char_digit_val)

lemma Itoa_1: "0 \<le> n \<Longrightarrow> n < 10 \<Longrightarrow> go_Itoa n = [digit_char n]"
  by (simp add: go_Itoa_def show_digits.simps)

lemma Itoa_2: "10 \<le> n \<Longrightarrow> n < 100 \<Longrightarrow> go_Itoa n = [digit_char (n div 10), digit_char (n mod 10)]"
  by (subst go_Itoa_def) (simp add: show_digits.simps [of n] show_digits.simps [of "n div 10"])

lemma getnum_Itoa: "0 \<le> n \<Longrightarrow> n < 100 \<Longrightarrow> \<not> starts_digit s \<Longrightarrow> getnum False (go_Itoa n @ s) = Some (n, s)"
  by (cases "n < 10") (auto simp: Itoa_1 Itoa_2 split: list.splits)

lemma skip_lit: "hd (s @ [CHR ''x'']) \<noteq> CHR '' '' \<Longrightarrow> skip (l @ s) l = Some s"
proof (induction "length l" arbitrary: l rule: less_induct)
  case less
  show ?case
  proof (cases l)
    case (Cons a l')
    have "cutspace (l' @ s) = cutspace l' @ s"
      using less.prems by (induction l') (cases s; auto)+
    then show ?thesis using less.hyps [of "cutspace l'"] less.hyps [of l'] less.prems Cons
      by (auto simp: le_imp_less_Suc length_dropWhile_le)
  qed simp
qed

fun fill :: "chunk \<Rightarrow> parsed \<Rightarrow> parsed \<Rightarrow> parsed" where
  "fill (Lit l) t u = u"
| "fill LongYear t u = u\<lparr>p_year := p_year t\<rparr>"
| "fill NumMonth t u = u\<lparr>p_month := p_month t\<rparr>"
| "fill ZeroMonth t u = u\<lparr>p_month := p_month t\<rparr>"
| "fill NumDay t u = u\<lparr>p_day := p_day t\<rparr>"
| "fill ZeroDay t u = u\<lparr>p_day := p_day t\<rparr>"
| "fill Hour24 t u = u\<lparr>p_hour := p_hour t\<rparr>"
| "fill ZeroMinute t u = u\<lparr>p_min := p_min t\<rparr>"
| "fill ZeroSecond t u = u\<lparr>p_sec := p_sec t\<rparr>"

text \<open>What may follow the print of a chunk so that parsing stops where the print ended.\<close>

fun separated :: "chunk \<Rightarrow> string \<Rightarrow> bool" where
  "separated (Lit l) s = (hd (s @ [CHR ''x'']) \<noteq> CHR '' '')"
| "separated NumMonth s = (\<not> starts_digit s)"
| "separated NumDay s = (\<not> starts_digit s)"
| "separated ZeroSecond s = (hd (s @ [CHR ''x'']) \<noteq> CHR ''.'' \<and> hd (s @ [CHR ''x'']) \<noteq> CHR '','')"
| "separated c s = True"

lemma parse_format_chunk:
  assumes "real_time t" "separated c s"
  shows "parse_chunk c (format_chunk c t @ s) u = Some (fill c t u, s)"
proof -
  have "p_day t < 100" using assms(1) daysIn_bounds [of "p_year t" "p_month t"] by (simp add: real_time_def real_date_def)
  then show ?thesis using assms
    by (cases c) (auto simp: real_time_def real_date_def parse_year_pad getnum_pad getnum_Itoa in_range_def skip_lit skip_fraction_def split: list.splits)
qed

fun all_separated :: "parsed \<Rightarrow> chunk list \<Rightarrow> bool" where
  "all_separated t [] = True"
| "all_separated t (c # cs) = (separated c (go_Format cs t) \<and> all_separated t cs)"

lemma parse_format_chunks:
  "real_time t \<Longrightarrow> all_separated t cs \<Longrightarrow> parse_chunks cs (go_Format cs t) u = Some (fold (\<lambda>c. fill c t) cs u)"
  by (induction cs arbitrary: u) (auto simp: go_Format_def parse_format_chunk)

lemma date_only:
  "real_time t \<Longrightarrow> all_separated t layout \<Longrightarrow> {LongYear} \<subseteq> set layout \<Longrightarrow> NumMonth \<in> set layout \<or> ZeroMonth \<in> set layout
    \<Longrightarrow> NumDay \<in> set layout \<or> ZeroDay \<in> set layout
    \<Longrightarrow> \<exists>v. go_Parse layout (go_Format layout t) = Some v \<and> p_year v = p_year t \<and> p_month v = p_month t \<and> p_day v = p_day t"
proof -
  assume a: "real_time t" "all_separated t layout" "{LongYear} \<subseteq> set layout" "NumMonth \<in> set layout \<or> ZeroMonth \<in> set layout" "NumDay \<in> set layout \<or> ZeroDay \<in> set layout"
  have y: "p_year (fold (\<lambda>c. fill c t) cs u) = (if LongYear \<in> set cs then p_year t else p_year u)" for cs u
  proof (induction cs arbitrary: u)
    case (Cons c cs) then show ?case by (cases c) auto
  qed simp
  have m: "p_month (fold (\<lambda>c. fill c t) cs u) = (if NumMonth \<in> set cs \<or> ZeroMonth \<in> set cs then p_month t else p_month u)" for cs u
  proof (induction cs arbitrary: u)
    case (Cons c cs) then show ?case by (cases c) auto
  qed simp
  have d: "p_day (fold (\<lambda>c. fill c t) cs u) = (if NumDay \<in> set cs \<or> ZeroDay \<in> set cs then p_day t else p_day u)" for cs u
  proof (induction cs arbitrary: u)
    case (Cons c cs) then show ?case by (cases c) auto
  qed simp
  show ?thesis using a by (auto simp: go_Parse_def parse_format_chunks y m d real_date_def real_time_def)
qed

end
