(* ===== verification/Donation_Ledger.thy ===== *)
theory Donation_Ledger
  imports Go_Layout Tx_Monad "HOL-Library.Product_Lexorder" "HOL-Library.List_Lexorder"
begin

text \<open>
  The donation ledger that administrators keep (\<^verbatim>\<open>service/admin_donation_service.go\<close>,
  \<^verbatim>\<open>repository/admin_donation_repo.go\<close>): normalisation of an order, creation of one order or of a batch,
  replacement under an optimistic lock, listing, and the configuration. \<^verbatim>\<open>WEO_ORDER\<close> is here the ledger's view of
  the table, with the legacy columns that mirror it; a \<^verbatim>\<open>DATETIME\<close> is held as the text of its \<^verbatim>\<open>DATE_FORMAT\<close>, so that
  comparing it with \<^verbatim>\<open>STR_TO_DATE\<close> of a canonical text is comparing texts. SHA-256, the collation and the faults of the
  statements are parameters.
\<close>

section \<open>Orders\<close>

record DonationDonor =
  dd_Name :: string
  dd_Cohort :: string
  dd_Department :: string
  dd_Phone :: string

record DonationOrderInput =
  di_Source :: string
  di_AccountUsrSeq :: "int option"
  di_AccountUsrSeqSet :: bool
  di_TransactionNumber :: "string option"
  di_DonationDate :: string
  di_Donor :: DonationDonor
  di_DonationType :: string
  di_GrossAmount :: int
  di_RefundedAmount :: int
  di_Status :: string
  di_PaymentMethod :: string
  di_Memo :: "string option"
  di_LastEditedAt :: string

record NormalizedDonationOrder = DonationOrderInput +
  nd_NetReceivedAmount :: int
  nd_CompositeKey :: string
  nd_LegacyGate :: string
  nd_LegacyStatus :: string
  nd_LegacyPayment :: string

datatype don_error =
    ErrInvalidDonationOrder string
  | ErrInvalidTierThresholds
  | ErrInvalidDonationBalance
  | ErrDonationOrderConflict
  | ErrDonationOrderStale
  | ErrDonationOrderNotFound
  | ErrDonationAccountNotFound
  | ErrInsertedOrderNotFound
  | DonationDatabase string

text \<open>\<^verbatim>\<open>^010(?:-[0-9]{4}-[0-9]{4}|[0-9]{8})$\<close>\<close>

definition donor_phone :: "string \<Rightarrow> bool" where
  "donor_phone s =
     (take 3 s = ''010'' \<and>
       (let r = drop 3 s in
        length r = 8 \<and> list_all is_digit r
        \<or> length r = 10 \<and> r ! 0 = CHR ''-'' \<and> list_all is_digit (take 4 (drop 1 r)) \<and> r ! 5 = CHR ''-'' \<and> list_all is_digit (drop 6 r)))"

definition strip_hyphens :: "string \<Rightarrow> string" where
  "strip_hyphens = filter (\<lambda>c. c \<noteq> CHR ''-'')"

definition isASCII :: "string \<Rightarrow> bool" where
  "isASCII = list_all (\<lambda>c. (of_char c :: nat) \<le> 127)"

definition trim_input :: "DonationOrderInput \<Rightarrow> DonationOrderInput" where
  "trim_input i =
     i\<lparr>di_Source := go_TrimSpace (di_Source i), di_DonationDate := go_TrimSpace (di_DonationDate i),
       di_Donor := \<lparr>dd_Name = go_TrimSpace (dd_Name (di_Donor i)), dd_Cohort = go_TrimSpace (dd_Cohort (di_Donor i)),
         dd_Department = go_TrimSpace (dd_Department (di_Donor i)), dd_Phone = go_TrimSpace (dd_Phone (di_Donor i))\<rparr>,
       di_DonationType := go_TrimSpace (di_DonationType i), di_Status := go_TrimSpace (di_Status i),
       di_PaymentMethod := go_TrimSpace (di_PaymentMethod i), di_LastEditedAt := go_TrimSpace (di_LastEditedAt i)\<rparr>"

definition donation_sources :: "string list" where
  "donation_sources = [''happy_nanum'', ''bank_transfer'', ''other'']"

definition payment_methods :: "string list" where
  "payment_methods = [''card'', ''bank'', ''virtual_bank'', ''mobile'', ''admin'', ''other'']"

definition legacy_gate :: "string \<Rightarrow> string option" where
  "legacy_gate t =
     (if t = ''recurring'' then Some ''P'' else if t = ''one_time'' then Some ''S'' else if t = ''sponsorship'' then Some ''F'' else None)"

definition legacy_state :: "string \<Rightarrow> (string \<times> string) option" where
  "legacy_state st =
     (if st = ''scheduled'' \<or> st = ''pending'' then Some (''I'', ''N'')
      else if st = ''completed'' \<or> st = ''partially_refunded'' then Some (''Y'', ''Y'')
      else if st = ''cancelled'' \<or> st = ''fully_refunded'' then Some (''N'', ''N'')
      else None)"

definition refund_error :: "string \<Rightarrow> int \<Rightarrow> int \<Rightarrow> string option" where
  "refund_error st gross refunded =
     (if st = ''partially_refunded'' then
        (if refunded = 0 \<or> refunded = gross then Some ''partially_refunded requires a partial refund'' else None)
      else if st = ''fully_refunded'' then (if refunded \<noteq> gross then Some ''fully_refunded requires a full refund'' else None)
      else if refunded \<noteq> 0 then Some (''status '' @ st @ '' does not allow a refund'') else None)"

definition valid_transaction :: "string option \<Rightarrow> bool" where
  "valid_transaction t =
     (case t of None \<Rightarrow> True | Some x \<Rightarrow> let y = go_TrimSpace x in y \<noteq> [] \<and> length y \<le> 191 \<and> isASCII y)"

definition order_identity :: "DonationOrderInput \<Rightarrow> string" where
  "order_identity i =
     di_DonationDate i @ [CHR 0x00] @ dd_Phone (di_Donor i) @ [CHR 0x00] @ dd_Name (di_Donor i) @ [CHR 0x00] @ dd_Cohort (di_Donor i)
       @ [CHR 0x00] @ dd_Department (di_Donor i) @ [CHR 0x00] @ go_Itoa (di_GrossAmount i)"

text \<open>The checks in their order; \<open>sha\<close> is the hexadecimal SHA-256 sum.\<close>

definition input_error :: "DonationOrderInput \<Rightarrow> string option" where
  "input_error i =
     (let d = di_Donor i in
      if di_Source i \<notin> set donation_sources then Some ''invalid source''
      else if \<not> canonical date_layout (di_DonationDate i) then Some ''invalid donation date''
      else if dd_Name d = [] \<or> dd_Cohort d = [] \<or> dd_Department d = [] then Some ''donor fields are required''
      else if \<not> donor_phone (dd_Phone d) then Some ''invalid donor phone''
      else if legacy_gate (di_DonationType i) = None then Some ''invalid donation type''
      else if legacy_state (di_Status i) = None then Some ''invalid donation status''
      else if di_PaymentMethod i \<notin> set payment_methods then Some ''invalid payment method''
      else if \<not> valid_transaction (di_TransactionNumber i) then Some ''invalid transaction number''
      else if di_GrossAmount i < 0 \<or> di_RefundedAmount i < 0 \<or> di_RefundedAmount i > di_GrossAmount i then Some ''invalid donation amounts''
      else if di_LastEditedAt i \<noteq> [] \<and> \<not> canonical stamp_layout (di_LastEditedAt i) then Some ''invalid last edited timestamp''
      else refund_error (di_Status i) (di_GrossAmount i) (di_RefundedAmount i))"

definition NormalizeDonationOrderInput :: "(string \<Rightarrow> string) \<Rightarrow> DonationOrderInput \<Rightarrow> (don_error, NormalizedDonationOrder) result" where
  "NormalizeDonationOrderInput sha input =
     (let i = trim_input input in
      case input_error i of
        Some m \<Rightarrow> Inl (ErrInvalidDonationOrder m)
      | None \<Rightarrow>
          (let j = i\<lparr>di_Donor := (di_Donor i)\<lparr>dd_Phone := strip_hyphens (dd_Phone (di_Donor i))\<rparr>,
                     di_TransactionNumber := map_option go_TrimSpace (di_TransactionNumber i)\<rparr>
           in Inr \<lparr>di_Source = di_Source j, di_AccountUsrSeq = di_AccountUsrSeq j, di_AccountUsrSeqSet = di_AccountUsrSeqSet j,
                 di_TransactionNumber = di_TransactionNumber j, di_DonationDate = di_DonationDate j, di_Donor = di_Donor j,
                 di_DonationType = di_DonationType j, di_GrossAmount = di_GrossAmount j, di_RefundedAmount = di_RefundedAmount j,
                 di_Status = di_Status j, di_PaymentMethod = di_PaymentMethod j, di_Memo = di_Memo j, di_LastEditedAt = di_LastEditedAt j,
                 nd_NetReceivedAmount = di_GrossAmount j - di_RefundedAmount j,
                 nd_CompositeKey = (if di_TransactionNumber j = None then sha (order_identity j) else []),
                 nd_LegacyGate = the (legacy_gate (di_DonationType j)),
                 nd_LegacyStatus = fst (the (legacy_state (di_Status j))),
                 nd_LegacyPayment = snd (the (legacy_state (di_Status j)))\<rparr>))"

section \<open>The tables\<close>

record ledger_order =
  lo_seq :: int
  lo_usr :: int
  lo_account :: "int option"
  lo_unlinked :: "string option"
  lo_source :: string
  lo_txno :: "string option"
  lo_key :: "string option"
  lo_date :: "string option"
  lo_name :: "string option"
  lo_phone :: "string option"
  lo_cohort :: "string option"
  lo_department :: "string option"
  lo_gate :: string
  lo_gross :: "int option"
  lo_refunded :: int
  lo_net :: "int option"
  lo_lifecycle :: string
  lo_method :: "string option"
  lo_memo :: "string option"
  lo_price :: int
  lo_pay :: int
  lo_pay_type :: string
  lo_status :: string
  lo_payment :: string
  lo_type :: string
  lo_reg_oper :: "int option"
  lo_reg_date :: "string option"
  lo_reg_ip :: "string option"
  lo_edt_oper :: "int option"
  lo_edt_date :: "string option"
  lo_edt_ip :: "string option"

text \<open>\<^verbatim>\<open>USR_FN\<close> is an integer column, which the server compares with a text as a number.\<close>

record ledger_member =
  lm_seq :: int
  lm_name :: string
  lm_fn :: "int option"
  lm_phone :: "string option"
  lm_dept :: "string option"
  lm_status :: "string option"

record DonationConfig =
  dc_BalanceAmount :: "int option"
  dc_BalanceAsOf :: "string option"
  dc_Goal :: int
  dc_ManualAdj :: int
  dc_ManualDonorCnt :: int
  dc_TierSproutMin :: int
  dc_TierSaplingMin :: int
  dc_TierTreeMin :: int
  dc_TierBloomingMin :: int
  dc_TierFruitingMin :: int
  dc_Note :: string
  dc_Overwrite :: string
  dc_IsActive :: string
  dc_RegDate :: string
  dc_RegOper :: int

record ledger =
  lg_orders :: "ledger_order list"
  lg_next :: int
  lg_members :: "ledger_member list"
  lg_retentions :: "int list"
  lg_configs :: "DonationConfig list"

text \<open>What an operation meets: the database clock, the faults of its statements, whether the server is in strict
  mode, the hash, equality under the collation of the text columns, the comparison of a number with a text, and
  \<^verbatim>\<open>LIKE '%x%'\<close>.\<close>

record don_env =
  dn_now :: string
  dn_flt :: "string \<Rightarrow> don_error option"
  dn_strict :: bool
  dn_sha :: "string \<Rightarrow> string"
  dn_same :: "string \<Rightarrow> string \<Rightarrow> bool"
  dn_number :: "int \<Rightarrow> string \<Rightarrow> bool"
  dn_like :: "string \<Rightarrow> string \<Rightarrow> bool"

text \<open>The legacy columns are narrower than the ledger's: \<^verbatim>\<open>O_PRICE\<close> and \<^verbatim>\<open>O_PAY\<close> are \<^verbatim>\<open>INT\<close>, \<^verbatim>\<open>O_PAY_TYPE\<close> is
  \<^verbatim>\<open>CHAR(4)\<close>. Strict mode refuses a value that does not fit, otherwise it is clipped. The other columns are taken to
  fit.\<close>

definition int_max :: int where "int_max = 2147483647"

definition clip_int :: "int \<Rightarrow> int" where
  "clip_int v = (if v > int_max then int_max else v)"

definition fits :: "ledger_order \<Rightarrow> bool" where
  "fits r = (lo_price r \<le> int_max \<and> lo_pay r \<le> int_max \<and> length (lo_pay_type r) \<le> 4)"

definition stored :: "ledger_order \<Rightarrow> ledger_order" where
  "stored r = r\<lparr>lo_price := clip_int (lo_price r), lo_pay := clip_int (lo_pay r), lo_pay_type := take 4 (lo_pay_type r)\<rparr>"

text \<open>The unique keys \<^verbatim>\<open>UK_WO_COMPOSITE_KEY\<close> and \<^verbatim>\<open>UK_WO_SOURCE_TRANSACTION\<close>.\<close>

definition clashes :: "ledger_order \<Rightarrow> ledger_order \<Rightarrow> bool" where
  "clashes r o1 = (lo_key r \<noteq> None \<and> lo_key o1 = lo_key r \<or> lo_txno r \<noteq> None \<and> lo_txno o1 = lo_txno r \<and> lo_source o1 = lo_source r)"

section \<open>Writing orders\<close>

definition legacyDonationPayType :: "string \<Rightarrow> string" where
  "legacyDonationPayType m =
     (if m = ''card'' then ''CARD'' else if m = ''bank'' then ''BANK'' else if m = ''virtual_bank'' then ''VBANK''
      else if m = ''mobile'' then ''HP'' else if m = ''admin'' then ''ADMS'' else ''FREE'')"

definition nullableCompositeKey :: "NormalizedDonationOrder \<Rightarrow> string option" where
  "nullableCompositeKey n = (if di_TransactionNumber n \<noteq> None then None else Some (nd_CompositeKey n))"

definition accountUsrSeqOrZero :: "int option \<Rightarrow> int" where
  "accountUsrSeqOrZero a = (case a of None \<Rightarrow> 0 | Some u \<Rightarrow> u)"

text \<open>The columns that creating and replacing write alike.\<close>

definition ledger_columns :: "NormalizedDonationOrder \<Rightarrow> ledger_order \<Rightarrow> ledger_order" where
  "ledger_columns n r =
     r\<lparr>lo_source := di_Source n, lo_txno := di_TransactionNumber n, lo_key := nullableCompositeKey n, lo_date := Some (di_DonationDate n),
       lo_name := Some (dd_Name (di_Donor n)), lo_phone := Some (dd_Phone (di_Donor n)), lo_cohort := Some (dd_Cohort (di_Donor n)),
       lo_department := Some (dd_Department (di_Donor n)), lo_gate := nd_LegacyGate n, lo_gross := Some (di_GrossAmount n),
       lo_refunded := di_RefundedAmount n, lo_net := Some (nd_NetReceivedAmount n), lo_lifecycle := di_Status n,
       lo_method := Some (di_PaymentMethod n), lo_memo := di_Memo n, lo_price := di_GrossAmount n, lo_pay := nd_NetReceivedAmount n,
       lo_pay_type := legacyDonationPayType (di_PaymentMethod n), lo_status := nd_LegacyStatus n, lo_payment := nd_LegacyPayment n\<rparr>"

definition new_ledger_order :: "don_env \<Rightarrow> NormalizedDonationOrder \<Rightarrow> int \<Rightarrow> string \<Rightarrow> int \<Rightarrow> ledger_order" where
  "new_ledger_order env n oper ip seq =
     ledger_columns n \<lparr>lo_seq = seq, lo_usr = accountUsrSeqOrZero (di_AccountUsrSeq n), lo_account = di_AccountUsrSeq n, lo_unlinked = None,
       lo_source = [], lo_txno = None, lo_key = None, lo_date = None, lo_name = None, lo_phone = None, lo_cohort = None, lo_department = None,
       lo_gate = [], lo_gross = None, lo_refunded = 0, lo_net = None, lo_lifecycle = [], lo_method = None, lo_memo = None, lo_price = 0,
       lo_pay = 0, lo_pay_type = [], lo_status = [], lo_payment = [], lo_type = ''A'',
       lo_reg_oper = Some oper, lo_reg_date = Some (dn_now env), lo_reg_ip = Some ip,
       lo_edt_oper = Some oper, lo_edt_date = Some (dn_now env), lo_edt_ip = Some ip\<rparr>"

fun insert_orders :: "don_env \<Rightarrow> int \<Rightarrow> string \<Rightarrow> NormalizedDonationOrder list \<Rightarrow> (don_error, ledger, unit) tx" where
  "insert_orders env oper ip [] = tx_return ()"
| "insert_orders env oper ip (n # ns) = (\<lambda>s.
     let r = new_ledger_order env n oper ip (lg_next s) in
     if dn_strict env \<and> \<not> fits r then Inl (DonationDatabase ''out of range'')
     else if list_ex (clashes r) (lg_orders s) then Inl ErrDonationOrderConflict
     else insert_orders env oper ip ns (s\<lparr>lg_orders := lg_orders s @ [stored r], lg_next := lg_next s + 1\<rparr>))"

text \<open>One \<^verbatim>\<open>INSERT\<close> statement.\<close>

definition insert_statement :: "don_env \<Rightarrow> int \<Rightarrow> string \<Rightarrow> NormalizedDonationOrder list \<Rightarrow> (don_error, ledger, unit) tx" where
  "insert_statement env oper ip ns = (\<lambda>s. case dn_flt env ''order.insert'' of Some e \<Rightarrow> Inl e | None \<Rightarrow> insert_orders env oper ip ns s)"

definition linkable :: "ledger_member \<Rightarrow> bool" where
  "linkable m = (lm_status m \<noteq> None \<and> lm_status m \<noteq> Some ''AAA'')"

definition lockActiveDonationAccount :: "don_env \<Rightarrow> int option \<Rightarrow> (don_error, ledger, unit) tx" where
  "lockActiveDonationAccount env account =
     (case account of
        None \<Rightarrow> tx_return ()
      | Some u \<Rightarrow> tx_bind (get_row (dn_flt env ''account.lock'') ErrDonationAccountNotFound (\<lambda>s. sql_get (\<lambda>m. lm_seq m = u \<and> linkable m) (lg_members s)))
          (\<lambda>_. tx_return ()))"

definition batch_accounts :: "NormalizedDonationOrder list \<Rightarrow> int list" where
  "batch_accounts ns = sort (remdups (List.map_filter di_AccountUsrSeq ns))"

definition lockActiveDonationAccounts :: "don_env \<Rightarrow> NormalizedDonationOrder list \<Rightarrow> (don_error, ledger, unit) tx" where
  "lockActiveDonationAccounts env ns =
     (let us = batch_accounts ns in
      if us = [] then tx_return ()
      else tx_bind (query (dn_flt env ''accounts.lock'') (\<lambda>s. sql_affected (\<lambda>m. lm_seq m \<in> set us \<and> linkable m) (lg_members s))) (\<lambda>n.
           tx_guard (n = length us) ErrDonationAccountNotFound))"

definition CreateDonationOrderTx :: "don_env \<Rightarrow> NormalizedDonationOrder \<Rightarrow> int \<Rightarrow> string \<Rightarrow> (don_error, ledger, int) tx" where
  "CreateDonationOrderTx env n oper ip =
     tx_then (lockActiveDonationAccount env (di_AccountUsrSeq n)) (
     tx_bind (query None lg_next) (\<lambda>seq.
     tx_then (insert_statement env oper ip [n]) (
     tx_then (query (dn_flt env ''order.insertid'') (\<lambda>_. ())) (tx_return seq))))"

definition repo_CreateDonationOrder :: "don_env \<Rightarrow> NormalizedDonationOrder \<Rightarrow> int \<Rightarrow> string \<Rightarrow> ledger \<Rightarrow> (don_error, int) result \<times> ledger" where
  "repo_CreateDonationOrder env n oper ip = transact (dn_flt env ''begin'') (dn_flt env ''commit'') (CreateDonationOrderTx env n oper ip)"

text \<open>The map from key to sequence, where a later row replaces an earlier one.\<close>

fun sequences_of :: "(string \<times> int) list \<Rightarrow> NormalizedDonationOrder list \<Rightarrow> (don_error, int list) result" where
  "sequences_of rows [] = Inr []"
| "sequences_of rows (n # ns) =
     (case map_of (rev rows) (nd_CompositeKey n) of
        None \<Rightarrow> Inl ErrInsertedOrderNotFound
      | Some q \<Rightarrow> map_sum id (\<lambda>qs. q # qs) (sequences_of rows ns))"

definition keyed_orders :: "string list \<Rightarrow> ledger \<Rightarrow> (string \<times> int) list" where
  "keyed_orders keys s = List.map_filter (\<lambda>r. case lo_key r of Some k \<Rightarrow> if k \<in> set keys then Some (k, lo_seq r) else None | None \<Rightarrow> None) (lg_orders s)"

definition findInsertedDonationOrderSequences :: "don_env \<Rightarrow> NormalizedDonationOrder list \<Rightarrow> (don_error, ledger, int list) tx" where
  "findInsertedDonationOrderSequences env ns =
     tx_bind (query (dn_flt env ''orders.inserted'') (keyed_orders (map nd_CompositeKey ns))) (\<lambda>rows.
     (\<lambda>s. case sequences_of rows ns of Inl e \<Rightarrow> Inl e | Inr qs \<Rightarrow> Inr (qs, s)))"

definition CreateDonationOrdersTx :: "don_env \<Rightarrow> NormalizedDonationOrder list \<Rightarrow> int \<Rightarrow> string \<Rightarrow> (don_error, ledger, int list) tx" where
  "CreateDonationOrdersTx env ns oper ip =
     (if ns = [] then tx_return []
      else tx_then (lockActiveDonationAccounts env ns) (
           tx_then (insert_statement env oper ip ns) (findInsertedDonationOrderSequences env ns)))"

section \<open>Replacing orders\<close>

definition edited_at :: "ledger_order \<Rightarrow> string option" where
  "edited_at r = (case lo_edt_date r of Some d \<Rightarrow> Some d | None \<Rightarrow> lo_reg_date r)"

definition donation_row :: "int \<Rightarrow> ledger_order \<Rightarrow> bool" where
  "donation_row seq r = (lo_seq r = seq \<and> lo_type r = ''A'')"

definition replaced :: "don_env \<Rightarrow> NormalizedDonationOrder \<Rightarrow> int \<Rightarrow> string \<Rightarrow> ledger_order \<Rightarrow> ledger_order" where
  "replaced env n oper ip r =
     (let r' = ledger_columns n r;
          linked = (if di_AccountUsrSeqSet n
                    then r'\<lparr>lo_account := di_AccountUsrSeq n, lo_usr := accountUsrSeqOrZero (di_AccountUsrSeq n),
                            lo_unlinked := (if di_AccountUsrSeq n = None then Some (dn_now env) else None)\<rparr>
                    else r')
      in linked\<lparr>lo_edt_oper := Some oper, lo_edt_date := Some (dn_now env), lo_edt_ip := Some ip\<rparr>)"

text \<open>The \<^verbatim>\<open>UPDATE\<close> under the optimistic lock; its result is the number of rows that changed.\<close>

definition seen_row :: "int \<Rightarrow> NormalizedDonationOrder \<Rightarrow> ledger_order \<Rightarrow> bool" where
  "seen_row seq n r = (donation_row seq r \<and> edited_at r = Some (di_LastEditedAt n))"

definition replace_statement :: "don_env \<Rightarrow> int \<Rightarrow> NormalizedDonationOrder \<Rightarrow> int \<Rightarrow> string \<Rightarrow> (don_error, ledger, nat) tx" where
  "replace_statement env seq n oper ip s =
     (case dn_flt env ''order.update'' of Some e \<Rightarrow> Inl e | None \<Rightarrow>
      (let hit = filter (seen_row seq n) (lg_orders s); new = replaced env n oper ip in
       if dn_strict env \<and> list_ex (\<lambda>r. \<not> fits (new r)) hit then Inl (DonationDatabase ''out of range'')
       else if list_ex (\<lambda>r. list_ex (\<lambda>x. lo_seq x \<noteq> lo_seq r \<and> clashes (new r) x) (lg_orders s)) hit then Inl ErrDonationOrderConflict
       else Inr (sql_changed (seen_row seq n) (\<lambda>r. stored (new r)) (lg_orders s),
                 s\<lparr>lg_orders := sql_update (seen_row seq n) (\<lambda>r. stored (new r)) (lg_orders s)\<rparr>)))"

definition update_tx :: "don_env \<Rightarrow> int \<Rightarrow> NormalizedDonationOrder \<Rightarrow> int \<Rightarrow> string \<Rightarrow> (don_error, ledger, unit) tx" where
  "update_tx env seq n oper ip =
     tx_then (if di_AccountUsrSeqSet n then lockActiveDonationAccount env (di_AccountUsrSeq n) else tx_return ()) (
     tx_bind (replace_statement env seq n oper ip) (\<lambda>changed.
     tx_then (query (dn_flt env ''order.affected'') (\<lambda>_. ())) (
     tx_then (if changed = 0 then
                tx_bind (get_row (dn_flt env ''order.stale'') ErrDonationOrderNotFound (\<lambda>s. map_option edited_at (sql_get (donation_row seq) (lg_orders s)))) (\<lambda>current.
                tx_guard ((case current of None \<Rightarrow> [] | Some d \<Rightarrow> d) = di_LastEditedAt n) ErrDonationOrderStale)
              else tx_return ())
       (exec (dn_flt env ''retention.delete'') (\<lambda>s. s\<lparr>lg_retentions := filter (\<lambda>q. q \<noteq> seq) (lg_retentions s)\<rparr>)))))"

definition repo_UpdateDonationOrder :: "don_env \<Rightarrow> int \<Rightarrow> NormalizedDonationOrder \<Rightarrow> int \<Rightarrow> string \<Rightarrow> ledger \<Rightarrow> (don_error, unit) result \<times> ledger" where
  "repo_UpdateDonationOrder env seq n oper ip = transact (dn_flt env ''begin'') (dn_flt env ''commit'') (update_tx env seq n oper ip)"

section \<open>Reading orders\<close>

record DonationOrder =
  do_OrderSeq :: int
  do_AccountUsrSeq :: "int option"
  do_Source :: string
  do_TransactionNumber :: "string option"
  do_DonationDate :: string
  do_Donor :: DonationDonor
  do_DonationType :: string
  do_GrossAmount :: int
  do_RefundedAmount :: int
  do_NetReceivedAmount :: int
  do_Status :: string
  do_PaymentMethod :: string
  do_Memo :: "string option"
  do_LastEditedBy :: int
  do_LastEditedAt :: string
  do_LastEditedIP :: string

definition first_of :: "'a \<Rightarrow> 'a option list \<Rightarrow> 'a" where
  "first_of d xs = (case find (\<lambda>x. x \<noteq> None) xs of Some (Some a) \<Rightarrow> a | _ \<Rightarrow> d)"

definition donation_type :: "string \<Rightarrow> string" where
  "donation_type g = (if g = ''P'' then ''recurring'' else if g = ''S'' then ''one_time'' else if g = ''F'' then ''sponsorship'' else [])"

definition owner_row :: "ledger \<Rightarrow> ledger_order \<Rightarrow> ledger_member option" where
  "owner_row s r = sql_get (\<lambda>m. lm_seq m = lo_usr r) (lg_members s)"

definition donationOrderFromRow :: "ledger \<Rightarrow> ledger_order \<Rightarrow> DonationOrder" where
  "donationOrderFromRow s r =
     (let m = owner_row s r in
      \<lparr>do_OrderSeq = lo_seq r, do_AccountUsrSeq = lo_account r, do_Source = lo_source r, do_TransactionNumber = lo_txno r,
       do_DonationDate = first_of [] [lo_date r],
       do_Donor = \<lparr>dd_Name = first_of [] [lo_name r, map_option lm_name m],
         dd_Cohort = first_of [] [lo_cohort r, map_option go_Itoa (Option.bind m lm_fn)],
         dd_Department = first_of [] [lo_department r, Option.bind m lm_dept],
         dd_Phone = first_of [] [lo_phone r, Option.bind m lm_phone]\<rparr>,
       do_DonationType = donation_type (lo_gate r),
       do_GrossAmount = first_of 0 [lo_gross r, Some (lo_price r)], do_RefundedAmount = lo_refunded r,
       do_NetReceivedAmount = first_of 0 [lo_net r], do_Status = lo_lifecycle r, do_PaymentMethod = first_of ''other'' [lo_method r],
       do_Memo = lo_memo r, do_LastEditedBy = first_of 0 [lo_edt_oper r, lo_reg_oper r],
       do_LastEditedAt = first_of [] [lo_edt_date r, lo_reg_date r], do_LastEditedIP = first_of [] [lo_edt_ip r, lo_reg_ip r]\<rparr>)"

text \<open>The date is scanned into a string, which a \<^verbatim>\<open>NULL\<close> makes fail.\<close>

definition scan_failed :: don_error where
  "scan_failed = DonationDatabase ''converting NULL to string is unsupported''"

definition repo_GetDonationOrder :: "don_env \<Rightarrow> int \<Rightarrow> ledger \<Rightarrow> (don_error, DonationOrder) result" where
  "repo_GetDonationOrder env seq s =
     (case dn_flt env ''order.get'' of Some e \<Rightarrow> Inl e | None \<Rightarrow>
     (case sql_get (donation_row seq) (lg_orders s) of
        None \<Rightarrow> Inl ErrDonationOrderNotFound
      | Some r \<Rightarrow> if lo_date r = None then Inl scan_failed else Inr (donationOrderFromRow s r)))"

record DonationOrderFilters =
  fl_Name :: string
  fl_Phone :: string
  fl_TransactionNumber :: string
  fl_Source :: string
  fl_Status :: string
  fl_DonationType :: string

definition legacyDonationGate :: "string \<Rightarrow> string" where
  "legacyDonationGate t = (case legacy_gate t of None \<Rightarrow> [] | Some g \<Rightarrow> g)"

definition listed :: "don_env \<Rightarrow> DonationOrderFilters \<Rightarrow> ledger \<Rightarrow> ledger_order \<Rightarrow> bool" where
  "listed env f s r =
     (let d = do_Donor (donationOrderFromRow s r) in
      lo_type r = ''A''
      \<and> (fl_Name f \<noteq> [] \<longrightarrow> dn_like env (fl_Name f) (dd_Name d))
      \<and> (fl_Phone f \<noteq> [] \<longrightarrow> dn_like env (fl_Phone f) (dd_Phone d))
      \<and> (fl_TransactionNumber f \<noteq> [] \<longrightarrow> (case lo_txno r of None \<Rightarrow> False | Some t \<Rightarrow> dn_like env (fl_TransactionNumber f) t))
      \<and> (fl_Source f \<noteq> [] \<longrightarrow> lo_source r = fl_Source f)
      \<and> (fl_Status f \<noteq> [] \<longrightarrow> lo_lifecycle r = fl_Status f)
      \<and> (fl_DonationType f \<noteq> [] \<longrightarrow> lo_gate r = legacyDonationGate (fl_DonationType f)))"

text \<open>\<^verbatim>\<open>ORDER BY O_DONATION_DATE DESC, O_SEQ DESC\<close>: missing dates come last. Dates are compared as texts, which for
  four-digit years is their order in time.\<close>

definition newest_orders :: "ledger_order list \<Rightarrow> ledger_order list" where
  "newest_orders rs = rev (sort_key (\<lambda>r. (if lo_date r = None then (0 :: int) else 1, map (\<lambda>c. of_char c :: int) (first_of [] [lo_date r]), lo_seq r)) rs)"

definition repo_ListDonationOrders :: "don_env \<Rightarrow> DonationOrderFilters \<Rightarrow> int \<Rightarrow> int \<Rightarrow> ledger \<Rightarrow> (don_error, DonationOrder list \<times> int) result" where
  "repo_ListDonationOrders env f page sz s =
     (case dn_flt env ''orders.count'' of Some e \<Rightarrow> Inl e | None \<Rightarrow>
     (case dn_flt env ''orders.list'' of Some e \<Rightarrow> Inl e | None \<Rightarrow>
      (let rs = filter (listed env f s) (lg_orders s);
           rows = take (nat sz) (drop (nat ((page - 1) * sz)) (newest_orders rs))
       in if list_ex (\<lambda>r. lo_date r = None) rows then Inl scan_failed
          else Inr (map (donationOrderFromRow s) rows, int (length rs)))))"

section \<open>The service\<close>

definition validateDonationAccountInput :: "int option \<Rightarrow> don_error option" where
  "validateDonationAccountInput a =
     (case a of None \<Rightarrow> None | Some u \<Rightarrow> if u \<le> 0 then Some (ErrInvalidDonationOrder ''invalid account user sequence'') else None)"

definition admin_CreateOrder :: "don_env \<Rightarrow> DonationOrderInput \<Rightarrow> int \<Rightarrow> string \<Rightarrow> ledger \<Rightarrow> (don_error, int) result \<times> ledger" where
  "admin_CreateOrder env input oper ip s =
     (case NormalizeDonationOrderInput (dn_sha env) input of
        Inl e \<Rightarrow> (Inl e, s)
      | Inr n \<Rightarrow>
          (case validateDonationAccountInput (di_AccountUsrSeq n) of
             Some e \<Rightarrow> (Inl e, s)
           | None \<Rightarrow> repo_CreateDonationOrder env n oper ip s))"

definition admin_UpdateOrder :: "don_env \<Rightarrow> int \<Rightarrow> DonationOrderInput \<Rightarrow> int \<Rightarrow> string \<Rightarrow> ledger \<Rightarrow> (don_error, unit) result \<times> ledger" where
  "admin_UpdateOrder env seq input oper ip s =
     (if seq \<le> 0 then (Inl (ErrInvalidDonationOrder ''invalid donation order sequence''), s)
      else if go_TrimSpace (di_LastEditedAt input) = [] then (Inl (ErrInvalidDonationOrder ''last edited timestamp is required''), s)
      else (case NormalizeDonationOrderInput (dn_sha env) input of
              Inl e \<Rightarrow> (Inl e, s)
            | Inr n \<Rightarrow>
                (case (if di_AccountUsrSeqSet n then validateDonationAccountInput (di_AccountUsrSeq n) else None) of
                   Some e \<Rightarrow> (Inl e, s)
                 | None \<Rightarrow> repo_UpdateDonationOrder env seq n oper ip s)))"

definition admin_GetOrder :: "don_env \<Rightarrow> int \<Rightarrow> ledger \<Rightarrow> (don_error, DonationOrder) result" where
  "admin_GetOrder env seq s =
     (if seq \<le> 0 then Inl (ErrInvalidDonationOrder ''invalid donation order sequence'') else repo_GetDonationOrder env seq s)"

definition isDonationStatus :: "string \<Rightarrow> bool" where
  "isDonationStatus st = (legacy_state st \<noteq> None)"

definition clean_filters :: "DonationOrderFilters \<Rightarrow> DonationOrderFilters" where
  "clean_filters f =
     \<lparr>fl_Name = go_TrimSpace (fl_Name f), fl_Phone = strip_hyphens (go_TrimSpace (fl_Phone f)),
      fl_TransactionNumber = go_TrimSpace (fl_TransactionNumber f), fl_Source = go_TrimSpace (fl_Source f),
      fl_Status = go_TrimSpace (fl_Status f), fl_DonationType = go_TrimSpace (fl_DonationType f)\<rparr>"

definition filter_error :: "DonationOrderFilters \<Rightarrow> string option" where
  "filter_error f =
     (if fl_Source f \<noteq> [] \<and> fl_Source f \<notin> set donation_sources then Some ''invalid donation source filter''
      else if fl_Status f \<noteq> [] \<and> \<not> isDonationStatus (fl_Status f) then Some ''invalid donation status filter''
      else if fl_DonationType f \<noteq> [] \<and> legacy_gate (fl_DonationType f) = None then Some ''invalid donation type filter''
      else if \<not> list_all is_digit (fl_Phone f) then Some ''invalid donor phone filter''
      else if fl_TransactionNumber f \<noteq> [] \<and> \<not> isASCII (fl_TransactionNumber f) then Some ''invalid transaction number filter''
      else None)"

record DonationOrderPage =
  pg_Items :: "DonationOrder list"
  pg_Total :: int
  pg_Page :: int
  pg_Size :: int

definition admin_ListOrders :: "don_env \<Rightarrow> DonationOrderFilters \<Rightarrow> int \<Rightarrow> int \<Rightarrow> ledger \<Rightarrow> (don_error, DonationOrderPage) result" where
  "admin_ListOrders env f0 page0 sz0 s =
     (let page = (if page0 < 1 then 1 else page0); sz = (if sz0 \<le> 0 \<or> sz0 > 50 then 20 else sz0); f = clean_filters f0 in
      case filter_error f of
        Some m \<Rightarrow> Inl (ErrInvalidDonationOrder m)
      | None \<Rightarrow>
          (case repo_ListDonationOrders env f page sz s of
             Inl e \<Rightarrow> Inl e
           | Inr (items, cnt) \<Rightarrow> Inr \<lparr>pg_Items = items, pg_Total = cnt, pg_Page = page, pg_Size = sz\<rparr>))"

section \<open>The configuration\<close>

record DonationConfigUpdate =
  cu_BalanceAmount :: "int option"
  cu_BalanceAsOf :: "string option"
  cu_Goal :: int
  cu_ManualAdj :: int
  cu_ManualDonorCnt :: int
  cu_TierSproutMin :: int
  cu_TierSaplingMin :: int
  cu_TierTreeMin :: int
  cu_TierBloomingMin :: int
  cu_TierFruitingMin :: int
  cu_Note :: string
  cu_Overwrite :: bool

definition validDonationTierThresholds :: "DonationConfigUpdate \<Rightarrow> bool" where
  "validDonationTierThresholds u =
     (cu_TierSproutMin u \<ge> 0 \<and> cu_TierSaplingMin u \<ge> 0 \<and> cu_TierTreeMin u \<ge> 0 \<and> cu_TierBloomingMin u \<ge> 0 \<and> cu_TierFruitingMin u \<ge> 0
      \<and> cu_TierSproutMin u < cu_TierSaplingMin u \<and> cu_TierSaplingMin u < cu_TierTreeMin u
      \<and> cu_TierTreeMin u < cu_TierBloomingMin u \<and> cu_TierBloomingMin u < cu_TierFruitingMin u)"

definition balance_date :: "string \<Rightarrow> bool" where
  "balance_date d = (canonical date_layout d \<and> p_year (the (go_Parse date_layout d)) \<ge> 1000)"

definition normalizeDonationConfigUpdate :: "DonationConfigUpdate \<Rightarrow> (don_error, DonationConfig) result" where
  "normalizeDonationConfigUpdate u =
     (if \<not> validDonationTierThresholds u then Inl ErrInvalidTierThresholds
      else if (case cu_BalanceAmount u of None \<Rightarrow> False | Some b \<Rightarrow> b < 0 \<or> cu_BalanceAsOf u = None) then Inl ErrInvalidDonationBalance
      else if (case cu_BalanceAsOf u of None \<Rightarrow> False | Some d \<Rightarrow> \<not> balance_date d) then Inl ErrInvalidDonationBalance
      else Inr \<lparr>dc_BalanceAmount = cu_BalanceAmount u,
                dc_BalanceAsOf = (if cu_BalanceAmount u = None then None else cu_BalanceAsOf u),
                dc_Goal = cu_Goal u, dc_ManualAdj = cu_ManualAdj u, dc_ManualDonorCnt = cu_ManualDonorCnt u,
                dc_TierSproutMin = cu_TierSproutMin u, dc_TierSaplingMin = cu_TierSaplingMin u, dc_TierTreeMin = cu_TierTreeMin u,
                dc_TierBloomingMin = cu_TierBloomingMin u, dc_TierFruitingMin = cu_TierFruitingMin u,
                dc_Note = cu_Note u, dc_Overwrite = (if cu_Overwrite u then ''Y'' else ''N''),
                dc_IsActive = [], dc_RegDate = [], dc_RegOper = 0\<rparr>)"

definition updateDonationConfig :: "don_env \<Rightarrow> DonationConfig \<Rightarrow> int \<Rightarrow> (don_error, ledger, unit) tx" where
  "updateDonationConfig env c oper =
     exec (dn_flt env ''config.update'') (\<lambda>s. s\<lparr>lg_configs := sql_update (\<lambda>r. dc_IsActive r = ''Y'')
       (\<lambda>r. c\<lparr>dc_IsActive := dc_IsActive r, dc_RegDate := dn_now env, dc_RegOper := oper\<rparr>) (lg_configs s)\<rparr>)"

definition admin_UpdateConfig :: "don_env \<Rightarrow> DonationConfigUpdate \<Rightarrow> int \<Rightarrow> ledger \<Rightarrow> (don_error, unit) result \<times> ledger" where
  "admin_UpdateConfig env u oper s =
     (case normalizeDonationConfigUpdate u of Inl e \<Rightarrow> (Inl e, s) | Inr c \<Rightarrow> direct (updateDonationConfig env c oper) s)"

section \<open>Imported orders\<close>

record ExcelDonationRow =
  xr_RowIndex :: int
  xr_DonorName :: string
  xr_DonorCohort :: string
  xr_DonorDepartment :: string
  xr_DonorPhone :: string
  xr_Amount :: int

definition importedDonationOrderInput :: "ExcelDonationRow \<Rightarrow> string \<Rightarrow> int option \<Rightarrow> DonationOrderInput" where
  "importedDonationOrderInput row date account =
     \<lparr>di_Source = ''happy_nanum'', di_AccountUsrSeq = account, di_AccountUsrSeqSet = True, di_TransactionNumber = None, di_DonationDate = date,
      di_Donor = \<lparr>dd_Name = xr_DonorName row, dd_Cohort = xr_DonorCohort row, dd_Department = xr_DonorDepartment row, dd_Phone = xr_DonorPhone row\<rparr>,
      di_DonationType = ''one_time'', di_GrossAmount = xr_Amount row, di_RefundedAmount = 0, di_Status = ''completed'', di_PaymentMethod = ''other'',
      di_Memo = None, di_LastEditedAt = []\<rparr>"

definition normalizeImportedDonationOrder :: "(string \<Rightarrow> string) \<Rightarrow> ExcelDonationRow \<Rightarrow> string \<Rightarrow> int option \<Rightarrow> (don_error, NormalizedDonationOrder) result" where
  "normalizeImportedDonationOrder sha row date account = NormalizeDonationOrderInput sha (importedDonationOrderInput row date account)"

fun normalize_imports :: "(string \<Rightarrow> string) \<Rightarrow> string \<Rightarrow> (ExcelDonationRow \<times> int option) list \<Rightarrow> (don_error, NormalizedDonationOrder list) result" where
  "normalize_imports sha date [] = Inr []"
| "normalize_imports sha date ((row, account) # rest) =
     (case normalizeImportedDonationOrder sha row date account of
        Inl e \<Rightarrow> Inl e
      | Inr n \<Rightarrow>
          (case validateDonationAccountInput (di_AccountUsrSeq n) of
             Some e \<Rightarrow> Inl e
           | None \<Rightarrow> map_sum id (\<lambda>ns. n # ns) (normalize_imports sha date rest)))"

definition CreateImportedOrdersTx :: "don_env \<Rightarrow> string \<Rightarrow> (ExcelDonationRow \<times> int option) list \<Rightarrow> int \<Rightarrow> string \<Rightarrow> (don_error, ledger, int list) tx" where
  "CreateImportedOrdersTx env date rows oper ip =
     (case normalize_imports (dn_sha env) date rows of Inl e \<Rightarrow> tx_fail e | Inr ns \<Rightarrow> CreateDonationOrdersTx env ns oper ip)"

end
