(* ===== verification/Donation_Import.thy ===== *)
theory Donation_Import
  imports Donation_Ledger
begin

text \<open>
  The import of donations from a spreadsheet (\<^verbatim>\<open>service/donation_import_service.go\<close>,
  \<^verbatim>\<open>repository/donation_import_repo.go\<close>, \<^verbatim>\<open>model/donation_import.go\<close>): reading the rows, the preview that matches
  donors with members and signs each row, and the commit that takes the signed rows back and writes the orders in one
  transaction. The spreadsheet library, HMAC, base64 and JSON are parameters. Messages for display are left out; an
  error is its row, field and code.
\<close>

section \<open>Data\<close>

definition donationImportMaxRows :: int where "donationImportMaxRows = 500"
definition donationImportMaxAmount :: int where "donationImportMaxAmount = 1000000000000"
definition donationImportPreviewTokenTTL :: int where "donationImportPreviewTokenTTL = 3600"

record DonationImportRowError =
  ire_RowIndex :: int
  ire_Field :: string
  ire_Code :: string

definition rowError :: "int \<Rightarrow> string \<Rightarrow> string \<Rightarrow> DonationImportRowError" where
  "rowError i field code = \<lparr>ire_RowIndex = i, ire_Field = field, ire_Code = code\<rparr>"

datatype import_error =
    ErrInvalidDonationDate
  | ErrInvalidDonationImportFile string
  | DonationImportFileValidationError "DonationImportRowError list"
  | DonationImportCommitError DonationImportRowError
  | LookupFailed don_error

record DonationImportMemberKey =
  mk_Name :: string
  mk_Cohort :: string
  mk_Phone :: string

definition NewDonationImportMemberKey :: "string \<Rightarrow> string \<Rightarrow> string \<Rightarrow> DonationImportMemberKey" where
  "NewDonationImportMemberKey name cohort phone = \<lparr>mk_Name = go_TrimSpace name, mk_Cohort = go_TrimSpace cohort, mk_Phone = NormalizePhoneNumber phone\<rparr>"

record MemberCandidate =
  mc_USRSeq :: int
  mc_Name :: string

definition DonationImportRowMatched :: string where "DonationImportRowMatched = ''matched''"
definition DonationImportRowAmbiguous :: string where "DonationImportRowAmbiguous = ''ambiguous''"
definition DonationImportRowUnmatched :: string where "DonationImportRowUnmatched = ''unmatched''"
definition DonationImportRowDuplicate :: string where "DonationImportRowDuplicate = ''duplicate''"

record DonationImportPreviewRow = ExcelDonationRow +
  pr_DonationDate :: string
  pr_Status :: string
  pr_MatchedUsrSeq :: "int option"
  pr_MatchedName :: string
  pr_PreviewToken :: string

record DonationImportPreviewResult =
  pv_Rows :: "DonationImportPreviewRow list"
  pv_MatchedCount :: int
  pv_AmbiguousCount :: int
  pv_UnmatchedCount :: int
  pv_DuplicateCount :: int

record DonationImportCommitRow = ExcelDonationRow +
  cr_AccountUsrSeq :: "int option"
  cr_PreviewToken :: string

record donationImportPreviewTokenPayload =
  pl_ExpiresAt :: int
  pl_RowIndex :: int
  pl_DonorName :: string
  pl_DonorCohort :: string
  pl_DonorDepartment :: string
  pl_DonorPhone :: string
  pl_Amount :: int
  pl_DonationDate :: string
  pl_Status :: string
  pl_MatchedUsrSeq :: "int option"

text \<open>The service's surroundings: its clock and key, the codecs, and the database. \<open>ie_refresher\<close> says whether a
  summary is refreshed after a commit.\<close>

record imp_env =
  ie_db :: don_env
  ie_now :: int
  ie_key :: string
  ie_hmac :: "string \<Rightarrow> string \<Rightarrow> string"
  ie_b64 :: "string \<Rightarrow> string"
  ie_unb64 :: "string \<Rightarrow> string option"
  ie_marshal :: "donationImportPreviewTokenPayload \<Rightarrow> string"
  ie_unmarshal :: "string \<Rightarrow> donationImportPreviewTokenPayload option"
  ie_refresher :: bool

section \<open>Dates\<close>

definition nyeon :: string where "nyeon = [CHR 0xEB, CHR 0x85, CHR 0x84]"
definition wol :: string where "wol = [CHR 0xEC, CHR 0x9B, CHR 0x94]"
definition il :: string where "il = [CHR 0xEC, CHR 0x9D, CHR 0xBC]"

definition import_layouts :: "chunk list list" where
  "import_layouts =
     [date_layout,
      [LongYear, Lit ''.'', ZeroMonth, Lit ''.'', ZeroDay],
      [LongYear, Lit ''/'', ZeroMonth, Lit ''/'', ZeroDay],
      [LongYear, ZeroMonth, ZeroDay],
      [LongYear, Lit nyeon, NumMonth, Lit wol, NumDay, Lit il],
      [LongYear, Lit (nyeon @ '' ''), NumMonth, Lit (wol @ '' ''), NumDay, Lit il],
      date_layout @ [Lit '' '', Hour24, Lit '':'', ZeroMinute, Lit '':'', ZeroSecond]]"

fun first_parse :: "chunk list list \<Rightarrow> string \<Rightarrow> string" where
  "first_parse [] value = value"
| "first_parse (l # ls) value = (case go_Parse l value of Some t \<Rightarrow> go_Format date_layout t | None \<Rightarrow> first_parse ls value)"

definition normalizeDonationImportDate :: "string \<Rightarrow> string" where
  "normalizeDonationImportDate value = first_parse import_layouts (go_TrimSpace value)"

definition validateDonationImportDate :: "string \<Rightarrow> (import_error, string) result" where
  "validateDonationImportDate value =
     (let normalized = normalizeDonationImportDate value in
      if canonical date_layout normalized then Inr normalized else Inl ErrInvalidDonationDate)"

section \<open>The spreadsheet\<close>

text \<open>What the library returns: the sheets, the rows of the first sheet, and the formula of the amount's cell in a
  row.\<close>

record workbook =
  wb_sheets :: "string list"
  wb_rows :: "(string, string list list) result"
  wb_formula :: "int \<Rightarrow> (string, string) result"

definition cellAt :: "string list \<Rightarrow> nat \<Rightarrow> string" where
  "cellAt row i = (if i < length row then row ! i else [])"

definition isBlankExcelRow :: "string list \<Rightarrow> bool" where
  "isBlankExcelRow row = list_all (\<lambda>v. go_TrimSpace v = []) row"

definition header_keywords :: "(nat \<times> string list) list" where
  "header_keywords =
     [(1, [[CHR 0xEC, CHR 0x9D, CHR 0xB4, CHR 0xEB, CHR 0xA6, CHR 0x84], [CHR 0xEC, CHR 0x84, CHR 0xB1, CHR 0xEB, CHR 0xAA, CHR 0x85], [CHR 0xED, CHR 0x9A, CHR 0x8C, CHR 0xEC, CHR 0x9B, CHR 0x90, CHR 0xEB, CHR 0xAA, CHR 0x85]]),
      (2, [[CHR 0xEA, CHR 0xB8, CHR 0xB0, CHR 0xEC, CHR 0x88, CHR 0x98], [CHR 0xED, CHR 0x9A, CHR 0x8C, CHR 0xEC, CHR 0xB0, CHR 0xA8]]),
      (3, [[CHR 0xEA, CHR 0xB3, CHR 0xBC], [CHR 0xEB, CHR 0xB6, CHR 0x80, CHR 0xEC, CHR 0x84, CHR 0x9C], [CHR 0xEC, CHR 0x86, CHR 0x8C, CHR 0xEC, CHR 0x86, CHR 0x8D]]),
      (4, [[CHR 0xEC, CHR 0xA0, CHR 0x84, CHR 0xED, CHR 0x99, CHR 0x94], [CHR 0xEC, CHR 0x97, CHR 0xB0, CHR 0xEB, CHR 0x9D, CHR 0xBD, CHR 0xEC, CHR 0xB2, CHR 0x98]])]"

definition validateDonationImportHeaders :: "string list list \<Rightarrow> bool" where
  "validateDonationImportHeaders rows =
     (let header = (if length rows > 1 then rows ! 1 else []) in
      list_all (\<lambda>(i, ks). list_ex (go_Contains (go_TrimSpace (cellAt header i))) ks) header_keywords)"

text \<open>\<^verbatim>\<open>strings.NewReplacer\<close> with the comma, the blank, the won sign and the won syllable, all replaced by nothing.\<close>

fun strip_money :: "string \<Rightarrow> string" where
  "strip_money [] = []"
| "strip_money (c # s) =
     (if c = CHR '','' \<or> c = CHR '' '' then strip_money s
      else if take 2 s = [CHR 0x82, CHR 0xA9] \<and> c = CHR 0xE2 then strip_money (drop 2 s)
      else if take 2 s = [CHR 0x9B, CHR 0x90] \<and> c = CHR 0xEC then strip_money (drop 2 s)
      else c # strip_money s)"

definition parseDonationImportAmount :: "string \<Rightarrow> int option" where
  "parseDonationImportAmount value =
     (let normalized = strip_money (go_TrimSpace value) in
      if normalized = [] then None
      else (case go_Atoi normalized of (n, None) \<Rightarrow> Some n | (_, Some _) \<Rightarrow> None))"

definition required :: "int \<Rightarrow> string \<Rightarrow> string \<Rightarrow> DonationImportRowError list" where
  "required i field value = (if value = [] then [rowError i field ''REQUIRED''] else [])"

definition validateExcelDonationFields :: "int \<Rightarrow> string \<Rightarrow> string \<Rightarrow> string \<Rightarrow> string \<Rightarrow> string \<Rightarrow> DonationImportRowError list" where
  "validateExcelDonationFields i name cohort department phone amount =
     required i ''donorName'' name @ required i ''donorCohort'' cohort @ required i ''donorDepartment'' department
     @ required i ''donorPhone'' phone
     @ (if phone \<noteq> [] \<and> \<not> donor_phone phone then [rowError i ''donorPhone'' ''INVALID_PHONE''] else [])
     @ (case parseDonationImportAmount amount of
          Some n \<Rightarrow> if n \<le> 0 then [rowError i ''amount'' (if go_TrimSpace amount = [] then ''REQUIRED'' else ''INVALID_AMOUNT'')]
                    else if n > donationImportMaxAmount then [rowError i ''amount'' ''AMOUNT_LIMIT_EXCEEDED''] else []
        | None \<Rightarrow> [rowError i ''amount'' (if go_TrimSpace amount = [] then ''REQUIRED'' else ''INVALID_AMOUNT'')])"

definition importedDonationCompositeKey :: "(string \<Rightarrow> string) \<Rightarrow> ExcelDonationRow \<Rightarrow> string \<Rightarrow> (don_error, string) result" where
  "importedDonationCompositeKey sha row date = map_sum id nd_CompositeKey (normalizeImportedDonationOrder sha row date None)"

text \<open>One row of the sheet: its errors, or the row and its key.\<close>

definition sheet_row :: "int \<Rightarrow> string list \<Rightarrow> ExcelDonationRow" where
  "sheet_row i w =
     (let d = go_TrimSpace (cellAt w 3) in
      \<lparr>xr_RowIndex = i, xr_DonorName = go_TrimSpace (cellAt w 1), xr_DonorCohort = go_TrimSpace (cellAt w 2),
       xr_DonorDepartment = (if d = ''0'' then [] else d), xr_DonorPhone = strip_hyphens (go_TrimSpace (cellAt w 4)),
       xr_Amount = (case parseDonationImportAmount (cellAt w 5) of Some n \<Rightarrow> n | None \<Rightarrow> 0)\<rparr>)"

definition read_row :: "(string \<Rightarrow> string) \<Rightarrow> string \<Rightarrow> int \<Rightarrow> string list \<Rightarrow> (DonationImportRowError list, ExcelDonationRow \<times> string) result" where
  "read_row sha date i w =
     (let row = sheet_row i w;
          errs = validateExcelDonationFields i (xr_DonorName row) (xr_DonorCohort row) (xr_DonorDepartment row) (go_TrimSpace (cellAt w 4)) (cellAt w 5)
      in if errs \<noteq> [] then Inl errs
         else case importedDonationCompositeKey sha row date of
                Inl _ \<Rightarrow> Inl [rowError i ''row'' ''INVALID_ROW'']
              | Inr key \<Rightarrow> Inr (row, key))"

text \<open>The loop over the rows: \<open>index\<close> counts from the first row of the sheet, \<open>count\<close> the rows with data before, \<open>seen\<close>
  the keys found.\<close>

fun read_rows :: "(string \<Rightarrow> string) \<Rightarrow> (int \<Rightarrow> (string, string) result) \<Rightarrow> string \<Rightarrow> string list \<Rightarrow> int \<Rightarrow> int \<Rightarrow> string list list
    \<Rightarrow> (string, ExcelDonationRow list \<times> DonationImportRowError list) result" where
  "read_rows sha formula date seen count index [] = Inr ([], [])"
| "read_rows sha formula date seen count index (w # ws) =
     (if isBlankExcelRow w then read_rows sha formula date seen count (index + 1) ws
      else if count + 1 > donationImportMaxRows then Inr ([], [rowError (index + 1) ''rows'' ''ROW_LIMIT_EXCEEDED''])
      else (case formula (index + 1) of
              Inl m \<Rightarrow> Inl m
            | Inr f \<Rightarrow>
                if f \<noteq> [] then
                  map_sum id (map_prod id (\<lambda>es. rowError (index + 1) ''amount'' ''FORMULA_NOT_ALLOWED'' # es)) (read_rows sha formula date seen (count + 1) (index + 1) ws)
                else (case read_row sha date (index + 1) w of
                        Inl errs \<Rightarrow> map_sum id (map_prod id (\<lambda>es. errs @ es)) (read_rows sha formula date seen (count + 1) (index + 1) ws)
                      | Inr (row, key) \<Rightarrow>
                          if key \<in> set seen then
                            map_sum id (map_prod id (\<lambda>es. rowError (index + 1) ''compositeKey'' ''DUPLICATE_IN_FILE'' # es)) (read_rows sha formula date seen (count + 1) (index + 1) ws)
                          else map_sum id (map_prod (\<lambda>rs. row # rs) id) (read_rows sha formula date (key # seen) (count + 1) (index + 1) ws))))"

definition parseExcelDonationRows :: "(string \<Rightarrow> string) \<Rightarrow> (string, workbook) result \<Rightarrow> string \<Rightarrow> (string, ExcelDonationRow list \<times> DonationImportRowError list) result" where
  "parseExcelDonationRows sha file date =
     (case file of
        Inl m \<Rightarrow> Inl m
      | Inr wb \<Rightarrow>
          if length (wb_sheets wb) = 0 then Inl ''no sheet''
          else if length (wb_sheets wb) \<noteq> 1 then Inl ''more than one sheet''
          else (case wb_rows wb of
                  Inl m \<Rightarrow> Inl m
                | Inr rows \<Rightarrow>
                    if \<not> validateDonationImportHeaders rows then Inl ''header''
                    else read_rows sha (wb_formula wb) date [] 0 2 (drop 2 rows)))"

section \<open>Lookups\<close>

text \<open>\<^verbatim>\<open>REPLACE(REPLACE(TRIM(USR_PHONE), '-', ''), ' ', '')\<close>\<close>

definition legacyCanonicalPhone :: "string \<Rightarrow> string" where
  "legacyCanonicalPhone p = filter (\<lambda>c. c \<noteq> CHR ''-'' \<and> c \<noteq> CHR '' '') p"

definition member_matches :: "don_env \<Rightarrow> DonationImportMemberKey \<Rightarrow> ledger_member \<Rightarrow> bool" where
  "member_matches env k m =
     (dn_same env (lm_name m) (mk_Name k)
      \<and> (case lm_fn m of None \<Rightarrow> False | Some n \<Rightarrow> dn_number env n (mk_Cohort k))
      \<and> (case lm_phone m of None \<Rightarrow> False | Some p \<Rightarrow> dn_same env p (mk_Phone k) \<or> dn_same env (legacyCanonicalPhone p) (mk_Phone k))
      \<and> linkable m)"

fun unique_from :: "'a list \<Rightarrow> 'a list \<Rightarrow> 'a list" where
  "unique_from seen [] = []"
| "unique_from seen (x # xs) = (if x \<in> set seen then unique_from seen xs else x # unique_from (x # seen) xs)"

definition uniqueDonationImportMemberKeys :: "DonationImportMemberKey list \<Rightarrow> DonationImportMemberKey list" where
  "uniqueDonationImportMemberKeys ks = unique_from [] (map (\<lambda>k. NewDonationImportMemberKey (mk_Name k) (mk_Cohort k) (mk_Phone k)) ks)"

text \<open>The join, in the order of the members, and the map built from it.\<close>

definition candidate_rows :: "don_env \<Rightarrow> DonationImportMemberKey list \<Rightarrow> ledger \<Rightarrow> (DonationImportMemberKey \<times> MemberCandidate) list" where
  "candidate_rows env ks s =
     concat (map (\<lambda>m. map (\<lambda>k. (k, \<lparr>mc_USRSeq = lm_seq m, mc_Name = lm_name m\<rparr>)) (filter (\<lambda>k. member_matches env k m) (uniqueDonationImportMemberKeys ks)))
       (sort_key lm_seq (lg_members s)))"

definition findMemberCandidatesByKeys :: "don_env \<Rightarrow> DonationImportMemberKey list \<Rightarrow> ledger \<Rightarrow> DonationImportMemberKey \<Rightarrow> MemberCandidate list" where
  "findMemberCandidatesByKeys env ks s k =
     map snd (filter (\<lambda>(r, _). NewDonationImportMemberKey (mk_Name r) (mk_Cohort r) (mk_Phone r) = k) (candidate_rows env ks s))"

definition findExistingDonationCompositeKeys :: "string list \<Rightarrow> ledger \<Rightarrow> string \<Rightarrow> bool" where
  "findExistingDonationCompositeKeys keys s k =
     (k \<noteq> [] \<and> k \<in> set (map go_TrimSpace keys) \<and> list_ex (\<lambda>r. lo_key r = Some k) (lg_orders s))"

section \<open>Tokens\<close>

definition signing_key :: "imp_env \<Rightarrow> string" where
  "signing_key e = ''donation-import-preview:v1:'' @ ie_key e"

definition signDonationImportPreviewPayload :: "imp_env \<Rightarrow> donationImportPreviewTokenPayload \<Rightarrow> string" where
  "signDonationImportPreviewPayload e p =
     (let encoded = ie_b64 e (ie_marshal e p) in encoded @ ''.'' @ ie_b64 e (ie_hmac e (signing_key e) encoded))"

definition signDonationImportPreviewRow :: "imp_env \<Rightarrow> DonationImportPreviewRow \<Rightarrow> string" where
  "signDonationImportPreviewRow e row =
     signDonationImportPreviewPayload e
       \<lparr>pl_ExpiresAt = ie_now e + donationImportPreviewTokenTTL, pl_RowIndex = xr_RowIndex row, pl_DonorName = xr_DonorName row,
        pl_DonorCohort = xr_DonorCohort row, pl_DonorDepartment = xr_DonorDepartment row, pl_DonorPhone = xr_DonorPhone row,
        pl_Amount = xr_Amount row, pl_DonationDate = pr_DonationDate row, pl_Status = pr_Status row, pl_MatchedUsrSeq = pr_MatchedUsrSeq row\<rparr>"

definition with_row :: "DonationImportCommitRow \<Rightarrow> string \<Rightarrow> donationImportPreviewTokenPayload \<Rightarrow> donationImportPreviewTokenPayload" where
  "with_row row date p =
     p\<lparr>pl_RowIndex := xr_RowIndex row, pl_DonorName := xr_DonorName row, pl_DonorCohort := xr_DonorCohort row,
       pl_DonorDepartment := xr_DonorDepartment row, pl_DonorPhone := xr_DonorPhone row, pl_Amount := xr_Amount row, pl_DonationDate := date\<rparr>"

definition verifyDonationImportPreviewToken :: "imp_env \<Rightarrow> DonationImportCommitRow \<Rightarrow> string \<Rightarrow> donationImportPreviewTokenPayload option" where
  "verifyDonationImportPreviewToken e row date =
     (case go_Split (CHR ''.'') (cr_PreviewToken row) of
        [part0, part1] \<Rightarrow>
          if part0 = [] \<or> part1 = [] then None
          else (case ie_unb64 e part1 of
                  None \<Rightarrow> None
                | Some provided \<Rightarrow>
                    if provided \<noteq> ie_hmac e (signing_key e) part0 then None
                    else (case Option.bind (ie_unb64 e part0) (ie_unmarshal e) of
                            None \<Rightarrow> None
                          | Some p \<Rightarrow>
                              if pl_ExpiresAt p \<le> ie_now e then None
                              else if signDonationImportPreviewPayload e (with_row row date p) \<noteq> cr_PreviewToken row then None
                              else Some p))
      | _ \<Rightarrow> None)"

section \<open>The preview\<close>

definition lookup_input :: "(string \<Rightarrow> string) \<Rightarrow> string \<Rightarrow> ExcelDonationRow \<Rightarrow> (don_error, DonationImportMemberKey \<times> string) result" where
  "lookup_input sha date row =
     map_sum id (Pair (NewDonationImportMemberKey (xr_DonorName row) (xr_DonorCohort row) (xr_DonorPhone row))) (importedDonationCompositeKey sha row date)"

fun donationImportLookupInputs :: "(string \<Rightarrow> string) \<Rightarrow> string \<Rightarrow> ExcelDonationRow list \<Rightarrow> (don_error, (DonationImportMemberKey \<times> string) list) result" where
  "donationImportLookupInputs sha date [] = Inr []"
| "donationImportLookupInputs sha date (r # rs) =
     (case lookup_input sha date r of Inl e \<Rightarrow> Inl e | Inr k \<Rightarrow> map_sum id (\<lambda>ks. k # ks) (donationImportLookupInputs sha date rs))"

definition preview_row :: "imp_env \<Rightarrow> string \<Rightarrow> (DonationImportMemberKey \<Rightarrow> MemberCandidate list) \<Rightarrow> (string \<Rightarrow> bool) \<Rightarrow> ExcelDonationRow
    \<Rightarrow> DonationImportMemberKey \<times> string \<Rightarrow> DonationImportPreviewRow" where
  "preview_row e date candidates existing row keys =
     (let cs = candidates (fst keys);
          status = (if existing (snd keys) then DonationImportRowDuplicate
                    else (case cs of [] \<Rightarrow> DonationImportRowUnmatched | [_] \<Rightarrow> DonationImportRowMatched | _ \<Rightarrow> DonationImportRowAmbiguous));
          seq = (case cs of [c] \<Rightarrow> Some (mc_USRSeq c) | _ \<Rightarrow> None);
          name = (case cs of [c] \<Rightarrow> mc_Name c | _ \<Rightarrow> []);
          unsigned = \<lparr>xr_RowIndex = xr_RowIndex row, xr_DonorName = xr_DonorName row, xr_DonorCohort = xr_DonorCohort row,
            xr_DonorDepartment = xr_DonorDepartment row, xr_DonorPhone = xr_DonorPhone row, xr_Amount = xr_Amount row,
            pr_DonationDate = date, pr_Status = status, pr_MatchedUsrSeq = seq, pr_MatchedName = name, pr_PreviewToken = []\<rparr>
      in unsigned\<lparr>pr_PreviewToken := signDonationImportPreviewRow e unsigned\<rparr>)"

definition incrementDonationImportCount :: "string \<Rightarrow> DonationImportPreviewResult \<Rightarrow> DonationImportPreviewResult" where
  "incrementDonationImportCount status r =
     (if status = DonationImportRowMatched then r\<lparr>pv_MatchedCount := pv_MatchedCount r + 1\<rparr>
      else if status = DonationImportRowAmbiguous then r\<lparr>pv_AmbiguousCount := pv_AmbiguousCount r + 1\<rparr>
      else if status = DonationImportRowUnmatched then r\<lparr>pv_UnmatchedCount := pv_UnmatchedCount r + 1\<rparr>
      else if status = DonationImportRowDuplicate then r\<lparr>pv_DuplicateCount := pv_DuplicateCount r + 1\<rparr>
      else r)"

definition add_preview_row :: "DonationImportPreviewRow \<Rightarrow> DonationImportPreviewResult \<Rightarrow> DonationImportPreviewResult" where
  "add_preview_row row r = incrementDonationImportCount (pr_Status row) (r\<lparr>pv_Rows := pv_Rows r @ [row]\<rparr>)"

definition no_rows :: DonationImportPreviewResult where
  "no_rows = \<lparr>pv_Rows = [], pv_MatchedCount = 0, pv_AmbiguousCount = 0, pv_UnmatchedCount = 0, pv_DuplicateCount = 0\<rparr>"

text \<open>Without rows nothing is looked up.\<close>

definition ParsePreview :: "imp_env \<Rightarrow> (string, workbook) result \<Rightarrow> string \<Rightarrow> ledger \<Rightarrow> (import_error, DonationImportPreviewResult) result" where
  "ParsePreview e file donationDate s =
     (let env = ie_db e; sha = dn_sha env in
      case validateDonationImportDate donationDate of
        Inl er \<Rightarrow> Inl er
      | Inr date \<Rightarrow>
     (case parseExcelDonationRows sha file date of
        Inl m \<Rightarrow> Inl (ErrInvalidDonationImportFile m)
      | Inr (rows, errs) \<Rightarrow>
          if errs \<noteq> [] then Inl (DonationImportFileValidationError errs)
          else (case donationImportLookupInputs sha date rows of
                  Inl er \<Rightarrow> Inl (LookupFailed er)
                | Inr keys \<Rightarrow>
          (case (if rows = [] then None else dn_flt env ''import.members'') of Some er \<Rightarrow> Inl (LookupFailed er) | None \<Rightarrow>
          (case (if rows = [] then None else dn_flt env ''import.existing'') of Some er \<Rightarrow> Inl (LookupFailed er) | None \<Rightarrow>
             Inr (fold add_preview_row
               (map2 (preview_row e date (findMemberCandidatesByKeys env (map fst keys) s) (findExistingDonationCompositeKeys (map snd keys) s)) rows keys)
               no_rows))))))"

section \<open>The commit\<close>

definition normalizeDonationImportCommitRow :: "DonationImportCommitRow \<Rightarrow> (DonationImportRowError, DonationImportCommitRow) result" where
  "normalizeDonationImportCommitRow row0 =
     (let row = row0\<lparr>xr_DonorName := go_TrimSpace (xr_DonorName row0), xr_DonorCohort := go_TrimSpace (xr_DonorCohort row0),
                     xr_DonorDepartment := go_TrimSpace (xr_DonorDepartment row0)\<rparr>;
          i = xr_RowIndex row; phone = go_TrimSpace (xr_DonorPhone row)
      in if i \<le> 0 then Inl (rowError i ''rowIndex'' ''INVALID_ROW_INDEX'')
         else if xr_DonorName row = [] then Inl (rowError i ''donorName'' ''REQUIRED'')
         else if xr_DonorCohort row = [] then Inl (rowError i ''donorCohort'' ''REQUIRED'')
         else if xr_DonorDepartment row = [] then Inl (rowError i ''donorDepartment'' ''REQUIRED'')
         else if \<not> donor_phone phone then Inl (rowError i ''donorPhone'' ''INVALID_PHONE'')
         else if xr_Amount row \<le> 0 then Inl (rowError i ''amount'' ''INVALID_AMOUNT'')
         else if xr_Amount row > donationImportMaxAmount then Inl (rowError i ''amount'' ''AMOUNT_LIMIT_EXCEEDED'')
         else if (case cr_AccountUsrSeq row of None \<Rightarrow> False | Some u \<Rightarrow> u \<le> 0) then Inl (rowError i ''accountUsrSeq'' ''INVALID_ACCOUNT'')
         else Inr (row\<lparr>xr_DonorPhone := strip_hyphens phone\<rparr>))"

text \<open>A row that passed: normalised, with what its token says, its key and the key of its donor.\<close>

record checked_row =
  ck_row :: DonationImportCommitRow
  ck_payload :: donationImportPreviewTokenPayload
  ck_key :: string
  ck_member :: DonationImportMemberKey

fun check_rows :: "imp_env \<Rightarrow> string \<Rightarrow> string list \<Rightarrow> DonationImportCommitRow list \<Rightarrow> (DonationImportRowError, checked_row list) result" where
  "check_rows e date seen [] = Inr []"
| "check_rows e date seen (row # rows) =
     (case normalizeDonationImportCommitRow row of
        Inl er \<Rightarrow> Inl er
      | Inr r \<Rightarrow>
     (case importedDonationCompositeKey (dn_sha (ie_db e)) (ExcelDonationRow.truncate r) date of
        Inl _ \<Rightarrow> Inl (rowError (xr_RowIndex row) ''row'' ''INVALID_ROW'')
      | Inr key \<Rightarrow>
          if key \<in> set seen then Inl (rowError (xr_RowIndex row) ''compositeKey'' ''DUPLICATE_IN_FILE'')
          else (case verifyDonationImportPreviewToken e r date of
                  None \<Rightarrow> Inl (rowError (xr_RowIndex row) ''previewToken'' ''INVALID_PREVIEW_TOKEN'')
                | Some p \<Rightarrow>
                    map_sum id (\<lambda>cs. \<lparr>ck_row = r, ck_payload = p, ck_key = key,
                        ck_member = NewDonationImportMemberKey (xr_DonorName r) (xr_DonorCohort r) (xr_DonorPhone r)\<rparr> # cs)
                      (check_rows e date (key # seen) rows))))"

definition donationImportMatchStillValid :: "donationImportPreviewTokenPayload \<Rightarrow> MemberCandidate list \<Rightarrow> int option \<Rightarrow> bool" where
  "donationImportMatchStillValid p cs account =
     (if pl_Status p = DonationImportRowMatched then
        (case (cs, pl_MatchedUsrSeq p, account) of ([c], Some u, Some a) \<Rightarrow> mc_USRSeq c = u \<and> a = u | _ \<Rightarrow> False)
      else if pl_Status p = DonationImportRowAmbiguous then length cs > 1 \<and> pl_MatchedUsrSeq p = None
      else if pl_Status p = DonationImportRowUnmatched then cs = [] \<and> pl_MatchedUsrSeq p = None
      else False)"

datatype commit_failure = PublicFailure DonationImportRowError | InternalFailure DonationImportRowError don_error | DatabaseFailure don_error

definition internalCommitFailure :: "don_error \<Rightarrow> commit_failure" where
  "internalCommitFailure cause = InternalFailure (rowError 0 ''row'' ''STORAGE_ERROR'') cause"

definition tx_error :: "('e \<Rightarrow> 'f) \<Rightarrow> ('e, 's, 'a) tx \<Rightarrow> ('f, 's, 'a) tx" where
  "tx_error f m s = map_sum f id (m s)"

fun match_rows :: "(string \<Rightarrow> bool) \<Rightarrow> (DonationImportMemberKey \<Rightarrow> MemberCandidate list) \<Rightarrow> checked_row list \<Rightarrow> DonationImportRowError option" where
  "match_rows existing candidates [] = None"
| "match_rows existing candidates (c # cs) =
     (let i = xr_RowIndex (ck_row c) in
      if existing (ck_key c) then Some (rowError i ''compositeKey'' ''ALREADY_IMPORTED'')
      else if \<not> donationImportMatchStillValid (ck_payload c) (candidates (ck_member c)) (cr_AccountUsrSeq (ck_row c))
        then Some (rowError i ''accountUsrSeq'' ''MEMBER_MATCH_CHANGED'')
      else match_rows existing candidates cs)"

definition create_failure :: "don_error \<Rightarrow> commit_failure" where
  "create_failure e =
     (if e = ErrDonationOrderConflict then PublicFailure (rowError 0 ''compositeKey'' ''ALREADY_IMPORTED'')
      else if e = ErrDonationAccountNotFound then PublicFailure (rowError 0 ''accountUsrSeq'' ''ACCOUNT_NOT_FOUND'')
      else internalCommitFailure e)"

record DonationImportCommitRowResult =
  rr_RowIndex :: int
  rr_Success :: bool
  rr_OrderSeq :: int

definition imported_orders :: "checked_row list \<Rightarrow> (ExcelDonationRow \<times> int option) list" where
  "imported_orders cs = map (\<lambda>c. (ExcelDonationRow.truncate (ck_row c), cr_AccountUsrSeq (ck_row c))) cs"

definition commit_tx :: "don_env \<Rightarrow> string \<Rightarrow> checked_row list \<Rightarrow> int \<Rightarrow> string \<Rightarrow> (commit_failure, ledger, DonationImportCommitRowResult list) tx" where
  "commit_tx env date cs admin ip =
     tx_bind (tx_error internalCommitFailure (query (dn_flt env ''import.existing'') (findExistingDonationCompositeKeys (map ck_key cs)))) (\<lambda>existing.
     tx_bind (tx_error internalCommitFailure (query (dn_flt env ''import.members'') (findMemberCandidatesByKeys env (map ck_member cs)))) (\<lambda>candidates.
     case match_rows existing candidates cs of
       Some er \<Rightarrow> tx_fail (PublicFailure er)
     | None \<Rightarrow>
         tx_bind (tx_error create_failure (CreateImportedOrdersTx env date (imported_orders cs) admin ip)) (\<lambda>seqs.
         tx_then (tx_guard (length seqs = length cs) (internalCommitFailure ErrInsertedOrderNotFound)) (
         tx_return (map2 (\<lambda>c q. \<lparr>rr_RowIndex = xr_RowIndex (ck_row c), rr_Success = True, rr_OrderSeq = q\<rparr>) cs seqs)))))"

definition public_error :: "commit_failure \<Rightarrow> import_error" where
  "public_error f =
     DonationImportCommitError (case f of PublicFailure er \<Rightarrow> er | InternalFailure er _ \<Rightarrow> er | DatabaseFailure _ \<Rightarrow> rowError 0 ''rows'' ''COMMIT_FAILED'')"

text \<open>The result, the ledger after, and whether the cached summary was asked to refresh.\<close>

definition import_Commit :: "imp_env \<Rightarrow> DonationImportCommitRow list \<Rightarrow> string \<Rightarrow> int \<Rightarrow> string \<Rightarrow> ledger
    \<Rightarrow> (import_error, DonationImportCommitRowResult list) result \<times> ledger \<times> bool" where
  "import_Commit e rows donationDate admin ip s =
     (let env = ie_db e; refuse = (\<lambda>er. (Inl er, s, False)) in
      case validateDonationImportDate donationDate of
        Inl er \<Rightarrow> refuse er
      | Inr date \<Rightarrow>
          if rows = [] then refuse (DonationImportCommitError (rowError 0 ''rows'' ''ROWS_REQUIRED''))
          else if int (length rows) > donationImportMaxRows then refuse (DonationImportCommitError (rowError 0 ''rows'' ''ROW_LIMIT_EXCEEDED''))
          else (case check_rows e date [] rows of
                  Inl er \<Rightarrow> refuse (DonationImportCommitError er)
                | Inr cs \<Rightarrow>
                    (case transact (map_option DatabaseFailure (dn_flt env ''begin'')) (map_option DatabaseFailure (dn_flt env ''commit'')) (commit_tx env date cs admin ip) s of
                       (Inl f, s') \<Rightarrow> (Inl (public_error f), s', False)
                     | (Inr results, s') \<Rightarrow> (Inr results, s', ie_refresher e))))"

end
