(* ===== verification/Donation_Props.thy ===== *)
theory Donation_Props
  imports Donation_Import
begin

text \<open>
  What the donation ledger and the import guarantee: the shape of every order in every history, the optimistic lock
  of a replacement, the spellings of a date, and the import from preview to commit.
\<close>

section \<open>Normalised orders\<close>

lemma map_sum_Inr: "map_sum f g x = Inr y \<longleftrightarrow> (\<exists>z. x = Inr z \<and> y = g z)"
  by (cases x) auto

text \<open>What \<open>NormalizeDonationOrderInput\<close> establishes for the columns that are written.\<close>

definition normal :: "(string \<Rightarrow> string) \<Rightarrow> NormalizedDonationOrder \<Rightarrow> bool" where
  "normal sha n \<longleftrightarrow>
     di_Source n \<in> set donation_sources \<and> canonical date_layout (di_DonationDate n)
     \<and> dd_Name (di_Donor n) \<noteq> [] \<and> dd_Cohort (di_Donor n) \<noteq> [] \<and> dd_Department (di_Donor n) \<noteq> []
     \<and> legacy_gate (di_DonationType n) = Some (nd_LegacyGate n)
     \<and> legacy_state (di_Status n) = Some (nd_LegacyStatus n, nd_LegacyPayment n)
     \<and> 0 \<le> di_RefundedAmount n \<and> di_RefundedAmount n \<le> di_GrossAmount n
     \<and> refund_error (di_Status n) (di_GrossAmount n) (di_RefundedAmount n) = None
     \<and> nd_NetReceivedAmount n = di_GrossAmount n - di_RefundedAmount n
     \<and> (di_TransactionNumber n = None \<longrightarrow> nd_CompositeKey n = sha (order_identity (DonationOrderInput.truncate n)))"

lemma input_error_None:
  "input_error i = None \<longleftrightarrow>
     di_Source i \<in> set donation_sources \<and> canonical date_layout (di_DonationDate i)
     \<and> dd_Name (di_Donor i) \<noteq> [] \<and> dd_Cohort (di_Donor i) \<noteq> [] \<and> dd_Department (di_Donor i) \<noteq> []
     \<and> donor_phone (dd_Phone (di_Donor i)) \<and> legacy_gate (di_DonationType i) \<noteq> None \<and> legacy_state (di_Status i) \<noteq> None
     \<and> di_PaymentMethod i \<in> set payment_methods \<and> valid_transaction (di_TransactionNumber i)
     \<and> 0 \<le> di_GrossAmount i \<and> 0 \<le> di_RefundedAmount i \<and> di_RefundedAmount i \<le> di_GrossAmount i
     \<and> (di_LastEditedAt i = [] \<or> canonical stamp_layout (di_LastEditedAt i))
     \<and> refund_error (di_Status i) (di_GrossAmount i) (di_RefundedAmount i) = None"
  by (auto simp: input_error_def Let_def)

lemma normalizeD:
  assumes "NormalizeDonationOrderInput sha input = Inr n"
  shows "normal sha n" "input_error (trim_input input) = None" "di_LastEditedAt n = go_TrimSpace (di_LastEditedAt input)"
    "di_AccountUsrSeq n = di_AccountUsrSeq input" "di_AccountUsrSeqSet n = di_AccountUsrSeqSet input"
    "di_GrossAmount n = di_GrossAmount input" "di_DonationDate n = go_TrimSpace (di_DonationDate input)"
proof -
  show e: "input_error (trim_input input) = None"
    using assms by (auto simp: NormalizeDonationOrderInput_def Let_def split: option.splits)
  show "normal sha n" using assms e e [unfolded input_error_None]
    by (auto simp: NormalizeDonationOrderInput_def Let_def normal_def trim_input_def DonationOrderInput.truncate_def order_identity_def)
  show "di_LastEditedAt n = go_TrimSpace (di_LastEditedAt input)" "di_AccountUsrSeq n = di_AccountUsrSeq input"
    "di_AccountUsrSeqSet n = di_AccountUsrSeqSet input" "di_GrossAmount n = di_GrossAmount input"
    "di_DonationDate n = go_TrimSpace (di_DonationDate input)"
    using assms e by (auto simp: NormalizeDonationOrderInput_def Let_def trim_input_def)
qed

section \<open>The shape of the ledger\<close>

definition row_identity :: "ledger_order \<Rightarrow> string" where
  "row_identity r =
     the (lo_date r) @ [CHR 0x00] @ the (lo_phone r) @ [CHR 0x00] @ the (lo_name r) @ [CHR 0x00] @ the (lo_cohort r)
       @ [CHR 0x00] @ the (lo_department r) @ [CHR 0x00] @ go_Itoa (the (lo_gross r))"

definition order_ok :: "(string \<Rightarrow> string) \<Rightarrow> ledger_order \<Rightarrow> bool" where
  "order_ok sha r \<longleftrightarrow>
     (\<exists>g. lo_gross r = Some g \<and> 0 \<le> lo_refunded r \<and> lo_refunded r \<le> g \<and> lo_net r = Some (g - lo_refunded r)
        \<and> lo_price r = clip_int g \<and> lo_pay r = clip_int (g - lo_refunded r) \<and> refund_error (lo_lifecycle r) g (lo_refunded r) = None)
     \<and> legacy_state (lo_lifecycle r) = Some (lo_status r, lo_payment r) \<and> lo_gate r \<in> {''P'', ''S'', ''F''}
     \<and> lo_source r \<in> set donation_sources \<and> (\<exists>d. lo_date r = Some d \<and> canonical date_layout d)
     \<and> (lo_txno r = None \<longrightarrow> lo_key r = Some (sha (row_identity r))) \<and> (lo_txno r \<noteq> None \<longrightarrow> lo_key r = None)
     \<and> lo_usr r = accountUsrSeqOrZero (lo_account r)"

definition tiers_ok :: "DonationConfig \<Rightarrow> bool" where
  "tiers_ok c \<longleftrightarrow> 0 \<le> dc_TierSproutMin c \<and> dc_TierSproutMin c < dc_TierSaplingMin c \<and> dc_TierSaplingMin c < dc_TierTreeMin c
     \<and> dc_TierTreeMin c < dc_TierBloomingMin c \<and> dc_TierBloomingMin c < dc_TierFruitingMin c
     \<and> (dc_BalanceAmount c = None \<longleftrightarrow> dc_BalanceAsOf c = None) \<and> (\<forall>b. dc_BalanceAmount c = Some b \<longrightarrow> 0 \<le> b)"

definition keys_unique :: "ledger \<Rightarrow> bool" where
  "keys_unique s \<longleftrightarrow> distinct (map lo_seq (lg_orders s)) \<and> (\<forall>r \<in> set (lg_orders s). lo_seq r < lg_next s)
     \<and> (\<forall>r \<in> set (lg_orders s). \<forall>x \<in> set (lg_orders s). lo_seq x \<noteq> lo_seq r \<longrightarrow> \<not> clashes r x)"

definition ledger_ok :: "(string \<Rightarrow> string) \<Rightarrow> ledger \<Rightarrow> bool" where
  "ledger_ok sha s \<longleftrightarrow> (\<forall>r \<in> set (lg_orders s). order_ok sha r) \<and> keys_unique s \<and> (\<forall>c \<in> set (lg_configs s). tiers_ok c)"

lemma written_ok:
  assumes "normal sha n" "lo_usr r = accountUsrSeqOrZero (lo_account r)"
  shows "order_ok sha (stored (ledger_columns n r))"
  using assms
  by (auto simp: order_ok_def normal_def stored_def ledger_columns_def row_identity_def order_identity_def nullableCompositeKey_def
      DonationOrderInput.truncate_def legacy_gate_def split: if_splits)

lemma clashes_stored [simp]: "clashes (stored r) x = clashes r x" "clashes r (stored x) = clashes r x"
  by (simp_all add: clashes_def stored_def)

lemma clashes_sym: "clashes r x \<longleftrightarrow> clashes x r"
  by (auto simp: clashes_def)

lemma lo_seq_stored [simp]: "lo_seq (stored r) = lo_seq r"
  by (simp add: stored_def)

lemma lo_seq_new [simp]: "lo_seq (new_ledger_order env n oper ip q) = q"
  by (simp add: new_ledger_order_def ledger_columns_def)

lemma lo_seq_replaced [simp]: "lo_seq (replaced env n oper ip r) = lo_seq r"
  by (simp add: replaced_def ledger_columns_def Let_def)

lemma new_ok: "normal sha n \<Longrightarrow> order_ok sha (stored (new_ledger_order env n oper ip q))"
  unfolding new_ledger_order_def by (rule written_ok) simp_all

lemma replaced_ok:
  assumes "normal sha n" "lo_usr r = accountUsrSeqOrZero (lo_account r)"
  shows "order_ok sha (stored (replaced env n oper ip r))"
proof -
  let ?r0 = "(if di_AccountUsrSeqSet n then r\<lparr>lo_account := di_AccountUsrSeq n, lo_usr := accountUsrSeqOrZero (di_AccountUsrSeq n),
      lo_unlinked := (if di_AccountUsrSeq n = None then Some (dn_now env) else None)\<rparr> else r)\<lparr>lo_edt_oper := Some oper, lo_edt_date := Some (dn_now env), lo_edt_ip := Some ip\<rparr>"
  have "replaced env n oper ip r = ledger_columns n ?r0" by (simp add: replaced_def ledger_columns_def Let_def)
  moreover have "order_ok sha (stored (ledger_columns n ?r0))" using assms by (intro written_ok) auto
  ultimately show ?thesis by simp
qed

lemma keys_unique_snoc:
  assumes "keys_unique s" "lo_seq r = lg_next s" "\<And>x. x \<in> set (lg_orders s) \<Longrightarrow> \<not> clashes r x"
  shows "keys_unique (s\<lparr>lg_orders := lg_orders s @ [r], lg_next := lg_next s + 1\<rparr>)"
proof -
  have "\<not> clashes x r" if "x \<in> set (lg_orders s)" for x using assms(3) [OF that] clashes_sym by simp
  moreover have "lo_seq r \<notin> lo_seq ` set (lg_orders s)" using assms(1,2) by (auto simp: keys_unique_def)
  moreover have "lo_seq x < lg_next s + 1" if "x \<in> set (lg_orders s)" for x using assms(1) that by (fastforce simp: keys_unique_def)
  ultimately show ?thesis using assms by (simp add: keys_unique_def)
qed

lemma insert_ok:
  "insert_orders env oper ip ns s = Inr (u, s') \<Longrightarrow> list_all (normal sha) ns \<Longrightarrow> ledger_ok sha s \<Longrightarrow> ledger_ok sha s'"
proof (induction ns arbitrary: s)
  case (Cons n ns)
  let ?r = "new_ledger_order env n oper ip (lg_next s)"
  let ?s = "s\<lparr>lg_orders := lg_orders s @ [stored ?r], lg_next := lg_next s + 1\<rparr>"
  have nc: "\<not> clashes ?r x" if "x \<in> set (lg_orders s)" for x
    using Cons.prems(1) that by (auto simp: Let_def list_ex_iff split: if_splits)
  have i: "insert_orders env oper ip ns ?s = Inr (u, s')" using Cons.prems(1) by (auto simp: Let_def split: if_splits)
  have "order_ok sha (stored ?r)" using Cons.prems(2) by (simp add: new_ok)
  moreover have "keys_unique ?s" by (rule keys_unique_snoc) (use Cons.prems(3) nc in \<open>auto simp: ledger_ok_def\<close>)
  ultimately have "ledger_ok sha ?s" using Cons.prems(3) by (auto simp: ledger_ok_def)
  then show ?case using Cons.IH [OF i] Cons.prems(2) by simp
qed (auto simp: tx_return_ok)

lemma keys_unique_replace:
  assumes "keys_unique s" "\<And>r. lo_seq (f r) = lo_seq r"
    and "\<And>r x. r \<in> set (lg_orders s) \<Longrightarrow> p r \<Longrightarrow> x \<in> set (lg_orders s) \<Longrightarrow> lo_seq x \<noteq> lo_seq r \<Longrightarrow> \<not> clashes (f r) x"
    and "\<And>r x. p r \<Longrightarrow> p x \<Longrightarrow> lo_seq r = lo_seq x"
  shows "keys_unique (s\<lparr>lg_orders := sql_update p f (lg_orders s)\<rparr>)"
proof -
  let ?g = "\<lambda>r. if p r then f r else r"
  have seq: "lo_seq (?g r) = lo_seq r" for r using assms(2) by simp
  have m: "sql_update p f (lg_orders s) = map ?g (lg_orders s)" by (simp add: sql_update_def)
  have c: "\<not> clashes (?g r) (?g x)" if "r \<in> set (lg_orders s)" "x \<in> set (lg_orders s)" "lo_seq x \<noteq> lo_seq r" for r x
  proof (cases "p r")
    case True
    then show ?thesis using assms(3) [OF that(1) True that(2,3)] assms(4) [of r x] that(3) by auto
  next
    case False
    then show ?thesis using assms(1) assms(3) [of x r] that clashes_sym [of r "f x"] by (auto simp: keys_unique_def)
  qed
  have "distinct (map lo_seq (map ?g (lg_orders s)))" using assms(1) by (simp add: keys_unique_def comp_def seq)
  moreover have "\<forall>r \<in> set (map ?g (lg_orders s)). lo_seq r < lg_next s" using assms(1,2) by (auto simp: keys_unique_def)
  moreover have "\<forall>r \<in> set (map ?g (lg_orders s)). \<forall>x \<in> set (map ?g (lg_orders s)). lo_seq x \<noteq> lo_seq r \<longrightarrow> \<not> clashes r x"
    using c by (simp only: set_map ball_simps seq) blast
  ultimately show ?thesis by (simp add: keys_unique_def m)
qed

abbreviation keeps_ledger :: "(string \<Rightarrow> string) \<Rightarrow> ledger \<Rightarrow> ledger \<Rightarrow> bool" where
  "keeps_ledger sha \<equiv> \<lambda>s s'. ledger_ok sha s \<longrightarrow> ledger_ok sha s'"

interpretation ledger_kept: tx_relation "keeps_ledger sha" for sha
  by unfold_locales auto

lemma replace_ok:
  assumes "normal sha n"
  shows "establishes (keeps_ledger sha) (replace_statement env seq n oper ip)"
  unfolding establishes_def
proof (intro allI impI)
  fix s a s'
  assume m: "replace_statement env seq n oper ip s = Inr (a, s')" and ok: "ledger_ok sha s"
  let ?f = "\<lambda>r. stored (replaced env n oper ip r)"
  have s': "s' = s\<lparr>lg_orders := sql_update (seen_row seq n) ?f (lg_orders s)\<rparr>"
    and nc: "\<And>r x. r \<in> set (lg_orders s) \<Longrightarrow> seen_row seq n r \<Longrightarrow> x \<in> set (lg_orders s) \<Longrightarrow> lo_seq x \<noteq> lo_seq r \<Longrightarrow> \<not> clashes (?f r) x"
    using m by (auto simp: replace_statement_def Let_def list_ex_iff split: option.splits if_splits)
  have "keys_unique s'" unfolding s'
    by (rule keys_unique_replace) (use ok nc in \<open>auto simp: ledger_ok_def seen_row_def donation_row_def\<close>)
  moreover have "order_ok sha (?f r)" if "r \<in> set (lg_orders s)" for r
    using ok that by (intro replaced_ok [OF assms]) (auto simp: ledger_ok_def order_ok_def)
  ultimately show "ledger_ok sha s'" using ok by (auto simp: ledger_ok_def s' sql_update_def)
qed

lemma insert_statement_ok: "list_all (normal sha) ns \<Longrightarrow> establishes (keeps_ledger sha) (insert_statement env oper ip ns)"
  by (auto simp: establishes_def insert_statement_def intro: insert_ok split: option.splits)

lemma lock_ok: "establishes (keeps_ledger sha) (lockActiveDonationAccount env a)"
  "establishes (keeps_ledger sha) (lockActiveDonationAccounts env ns)"
  unfolding lockActiveDonationAccount_def lockActiveDonationAccounts_def by (intro ledger_kept.est_rules)+

lemma found_ok: "establishes (keeps_ledger sha) (findInsertedDonationOrderSequences env ns)"
  by (auto simp: establishes_def findInsertedDonationOrderSequences_def tx_bind_ok query_ok split: sum.splits)

lemma create_ok: "normal sha n \<Longrightarrow> establishes (keeps_ledger sha) (CreateDonationOrderTx env n oper ip)"
  unfolding CreateDonationOrderTx_def by (intro ledger_kept.est_rules lock_ok insert_statement_ok) simp

lemma create_batch_ok: "list_all (normal sha) ns \<Longrightarrow> establishes (keeps_ledger sha) (CreateDonationOrdersTx env ns oper ip)"
  unfolding CreateDonationOrdersTx_def by (intro ledger_kept.est_rules lock_ok insert_statement_ok found_ok)

lemma update_ok: "normal sha n \<Longrightarrow> establishes (keeps_ledger sha) (update_tx env seq n oper ip)"
  unfolding update_tx_def
  by (intro ledger_kept.est_rules lock_ok replace_ok) (auto simp: ledger_ok_def keys_unique_def)

lemma normalize_imports_normal: "normalize_imports sha date rows = Inr ns \<Longrightarrow> list_all (normal sha) ns"
  by (induction sha date rows arbitrary: ns rule: normalize_imports.induct)
    (auto simp: normalizeImportedDonationOrder_def map_sum_Inr dest: normalizeD(1) split: sum.splits option.splits)

lemma imported_ok: "establishes (keeps_ledger (dn_sha env)) (CreateImportedOrdersTx env date rows oper ip)"
  by (auto simp: CreateImportedOrdersTx_def intro: ledger_kept.est_fail create_batch_ok normalize_imports_normal split: sum.splits)

lemma tx_error_ok: "tx_error f m s = Inr (a, s') \<longleftrightarrow> m s = Inr (a, s')"
  by (auto simp: tx_error_def map_sum_def split: sum.splits)

lemma est_tx_error: "establishes R m \<Longrightarrow> establishes R (tx_error f m)"
  by (simp add: establishes_def tx_error_ok)

lemma commit_ok: "establishes (keeps_ledger (dn_sha env)) (commit_tx env date cs admin ip)"
  unfolding commit_tx_def by (intro ledger_kept.est_rules est_tx_error imported_ok)

lemma config_ok:
  assumes "normalizeDonationConfigUpdate u = Inr c"
  shows "establishes (keeps_ledger sha) (updateDonationConfig env c oper)"
proof -
  have "tiers_ok (c\<lparr>dc_IsActive := a, dc_RegDate := b, dc_RegOper := d\<rparr>)" for a b d
    using assms by (auto simp: normalizeDonationConfigUpdate_def validDonationTierThresholds_def tiers_ok_def split: if_splits option.splits)
  then show ?thesis unfolding updateDonationConfig_def
    by (intro ledger_kept.est_exec) (auto simp: ledger_ok_def keys_unique_def sql_update_def)
qed

datatype don_op =
    OpCreate don_env DonationOrderInput int string
  | OpUpdate don_env int DonationOrderInput int string
  | OpConfig don_env DonationConfigUpdate int
  | OpImport imp_env "DonationImportCommitRow list" string int string

fun don_step :: "ledger \<Rightarrow> don_op \<Rightarrow> ledger" where
  "don_step s (OpCreate env input oper ip) = snd (admin_CreateOrder env input oper ip s)"
| "don_step s (OpUpdate env seq input oper ip) = snd (admin_UpdateOrder env seq input oper ip s)"
| "don_step s (OpConfig env u oper) = snd (admin_UpdateConfig env u oper s)"
| "don_step s (OpImport e rows date admin ip) = fst (snd (import_Commit e rows date admin ip s))"

fun op_sha :: "don_op \<Rightarrow> string \<Rightarrow> string" where
  "op_sha (OpCreate env input oper ip) = dn_sha env"
| "op_sha (OpUpdate env seq input oper ip) = dn_sha env"
| "op_sha (OpConfig env u oper) = dn_sha env"
| "op_sha (OpImport e rows date admin ip) = dn_sha (ie_db e)"

lemma don_step_ok: "op_sha op = sha \<Longrightarrow> keeps_ledger sha s (don_step s op)"
proof (cases op)
  case (OpCreate env input oper ip)
  then show "op_sha op = sha \<Longrightarrow> ?thesis"
    by (auto simp: admin_CreateOrder_def repo_CreateDonationOrder_def split: sum.splits option.splits
        dest: normalizeD(1) intro: ledger_kept.est_transact [OF create_ok, THEN mp])
next
  case (OpUpdate env seq input oper ip)
  then show "op_sha op = sha \<Longrightarrow> ?thesis"
    by (auto simp: admin_UpdateOrder_def repo_UpdateDonationOrder_def split: sum.splits option.splits if_splits
        dest: normalizeD(1) intro: ledger_kept.est_transact [OF update_ok, THEN mp])
next
  case (OpConfig env u oper)
  then show ?thesis
    by (auto simp: admin_UpdateConfig_def split: sum.splits intro: ledger_kept.est_direct [OF config_ok, THEN mp])
next
  case (OpImport e rows date admin ip)
  have "keeps_ledger (dn_sha (ie_db e)) s (snd (transact b c (commit_tx (ie_db e) d cs admin ip) s))" for b c d cs
    by (rule ledger_kept.est_transact [OF commit_ok])
  then show "op_sha op = sha \<Longrightarrow> ?thesis" using OpImport
    by (auto simp: import_Commit_def Let_def split: sum.splits prod.splits) (metis snd_conv)+
qed

text \<open>C25. Whatever orders administrators create, replace and import and however they set the configuration, every
  order has a net amount that is its gross amount less its refund, a refund that fits its status, legacy columns that
  agree, and either a transaction number or the key of its donor, date and amount, never shared with another order;
  and the donor tiers increase.\<close>

theorem ledger_stays_consistent:
  assumes "ledger_ok sha s" "list_all (\<lambda>op. op_sha op = sha) ops"
  shows "ledger_ok sha (run don_step s ops)"
  using assms ledger_kept.est_run [of "\<lambda>op. op_sha op = sha" sha don_step ops s] don_step_ok by blast

section \<open>Replacing an order\<close>

lemma donation_row_kept: "donation_row seq (stored (replaced env n oper ip r)) = donation_row seq r"
  by (simp add: donation_row_def stored_def replaced_def ledger_columns_def Let_def)

lemma same_seq: "distinct (map lo_seq t) \<Longrightarrow> x \<in> set t \<Longrightarrow> y \<in> set t \<Longrightarrow> lo_seq x = lo_seq y \<Longrightarrow> x = y"
  by (simp add: distinct_map inj_on_def)

lemma sql_get_row:
  assumes "distinct (map lo_seq t)" "r \<in> set t" "donation_row seq r"
  shows "sql_get (donation_row seq) t = Some r"
proof -
  obtain r' where r': "sql_get (donation_row seq) t = Some r'" using assms(2,3) sql_get_None [of "donation_row seq" t] by (cases "sql_get (donation_row seq) t") auto
  have "r' = r" by (rule same_seq [OF assms(1) _ assms(2)]) (use sql_get_Some [OF r'] assms(3) in \<open>simp_all add: donation_row_def\<close>)
  then show ?thesis using r' by simp
qed

lemma update_txD:
  assumes u: "update_tx env seq n oper ip s = Inr (x, s')" and keys: "keys_unique s" and named: "di_LastEditedAt n \<noteq> []"
  obtains r where "sql_get (donation_row seq) (lg_orders s) = Some r" "edited_at r = Some (di_LastEditedAt n)"
    "lg_orders s' = sql_update (seen_row seq n) (\<lambda>r. stored (replaced env n oper ip r)) (lg_orders s)"
    "lg_retentions s' = filter (\<lambda>q. q \<noteq> seq) (lg_retentions s)"
proof -
  let ?f = "\<lambda>r. stored (replaced env n oper ip r)"
  let ?t = "sql_update (seen_row seq n) ?f (lg_orders s)"
  obtain k s1 where rs: "replace_statement env seq n oper ip s = Inr (k, s1)"
    and st: "k = 0 \<Longrightarrow> \<exists>c. map_option edited_at (sql_get (donation_row seq) (lg_orders s1)) = Some c \<and> (case c of None \<Rightarrow> [] | Some d \<Rightarrow> d) = di_LastEditedAt n"
    and s': "s' = s1\<lparr>lg_retentions := filter (\<lambda>q. q \<noteq> seq) (lg_retentions s1)\<rparr>"
  proof -
    obtain s0 where "(if di_AccountUsrSeqSet n then lockActiveDonationAccount env (di_AccountUsrSeq n) else tx_return ()) s = Inr ((), s0)"
      and r: "tx_bind (replace_statement env seq n oper ip) (\<lambda>changed.
     tx_then (query (dn_flt env ''order.affected'') (\<lambda>_. ())) (
     tx_then (if changed = 0 then
                tx_bind (get_row (dn_flt env ''order.stale'') ErrDonationOrderNotFound (\<lambda>s. map_option edited_at (sql_get (donation_row seq) (lg_orders s)))) (\<lambda>current.
                tx_guard ((case current of None \<Rightarrow> [] | Some d \<Rightarrow> d) = di_LastEditedAt n) ErrDonationOrderStale)
              else tx_return ())
       (exec (dn_flt env ''retention.delete'') (\<lambda>s. s\<lparr>lg_retentions := filter (\<lambda>q. q \<noteq> seq) (lg_retentions s)\<rparr>)))) s0 = Inr (x, s')"
      using u unfolding update_tx_def tx_then_ok by auto
    then have "s0 = s" by (auto simp: lockActiveDonationAccount_def tx_ok split: if_splits option.splits)
    then show ?thesis using r that by (auto simp: tx_bind_ok tx_then_ok query_ok exec_ok get_row_ok tx_guard_ok tx_return_ok split: if_splits)
  qed
  have k: "k = sql_changed (seen_row seq n) ?f (lg_orders s)" and s1: "s1 = s\<lparr>lg_orders := ?t\<rparr>"
    using rs by (auto simp: replace_statement_def Let_def split: option.splits if_splits)
  have "\<exists>r \<in> set (lg_orders s). seen_row seq n r"
  proof (rule ccontr)
    assume none: "\<not> ?thesis"
    then have "k = 0" and t: "?t = lg_orders s" by (auto simp: k sql_changed_def filter_empty_conv intro: sql_update_none)
    then obtain c where "sql_get (donation_row seq) (lg_orders s) = Some c" "(case edited_at c of None \<Rightarrow> [] | Some d \<Rightarrow> d) = di_LastEditedAt n"
      using st by (auto simp: s1)
    then show False using named none sql_get_Some [of "donation_row seq" "lg_orders s" c] by (auto simp: seen_row_def split: option.splits)
  qed
  then obtain r where "r \<in> set (lg_orders s)" "donation_row seq r" "edited_at r = Some (di_LastEditedAt n)" by (auto simp: seen_row_def)
  then show ?thesis using that [of r] keys by (auto simp: keys_unique_def sql_get_row s' s1)
qed


section \<open>Spellings of a date\<close>

lemma digit_char_no [simp]: "digit_char d \<noteq> CHR '' ''" "digit_char d \<noteq> CHR ''.''" "digit_char d \<noteq> CHR '',''"
  "digit_char d \<noteq> CHR ''-''" "digit_char d \<noteq> CHR ''/''"
  using is_digit_digit_char [of d] by (auto simp: is_digit_def simp del: is_digit_digit_char)

lemma hd_numbers [simp]:
  "hd (zero_pad 2 n @ s) = digit_char (n div 10 mod 10)" "starts_digit (zero_pad 2 n @ s)" "zero_pad 2 n \<noteq> []"
  by (simp_all add: zero_pad_2)

lemma hd_Itoa [simp]: "0 \<le> n \<Longrightarrow> is_digit (hd (go_Itoa n @ s))"
  using show_digits_hd [of n] by (cases "show_digits n") (auto simp: go_Itoa_def)

lemma real_time_day: "real_time t \<Longrightarrow> 0 \<le> p_day t \<and> p_day t < 100 \<and> 0 \<le> p_month t \<and> p_month t < 100"
  using daysIn_bounds [of "p_year t" "p_month t"] by (auto simp: real_time_def real_date_def)

lemma import_layouts_separated:
  assumes "real_time t" "l \<in> set import_layouts"
  shows "all_separated t l"
proof -
  have d: "hd (go_Itoa (p_day t) @ s) \<noteq> CHR '' ''" "hd (go_Itoa (p_month t) @ s) \<noteq> CHR '' ''" for s
    using hd_Itoa [of "p_day t" s] hd_Itoa [of "p_month t" s] real_time_day [OF assms(1)] by (auto simp: is_digit_def)
  show ?thesis using assms(2) d
    by (auto simp: import_layouts_def date_layout_def go_Format_def nyeon_def wol_def il_def is_digit_def)
qed

lemma parse_print:
  assumes "real_time t" "l \<in> set import_layouts"
  shows "\<exists>v. go_Parse l (go_Format l t) = Some v \<and> go_Format date_layout v = go_Format date_layout t"
proof -
  have "\<exists>v. go_Parse l (go_Format l t) = Some v \<and> p_year v = p_year t \<and> p_month v = p_month t \<and> p_day v = p_day t"
    by (rule date_only [OF assms(1) import_layouts_separated [OF assms]]) (use assms(2) in \<open>auto simp: import_layouts_def date_layout_def\<close>)
  then show ?thesis by (auto simp: date_layout_def go_Format_def)
qed

lemma first_parse_at:
  "list_all (\<lambda>k. go_Parse k s = None) pre \<Longrightarrow> go_Parse l s = Some v \<Longrightarrow> first_parse (pre @ l # post) s = go_Format date_layout v"
  by (induction pre) auto

lemma earlier_layouts_fail:
  assumes "real_time t" "j < length import_layouts"
  shows "list_all (\<lambda>k. go_Parse k (go_Format (import_layouts ! j) t) = None) (take j import_layouts)"
proof -
  have y: "parse_year (zero_pad 4 (p_year t) @ s) = Some (p_year t, s)" for s using assms(1) by (simp add: parse_year_pad real_time_def)
  have g: "getnum fixed (zero_pad 2 (p_month t) @ s) = Some (p_month t, s)" "getnum fixed (zero_pad 2 (p_day t) @ s) = Some (p_day t, s)" for fixed s
    using real_time_day [OF assms(1)] by (simp_all add: getnum_pad)
  have c: "(case zero_pad 2 n @ s of [] \<Rightarrow> a | v # vs \<Rightarrow> f v vs) = f (digit_char (n div 10 mod 10)) (digit_char (n mod 10) # s)"
    for n s f and a :: "string option" by (simp add: zero_pad_2)
  note g0 = g [where s = "[]", simplified]
  have "j = 0 \<or> j = 1 \<or> j = 2 \<or> j = 3 \<or> j = 4 \<or> j = 5 \<or> j = 6" using assms(2) by (simp add: import_layouts_def) presburger
  then show ?thesis
    by (elim disjE) (simp_all add: import_layouts_def date_layout_def go_Format_def go_Parse_def y g g0 c in_range_def nyeon_def wol_def il_def is_digit_def)
qed

lemma plain_digit_char: "plain_byte (digit_char d)"
  using is_digit_digit_char [of d] by (auto simp: is_digit_def plain_byte_def simp del: is_digit_digit_char)

lemma trimmed_ends:
  assumes "s \<noteq> []" "plain_byte (hd s)" "plain_byte (last s) \<or> last s = CHR 0xBC"
  shows "go_TrimSpace s = s"
proof -
  have "trim_side id s = s" using assms(1,2) by (cases s) (auto intro: trim_side_fix simp: space_len_plain)
  moreover have "trim_side rev (rev s) = rev s"
    using assms(1,3) by (cases s rule: rev_cases) (auto intro: trim_side_fix simp: space_len_plain space_len_last)
  ultimately show ?thesis by (simp add: go_TrimSpace_def)
qed

lemma import_text_trimmed:
  assumes "l \<in> set import_layouts"
  shows "go_TrimSpace (go_Format l t) = go_Format l t"
proof (rule trimmed_ends)
  show "go_Format l t \<noteq> []" "plain_byte (hd (go_Format l t))" "plain_byte (last (go_Format l t)) \<or> last (go_Format l t) = CHR 0xBC"
    using assms by (auto simp: import_layouts_def date_layout_def go_Format_def zero_pad_4 zero_pad_2 il_def plain_digit_char)
qed

lemma canonical_date: "real_time t \<Longrightarrow> canonical date_layout (go_Format date_layout t)"
  using parse_print [of t date_layout] by (auto simp: canonical_def import_layouts_def)

text \<open>C34. The donation date may be written in any of the seven accepted ways: each spelling of a date is read as that
  date.\<close>

theorem date_spellings:
  assumes "real_time t" "l \<in> set import_layouts"
  shows "validateDonationImportDate (go_Format l t) = Inr (go_Format date_layout t)"
proof -
  obtain j where j: "j < length import_layouts" "l = import_layouts ! j" using assms(2) by (auto simp: in_set_conv_nth)
  obtain v where v: "go_Parse l (go_Format l t) = Some v" "go_Format date_layout v = go_Format date_layout t" using parse_print [OF assms] by blast
  have "first_parse (take j import_layouts @ l # drop (Suc j) import_layouts) (go_Format l t) = go_Format date_layout v"
    by (rule first_parse_at) (use earlier_layouts_fail [OF assms(1) j(1)] v(1) j(2) in simp_all)
  then have "normalizeDonationImportDate (go_Format l t) = go_Format date_layout t"
    using id_take_nth_drop [OF j(1)] v(2) by (simp add: normalizeDonationImportDate_def import_text_trimmed [OF assms(2)] flip: j(2))
  then show ?thesis by (simp add: validateDonationImportDate_def canonical_date [OF assms(1)])
qed

section \<open>Concrete runs\<close>

definition demo_don_env :: "string \<Rightarrow> don_env" where
  "demo_don_env now = \<lparr>dn_now = now, dn_flt = (\<lambda>_. None), dn_strict = False, dn_sha = (\<lambda>x. x), dn_same = (=),
     dn_number = (\<lambda>n x. go_Itoa n = x), dn_like = (\<lambda>p x. go_Contains x p)\<rparr>"

definition demo_order :: "int \<Rightarrow> string \<Rightarrow> DonationOrderInput" where
  "demo_order amount seen =
     \<lparr>di_Source = ''other'', di_AccountUsrSeq = Some 7, di_AccountUsrSeqSet = True, di_TransactionNumber = None, di_DonationDate = ''2026-02-28'',
      di_Donor = \<lparr>dd_Name = ''Kim'', dd_Cohort = ''12'', dd_Department = ''French'', dd_Phone = ''010-1234-5678''\<rparr>, di_DonationType = ''one_time'',
      di_GrossAmount = amount, di_RefundedAmount = 0, di_Status = ''completed'', di_PaymentMethod = ''bank'', di_Memo = None, di_LastEditedAt = seen\<rparr>"

definition demo_ledger :: ledger where
  "demo_ledger = \<lparr>lg_orders = [], lg_next = 1, lg_members = [\<lparr>lm_seq = 7, lm_name = ''Kim'', lm_fn = Some 12, lm_phone = Some ''010-1234-5678'',
     lm_dept = Some ''French'', lm_status = Some ''CCC''\<rparr>], lg_retentions = [1], lg_configs = []\<rparr>"

definition demo_history :: "don_op list" where
  "demo_history =
     [OpCreate (demo_don_env ''2026-03-01T09:00:00Z'') (demo_order 50000 []) 3 ''10.0.0.1'',
      OpUpdate (demo_don_env ''2026-03-02T09:00:00Z'') 1 (demo_order 60000 ''2026-03-01T09:00:00Z'') 3 ''10.0.0.1'']"

lemma demo_ledger_ok: "ledger_ok (\<lambda>x. x) demo_ledger"
  by (simp add: ledger_ok_def keys_unique_def demo_ledger_def)

lemma demo_history_run: "map lo_gross (lg_orders (run don_step demo_ledger demo_history)) = [Some 60000]"
  by code_simp

lemma ledger_stays_consistent_witness:
  "ledger_ok (\<lambda>x. x) (run don_step demo_ledger demo_history) \<and> map lo_gross (lg_orders (run don_step demo_ledger demo_history)) = [Some 60000]"
proof
  show "ledger_ok (\<lambda>x. x) (run don_step demo_ledger demo_history)"
    by (rule ledger_stays_consistent [OF demo_ledger_ok]) (simp add: demo_history_def demo_don_env_def)
qed (rule demo_history_run)

definition demo_created :: ledger where
  "demo_created = snd (admin_CreateOrder (demo_don_env ''2026-03-01T09:00:00Z'') (demo_order 50000 []) 3 ''10.0.0.1'' demo_ledger)"

lemma demo_created_keys: "keys_unique demo_created"
proof -
  let ?op = "OpCreate (demo_don_env ''2026-03-01T09:00:00Z'') (demo_order 50000 []) 3 ''10.0.0.1''"
  have "op_sha ?op = (\<lambda>x. x)" by (simp add: demo_don_env_def)
  then have "ledger_ok (\<lambda>x. x) (don_step demo_ledger ?op)" using don_step_ok demo_ledger_ok by blast
  then show ?thesis unfolding demo_created_def don_step.simps ledger_ok_def by blast
qed

lemma demo_edit_succeeds:
  "is_ok (fst (admin_UpdateOrder (demo_don_env ''2026-03-02T09:00:00Z'') 1 (demo_order 60000 ''2026-03-01T09:00:00Z'') 3 ''10.0.0.1'' demo_created))"
  by code_simp


lemma date_spellings_witness:
  "validateDonationImportDate (''2024'' @ nyeon @ ''2'' @ wol @ ''29'' @ il) = Inr ''2024-02-29''"
proof -
  let ?t = "\<lparr>p_year = 2024, p_month = 2, p_day = 29, p_hour = 0, p_min = 0, p_sec = 0\<rparr>"
  have t: "real_time ?t" by code_simp
  have "go_Format (import_layouts ! 4) ?t = ''2024'' @ nyeon @ ''2'' @ wol @ ''29'' @ il" "go_Format date_layout ?t = ''2024-02-29''" by code_simp+
  then show ?thesis using date_spellings [OF t, of "import_layouts ! 4"] by (simp add: import_layouts_def)
qed

section \<open>Narrow legacy columns\<close>

lemma create_orderD:
  assumes "admin_CreateOrder env input oper ip s = (Inr seq, s')"
  obtains n where "NormalizeDonationOrderInput (dn_sha env) input = Inr n" "seq = lg_next s"
    "lg_orders s' = lg_orders s @ [stored (new_ledger_order env n oper ip seq)]"
proof -
  obtain n where n: "NormalizeDonationOrderInput (dn_sha env) input = Inr n" "CreateDonationOrderTx env n oper ip s = Inr (seq, s')"
    using assms by (auto simp: admin_CreateOrder_def repo_CreateDonationOrder_def transact_ok split: sum.splits option.splits)
  then show ?thesis using that
    by (auto simp: CreateDonationOrderTx_def insert_statement_def lockActiveDonationAccount_def tx_ok Let_def split: option.splits if_splits)
qed

text \<open>Outside strict mode an order above \<^verbatim>\<open>INT\<close> keeps its amount in the ledger's columns but not in the legacy ones,
  and a virtual-account payment loses the last letter of its type.\<close>

theorem narrow_columns_clip:
  assumes "admin_CreateOrder env input oper ip s = (Inr seq, s')" "di_GrossAmount input > int_max"
    and "go_TrimSpace (di_PaymentMethod input) = ''virtual_bank''"
  shows "\<exists>r \<in> set (lg_orders s'). lo_seq r = seq \<and> lo_gross r = Some (di_GrossAmount input) \<and> lo_price r = int_max \<and> lo_pay_type r = ''VBAN''"
proof -
  obtain n where n: "NormalizeDonationOrderInput (dn_sha env) input = Inr n" "lg_orders s' = lg_orders s @ [stored (new_ledger_order env n oper ip seq)]"
    using create_orderD [OF assms(1)] by metis
  have "di_PaymentMethod n = ''virtual_bank''"
    using n(1) assms(3) by (auto simp: NormalizeDonationOrderInput_def Let_def trim_input_def split: option.splits)
  then show ?thesis using n(2) normalizeD(6) [OF n(1)] assms(2)
    by (intro bexI [of _ "stored (new_ledger_order env n oper ip seq)"])
       (auto simp: stored_def new_ledger_order_def ledger_columns_def clip_int_def legacyDonationPayType_def)
qed

end
