(* ===== verification/Import_Props.thy ===== *)
theory Import_Props
  imports Donation_Props
begin

text \<open>
  The import of donations from the sheet to the ledger: what a commit writes, that it writes nothing twice, and that
  what a preview shows can be committed.
\<close>

section \<open>Phone numbers of donors\<close>

lemma strip_digits: "list_all is_digit x \<Longrightarrow> strip_hyphens x = x"
  by (induction x) (auto simp: strip_hyphens_def is_digit_def)

lemma ten_parts: "length r = 10 \<Longrightarrow> r = [r ! 0] @ take 4 (drop 1 r) @ [r ! 5] @ drop 6 r"
  by (auto simp: numeral_eq_Suc length_Suc_conv)

lemma strip_append: "strip_hyphens (x @ y) = strip_hyphens x @ strip_hyphens y"
  by (simp add: strip_hyphens_def)

lemma donor_phone_strip:
  assumes "donor_phone p"
  shows "length (strip_hyphens p) = 11" "list_all is_digit (strip_hyphens p)" "donor_phone (strip_hyphens p)"
proof -
  define r where "r = drop 3 p"
  have p: "p = ''010'' @ r" using assms append_take_drop_id [of 3 p] by (simp add: donor_phone_def r_def)
  have "strip_hyphens ''010'' = ''010''" by (rule strip_digits) (simp add: is_digit_def)
  moreover have "length (strip_hyphens r) = 8 \<and> list_all is_digit (strip_hyphens r)"
  proof (cases "length r = 8 \<and> list_all is_digit r")
    case True
    then show ?thesis by (simp add: strip_digits)
  next
    case False
    then have r: "length r = 10" "r ! 0 = CHR ''-''" "list_all is_digit (take 4 (drop 1 r))" "r ! 5 = CHR ''-''" "list_all is_digit (drop 6 r)"
      using assms by (auto simp: donor_phone_def Let_def r_def [symmetric])
    have "strip_hyphens r = strip_hyphens (take 4 (drop 1 r)) @ strip_hyphens (drop 6 r)"
      using arg_cong [OF ten_parts [OF r(1)], of strip_hyphens] r(2,4) by (simp only: strip_append) (simp add: strip_hyphens_def)
    then show ?thesis using r by (simp add: strip_digits)
  qed
  ultimately have "strip_hyphens p = ''010'' @ strip_hyphens r" "length (strip_hyphens r) = 8" "list_all is_digit (strip_hyphens r)"
    by (simp_all only: p strip_append)
  then show "length (strip_hyphens p) = 11" "list_all is_digit (strip_hyphens p)" "donor_phone (strip_hyphens p)"
    by (simp_all add: donor_phone_def Let_def is_digit_def)
qed

lemma digits_trimmed: "list_all is_digit x \<Longrightarrow> go_TrimSpace x = x"
proof (cases "x = []")
  case False
  assume "list_all is_digit x"
  then have "is_digit (hd x)" "is_digit (last x)" using False by (auto simp: list_all_iff)
  then have "plain_byte (hd x)" "plain_byte (last x)" by (metis digit_char_digit_val plain_digit_char)+
  then show ?thesis using False go_TrimSpace_plain by blast
qed simp

section \<open>Imported rows\<close>

text \<open>A row as the checks leave it: trimmed, with a bare phone number and an amount in range.\<close>

definition clean_row :: "'a ExcelDonationRow_scheme \<Rightarrow> bool" where
  "clean_row r \<longleftrightarrow> xr_RowIndex r > 0 \<and> go_TrimSpace (xr_DonorName r) = xr_DonorName r \<and> xr_DonorName r \<noteq> []
     \<and> go_TrimSpace (xr_DonorCohort r) = xr_DonorCohort r \<and> xr_DonorCohort r \<noteq> []
     \<and> go_TrimSpace (xr_DonorDepartment r) = xr_DonorDepartment r \<and> xr_DonorDepartment r \<noteq> []
     \<and> donor_phone (xr_DonorPhone r) \<and> strip_hyphens (xr_DonorPhone r) = xr_DonorPhone r
     \<and> 0 < xr_Amount r \<and> xr_Amount r \<le> donationImportMaxAmount"

lemma clean_phone: "clean_row r \<Longrightarrow> go_TrimSpace (xr_DonorPhone r) = xr_DonorPhone r \<and> list_all is_digit (xr_DonorPhone r)"
  using donor_phone_strip(2) [of "xr_DonorPhone r"] digits_trimmed by (auto simp: clean_row_def)

lemma normalize_row_clean:
  assumes "normalizeDonationImportCommitRow row = Inr r"
  shows "clean_row r" "\<forall>u. cr_AccountUsrSeq r = Some u \<longrightarrow> 0 < u" "xr_RowIndex r = xr_RowIndex row" "cr_AccountUsrSeq r = cr_AccountUsrSeq row"
    "cr_PreviewToken r = cr_PreviewToken row" "xr_Amount r = xr_Amount row"
proof -
  note d = assms [unfolded normalizeDonationImportCommitRow_def Let_def]
  have p: "donor_phone (go_TrimSpace (xr_DonorPhone row))" using d by (auto split: if_splits)
  have s: "strip_hyphens (strip_hyphens (go_TrimSpace (xr_DonorPhone row))) = strip_hyphens (go_TrimSpace (xr_DonorPhone row))"
    by (rule strip_digits [OF donor_phone_strip(2) [OF p]])
  show "clean_row r" using d donor_phone_strip(3) [OF p] s by (auto simp: clean_row_def split: if_splits)
  show "\<forall>u. cr_AccountUsrSeq r = Some u \<longrightarrow> 0 < u" using d by (auto split: if_splits)
  show "xr_RowIndex r = xr_RowIndex row" "cr_AccountUsrSeq r = cr_AccountUsrSeq row" "cr_PreviewToken r = cr_PreviewToken row" "xr_Amount r = xr_Amount row"
    using d by (auto split: if_splits)
qed

definition imported :: "(string \<Rightarrow> string) \<Rightarrow> ExcelDonationRow \<Rightarrow> string \<Rightarrow> int option \<Rightarrow> NormalizedDonationOrder" where
  "imported sha r date account =
     \<lparr>di_Source = ''happy_nanum'', di_AccountUsrSeq = account, di_AccountUsrSeqSet = True, di_TransactionNumber = None, di_DonationDate = date,
      di_Donor = \<lparr>dd_Name = xr_DonorName r, dd_Cohort = xr_DonorCohort r, dd_Department = xr_DonorDepartment r, dd_Phone = xr_DonorPhone r\<rparr>,
      di_DonationType = ''one_time'', di_GrossAmount = xr_Amount r, di_RefundedAmount = 0, di_Status = ''completed'', di_PaymentMethod = ''other'',
      di_Memo = None, di_LastEditedAt = [], nd_NetReceivedAmount = xr_Amount r,
      nd_CompositeKey = sha (order_identity (importedDonationOrderInput r date account)), nd_LegacyGate = ''S'', nd_LegacyStatus = ''Y'', nd_LegacyPayment = ''Y''\<rparr>"

lemma trim_fixed: "go_TrimSpace ''happy_nanum'' = ''happy_nanum''" "go_TrimSpace ''one_time'' = ''one_time''"
  "go_TrimSpace ''completed'' = ''completed''" "go_TrimSpace ''other'' = ''other''"
  by (rule go_TrimSpace_plain; simp add: plain_byte_def)+

lemma canonical_trimmed: "canonical date_layout d \<Longrightarrow> go_TrimSpace d = d"
proof -
  assume "canonical date_layout d"
  then obtain t where "go_Format date_layout t = d" by (auto simp: canonical_def split: option.splits)
  then show ?thesis using import_text_trimmed [of date_layout t] by (auto simp: import_layouts_def)
qed

lemma trim_imported:
  assumes "clean_row r" "canonical date_layout date"
  shows "trim_input (importedDonationOrderInput r date a) = importedDonationOrderInput r date a"
  using assms canonical_trimmed [OF assms(2)] clean_phone [OF assms(1)]
  by (simp add: trim_input_def importedDonationOrderInput_def trim_fixed clean_row_def)

lemma normalize_imported:
  assumes "clean_row r" "canonical date_layout date"
  shows "normalizeImportedDonationOrder sha r date account = Inr (imported sha r date account)"
proof -
  let ?i = "importedDonationOrderInput r date account"
  have e: "input_error ?i = None" using assms
    by (auto simp: input_error_None importedDonationOrderInput_def donation_sources_def payment_methods_def legacy_gate_def legacy_state_def
        valid_transaction_def refund_error_def clean_row_def)
  have s: "strip_hyphens (xr_DonorPhone r) = xr_DonorPhone r" using assms(1) by (simp add: clean_row_def)
  show ?thesis
    by (simp add: normalizeImportedDonationOrder_def NormalizeDonationOrderInput_def trim_imported [OF assms] e Let_def imported_def s)
       (simp add: importedDonationOrderInput_def legacy_gate_def legacy_state_def order_identity_def s)
qed

lemma row_key:
  assumes "clean_row r" "canonical date_layout date"
  shows "importedDonationCompositeKey sha r date = Inr (sha (order_identity (importedDonationOrderInput r date None)))"
  by (simp add: importedDonationCompositeKey_def normalize_imported [OF assms]) (simp add: imported_def)

lemma imported_key [simp]: "nd_CompositeKey (imported sha r date a) = sha (order_identity (importedDonationOrderInput r date None))"
  by (simp add: imported_def order_identity_def importedDonationOrderInput_def)

lemma imported_account [simp]: "di_AccountUsrSeq (imported sha r date a) = a"
  by (simp add: imported_def)

section \<open>What a commit has done\<close>

definition checked :: "imp_env \<Rightarrow> string \<Rightarrow> DonationImportCommitRow \<Rightarrow> checked_row \<Rightarrow> bool" where
  "checked e date row c \<longleftrightarrow> normalizeDonationImportCommitRow row = Inr (ck_row c)
     \<and> importedDonationCompositeKey (dn_sha (ie_db e)) (ExcelDonationRow.truncate (ck_row c)) date = Inr (ck_key c)
     \<and> verifyDonationImportPreviewToken e (ck_row c) date = Some (ck_payload c)
     \<and> ck_member c = NewDonationImportMemberKey (xr_DonorName (ck_row c)) (xr_DonorCohort (ck_row c)) (xr_DonorPhone (ck_row c))"

lemma check_rowsD:
  "check_rows e date seen rows = Inr cs \<Longrightarrow> list_all2 (checked e date) rows cs \<and> distinct (map ck_key cs) \<and> set (map ck_key cs) \<inter> set seen = {}"
proof (induction rows arbitrary: seen cs)
  case (Cons row rows)
  then obtain c cs' where c: "cs = c # cs'"
    by (auto simp: map_sum_Inr split: sum.splits if_splits option.splits)
  with Cons.prems have c: "cs = c # cs'" "checked e date row c" "ck_key c \<notin> set seen" "check_rows e date (ck_key c # seen) rows = Inr cs'"
    by (auto simp: checked_def map_sum_Inr split: sum.splits if_splits option.splits)
  then show ?case using Cons.IH [OF c(4)] by auto
qed simp

lemma match_rowsD:
  "match_rows existing candidates cs = None \<Longrightarrow> c \<in> set cs \<Longrightarrow>
     \<not> existing (ck_key c) \<and> donationImportMatchStillValid (ck_payload c) (candidates (ck_member c)) (cr_AccountUsrSeq (ck_row c))"
  by (induction cs) (auto simp: Let_def split: if_splits)

lemma truncate_row [simp]:
  "xr_RowIndex (ExcelDonationRow.truncate r) = xr_RowIndex r" "xr_DonorName (ExcelDonationRow.truncate r) = xr_DonorName r"
  "xr_DonorCohort (ExcelDonationRow.truncate r) = xr_DonorCohort r" "xr_DonorDepartment (ExcelDonationRow.truncate r) = xr_DonorDepartment r"
  "xr_DonorPhone (ExcelDonationRow.truncate r) = xr_DonorPhone r" "xr_Amount (ExcelDonationRow.truncate r) = xr_Amount r"
  by (simp_all add: ExcelDonationRow.truncate_def)

lemma clean_truncate [simp]: "clean_row (ExcelDonationRow.truncate r) = clean_row r"
  by (simp add: clean_row_def)

lemma validate_canonical: "validateDonationImportDate d = Inr date \<Longrightarrow> canonical date_layout date"
  by (auto simp: validateDonationImportDate_def Let_def split: if_splits)

lemma checkedD:
  assumes "checked e date row c" "canonical date_layout date"
  shows "clean_row (ck_row c)"
    "ck_key c = nd_CompositeKey (imported (dn_sha (ie_db e)) (ExcelDonationRow.truncate (ck_row c)) date a)"
  using assms normalize_row_clean(1) [of row "ck_row c"] row_key [of "ExcelDonationRow.truncate (ck_row c)" date "dn_sha (ie_db e)"]
  by (auto simp: checked_def)

abbreviation import_of :: "(string \<Rightarrow> string) \<Rightarrow> string \<Rightarrow> DonationImportCommitRow \<Rightarrow> NormalizedDonationOrder" where
  "import_of sha date r \<equiv> imported sha (ExcelDonationRow.truncate r) date (cr_AccountUsrSeq r)"

lemma normalize_imports_clean:
  assumes "canonical date_layout date"
  shows "list_all (clean_row \<circ> fst) rows \<Longrightarrow> normalize_imports sha date rows = Inr ns \<Longrightarrow> ns = map (\<lambda>(r, a). imported sha r date a) rows"
  using assms by (induction sha date rows arbitrary: ns rule: normalize_imports.induct)
    (auto simp: normalize_imported map_sum_Inr split: option.splits)

text \<open>The rows that an \<^verbatim>\<open>INSERT\<close> of several orders adds.\<close>

fun new_rows :: "don_env \<Rightarrow> int \<Rightarrow> string \<Rightarrow> int \<Rightarrow> NormalizedDonationOrder list \<Rightarrow> ledger_order list" where
  "new_rows env oper ip q [] = []"
| "new_rows env oper ip q (n # ns) = stored (new_ledger_order env n oper ip q) # new_rows env oper ip (q + 1) ns"

lemma length_new_rows [simp]: "length (new_rows env oper ip q ns) = length ns"
  by (induction ns arbitrary: q) auto

lemma new_rows_nth: "i < length ns \<Longrightarrow> new_rows env oper ip q ns ! i = stored (new_ledger_order env (ns ! i) oper ip (q + int i))"
  by (induction ns arbitrary: q i) (auto simp: nth_Cons algebra_simps split: nat.splits)

lemma insert_orders_rows:
  "insert_orders env oper ip ns s = Inr (u, s') \<Longrightarrow> lg_orders s' = lg_orders s @ new_rows env oper ip (lg_next s) ns \<and> lg_members s' = lg_members s"
  by (induction ns arbitrary: s) (auto simp: tx_ok Let_def split: if_splits)

lemma insert_orders_keys: "insert_orders env oper ip ns s = Inr (u, s') \<Longrightarrow> keys_unique s \<Longrightarrow> keys_unique s'"
proof (induction ns arbitrary: s)
  case (Cons n ns)
  let ?r = "new_ledger_order env n oper ip (lg_next s)"
  let ?s = "s\<lparr>lg_orders := lg_orders s @ [stored ?r], lg_next := lg_next s + 1\<rparr>"
  have nc: "\<not> clashes ?r x" if "x \<in> set (lg_orders s)" for x
    using Cons.prems(1) that by (auto simp: Let_def list_ex_iff split: if_splits)
  have i: "insert_orders env oper ip ns ?s = Inr (u, s')" using Cons.prems(1) by (auto simp: Let_def split: if_splits)
  have "keys_unique ?s" by (rule keys_unique_snoc) (use Cons.prems(2) nc in auto)
  then show ?case using Cons.IH [OF i] by simp
qed (auto simp: tx_return_ok)

lemma sequences_ofD:
  "sequences_of rows ns = Inr qs \<Longrightarrow> length qs = length ns \<and> (\<forall>i<length ns. (nd_CompositeKey (ns ! i), qs ! i) \<in> set rows)"
proof (induction ns arbitrary: qs)
  case (Cons n ns)
  from Cons.prems obtain q qs' where q: "qs = q # qs'" "map_of (rev rows) (nd_CompositeKey n) = Some q" "sequences_of rows ns = Inr qs'"
    by (auto simp: map_sum_Inr split: option.splits)
  then show ?case using Cons.IH [OF q(3)] map_of_SomeD [OF q(2)] by (auto simp: nth_Cons split: nat.splits)
qed simp

lemma keyed_ordersD: "(k, q) \<in> set (keyed_orders ks s) \<Longrightarrow> \<exists>r \<in> set (lg_orders s). lo_key r = Some k \<and> lo_seq r = q"
  by (fastforce simp: keyed_orders_def List.map_filter_def split: option.splits if_splits)

lemma reported_sequences:
  assumes keys: "keys_unique s'" and rows: "lg_orders s' = t @ new_rows env oper ip q0 ns"
    and seqs: "sequences_of (keyed_orders ks s') ns = Inr qs" and plain: "\<forall>n \<in> set ns. di_TransactionNumber n = None"
  shows "qs = map (\<lambda>i. q0 + int i) [0..<length ns]"
proof (rule nth_equalityI)
  show "length qs = length (map (\<lambda>i. q0 + int i) [0..<length ns])" using sequences_ofD [OF seqs] by simp
  fix i assume "i < length qs"
  then have i: "i < length ns" using sequences_ofD [OF seqs] by simp
  let ?r = "stored (new_ledger_order env (ns ! i) oper ip (q0 + int i))"
  have "?r \<in> set (new_rows env oper ip q0 ns)" using i nth_mem [of i "new_rows env oper ip q0 ns"] by (simp add: new_rows_nth)
  then have r: "?r \<in> set (lg_orders s')" by (simp add: rows)
  have k: "lo_key ?r = Some (nd_CompositeKey (ns ! i))" using plain i
    by (simp add: stored_def new_ledger_order_def ledger_columns_def nullableCompositeKey_def)
  obtain x where x: "x \<in> set (lg_orders s')" "lo_key x = Some (nd_CompositeKey (ns ! i))" "lo_seq x = qs ! i"
    using sequences_ofD [OF seqs] i keyed_ordersD by blast
  have "\<not> clashes ?r x \<or> lo_seq x = lo_seq ?r" using keys r x(1) unfolding keys_unique_def by blast
  then have "lo_seq x = lo_seq ?r" using k x(2) by (auto simp: clashes_def)
  then show "qs ! i = map (\<lambda>i. q0 + int i) [0..<length ns] ! i" using x(3) i by simp
qed

text \<open>A transaction that commits checked rows.\<close>

lemma lock_accountsD:
  assumes "lockActiveDonationAccounts env ns s = Inr (u, s')" "distinct (map lm_seq (lg_members s))"
  shows "s' = s" "n \<in> set ns \<Longrightarrow> di_AccountUsrSeq n = Some a \<Longrightarrow> \<exists>m \<in> set (lg_members s). lm_seq m = a \<and> linkable m"
proof -
  show "s' = s" using assms(1) by (auto simp: lockActiveDonationAccounts_def Let_def tx_ok split: if_splits)
  assume "n \<in> set ns" "di_AccountUsrSeq n = Some a"
  then have a: "a \<in> set (batch_accounts ns)" by (force simp: batch_accounts_def List.map_filter_def)
  let ?hit = "filter (\<lambda>m. lm_seq m \<in> set (batch_accounts ns) \<and> linkable m) (lg_members s)"
  have "length ?hit = length (batch_accounts ns)" using assms(1) a
    by (auto simp: lockActiveDonationAccounts_def Let_def tx_ok sql_affected_def split: if_splits)
  moreover have "distinct (map lm_seq ?hit)" using assms(2) distinct_map_filter by blast
  moreover have "distinct (batch_accounts ns)" by (simp add: batch_accounts_def)
  moreover have "set (map lm_seq ?hit) \<subseteq> set (batch_accounts ns)" by auto
  ultimately have "set (map lm_seq ?hit) = set (batch_accounts ns)"
    by (metis card_subset_eq distinct_card length_map List.finite_set)
  then have "a \<in> set (map lm_seq ?hit)" using a by simp
  then show "\<exists>m \<in> set (lg_members s). lm_seq m = a \<and> linkable m" by auto
qed

lemma find_insertedD:
  "findInsertedDonationOrderSequences env ns s = Inr (qs, s') \<Longrightarrow> s' = s \<and> sequences_of (keyed_orders (map nd_CompositeKey ns) s') ns = Inr qs"
  by (auto simp: findInsertedDonationOrderSequences_def tx_bind_ok query_ok split: sum.splits)

lemma create_batchD:
  assumes c: "CreateDonationOrdersTx env ns oper ip s = Inr (qs, s')" and keys: "keys_unique s" and ns: "ns \<noteq> []"
    and plain: "\<forall>n \<in> set ns. di_TransactionNumber n = None" and members: "distinct (map lm_seq (lg_members s))"
  shows "lg_orders s' = lg_orders s @ new_rows env oper ip (lg_next s) ns" "qs = map (\<lambda>i. lg_next s + int i) [0..<length ns]"
    "n \<in> set ns \<Longrightarrow> di_AccountUsrSeq n = Some a \<Longrightarrow> \<exists>m \<in> set (lg_members s). lm_seq m = a \<and> linkable m"
proof -
  obtain u s1 u' s2 where l: "lockActiveDonationAccounts env ns s = Inr (u, s1)" and i: "insert_statement env oper ip ns s1 = Inr (u', s2)"
    and f: "findInsertedDonationOrderSequences env ns s2 = Inr (qs, s')"
    using c ns by (auto simp: CreateDonationOrdersTx_def tx_then_ok)
  have s1: "s1 = s" by (rule lock_accountsD(1) [OF l members])
  have i': "insert_orders env oper ip ns s = Inr (u', s2)" using i by (auto simp: insert_statement_def s1 split: option.splits)
  have q: "s' = s2" "sequences_of (keyed_orders (map nd_CompositeKey ns) s2) ns = Inr qs"
    using find_insertedD [OF f] by auto
  show rows: "lg_orders s' = lg_orders s @ new_rows env oper ip (lg_next s) ns" using insert_orders_rows [OF i'] q(1) by simp
  show "qs = map (\<lambda>i. lg_next s + int i) [0..<length ns]"
    by (rule reported_sequences [OF insert_orders_keys [OF i' keys] rows [unfolded q(1)] q(2) plain])
  show "n \<in> set ns \<Longrightarrow> di_AccountUsrSeq n = Some a \<Longrightarrow> \<exists>m \<in> set (lg_members s). lm_seq m = a \<and> linkable m"
    by (rule lock_accountsD(2) [OF l members])
qed

definition match_of :: "don_env \<Rightarrow> checked_row list \<Rightarrow> ledger \<Rightarrow> checked_row \<Rightarrow> MemberCandidate list" where
  "match_of env cs s c = findMemberCandidatesByKeys env (map ck_member cs) s (ck_member c)"

lemma commit_matches:
  assumes "commit_tx env date cs admin ip s = Inr (results, s')" "x \<in> set cs"
  shows "\<not> findExistingDonationCompositeKeys (map ck_key cs) s (ck_key x)"
    "donationImportMatchStillValid (ck_payload x) (match_of env cs s x) (cr_AccountUsrSeq (ck_row x))"
proof -
  have m: "match_rows (findExistingDonationCompositeKeys (map ck_key cs) s) (findMemberCandidatesByKeys env (map ck_member cs) s) cs = None"
    using assms(1) by (auto simp: commit_tx_def tx_bind_ok tx_error_ok query_ok tx_fail_ok split: option.splits)
  show "\<not> findExistingDonationCompositeKeys (map ck_key cs) s (ck_key x)"
    "donationImportMatchStillValid (ck_payload x) (match_of env cs s x) (cr_AccountUsrSeq (ck_row x))"
    using match_rowsD [OF m assms(2)] by (simp_all add: match_of_def)
qed

lemma commit_txD:
  assumes c: "commit_tx (ie_db e) date cs admin ip s = Inr (results, s')" and keys: "keys_unique s" and cs: "cs \<noteq> []"
    and clean: "list_all (clean_row \<circ> ck_row) cs" and date: "canonical date_layout date" and members: "distinct (map lm_seq (lg_members s))"
  defines "ns \<equiv> map (\<lambda>c. import_of (dn_sha (ie_db e)) date (ck_row c)) cs"
  shows "lg_orders s' = lg_orders s @ new_rows (ie_db e) admin ip (lg_next s) ns"
    "results = map2 (\<lambda>c q. \<lparr>rr_RowIndex = xr_RowIndex (ck_row c), rr_Success = True, rr_OrderSeq = q\<rparr>) cs (map (\<lambda>i. lg_next s + int i) [0..<length cs])"
    "x \<in> set cs \<Longrightarrow> cr_AccountUsrSeq (ck_row x) = Some a \<Longrightarrow> \<exists>m \<in> set (lg_members s). lm_seq m = a \<and> linkable m"
proof -
  let ?env = "ie_db e"
  obtain qs where i: "CreateImportedOrdersTx ?env date (imported_orders cs) admin ip s = Inr (qs, s')"
    and r: "results = map2 (\<lambda>c q. \<lparr>rr_RowIndex = xr_RowIndex (ck_row c), rr_Success = True, rr_OrderSeq = q\<rparr>) cs qs"
    using c by (auto simp: commit_tx_def tx_bind_ok tx_error_ok query_ok tx_then_ok tx_guard_ok tx_return_ok tx_fail_ok split: option.splits)
  have n: "normalize_imports (dn_sha ?env) date (imported_orders cs) = Inr ns" and b: "CreateDonationOrdersTx ?env ns admin ip s = Inr (qs, s')"
  proof -
    obtain ms where ms: "normalize_imports (dn_sha ?env) date (imported_orders cs) = Inr ms" "CreateDonationOrdersTx ?env ms admin ip s = Inr (qs, s')"
      using i by (auto simp: CreateImportedOrdersTx_def tx_fail_ok split: sum.splits)
    have "list_all (clean_row \<circ> fst) (imported_orders cs)" using clean by (simp add: imported_orders_def list_all_iff)
    then have "ms = ns" using normalize_imports_clean [OF date _ ms(1)] by (simp add: ns_def imported_orders_def)
    then show "normalize_imports (dn_sha ?env) date (imported_orders cs) = Inr ns" "CreateDonationOrdersTx ?env ns admin ip s = Inr (qs, s')"
      using ms by simp_all
  qed
  have ne: "ns \<noteq> []" and plain: "\<forall>n \<in> set ns. di_TransactionNumber n = None" using cs by (auto simp: ns_def imported_def)
  note d = create_batchD [OF b keys ne plain members]
  show "lg_orders s' = lg_orders s @ new_rows ?env admin ip (lg_next s) ns" by (rule d(1))
  show "results = map2 (\<lambda>c q. \<lparr>rr_RowIndex = xr_RowIndex (ck_row c), rr_Success = True, rr_OrderSeq = q\<rparr>) cs (map (\<lambda>i. lg_next s + int i) [0..<length cs])"
    using r d(2) by (simp add: ns_def)
  show "x \<in> set cs \<Longrightarrow> cr_AccountUsrSeq (ck_row x) = Some a \<Longrightarrow> \<exists>m \<in> set (lg_members s). lm_seq m = a \<and> linkable m"
    by (rule d(3) [of "import_of (dn_sha ?env) date (ck_row x)"]) (force simp: ns_def)+
qed

lemma import_CommitD:
  assumes "import_Commit e rows donationDate admin ip s = (Inr results, s', refreshed)"
  obtains date cs where "validateDonationImportDate donationDate = Inr date" "rows \<noteq> []" "int (length rows) \<le> donationImportMaxRows"
    "check_rows e date [] rows = Inr cs" "commit_tx (ie_db e) date cs admin ip s = Inr (results, s')" "refreshed = ie_refresher e"
  using assms by (auto simp: import_Commit_def Let_def transact_ok split: sum.splits if_splits prod.splits)

lemma import_Commit_error: "import_Commit e rows donationDate admin ip s = (Inl er, s', refreshed) \<Longrightarrow> s' = s \<and> \<not> refreshed"
  by (auto simp: import_Commit_def Let_def split: sum.splits if_splits prod.splits dest: transact_error)

lemma verify_token:
  "verifyDonationImportPreviewToken e r date = Some p \<Longrightarrow> cr_PreviewToken r = signDonationImportPreviewPayload e (with_row r date p) \<and> ie_now e < pl_ExpiresAt p"
  by (auto simp: verifyDonationImportPreviewToken_def split: list.splits if_splits option.splits)

lemma list_all2_map_Inr: "list_all2 (\<lambda>x c. f x = Inr (g c)) xs cs \<Longrightarrow> map f xs = map Inr (map g cs)"
  by (induction rule: list_all2_induct) auto

text \<open>The members that a lookup finds for a donor.\<close>

definition donor_key :: "'a ExcelDonationRow_scheme \<Rightarrow> DonationImportMemberKey" where
  "donor_key r = \<lparr>mk_Name = xr_DonorName r, mk_Cohort = xr_DonorCohort r, mk_Phone = xr_DonorPhone r\<rparr>"

lemma donor_key_clean:
  assumes "clean_row r"
  shows "NewDonationImportMemberKey (xr_DonorName r) (xr_DonorCohort r) (xr_DonorPhone r) = donor_key r"
proof -
  have "filter is_digit (xr_DonorPhone r) = xr_DonorPhone r" using clean_phone [OF assms] by (simp add: list_all_iff)
  then show ?thesis using assms by (simp add: NewDonationImportMemberKey_def NormalizePhoneNumber_def donor_key_def clean_row_def)
qed

lemma set_unique_from: "set (unique_from seen xs) = set xs - set seen"
  by (induction seen xs rule: unique_from.induct) auto

lemma candidates_of:
  assumes fixed: "\<And>k. k \<in> set ks \<Longrightarrow> NewDonationImportMemberKey (mk_Name k) (mk_Cohort k) (mk_Phone k) = k" and k: "k \<in> set ks"
  shows "mc_USRSeq ` set (findMemberCandidatesByKeys env ks s k) = lm_seq ` {m \<in> set (lg_members s). member_matches env k m}"
proof -
  have u: "set (uniqueDonationImportMemberKeys ks) = set ks" using fixed by (force simp: uniqueDonationImportMemberKeys_def set_unique_from)
  have "set (findMemberCandidatesByKeys env ks s k) = (\<lambda>m. \<lparr>mc_USRSeq = lm_seq m, mc_Name = lm_name m\<rparr>) ` {m \<in> set (lg_members s). member_matches env k m}"
    using fixed k by (force simp: findMemberCandidatesByKeys_def candidate_rows_def u)
  then show ?thesis by (simp add: image_image)
qed

definition signed_row :: "imp_env \<Rightarrow> ledger \<Rightarrow> string \<Rightarrow> DonationImportCommitRow \<Rightarrow> bool" where
  "signed_row e s date r \<longleftrightarrow>
     (\<exists>p. cr_PreviewToken r = signDonationImportPreviewPayload e (with_row r date p) \<and> ie_now e < pl_ExpiresAt p
        \<and> (pl_Status p = DonationImportRowMatched \<and> cr_AccountUsrSeq r = pl_MatchedUsrSeq p
             \<and> (\<exists>u. pl_MatchedUsrSeq p = Some u \<and> lm_seq ` {m \<in> set (lg_members s). member_matches (ie_db e) (donor_key r) m} = {u})
           \<or> pl_Status p \<in> {DonationImportRowAmbiguous, DonationImportRowUnmatched} \<and> pl_MatchedUsrSeq p = None))"

lemma still_validD:
  "donationImportMatchStillValid p cs a \<Longrightarrow>
     pl_Status p = DonationImportRowMatched \<and> (\<exists>c. cs = [c] \<and> pl_MatchedUsrSeq p = Some (mc_USRSeq c) \<and> a = Some (mc_USRSeq c))
     \<or> pl_Status p \<in> {DonationImportRowAmbiguous, DonationImportRowUnmatched} \<and> pl_MatchedUsrSeq p = None"
  by (cases cs rule: remdups_adj.cases; cases "pl_MatchedUsrSeq p"; cases a) (auto simp: donationImportMatchStillValid_def split: if_splits)

lemma matched_signed:
  assumes c: "commit_tx (ie_db e) date cs admin ip s = Inr (results, s')" and ch: "list_all2 (checked e date) rows cs"
    and date: "canonical date_layout date" and x: "x \<in> set cs"
  shows "signed_row e s date (ck_row x)"
proof -
  have clean: "clean_row (ck_row y) \<and> ck_member y = donor_key (ck_row y)" if "y \<in> set cs" for y
    using that ch date checkedD(1) donor_key_clean by (fastforce simp: checked_def list_all2_conv_all_nth in_set_conv_nth)
  have fixed: "NewDonationImportMemberKey (mk_Name k) (mk_Cohort k) (mk_Phone k) = k" if "k \<in> set (map ck_member cs)" for k
    using that clean donor_key_clean by (force simp: donor_key_def)
  have set: "mc_USRSeq ` set (match_of (ie_db e) cs s x) = lm_seq ` {m \<in> set (lg_members s). member_matches (ie_db e) (donor_key (ck_row x)) m}"
  proof -
    have "ck_member x \<in> set (map ck_member cs)" using x by simp
    from candidates_of [OF fixed this] show ?thesis using clean [OF x] by (simp add: match_of_def)
  qed
  have v: "verifyDonationImportPreviewToken e (ck_row x) date = Some (ck_payload x)"
    using x ch by (auto simp: checked_def list_all2_conv_all_nth in_set_conv_nth)
  have m: "donationImportMatchStillValid (ck_payload x) (match_of (ie_db e) cs s x) (cr_AccountUsrSeq (ck_row x))"
    by (rule commit_matches(2) [OF c x])
  show ?thesis unfolding signed_row_def set [symmetric]
    using verify_token [OF v] still_validD [OF m] by (intro exI [of _ "ck_payload x"]) auto
qed

definition row_results :: "int \<Rightarrow> DonationImportCommitRow list \<Rightarrow> DonationImportCommitRowResult list" where
  "row_results q rs = map2 (\<lambda>r i. \<lparr>rr_RowIndex = xr_RowIndex r, rr_Success = True, rr_OrderSeq = q + int i\<rparr>) rs [0..<length rs]"


section \<open>No donation twice\<close>

lemma key_of_same:
  assumes "xr_DonorName r = xr_DonorName q" "xr_DonorCohort r = xr_DonorCohort q" "xr_DonorDepartment r = xr_DonorDepartment q"
    "xr_DonorPhone r = xr_DonorPhone q" "xr_Amount r = xr_Amount q"
  shows "nd_CompositeKey (imported sha r date a) = nd_CompositeKey (imported sha q date b)"
  using assms by (simp add: order_identity_def importedDonationOrderInput_def)

lemma list_all2_left: "list_all2 P xs ys \<Longrightarrow> x \<in> set xs \<Longrightarrow> \<exists>y \<in> set ys. P x y"
  by (induction rule: list_all2_induct) auto

lemma committed_keys:
  assumes "commit_tx (ie_db e) date cs admin ip s = Inr (results, s')" "list_all2 (checked e date) rows cs" "canonical date_layout date" "x \<in> set cs"
  shows "\<exists>r \<in> set (lg_orders s'). lo_key r = Some (ck_key x)"
proof -
  have ch: "\<exists>row. checked e date row c" if "c \<in> set cs" for c
    using assms(2) that by (auto simp: list_all2_conv_all_nth in_set_conv_nth)
  obtain qs where i: "CreateImportedOrdersTx (ie_db e) date (imported_orders cs) admin ip s = Inr (qs, s')"
    using assms(1) by (auto simp: commit_tx_def tx_bind_ok tx_error_ok query_ok tx_then_ok tx_guard_ok tx_return_ok tx_fail_ok split: option.splits)
  then obtain ns where ns: "normalize_imports (dn_sha (ie_db e)) date (imported_orders cs) = Inr ns" "CreateDonationOrdersTx (ie_db e) ns admin ip s = Inr (qs, s')"
    by (auto simp: CreateImportedOrdersTx_def tx_fail_ok split: sum.splits)
  have "list_all (clean_row \<circ> fst) (imported_orders cs)" using ch checkedD(1) [OF _ assms(3)] by (fastforce simp: imported_orders_def list_all_iff)
  then have n: "ns = map (\<lambda>c. import_of (dn_sha (ie_db e)) date (ck_row c)) cs" using normalize_imports_clean [OF assms(3) _ ns(1)] by (simp add: imported_orders_def)
  have "ns \<noteq> []" using n assms(4) by auto
  then obtain s2 where "findInsertedDonationOrderSequences (ie_db e) ns s2 = Inr (qs, s')"
    using ns(2) by (auto simp: CreateDonationOrdersTx_def tx_then_ok)
  then have "sequences_of (keyed_orders (map nd_CompositeKey ns) s') ns = Inr qs" using find_insertedD by blast
  note q = sequences_ofD [OF this]
  obtain i where "i < length cs" "x = cs ! i" using assms(4) by (auto simp: in_set_conv_nth)
  then have "(ck_key x, qs ! i) \<in> set (keyed_orders (map nd_CompositeKey ns) s')"
    using q checkedD(2) [OF _ assms(3)] ch [OF assms(4)] by (auto simp: n)
  then show ?thesis using keyed_ordersD by blast
qed

definition same_donation :: "DonationImportCommitRow \<Rightarrow> DonationImportCommitRow \<Rightarrow> bool" where
  "same_donation row row' \<longleftrightarrow>
     (\<exists>r r'. normalizeDonationImportCommitRow row = Inr r \<and> normalizeDonationImportCommitRow row' = Inr r'
        \<and> xr_DonorName r = xr_DonorName r' \<and> xr_DonorCohort r = xr_DonorCohort r' \<and> xr_DonorDepartment r = xr_DonorDepartment r'
        \<and> xr_DonorPhone r = xr_DonorPhone r' \<and> xr_Amount r = xr_Amount r')"

text \<open>C28. A donation is imported once: after a commit, while its orders are in the ledger, no commit for the same day
  that repeats one of its donations succeeds, whatever tokens, accounts and row numbers it carries, and whatever else is in
  the batch; it changes nothing.\<close>

theorem import_is_once:
  assumes first: "import_Commit e rows d admin ip s = (Inr results, s', refreshed)" and row: "row \<in> set rows"
    and kept: "set (lg_orders s') \<subseteq> set (lg_orders t)" and day: "validateDonationImportDate d' = validateDonationImportDate d"
    and row': "row' \<in> set rows'" "same_donation row row'" and sha: "dn_sha (ie_db e') = dn_sha (ie_db e)"
    and digest: "\<And>x. dn_sha (ie_db e) x \<noteq> [] \<and> go_TrimSpace (dn_sha (ie_db e) x) = dn_sha (ie_db e) x"
  shows "\<exists>er. import_Commit e' rows' d' admin' ip' t = (Inl er, t, False)"
proof (cases "import_Commit e' rows' d' admin' ip' t")
  case (fields res t' refreshed')
  show ?thesis
  proof (cases res)
    case (Inl er)
    then show ?thesis using fields import_Commit_error [OF fields [unfolded Inl]] by simp
  next
    case (Inr results')
    obtain date cs where c: "validateDonationImportDate d = Inr date" "check_rows e date [] rows = Inr cs" "commit_tx (ie_db e) date cs admin ip s = Inr (results, s')"
      using import_CommitD first by metis
    obtain cs' where c': "check_rows e' date [] rows' = Inr cs'" "commit_tx (ie_db e') date cs' admin' ip' t = Inr (results', t')"
      using import_CommitD fields Inr day c(1) by (metis sum.inject(2))
    note can = validate_canonical [OF c(1)]
    have ch: "list_all2 (checked e date) rows cs" "list_all2 (checked e' date) rows' cs'" using check_rowsD c(2) c'(1) by blast+
    obtain x where x: "x \<in> set cs" "checked e date row x" using list_all2_left [OF ch(1) row] by blast
    obtain y where y: "y \<in> set cs'" "checked e' date row' y" using list_all2_left [OF ch(2) row'(1)] by blast
    have "ck_key y = ck_key x" unfolding checkedD(2) [OF x(2) can, of None] checkedD(2) [OF y(2) can, of None] sha
      by (rule key_of_same) (use row'(2) x(2) y(2) in \<open>auto simp: same_donation_def checked_def\<close>)
    moreover obtain r where r: "r \<in> set (lg_orders s')" "lo_key r = Some (ck_key x)" using committed_keys [OF c(3) ch(1) can x(1)] by blast
    moreover have "ck_key x \<noteq> []" "go_TrimSpace (ck_key x) = ck_key x" using digest checkedD(2) [OF x(2) can, of None] by simp_all
    moreover from this have "ck_key x \<in> set (map go_TrimSpace (map ck_key cs'))" using y(1) \<open>ck_key y = ck_key x\<close> by force
    ultimately have "findExistingDonationCompositeKeys (map ck_key cs') t (ck_key y)"
      using kept by (auto simp: findExistingDonationCompositeKeys_def list_ex_iff)
    then show ?thesis using commit_matches(1) [OF c'(2) y(1)] by simp
  qed
qed

section \<open>Concrete runs\<close>

text \<open>A digest and codecs that write every bit as a digit.\<close>

definition bits_of :: "char \<Rightarrow> string" where
  "bits_of c = (case c of Char b0 b1 b2 b3 b4 b5 b6 b7 \<Rightarrow> map (\<lambda>b. if b then CHR ''1'' else CHR ''0'') [b0, b1, b2, b3, b4, b5, b6, b7])"

definition demo_encode :: "string \<Rightarrow> string" where
  "demo_encode s = concat (map bits_of s)"

fun demo_decode :: "string \<Rightarrow> string option" where
  "demo_decode (b0 # b1 # b2 # b3 # b4 # b5 # b6 # b7 # r) =
     map_option (\<lambda>s. Char (b0 = CHR ''1'') (b1 = CHR ''1'') (b2 = CHR ''1'') (b3 = CHR ''1'') (b4 = CHR ''1'') (b5 = CHR ''1'')
       (b6 = CHR ''1'') (b7 = CHR ''1'') # s) (demo_decode r)"
| "demo_decode r = (if r = [] then Some [] else None)"

lemma bit_digit: "((if b then CHR ''1'' else CHR ''0'') = CHR ''1'') = b"
  by simp

lemma demo_decode_bits: "demo_decode (bits_of c @ s) = map_option (\<lambda>r. c # r) (demo_decode s)"
  by (cases c) (simp only: bits_of_def char.case list.map append.simps demo_decode.simps bit_digit)

lemma demo_decode_encode: "demo_decode (demo_encode s) = Some s"
  by (induction s) (simp_all add: demo_encode_def demo_decode_bits)

lemma bits_of_digits: "set (bits_of c) \<subseteq> {CHR ''0'', CHR ''1''}" "bits_of c \<noteq> []"
proof -
  obtain bs where "bits_of c = map (\<lambda>b. if b then CHR ''1'' else CHR ''0'') bs" "bs \<noteq> []"
    by (cases c) (simp only: bits_of_def char.case, blast)
  then show "set (bits_of c) \<subseteq> {CHR ''0'', CHR ''1''}" "bits_of c \<noteq> []" by auto
qed

lemma demo_encode_digits: "set (demo_encode s) \<subseteq> {CHR ''0'', CHR ''1''}" "demo_encode s = [] \<longleftrightarrow> s = []"
  using bits_of_digits by (induction s) (simp_all add: demo_encode_def)

lemma demo_encode_plain: "s \<noteq> [] \<Longrightarrow> go_TrimSpace (demo_encode s) = demo_encode s"
proof -
  assume "s \<noteq> []"
  then have "demo_encode s \<noteq> []" by (simp add: demo_encode_digits)
  moreover from this have "plain_byte (hd (demo_encode s))" "plain_byte (last (demo_encode s))"
    using subsetD [OF demo_encode_digits(1) hd_in_set] subsetD [OF demo_encode_digits(1) last_in_set] by (fastforce simp: plain_byte_def)+
  ultimately show ?thesis by (rule go_TrimSpace_plain)
qed

definition demo_payload :: donationImportPreviewTokenPayload where
  "demo_payload = \<lparr>pl_ExpiresAt = 3600, pl_RowIndex = 3, pl_DonorName = ''Kim'', pl_DonorCohort = ''12'', pl_DonorDepartment = ''French'',
     pl_DonorPhone = ''01012345678'', pl_Amount = 50000, pl_DonationDate = ''2026-02-28'', pl_Status = DonationImportRowMatched, pl_MatchedUsrSeq = Some 7\<rparr>"

definition demo_imp_env :: imp_env where
  "demo_imp_env = \<lparr>ie_db = (demo_don_env ''2026-03-01T09:00:00Z'')\<lparr>dn_sha := (\<lambda>x. demo_encode (CHR ''k'' # x))\<rparr>, ie_now = 0, ie_key = ''secret'',
     ie_hmac = (\<lambda>k x. CHR ''h'' # k @ x), ie_b64 = demo_encode, ie_unb64 = demo_decode, ie_marshal = pl_DonorName, ie_unmarshal = (\<lambda>_. Some demo_payload),
     ie_refresher = True\<rparr>"

definition demo_rows :: "DonationImportCommitRow list" where
  "demo_rows = [\<lparr>xr_RowIndex = 3, xr_DonorName = ''Kim'', xr_DonorCohort = ''12'', xr_DonorDepartment = ''French'', xr_DonorPhone = ''010-1234-5678'',
     xr_Amount = 50000, cr_AccountUsrSeq = Some 7, cr_PreviewToken = signDonationImportPreviewPayload demo_imp_env demo_payload\<rparr>]"

lemma demo_commit: "is_ok (fst (import_Commit demo_imp_env demo_rows ''2026.02.28'' 3 ''10.0.0.1'' demo_ledger))"
  by code_simp

definition demo_imported :: ledger where
  "demo_imported = fst (snd (import_Commit demo_imp_env demo_rows ''2026.02.28'' 3 ''10.0.0.1'' demo_ledger))"

lemma demo_commit_run: "\<exists>results b. import_Commit demo_imp_env demo_rows ''2026.02.28'' 3 ''10.0.0.1'' demo_ledger = (Inr results, demo_imported, b)"
  using demo_commit by (cases "import_Commit demo_imp_env demo_rows ''2026.02.28'' 3 ''10.0.0.1'' demo_ledger") (auto simp: demo_imported_def is_ok_iff)


lemma import_is_once_witness:
  "\<exists>er. import_Commit demo_imp_env demo_rows ''2026-02-28'' 3 ''10.0.0.1'' demo_imported = (Inl er, demo_imported, False)"
proof -
  have "validateDonationImportDate ''2026-02-28'' = validateDonationImportDate ''2026.02.28''" by code_simp
  moreover have "is_ok (normalizeDonationImportCommitRow (hd demo_rows))" by code_simp
  then have "same_donation (hd demo_rows) (hd demo_rows)" by (auto simp: same_donation_def is_ok_iff)
  moreover have "hd demo_rows \<in> set demo_rows" by (simp add: demo_rows_def)
  moreover have "dn_sha (ie_db demo_imp_env) x \<noteq> [] \<and> go_TrimSpace (dn_sha (ie_db demo_imp_env) x) = dn_sha (ie_db demo_imp_env) x" for x
    by (simp add: demo_imp_env_def demo_encode_digits(2) demo_encode_plain)
  ultimately show ?thesis using import_is_once [OF _ _ subset_refl] demo_commit_run by metis
qed

end
