(* ===== verification/Preview_Commit.thy ===== *)
theory Preview_Commit
  imports Import_Props
begin

text \<open>
  From the preview of an import to its commit: the rows that a preview reads are the rows that a commit accepts, and
  the commit of a preview's rows goes through while nothing has changed.
\<close>

section \<open>The rows of a sheet\<close>

abbreviation row_key_of :: "(string \<Rightarrow> string) \<Rightarrow> string \<Rightarrow> ExcelDonationRow \<Rightarrow> string" where
  "row_key_of sha date r \<equiv> sha (order_identity (importedDonationOrderInput r date None))"

lemma read_row_clean:
  assumes "read_row sha date i w = Inr (row, key)" "canonical date_layout date" "0 < i"
  shows "clean_row row" "key = row_key_of sha date row"
proof -
  let ?d = "go_TrimSpace (cellAt w 3)" and ?p = "go_TrimSpace (cellAt w 4)"
  have row: "row = sheet_row i w"
    and errs: "validateExcelDonationFields i (xr_DonorName row) (xr_DonorCohort row) (xr_DonorDepartment row) ?p (cellAt w 5) = []"
    and key: "importedDonationCompositeKey sha row date = Inr key"
    using assms(1) by (auto simp: read_row_def Let_def split: if_splits sum.splits)
  have p: "donor_phone ?p" using errs by (auto simp: validateExcelDonationFields_def required_def split: if_splits)
  have s: "strip_hyphens (strip_hyphens ?p) = strip_hyphens ?p" by (rule strip_digits [OF donor_phone_strip(2) [OF p]])
  show "clean_row row" using errs donor_phone_strip(3) [OF p] s assms(3)
    by (auto simp: clean_row_def row sheet_row_def Let_def validateExcelDonationFields_def required_def split: if_splits option.splits)
  from row_key [OF this assms(2)] key show "key = row_key_of sha date row" by simp
qed

lemma read_row_errors: "read_row sha date i w \<noteq> Inl []"
  by (auto simp: read_row_def Let_def split: sum.splits)

lemma read_rows_clean:
  "read_rows sha formula date seen count index ws = Inr (rows, []) \<Longrightarrow> canonical date_layout date \<Longrightarrow> 0 \<le> index \<Longrightarrow> count \<le> donationImportMaxRows \<Longrightarrow>
     list_all clean_row rows \<and> distinct (map (row_key_of sha date) rows) \<and> set (map (row_key_of sha date) rows) \<inter> set seen = {}
     \<and> count + int (length rows) \<le> donationImportMaxRows"
proof (induction sha formula date seen count index ws arbitrary: rows rule: read_rows.induct)
  case (2 sha formula date seen count index w ws)
  show ?case
  proof (cases "isBlankExcelRow w")
    case True
    then show ?thesis using "2.IH"(1) "2.prems" by simp
  next
    case False
    with "2.prems" obtain row key rest where r: "read_row sha date (index + 1) w = Inr (row, key)" "key \<notin> set seen" "rows = row # rest"
      "read_rows sha formula date (key # seen) (count + 1) (index + 1) ws = Inr (rest, [])" "count + 1 \<le> donationImportMaxRows" "formula (index + 1) = Inr []"
      by (auto simp: map_sum_Inr read_row_errors split: if_splits sum.splits)
    have "0 < index + 1" using "2.prems"(3) by simp
    note c = read_row_clean [OF r(1) "2.prems"(2) this]
    have "list_all clean_row rest \<and> distinct (map (row_key_of sha date) rest) \<and> set (map (row_key_of sha date) rest) \<inter> set (key # seen) = {}
        \<and> count + 1 + int (length rest) \<le> donationImportMaxRows"
      by (rule "2.IH"(5) [of "[]" "(row, key)" row key]) (use False r "2.prems" in auto)
    then show ?thesis using c r(2,3) by auto
  qed
qed simp

lemma lookup_inputs_clean:
  "canonical date_layout date \<Longrightarrow> list_all clean_row rows \<Longrightarrow> donationImportLookupInputs sha date rows = Inr ks \<Longrightarrow>
     ks = map (\<lambda>r. (donor_key r, row_key_of sha date r)) rows"
  by (induction rows arbitrary: ks)
    (auto simp: lookup_input_def row_key donor_key_clean map_sum_Inr split: sum.splits)

lemma fold_preview: "pv_Rows (fold add_preview_row ps v) = pv_Rows v @ ps"
  by (induction ps arbitrary: v) (auto simp: add_preview_row_def incrementDonationImportCount_def)

section \<open>Lookups do not depend on the batch\<close>

lemma distinct_unique_from: "distinct (unique_from seen xs)"
  by (induction seen xs rule: unique_from.induct) (auto simp: set_unique_from)

lemma filter_eq_distinct: "distinct xs \<Longrightarrow> filter (\<lambda>x. x = k) xs = (if k \<in> set xs then [k] else [])"
  by (induction xs) auto

definition found :: "don_env \<Rightarrow> ledger \<Rightarrow> DonationImportMemberKey \<Rightarrow> MemberCandidate list" where
  "found env s k = map (\<lambda>m. \<lparr>mc_USRSeq = lm_seq m, mc_Name = lm_name m\<rparr>) (filter (member_matches env k) (sort_key lm_seq (lg_members s)))"

lemma candidates_found:
  assumes fixed: "\<And>k. k \<in> set ks \<Longrightarrow> NewDonationImportMemberKey (mk_Name k) (mk_Cohort k) (mk_Phone k) = k" and k: "k \<in> set ks"
  shows "findMemberCandidatesByKeys env ks s k = found env s k"
proof -
  let ?us = "uniqueDonationImportMemberKeys ks"
  have u: "set ?us = set ks" using fixed by (force simp: uniqueDonationImportMemberKeys_def set_unique_from)
  have one: "filter (\<lambda>q. q = k \<and> member_matches env q m) ?us = (if member_matches env k m then [k] else [])" for m
  proof -
    have f: "filter (\<lambda>q. q = k) ?us = [k]" using k u filter_eq_distinct [of ?us k] by (simp add: uniqueDonationImportMemberKeys_def distinct_unique_from)
    have "filter (\<lambda>q. q = k \<and> member_matches env q m) ?us = filter (\<lambda>q. member_matches env q m) (filter (\<lambda>q. q = k) ?us)"
      by (simp add: conj_commute)
    then show ?thesis by (simp only: f) simp
  qed
  have eq: "filter (\<lambda>q. member_matches env q m \<and> NewDonationImportMemberKey (mk_Name q) (mk_Cohort q) (mk_Phone q) = k) ?us
      = filter (\<lambda>q. q = k \<and> member_matches env q m) ?us" for m
    by (rule filter_cong) (use fixed u in auto)
  have "map snd (filter (\<lambda>(r, _). NewDonationImportMemberKey (mk_Name r) (mk_Cohort r) (mk_Phone r) = k)
      (concat (map (\<lambda>m. map (\<lambda>k. (k, \<lparr>mc_USRSeq = lm_seq m, mc_Name = lm_name m\<rparr>)) (filter (\<lambda>k. member_matches env k m) ?us)) ms)))
    = map (\<lambda>m. \<lparr>mc_USRSeq = lm_seq m, mc_Name = lm_name m\<rparr>) (filter (member_matches env k) ms)" for ms
  proof (induction ms)
    case (Cons m ms)
    have "filter (\<lambda>(r, _). NewDonationImportMemberKey (mk_Name r) (mk_Cohort r) (mk_Phone r) = k)
        (map (\<lambda>k. (k, \<lparr>mc_USRSeq = lm_seq m, mc_Name = lm_name m\<rparr>)) (filter (\<lambda>k. member_matches env k m) ?us))
      = map (\<lambda>k. (k, \<lparr>mc_USRSeq = lm_seq m, mc_Name = lm_name m\<rparr>)) (if member_matches env k m then [k] else [])"
      by (simp only: filter_map comp_def case_prod_conv filter_filter eq one)
    then show ?case using Cons.IH by (simp only: list.map concat.simps filter_append map_append) simp
  qed simp
  then show ?thesis by (simp add: findMemberCandidatesByKeys_def candidate_rows_def found_def)
qed

lemma clean_keys:
  assumes "\<And>r. r \<in> set rs \<Longrightarrow> clean_row r" "k \<in> set (map donor_key rs)"
  shows "NewDonationImportMemberKey (mk_Name k) (mk_Cohort k) (mk_Phone k) = k"
  using assms donor_key_clean by (force simp: donor_key_def)

section \<open>Tokens\<close>

definition payload_of :: "imp_env \<Rightarrow> DonationImportPreviewRow \<Rightarrow> donationImportPreviewTokenPayload" where
  "payload_of e row =
     \<lparr>pl_ExpiresAt = ie_now e + donationImportPreviewTokenTTL, pl_RowIndex = xr_RowIndex row, pl_DonorName = xr_DonorName row,
        pl_DonorCohort = xr_DonorCohort row, pl_DonorDepartment = xr_DonorDepartment row, pl_DonorPhone = xr_DonorPhone row,
        pl_Amount = xr_Amount row, pl_DonationDate = pr_DonationDate row, pl_Status = pr_Status row, pl_MatchedUsrSeq = pr_MatchedUsrSeq row\<rparr>"

text \<open>What the code relies on of base64, JSON and HMAC: base64 without padding has no dot and decodes to what was encoded,
  JSON gives back the row that was signed, a digest is not empty.\<close>

definition codecs :: "imp_env \<Rightarrow> DonationImportPreviewRow list \<Rightarrow> bool" where
  "codecs e ps \<longleftrightarrow> (\<forall>x. ie_unb64 e (ie_b64 e x) = Some x \<and> CHR ''.'' \<notin> set (ie_b64 e x) \<and> (x \<noteq> [] \<longrightarrow> ie_b64 e x \<noteq> []))
     \<and> (\<forall>p \<in> set ps. ie_marshal e (payload_of e p) \<noteq> [] \<and> ie_unmarshal e (ie_marshal e (payload_of e p)) = Some (payload_of e p))
     \<and> (\<forall>k x. ie_hmac e k x \<noteq> [])"

lemma token_accepted:
  assumes laws: "codecs e ps" "p \<in> set ps" and tok: "cr_PreviewToken r = signDonationImportPreviewPayload e (payload_of e p)"
    and row: "with_row r date (payload_of e p) = payload_of e p" and t: "t < ie_now e + donationImportPreviewTokenTTL"
  shows "verifyDonationImportPreviewToken (e\<lparr>ie_now := t\<rparr>) r date = Some (payload_of e p)"
proof -
  define enc where "enc = ie_b64 e (ie_marshal e (payload_of e p))"
  define sig where "sig = ie_b64 e (ie_hmac e (signing_key e) enc)"
  have c: "CHR ''.'' \<notin> set enc" "CHR ''.'' \<notin> set sig" "enc \<noteq> []" "sig \<noteq> []" "ie_unb64 e sig = Some (ie_hmac e (signing_key e) enc)"
    "Option.bind (ie_unb64 e enc) (ie_unmarshal e) = Some (payload_of e p)"
    using laws by (auto simp: codecs_def enc_def sig_def)
  have sg: "signDonationImportPreviewPayload e (payload_of e p) = enc @ CHR ''.'' # sig"
    by (simp add: signDonationImportPreviewPayload_def Let_def enc_def sig_def)
  have now: "signDonationImportPreviewPayload (e\<lparr>ie_now := t\<rparr>) q = signDonationImportPreviewPayload e q" "signing_key (e\<lparr>ie_now := t\<rparr>) = signing_key e" for q
    by (simp_all add: signDonationImportPreviewPayload_def signing_key_def)
  have "t < pl_ExpiresAt (payload_of e p)" using t by (simp add: payload_of_def)
  then show ?thesis using c
    by (simp add: verifyDonationImportPreviewToken_def tok sg go_Split_append_sep go_Split_single row now)
qed

section \<open>Commits that succeed\<close>

lemma normalize_row_ok:
  assumes "clean_row r" "\<And>u. cr_AccountUsrSeq r = Some u \<Longrightarrow> 0 < u"
  shows "normalizeDonationImportCommitRow r = Inr r"
proof -
  have "r\<lparr>xr_DonorName := xr_DonorName r, xr_DonorCohort := xr_DonorCohort r, xr_DonorDepartment := xr_DonorDepartment r, xr_DonorPhone := xr_DonorPhone r\<rparr> = r"
    by (cases r) simp
  then show ?thesis using assms clean_phone [OF assms(1)]
    by (auto simp: normalizeDonationImportCommitRow_def Let_def clean_row_def split: option.splits)
qed

lemma check_rows_ok:
  assumes "canonical date_layout date"
  shows "\<forall>p \<in> set ps. clean_row (h p) \<and> (\<forall>u. cr_AccountUsrSeq (h p) = Some u \<longrightarrow> 0 < u) \<and> verifyDonationImportPreviewToken e (h p) date = Some (f p) \<Longrightarrow>
     distinct (map (\<lambda>p. row_key_of (dn_sha (ie_db e)) date (ExcelDonationRow.truncate (h p))) ps) \<Longrightarrow>
     set (map (\<lambda>p. row_key_of (dn_sha (ie_db e)) date (ExcelDonationRow.truncate (h p))) ps) \<inter> set seen = {} \<Longrightarrow>
     check_rows e date seen (map h ps) = Inr (map (\<lambda>p. \<lparr>ck_row = h p, ck_payload = f p,
       ck_key = row_key_of (dn_sha (ie_db e)) date (ExcelDonationRow.truncate (h p)), ck_member = donor_key (h p)\<rparr>) ps)"
proof (induction ps arbitrary: seen)
  case (Cons p ps)
  let ?k = "row_key_of (dn_sha (ie_db e)) date (ExcelDonationRow.truncate (h p))"
  have r: "clean_row (h p)" "normalizeDonationImportCommitRow (h p) = Inr (h p)" using Cons.prems(1) normalize_row_ok [of "h p"] by auto
  have k: "importedDonationCompositeKey (dn_sha (ie_db e)) (ExcelDonationRow.truncate (h p)) date = Inr ?k"
    by (rule row_key [OF _ assms]) (simp add: r(1))
  have "check_rows e date (?k # seen) (map h ps) = Inr (map (\<lambda>p. \<lparr>ck_row = h p, ck_payload = f p,
       ck_key = row_key_of (dn_sha (ie_db e)) date (ExcelDonationRow.truncate (h p)), ck_member = donor_key (h p)\<rparr>) ps)"
    by (rule Cons.IH) (use Cons.prems in auto)
  then show ?case using r k Cons.prems donor_key_clean [OF r(1)] by simp
qed simp

lemma match_rows_ok:
  "\<forall>c \<in> set cs. \<not> existing (ck_key c) \<and> donationImportMatchStillValid (ck_payload c) (candidates (ck_member c)) (cr_AccountUsrSeq (ck_row c)) \<Longrightarrow>
     match_rows existing candidates cs = None"
  by (induction cs) (auto simp: Let_def)

lemma imported_fits:
  "clean_row r \<Longrightarrow> xr_Amount r \<le> int_max \<Longrightarrow> fits (new_ledger_order env (imported sha r date a) oper ip q)"
  by (simp add: fits_def new_ledger_order_def ledger_columns_def imported_def legacyDonationPayType_def)

lemma normalize_imports_ok:
  "canonical date_layout date \<Longrightarrow> \<forall>(r, a) \<in> set rows. clean_row r \<and> (\<forall>u. a = Some u \<longrightarrow> 0 < u) \<Longrightarrow>
     normalize_imports sha date rows = Inr (map (\<lambda>(r, a). imported sha r date a) rows)"
  by (induction sha date rows rule: normalize_imports.induct)
    (auto simp: normalize_imported validateDonationAccountInput_def split: option.splits)

lemma insert_orders_ok:
  assumes fits: "\<And>n q. n \<in> set ns \<Longrightarrow> dn_strict env \<Longrightarrow> fits (new_ledger_order env n oper ip q)" and plain: "\<And>n. n \<in> set ns \<Longrightarrow> di_TransactionNumber n = None"
  shows "distinct (map nd_CompositeKey ns) \<Longrightarrow> \<forall>r \<in> set (lg_orders s). \<forall>n \<in> set ns. lo_key r \<noteq> Some (nd_CompositeKey n) \<Longrightarrow>
     \<exists>s'. insert_orders env oper ip ns s = Inr ((), s')"
  using assms
proof (induction ns arbitrary: s)
  case (Cons n ns)
  let ?r = "new_ledger_order env n oper ip (lg_next s)"
  have k: "lo_key ?r = Some (nd_CompositeKey n)" "lo_txno ?r = None"
    using Cons.prems(4) [of n] by (simp_all add: new_ledger_order_def ledger_columns_def nullableCompositeKey_def)
  then have "\<not> list_ex (clashes ?r) (lg_orders s)" using Cons.prems(2) by (auto simp: list_ex_iff clashes_def)
  moreover have "\<exists>s'. insert_orders env oper ip ns (s\<lparr>lg_orders := lg_orders s @ [stored ?r], lg_next := lg_next s + 1\<rparr>) = Inr ((), s')"
    by (rule Cons.IH) (use Cons.prems k in \<open>auto simp: stored_def image_iff\<close>)
  ultimately show ?case using Cons.prems(3) [of n] by (auto simp: Let_def)
qed (simp add: tx_return_def)

lemma lock_accounts_ok:
  assumes "dn_flt env = (\<lambda>_. None)" "distinct (map lm_seq (lg_members s))"
    and "\<And>n a. n \<in> set ns \<Longrightarrow> di_AccountUsrSeq n = Some a \<Longrightarrow> \<exists>m \<in> set (lg_members s). lm_seq m = a \<and> linkable m"
  shows "lockActiveDonationAccounts env ns s = Inr ((), s)"
proof -
  let ?us = "batch_accounts ns" and ?hit = "filter (\<lambda>m. lm_seq m \<in> set (batch_accounts ns) \<and> linkable m) (lg_members s)"
  have "set (map lm_seq ?hit) = set ?us" using assms(3) by (force simp: batch_accounts_def List.map_filter_def)
  moreover have "distinct (map lm_seq ?hit)" using assms(2) distinct_map_filter by blast
  moreover have "distinct ?us" by (simp add: batch_accounts_def)
  ultimately have "length ?hit = length ?us" by (metis distinct_card length_map)
  then show ?thesis using assms(1)
    by (simp add: lockActiveDonationAccounts_def Let_def tx_return_def tx_bind_def query_def tx_guard_def sql_affected_def)
qed

lemma sequences_ok: "\<forall>n \<in> set ns. nd_CompositeKey n \<in> fst ` set rows \<Longrightarrow> \<exists>qs. sequences_of rows ns = Inr qs"
proof (induction ns)
  case (Cons n ns)
  have "map_of (rev rows) (nd_CompositeKey n) \<noteq> None" using Cons.prems by (simp add: map_of_eq_None_iff)
  then show ?case using Cons by auto
qed simp

lemma create_batch_succeeds:
  assumes flt: "dn_flt env = (\<lambda>_. None)" and members: "distinct (map lm_seq (lg_members s))"
    and accounts: "\<And>n a. n \<in> set ns \<Longrightarrow> di_AccountUsrSeq n = Some a \<Longrightarrow> \<exists>m \<in> set (lg_members s). lm_seq m = a \<and> linkable m"
    and fits: "\<And>n q. n \<in> set ns \<Longrightarrow> dn_strict env \<Longrightarrow> fits (new_ledger_order env n oper ip q)" and plain: "\<And>n. n \<in> set ns \<Longrightarrow> di_TransactionNumber n = None"
    and new: "distinct (map nd_CompositeKey ns)" "\<forall>r \<in> set (lg_orders s). \<forall>n \<in> set ns. lo_key r \<noteq> Some (nd_CompositeKey n)"
  shows "\<exists>qs s'. CreateDonationOrdersTx env ns oper ip s = Inr (qs, s') \<and> length qs = length ns \<and> length (lg_orders s') = length (lg_orders s) + length ns"
proof (cases "ns = []")
  case False
  obtain s' where i: "insert_orders env oper ip ns s = Inr ((), s')" using insert_orders_ok [OF fits plain new] by blast
  note rows = insert_orders_rows [OF i]
  have "nd_CompositeKey n \<in> fst ` set (keyed_orders (map nd_CompositeKey ns) s')" if n: "n \<in> set ns" for n
  proof -
    obtain j where j: "j < length ns" "n = ns ! j" using n by (auto simp: in_set_conv_nth)
    let ?r = "stored (new_ledger_order env n oper ip (lg_next s + int j))"
    have r: "?r \<in> set (lg_orders s')" using rows j nth_mem [of j "new_rows env oper ip (lg_next s) ns"] by (simp add: new_rows_nth)
    have "lo_key ?r = Some (nd_CompositeKey n)" using plain [OF n]
      by (simp add: stored_def new_ledger_order_def ledger_columns_def nullableCompositeKey_def)
    then have "(nd_CompositeKey n, lo_seq ?r) \<in> set (keyed_orders (map nd_CompositeKey ns) s')"
      using r n by (force simp: keyed_orders_def List.map_filter_def)
    then show ?thesis by force
  qed
  then obtain qs where q: "sequences_of (keyed_orders (map nd_CompositeKey ns) s') ns = Inr qs"
    using sequences_ok by blast
  have "CreateDonationOrdersTx env ns oper ip s = Inr (qs, s')"
    using False flt i q lock_accounts_ok [OF flt members accounts]
    by (simp add: CreateDonationOrdersTx_def tx_then_def tx_bind_def insert_statement_def findInsertedDonationOrderSequences_def query_def)
  then show ?thesis using sequences_ofD [OF q] rows by simp
qed (simp add: CreateDonationOrdersTx_def tx_return_def)

section \<open>The rows of a preview\<close>

text \<open>What the screen sends back for a row of the preview.\<close>

definition to_commit :: "DonationImportPreviewRow \<Rightarrow> DonationImportCommitRow" where
  "to_commit p =
     \<lparr>xr_RowIndex = xr_RowIndex p, xr_DonorName = xr_DonorName p, xr_DonorCohort = xr_DonorCohort p, xr_DonorDepartment = xr_DonorDepartment p,
      xr_DonorPhone = xr_DonorPhone p, xr_Amount = xr_Amount p, cr_AccountUsrSeq = pr_MatchedUsrSeq p, cr_PreviewToken = pr_PreviewToken p\<rparr>"

definition plain_row :: "DonationImportPreviewRow \<Rightarrow> ExcelDonationRow" where
  "plain_row p = ExcelDonationRow.truncate (to_commit p)"

lemma to_commit_fields [simp]:
  "xr_RowIndex (to_commit p) = xr_RowIndex p" "xr_DonorName (to_commit p) = xr_DonorName p" "xr_DonorCohort (to_commit p) = xr_DonorCohort p"
  "xr_DonorDepartment (to_commit p) = xr_DonorDepartment p" "xr_DonorPhone (to_commit p) = xr_DonorPhone p" "xr_Amount (to_commit p) = xr_Amount p"
  "cr_AccountUsrSeq (to_commit p) = pr_MatchedUsrSeq p" "cr_PreviewToken (to_commit p) = pr_PreviewToken p"
  by (simp_all add: to_commit_def)

lemma preview_row_facts:
  fixes row :: ExcelDonationRow and e date candidates existing k key
  defines "p \<equiv> preview_row e date candidates existing row (k, key)"
  shows "plain_row p = row" "pr_PreviewToken p = signDonationImportPreviewPayload e (payload_of e p)"
    "with_row (to_commit p) date (payload_of e p) = payload_of e p"
    "pr_Status p \<noteq> DonationImportRowDuplicate \<Longrightarrow> \<not> existing key \<and> donationImportMatchStillValid (payload_of e p) (candidates k) (pr_MatchedUsrSeq p)"
    "pr_MatchedUsrSeq p = Some u \<Longrightarrow> \<exists>c \<in> set (candidates k). mc_USRSeq c = u"
proof -
  show "plain_row p = row" by (cases row) (simp add: p_def preview_row_def Let_def plain_row_def to_commit_def ExcelDonationRow.truncate_def)
  show "pr_PreviewToken p = signDonationImportPreviewPayload e (payload_of e p)"
    by (simp add: p_def preview_row_def Let_def signDonationImportPreviewRow_def payload_of_def)
  show "with_row (to_commit p) date (payload_of e p) = payload_of e p"
    by (simp add: p_def preview_row_def Let_def with_row_def payload_of_def)
  show "pr_Status p \<noteq> DonationImportRowDuplicate \<Longrightarrow> \<not> existing key \<and> donationImportMatchStillValid (payload_of e p) (candidates k) (pr_MatchedUsrSeq p)"
    by (cases "candidates k" rule: remdups_adj.cases)
      (auto simp: p_def preview_row_def Let_def payload_of_def donationImportMatchStillValid_def DonationImportRowMatched_def
        DonationImportRowAmbiguous_def DonationImportRowUnmatched_def DonationImportRowDuplicate_def split: if_splits)
  show "pr_MatchedUsrSeq p = Some u \<Longrightarrow> \<exists>c \<in> set (candidates k). mc_USRSeq c = u"
    by (cases "candidates k" rule: remdups_adj.cases) (auto simp: p_def preview_row_def Let_def)
qed

text \<open>What a preview establishes of its rows.\<close>

definition previewed :: "imp_env \<Rightarrow> ledger \<Rightarrow> string \<Rightarrow> DonationImportPreviewRow \<Rightarrow> bool" where
  "previewed e s date p \<longleftrightarrow>
     clean_row p \<and> pr_PreviewToken p = signDonationImportPreviewPayload e (payload_of e p) \<and> with_row (to_commit p) date (payload_of e p) = payload_of e p
     \<and> (pr_Status p \<noteq> DonationImportRowDuplicate \<longrightarrow>
          (\<forall>r \<in> set (lg_orders s). lo_key r \<noteq> Some (row_key_of (dn_sha (ie_db e)) date (plain_row p)))
          \<and> donationImportMatchStillValid (payload_of e p) (found (ie_db e) s (donor_key p)) (pr_MatchedUsrSeq p))
     \<and> (\<forall>u. pr_MatchedUsrSeq p = Some u \<longrightarrow> (\<exists>m \<in> set (lg_members s). lm_seq m = u \<and> linkable m))"

lemma clean_plain: "clean_row (plain_row p) = clean_row p" "donor_key (plain_row p) = donor_key p"
  by (simp_all add: clean_row_def plain_row_def donor_key_def)

lemma map2_self: "map2 f xs (map g xs) = map (\<lambda>x. f x (g x)) xs"
  by (induction xs) auto

lemma ParsePreviewD:
  assumes pv: "ParsePreview e file d s = Inr pv" and digest: "\<And>x. dn_sha (ie_db e) x \<noteq> [] \<and> go_TrimSpace (dn_sha (ie_db e) x) = dn_sha (ie_db e) x"
  obtains date where "validateDonationImportDate d = Inr date" "list_all (previewed e s date) (pv_Rows pv)"
    "distinct (map (row_key_of (dn_sha (ie_db e)) date \<circ> plain_row) (pv_Rows pv))" "int (length (pv_Rows pv)) \<le> donationImportMaxRows"
proof -
  let ?sha = "dn_sha (ie_db e)"
  obtain date rows keys where date: "validateDonationImportDate d = Inr date" and rows: "parseExcelDonationRows ?sha file date = Inr (rows, [])"
    and keys: "donationImportLookupInputs ?sha date rows = Inr keys"
    and ps: "pv = fold add_preview_row (map2 (preview_row e date (findMemberCandidatesByKeys (ie_db e) (map fst keys) s) (findExistingDonationCompositeKeys (map snd keys) s)) rows keys) no_rows"
    using pv by (auto simp: ParsePreview_def Let_def split: sum.splits prod.splits if_splits option.splits)
  note can = validate_canonical [OF date]
  obtain formula ws where "read_rows ?sha formula date [] 0 2 ws = Inr (rows, [])"
    using rows by (auto simp: parseExcelDonationRows_def split: sum.splits if_splits)
  then have r: "list_all clean_row rows \<and> distinct (map (row_key_of ?sha date) rows) \<and> int (length rows) \<le> donationImportMaxRows"
    using read_rows_clean [OF _ can] by (fastforce simp: donationImportMaxRows_def)
  have k: "keys = map (\<lambda>r. (donor_key r, row_key_of ?sha date r)) rows" using lookup_inputs_clean [OF can _ keys] r by simp
  define C where "C = findMemberCandidatesByKeys (ie_db e) (map donor_key rows) s"
  define X where "X = findExistingDonationCompositeKeys (map (row_key_of ?sha date) rows) s"
  define P where "P r = preview_row e date C X r (donor_key r, row_key_of ?sha date r)" for r
  have pr: "pv_Rows pv = map P rows"
    by (simp add: ps fold_preview no_rows_def k map2_self comp_def C_def X_def P_def)
  have C: "C (donor_key r) = found (ie_db e) s (donor_key r)" if "r \<in> set rows" for r
    unfolding C_def by (rule candidates_found) (use clean_keys [of rows] r that in \<open>auto simp: list_all_iff\<close>)
  have X: "X (row_key_of ?sha date r) \<longleftrightarrow> (\<exists>o1 \<in> set (lg_orders s). lo_key o1 = Some (row_key_of ?sha date r))" if "r \<in> set rows" for r
    using that digest by (force simp: X_def findExistingDonationCompositeKeys_def list_ex_iff)
  have pl: "plain_row (P r) = r" for r by (simp add: P_def preview_row_facts(1))
  have "previewed e s date (P r)" if "r \<in> set rows" for r
  proof -
    have dk: "donor_key (P r) = donor_key r" "clean_row (P r)" using clean_plain [of "P r"] r that by (simp_all add: pl list_all_iff)
    have "\<exists>m \<in> set (lg_members s). lm_seq m = u \<and> linkable m" if "pr_MatchedUsrSeq (P r) = Some u" for u
      using preview_row_facts(5) [OF that [unfolded P_def]] C [OF \<open>r \<in> set rows\<close>] by (auto simp: found_def member_matches_def)
    then show ?thesis using preview_row_facts(2-4) [of e date C X r "donor_key r" "row_key_of ?sha date r", folded P_def] X [OF that] C [OF that] dk
      by (auto simp: previewed_def pl)
  qed
  then show ?thesis using that [OF date] r pr by (auto simp: list_all_iff comp_def pl)
qed

definition from_preview :: "imp_env \<Rightarrow> string \<Rightarrow> DonationImportPreviewRow \<Rightarrow> checked_row" where
  "from_preview e date p =
     \<lparr>ck_row = to_commit p, ck_payload = payload_of e p, ck_key = row_key_of (dn_sha (ie_db e)) date (plain_row p), ck_member = donor_key p\<rparr>"

definition orders_of :: "imp_env \<Rightarrow> string \<Rightarrow> DonationImportPreviewRow list \<Rightarrow> NormalizedDonationOrder list" where
  "orders_of e date = map (\<lambda>p. imported (dn_sha (ie_db e)) (plain_row p) date (pr_MatchedUsrSeq p))"

lemma previewedD:
  assumes "previewed e s date p" "\<forall>m \<in> set (lg_members s). 0 < lm_seq m"
  shows "clean_row (to_commit p)" "clean_row p" "pr_MatchedUsrSeq p = Some u \<Longrightarrow> (\<exists>m \<in> set (lg_members s). lm_seq m = u \<and> linkable m) \<and> 0 < u"
  using assms by (auto simp: previewed_def clean_row_def)

lemma preview_checks:
  assumes can: "canonical date_layout date" and p: "\<And>p. p \<in> set ps \<Longrightarrow> previewed e s date p" and members: "\<forall>m \<in> set (lg_members s). 0 < lm_seq m"
    and laws: "codecs e qs" "set ps \<subseteq> set qs" and t: "t < ie_now e + donationImportPreviewTokenTTL"
    and keys: "distinct (map (row_key_of (dn_sha (ie_db e)) date \<circ> plain_row) ps)"
  shows "check_rows (e\<lparr>ie_now := t\<rparr>) date [] (map to_commit ps) = Inr (map (from_preview e date) ps)"
proof -
  let ?e = "e\<lparr>ie_now := t\<rparr>"
  have v: "verifyDonationImportPreviewToken ?e (to_commit p) date = Some (payload_of e p)" if "p \<in> set ps" for p
    by (rule token_accepted [OF laws(1)]) (use p [OF that] t laws(2) that in \<open>auto simp: previewed_def\<close>)
  have "check_rows ?e date [] (map to_commit ps) = Inr (map (\<lambda>p. \<lparr>ck_row = to_commit p, ck_payload = payload_of e p,
     ck_key = row_key_of (dn_sha (ie_db ?e)) date (ExcelDonationRow.truncate (to_commit p)), ck_member = donor_key (to_commit p)\<rparr>) ps)"
    by (rule check_rows_ok [OF can]) (use v previewedD [OF p members] keys in \<open>auto simp: comp_def plain_row_def\<close>)
  moreover have "(\<lambda>p. \<lparr>ck_row = to_commit p, ck_payload = payload_of e p, ck_key = row_key_of (dn_sha (ie_db ?e)) date (ExcelDonationRow.truncate (to_commit p)),
      ck_member = donor_key (to_commit p)\<rparr>) = from_preview e date"
    by (simp add: fun_eq_iff from_preview_def plain_row_def donor_key_def)
  ultimately show ?thesis by simp
qed

lemma preview_matches:
  assumes p: "\<And>p. p \<in> set ps \<Longrightarrow> previewed e s date p" and chosen: "\<forall>p \<in> set ps. pr_Status p \<noteq> DonationImportRowDuplicate"
  defines "cs \<equiv> map (from_preview e date) ps"
  shows "match_rows (findExistingDonationCompositeKeys (map ck_key cs) s) (findMemberCandidatesByKeys (ie_db e) (map ck_member cs) s) cs = None"
proof (rule match_rows_ok, rule ballI)
  fix c assume "c \<in> set cs"
  then obtain p where pc: "p \<in> set ps" "c = from_preview e date p" by (auto simp: cs_def)
  have "findMemberCandidatesByKeys (ie_db e) (map ck_member cs) s (donor_key p) = found (ie_db e) s (donor_key p)"
  proof (rule candidates_found)
    show "donor_key p \<in> set (map ck_member cs)" using pc(1) by (auto simp: cs_def from_preview_def)
    show "NewDonationImportMemberKey (mk_Name k) (mk_Cohort k) (mk_Phone k) = k" if "k \<in> set (map ck_member cs)" for k
      using that p donor_key_clean by (force simp: cs_def from_preview_def previewed_def donor_key_def)
  qed
  then show "\<not> findExistingDonationCompositeKeys (map ck_key cs) s (ck_key c)
      \<and> donationImportMatchStillValid (ck_payload c) (findMemberCandidatesByKeys (ie_db e) (map ck_member cs) s (ck_member c)) (cr_AccountUsrSeq (ck_row c))"
    using p [OF pc(1)] chosen pc by (auto simp: from_preview_def previewed_def findExistingDonationCompositeKeys_def list_ex_iff)
qed

lemma preview_orders:
  assumes can: "canonical date_layout date" and p: "\<And>p. p \<in> set ps \<Longrightarrow> previewed e s date p" and members: "\<forall>m \<in> set (lg_members s). 0 < lm_seq m"
  shows "normalize_imports (dn_sha (ie_db e)) date (imported_orders (map (from_preview e date) ps)) = Inr (orders_of e date ps)"
proof -
  let ?rows = "map (\<lambda>p. (plain_row p, pr_MatchedUsrSeq p)) ps"
  have "imported_orders (map (from_preview e date) ps) = ?rows" by (simp add: imported_orders_def from_preview_def plain_row_def)
  moreover have "normalize_imports (dn_sha (ie_db e)) date ?rows = Inr (map (\<lambda>(r, a). imported (dn_sha (ie_db e)) r date a) ?rows)"
    by (rule normalize_imports_ok [OF can]) (use previewedD [OF p members] in \<open>auto simp: clean_plain\<close>)
  ultimately show ?thesis by (simp add: orders_of_def comp_def)
qed

lemma preview_created:
  assumes p: "\<And>p. p \<in> set ps \<Longrightarrow> previewed e s date p" and members: "distinct (map lm_seq (lg_members s))" "\<forall>m \<in> set (lg_members s). 0 < lm_seq m"
    and chosen: "\<forall>p \<in> set ps. pr_Status p \<noteq> DonationImportRowDuplicate" and flt: "dn_flt (ie_db e) = (\<lambda>_. None)"
    and strict: "dn_strict (ie_db e) \<Longrightarrow> \<forall>p \<in> set ps. xr_Amount p \<le> int_max"
    and keys: "distinct (map (row_key_of (dn_sha (ie_db e)) date \<circ> plain_row) ps)"
  shows "\<exists>qs s'. CreateDonationOrdersTx (ie_db e) (orders_of e date ps) admin ip s = Inr (qs, s') \<and> length qs = length ps
     \<and> length (lg_orders s') = length (lg_orders s) + length ps"
proof -
  let ?ns = "orders_of e date ps"
  have "\<exists>qs s'. CreateDonationOrdersTx (ie_db e) ?ns admin ip s = Inr (qs, s') \<and> length qs = length ?ns \<and> length (lg_orders s') = length (lg_orders s) + length ?ns"
  proof (rule create_batch_succeeds [OF flt members(1)])
    show "\<exists>m \<in> set (lg_members s). lm_seq m = a \<and> linkable m" if "n \<in> set ?ns" "di_AccountUsrSeq n = Some a" for n a
      using that previewedD(3) [OF p members(2)] by (auto simp: orders_of_def)
    show "fits (new_ledger_order (ie_db e) n admin ip q)" if "n \<in> set ?ns" "dn_strict (ie_db e)" for n q
      using that strict previewedD(1) [OF p members(2)] by (auto simp: orders_of_def plain_row_def intro!: imported_fits)
    show "di_TransactionNumber n = None" if "n \<in> set ?ns" for n using that by (auto simp: orders_of_def imported_def)
    show "distinct (map nd_CompositeKey ?ns)" using keys by (simp add: orders_of_def comp_def)
    show "\<forall>r \<in> set (lg_orders s). \<forall>n \<in> set ?ns. lo_key r \<noteq> Some (nd_CompositeKey n)" using p chosen by (auto simp: orders_of_def previewed_def)
  qed
  then show ?thesis by (simp add: orders_of_def)
qed

text \<open>C29. The rows of a preview can be committed: within the hour the tokens last, on a ledger that has not changed and with a
  database that works, committing any rows that the preview did not mark as duplicates, with the accounts it matched,
  succeeds and adds one order for each. This rests on the codecs giving back what they were given, on a digest that is
  a plain text, and, where the server is strict, on amounts that fit the legacy columns.\<close>

theorem preview_then_commit:
  assumes pv: "ParsePreview e file d s = Inr pv" and t: "t < ie_now e + donationImportPreviewTokenTTL"
    and chosen: "ps \<noteq> []" "distinct ps" "set ps \<subseteq> set (pv_Rows pv)" "\<forall>p \<in> set ps. pr_Status p \<noteq> DonationImportRowDuplicate"
    and laws: "codecs e (pv_Rows pv)" and digest: "\<And>x. dn_sha (ie_db e) x \<noteq> [] \<and> go_TrimSpace (dn_sha (ie_db e) x) = dn_sha (ie_db e) x"
    and flt: "dn_flt (ie_db e) = (\<lambda>_. None)" and strict: "dn_strict (ie_db e) \<Longrightarrow> \<forall>p \<in> set ps. xr_Amount p \<le> int_max"
    and members: "distinct (map lm_seq (lg_members s))" "\<forall>m \<in> set (lg_members s). 0 < lm_seq m"
  shows "\<exists>results s'. import_Commit (e\<lparr>ie_now := t\<rparr>) (map to_commit ps) d admin ip s = (Inr results, s', ie_refresher e)
     \<and> length (lg_orders s') = length (lg_orders s) + length ps"
proof -
  let ?sha = "dn_sha (ie_db e)" and ?e = "e\<lparr>ie_now := t\<rparr>" and ?rows = "map to_commit ps"
  obtain date where date: "validateDonationImportDate d = Inr date" and all: "list_all (previewed e s date) (pv_Rows pv)"
    and dist: "distinct (map (row_key_of ?sha date \<circ> plain_row) (pv_Rows pv))" and len: "int (length (pv_Rows pv)) \<le> donationImportMaxRows"
    using ParsePreviewD [OF pv digest] by blast
  note can = validate_canonical [OF date]
  have p: "previewed e s date p" if "p \<in> set ps" for p using all chosen(3) that by (auto simp: list_all_iff)
  have rows: "distinct (pv_Rows pv)" "inj_on (row_key_of ?sha date \<circ> plain_row) (set (pv_Rows pv))" using dist by (simp_all add: distinct_map)
  have keys: "distinct (map (row_key_of ?sha date \<circ> plain_row) ps)"
    using chosen(2) inj_on_subset [OF rows(2) chosen(3)] by (simp add: distinct_map)
  have "length ps \<le> length (pv_Rows pv)"
    using card_mono [OF _ chosen(3)] chosen(2) rows(1) by (simp add: distinct_card)
  then have len': "int (length ?rows) \<le> donationImportMaxRows" using len by simp
  define cs where "cs = map (from_preview e date) ps"
  note check = preview_checks [OF can p members(2) laws chosen(3) t keys, folded cs_def]
  note match = preview_matches [OF p chosen(4), folded cs_def]
  note normal = preview_orders [OF can p members(2), folded cs_def]
  obtain qs s' where create: "CreateDonationOrdersTx (ie_db e) (orders_of e date ps) admin ip s = Inr (qs, s')" "length qs = length ps"
    "length (lg_orders s') = length (lg_orders s) + length ps"
    using preview_created [OF p members chosen(4) flt strict keys] by blast
  define results where "results = map2 (\<lambda>c q. \<lparr>rr_RowIndex = xr_RowIndex (ck_row c), rr_Success = True, rr_OrderSeq = q\<rparr>) cs qs"
  have "commit_tx (ie_db e) date cs admin ip s = Inr (results, s')"
    using match normal create(1,2) flt
    by (simp add: commit_tx_def tx_bind_def tx_error_def query_def CreateImportedOrdersTx_def tx_then_def tx_guard_def tx_return_def results_def)
       (simp add: cs_def tx_bind_def tx_return_def)
  then have "import_Commit ?e ?rows d admin ip s = (Inr results, s', ie_refresher e)"
    using date check chosen(1) len' flt by (simp add: import_Commit_def Let_def transact_def)
  then show ?thesis using create(3) by simp
qed

section \<open>Concrete runs\<close>

text \<open>A sheet with one donation of a member.\<close>

definition demo_sheet :: "(string, workbook) result" where
  "demo_sheet = Inr \<lparr>wb_sheets = [''Sheet1''],
     wb_rows = Inr [[], [] # map (\<lambda>k. hd (snd k)) header_keywords, [''1'', ''Kim'', ''12'', ''French'', ''010-1234-5678'', ''50,000'']],
     wb_formula = (\<lambda>_. Inr [])\<rparr>"

definition demo_preview :: DonationImportPreviewResult where
  "demo_preview = (case ParsePreview demo_imp_env demo_sheet ''2026.02.28'' demo_ledger of Inr pv \<Rightarrow> pv | Inl _ \<Rightarrow> no_rows)"

lemma demo_preview_ok: "is_ok (ParsePreview demo_imp_env demo_sheet ''2026.02.28'' demo_ledger)"
  by code_simp

lemma demo_preview_rows: "map (payload_of demo_imp_env) (pv_Rows demo_preview) = [demo_payload]"
  by code_simp

lemma demo_codecs: "codecs demo_imp_env (pv_Rows demo_preview)"
proof -
  have "payload_of demo_imp_env p = demo_payload" if "p \<in> set (pv_Rows demo_preview)" for p
    using that demo_preview_rows by (cases "pv_Rows demo_preview") auto
  moreover have "CHR ''.'' \<notin> set (demo_encode x)" for x using demo_encode_digits(1) [of x] by auto
  moreover have "ie_b64 demo_imp_env = demo_encode" "ie_unb64 demo_imp_env = demo_decode" "ie_marshal demo_imp_env demo_payload = ''Kim''"
    "ie_unmarshal demo_imp_env m = Some demo_payload" "ie_hmac demo_imp_env k m \<noteq> []" for k m
    by (simp_all add: demo_imp_env_def demo_payload_def)
  ultimately show ?thesis by (simp add: codecs_def demo_decode_encode demo_encode_digits(2))
qed

lemma demo_digest: "dn_sha (ie_db demo_imp_env) x \<noteq> [] \<and> go_TrimSpace (dn_sha (ie_db demo_imp_env) x) = dn_sha (ie_db demo_imp_env) x"
  by (simp add: demo_imp_env_def demo_encode_digits(2) demo_encode_plain)

lemma preview_then_commit_witness:
  "\<exists>results s'. import_Commit (demo_imp_env\<lparr>ie_now := 3599\<rparr>) (map to_commit (pv_Rows demo_preview)) ''2026.02.28'' 3 ''10.0.0.1'' demo_ledger = (Inr results, s', True)
     \<and> length (lg_orders s') = 1"
proof -
  have pv: "ParsePreview demo_imp_env demo_sheet ''2026.02.28'' demo_ledger = Inr demo_preview"
    using demo_preview_ok by (auto simp: demo_preview_def is_ok_iff)
  have one: "length (pv_Rows demo_preview) = 1" "distinct (pv_Rows demo_preview)"
    using arg_cong [OF demo_preview_rows, of length] by (auto simp: length_Suc_conv)
  have st: "\<forall>p \<in> set (pv_Rows demo_preview). pr_Status p \<noteq> DonationImportRowDuplicate"
  proof
    fix p assume "p \<in> set (pv_Rows demo_preview)"
    then have "pl_Status (payload_of demo_imp_env p) = pl_Status demo_payload"
      using demo_preview_rows by (cases "pv_Rows demo_preview") auto
    then show "pr_Status p \<noteq> DonationImportRowDuplicate"
      by (simp add: payload_of_def demo_payload_def DonationImportRowMatched_def DonationImportRowDuplicate_def)
  qed
  have ne: "pv_Rows demo_preview \<noteq> []" using one by auto
  have "3599 < ie_now demo_imp_env + donationImportPreviewTokenTTL" "dn_flt (ie_db demo_imp_env) = (\<lambda>_. None)" "\<not> dn_strict (ie_db demo_imp_env)"
    by (simp_all add: demo_imp_env_def demo_don_env_def donationImportPreviewTokenTTL_def)
  moreover have "distinct (map lm_seq (lg_members demo_ledger))" "\<forall>m \<in> set (lg_members demo_ledger). 0 < lm_seq m" "lg_orders demo_ledger = []"
    by (simp_all add: demo_ledger_def)
  ultimately show ?thesis
    using preview_then_commit [OF pv _ ne one(2) subset_refl st demo_codecs demo_digest, of 3599 3 "''10.0.0.1''"] one(1)
    by (simp add: demo_imp_env_def)
qed

end
