(* ===== verification/Push_Store.thy ===== *)
theory Push_Store
  imports Auth_Session Tx_Monad
begin

text \<open>
  Devices that receive pushes, push preferences and the rows that a push is checked against
  (\<^verbatim>\<open>repository/push_repo.go\<close>, \<^verbatim>\<open>push_session_scope.go\<close>, \<^verbatim>\<open>push_erasure_guard.go\<close>,
  \<^verbatim>\<open>push_notice_broadcast.go\<close>), and the checks of the service in front (\<^verbatim>\<open>service/push_service.go\<close>). The refresh
  tokens are the table of \<^verbatim>\<open>Auth_Session\<close>.
\<close>

section \<open>Tables\<close>

record PushDeviceRegistration =
  rg_SessionID :: string
  rg_Platform :: string
  rg_DeviceToken :: string
  rg_Locale :: string
  rg_APNSEnvironment :: "string option"
  rg_BundleID :: "string option"

record push_device =
  dv_seq :: int
  dv_usr :: int
  dv_platform :: string
  dv_token :: string
  dv_env :: "string option"
  dv_bundle :: "string option"
  dv_locale :: string
  dv_sid :: "string option"
  dv_status :: string
  dv_invalid :: int
  dv_seen :: int
  dv_created :: int
  dv_updated :: int

record push_preference =
  pf_usr :: int
  pf_message :: string
  pf_preview :: string
  pf_notice :: string
  pf_created :: int
  pf_updated :: int

text \<open>Of messages, members, notices and verifications only the columns that the guards read.\<close>

record push_message =
  pm_seq :: int
  pm_sender :: int
  pm_recvr :: int

record push_notice =
  pn_seq :: int
  pn_gate :: string
  pn_open :: string

record push_db =
  pu_devices :: "push_device list"
  pu_next :: int
  pu_prefs :: "push_preference list"
  pu_tokens :: "mrt_row list"
  pu_messages :: "push_message list"
  pu_members :: "(int \<times> string option) list"
  pu_notices :: "push_notice list"
  pu_reviews :: "(int \<times> string) list"

datatype push_error = ErrInvalidPushRequest | PushSessionEnded | PushDatabase string

text \<open>\<^verbatim>\<open>NOW()\<close> and \<^verbatim>\<open>UTC_TIMESTAMP()\<close> are two readings of the clock; \<open>pe_order\<close> sorts texts under the collation of the
  column.\<close>

record push_env =
  pe_now :: int
  pe_utc :: int
  pe_order :: "string list \<Rightarrow> string list"
  pe_flt :: "string \<Rightarrow> push_error option"

record PushPreferences =
  MessageEnabled :: bool
  MessagePreviewEnabled :: bool
  NoticeEnabled :: bool

record PushPreferencesUpdate =
  up_MessageEnabled :: bool
  up_MessagePreviewEnabled :: bool
  up_NoticeEnabled :: "bool option"

record PushDeliveryTarget =
  tg_SessionID :: string
  tg_Platform :: string
  tg_DeviceToken :: string
  tg_APNSEnvironment :: string
  tg_BundleID :: string

section \<open>Registration\<close>

text \<open>The refresh token that proves a session, \<open>live_proof\<close>, as every query here spells it.\<close>

definition live_proof :: "int \<Rightarrow> int \<Rightarrow> string \<Rightarrow> mrt_row \<Rightarrow> bool" where
  "live_proof now account sid r = (in_session account sid r \<and> mrt_consumed r = None \<and> mrt_revoked r = None \<and> mrt_expires r > now)"

definition live_session :: "int \<Rightarrow> int \<Rightarrow> string \<Rightarrow> push_db \<Rightarrow> bool" where
  "live_session now account sid s = list_ex (live_proof now account sid) (pu_tokens s)"

text \<open>\<open>ON DUPLICATE KEY UPDATE\<close>: a request without a session leaves a registration that has one.\<close>

definition reregistered :: "int \<Rightarrow> int \<Rightarrow> PushDeviceRegistration \<Rightarrow> string option \<Rightarrow> push_device \<Rightarrow> push_device" where
  "reregistered now account r sid d =
     (let d' = (if sid \<noteq> None \<or> dv_sid d = None
                then d\<lparr>dv_usr := account, dv_platform := rg_Platform r, dv_locale := rg_Locale r, dv_env := rg_APNSEnvironment r, dv_bundle := rg_BundleID r,
                       dv_status := ''ACTIVE'', dv_invalid := 0, dv_seen := now, dv_updated := now\<rparr>
                else d)
      in d'\<lparr>dv_sid := (case sid of Some x \<Rightarrow> Some x | None \<Rightarrow> dv_sid d)\<rparr>)"

definition new_device :: "int \<Rightarrow> int \<Rightarrow> PushDeviceRegistration \<Rightarrow> string option \<Rightarrow> int \<Rightarrow> push_device" where
  "new_device now account r sid q =
     \<lparr>dv_seq = q, dv_usr = account, dv_platform = rg_Platform r, dv_token = rg_DeviceToken r, dv_env = rg_APNSEnvironment r, dv_bundle = rg_BundleID r,
      dv_locale = rg_Locale r, dv_sid = sid, dv_status = ''ACTIVE'', dv_invalid = 0, dv_seen = now, dv_created = now, dv_updated = now\<rparr>"

definition pushRegistrationSQL :: "int \<Rightarrow> int \<Rightarrow> PushDeviceRegistration \<Rightarrow> string option \<Rightarrow> push_db \<Rightarrow> push_db" where
  "pushRegistrationSQL now account r sid s =
     (if list_ex (\<lambda>d. dv_token d = rg_DeviceToken r) (pu_devices s)
      then s\<lparr>pu_devices := sql_update (\<lambda>d. dv_token d = rg_DeviceToken r) (reregistered now account r sid) (pu_devices s)\<rparr>
      else s\<lparr>pu_devices := pu_devices s @ [new_device now account r sid (pu_next s)], pu_next := pu_next s + 1\<rparr>)"

text \<open>The registration of a session's device. Another transaction may commit between the unlocked and the locking
  read: \<open>between\<close> is what it does. Nothing else changes the locked token before the commit.\<close>

definition registerSessionDevice :: "push_env \<Rightarrow> (push_db \<Rightarrow> push_db) \<Rightarrow> int \<Rightarrow> PushDeviceRegistration \<Rightarrow> push_db \<Rightarrow> (push_error, unit) result \<times> push_db" where
  "registerSessionDevice env between account r s =
     (case pe_flt env ''begin'' of Some e \<Rightarrow> (Inl e, s) | None \<Rightarrow>
     (case pe_flt env ''proof'' of Some e \<Rightarrow> (Inl e, s) | None \<Rightarrow>
     (case pe_order env (map mrt_jti (filter (live_proof (pe_now env) account (rg_SessionID r)) (pu_tokens s))) of
        [] \<Rightarrow> (Inl PushSessionEnded, s)
      | jti # _ \<Rightarrow>
     (let s = between s in
      case pe_flt env ''lock'' of Some e \<Rightarrow> (Inl e, s) | None \<Rightarrow>
     (if sql_affected (\<lambda>t. mrt_jti t = jti \<and> live_proof (pe_now env) account (rg_SessionID r) t) (pu_tokens s) \<noteq> 1 then (Inl PushSessionEnded, s)
      else case pe_flt env ''register'' of Some e \<Rightarrow> (Inl e, s) | None \<Rightarrow>
     (case pe_flt env ''commit'' of Some e \<Rightarrow> (Inl e, s) | None \<Rightarrow>
        (Inr (), pushRegistrationSQL (pe_utc env) account r (Some (rg_SessionID r)) s)))))))"

definition repo_RegisterDevice :: "push_env \<Rightarrow> (push_db \<Rightarrow> push_db) \<Rightarrow> int \<Rightarrow> PushDeviceRegistration \<Rightarrow> push_db \<Rightarrow> (push_error, unit) result \<times> push_db" where
  "repo_RegisterDevice env between account r s =
     (if rg_SessionID r \<noteq> [] then registerSessionDevice env between account r s
      else direct (exec (pe_flt env ''register'') (pushRegistrationSQL (pe_utc env) account r None)) s)"

definition repo_UnregisterDevice :: "push_env \<Rightarrow> int \<Rightarrow> string \<Rightarrow> push_db \<Rightarrow> (push_error, unit) result \<times> push_db" where
  "repo_UnregisterDevice env usrSeq token =
     direct (exec (pe_flt env ''unregister'') (\<lambda>s. s\<lparr>pu_devices := sql_delete (\<lambda>d. dv_usr d = usrSeq \<and> dv_token d = token \<and> dv_sid d = None) (pu_devices s)\<rparr>))"

definition repo_UnregisterDeviceForSession :: "push_env \<Rightarrow> int \<Rightarrow> string \<Rightarrow> string \<Rightarrow> push_db \<Rightarrow> (push_error, unit) result \<times> push_db" where
  "repo_UnregisterDeviceForSession env account sid token =
     direct (exec (pe_flt env ''unregister'') (\<lambda>s. s\<lparr>pu_devices :=
       sql_delete (\<lambda>d. dv_usr d = account \<and> dv_token d = token \<and> (dv_sid d = Some sid \<or> dv_sid d = None)) (pu_devices s)\<rparr>))"

section \<open>Preferences\<close>

definition pushFlag :: "bool \<Rightarrow> string" where
  "pushFlag b = (if b then ''Y'' else ''N'')"

definition optionalPushFlag :: "bool option \<Rightarrow> string option" where
  "optionalPushFlag b = map_option pushFlag b"

definition repo_GetPreferences :: "int \<Rightarrow> push_db \<Rightarrow> PushPreferences option" where
  "repo_GetPreferences usrSeq s =
     map_option (\<lambda>p. \<lparr>MessageEnabled = (pf_message p = ''Y''), MessagePreviewEnabled = (pf_preview p = ''Y''), NoticeEnabled = (pf_notice p = ''Y'')\<rparr>)
       (sql_get (\<lambda>p. pf_usr p = usrSeq) (pu_prefs s))"

definition or_else :: "'a option \<Rightarrow> 'a \<Rightarrow> 'a" where
  "or_else x a = (case x of None \<Rightarrow> a | Some y \<Rightarrow> y)"

definition upsert_preferences :: "int \<Rightarrow> int \<Rightarrow> PushPreferencesUpdate \<Rightarrow> push_db \<Rightarrow> push_db" where
  "upsert_preferences now usrSeq u s =
     (let m = pushFlag (up_MessageEnabled u); v = pushFlag (up_MessagePreviewEnabled u); n = optionalPushFlag (up_NoticeEnabled u) in
      if list_ex (\<lambda>p. pf_usr p = usrSeq) (pu_prefs s)
      then s\<lparr>pu_prefs := sql_update (\<lambda>p. pf_usr p = usrSeq)
             (\<lambda>p. p\<lparr>pf_message := m, pf_preview := v, pf_notice := or_else n (pf_notice p), pf_updated := now\<rparr>) (pu_prefs s)\<rparr>
      else s\<lparr>pu_prefs := pu_prefs s @ [\<lparr>pf_usr = usrSeq, pf_message = m, pf_preview = v, pf_notice = or_else n ''Y'', pf_created = now, pf_updated = now\<rparr>]\<rparr>)"

definition repo_UpsertPreferences :: "push_env \<Rightarrow> int \<Rightarrow> PushPreferencesUpdate \<Rightarrow> push_db \<Rightarrow> (push_error, unit) result \<times> push_db" where
  "repo_UpsertPreferences env usrSeq u = direct (exec (pe_flt env ''preferences'') (upsert_preferences (pe_utc env) usrSeq u))"

section \<open>What a delivery reads and removes\<close>

definition null_text :: "string option \<Rightarrow> string" where
  "null_text x = or_else x []"

definition delivery_target :: "push_device \<Rightarrow> PushDeliveryTarget" where
  "delivery_target d = \<lparr>tg_SessionID = null_text (dv_sid d), tg_Platform = dv_platform d, tg_DeviceToken = dv_token d,
     tg_APNSEnvironment = null_text (dv_env d), tg_BundleID = null_text (dv_bundle d)\<rparr>"

definition deliverable_device :: "int \<Rightarrow> push_db \<Rightarrow> push_device \<Rightarrow> bool" where
  "deliverable_device now s d = (dv_status d = ''ACTIVE'' \<and> (case dv_sid d of None \<Rightarrow> False | Some sid \<Rightarrow> live_session now (dv_usr d) sid s))"

definition ListDevices :: "int \<Rightarrow> int \<Rightarrow> push_db \<Rightarrow> PushDeliveryTarget list" where
  "ListDevices usrSeq now s = map delivery_target (sort_key dv_seq (filter (\<lambda>d. dv_usr d = usrSeq \<and> deliverable_device now s d) (pu_devices s)))"

definition at_target :: "int \<Rightarrow> PushDeliveryTarget \<Rightarrow> push_device \<Rightarrow> bool" where
  "at_target account t d = (dv_usr d = account \<and> dv_platform d = tg_Platform t \<and> dv_token d = tg_DeviceToken t \<and> dv_sid d = Some (tg_SessionID t))"

definition DeliveryTargetStillCurrent :: "int \<Rightarrow> PushDeliveryTarget \<Rightarrow> int \<Rightarrow> push_db \<Rightarrow> bool" where
  "DeliveryTargetStillCurrent account t now s =
     (tg_SessionID t \<noteq> [] \<and> sql_affected (\<lambda>d. at_target account t d \<and> deliverable_device now s d) (pu_devices s) = 1)"

definition DeleteDeliveryTarget :: "int \<Rightarrow> PushDeliveryTarget \<Rightarrow> push_db \<Rightarrow> push_db" where
  "DeleteDeliveryTarget account t s =
     (if tg_SessionID t = [] then s else s\<lparr>pu_devices := sql_delete (at_target account t) (pu_devices s)\<rparr>)"

definition repo_DeleteDevice :: "string \<Rightarrow> string \<Rightarrow> push_db \<Rightarrow> push_db" where
  "repo_DeleteDevice platform token s = s\<lparr>pu_devices := sql_delete (\<lambda>d. dv_platform d = platform \<and> dv_token d = token) (pu_devices s)\<rparr>"

definition present_members :: "int \<Rightarrow> push_db \<Rightarrow> nat" where
  "present_members u s = length (filter (\<lambda>(q, st). q = u \<and> st \<noteq> None \<and> st \<noteq> Some ''AAA'') (pu_members s))"

text \<open>The joins multiply the rows.\<close>

definition MessageStillAvailable :: "int \<Rightarrow> int \<Rightarrow> int \<Rightarrow> push_db \<Rightarrow> bool" where
  "MessageStillAvailable sender recipient messageID s =
     (sql_affected (\<lambda>m. pm_seq m = messageID \<and> pm_sender m = sender \<and> pm_recvr m = recipient) (pu_messages s)
        * present_members sender s * present_members recipient s = 1)"

definition NoticeStillPublished :: "int \<Rightarrow> push_db \<Rightarrow> bool" where
  "NoticeStillPublished q s = (sql_affected (\<lambda>n. pn_seq n = q \<and> pn_gate n = ''NOTICE'' \<and> pn_open n = ''Y'') (pu_notices s) > 0)"

definition VerificationStillCurrent :: "int \<Rightarrow> string \<Rightarrow> push_db \<Rightarrow> bool" where
  "VerificationStillCurrent u status s = (sql_affected (\<lambda>v. v = (u, status)) (pu_reviews s) * present_members u s > 0)"

definition notice_member :: "int \<Rightarrow> push_db \<Rightarrow> int \<Rightarrow> bool" where
  "notice_member now s u =
     (list_ex (\<lambda>d. dv_usr d = u \<and> deliverable_device now s d) (pu_devices s)
      \<and> (case sql_get (\<lambda>p. pf_usr p = u) (pu_prefs s) of None \<Rightarrow> True | Some p \<Rightarrow> pf_notice p = ''Y''))"

definition ListNoticeRecipientSeqs :: "int \<Rightarrow> int \<Rightarrow> int \<Rightarrow> push_db \<Rightarrow> int list" where
  "ListNoticeRecipientSeqs afterUserSeq limit now s =
     (if limit \<le> 0 then []
      else take (nat limit) (sort (remdups (filter (\<lambda>u. notice_member now s u \<and> u > afterUserSeq) (map dv_usr (pu_devices s))))))"

section \<open>The service\<close>

definition mobileSessionIdentifierHexLength :: nat where "mobileSessionIdentifierHexLength = 32"

definition originalMobileIdentifier :: "string \<Rightarrow> bool" where
  "originalMobileIdentifier value =
     (length value = mobileSessionIdentifierHexLength
      \<and> list_all (\<lambda>c. is_digit c \<or> (let n = (of_char c :: int) in 97 \<le> n \<and> n \<le> 102)) value)"

definition pushDeviceTokenMaxBytes :: nat where "pushDeviceTokenMaxBytes = 512"
definition pushLocaleMaxLength :: nat where "pushLocaleMaxLength = 16"
definition pushBundleIDMaxRunes :: int where "pushBundleIDMaxRunes = 255"

definition validPushDeviceToken :: "string \<Rightarrow> bool" where
  "validPushDeviceToken token =
     (token \<noteq> [] \<and> length token \<le> pushDeviceTokenMaxBytes \<and> list_all (\<lambda>c. let n = (of_char c :: int) in 33 \<le> n \<and> n \<le> 126) token)"

text \<open>A rune outside ASCII consists of bytes outside ASCII, so the loops over runes are loops over bytes.\<close>

definition validPushLocale :: "string \<Rightarrow> bool" where
  "validPushLocale locale =
     (locale \<noteq> [] \<and> length locale \<le> pushLocaleMaxLength
      \<and> list_all (\<lambda>c. let n = (of_char c :: int) in (97 \<le> n \<and> n \<le> 122) \<or> (65 \<le> n \<and> n \<le> 90) \<or> is_digit c \<or> c = CHR ''-'' \<or> c = CHR ''_'') locale)"

definition validPushBundleID :: "string \<Rightarrow> bool" where
  "validPushBundleID b =
     (go_TrimSpace b = b \<and> b \<noteq> [] \<and> rune_count b \<le> pushBundleIDMaxRunes
      \<and> list_all (\<lambda>c. let n = (of_char c :: int) in 32 < n \<and> n \<noteq> 127) b)"

definition validPushDeviceRegistration :: "PushDeviceRegistration \<Rightarrow> bool" where
  "validPushDeviceRegistration r =
     ((rg_SessionID r = [] \<or> originalMobileIdentifier (rg_SessionID r)) \<and> validPushDeviceToken (rg_DeviceToken r) \<and> validPushLocale (rg_Locale r)
      \<and> (if rg_Platform r = ''android'' then rg_APNSEnvironment r = None \<and> rg_BundleID r = None
         else if rg_Platform r = ''ios'' then
           (case (rg_APNSEnvironment r, rg_BundleID r) of
              (Some e, Some b) \<Rightarrow> (e = ''sandbox'' \<or> e = ''production'') \<and> validPushBundleID b
            | _ \<Rightarrow> False)
         else False))"

definition push_RegisterDevice :: "push_env \<Rightarrow> (push_db \<Rightarrow> push_db) \<Rightarrow> int \<Rightarrow> PushDeviceRegistration \<Rightarrow> push_db \<Rightarrow> (push_error, unit) result \<times> push_db" where
  "push_RegisterDevice env between usrSeq r s =
     (if usrSeq \<le> 0 \<or> \<not> validPushDeviceRegistration r then (Inl ErrInvalidPushRequest, s) else repo_RegisterDevice env between usrSeq r s)"

definition push_UnregisterDevice :: "push_env \<Rightarrow> int \<Rightarrow> string \<Rightarrow> push_db \<Rightarrow> (push_error, unit) result \<times> push_db" where
  "push_UnregisterDevice env usrSeq token s =
     (if usrSeq \<le> 0 \<or> \<not> validPushDeviceToken token then (Inl ErrInvalidPushRequest, s) else repo_UnregisterDevice env usrSeq token s)"

definition push_UnregisterDeviceForSession :: "push_env \<Rightarrow> int \<Rightarrow> string \<Rightarrow> string \<Rightarrow> push_db \<Rightarrow> (push_error, unit) result \<times> push_db" where
  "push_UnregisterDeviceForSession env account sid token s =
     (if account \<le> 0 \<or> \<not> originalMobileIdentifier sid \<or> \<not> validPushDeviceToken token then (Inl ErrInvalidPushRequest, s)
      else repo_UnregisterDeviceForSession env account sid token s)"

definition defaultPushPreferences :: PushPreferences where
  "defaultPushPreferences = \<lparr>MessageEnabled = True, MessagePreviewEnabled = True, NoticeEnabled = True\<rparr>"

definition push_GetPreferences :: "push_env \<Rightarrow> int \<Rightarrow> push_db \<Rightarrow> (push_error, PushPreferences) result" where
  "push_GetPreferences env usrSeq s =
     (if usrSeq \<le> 0 then Inl ErrInvalidPushRequest
      else case pe_flt env ''preferences.get'' of Some e \<Rightarrow> Inl e
        | None \<Rightarrow> Inr (or_else (repo_GetPreferences usrSeq s) defaultPushPreferences))"

definition push_UpdatePreferences :: "push_env \<Rightarrow> int \<Rightarrow> PushPreferencesUpdate \<Rightarrow> push_db \<Rightarrow> (push_error, PushPreferences) result \<times> push_db" where
  "push_UpdatePreferences env usrSeq u s =
     (if usrSeq \<le> 0 then (Inl ErrInvalidPushRequest, s)
      else case repo_UpsertPreferences env usrSeq u s of (Inl e, s') \<Rightarrow> (Inl e, s') | (Inr _, s') \<Rightarrow> (push_GetPreferences env usrSeq s', s'))"

end
