(* ===== verification/Push_Delivery.thy ===== *)
theory Push_Delivery
  imports Push_Store
begin

text \<open>
  Delivery of pushes (\<^verbatim>\<open>service/push_delivery.go\<close>, \<^verbatim>\<open>service/push_notice_broadcast.go\<close>): what a queued
  notification becomes, the reads that guard every send, the walk over the recipients of a notice, and the life of the
  queues. Between the calls of a delivery other requests change the database: \<open>wd_before\<close> gives what they did before the
  \<open>n\<close>-th call. The provider and the renderer of the texts are parameters. The store is the repository, which implements
  all the optional guards.
\<close>

section \<open>Items and payloads\<close>

definition pushShardCount :: nat where "pushShardCount = 4"
definition pushShardCapacity :: nat where "pushShardCapacity = 256"
definition pushBroadcastCapacity :: nat where "pushBroadcastCapacity = 256"
definition pushBroadcastWorkerCount :: nat where "pushBroadcastWorkerCount = 2"
definition noticeBroadcastPageSize :: int where "noticeBroadcastPageSize = 200"
definition noticePageRetryAttempts :: nat where "noticePageRetryAttempts = 4"

definition verificationReviewSenderName :: string where
  "verificationReviewSenderName =
     [CHR 0xEB, CHR 0x8F, CHR 0x99, CHR 0xEB, CHR 0xAC, CHR 0xB8, CHR 0x20, CHR 0xEC, CHR 0x9D, CHR 0xB8, CHR 0xEC, CHR 0xA6, CHR 0x9D,
      CHR 0x20, CHR 0xEA, CHR 0xB2, CHR 0xB0, CHR 0xEA, CHR 0xB3, CHR 0xBC]"

definition noticeBroadcastSenderName :: string where
  "noticeBroadcastSenderName = [CHR 0xEC, CHR 0x83, CHR 0x88, CHR 0x20, CHR 0xEC, CHR 0x86, CHR 0x8C, CHR 0xEC, CHR 0x8B, CHR 0x9D]"

record RenderedTemplate =
  rt_Key :: string
  rt_Version :: int
  rt_Title :: string
  rt_Body :: string

record accepted_message =
  sr_MessageID :: int
  sr_CreatedAt :: string

record noticeBroadcast =
  nb_seq :: int
  nb_subject :: string
  nb_createdAt :: string
  nb_rendered :: RenderedTemplate

record pushDeliveryItem =
  it_verificationStatus :: string
  it_notice :: "noticeBroadcast option"
  it_recvrSeq :: int
  it_senderSeq :: int
  it_senderName :: string
  it_accepted :: "accepted_message option"
  it_content :: string

definition isVerificationReview :: "pushDeliveryItem \<Rightarrow> bool" where
  "isVerificationReview i = (it_verificationStatus i \<noteq> [])"

definition isNoticeBroadcast :: "pushDeliveryItem \<Rightarrow> bool" where
  "isNoticeBroadcast i = (it_notice i \<noteq> None)"

record PushMessagePayload =
  py_RecipientUserSeq :: string
  py_VerificationStatus :: string
  py_Type :: string
  py_EventID :: string
  py_MessageID :: string
  py_ConversationUserSeq :: string
  py_SenderUserSeq :: string
  py_SenderName :: string
  py_PostSeq :: string
  py_Subject :: string
  py_Title :: string
  py_Body :: string
  py_Preview :: string
  py_CreatedAt :: string
  py_TemplateKey :: string
  py_TemplateVersion :: int

datatype send_result = Sent | TokenInvalid | SendTransient | SendRejected

datatype guard_kind = PreferencesRead | NoticeGuard | ReviewGuard | DevicesRead | MessageGuard | TargetGuard

text \<open>What a delivery has done: a read with the time and the database it met, a send, a removed registration.\<close>

datatype push_event =
    Asked guard_kind int push_db
  | Dispatch PushDeliveryTarget PushMessagePayload
  | Removed PushDeliveryTarget

record push_world =
  wd_before :: "nat \<Rightarrow> push_db \<Rightarrow> push_db"
  wd_fails :: "nat \<Rightarrow> bool"
  wd_now :: "nat \<Rightarrow> int"
  wd_send :: "nat \<Rightarrow> PushDeliveryTarget \<Rightarrow> PushMessagePayload \<Rightarrow> send_result"
  wd_render :: "string \<Rightarrow> (string \<times> string) list \<Rightarrow> RenderedTemplate"
  wd_stamp :: "string \<times> int"

text \<open>\<open>wd_stamp\<close> is the clock where a review is rendered, as RFC 3339 text and in nanoseconds.\<close>

definition buildVerificationPayload :: "push_world \<Rightarrow> pushDeliveryItem \<Rightarrow> PushMessagePayload" where
  "buildVerificationPayload w i =
     (let key = (if it_verificationStatus i = ''rejected'' then ''push.verification.rejected'' else ''push.verification.approved'');
          r = wd_render w key []
      in \<lparr>py_RecipientUserSeq = go_Itoa (it_recvrSeq i), py_VerificationStatus = it_verificationStatus i, py_Type = ''verification.reviewed'',
          py_EventID = ''verification-'' @ go_Itoa (it_recvrSeq i) @ ''-'' @ go_Itoa (snd (wd_stamp w)), py_MessageID = [], py_ConversationUserSeq = [],
          py_SenderUserSeq = [], py_SenderName = verificationReviewSenderName, py_PostSeq = [], py_Subject = [], py_Title = rt_Title r, py_Body = rt_Body r,
          py_Preview = rt_Body r, py_CreatedAt = fst (wd_stamp w), py_TemplateKey = rt_Key r, py_TemplateVersion = rt_Version r\<rparr>)"

definition buildMessagePayload :: "push_world \<Rightarrow> pushDeliveryItem \<Rightarrow> accepted_message \<Rightarrow> PushPreferences option \<Rightarrow> PushMessagePayload" where
  "buildMessagePayload w i accepted preferences =
     (let previewEnabled = (case preferences of None \<Rightarrow> True | Some p \<Rightarrow> MessagePreviewEnabled p);
          r = (if previewEnabled then wd_render w ''push.message.new_preview_on'' [(''senderName'', it_senderName i), (''content'', it_content i)]
               else wd_render w ''push.message.new_preview_off'' [(''senderName'', it_senderName i)]);
          preview = (if previewEnabled then it_content i else rt_Body r);
          messageID = go_Itoa (sr_MessageID accepted)
      in \<lparr>py_RecipientUserSeq = go_Itoa (it_recvrSeq i), py_VerificationStatus = [], py_Type = ''message'', py_EventID = messageID, py_MessageID = messageID,
          py_ConversationUserSeq = go_Itoa (it_senderSeq i), py_SenderUserSeq = go_Itoa (it_senderSeq i), py_SenderName = it_senderName i, py_PostSeq = [],
          py_Subject = [], py_Title = rt_Title r, py_Body = rt_Body r, py_Preview = preview, py_CreatedAt = sr_CreatedAt accepted,
          py_TemplateKey = rt_Key r, py_TemplateVersion = rt_Version r\<rparr>)"

definition buildNoticePayload :: "pushDeliveryItem \<Rightarrow> noticeBroadcast \<Rightarrow> PushMessagePayload" where
  "buildNoticePayload i b =
     \<lparr>py_RecipientUserSeq = go_Itoa (it_recvrSeq i), py_VerificationStatus = [], py_Type = ''admin.notice'', py_EventID = ''notice-'' @ go_Itoa (nb_seq b),
      py_MessageID = [], py_ConversationUserSeq = [], py_SenderUserSeq = [], py_SenderName = noticeBroadcastSenderName, py_PostSeq = go_Itoa (nb_seq b),
      py_Subject = nb_subject b, py_Title = rt_Title (nb_rendered b), py_Body = rt_Body (nb_rendered b), py_Preview = nb_subject b,
      py_CreatedAt = nb_createdAt b, py_TemplateKey = rt_Key (nb_rendered b), py_TemplateVersion = rt_Version (nb_rendered b)\<rparr>"

section \<open>Delivery\<close>

record delivery =
  dy_calls :: nat
  dy_db :: push_db
  dy_log :: "push_event list"

text \<open>A call of the store: what others did, then the read, which may fail.\<close>

definition store_read :: "push_world \<Rightarrow> guard_kind \<Rightarrow> (int \<Rightarrow> push_db \<Rightarrow> 'a) \<Rightarrow> delivery \<Rightarrow> 'a option \<times> delivery" where
  "store_read w kind q d =
     (let n = dy_calls d; s = wd_before w n (dy_db d) in
      (if wd_fails w n then None else Some (q (wd_now w n) s),
       \<lparr>dy_calls = n + 1, dy_db = s, dy_log = dy_log d @ [Asked kind (wd_now w n) s]\<rparr>))"

definition buildPayload :: "push_world \<Rightarrow> pushDeliveryItem \<Rightarrow> delivery \<Rightarrow> PushMessagePayload option \<times> delivery" where
  "buildPayload w i d =
     (case it_notice i of
        Some b \<Rightarrow> (Some (buildNoticePayload i b), d)
      | None \<Rightarrow>
          if isVerificationReview i then (Some (buildVerificationPayload w i), d)
          else (case store_read w PreferencesRead (\<lambda>_. repo_GetPreferences (it_recvrSeq i)) d of
                  (None, d') \<Rightarrow> (None, d')
                | (Some preferences, d') \<Rightarrow>
                    if (case preferences of None \<Rightarrow> False | Some p \<Rightarrow> \<not> MessageEnabled p) then (None, d')
                    else (map_option (\<lambda>a. buildMessagePayload w i a preferences) (it_accepted i), d')))"

definition stillDeliverable :: "push_world \<Rightarrow> pushDeliveryItem \<Rightarrow> PushMessagePayload \<Rightarrow> delivery \<Rightarrow> bool \<times> delivery" where
  "stillDeliverable w i p d =
     (case it_notice i of
        Some b \<Rightarrow> apfst (\<lambda>r. r = Some True) (store_read w NoticeGuard (\<lambda>_. NoticeStillPublished (nb_seq b)) d)
      | None \<Rightarrow>
          if isVerificationReview i
          then apfst (\<lambda>r. r = Some True) (store_read w ReviewGuard (\<lambda>_. VerificationStillCurrent (it_recvrSeq i) (py_VerificationStatus p)) d)
          else (True, d))"

definition messageStillAvailable :: "push_world \<Rightarrow> pushDeliveryItem \<Rightarrow> delivery \<Rightarrow> bool \<times> delivery" where
  "messageStillAvailable w i d =
     (if isNoticeBroadcast i \<or> isVerificationReview i then (True, d)
      else (case it_accepted i of
              None \<Rightarrow> (False, d)
            | Some a \<Rightarrow> apfst (\<lambda>r. r = Some True) (store_read w MessageGuard (\<lambda>_. MessageStillAvailable (it_senderSeq i) (it_recvrSeq i) (sr_MessageID a)) d)))"

definition provider_send :: "push_world \<Rightarrow> PushDeliveryTarget \<Rightarrow> PushMessagePayload \<Rightarrow> delivery \<Rightarrow> send_result \<times> delivery" where
  "provider_send w t p d =
     (wd_send w (dy_calls d) t p, d\<lparr>dy_calls := dy_calls d + 1, dy_db := wd_before w (dy_calls d) (dy_db d), dy_log := dy_log d @ [Dispatch t p]\<rparr>)"

definition remove_target :: "push_world \<Rightarrow> int \<Rightarrow> PushDeliveryTarget \<Rightarrow> delivery \<Rightarrow> delivery" where
  "remove_target w account t d =
     (let n = dy_calls d; s = wd_before w n (dy_db d) in
      \<lparr>dy_calls = n + 1, dy_db = (if wd_fails w n then s else DeleteDeliveryTarget account t s), dy_log = dy_log d @ [Removed t]\<rparr>)"

text \<open>The attempts at one device; the result says whether the whole delivery ends.\<close>

fun attempts :: "push_world \<Rightarrow> pushDeliveryItem \<Rightarrow> PushMessagePayload \<Rightarrow> PushDeliveryTarget \<Rightarrow> nat \<Rightarrow> delivery \<Rightarrow> bool \<times> delivery" where
  "attempts w i p t 0 d = (False, d)"
| "attempts w i p t (Suc k) d =
     (case messageStillAvailable w i d of
        (False, d1) \<Rightarrow> (True, d1)
      | (True, d1) \<Rightarrow>
     (case store_read w TargetGuard (DeliveryTargetStillCurrent (it_recvrSeq i) t) d1 of
        (current, d2) \<Rightarrow>
          if current \<noteq> Some True then (False, d2)
          else (case provider_send w t p d2 of
                  (Sent, d3) \<Rightarrow> (False, d3)
                | (TokenInvalid, d3) \<Rightarrow> (False, remove_target w (it_recvrSeq i) t d3)
                | (SendRejected, d3) \<Rightarrow> (False, d3)
                | (SendTransient, d3) \<Rightarrow> attempts w i p t k d3)))"

fun each_target :: "push_world \<Rightarrow> pushDeliveryItem \<Rightarrow> PushMessagePayload \<Rightarrow> PushDeliveryTarget list \<Rightarrow> delivery \<Rightarrow> delivery" where
  "each_target w i p [] d = d"
| "each_target w i p (t # ts) d =
     (case attempts w i p t 3 d of (stop, d') \<Rightarrow> if stop then d' else each_target w i p ts d')"

definition push_deliver :: "push_world \<Rightarrow> pushDeliveryItem \<Rightarrow> delivery \<Rightarrow> delivery" where
  "push_deliver w i d =
     (case buildPayload w i d of
        (None, d1) \<Rightarrow> d1
      | (Some p, d1) \<Rightarrow>
     (case stillDeliverable w i p d1 of
        (False, d2) \<Rightarrow> d2
      | (True, d2) \<Rightarrow>
     (case store_read w DevicesRead (ListDevices (it_recvrSeq i)) d2 of
        (None, d3) \<Rightarrow> d3
      | (Some targets, d3) \<Rightarrow> each_target w i p targets d3)))"

section \<open>Queueing\<close>

text \<open>Go's remainder takes the sign of the dividend; a negative index panics.\<close>

definition shard_of :: "int \<Rightarrow> nat option" where
  "shard_of u = (if u mod int pushShardCount \<noteq> 0 \<and> u < 0 then None else Some (nat (u mod int pushShardCount)))"

definition message_item :: "int \<Rightarrow> int \<Rightarrow> string \<Rightarrow> accepted_message \<Rightarrow> string \<Rightarrow> pushDeliveryItem" where
  "message_item recvr sender name accepted content =
     \<lparr>it_verificationStatus = [], it_notice = None, it_recvrSeq = recvr, it_senderSeq = sender, it_senderName = name, it_accepted = Some accepted, it_content = content\<rparr>"

definition review_item :: "int \<Rightarrow> string \<Rightarrow> pushDeliveryItem" where
  "review_item u status =
     \<lparr>it_verificationStatus = status, it_notice = None, it_recvrSeq = u, it_senderSeq = 0, it_senderName = [], it_accepted = None, it_content = []\<rparr>"

definition notice_item :: "noticeBroadcast \<Rightarrow> int \<Rightarrow> pushDeliveryItem" where
  "notice_item b u =
     \<lparr>it_verificationStatus = [], it_notice = Some b, it_recvrSeq = u, it_senderSeq = 0, it_senderName = [], it_accepted = None, it_content = []\<rparr>"

text \<open>A page is read up to four times. The walk reads pages until one is empty or cannot be read, or until the
  shutdown makes an enqueue give up; \<open>accepts\<close> says which enqueues go through and \<open>wait\<close> which waits between attempts end without a shutdown.
  Its results are the recipients that were enqueued and the number of reads.\<close>

record page_world =
  pg_db :: "nat \<Rightarrow> push_db"
  pg_now :: "nat \<Rightarrow> int"
  pg_fails :: "nat \<Rightarrow> bool"
  pg_waits :: "nat \<Rightarrow> bool"
  pg_accepts :: "int \<Rightarrow> bool"

fun listNoticeRecipientPage :: "page_world \<Rightarrow> int \<Rightarrow> nat \<Rightarrow> nat \<Rightarrow> int list option \<times> nat" where
  "listNoticeRecipientPage w after 0 n = (None, n)"
| "listNoticeRecipientPage w after (Suc k) n =
     (if \<not> pg_fails w n then (Some (ListNoticeRecipientSeqs after noticeBroadcastPageSize (pg_now w n) (pg_db w n)), n + 1)
      else if k = 0 \<or> \<not> pg_waits w n then (None, n + 1)
      else listNoticeRecipientPage w after k (n + 1))"

partial_function (option) fanOutNotice :: "page_world \<Rightarrow> int \<Rightarrow> nat \<Rightarrow> int list \<Rightarrow> (int list \<times> nat) option" where
  "fanOutNotice w after n done =
     (case listNoticeRecipientPage w after noticePageRetryAttempts n of
        (None, n') \<Rightarrow> Some (done, n')
      | (Some seqs, n') \<Rightarrow>
          if seqs = [] then Some (done, n')
          else let sent = filter (pg_accepts w) seqs in
               if length sent < length seqs then Some (done @ sent, n')
               else fanOutNotice w (fold max seqs after) n' (done @ sent))"

section \<open>The life of the queues\<close>

text \<open>\<open>nq_producers\<close> counts the walks that are registered, \<open>nq_shards\<close> and \<open>nq_broadcast\<close> hold what is queued, \<open>nq_stop\<close> is where
  \<^verbatim>\<open>Stop\<close> is. A send on a closed channel panics.\<close>

datatype stop_phase = Running | Waiting | Draining | Stopped

record notifier =
  nq_closed :: bool
  nq_producers :: nat
  nq_shards :: "nat \<Rightarrow> pushDeliveryItem list"
  nq_broadcast :: "pushDeliveryItem list"
  nq_queuesClosed :: bool
  nq_stop :: stop_phase
  nq_panicked :: bool

definition new_notifier :: notifier where
  "new_notifier = \<lparr>nq_closed = False, nq_producers = 0, nq_shards = (\<lambda>_. []), nq_broadcast = [], nq_queuesClosed = False, nq_stop = Running, nq_panicked = False\<rparr>"

definition startProducer :: "notifier \<Rightarrow> bool \<times> notifier" where
  "startProducer n = (if nq_closed n then (False, n) else (True, n\<lparr>nq_producers := nq_producers n + 1\<rparr>))"

definition beginShutdown :: "notifier \<Rightarrow> notifier" where
  "beginShutdown n = (if nq_closed n then n else n\<lparr>nq_closed := True\<rparr>)"

definition enqueue_shard :: "pushDeliveryItem \<Rightarrow> notifier \<Rightarrow> notifier" where
  "enqueue_shard i n =
     (case shard_of (it_recvrSeq i) of
        None \<Rightarrow> n\<lparr>nq_panicked := True\<rparr>
      | Some k \<Rightarrow>
          if nq_queuesClosed n then n\<lparr>nq_panicked := True\<rparr>
          else if length (nq_shards n k) < pushShardCapacity then n\<lparr>nq_shards := (nq_shards n)(k := nq_shards n k @ [i])\<rparr>
          else n)"

definition NotifyMessageReceived :: "int \<Rightarrow> int \<Rightarrow> string \<Rightarrow> accepted_message \<Rightarrow> string \<Rightarrow> notifier \<Rightarrow> notifier" where
  "NotifyMessageReceived recvr sender name accepted content = enqueue_shard (message_item recvr sender name accepted content)"

definition NotifyVerificationReviewed :: "int \<Rightarrow> string \<Rightarrow> notifier \<Rightarrow> notifier" where
  "NotifyVerificationReviewed u status n =
     (if u \<le> 0 \<or> (status \<noteq> ''approved'' \<and> status \<noteq> ''rejected'') then n else enqueue_shard (review_item u status) n)"

text \<open>\<^verbatim>\<open>NotifyNoticePublished\<close> up to the start of its goroutine.\<close>

definition NotifyNoticePublished :: "int \<Rightarrow> notifier \<Rightarrow> notifier" where
  "NotifyNoticePublished noticeSeq n = (if noticeSeq \<le> 0 then n else snd (startProducer n))"

text \<open>One step of the program: a request that notifies, a walk that enqueues or ends, a worker that takes an item, and
  the stages of \<^verbatim>\<open>Stop\<close>, which begins once. Where a producer would block there is no step; where \<^verbatim>\<open>closing\<close> is shut as
  well it may give up, which is its end.\<close>

inductive push_step :: "notifier \<Rightarrow> notifier \<Rightarrow> bool" where
  message: "push_step n (NotifyMessageReceived recvr sender name accepted content n)"
| review: "push_step n (NotifyVerificationReviewed u status n)"
| notice: "push_step n (NotifyNoticePublished q n)"
| fan_out: "0 < nq_producers n \<Longrightarrow> length (nq_broadcast n) < pushBroadcastCapacity \<or> nq_queuesClosed n \<Longrightarrow>
     push_step n (if nq_queuesClosed n then n\<lparr>nq_panicked := True\<rparr> else n\<lparr>nq_broadcast := nq_broadcast n @ [notice_item b u]\<rparr>)"
| walk_ends: "0 < nq_producers n \<Longrightarrow> push_step n (n\<lparr>nq_producers := nq_producers n - 1\<rparr>)"
| take_shard: "nq_shards n k = i # is \<Longrightarrow> push_step n (n\<lparr>nq_shards := (nq_shards n)(k := is)\<rparr>)"
| take_broadcast: "nq_broadcast n = i # is \<Longrightarrow> push_step n (n\<lparr>nq_broadcast := is\<rparr>)"
| stop_begins: "nq_stop n = Running \<Longrightarrow> push_step n ((beginShutdown n)\<lparr>nq_stop := Waiting\<rparr>)"
| stop_closes: "nq_stop n = Waiting \<Longrightarrow> nq_producers n = 0 \<Longrightarrow> push_step n (n\<lparr>nq_queuesClosed := True, nq_stop := Draining\<rparr>)"
| stop_drained: "nq_stop n = Draining \<Longrightarrow> nq_broadcast n = [] \<Longrightarrow> (\<forall>k. nq_shards n k = []) \<Longrightarrow> push_step n (n\<lparr>nq_stop := Stopped\<rparr>)"
| stop_gives_up: "nq_stop n = Waiting \<or> nq_stop n = Draining \<Longrightarrow> push_step n (n\<lparr>nq_stop := Stopped\<rparr>)"

inductive_cases push_stepE: "push_step n n'"

end
