(* ===== verification/Push_Props.thy ===== *)
theory Push_Props
  imports Push_Delivery Auth_Props
begin

text \<open>
  What the delivery of pushes guarantees: the reads right before every send, silence after a logout and about hidden
  content, the walk over the recipients of a notice, and the order of shutdown.
\<close>

section \<open>What precedes a send\<close>

definition start_on :: "push_db \<Rightarrow> delivery" where
  "start_on s = \<lparr>dy_calls = 0, dy_db = s, dy_log = []\<rparr>"

definition is_message :: "pushDeliveryItem \<Rightarrow> bool" where
  "is_message i \<longleftrightarrow> \<not> isNoticeBroadcast i \<and> \<not> isVerificationReview i"

definition was_asked :: "guard_kind \<Rightarrow> (push_db \<Rightarrow> bool) \<Rightarrow> push_event list \<Rightarrow> bool" where
  "was_asked k Q log \<longleftrightarrow> (\<exists>now s. Asked k now s \<in> set log \<and> Q s)"

lemma was_asked_append: "was_asked k Q log \<Longrightarrow> was_asked k Q (log @ es)"
  by (auto simp: was_asked_def)

text \<open>The read that admitted the item.\<close>

definition admitted :: "pushDeliveryItem \<Rightarrow> push_event list \<Rightarrow> bool" where
  "admitted i log \<longleftrightarrow>
     (case it_notice i of
        Some b \<Rightarrow> was_asked NoticeGuard (NoticeStillPublished (nb_seq b)) log
      | None \<Rightarrow>
          if isVerificationReview i then was_asked ReviewGuard (VerificationStillCurrent (it_recvrSeq i) (it_verificationStatus i)) log
          else was_asked PreferencesRead (\<lambda>s. case repo_GetPreferences (it_recvrSeq i) s of None \<Rightarrow> True | Some p \<Rightarrow> MessageEnabled p) log)"

text \<open>The reads right before a send, newest last.\<close>

definition guarded :: "pushDeliveryItem \<Rightarrow> push_event list \<Rightarrow> PushDeliveryTarget \<Rightarrow> bool" where
  "guarded i pre t \<longleftrightarrow> admitted i pre \<and>
     (\<exists>pre' now s. pre = pre' @ [Asked TargetGuard now s] \<and> DeliveryTargetStillCurrent (it_recvrSeq i) t now s
        \<and> (is_message i \<longrightarrow> (\<exists>pre'' now' s' a. pre' = pre'' @ [Asked MessageGuard now' s'] \<and> it_accepted i = Some a
              \<and> MessageStillAvailable (it_senderSeq i) (it_recvrSeq i) (sr_MessageID a) s')))"

definition sends_guarded :: "pushDeliveryItem \<Rightarrow> push_event list \<Rightarrow> bool" where
  "sends_guarded i log \<longleftrightarrow> (\<forall>pre t p post. log = pre @ Dispatch t p # post \<longrightarrow> guarded i pre t)"

definition left_by_others :: "push_world \<Rightarrow> push_db \<Rightarrow> bool" where
  "left_by_others w s \<longleftrightarrow> (\<exists>n s'. s = wd_before w n s')"

definition met :: "push_world \<Rightarrow> push_event list \<Rightarrow> bool" where
  "met w log \<longleftrightarrow> (\<forall>k now s. Asked k now s \<in> set log \<longrightarrow> left_by_others w s)"

lemma sends_guarded_Nil [simp]: "sends_guarded i []"
  by (simp add: sends_guarded_def)

lemma sends_guarded_snoc:
  assumes "sends_guarded i log" "\<And>t p. e = Dispatch t p \<Longrightarrow> guarded i log t"
  shows "sends_guarded i (log @ [e])"
  unfolding sends_guarded_def
proof (intro allI impI)
  fix pre t p post assume l: "log @ [e] = pre @ Dispatch t p # post"
  show "guarded i pre t"
  proof (cases post rule: rev_cases)
    case Nil
    then show ?thesis using l assms(2) by simp
  next
    case (snoc post' x)
    then have "log = pre @ Dispatch t p # post'" using l by simp
    then show ?thesis using assms(1) unfolding sends_guarded_def by blast
  qed
qed

lemma admitted_append: "admitted i log \<Longrightarrow> admitted i (log @ es)"
  by (auto simp: admitted_def was_asked_append split: option.splits)

lemma store_read_log:
  assumes "store_read w k q d = (r, d')"
  shows "\<exists>now s. dy_log d' = dy_log d @ [Asked k now s] \<and> left_by_others w s \<and> (\<forall>x. r = Some x \<longrightarrow> x = q now s)"
proof -
  have "left_by_others w (wd_before w (dy_calls d) (dy_db d))" unfolding left_by_others_def by blast
  then show ?thesis using assms by (auto simp: store_read_def Let_def split: if_splits)
qed

text \<open>What every part of a delivery keeps.\<close>

definition tidy :: "push_world \<Rightarrow> pushDeliveryItem \<Rightarrow> push_event list \<Rightarrow> bool" where
  "tidy w i log \<longleftrightarrow> sends_guarded i log \<and> met w log"

lemma tidy_read: "store_read w k q d = (r, d') \<Longrightarrow> tidy w i (dy_log d) \<Longrightarrow> tidy w i (dy_log d')"
  using store_read_log [of w k q d r d'] by (auto simp: tidy_def met_def intro!: sends_guarded_snoc)

lemma tidy_snoc: "tidy w i log \<Longrightarrow> (\<And>t p. e = Dispatch t p \<Longrightarrow> guarded i log t) \<Longrightarrow> \<nexists>k now s. e = Asked k now s \<Longrightarrow> tidy w i (log @ [e])"
  by (auto simp: tidy_def met_def intro!: sends_guarded_snoc)

lemma message_guard:
  assumes "messageStillAvailable w i d = (b, d')" "tidy w i (dy_log d)" "admitted i (dy_log d)"
  shows "tidy w i (dy_log d')" "admitted i (dy_log d')"
    "b \<Longrightarrow> is_message i \<Longrightarrow> \<exists>pre now s a. dy_log d' = pre @ [Asked MessageGuard now s] \<and> it_accepted i = Some a
       \<and> MessageStillAvailable (it_senderSeq i) (it_recvrSeq i) (sr_MessageID a) s"
proof -
  consider (none) "\<not> is_message i" "d' = d" | (lost) "d' = d" "\<not> b"
    | (read) a r where "it_accepted i = Some a" "b = (r = Some True)"
        "store_read w MessageGuard (\<lambda>_. MessageStillAvailable (it_senderSeq i) (it_recvrSeq i) (sr_MessageID a)) d = (r, d')"
  proof (cases "is_message i")
    case False
    then show ?thesis using that(1) assms(1) by (simp add: messageStillAvailable_def is_message_def split: if_splits)
  next
    case msg: True
    show ?thesis
    proof (cases "it_accepted i")
      case None
      then show ?thesis using that(2) msg assms(1) by (simp add: messageStillAvailable_def is_message_def)
    next
      case (Some a)
      obtain r d'' where r: "store_read w MessageGuard (\<lambda>_. MessageStillAvailable (it_senderSeq i) (it_recvrSeq i) (sr_MessageID a)) d = (r, d'')"
        by (cases "store_read w MessageGuard (\<lambda>_. MessageStillAvailable (it_senderSeq i) (it_recvrSeq i) (sr_MessageID a)) d")
      then show ?thesis using that(3) [OF Some] msg assms(1) Some by (simp add: messageStillAvailable_def is_message_def)
    qed
  qed
  note cases = this
  show "tidy w i (dy_log d')"
  proof (cases rule: cases)
    case (read a r)
    show ?thesis by (rule tidy_read [OF read(3) assms(2)])
  qed (use assms(2) in auto)
  show "admitted i (dy_log d')"
  proof (cases rule: cases)
    case (read a r)
    obtain now s where "dy_log d' = dy_log d @ [Asked MessageGuard now s]" using store_read_log [OF read(3)] by blast
    then show ?thesis by (simp add: admitted_append [OF assms(3)])
  qed (use assms(3) in auto)
  show "b \<Longrightarrow> is_message i \<Longrightarrow> \<exists>pre now s a. dy_log d' = pre @ [Asked MessageGuard now s] \<and> it_accepted i = Some a
       \<and> MessageStillAvailable (it_senderSeq i) (it_recvrSeq i) (sr_MessageID a) s"
  proof (cases rule: cases)
    case (read a r)
    obtain now s where "dy_log d' = dy_log d @ [Asked MessageGuard now s]"
      "r = Some True \<Longrightarrow> MessageStillAvailable (it_senderSeq i) (it_recvrSeq i) (sr_MessageID a) s"
      using store_read_log [OF read(3)] by blast
    then show "b \<Longrightarrow> ?thesis" using read(1,2) by blast
  qed auto
qed

lemma attempts_tidy:
  "attempts w i p t k d = (b, d') \<Longrightarrow> tidy w i (dy_log d) \<Longrightarrow> admitted i (dy_log d) \<Longrightarrow> tidy w i (dy_log d') \<and> admitted i (dy_log d')"
proof (induction w i p t k d arbitrary: b d' rule: attempts.induct)
  case (2 w i p t k d)
  obtain c d1 where m: "messageStillAvailable w i d = (c, d1)" by (cases "messageStillAvailable w i d")
  note g = message_guard [OF m "2.prems"(2,3)]
  show ?case
  proof (cases c)
    case False
    then show ?thesis using "2.prems"(1) m g by simp
  next
    case True
    obtain r d2 where r: "store_read w TargetGuard (DeliveryTargetStillCurrent (it_recvrSeq i) t) d1 = (r, d2)"
      by (cases "store_read w TargetGuard (DeliveryTargetStillCurrent (it_recvrSeq i) t) d1")
    obtain now s where l: "dy_log d2 = dy_log d1 @ [Asked TargetGuard now s]" "r = Some True \<Longrightarrow> DeliveryTargetStillCurrent (it_recvrSeq i) t now s"
      using store_read_log [OF r] by auto
    have t2: "tidy w i (dy_log d2)" "admitted i (dy_log d2)" using tidy_read [OF r g(1)] admitted_append [OF g(2)] l(1) by simp_all
    show ?thesis
    proof (cases "r = Some True")
      case False
      then show ?thesis using "2.prems"(1) m r True t2 by simp
    next
      case current: True
      have gd: "guarded i (dy_log d2) t" using t2(2) l current g(3) True unfolding guarded_def by (metis (no_types, lifting))
      obtain x d3 where x: "provider_send w t p d2 = (x, d3)" by (cases "provider_send w t p d2")
      have l3: "dy_log d3 = dy_log d2 @ [Dispatch t p]" using x by (auto simp: provider_send_def)
      have t3: "tidy w i (dy_log d3)" "admitted i (dy_log d3)"
        unfolding l3 by (rule tidy_snoc [OF t2(1)]; use gd in simp) (rule admitted_append [OF t2(2)])
      show ?thesis
      proof (cases x)
        case TokenInvalid
        have "tidy w i (dy_log d3 @ [Removed t])" "admitted i (dy_log d3 @ [Removed t])"
          by (rule tidy_snoc [OF t3(1)]; simp) (rule admitted_append [OF t3(2)])
        then show ?thesis using "2.prems"(1) m r True current x TokenInvalid by (auto simp: remove_target_def Let_def)
      next
        case SendTransient
        then have a: "attempts w i p t k d3 = (b, d')" using "2.prems"(1) m r True current x by simp
        show ?thesis by (rule "2.IH" [OF m [symmetric] _ r [symmetric] _ x [symmetric] _ a t3]) (use True current SendTransient in auto)
      qed (use "2.prems"(1) m r True current x t3 in auto)
    qed
  qed
qed simp

lemma each_target_tidy: "tidy w i (dy_log d) \<Longrightarrow> admitted i (dy_log d) \<Longrightarrow> tidy w i (dy_log (each_target w i p ts d))"
proof (induction w i p ts d rule: each_target.induct)
  case (2 w i p t ts d)
  obtain b d' where a: "attempts w i p t 3 d = (b, d')" by (cases "attempts w i p t 3 d")
  then show ?case using attempts_tidy [OF a "2.prems"] "2.IH" [OF a [symmetric]] by auto
qed simp

lemma was_asked_read: "store_read w k (\<lambda>_. Q) d = (Some True, d') \<Longrightarrow> was_asked k Q (dy_log d')"
proof -
  assume "store_read w k (\<lambda>_. Q) d = (Some True, d')"
  then obtain now s where "dy_log d' = dy_log d @ [Asked k now s]" "Q s" using store_read_log by blast
  then have "Asked k now s \<in> set (dy_log d')" by simp
  then show ?thesis using \<open>Q s\<close> unfolding was_asked_def by blast
qed

lemma admission:
  assumes b: "buildPayload w i d0 = (Some p, d1)" and g: "stillDeliverable w i p d1 = (c, d2)" and t: "tidy w i (dy_log d1)"
  shows "tidy w i (dy_log d2) \<and> (c \<longrightarrow> admitted i (dy_log d2))"
proof (cases "it_notice i")
  case (Some nb)
  obtain r where r: "store_read w NoticeGuard (\<lambda>_. NoticeStillPublished (nb_seq nb)) d1 = (r, d2)" "c = (r = Some True)"
    using g Some by (cases "store_read w NoticeGuard (\<lambda>_. NoticeStillPublished (nb_seq nb)) d1") (simp add: stillDeliverable_def)
  then show ?thesis using tidy_read [OF r(1) t] was_asked_read [of w NoticeGuard _ d1 d2] by (simp add: admitted_def Some)
next
  case None
  show ?thesis
  proof (cases "isVerificationReview i")
    case True
    have p: "py_VerificationStatus p = it_verificationStatus i" using b None True by (auto simp: buildPayload_def buildVerificationPayload_def Let_def)
    obtain r where r: "store_read w ReviewGuard (\<lambda>_. VerificationStillCurrent (it_recvrSeq i) (it_verificationStatus i)) d1 = (r, d2)" "c = (r = Some True)"
      using g None True p by (cases "store_read w ReviewGuard (\<lambda>_. VerificationStillCurrent (it_recvrSeq i) (it_verificationStatus i)) d1") (simp add: stillDeliverable_def)
    then show ?thesis using tidy_read [OF r(1) t] was_asked_read [of w ReviewGuard _ d1 d2] None True by (simp add: admitted_def)
  next
    case False
    obtain prefs where r: "store_read w PreferencesRead (\<lambda>_. repo_GetPreferences (it_recvrSeq i)) d0 = (Some prefs, d1)"
      and ok: "case prefs of None \<Rightarrow> True | Some q \<Rightarrow> MessageEnabled q"
      using b None False by (auto simp: buildPayload_def split: prod.splits option.splits if_splits)
    obtain now s where "dy_log d1 = dy_log d0 @ [Asked PreferencesRead now s]" "prefs = repo_GetPreferences (it_recvrSeq i) s"
      using store_read_log [OF r] by blast
    then have "admitted i (dy_log d1)" using ok None False by (auto simp: admitted_def was_asked_def)
    then show ?thesis using g None False t by (simp add: stillDeliverable_def)
  qed
qed

lemma deliver_tidy: "tidy w i (dy_log (push_deliver w i (start_on s)))"
proof -
  have t0: "tidy w i (dy_log (start_on s))" by (simp add: tidy_def met_def start_on_def)
  obtain pl d1 where b: "buildPayload w i (start_on s) = (pl, d1)" by (cases "buildPayload w i (start_on s)")
  have t1: "tidy w i (dy_log d1)"
    using b t0 by (auto simp: buildPayload_def split: option.splits if_splits prod.splits dest: tidy_read)
  show ?thesis
  proof (cases pl)
    case None
    then show ?thesis using b t1 by (simp add: push_deliver_def)
  next
    case (Some p)
    obtain c d2 where g: "stillDeliverable w i p d1 = (c, d2)" by (cases "stillDeliverable w i p d1")
    have t2: "tidy w i (dy_log d2) \<and> (c \<longrightarrow> admitted i (dy_log d2))"
      by (rule admission [OF b [unfolded Some] g t1])
    obtain r d3 where r: "store_read w DevicesRead (ListDevices (it_recvrSeq i)) d2 = (r, d3)"
      by (cases "store_read w DevicesRead (ListDevices (it_recvrSeq i)) d2")
    have t3: "tidy w i (dy_log d3)" using tidy_read [OF r] t2 by simp
    have a3: "admitted i (dy_log d3)" if c using t2 store_read_log [OF r] admitted_append that by auto
    show ?thesis using b Some g r t2 t3 a3 each_target_tidy by (cases c; cases r) (auto simp: push_deliver_def)
  qed
qed

text \<open>C30. Every send of a push is preceded by reads that allow it, whatever others do to the database in between and
  whatever fails: right before it the database listed the device as the member's own, active and of a live session;
  for a message right before that the message existed between two members who have not left, and earlier the
  recipient had messages on; for a notice it was published and for a review it was the current one.\<close>

theorem push_is_guarded:
  assumes "dy_log (push_deliver w i (start_on s)) = pre @ Dispatch t p # post"
  shows "guarded i pre t"
  using assms deliver_tidy [of w i s] by (auto simp: tidy_def sends_guarded_def)

section \<open>After a logout\<close>

lemma guarded_live:
  assumes "guarded i pre t" "met w pre"
  shows "\<exists>now s. left_by_others w s \<and> live_session now (it_recvrSeq i) (tg_SessionID t) s"
proof -
  obtain pre' now s where g: "pre = pre' @ [Asked TargetGuard now s]" "DeliveryTargetStillCurrent (it_recvrSeq i) t now s"
    using assms(1) by (auto simp: guarded_def)
  have "\<exists>d \<in> set (pu_devices s). at_target (it_recvrSeq i) t d \<and> deliverable_device now s d"
  proof (rule ccontr)
    assume "\<not> ?thesis"
    then have "filter (\<lambda>d. at_target (it_recvrSeq i) t d \<and> deliverable_device now s d) (pu_devices s) = []" by (simp add: filter_empty_conv)
    then show False using g(2) by (simp add: DeliveryTargetStillCurrent_def sql_affected_def)
  qed
  then have "live_session now (it_recvrSeq i) (tg_SessionID t) s" by (auto simp: at_target_def deliverable_device_def)
  moreover have "left_by_others w s" using assms(2) g(1) by (auto simp: met_def)
  ultimately show ?thesis by blast
qed

lemma dead_not_live: "dead account sid st \<Longrightarrow> pu_tokens s = mrt st \<Longrightarrow> \<not> live_session now account sid s"
  by (auto simp: dead_def live_session_def list_ex_iff live_proof_def)

text \<open>C31. A logout silences the device: after \<^verbatim>\<open>LogoutCurrent\<close> or \<^verbatim>\<open>LogoutAll\<close> reported no error, no delivery to the
  member sends to a device of that session, in any history of sessions in which the session id is not drawn again
  and with anything happening during the delivery.\<close>

theorem no_push_after_logout:
  assumes "(0 < length (SessionID u) \<and> LogoutCurrent env (Some u) leg st = ([], cs, st1)) \<or> LogoutAll env (USRSeq u) st = ([], cs, st1)"
    and others: "\<And>n s. \<exists>xs. list_all (other_session (USRSeq u) (SessionID u)) xs \<and> pu_tokens (wd_before w n s) = mrt (run au_step st1 xs)"
    and "it_recvrSeq i = USRSeq u" "Dispatch t p \<in> set (dy_log (push_deliver w i (start_on s)))"
  shows "tg_SessionID t \<noteq> SessionID u"
proof
  assume sid: "tg_SessionID t = SessionID u"
  obtain pre post where l: "dy_log (push_deliver w i (start_on s)) = pre @ Dispatch t p # post" using assms(4) by (meson split_list)
  have "guarded i pre t" "met w pre" using deliver_tidy [of w i s] l by (auto simp: tidy_def sends_guarded_def met_def)
  then obtain now s' n s'' where s': "live_session now (USRSeq u) (SessionID u) s'" "s' = wd_before w n s''"
    using guarded_live assms(3) sid unfolding left_by_others_def by metis
  obtain xs where xs: "list_all (other_session (USRSeq u) (SessionID u)) xs" "pu_tokens s' = mrt (run au_step st1 xs)"
    using others s'(2) by blast
  have "dead (USRSeq u) (SessionID u) (run au_step st1 xs)" by (rule ended.run_inv [OF logout_dead [OF assms(1)] xs(1)])
  from dead_not_live [OF this xs(2)] s'(1) show False by simp
qed

section \<open>Hidden content\<close>

lemma same_guard: "messageStillAvailable w (i\<lparr>it_content := c\<rparr>) = messageStillAvailable w i"
  by (cases "it_accepted i") (simp_all add: fun_eq_iff messageStillAvailable_def isNoticeBroadcast_def isVerificationReview_def)

lemma same_attempts: "attempts w (i\<lparr>it_content := c\<rparr>) p t k d = attempts w i p t k d"
  by (induction k arbitrary: d) (simp_all add: same_guard split: prod.split bool.split send_result.split)

lemma same_targets: "each_target w (i\<lparr>it_content := c\<rparr>) p ts d = each_target w i p ts d"
  by (induction ts arbitrary: d) (simp_all add: same_attempts split: prod.split)

text \<open>Where the recipient has previews off, nothing that a delivery sends or does depends on the content of the
  message.\<close>

theorem preview_off_hides_content:
  assumes "\<And>n s. \<exists>q. repo_GetPreferences (it_recvrSeq i) (wd_before w n s) = Some q \<and> \<not> MessagePreviewEnabled q" "is_message i"
  shows "push_deliver w (i\<lparr>it_content := c\<rparr>) d = push_deliver w i d"
proof -
  let ?i = "i\<lparr>it_content := c\<rparr>"
  have k: "it_notice i = None" "\<not> isVerificationReview i" "\<not> isVerificationReview ?i"
    using assms(2) by (simp_all add: is_message_def isNoticeBroadcast_def isVerificationReview_def)
  have "buildPayload w ?i d = buildPayload w i d"
  proof -
    obtain r d' where r: "store_read w PreferencesRead (\<lambda>_. repo_GetPreferences (it_recvrSeq i)) d = (r, d')"
      by (cases "store_read w PreferencesRead (\<lambda>_. repo_GetPreferences (it_recvrSeq i)) d")
    have "\<exists>q. prefs = Some q \<and> \<not> MessagePreviewEnabled q" if "r = Some prefs" for prefs
      using r that assms(1) by (auto simp: store_read_def Let_def split: if_splits)
    then show ?thesis using r k by (cases r) (auto simp: buildPayload_def buildMessagePayload_def Let_def split: option.splits)
  qed
  moreover have "stillDeliverable w ?i = stillDeliverable w i" using k by (simp add: fun_eq_iff stillDeliverable_def)
  moreover have "it_recvrSeq ?i = it_recvrSeq i" by simp
  ultimately show ?thesis by (simp only: push_deliver_def same_targets)
qed

section \<open>The walk over the recipients\<close>

definition all_recipients :: "int \<Rightarrow> push_db \<Rightarrow> int \<Rightarrow> int list" where
  "all_recipients now s after = sort (remdups (filter (\<lambda>u. notice_member now s u \<and> u > after) (map dv_usr (pu_devices s))))"

lemma recipients_sorted: "sorted_wrt (<) (all_recipients now s after)"
  by (simp add: all_recipients_def strict_sorted_iff)

lemma set_recipients: "set (all_recipients now s after) = {u \<in> dv_usr ` set (pu_devices s). notice_member now s u \<and> u > after}"
  by (auto simp: all_recipients_def)

lemma page_prefix: "ListNoticeRecipientSeqs after noticeBroadcastPageSize now s = take 200 (all_recipients now s after)"
  by (simp add: ListNoticeRecipientSeqs_def noticeBroadcastPageSize_def all_recipients_def)

lemma fold_max_sorted: "sorted_wrt (<) (xs @ [x]) \<Longrightarrow> (a::int) \<le> x \<Longrightarrow> fold max (xs @ [x]) a = x"
proof -
  assume s: "sorted_wrt (<) (xs @ [x])" and a: "a \<le> x"
  have "fold max xs a \<le> x" if "\<forall>y \<in> set xs. y \<le> x" "a \<le> x" for a using that by (induction xs arbitrary: a) auto
  then show ?thesis using s a by (fastforce simp: sorted_wrt_append)
qed

text \<open>The next page starts behind the last of this one.\<close>

lemma recipients_after:
  assumes "all_recipients now s after = xs @ [x] @ ys"
  shows "all_recipients now s x = ys"
proof -
  have st: "sorted_wrt (<) (xs @ [x] @ ys)" using recipients_sorted [of now s after] assms by simp
  have "set (all_recipients now s x) = set ys"
  proof
    show "set ys \<subseteq> set (all_recipients now s x)"
    proof
      fix u assume u: "u \<in> set ys"
      then have "u \<in> set (all_recipients now s after)" "x < u" using assms st by (auto simp: sorted_wrt_append)
      then show "u \<in> set (all_recipients now s x)" by (simp add: set_recipients)
    qed
    show "set (all_recipients now s x) \<subseteq> set ys"
    proof
      fix u assume u: "u \<in> set (all_recipients now s x)"
      have "x \<in> set (all_recipients now s after)" using assms by simp
      then have "after < x" by (simp add: set_recipients)
      then have "u \<in> set (all_recipients now s after)" "x < u" using u by (auto simp: set_recipients)
      then have "u \<in> set (xs @ [x] @ ys)" using assms by simp
      then show "u \<in> set ys" using st \<open>x < u\<close> by (auto simp: sorted_wrt_append)
    qed
  qed
  then show ?thesis using recipients_sorted [of now s x] st by (intro strict_sorted_equal) (auto simp: sorted_wrt_append)
qed

lemma page_read:
  assumes "\<exists>j < k. \<not> pg_fails w (n + j)" "\<And>n. pg_waits w n"
  shows "\<exists>m. listNoticeRecipientPage w after k n = (Some (ListNoticeRecipientSeqs after noticeBroadcastPageSize (pg_now w m) (pg_db w m)), m + 1)"
  using assms(1)
proof (induction k arbitrary: n)
  case (Suc k)
  show ?case
  proof (cases "pg_fails w n")
    case True
    obtain j where j: "j < Suc k" "\<not> pg_fails w (n + j)" using Suc.prems by blast
    then obtain i where i: "j = Suc i" using True by (cases j) auto
    have "\<exists>j < k. \<not> pg_fails w (Suc n + j)" using j by (intro exI [of _ i]) (simp add: i)
    moreover have "k \<noteq> 0" using j i by simp
    ultimately show ?thesis using Suc.IH [of "Suc n"] True assms(2) by simp
  qed auto
qed simp

lemma walk_from:
  assumes steady: "\<And>n. pg_db w n = s" "\<And>n. pg_now w n = now" "\<And>n. \<exists>j < noticePageRetryAttempts. \<not> pg_fails w (n + j)"
    and accepting: "\<And>n. pg_waits w n" "\<And>u. pg_accepts w u"
  shows "\<exists>m. fanOutNotice w after n done = Some (done @ all_recipients now s after, m)"
proof (induction "length (all_recipients now s after)" arbitrary: after n "done" rule: less_induct)
  case less
  let ?L = "all_recipients now s after"
  obtain m where page: "listNoticeRecipientPage w after noticePageRetryAttempts n = (Some (take 200 ?L), m)"
    using page_read [where w = w and k = noticePageRetryAttempts and n = n and after = after] steady accepting by (auto simp: page_prefix)
  show ?case
  proof (cases "?L = []")
    case True
    then show ?thesis using page by (subst fanOutNotice.simps) simp
  next
    case False
    define P where "P = take 200 ?L"
    have P: "P \<noteq> []" "?L = P @ drop 200 ?L" using False by (simp_all add: P_def)
    then obtain ps x where x: "P = ps @ [x]" by (metis rev_exhaust)
    have L: "?L = ps @ [x] @ drop 200 ?L" using P(2) x by simp
    have "x \<in> set ?L" using L by (metis append_Cons in_set_conv_decomp append_Nil)
    then have "after \<le> x" by (simp add: set_recipients)
    moreover have "sorted_wrt (<) P" using recipients_sorted [of now s after] by (simp add: P_def sorted_wrt_take)
    ultimately have f: "fold max P after = x" using fold_max_sorted x by simp
    have rest: "all_recipients now s x = drop 200 ?L" by (rule recipients_after [OF L])
    have "length (all_recipients now s x) < length ?L" using False by (simp add: rest)
    from less [OF this] obtain m' where "fanOutNotice w x m (done @ P) = Some ((done @ P) @ all_recipients now s x, m')" by blast
    then show ?thesis using page P f accepting(2) rest by (subst fanOutNotice.simps) (simp add: P_def [symmetric] filter_id_conv)
  qed
qed


section \<open>Shutdown\<close>

definition in_order :: "notifier \<Rightarrow> bool" where
  "in_order n \<longleftrightarrow> (nq_queuesClosed n \<longrightarrow> nq_producers n = 0 \<and> nq_closed n) \<and> (nq_stop n \<noteq> Running \<longrightarrow> nq_closed n)
     \<and> length (nq_broadcast n) \<le> pushBroadcastCapacity \<and> (\<forall>k. length (nq_shards n k) \<le> pushShardCapacity)"

lemma in_order_shard: "in_order n \<Longrightarrow> in_order (enqueue_shard i n)"
  by (auto simp: in_order_def enqueue_shard_def split: option.split)

lemma in_order_step: "push_step n n' \<Longrightarrow> in_order n \<Longrightarrow> in_order n'"
proof (induction rule: push_step.induct)
  case (take_shard n k i rest)
  then have "Suc (length rest) \<le> pushShardCapacity" unfolding in_order_def by (metis length_Cons)
  then show ?case using take_shard by (auto simp: in_order_def)
next
  case (message n)
  then show ?case by (simp add: NotifyMessageReceived_def in_order_shard)
next
  case (review n)
  then show ?case by (simp add: NotifyVerificationReviewed_def in_order_shard)
qed (auto simp: NotifyNoticePublished_def startProducer_def beginShutdown_def in_order_def)

text \<open>The walks over recipients never send on a closed queue: in every reachable state in which a walk is registered
  the queues are open, no walk registers once the shutdown has begun, and no queue holds more than its capacity.\<close>

theorem walks_see_open_queues:
  assumes "push_step\<^sup>*\<^sup>* new_notifier n"
  shows "(0 < nq_producers n \<longrightarrow> \<not> nq_queuesClosed n) \<and> (nq_stop n \<noteq> Running \<longrightarrow> \<not> fst (startProducer n))
     \<and> length (nq_broadcast n) \<le> pushBroadcastCapacity \<and> (\<forall>k. length (nq_shards n k) \<le> pushShardCapacity)"
proof -
  have "in_order new_notifier" by (simp add: in_order_def new_notifier_def)
  have "in_order n" using assms by (induction rule: rtranclp_induct) (auto intro: in_order_step simp: \<open>in_order new_notifier\<close>)
  then show ?thesis by (auto simp: in_order_def startProducer_def)
qed

text \<open>Only walks are waited for: when \<^verbatim>\<open>Stop\<close> has closed the queues, a message that a request still announces is sent on
  a closed channel.\<close>

theorem late_message_panics:
  assumes "0 < recvr"
  shows "\<exists>n n'. push_step\<^sup>*\<^sup>* new_notifier n \<and> \<not> nq_panicked n \<and> push_step n n' \<and> n' = NotifyMessageReceived recvr sender name accepted content n
     \<and> nq_panicked n'"
proof -
  define n1 where "n1 = (beginShutdown new_notifier)\<lparr>nq_stop := Waiting\<rparr>"
  define n2 where "n2 = n1\<lparr>nq_queuesClosed := True, nq_stop := Draining\<rparr>"
  have "push_step new_notifier n1" unfolding n1_def by (rule stop_begins) (simp add: new_notifier_def)
  moreover have "push_step n1 n2" unfolding n2_def by (rule stop_closes) (simp_all add: n1_def beginShutdown_def new_notifier_def)
  ultimately have "push_step\<^sup>*\<^sup>* new_notifier n2" by simp
  moreover have "\<not> nq_panicked n2" by (simp add: n2_def n1_def beginShutdown_def new_notifier_def)
  moreover have "nq_panicked (NotifyMessageReceived recvr sender name accepted content n2)"
    by (simp add: NotifyMessageReceived_def enqueue_shard_def n2_def split: option.split)
  ultimately show ?thesis using push_step.message by blast
qed

section \<open>Concrete runs\<close>

text \<open>A member logs out of everything and in again: the device of the old session is still registered, the one of the new
  session gets the message, at the second attempt.\<close>

definition demo_after :: au_state where
  "demo_after = run au_step (snd (snd (LogoutAll (demo_aenv 250 ''J9'') 7 demo_rotated))) [OpIssue ((demo_aenv 300 ''J7'')\<lparr>new_sid := ''S9''\<rparr>) demo_member]"

definition demo_device :: "int \<Rightarrow> string \<Rightarrow> string \<Rightarrow> push_device" where
  "demo_device q token sid = \<lparr>dv_seq = q, dv_usr = 7, dv_platform = ''android'', dv_token = token, dv_env = None, dv_bundle = None, dv_locale = ''ko'',
     dv_sid = Some sid, dv_status = ''ACTIVE'', dv_invalid = 0, dv_seen = 0, dv_created = 0, dv_updated = 0\<rparr>"

definition demo_push_db :: push_db where
  "demo_push_db = \<lparr>pu_devices = [demo_device 1 ''old'' ''S'', demo_device 2 ''new'' ''S9''], pu_next = 3,
     pu_prefs = [\<lparr>pf_usr = 7, pf_message = ''Y'', pf_preview = ''N'', pf_notice = ''Y'', pf_created = 0, pf_updated = 0\<rparr>], pu_tokens = mrt demo_after,
     pu_messages = [\<lparr>pm_seq = 5, pm_sender = 3, pm_recvr = 7\<rparr>], pu_members = [(3, Some ''CCC''), (7, Some ''CCC'')], pu_notices = [], pu_reviews = []\<rparr>"

definition demo_push_world :: push_world where
  "demo_push_world = \<lparr>wd_before = (\<lambda>n s. demo_push_db), wd_fails = (\<lambda>_. False), wd_now = (\<lambda>_. 310), wd_send = (\<lambda>n t p. if n < 5 then SendTransient else Sent),
     wd_render = (\<lambda>k vs. \<lparr>rt_Key = k, rt_Version = 1, rt_Title = ''New'', rt_Body = ''A message''\<rparr>), wd_stamp = ([], 0)\<rparr>"

definition demo_push_item :: pushDeliveryItem where
  "demo_push_item = message_item 7 3 ''Lee'' \<lparr>sr_MessageID = 5, sr_CreatedAt = ''2026-03-01T09:00:00Z''\<rparr> ''Hello''"

lemma demo_push_runs:
  "map (\<lambda>e. case e of Dispatch t p \<Rightarrow> Some (tg_DeviceToken t, py_Preview p) | _ \<Rightarrow> None) (dy_log (push_deliver demo_push_world demo_push_item (start_on demo_push_db)))
   = [None, None, None, None, Some (''new'', ''A message''), None, None, Some (''new'', ''A message'')]"
  by code_simp

lemma demo_dispatch:
  "\<exists>pre t p post. dy_log (push_deliver demo_push_world demo_push_item (start_on demo_push_db)) = pre @ Dispatch t p # post"
proof -
  have "Some (''new'', ''A message'') \<in> set (map (\<lambda>e. case e of Dispatch t p \<Rightarrow> Some (tg_DeviceToken t, py_Preview p) | _ \<Rightarrow> None)
      (dy_log (push_deliver demo_push_world demo_push_item (start_on demo_push_db))))" unfolding demo_push_runs by simp
  then obtain e t p where "e \<in> set (dy_log (push_deliver demo_push_world demo_push_item (start_on demo_push_db)))" "e = Dispatch t p"
    by (auto split: push_event.splits)
  then show ?thesis by (metis split_list)
qed

lemma push_is_guarded_witness:
  "\<exists>pre t p post. dy_log (push_deliver demo_push_world demo_push_item (start_on demo_push_db)) = pre @ Dispatch t p # post \<and> guarded demo_push_item pre t"
  using demo_dispatch push_is_guarded by metis

lemma no_push_after_logout_witness:
  "\<exists>t p. Dispatch t p \<in> set (dy_log (push_deliver demo_push_world demo_push_item (start_on demo_push_db))) \<and> tg_SessionID t \<noteq> ''S''"
proof -
  have e: "fst (LogoutAll (demo_aenv 250 ''J9'') 7 demo_rotated) = []" by code_simp
  have u: "USRSeq demo_user = 7" "SessionID demo_user = ''S''" by (simp_all add: demo_user_def bare_user_def)
  have l: "LogoutAll (demo_aenv 250 ''J9'') (USRSeq demo_user) demo_rotated =
      ([], fst (snd (LogoutAll (demo_aenv 250 ''J9'') 7 demo_rotated)), snd (snd (LogoutAll (demo_aenv 250 ''J9'') 7 demo_rotated)))"
    using e u by (metis prod.collapse)
  have others: "\<exists>xs. list_all (other_session (USRSeq demo_user) (SessionID demo_user)) xs
      \<and> pu_tokens (wd_before demo_push_world n s) = mrt (run au_step (snd (snd (LogoutAll (demo_aenv 250 ''J9'') 7 demo_rotated))) xs)" for n s
    by (rule exI [of _ "[OpIssue ((demo_aenv 300 ''J7'')\<lparr>new_sid := ''S9''\<rparr>) demo_member]"])
       (simp add: demo_push_world_def demo_push_db_def demo_after_def u)
  obtain t p where d: "Dispatch t p \<in> set (dy_log (push_deliver demo_push_world demo_push_item (start_on demo_push_db)))"
    using demo_dispatch by (metis in_set_conv_decomp)
  have "it_recvrSeq demo_push_item = USRSeq demo_user" by (simp add: demo_push_item_def message_item_def u)
  from no_push_after_logout [OF disjI2 [OF l] others this d] d u show ?thesis by auto
qed

lemma preview_off_hides_content_witness:
  "push_deliver demo_push_world (demo_push_item\<lparr>it_content := ''Secret''\<rparr>) (start_on demo_push_db) = push_deliver demo_push_world demo_push_item (start_on demo_push_db)"
proof (rule preview_off_hides_content)
  show "\<exists>q. repo_GetPreferences (it_recvrSeq demo_push_item) (wd_before demo_push_world n s) = Some q \<and> \<not> MessagePreviewEnabled q" for n s
    by (simp add: demo_push_world_def demo_push_db_def demo_push_item_def message_item_def repo_GetPreferences_def sql_get_def)
  show "is_message demo_push_item" by (simp add: is_message_def demo_push_item_def message_item_def isNoticeBroadcast_def isVerificationReview_def)
qed


lemma walks_see_open_queues_witness:
  "push_step\<^sup>*\<^sup>* new_notifier (NotifyNoticePublished 4 new_notifier) \<and> 0 < nq_producers (NotifyNoticePublished 4 new_notifier)
   \<and> \<not> nq_queuesClosed (NotifyNoticePublished 4 new_notifier)"
proof -
  have "push_step\<^sup>*\<^sup>* new_notifier (NotifyNoticePublished 4 new_notifier)" by (blast intro: push_step.notice)
  from walks_see_open_queues [OF this] this show ?thesis
    by (simp add: NotifyNoticePublished_def startProducer_def new_notifier_def)
qed

end
