(* ===== verification/Social_Accounts.thy ===== *)
theory Social_Accounts
  imports Auth_Session Social_Link Tx_Monad
begin

text \<open>
  The social login methods of members (\<^verbatim>\<open>repository/auth_repo.go\<close>, \<^verbatim>\<open>account_connections_repo.go\<close>,
  \<^verbatim>\<open>social_auth_ownership.go\<close>, \<^verbatim>\<open>account_deletion_repo.go\<close>, \<^verbatim>\<open>signup_evidence.go\<close>) and the services above them
  (\<^verbatim>\<open>service/social_auth_service.go\<close>, \<^verbatim>\<open>auth_account_connections.go\<close>, \<^verbatim>\<open>auth_social_link.go\<close>,
  \<^verbatim>\<open>social_account_lifecycle.go\<close>): sign-up with a provider's identity, linking and disconnecting of identities, login.
  What the providers answer, encryption and SHA-256 are parameters; sessions are those of \<^verbatim>\<open>Auth_Session\<close>.
\<close>

section \<open>Tables\<close>

text \<open>\<^verbatim>\<open>WEO_MEMBER\<close>: the columns that sessions read, and those that a sign-up writes.\<close>

record so_member = au_member +
  sm_Phone :: string
  sm_FN :: string
  sm_Pwd :: string
  sm_RegDate :: int
  sm_Photo :: "string option"
  sm_Dept :: string
  sm_JobCat :: "int option"
  sm_BizName :: string
  sm_BizDesc :: string
  sm_BizAddr :: string
  sm_Position :: string
  sm_PhonePublic :: string
  sm_EmailPublic :: string

text \<open>\<^verbatim>\<open>WEO_MEMBER_SOCIAL\<close>, \<^verbatim>\<open>AUTH_IDENTITY\<close>, \<^verbatim>\<open>ALUMNI_SOCIAL_CREDENTIAL\<close>, \<^verbatim>\<open>ALUMNI_SOCIAL_REVOCATION_OUTBOX\<close>.\<close>

record social_conn =
  sc_usr :: int
  sc_gate :: string
  sc_id :: string
  sc_email :: string
  sc_status :: string
  sc_email_enabled :: string
  sc_reg :: int

record social_identity =
  si_id :: int
  si_account :: int
  si_provider :: string
  si_subject :: string
  si_email :: "string option"
  si_status :: string
  si_verified :: int
  si_revoked :: "int option"
  si_created :: int
  si_updated :: int

record social_credential =
  cd_usr :: int
  cd_provider :: string
  cd_text :: string
  cd_updated :: int

record outbox_entry =
  ox_id :: int
  ox_usr :: int
  ox_provider :: string
  ox_action :: string
  ox_status :: string
  ox_claim :: "string option"
  ox_attempts :: int
  ox_next :: int
  ox_error :: "string option"
  ox_created :: int
  ox_updated :: int

record phone_grant =
  gr_hash :: string
  gr_phone :: string
  gr_verified :: string
  gr_consumed :: string
  gr_usr :: "int option"
  gr_consumed_at :: "int option"
  gr_expires :: int

text \<open>\<open>so_files\<close> is \<^verbatim>\<open>WEO_FILES\<close> (key, path, name), \<open>so_claims\<close> \<^verbatim>\<open>AUTH_PHONE_CLAIM\<close>, \<open>so_account_states\<close>
  \<^verbatim>\<open>AUTH_ACCOUNT_STATE\<close>, \<open>so_consents\<close> \<^verbatim>\<open>AUTH_CONSENT\<close> (account, version, time), \<open>so_deletions\<close> the deletion requests,
  \<open>so_journal\<close> the row of migration 044 in \<^verbatim>\<open>_migration_journal\<close>. \<open>so_auth\<close> has the tables of \<^verbatim>\<open>Auth_Session\<close>; its members
  are a view of \<open>so_members\<close> (\<open>sessions\<close> below). \<open>so_kakao_tokens\<close> is the cache of access tokens, without its expiry.\<close>

record so_db =
  so_members :: "so_member list"
  so_next_usr :: int
  so_conns :: "social_conn list"
  so_identities :: "social_identity list"
  so_next_identity :: int
  so_credentials :: "social_credential list"
  so_outbox :: "outbox_entry list"
  so_next_outbox :: int
  so_files :: "(int \<times> string \<times> string) list"
  so_claims :: "(string \<times> int) list"
  so_account_states :: "(int \<times> string) list"
  so_consents :: "(int \<times> string \<times> int) list"
  so_grants :: "phone_grant list"
  so_deletions :: "(int \<times> string) list"
  so_journal :: "string option"
  so_auth :: au_state
  so_kakao_tokens :: "int \<Rightarrow> string option"

definition sessions :: "so_db \<Rightarrow> au_state" where
  "sessions s = (so_auth s)\<lparr>au_members := map au_member.truncate (so_members s)\<rparr>"

section \<open>Errors and environment\<close>

text \<open>\<open>MySQL number message\<close> is the driver's error; an error wrapped around it keeps only its own name here.\<close>

datatype so_error =
    MySQL int string | SoNoRows | SoOther string | SoSession au_error
  | ErrPhoneAlreadyClaimed | ErrSocialIdentityAlreadyLinked | ErrRepoLastLoginMethod | ErrRepoInvalidPhone
  | ErrPhoneClaimsMigrating | ErrSignupPhoneGrantInvalid | ErrManagedUploadUnavailable
  | ErrUnsupportedIdentityProvider | ErrRepoDisconnectPending | ErrSocialRevocationClaimExpired | ActiveConnection
  | ErrInvalidSocialProvider | ErrLastLoginMethod | ErrSocialIdentityVerification | ErrSocialCredentialStorage
  | ErrSocialDisconnectPending | ErrSocialConnectionConflict | ErrSocialAccountAlreadyLinked
  | ErrPhoneAlreadyRegistered | ErrOwnershipConfirmationRequired | ErrPhonePendingDeletion | ErrServiceInvalidPhone
  | InvalidLinkMode string | NotOneMember | UnsupportedNotification | ErrCredentialVaultNotConfigured
  | MissingKakaoToken | LinkTokenFailed

record KakaoUserInfo =
  ki_KakaoID :: string
  ki_Email :: string
  ki_Nickname :: string
  ki_ProfileImageURL :: string
  ki_AccessToken :: string

record VerifiedSocialAccount =
  va_Provider :: string
  va_Subject :: string
  va_Email :: string
  va_EmailVerified :: bool
  va_DisplayName :: string
  va_ProfileImageURL :: string
  va_ProviderToken :: string
  va_RevocationToken :: string

datatype SocialAuthorization =
    KakaoAuthorization string
  | AppleAuthorization string string string string string

text \<open>\<open>se_coll\<close>: two texts are equal under the collation of \<^verbatim>\<open>NMS_ID\<close> when it maps them to the same text.
  \<open>se_conn_keys\<close>: the unique keys of \<^verbatim>\<open>WEO_MEMBER_SOCIAL\<close> in the order the server checks them, each with whether it is over
  provider and subject (otherwise over member and provider). \<open>se_entry\<close> is how the server prints the values of a duplicate.
  \<open>se_put\<close> is \<^verbatim>\<open>SocialLinkTokenStore.Put\<close>, \<open>se_encrypt\<close> the vault if it is configured.\<close>

record so_env =
  se_now :: int
  se_flt :: "string \<Rightarrow> so_error option"
  canonicalIdentityReady :: bool
  phoneClaimsReady :: bool
  phoneClaimAutoDetection :: bool
  se_coll :: "string \<Rightarrow> string"
  se_sort :: "string list \<Rightarrow> string list"
  se_conn_keys :: "(string \<times> bool) list"
  se_entry :: "string list \<Rightarrow> string"
  se_sha256_hex :: "string \<Rightarrow> string"
  se_au :: au_env
  se_kakao_profile :: "string \<Rightarrow> (so_error, KakaoUserInfo) result"
  se_apple_verify :: "SocialAuthorization \<Rightarrow> (so_error, VerifiedSocialAccount) result"
  se_link_token :: string
  se_put :: "string \<Rightarrow> SocialLinkData \<Rightarrow> (so_error, int) result"
  se_lifecycle :: bool
  se_vaultErr :: "so_error option"
  se_vault_ready :: bool
  se_encrypt :: "string \<Rightarrow> (so_error, string) result"

type_synonym 'a so_tx = "(so_error, so_db, 'a) tx"

section \<open>Strings\<close>

text \<open>\<^verbatim>\<open>strings.LastIndex\<close>, \<^verbatim>\<open>strings.Trim\<close> with a cutset of ASCII characters, \<^verbatim>\<open>path.Base\<close>.\<close>

fun go_LastIndex :: "string \<Rightarrow> string \<Rightarrow> nat option" where
  "go_LastIndex p [] = (if p = [] then Some 0 else None)"
| "go_LastIndex p (c # s) =
     (case go_LastIndex p s of
        Some i \<Rightarrow> Some (Suc i)
      | None \<Rightarrow> if take (length p) (c # s) = p then Some 0 else None)"

definition go_Trim :: "char list \<Rightarrow> string \<Rightarrow> string" where
  "go_Trim cutset s = rev (dropWhile (\<lambda>c. c \<in> set cutset) (rev (dropWhile (\<lambda>c. c \<in> set cutset) s)))"

definition go_path_Base :: "string \<Rightarrow> string" where
  "go_path_Base p =
     (if p = [] then ''.''
      else let t = rev (dropWhile (\<lambda>c. c = CHR ''/'') (rev p));
               b = rev (takeWhile (\<lambda>c. c \<noteq> CHR ''/'') (rev t))
           in if b = [] then ''/'' else b)"

definition quote :: char where "quote = CHR 0x27"

section \<open>Duplicates\<close>

definition duplicateEntryCode :: int where "duplicateEntryCode = 1062"

text \<open>The server's message for a duplicate, as the driver hands it on.\<close>

definition duplicate_entry :: "so_env \<Rightarrow> string list \<Rightarrow> string \<Rightarrow> so_error" where
  "duplicate_entry env vals key =
     MySQL duplicateEntryCode (''Duplicate entry '' @ [quote] @ se_entry env vals @ [quote] @ '' for key '' @ [quote] @ key @ [quote])"

definition keyMarker :: string where "keyMarker = '' for key ''"

definition conflict_key :: "string \<Rightarrow> string option" where
  "conflict_key message =
     (case go_LastIndex keyMarker message of
        None \<Rightarrow> None
      | Some keyOffset \<Rightarrow>
          (let key = go_Trim [quote, CHR 0x60] (drop (keyOffset + length keyMarker) message) in
           Some (case go_LastIndex ''.'' key of None \<Rightarrow> key | Some qualifier \<Rightarrow> drop (Suc qualifier) key)))"

definition classifySocialIdentityInsertError :: "so_error \<Rightarrow> so_error" where
  "classifySocialIdentityInsertError err =
     (case err of
        MySQL number message \<Rightarrow>
          if number \<noteq> duplicateEntryCode then err
          else (case conflict_key message of
                  None \<Rightarrow> err
                | Some key \<Rightarrow>
                    if key = ''UK_PROVIDER_SUBJECT'' \<or> key = ''UQ_AUTH_IDENTITY_PROVIDER_SUBJECT''
                    then ErrSocialIdentityAlreadyLinked else err)
      | _ \<Rightarrow> err)"

definition SocialProviderKakao :: string where "SocialProviderKakao = ''KT''"
definition SocialProviderApple :: string where "SocialProviderApple = ''AP''"

definition canonicalSocialIdentityProvider :: "string \<Rightarrow> string option" where
  "canonicalSocialIdentityProvider provider =
     (if provider = SocialProviderKakao then Some ''KAKAO''
      else if provider = SocialProviderApple then Some ''APPLE''
      else None)"

section \<open>Reading members\<close>

definition so_read :: "so_env \<Rightarrow> string \<Rightarrow> 'a \<Rightarrow> (so_error, 'a) result" where
  "so_read env label a = (case se_flt env label of Some e \<Rightarrow> Inl e | None \<Rightarrow> Inr a)"

definition member_of :: "int \<Rightarrow> so_db \<Rightarrow> so_member option" where
  "member_of u s = sql_get (\<lambda>m. am_USRSeq m = u) (so_members s)"

text \<open>An inner join with the members, so a connection without its member is no match.\<close>

definition active_link :: "so_env \<Rightarrow> string \<Rightarrow> string \<Rightarrow> so_db \<Rightarrow> social_conn \<Rightarrow> bool" where
  "active_link env gate socialID s c =
     (sc_gate c = gate \<and> se_coll env (sc_id c) = se_coll env socialID \<and> sc_status c = ''ACTIVE'' \<and> member_of (sc_usr c) s \<noteq> None)"

definition FindMemberBySocialID :: "so_env \<Rightarrow> string \<Rightarrow> string \<Rightarrow> so_db \<Rightarrow> (so_error, so_member option) result" where
  "FindMemberBySocialID env gate socialID s =
     so_read env ''social.find''
       (case sql_get (active_link env gate socialID s) (so_conns s) of None \<Rightarrow> None | Some c \<Rightarrow> member_of (sc_usr c) s)"

definition legacy_phone_key :: "string \<Rightarrow> string" where
  "legacy_phone_key p = filter (\<lambda>c. c \<noteq> CHR ''-'' \<and> c \<noteq> CHR '' '') p"

definition has_phone :: "string \<Rightarrow> so_member \<Rightarrow> bool" where
  "has_phone phone m = (sm_Phone m = phone \<or> legacy_phone_key (sm_Phone m) = phone)"

definition FindMemberByPhone :: "so_env \<Rightarrow> string \<Rightarrow> so_db \<Rightarrow> (so_error, so_member option) result" where
  "FindMemberByPhone env phone s =
     so_read env ''phone.find''
       (sql_get (\<lambda>m. has_phone (NormalizePhoneNumber phone) m \<and> am_USRStatus m \<in> {''BBB'', ''CCC'', ''ZZZ''}) (so_members s))"

definition PhoneHasPendingDeletion :: "so_env \<Rightarrow> string \<Rightarrow> so_db \<Rightarrow> (so_error, bool) result" where
  "PhoneHasPendingDeletion env phone s =
     so_read env ''phone.deletion''
       (sql_affected (\<lambda>m. has_phone (NormalizePhoneNumber phone) m \<and> am_USRStatus m = ''AAA''
          \<and> (\<exists>d \<in> set (so_deletions s). fst d = am_USRSeq m \<and> snd d \<in> {''pending'', ''processing''})) (so_members s) > 0)"

text \<open>\<^verbatim>\<open>COALESCE(TRIM(USR_PWD), '') <> ''\<close>: \<^verbatim>\<open>TRIM\<close> removes spaces.\<close>

definition has_password :: "so_member \<Rightarrow> bool" where
  "has_password m = list_ex (\<lambda>c. c \<noteq> CHR '' '') (sm_Pwd m)"

record AccountConnections =
  ac_Providers :: "string list"
  ac_HasPassword :: bool

definition connected :: "int \<Rightarrow> social_conn \<Rightarrow> bool" where
  "connected u c = (sc_usr c = u \<and> sc_status c \<in> {''Y'', ''ACTIVE''})"

definition GetAccountConnections :: "so_env \<Rightarrow> int \<Rightarrow> so_db \<Rightarrow> (so_error, AccountConnections) result" where
  "GetAccountConnections env usrSeq s =
     (case se_flt env ''connections.providers'' of Some e \<Rightarrow> Inl e | None \<Rightarrow>
     (case se_flt env ''connections.password'' of Some e \<Rightarrow> Inl e | None \<Rightarrow>
     (case member_of usrSeq s of
        None \<Rightarrow> Inl SoNoRows
      | Some m \<Rightarrow> Inr \<lparr>ac_Providers = se_sort env (map sc_gate (filter (connected usrSeq) (so_conns s))), ac_HasPassword = has_password m\<rparr>)))"

record SocialIdentityOwnership =
  ow_IdentityStatus :: string
  ow_MemberStatus :: string

definition identity_at :: "string \<Rightarrow> string \<Rightarrow> social_identity \<Rightarrow> bool" where
  "identity_at provider subject i = (si_provider i = provider \<and> si_subject i = subject)"

definition FindSocialIdentityOwnership ::
  "so_env \<Rightarrow> string \<Rightarrow> string \<Rightarrow> so_db \<Rightarrow> (so_error, SocialIdentityOwnership option) result" where
  "FindSocialIdentityOwnership env provider subject s =
     (if \<not> canonicalIdentityReady env then Inr None
      else case canonicalSocialIdentityProvider provider of
        None \<Rightarrow> Inl ErrUnsupportedIdentityProvider
      | Some canonical \<Rightarrow>
          so_read env ''ownership''
            (map_option (\<lambda>i. \<lparr>ow_IdentityStatus = si_status i,
                 ow_MemberStatus = (case member_of (si_account i) s of None \<Rightarrow> [] | Some m \<Rightarrow> am_USRStatus m)\<rparr>)
               (sql_get (identity_at canonical subject) (so_identities s))))"

definition ListSocialProviders :: "so_env \<Rightarrow> int \<Rightarrow> so_db \<Rightarrow> (so_error, string list) result" where
  "ListSocialProviders env usrSeq s =
     so_read env ''providers'' (map sc_gate (filter (\<lambda>c. sc_usr c = usrSeq \<and> sc_status c = ''ACTIVE'') (so_conns s)))"

section \<open>Creating an account\<close>

record SocialAccountFields =
  sf_PhoneGrantHash :: string
  sf_Consent :: "(string \<times> int) option"
  sf_Provider :: string
  sf_SocialID :: string
  sf_SocialEmail :: string
  sf_USRSeq :: int
  sf_USRID :: string
  sf_Name :: string
  sf_Phone :: string
  sf_FN :: string
  sf_Email :: string
  sf_FmDept :: string
  sf_JobCat :: "int option"
  sf_BizName :: string
  sf_BizDesc :: string
  sf_BizAddr :: string
  sf_Position :: string
  sf_PhonePublic :: string
  sf_EmailPublic :: string
  sf_ProfileImageURL :: string
  sf_EncryptedCredential :: string

text \<open>\<^verbatim>\<open>phoneClaimsEnabledTx\<close> with \<^verbatim>\<open>detectPhoneClaimsInWriteTransaction\<close>.\<close>

definition detectPhoneClaims :: "so_env \<Rightarrow> bool so_tx" where
  "detectPhoneClaims env =
     tx_bind (query (se_flt env ''journal'') so_journal) (\<lambda>j. case j of
       None \<Rightarrow> tx_return False
     | Some state \<Rightarrow> if state = ''STARTED'' then tx_fail ErrPhoneClaimsMigrating else tx_return (state = ''APPLIED''))"

definition phoneClaimsEnabledTx :: "so_env \<Rightarrow> bool so_tx" where
  "phoneClaimsEnabledTx env =
     (if phoneClaimsReady env then tx_return True
      else if \<not> phoneClaimAutoDetection env then tx_return False
      else detectPhoneClaims env)"

definition privateSignupPhotoName :: "string \<Rightarrow> bool" where
  "privateSignupPhotoName name =
     (24 \<le> length name
      \<and> list_all (\<lambda>c. is_digit c \<or> c \<in> set ''abcdef'') (take 24 name)
      \<and> drop 24 name \<in> {''.jpg'', ''.jpeg'', ''.png'', ''.gif'', ''.webp''})"

definition lockManagedUpload :: "so_env \<Rightarrow> int \<Rightarrow> string \<Rightarrow> unit so_tx" where
  "lockManagedUpload env i raw =
     tx_bind (get_row (se_flt env ''photo.lock'') ErrManagedUploadUnavailable (\<lambda>s. sql_get (\<lambda>f. fst f = i) (so_files s)))
       (\<lambda>(_, path, name). tx_guard (path @ ''/'' @ name = raw) ErrManagedUploadUnavailable)"

definition lockPrivateSignupPhoto :: "so_env \<Rightarrow> string \<Rightarrow> unit so_tx" where
  "lockPrivateSignupPhoto env raw =
     (if \<not> go_HasPrefix raw ''/uploads/profile/'' \<or> \<not> privateSignupPhotoName (go_path_Base raw) then tx_return ()
      else if raw \<noteq> ''/uploads/profile/'' @ go_path_Base raw then tx_fail ErrManagedUploadUnavailable
      else tx_bind (get_row (se_flt env ''photo.find'') ErrManagedUploadUnavailable
                      (\<lambda>s. sql_get (\<lambda>(_, path, name). path = ''/uploads/profile'' \<and> name = go_path_Base raw) (so_files s)))
             (\<lambda>(i, _). lockManagedUpload env i raw))"

definition LegacyPhoneDigitsLimit :: nat where "LegacyPhoneDigitsLimit = 11"

definition flag_or_no :: "string \<Rightarrow> string" where
  "flag_or_no v = (if v = [] then ''N'' else v)"

definition new_member :: "so_env \<Rightarrow> SocialAccountFields \<Rightarrow> int \<Rightarrow> so_member" where
  "new_member env f u =
     \<lparr>am_USRSeq = u, am_USRID = sf_USRID f, am_USRName = sf_Name f, am_USRStatus = ''BBB'', am_Email = Some (sf_Email f), am_TotalLogCnt = 0,
      am_LastLogDate = None, sm_Phone = sf_Phone f, sm_FN = sf_FN f, sm_Pwd = [], sm_RegDate = se_now env,
      sm_Photo = (if sf_ProfileImageURL f \<noteq> [] then Some (sf_ProfileImageURL f) else None), sm_Dept = sf_FmDept f, sm_JobCat = sf_JobCat f,
      sm_BizName = sf_BizName f, sm_BizDesc = sf_BizDesc f, sm_BizAddr = sf_BizAddr f, sm_Position = sf_Position f,
      sm_PhonePublic = flag_or_no (sf_PhonePublic f), sm_EmailPublic = flag_or_no (sf_EmailPublic f)\<rparr>"

definition insert_member :: "so_env \<Rightarrow> SocialAccountFields \<Rightarrow> so_db \<Rightarrow> so_db" where
  "insert_member env f s = s\<lparr>so_members := so_members s @ [new_member env f (so_next_usr s)], so_next_usr := so_next_usr s + 1\<rparr>"

definition canonical_phone_valid :: "string \<Rightarrow> bool" where
  "canonical_phone_valid p = (7 \<le> length p \<and> length p \<le> 15)"

text \<open>Both keys of \<^verbatim>\<open>AUTH_PHONE_CLAIM\<close> report 1062.\<close>

definition claimPhoneTx :: "so_env \<Rightarrow> string \<Rightarrow> int \<Rightarrow> unit so_tx" where
  "claimPhoneTx env phone account =
     (let canonical = NormalizePhoneNumber phone in
      if \<not> canonical_phone_valid canonical then tx_fail ErrRepoInvalidPhone
      else (\<lambda>s. case se_flt env ''claim'' of
              Some e \<Rightarrow> Inl (case e of MySQL n _ \<Rightarrow> if n = duplicateEntryCode then ErrPhoneAlreadyClaimed else e | _ \<Rightarrow> e)
            | None \<Rightarrow> if list_ex (\<lambda>(p, a). p = canonical \<or> a = account) (so_claims s) then Inl ErrPhoneAlreadyClaimed
                      else Inr ((), s\<lparr>so_claims := so_claims s @ [(canonical, account)]\<rparr>)))"

definition insertActiveAccountStateTx :: "so_env \<Rightarrow> int \<Rightarrow> unit so_tx" where
  "insertActiveAccountStateTx env account =
     (\<lambda>s. case se_flt env ''account_state'' of
        Some e \<Rightarrow> Inl e
      | None \<Rightarrow> if list_ex (\<lambda>a. fst a = account) (so_account_states s) then Inl (duplicate_entry env [go_Itoa account] ''PRIMARY'')
                else Inr ((), s\<lparr>so_account_states := so_account_states s @ [(account, ''ACTIVE'')]\<rparr>))"

definition insertAlumniVerificationCompanionTx :: "so_env \<Rightarrow> int \<Rightarrow> unit so_tx" where
  "insertAlumniVerificationCompanionTx env u =
     (\<lambda>s. case se_flt env ''verification'' of
        Some e \<Rightarrow> Inl e
      | None \<Rightarrow> if list_ex (\<lambda>v. fst v = u) (au_verifications (so_auth s)) then Inl (duplicate_entry env [go_Itoa u] ''PRIMARY'')
                else Inr ((), s\<lparr>so_auth := (so_auth s)\<lparr>au_verifications := au_verifications (so_auth s)
                       @ [(u, no_verification\<lparr>av_Status := ''unsubmitted''\<rparr>)]\<rparr>\<rparr>))"

text \<open>Inserts into tables with unique keys; a duplicate is reported under the name of the first key it violates.\<close>

definition conn_clash :: "so_env \<Rightarrow> SocialAccountFields \<Rightarrow> so_db \<Rightarrow> bool \<Rightarrow> bool" where
  "conn_clash env f s by_subject =
     (if by_subject then list_ex (\<lambda>c. sc_gate c = sf_Provider f \<and> se_coll env (sc_id c) = se_coll env (sf_SocialID f)) (so_conns s)
      else list_ex (\<lambda>c. sc_usr c = sf_USRSeq f \<and> sc_gate c = sf_Provider f) (so_conns s))"

definition conn_values :: "SocialAccountFields \<Rightarrow> bool \<Rightarrow> string list" where
  "conn_values f by_subject = (if by_subject then [sf_Provider f, sf_SocialID f] else [go_Itoa (sf_USRSeq f), sf_Provider f])"

definition new_conn :: "so_env \<Rightarrow> SocialAccountFields \<Rightarrow> social_conn" where
  "new_conn env f = \<lparr>sc_usr = sf_USRSeq f, sc_gate = sf_Provider f, sc_id = sf_SocialID f, sc_email = sf_SocialEmail f,
     sc_status = ''ACTIVE'', sc_email_enabled = ''Y'', sc_reg = se_now env\<rparr>"

definition insert_conn :: "so_env \<Rightarrow> SocialAccountFields \<Rightarrow> unit so_tx" where
  "insert_conn env f s =
     (case se_flt env ''connection'' of
        Some e \<Rightarrow> Inl e
      | None \<Rightarrow>
          (case find (\<lambda>(_, b). conn_clash env f s b) (se_conn_keys env) of
             Some (key, b) \<Rightarrow> Inl (duplicate_entry env (conn_values f b) key)
           | None \<Rightarrow> Inr ((), s\<lparr>so_conns := so_conns s @ [new_conn env f]\<rparr>)))"

definition classified :: "'a so_tx \<Rightarrow> 'a so_tx" where
  "classified m s = (case m s of Inl e \<Rightarrow> Inl (classifySocialIdentityInsertError e) | Inr r \<Rightarrow> Inr r)"

definition upsert_social_credential :: "so_env \<Rightarrow> int \<Rightarrow> string \<Rightarrow> string \<Rightarrow> so_db \<Rightarrow> so_db" where
  "upsert_social_credential env u provider encrypted s =
     (let p = (\<lambda>c. cd_usr c = u \<and> cd_provider c = provider) in
      if list_ex p (so_credentials s)
      then s\<lparr>so_credentials := sql_update p (\<lambda>c. c\<lparr>cd_text := encrypted, cd_updated := se_now env\<rparr>) (so_credentials s)\<rparr>
      else s\<lparr>so_credentials := so_credentials s @ [\<lparr>cd_usr = u, cd_provider = provider, cd_text = encrypted, cd_updated = se_now env\<rparr>]\<rparr>)"

definition insertSocialConnectionTx :: "so_env \<Rightarrow> SocialAccountFields \<Rightarrow> unit so_tx" where
  "insertSocialConnectionTx env f =
     tx_then (classified (insert_conn env f))
       (if sf_EncryptedCredential f = [] then tx_return ()
        else exec (se_flt env ''credential'') (upsert_social_credential env (sf_USRSeq f) (sf_Provider f) (sf_EncryptedCredential f)))"

definition new_identity :: "so_env \<Rightarrow> SocialAccountFields \<Rightarrow> string \<Rightarrow> int \<Rightarrow> social_identity" where
  "new_identity env f provider i = \<lparr>si_id = i, si_account = sf_USRSeq f, si_provider = provider, si_subject = sf_SocialID f, si_email = None,
     si_status = ''ACTIVE'', si_verified = se_now env, si_revoked = None, si_created = se_now env, si_updated = se_now env\<rparr>"

definition insert_identity :: "so_env \<Rightarrow> SocialAccountFields \<Rightarrow> string \<Rightarrow> unit so_tx" where
  "insert_identity env f provider s =
     (case se_flt env ''identity'' of
        Some e \<Rightarrow> Inl e
      | None \<Rightarrow>
          if list_ex (identity_at provider (sf_SocialID f)) (so_identities s)
          then Inl (duplicate_entry env [provider, sf_SocialID f] ''UQ_AUTH_IDENTITY_PROVIDER_SUBJECT'')
          else Inr ((), s\<lparr>so_identities := so_identities s @ [new_identity env f provider (so_next_identity s)],
                         so_next_identity := so_next_identity s + 1\<rparr>))"

definition insertSocialIdentityTx :: "so_env \<Rightarrow> SocialAccountFields \<Rightarrow> unit so_tx" where
  "insertSocialIdentityTx env f =
     (case canonicalSocialIdentityProvider (sf_Provider f) of
        None \<Rightarrow> tx_fail ErrUnsupportedIdentityProvider
      | Some provider \<Rightarrow> classified (insert_identity env f provider))"

definition usable_signup_grant :: "so_env \<Rightarrow> string \<Rightarrow> string \<Rightarrow> phone_grant \<Rightarrow> bool" where
  "usable_signup_grant env h phone g =
     (gr_hash g = h \<and> gr_phone g = phone \<and> gr_verified g = ''Y'' \<and> gr_consumed g = ''N'' \<and> gr_expires g > se_now env)"

definition consume_grant :: "so_env \<Rightarrow> int \<Rightarrow> string \<Rightarrow> string \<Rightarrow> so_db \<Rightarrow> so_db" where
  "consume_grant env u h phone s = s\<lparr>so_grants := sql_update (usable_signup_grant env h phone)
     (\<lambda>g. g\<lparr>gr_consumed := ''Y'', gr_usr := Some u, gr_consumed_at := Some (se_now env)\<rparr>) (so_grants s)\<rparr>"

text \<open>\<^verbatim>\<open>SignupEvidence\<close> that is \<^verbatim>\<open>nil\<close> has neither grant nor consent.\<close>

definition persistSignupEvidenceTx :: "so_env \<Rightarrow> int \<Rightarrow> SocialAccountFields \<Rightarrow> unit so_tx" where
  "persistSignupEvidenceTx env u f =
     tx_then
       (if sf_PhoneGrantHash f = [] then tx_return ()
        else tx_bind (exec_count (se_flt env ''grant'') (\<lambda>s. sql_affected (usable_signup_grant env (sf_PhoneGrantHash f) (sf_Phone f)) (so_grants s))
                       (consume_grant env u (sf_PhoneGrantHash f) (sf_Phone f)))
               (\<lambda>count. tx_guard (count = 1) ErrSignupPhoneGrantInvalid))
       (case sf_Consent f of
          None \<Rightarrow> tx_return ()
        | Some (version, at) \<Rightarrow> exec (se_flt env ''consent'') (\<lambda>s. s\<lparr>so_consents := so_consents s @ [(u, version, at)]\<rparr>))"

definition create_account_body :: "so_env \<Rightarrow> SocialAccountFields \<Rightarrow> so_member so_tx" where
  "create_account_body env f =
     tx_then (lockPrivateSignupPhoto env (sf_ProfileImageURL f)) (
     tx_bind (phoneClaimsEnabledTx env) (\<lambda>claims.
     tx_then (tx_guard (claims \<or> length (NormalizePhoneNumber (sf_Phone f)) \<le> LegacyPhoneDigitsLimit) ErrRepoInvalidPhone) (
     tx_bind (exec_count (se_flt env ''member'') so_next_usr (insert_member env f)) (\<lambda>u.
     let f = f\<lparr>sf_USRSeq := u\<rparr> in
     tx_then (if claims then claimPhoneTx env (sf_Phone f) u else tx_return ()) (
     tx_then (if canonicalIdentityReady env then insertActiveAccountStateTx env u else tx_return ()) (
     tx_then (insertAlumniVerificationCompanionTx env u) (
     tx_then (insertSocialConnectionTx env f) (
     tx_then (if canonicalIdentityReady env then insertSocialIdentityTx env f else tx_return ()) (
     tx_then (persistSignupEvidenceTx env u f)
       (get_row (se_flt env ''member.get'') SoNoRows (member_of u)))))))))))"

definition CreateSocialAccount :: "so_env \<Rightarrow> SocialAccountFields \<Rightarrow> so_db \<Rightarrow> (so_error, so_member) result \<times> so_db" where
  "CreateSocialAccount env f = transact (se_flt env ''begin'') (se_flt env ''commit'') (create_account_body env f)"

section \<open>Linking\<close>

definition reactivate :: "so_env \<Rightarrow> int \<Rightarrow> int \<Rightarrow> so_db \<Rightarrow> so_db" where
  "reactivate env i u s = s\<lparr>so_identities := sql_update (\<lambda>x. si_id x = i \<and> si_account x = u \<and> si_status x = ''REVOKED'')
     (\<lambda>x. x\<lparr>si_status := ''ACTIVE'', si_revoked := None, si_verified := se_now env, si_updated := se_now env\<rparr>) (so_identities s)\<rparr>"

definition relinkSocialIdentityTx :: "so_env \<Rightarrow> SocialAccountFields \<Rightarrow> unit so_tx" where
  "relinkSocialIdentityTx env f =
     (case canonicalSocialIdentityProvider (sf_Provider f) of
        None \<Rightarrow> tx_fail ErrUnsupportedIdentityProvider
      | Some provider \<Rightarrow>
          tx_bind (query (se_flt env ''identity.get'') (\<lambda>s. sql_get (identity_at provider (sf_SocialID f)) (so_identities s))) (\<lambda>x. case x of
            None \<Rightarrow> insertSocialIdentityTx env f
          | Some i \<Rightarrow>
              if si_account i \<noteq> sf_USRSeq f \<or> (si_status i \<noteq> ''REVOKED'' \<and> si_status i \<noteq> ''ACTIVE'') then tx_fail ErrSocialIdentityAlreadyLinked
              else if si_status i = ''ACTIVE'' then tx_return ()
              else exec (se_flt env ''identity.update'') (reactivate env (si_id i) (sf_USRSeq f))))"

definition link_body :: "so_env \<Rightarrow> SocialAccountFields \<Rightarrow> unit so_tx" where
  "link_body env f =
     tx_then (insertSocialConnectionTx env f) (
     tx_bind (query (se_flt env ''revocations'') (\<lambda>s. map ox_status (filter
                (\<lambda>o'. ox_usr o' = sf_USRSeq f \<and> ox_provider o' = sf_Provider f \<and> ox_action o' = ''DISCONNECT'') (so_outbox s)))) (\<lambda>revocations.
     tx_then (tx_guard (list_all (\<lambda>st. st = ''DELIVERED'') revocations) ErrRepoDisconnectPending)
       (if canonicalIdentityReady env then relinkSocialIdentityTx env f else tx_return ())))"

definition LinkSocialIdentity :: "so_env \<Rightarrow> SocialAccountFields \<Rightarrow> so_db \<Rightarrow> (so_error, unit) result \<times> so_db" where
  "LinkSocialIdentity env f = transact (se_flt env ''begin'') (se_flt env ''commit'') (link_body env f)"

section \<open>Disconnecting\<close>

definition revoke_identity :: "so_env \<Rightarrow> int \<Rightarrow> string \<Rightarrow> so_db \<Rightarrow> so_db" where
  "revoke_identity env u canonical s = s\<lparr>so_identities := sql_update (\<lambda>i. si_account i = u \<and> si_provider i = canonical \<and> si_status i = ''ACTIVE'')
     (\<lambda>i. i\<lparr>si_status := ''REVOKED'', si_revoked := Some (se_now env), si_updated := se_now env\<rparr>) (so_identities s)\<rparr>"

definition open_disconnect :: "int \<Rightarrow> string \<Rightarrow> string \<Rightarrow> outbox_entry \<Rightarrow> bool" where
  "open_disconnect u provider action x =
     (ox_usr x = u \<and> ox_provider x = provider \<and> ox_action x = action \<and> ox_status x \<in> {''PENDING'', ''PROCESSING'', ''REVOKED''})"

definition mark_delivered :: "so_env \<Rightarrow> int \<Rightarrow> string \<Rightarrow> string \<Rightarrow> so_db \<Rightarrow> so_db" where
  "mark_delivered env u provider action s = s\<lparr>so_outbox := sql_update (open_disconnect u provider action)
     (\<lambda>x. x\<lparr>ox_status := ''DELIVERED'', ox_updated := se_now env, ox_error := None\<rparr>) (so_outbox s)\<rparr>"

definition drop_connection :: "int \<Rightarrow> string \<Rightarrow> so_db \<Rightarrow> so_db" where
  "drop_connection u provider s = s\<lparr>so_conns := sql_delete (\<lambda>c. sc_usr c = u \<and> sc_gate c = provider) (so_conns s)\<rparr>"

definition drop_credential :: "int \<Rightarrow> string \<Rightarrow> so_db \<Rightarrow> so_db" where
  "drop_credential u provider s = s\<lparr>so_credentials := sql_delete (\<lambda>c. cd_usr c = u \<and> cd_provider c = provider) (so_credentials s)\<rparr>"

definition deleteSocialConnectionTx :: "so_env \<Rightarrow> int \<Rightarrow> string \<Rightarrow> bool \<Rightarrow> bool \<Rightarrow> unit so_tx" where
  "deleteSocialConnectionTx env u provider enforceLastLoginMethod pendingOnly =
     tx_bind (query (se_flt env ''delete.providers'') (\<lambda>s. map sc_gate (filter (connected u) (so_conns s)))) (\<lambda>activeProviders.
     tx_bind (get_row (se_flt env ''delete.password'') SoNoRows (\<lambda>s. map_option has_password (member_of u s))) (\<lambda>hasPassword.
     let targetIsActive = provider \<in> set activeProviders in
     tx_then (tx_guard (\<not> (pendingOnly \<and> targetIsActive)) ActiveConnection) (
     tx_then (tx_guard (\<not> (enforceLastLoginMethod \<and> targetIsActive \<and> \<not> hasPassword \<and> length activeProviders = 1)) ErrRepoLastLoginMethod) (
     tx_then (exec (se_flt env ''delete.connection'') (drop_connection u provider)) (
     tx_then (if canonicalIdentityReady env
              then (case canonicalSocialIdentityProvider provider of
                      None \<Rightarrow> tx_fail ErrUnsupportedIdentityProvider
                    | Some canonical \<Rightarrow> exec (se_flt env ''delete.identity'') (revoke_identity env u canonical))
              else tx_return ()) (
     tx_then (exec (se_flt env ''delete.credential'') (drop_credential u provider))
       (exec (se_flt env ''delete.outbox'') (mark_delivered env u provider ''DISCONNECT''))))))))"

definition deleteSocialConnection :: "so_env \<Rightarrow> int \<Rightarrow> string \<Rightarrow> bool \<Rightarrow> bool \<Rightarrow> so_db \<Rightarrow> (so_error, unit) result \<times> so_db" where
  "deleteSocialConnection env u provider enforce pendingOnly =
     transact (se_flt env ''begin'') (se_flt env ''commit'') (deleteSocialConnectionTx env u provider enforce pendingOnly)"

definition DeleteSocialConnection :: "so_env \<Rightarrow> int \<Rightarrow> string \<Rightarrow> so_db \<Rightarrow> (so_error, unit) result \<times> so_db" where
  "DeleteSocialConnection env u provider = deleteSocialConnection env u provider True False"

definition ForceDeleteSocialConnection :: "so_env \<Rightarrow> int \<Rightarrow> string \<Rightarrow> so_db \<Rightarrow> (so_error, unit) result \<times> so_db" where
  "ForceDeleteSocialConnection env u provider = deleteSocialConnection env u provider False False"

definition UpdateSocialProviderEmailEnabled :: "so_env \<Rightarrow> int \<Rightarrow> string \<Rightarrow> bool \<Rightarrow> so_db \<Rightarrow> (so_error, unit) result \<times> so_db" where
  "UpdateSocialProviderEmailEnabled env u gate emailEnabled =
     direct (exec (se_flt env ''email'') (\<lambda>s. s\<lparr>so_conns := sql_update (\<lambda>c. sc_usr c = u \<and> sc_gate c = gate \<and> sc_status c = ''ACTIVE'')
       (\<lambda>c. c\<lparr>sc_email_enabled := (if emailEnabled then ''Y'' else ''N'')\<rparr>) (so_conns s)\<rparr>))"

definition UpsertSocialCredential :: "so_env \<Rightarrow> int \<Rightarrow> string \<Rightarrow> string \<Rightarrow> so_db \<Rightarrow> (so_error, unit) result \<times> so_db" where
  "UpsertSocialCredential env u provider encrypted = direct (exec (se_flt env ''credential'') (upsert_social_credential env u provider encrypted))"

definition GetSocialCredential :: "so_env \<Rightarrow> int \<Rightarrow> string \<Rightarrow> so_db \<Rightarrow> (so_error, string) result" where
  "GetSocialCredential env u provider s =
     so_read env ''credential.get''
       (case sql_get (\<lambda>c. cd_usr c = u \<and> cd_provider c = provider) (so_credentials s) of None \<Rightarrow> [] | Some c \<Rightarrow> cd_text c)"

section \<open>Status of a member\<close>

definition rootAdminMemberStatus :: string where "rootAdminMemberStatus = ''ZZZ''"
definition rootAdminRole :: string where "rootAdminRole = ''root''"

text \<open>The text stored as a reason, in UTF-8.\<close>

definition legacyMemberStatusRejectionReason :: string where
  "legacyMemberStatusRejectionReason = map (char_of :: nat \<Rightarrow> char)
     [0xEA, 0xB8, 0xB0, 0xEC, 0xA1, 0xB4, 0x20, 0xED, 0x9A, 0x8C, 0xEC, 0x9B, 0x90, 0x20, 0xEC, 0x83, 0x81, 0xED, 0x83, 0x9C, 0xEB, 0xA1, 0x9C,
      0x20, 0xEC, 0x9D, 0xB8, 0xED, 0x95, 0xB4, 0x20, 0xEB, 0xB0, 0x98, 0xEB, 0xA0, 0xA4, 0xEB, 0x90, 0xA8]"

definition verificationValuesForMemberStatus :: "string \<Rightarrow> (string \<times> string option) option" where
  "verificationValuesForMemberStatus status =
     (if status = ''BAA'' then Some (''rejected'', Some legacyMemberStatusRejectionReason)
      else if status = ''BBB'' then Some (''pending'', None)
      else if status = ''CCC'' \<or> status = rootAdminMemberStatus then Some (''approved'', None)
      else None)"

definition trimmed_or_null :: "string \<Rightarrow> string option" where
  "trimmed_or_null v = (let t = go_Trim '' '' v in if t = [] then None else Some t)"

definition synced :: "string \<Rightarrow> string option \<Rightarrow> string \<Rightarrow> string \<Rightarrow> AlumniVerification \<Rightarrow> AlumniVerification" where
  "synced status reason fn dept v =
     v\<lparr>av_Status := status, Cohort := trimmed_or_null fn, Department := trimmed_or_null dept, RejectionReason := reason\<rparr>"

definition on_auth :: "(au_state \<Rightarrow> au_state) \<Rightarrow> so_db \<Rightarrow> so_db" where
  "on_auth g s = s\<lparr>so_auth := g (so_auth s)\<rparr>"

text \<open>Of \<^verbatim>\<open>ALUMNI_VERIFICATION\<close> the columns of \<^verbatim>\<open>Auth_Session\<close>.\<close>

definition upsertVerificationTx :: "so_env \<Rightarrow> int \<Rightarrow> string \<Rightarrow> string \<Rightarrow> string \<Rightarrow> unit so_tx" where
  "upsertVerificationTx env u status fn dept =
     (case verificationValuesForMemberStatus status of
        None \<Rightarrow> tx_return ()
      | Some (v, reason) \<Rightarrow>
          exec (se_flt env ''status.verification'') (on_auth (\<lambda>a. a\<lparr>au_verifications :=
            (if list_ex (\<lambda>x. fst x = u) (au_verifications a)
             then sql_update (\<lambda>x. fst x = u) (\<lambda>(k, r). (k, synced v reason fn dept r)) (au_verifications a)
             else au_verifications a @ [(u, synced v reason fn dept no_verification)])\<rparr>)))"

definition upsertRootAdminRoleTx :: "so_env \<Rightarrow> int \<Rightarrow> unit so_tx" where
  "upsertRootAdminRoleTx env u =
     exec (se_flt env ''status.role'') (on_auth (\<lambda>a. a\<lparr>admin_roles :=
       (if list_ex (\<lambda>x. fst x = u) (admin_roles a) then sql_update (\<lambda>x. fst x = u) (\<lambda>(k, _). (k, rootAdminRole)) (admin_roles a)
        else admin_roles a @ [(u, rootAdminRole)])\<rparr>))"

definition syncAdminRoleForStatusChangeTx :: "so_env \<Rightarrow> int \<Rightarrow> string \<Rightarrow> string \<Rightarrow> unit so_tx" where
  "syncAdminRoleForStatusChangeTx env u oldStatus newStatus =
     (if oldStatus = newStatus then tx_return ()
      else if newStatus = rootAdminMemberStatus then upsertRootAdminRoleTx env u
      else exec (se_flt env ''status.role'') (on_auth (\<lambda>a. a\<lparr>admin_roles := sql_delete (\<lambda>x. x = (u, rootAdminRole)) (admin_roles a)\<rparr>)))"

definition syncVerificationForStatusChangeTx :: "so_env \<Rightarrow> int \<Rightarrow> string \<Rightarrow> string \<Rightarrow> string \<Rightarrow> string \<Rightarrow> unit so_tx" where
  "syncVerificationForStatusChangeTx env u oldStatus newStatus fn dept =
     (if oldStatus = newStatus then tx_return () else upsertVerificationTx env u newStatus fn dept)"

definition set_status :: "int \<Rightarrow> string \<Rightarrow> so_db \<Rightarrow> so_db" where
  "set_status u status s = s\<lparr>so_members := sql_update (\<lambda>m. am_USRSeq m = u) (\<lambda>m. m\<lparr>am_USRStatus := status\<rparr>) (so_members s)\<rparr>"

definition update_status_body :: "so_env \<Rightarrow> int \<Rightarrow> string \<Rightarrow> nat so_tx" where
  "update_status_body env u newStatus =
     tx_bind (query (se_flt env ''status.get'') (member_of u)) (\<lambda>member.
     tx_bind (exec_count (se_flt env ''status.update'')
                (\<lambda>s. sql_changed (\<lambda>m. am_USRSeq m = u) (\<lambda>m. m\<lparr>am_USRStatus := newStatus\<rparr>) (so_members s)) (set_status u newStatus)) (\<lambda>affected.
     tx_then (case member of
                None \<Rightarrow> tx_return ()
              | Some m \<Rightarrow>
                  if affected > 0
                  then tx_then (syncAdminRoleForStatusChangeTx env u (am_USRStatus m) newStatus)
                         (syncVerificationForStatusChangeTx env u (am_USRStatus m) newStatus (sm_FN m) (sm_Dept m))
                  else tx_return ())
       (tx_return affected)))"

definition updateMemberStatusAndAdminRole :: "so_env \<Rightarrow> int \<Rightarrow> string \<Rightarrow> so_db \<Rightarrow> (so_error, nat) result \<times> so_db" where
  "updateMemberStatusAndAdminRole env u newStatus =
     transact (se_flt env ''begin'') (se_flt env ''commit'') (update_status_body env u newStatus)"

definition AnonymizeAccountForDeletion :: "so_env \<Rightarrow> int \<Rightarrow> so_db \<Rightarrow> (so_error, unit) result \<times> so_db" where
  "AnonymizeAccountForDeletion env u s =
     (case updateMemberStatusAndAdminRole env u ''AAA'' s of
        (Inl e, s1) \<Rightarrow> (Inl e, s1)
      | (Inr affected, s1) \<Rightarrow> if affected \<noteq> 1 then (Inl NotOneMember, s1) else (Inr (), s1))"

section \<open>Services\<close>

definition EnsureCredentialStorageAvailable :: "so_env \<Rightarrow> string \<Rightarrow> so_error option" where
  "EnsureCredentialStorageAvailable env credential =
     (if credential = [] then None
      else case se_vaultErr env of
        Some e \<Rightarrow> Some e
      | None \<Rightarrow> if \<not> se_vault_ready env then Some ErrCredentialVaultNotConfigured else None)"

definition EncryptCredential :: "so_env \<Rightarrow> string \<Rightarrow> (so_error, string) result" where
  "EncryptCredential env credential =
     (if credential = [] then Inr []
      else case EnsureCredentialStorageAvailable env credential of Some e \<Rightarrow> Inl e | None \<Rightarrow> se_encrypt env credential)"

definition StoreCredential :: "so_env \<Rightarrow> int \<Rightarrow> string \<Rightarrow> string \<Rightarrow> so_db \<Rightarrow> (so_error, unit) result \<times> so_db" where
  "StoreCredential env u provider credential s =
     (if credential = [] then (Inr (), s)
      else case EnsureCredentialStorageAvailable env credential of
        Some e \<Rightarrow> (Inl e, s)
      | None \<Rightarrow> (case se_encrypt env credential of
                   Inl e \<Rightarrow> (Inl e, s)
                 | Inr encrypted \<Rightarrow> UpsertSocialCredential env u provider encrypted s))"

definition authorization_provider :: "SocialAuthorization \<Rightarrow> string" where
  "authorization_provider a = (case a of KakaoAuthorization _ \<Rightarrow> SocialProviderKakao | AppleAuthorization _ _ _ _ _ \<Rightarrow> SocialProviderApple)"

definition KakaoIdentityVerifier_Verify :: "so_env \<Rightarrow> SocialAuthorization \<Rightarrow> (so_error, VerifiedSocialAccount) result" where
  "KakaoIdentityVerifier_Verify env a =
     (case a of
        KakaoAuthorization token \<Rightarrow>
          if go_TrimSpace token = [] then Inl MissingKakaoToken
          else (case se_kakao_profile env token of
                  Inl e \<Rightarrow> Inl e
                | Inr info \<Rightarrow>
                    Inr \<lparr>va_Provider = SocialProviderKakao, va_Subject = ki_KakaoID info, va_Email = ki_Email info,
                         va_EmailVerified = (ki_Email info \<noteq> []), va_DisplayName = ki_Nickname info,
                         va_ProfileImageURL = ki_ProfileImageURL info, va_ProviderToken = ki_AccessToken info, va_RevocationToken = []\<rparr>)
      | _ \<Rightarrow> Inl MissingKakaoToken)"

definition verifiers :: "so_env \<Rightarrow> string \<Rightarrow> (SocialAuthorization \<Rightarrow> (so_error, VerifiedSocialAccount) result) option" where
  "verifiers env provider =
     (if provider = SocialProviderKakao then Some (KakaoIdentityVerifier_Verify env)
      else if provider = SocialProviderApple then Some (se_apple_verify env)
      else None)"

text \<open>\<open>LinkRequired\<close> has the token of the store, the verified account and the expiry. The branches for a member that
  waits for approval are left out: the policy never answers so.\<close>

datatype SocialAuthResult =
    SocialAuthenticated MobileSession | SocialLinkRequired string VerifiedSocialAccount int | SocialRejected string

definition issue_session :: "so_env \<Rightarrow> so_member \<Rightarrow> so_db \<Rightarrow> (so_error, MobileSession) result \<times> so_db" where
  "issue_session env user s =
     (case Issue (se_au env) (au_member.truncate user) (sessions s) of
        (Inl e, st) \<Rightarrow> (Inl (SoSession e), s\<lparr>so_auth := st\<rparr>)
      | (Inr session, st) \<Rightarrow> (Inr session, s\<lparr>so_auth := st\<rparr>))"

definition CompleteMobileLink :: "so_env \<Rightarrow> so_member option \<Rightarrow> so_db \<Rightarrow> (so_error, SocialAuthResult) result \<times> so_db" where
  "CompleteMobileLink env user s =
     (case EnsureLoginAllowed (map_option am_USRStatus user) of
        Some e \<Rightarrow> (Inr (SocialRejected (LoginErrorCode e)), s)
      | None \<Rightarrow>
          (case issue_session env (the user) s of
             (Inl e, s1) \<Rightarrow> (Inl e, s1)
           | (Inr session, s1) \<Rightarrow> (Inr (SocialAuthenticated session), s1)))"

definition provider_credential :: "VerifiedSocialAccount \<Rightarrow> string" where
  "provider_credential account = (if va_Provider account = SocialProviderApple then va_RevocationToken account else va_ProviderToken account)"

definition CacheKakaoToken :: "int \<Rightarrow> string \<Rightarrow> so_db \<Rightarrow> so_db" where
  "CacheKakaoToken u token s = s\<lparr>so_kakao_tokens := (so_kakao_tokens s)(u := Some token)\<rparr>"

definition cache_if_kakao :: "int \<Rightarrow> VerifiedSocialAccount \<Rightarrow> so_db \<Rightarrow> so_db" where
  "cache_if_kakao u account s =
     (if va_Provider account = SocialProviderKakao \<and> va_ProviderToken account \<noteq> [] then CacheKakaoToken u (va_ProviderToken account) s else s)"

definition resultForLinkedUser :: "so_env \<Rightarrow> so_member \<Rightarrow> VerifiedSocialAccount \<Rightarrow> so_db \<Rightarrow> (so_error, SocialAuthResult) result \<times> so_db" where
  "resultForLinkedUser env user account s =
     (case EnsureLoginAllowed (Some (am_USRStatus user)) of
        Some e \<Rightarrow> (Inr (SocialRejected (LoginErrorCode e)), s)
      | None \<Rightarrow>
          (case (if provider_credential account \<noteq> [] \<and> se_lifecycle env
                 then StoreCredential env (am_USRSeq user) (va_Provider account) (provider_credential account) s else (Inr (), s)) of
             (Inl e, s1) \<Rightarrow> (Inl e, s1)
           | (Inr _, s1) \<Rightarrow>
               (case issue_session env user s1 of
                  (Inl e, s2) \<Rightarrow> (Inl e, s2)
                | (Inr session, s2) \<Rightarrow> (Inr (SocialAuthenticated session), cache_if_kakao (am_USRSeq user) account s2))))"

text \<open>What \<^verbatim>\<open>Authenticate\<close> does with an identity that the database knows already: a rejection, or nothing.\<close>

definition ownership_rejection :: "SocialIdentityOwnership option \<Rightarrow> string option" where
  "ownership_rejection ownership =
     (case ownership of
        None \<Rightarrow> None
      | Some ow \<Rightarrow>
          (case EnsureLoginAllowed (Some (ow_MemberStatus ow)) of
             Some e \<Rightarrow> Some (LoginErrorCode e)
           | None \<Rightarrow>
               if ow_IdentityStatus ow = ''REVOKED'' then Some ''SOCIAL_ACCOUNT_RELINK_REQUIRED''
               else if ow_IdentityStatus ow = ''ACTIVE'' then None
               else Some ''ACCOUNT_SUSPENDED''))"

definition link_data :: "VerifiedSocialAccount \<Rightarrow> SocialLinkData" where
  "link_data account = \<lparr>Provider = va_Provider account, SocialID = va_Subject account, sl_Email = va_Email account, Nickname = va_DisplayName account,
     ProfileImageURL = va_ProfileImageURL account, AccessToken = va_ProviderToken account, RevocationToken = va_RevocationToken account\<rparr>"

definition Authenticate :: "so_env \<Rightarrow> SocialAuthorization option \<Rightarrow> so_db \<Rightarrow> (so_error, SocialAuthResult) result \<times> so_db" where
  "Authenticate env authorization s =
     (case authorization of None \<Rightarrow> (Inr (SocialRejected ''PROVIDER_NOT_SUPPORTED''), s) | Some a \<Rightarrow>
     (case verifiers env (authorization_provider a) of None \<Rightarrow> (Inr (SocialRejected ''PROVIDER_NOT_SUPPORTED''), s) | Some verify \<Rightarrow>
     (case verify a of Inl e \<Rightarrow> (Inl e, s) | Inr account \<Rightarrow>
     (case FindSocialIdentityOwnership env (va_Provider account) (va_Subject account) s of Inl e \<Rightarrow> (Inl e, s) | Inr ownership \<Rightarrow>
     (case ownership_rejection ownership of Some code \<Rightarrow> (Inr (SocialRejected code), s) | None \<Rightarrow>
     (case FindMemberBySocialID env (va_Provider account) (va_Subject account) s of
        Inl e \<Rightarrow> (Inl e, s)
      | Inr (Some user) \<Rightarrow> resultForLinkedUser env user account s
      | Inr None \<Rightarrow>
          if se_link_token env = [] then (Inl LinkTokenFailed, s)
          else (case se_put env (se_link_token env) (link_data account) of
                  Inl e \<Rightarrow> (Inl e, s)
                | Inr expiresAt \<Rightarrow> (Inr (SocialLinkRequired (se_link_token env) account expiresAt), s))))))))"

text \<open>\<open>again\<close>: the faults of a statement that a request issues a second time.\<close>

definition again :: "so_env \<Rightarrow> so_env" where
  "again env = env\<lparr>se_flt := \<lambda>label. se_flt env (''again.'' @ label)\<rparr>"

definition socialProviderFromPath :: "string \<Rightarrow> string option" where
  "socialProviderFromPath provider =
     (if provider = ''kakao'' then Some SocialProviderKakao else if provider = ''apple'' then Some SocialProviderApple else None)"

definition encryptedCredentialForLink :: "so_env \<Rightarrow> VerifiedSocialAccount \<Rightarrow> (so_error, string) result" where
  "encryptedCredentialForLink env account =
     (if \<not> se_lifecycle env then Inr []
      else case EncryptCredential env (provider_credential account) of Inl _ \<Rightarrow> Inl ErrSocialCredentialStorage | Inr x \<Rightarrow> Inr x)"

definition no_fields :: SocialAccountFields where
  "no_fields = \<lparr>sf_PhoneGrantHash = [], sf_Consent = None, sf_Provider = [], sf_SocialID = [], sf_SocialEmail = [], sf_USRSeq = 0, sf_USRID = [],
     sf_Name = [], sf_Phone = [], sf_FN = [], sf_Email = [], sf_FmDept = [], sf_JobCat = None, sf_BizName = [], sf_BizDesc = [],
     sf_BizAddr = [], sf_Position = [], sf_PhonePublic = [], sf_EmailPublic = [], sf_ProfileImageURL = [], sf_EncryptedCredential = []\<rparr>"

definition link_fields :: "int \<Rightarrow> string \<Rightarrow> VerifiedSocialAccount \<Rightarrow> string \<Rightarrow> SocialAccountFields" where
  "link_fields usrSeq socialProvider account encrypted =
     no_fields\<lparr>sf_USRSeq := usrSeq, sf_Provider := socialProvider, sf_SocialID := va_Subject account, sf_SocialEmail := va_Email account,
       sf_Email := va_Email account, sf_EncryptedCredential := encrypted\<rparr>"

text \<open>The outcome of the insertion. A conflict may come from a request that won the race after the first lookup.\<close>

definition link_outcome ::
  "so_env \<Rightarrow> int \<Rightarrow> string \<Rightarrow> VerifiedSocialAccount \<Rightarrow> (so_error, unit) result \<times> so_db \<Rightarrow> (so_error, AccountConnections) result \<times> so_db" where
  "link_outcome env usrSeq socialProvider account r =
     (case r of
        (Inl ErrRepoDisconnectPending, s) \<Rightarrow> (Inl ErrSocialDisconnectPending, s)
      | (Inl ErrSocialIdentityAlreadyLinked, s) \<Rightarrow>
          (case FindMemberBySocialID (again env) socialProvider (va_Subject account) s of
             Inl e \<Rightarrow> (Inl e, s)
           | Inr None \<Rightarrow> (Inl ErrSocialConnectionConflict, s)
           | Inr (Some m) \<Rightarrow>
               if am_USRSeq m = usrSeq then (GetAccountConnections env usrSeq s, s) else (Inl ErrSocialAccountAlreadyLinked, s))
      | (Inl e, s) \<Rightarrow> (Inl e, s)
      | (Inr _, s) \<Rightarrow> (let s' = cache_if_kakao usrSeq account s in (GetAccountConnections env usrSeq s', s')))"

text \<open>\<open>between\<close> is what other requests commit between the lookup and the insertion.\<close>

definition LinkIdentity ::
  "so_env \<Rightarrow> (so_db \<Rightarrow> so_db) \<Rightarrow> int \<Rightarrow> string \<Rightarrow> SocialAuthorization option \<Rightarrow> so_db \<Rightarrow> (so_error, AccountConnections) result \<times> so_db" where
  "LinkIdentity env between usrSeq provider authorization s =
     (case socialProviderFromPath provider of None \<Rightarrow> (Inl ErrInvalidSocialProvider, s) | Some socialProvider \<Rightarrow>
     (case authorization of None \<Rightarrow> (Inl ErrInvalidSocialProvider, s) | Some a \<Rightarrow>
      if authorization_provider a \<noteq> socialProvider then (Inl ErrInvalidSocialProvider, s) else
     (case verifiers env socialProvider of None \<Rightarrow> (Inl ErrInvalidSocialProvider, s) | Some verify \<Rightarrow>
     (case verify a of Inl _ \<Rightarrow> (Inl ErrSocialIdentityVerification, s) | Inr account \<Rightarrow>
      if va_Provider account \<noteq> socialProvider \<or> va_Subject account = [] then (Inl ErrSocialIdentityVerification, s) else
     (case FindMemberBySocialID env socialProvider (va_Subject account) s of
        Inl e \<Rightarrow> (Inl e, s)
      | Inr (Some m) \<Rightarrow>
          if am_USRSeq m \<noteq> usrSeq then (Inl ErrSocialAccountAlreadyLinked, s) else (GetAccountConnections env usrSeq s, s)
      | Inr None \<Rightarrow>
     (case encryptedCredentialForLink env account of Inl e \<Rightarrow> (Inl e, s) | Inr encrypted \<Rightarrow>
        link_outcome env usrSeq socialProvider account
          (LinkSocialIdentity env (link_fields usrSeq socialProvider account encrypted) (between s))))))))"

datatype SocialDisconnectResult =
    SocialDisconnectStatusNotConnected AccountConnections | SocialDisconnectStatusDisconnected AccountConnections

definition Disconnect :: "so_env \<Rightarrow> (so_db \<Rightarrow> so_db) \<Rightarrow> int \<Rightarrow> string \<Rightarrow> so_db \<Rightarrow> (so_error, SocialDisconnectResult) result \<times> so_db" where
  "Disconnect env between usrSeq provider s =
     (case socialProviderFromPath provider of None \<Rightarrow> (Inl ErrInvalidSocialProvider, s) | Some socialProvider \<Rightarrow>
     (case GetAccountConnections env usrSeq s of
        Inl e \<Rightarrow> (Inl e, s)
      | Inr connections \<Rightarrow>
          if socialProvider \<notin> set (ac_Providers connections) then (Inr (SocialDisconnectStatusNotConnected connections), s)
          else
     (case DeleteSocialConnection env usrSeq socialProvider (between s) of
        (Inl e, s1) \<Rightarrow> (Inl (if e = ErrRepoLastLoginMethod then ErrLastLoginMethod else e), s1)
      | (Inr _, s1) \<Rightarrow>
          (case GetAccountConnections (again env) usrSeq s1 of
             Inl e \<Rightarrow> (Inl e, s1)
           | Inr updated \<Rightarrow> (Inr (SocialDisconnectStatusDisconnected updated), s1)))))"

definition socialMemberID :: "so_env \<Rightarrow> string \<Rightarrow> string \<Rightarrow> string" where
  "socialMemberID env provider subject =
     (if provider = SocialProviderKakao then ''K'' @ subject
      else ''S'' @ provider @ take 29 (se_sha256_hex env (provider @ '':'' @ subject)))"

text \<open>\<^verbatim>\<open>SocialLinkParams\<close> with an empty mode or \<^verbatim>\<open>new\<close>; its tags are not used here.\<close>

definition signup_failure :: "so_error \<Rightarrow> so_error" where
  "signup_failure e =
     (if e = ErrPhoneAlreadyClaimed then ErrPhoneAlreadyRegistered
      else if e = ErrSocialIdentityAlreadyLinked then ErrSocialAccountAlreadyLinked
      else if e = ErrRepoInvalidPhone then ErrServiceInvalidPhone
      else e)"

definition createNewSocialAccount ::
  "so_env \<Rightarrow> (so_db \<Rightarrow> so_db) \<Rightarrow> SocialAccountFields \<Rightarrow> so_db \<Rightarrow> (so_error, so_member) result \<times> so_db" where
  "createNewSocialAccount env between params s =
     (case PhoneHasPendingDeletion env (NormalizePhoneNumber (sf_Phone params)) s of
        Inl e \<Rightarrow> (Inl e, s)
      | Inr True \<Rightarrow> (Inl ErrPhonePendingDeletion, s)
      | Inr False \<Rightarrow>
     (case FindMemberByPhone env (NormalizePhoneNumber (sf_Phone params)) s of
        Inl e \<Rightarrow> (Inl e, s)
      | Inr (Some _) \<Rightarrow> (Inl ErrOwnershipConfirmationRequired, s)
      | Inr None \<Rightarrow>
     (case CreateSocialAccount env (params\<lparr>sf_SocialEmail := sf_Email params, sf_USRID := socialMemberID env (sf_Provider params) (sf_SocialID params)\<rparr>) (between s) of
        (Inl e, s1) \<Rightarrow> (Inl (signup_failure e), s1)
      | (Inr m, s1) \<Rightarrow> (Inr m, s1))))"

definition LinkSocialAccount ::
  "so_env \<Rightarrow> (so_db \<Rightarrow> so_db) \<Rightarrow> string \<Rightarrow> SocialAccountFields \<Rightarrow> so_db \<Rightarrow> (so_error, so_member) result \<times> so_db" where
  "LinkSocialAccount env between mode params s =
     (if mode \<noteq> [] \<and> mode \<noteq> ''new'' then (Inl (InvalidLinkMode mode), s)
      else let canonicalPhone = NormalizePhoneNumber (sf_Phone params) in
        if \<not> canonical_phone_valid canonicalPhone then (Inl ErrServiceInvalidPhone, s)
        else createNewSocialAccount env between (params\<lparr>sf_Phone := canonicalPhone\<rparr>) s)"

datatype apple_notification = AppleNotification string string

definition on_sessions :: "(au_state \<Rightarrow> au_error option \<times> au_state) \<Rightarrow> so_db \<Rightarrow> so_error option \<times> so_db" where
  "on_sessions g s = (case g (sessions s) of (e, st) \<Rightarrow> (map_option SoSession e, s\<lparr>so_auth := st\<rparr>))"

definition as_error :: "('e, 'a) result \<times> 's \<Rightarrow> 'e option \<times> 's" where
  "as_error r = (case r of (Inl e, s) \<Rightarrow> (Some e, s) | (Inr _, s) \<Rightarrow> (None, s))"

definition ApplyAppleNotification :: "so_env \<Rightarrow> apple_notification \<Rightarrow> so_db \<Rightarrow> so_error option \<times> so_db" where
  "ApplyAppleNotification env n s =
     (case n of AppleNotification kind subject \<Rightarrow>
     (case FindMemberBySocialID env SocialProviderApple subject s of
        Inl e \<Rightarrow> (Some e, s)
      | Inr None \<Rightarrow> (None, s)
      | Inr (Some user) \<Rightarrow>
          (let u = am_USRSeq user in
           if kind = ''consent-revoked'' then
             (case on_sessions (RevokeAllMobileSessions (se_au env) u) s of
                (Some e, s1) \<Rightarrow> (Some e, s1)
              | (None, s1) \<Rightarrow>
                  (case on_sessions (DeleteLegacySessionsByUser (se_au env) u) s1 of
                     (Some e, s2) \<Rightarrow> (Some e, s2)
                   | (None, s2) \<Rightarrow> as_error (ForceDeleteSocialConnection env u SocialProviderApple s2)))
           else if kind = ''account-deleted'' then as_error (AnonymizeAccountForDeletion env u s)
           else if kind = ''email-disabled'' then as_error (UpdateSocialProviderEmailEnabled env u SocialProviderApple False s)
           else if kind = ''email-enabled'' then as_error (UpdateSocialProviderEmailEnabled env u SocialProviderApple True s)
           else (Some UnsupportedNotification, s))))"

end
