(* ===== verification/Social_Revocation.thy ===== *)
theory Social_Revocation
  imports Social_Accounts
begin

text \<open>
  The queue of provider revocations (\<^verbatim>\<open>repository/social_revocation_repo.go\<close>) and the worker that drains it
  (\<^verbatim>\<open>job/social_revocation_worker.go\<close>). Several workers may run, each with its own claim token; a step of a worker is
  one transaction or statement together with the decision that follows it, so that a history interleaves the steps of
  all of them with everything else. Every call to a provider is logged with the entry it was made for.
\<close>

section \<open>Repository\<close>

definition entry_at :: "outbox_entry \<Rightarrow> outbox_entry \<Rightarrow> bool" where
  "entry_at e x = (ox_id x = ox_id e \<and> ox_usr x = ox_usr e \<and> ox_provider x = ox_provider e \<and> ox_action x = ''DISCONNECT'')"

definition claim_text :: "outbox_entry \<Rightarrow> string" where
  "claim_text x = (case ox_claim x of None \<Rightarrow> [] | Some t \<Rightarrow> t)"

definition lockClaimedDisconnect :: "so_env \<Rightarrow> outbox_entry \<Rightarrow> string \<Rightarrow> (string \<times> string) so_tx" where
  "lockClaimedDisconnect env e claimToken =
     tx_bind (query (se_flt env ''lock.connection'')
                (\<lambda>s. case sql_get (\<lambda>c. sc_usr c = ox_usr e \<and> sc_gate c = ox_provider e) (so_conns s) of None \<Rightarrow> [] | Some c \<Rightarrow> sc_status c)) (\<lambda>connection.
     tx_bind (get_row (se_flt env ''lock.outbox'') ErrSocialRevocationClaimExpired (\<lambda>s. sql_get (entry_at e) (so_outbox s))) (\<lambda>x.
     tx_then (tx_guard (claimToken \<noteq> [] \<and> claim_text x = claimToken \<and> ox_status x \<in> {''PENDING'', ''REVOKED''}
                \<and> connection \<in> {[], ''DISCONNECTING'', ''FINALIZE_PENDING''}) ErrSocialRevocationClaimExpired)
       (tx_return (connection, ox_status x))))"

text \<open>A call to a provider: which one, and whether it accepted.\<close>

type_synonym provider_call = "string \<times> bool"

definition mark_revoked :: "so_env \<Rightarrow> outbox_entry \<Rightarrow> string \<Rightarrow> so_db \<Rightarrow> so_db" where
  "mark_revoked env e claimToken s = s\<lparr>so_outbox := sql_update (\<lambda>x. ox_id x = ox_id e \<and> ox_claim x = Some claimToken)
     (\<lambda>x. x\<lparr>ox_status := ''REVOKED'', ox_updated := se_now env\<rparr>) (so_outbox s)\<rparr>"

text \<open>Go's pair of results: whether the provider revoked, and the error. The transaction is rolled back on an error, the
  call is not.\<close>

definition RevokeClaimedSocialDisconnect ::
  "so_env \<Rightarrow> outbox_entry \<Rightarrow> string \<Rightarrow> (string \<Rightarrow> so_error option \<times> provider_call list) \<Rightarrow> so_db \<Rightarrow> (bool \<times> so_error option) \<times> provider_call list \<times> so_db" where
  "RevokeClaimedSocialDisconnect env e claimToken revoke s =
     (case se_flt env ''revoke.begin'' of Some x \<Rightarrow> ((False, Some x), [], s) | None \<Rightarrow>
     (case lockClaimedDisconnect env e claimToken s of
        Inl x \<Rightarrow> ((False, Some x), [], s)
      | Inr ((connection, status), _) \<Rightarrow>
          if status = ''REVOKED'' then ((True, se_flt env ''revoke.commit''), [], s)
          else if connection \<noteq> ''DISCONNECTING'' then ((False, Some ErrSocialRevocationClaimExpired), [], s)
          else
     (case se_flt env ''revoke.credential'' of Some x \<Rightarrow> ((False, Some x), [], s) | None \<Rightarrow>
     (case sql_get (\<lambda>c. cd_usr c = ox_usr e \<and> cd_provider c = ox_provider e) (so_credentials s) of
        None \<Rightarrow> ((False, Some SoNoRows), [], s)
      | Some c \<Rightarrow>
     (case revoke (cd_text c) of
        (Some x, calls) \<Rightarrow> ((False, Some x), calls, s)
      | (None, calls) \<Rightarrow>
     (case se_flt env ''revoke.update'' of Some x \<Rightarrow> ((True, Some x), calls, s) | None \<Rightarrow>
     (case se_flt env ''revoke.commit'' of
        Some x \<Rightarrow> ((True, Some x), calls, s)
      | None \<Rightarrow> ((True, None), calls, mark_revoked env e claimToken s))))))))"

definition finalize_body :: "so_env \<Rightarrow> outbox_entry \<Rightarrow> string \<Rightarrow> unit so_tx" where
  "finalize_body env e claimToken =
     tx_bind (lockClaimedDisconnect env e claimToken) (\<lambda>(_, status).
     tx_then (tx_guard (status = ''REVOKED'') ErrSocialRevocationClaimExpired)
       (deleteSocialConnectionTx env (ox_usr e) (ox_provider e) True True))"

definition FinalizeClaimedSocialDisconnect :: "so_env \<Rightarrow> outbox_entry \<Rightarrow> string \<Rightarrow> so_db \<Rightarrow> (so_error, unit) result \<times> so_db" where
  "FinalizeClaimedSocialDisconnect env e claimToken = transact (se_flt env ''begin'') (se_flt env ''commit'') (finalize_body env e claimToken)"

definition complete_deletion_body :: "so_env \<Rightarrow> int \<Rightarrow> string \<Rightarrow> unit so_tx" where
  "complete_deletion_body env u provider =
     tx_then (exec (se_flt env ''delete.credential'') (drop_credential u provider))
       (exec (se_flt env ''delete.outbox'') (mark_delivered env u provider ''ACCOUNT_DELETE''))"

definition CompleteAccountDeletionRevocation :: "so_env \<Rightarrow> int \<Rightarrow> string \<Rightarrow> so_db \<Rightarrow> (so_error, unit) result \<times> so_db" where
  "CompleteAccountDeletionRevocation env u provider =
     transact (se_flt env ''begin'') (se_flt env ''commit'') (complete_deletion_body env u provider)"

definition due_entry :: "so_env \<Rightarrow> int \<Rightarrow> outbox_entry \<Rightarrow> bool" where
  "due_entry env staleAfter x =
     (ox_status x \<in> {''PENDING'', ''REVOKED''} \<and> ox_next x \<le> se_now env \<and> (ox_claim x = None \<or> ox_updated x \<le> se_now env - staleAfter))"

definition claim_entries :: "so_env \<Rightarrow> string \<Rightarrow> int \<Rightarrow> nat \<Rightarrow> so_db \<Rightarrow> so_db" where
  "claim_entries env claimToken staleAfter limit s =
     (let picked = map ox_id (take limit (sort_key ox_next (filter (due_entry env staleAfter) (so_outbox s))))
      in s\<lparr>so_outbox := sql_update (\<lambda>x. ox_id x \<in> set picked) (\<lambda>x. x\<lparr>ox_claim := Some claimToken, ox_updated := se_now env\<rparr>) (so_outbox s)\<rparr>)"

text \<open>All rows under the token are read, also those of an earlier claim. A row that cannot be scanned, or that is not
  reached because the connection breaks, is left out.\<close>

definition claimed_entries :: "so_env \<Rightarrow> string \<Rightarrow> so_db \<Rightarrow> outbox_entry list" where
  "claimed_entries env claimToken s =
     filter (\<lambda>x. se_flt env (''scan.'' @ go_Itoa (ox_id x)) = None) (sort_key ox_next (filter (\<lambda>x. ox_claim x = Some claimToken) (so_outbox s)))"

definition ClaimDueSocialRevocations :: "so_env \<Rightarrow> string \<Rightarrow> int \<Rightarrow> nat \<Rightarrow> so_db \<Rightarrow> outbox_entry list \<times> so_db" where
  "ClaimDueSocialRevocations env claimToken staleAfter limit s =
     (case se_flt env ''claim'' of Some _ \<Rightarrow> ([], s) | None \<Rightarrow>
     (let s1 = claim_entries env claimToken staleAfter limit s
      in case se_flt env ''claim.read'' of Some _ \<Rightarrow> ([], s1) | None \<Rightarrow> (claimed_entries env claimToken s1, s1)))"

definition MarkSocialRevocationRevoked :: "so_env \<Rightarrow> int \<Rightarrow> so_db \<Rightarrow> (so_error, unit) result \<times> so_db" where
  "MarkSocialRevocationRevoked env outboxID =
     direct (exec (se_flt env ''mark.revoked'') (\<lambda>s. s\<lparr>so_outbox := sql_update (\<lambda>x. ox_id x = outboxID)
       (\<lambda>x. x\<lparr>ox_status := ''REVOKED'', ox_updated := se_now env\<rparr>) (so_outbox s)\<rparr>))"

definition MarkSocialRevocationSucceeded :: "so_env \<Rightarrow> int \<Rightarrow> string \<Rightarrow> so_db \<Rightarrow> (so_error, unit) result \<times> so_db" where
  "MarkSocialRevocationSucceeded env outboxID claimToken =
     direct (exec (se_flt env ''mark.succeeded'') (\<lambda>s. s\<lparr>so_outbox := sql_update (\<lambda>x. ox_id x = outboxID \<and> ox_claim x = Some claimToken)
       (\<lambda>x. x\<lparr>ox_claim := None, ox_updated := se_now env\<rparr>) (so_outbox s)\<rparr>))"

definition failed_status :: "string \<Rightarrow> int \<Rightarrow> int \<Rightarrow> string" where
  "failed_status retryStatus newAttemptCount maxAttempts =
     (if newAttemptCount \<ge> maxAttempts then (if retryStatus = ''REVOKED'' then ''FINALIZE_FAILED'' else ''FAILED'') else retryStatus)"

text \<open>At most one open entry per member, provider and action (\<^verbatim>\<open>UQ_SRO_OPEN_ACTION\<close>).\<close>

definition open_clash :: "int \<Rightarrow> int \<Rightarrow> string \<Rightarrow> string \<Rightarrow> string \<Rightarrow> so_db \<Rightarrow> bool" where
  "open_clash i u provider action status s =
     (status = ''PENDING'' \<and> (\<exists>x \<in> set (so_outbox s). ox_id x \<noteq> i \<and> ox_usr x = u \<and> ox_provider x = provider \<and> ox_action x = action
        \<and> ox_status x \<in> {''PENDING'', ''PROCESSING''}))"

definition failure_row :: "int \<Rightarrow> string \<Rightarrow> outbox_entry \<Rightarrow> bool" where
  "failure_row i claimToken x = (ox_id x = i \<and> ox_status x \<noteq> ''DELIVERED'' \<and> ox_claim x = Some claimToken)"

definition record_failure :: "so_env \<Rightarrow> int \<Rightarrow> string \<Rightarrow> string \<Rightarrow> int \<Rightarrow> string \<Rightarrow> int \<Rightarrow> so_db \<Rightarrow> so_db" where
  "record_failure env i claimToken status attempts msg next s = s\<lparr>so_outbox := sql_update (failure_row i claimToken)
     (\<lambda>x. x\<lparr>ox_status := status, ox_claim := None, ox_attempts := attempts, ox_error := Some msg, ox_next := next, ox_updated := se_now env\<rparr>) (so_outbox s)\<rparr>"

definition MarkSocialRevocationFailed ::
  "so_env \<Rightarrow> int \<Rightarrow> string \<Rightarrow> int \<Rightarrow> int \<Rightarrow> int \<Rightarrow> string \<Rightarrow> string \<Rightarrow> so_db \<Rightarrow> (so_error, unit) result \<times> so_db" where
  "MarkSocialRevocationFailed env i errMsg newAttemptCount maxAttempts nextAttempt retryStatus claimToken s =
     (case se_flt env ''mark.failed'' of
        Some e \<Rightarrow> (Inl e, s)
      | None \<Rightarrow>
          (let status = failed_status retryStatus newAttemptCount maxAttempts in
           if \<exists>x \<in> set (so_outbox s). failure_row i claimToken x \<and> open_clash i (ox_usr x) (ox_provider x) (ox_action x) status s
           then (Inl (duplicate_entry env [] ''UQ_SRO_OPEN_ACTION''), s)
           else (Inr (), record_failure env i claimToken status newAttemptCount (take 500 errMsg) nextAttempt s)))"

text \<open>Rows enter the queue through an operator's start of a deletion, and through \<open>EnqueueSocialRevocation\<close>.\<close>

definition new_outbox :: "so_env \<Rightarrow> int \<Rightarrow> string \<Rightarrow> string \<Rightarrow> string \<Rightarrow> int \<Rightarrow> outbox_entry" where
  "new_outbox env u provider action msg i = \<lparr>ox_id = i, ox_usr = u, ox_provider = provider, ox_action = action, ox_status = ''PENDING'', ox_claim = None,
     ox_attempts = 0, ox_next = se_now env, ox_error = Some msg, ox_created = se_now env, ox_updated = se_now env\<rparr>"

definition EnqueueSocialRevocation :: "so_env \<Rightarrow> int \<Rightarrow> string \<Rightarrow> string \<Rightarrow> string \<Rightarrow> so_db \<Rightarrow> (so_error, unit) result \<times> so_db" where
  "EnqueueSocialRevocation env u provider action failure s =
     (case se_flt env ''enqueue'' of
        Some e \<Rightarrow> (Inl e, s)
      | None \<Rightarrow>
          if open_clash (so_next_outbox s) u provider action ''PENDING'' s then (Inl (duplicate_entry env [] ''UQ_SRO_OPEN_ACTION''), s)
          else (Inr (), s\<lparr>so_outbox := so_outbox s @ [new_outbox env u provider action (take 500 failure) (so_next_outbox s)],
                         so_next_outbox := so_next_outbox s + 1\<rparr>))"

text \<open>The operator's \<^verbatim>\<open>retry_social\<close>, one statement of \<^verbatim>\<open>ControlAccountErasure\<close>.\<close>

definition retry_entry :: "so_env \<Rightarrow> outbox_entry \<Rightarrow> outbox_entry" where
  "retry_entry env x = x\<lparr>ox_attempts := (if ox_status x \<in> {''FAILED'', ''FINALIZE_FAILED''} then 0 else ox_attempts x),
     ox_status := (if ox_status x \<in> {''FINALIZE_FAILED'', ''REVOKED''} then ''REVOKED'' else ''PENDING''),
     ox_claim := None, ox_next := se_now env, ox_error := None, ox_updated := se_now env\<rparr>"

definition retry_social :: "so_env \<Rightarrow> int \<Rightarrow> so_db \<Rightarrow> so_db" where
  "retry_social env u s = s\<lparr>so_outbox := sql_update (\<lambda>x. ox_usr x = u \<and> ox_action x = ''ACCOUNT_DELETE''
     \<and> ox_status x \<in> {''FAILED'', ''FINALIZE_FAILED'', ''PENDING'', ''REVOKED''}) (retry_entry env) (so_outbox s)\<rparr>"

section \<open>The providers\<close>

text \<open>What the providers answer: a token of Kakao, an account of Kakao by its subject (with the administrator's key), a token of
  Apple if that is configured. \<open>rv_decrypt\<close> is the vault.\<close>

record rv_env =
  rv_so :: so_env
  rv_vaultErr :: "so_error option"
  rv_decrypt :: "string \<Rightarrow> (so_error, string) result"
  rv_kakao_token :: "string \<Rightarrow> so_error option"
  rv_kakao_admin_key :: bool
  rv_kakao_account :: "string \<Rightarrow> so_error option"
  rv_apple :: "(string \<Rightarrow> so_error option) option"
  rv_error_text :: "so_error \<Rightarrow> string"

definition asked :: "string \<Rightarrow> so_error option \<Rightarrow> so_error option \<times> provider_call list" where
  "asked provider answer = (answer, [(provider, answer = None)])"

definition revokeCredential :: "rv_env \<Rightarrow> string \<Rightarrow> string \<Rightarrow> so_error option \<times> provider_call list" where
  "revokeCredential env provider credential =
     (if provider = SocialProviderKakao then asked provider (rv_kakao_token env credential)
      else if provider = SocialProviderApple then
        (case rv_apple env of None \<Rightarrow> (Some (SoOther ''apple revocation not configured''), []) | Some f \<Rightarrow> asked provider (f credential))
      else (Some (SoOther ''unsupported social provider''), []))"

definition revoke_encrypted :: "rv_env \<Rightarrow> string \<Rightarrow> string \<Rightarrow> so_error option \<times> provider_call list" where
  "revoke_encrypted env provider encrypted =
     (case rv_vaultErr env of Some e \<Rightarrow> (Some e, []) | None \<Rightarrow>
      if encrypted = [] then (Some (SoOther ''no stored credential to revoke''), [])
      else (case rv_decrypt env encrypted of
              Inl e \<Rightarrow> (Some e, [])
            | Inr credential \<Rightarrow> revokeCredential env provider credential))"

definition loadCredential :: "rv_env \<Rightarrow> int \<Rightarrow> string \<Rightarrow> so_db \<Rightarrow> (so_error, string) result" where
  "loadCredential env u provider s =
     (case rv_vaultErr env of Some e \<Rightarrow> Inl e | None \<Rightarrow>
     (case GetSocialCredential (rv_so env) u provider s of
        Inl e \<Rightarrow> Inl e
      | Inr encrypted \<Rightarrow> if encrypted = [] then Inr [] else rv_decrypt env encrypted))"

definition AccountDeletionKakaoSubject :: "so_env \<Rightarrow> int \<Rightarrow> so_db \<Rightarrow> (so_error, string) result" where
  "AccountDeletionKakaoSubject env u s =
     (case se_flt env ''kakao.subject'' of Some e \<Rightarrow> Inl e | None \<Rightarrow>
     (case sql_get (\<lambda>c. sc_usr c = u \<and> sc_gate c = ''KT'') (so_conns s) of
        None \<Rightarrow> Inl SoNoRows
      | Some c \<Rightarrow> (case member_of u s of
                     None \<Rightarrow> Inl SoNoRows
                   | Some m \<Rightarrow> if am_USRStatus m = ''AAA'' then Inr (sc_id c) else Inl SoNoRows)))"

definition UnlinkKakaoAccount :: "rv_env \<Rightarrow> int \<Rightarrow> so_db \<Rightarrow> so_error option \<times> provider_call list" where
  "UnlinkKakaoAccount env u s =
     (if \<not> rv_kakao_admin_key env then (Some (SoOther ''KAKAO_ADMIN_UNLINK_CONFIGURATION_REQUIRED''), [])
      else case AccountDeletionKakaoSubject (rv_so env) u s of
        Inl _ \<Rightarrow> (Some (SoOther ''KAKAO_SUBJECT_REVIEW_REQUIRED''), [])
      | Inr subject \<Rightarrow>
          (case go_Atoi subject of
             (n, None) \<Rightarrow> if n \<le> 0 then (Some (SoOther ''KAKAO_SUBJECT_REVIEW_REQUIRED''), [])
                          else asked SocialProviderKakao (rv_kakao_account env subject)
           | (_, Some _) \<Rightarrow> (Some (SoOther ''KAKAO_SUBJECT_REVIEW_REQUIRED''), [])))"

definition socialRevocationActionDisconnect :: string where "socialRevocationActionDisconnect = ''DISCONNECT''"
definition socialRevocationActionAccountDelete :: string where "socialRevocationActionAccountDelete = ''ACCOUNT_DELETE''"

definition worker_revoke :: "rv_env \<Rightarrow> outbox_entry \<Rightarrow> so_db \<Rightarrow> so_error option \<times> provider_call list" where
  "worker_revoke env e s =
     (if ox_provider e \<noteq> SocialProviderKakao \<and> ox_provider e \<noteq> SocialProviderApple then (Some (SoOther ''unsupported social provider''), [])
      else if ox_action e = socialRevocationActionAccountDelete \<and> ox_provider e = SocialProviderKakao then UnlinkKakaoAccount env (ox_usr e) s
      else (case loadCredential env (ox_usr e) (ox_provider e) s of
              Inl x \<Rightarrow> (Some x, [])
            | Inr credential \<Rightarrow>
                if credential = [] then (Some (SoOther ''no stored credential to revoke''), [])
                else revokeCredential env (ox_provider e) credential))"

section \<open>The worker\<close>

definition socialRevocationBatchSize :: nat where "socialRevocationBatchSize = 20"
definition socialRevocationMaxAttempt :: int where "socialRevocationMaxAttempt = 10"
definition socialRevocationMaxBackoff :: int where "socialRevocationMaxBackoff = 3600"
definition socialRevocationClaimStaleAfter :: int where "socialRevocationClaimStaleAfter = 300"

text \<open>In seconds; attempts are at most \<open>socialRevocationMaxAttempt\<close>, far from the overflow of the code's arithmetic.\<close>

definition backoffDuration :: "int \<Rightarrow> int" where
  "backoffDuration attemptCount =
     (if attemptCount < 0 then socialRevocationMaxBackoff else min (2 ^ nat attemptCount * 60) socialRevocationMaxBackoff)"

text \<open>Where a worker is: between two ticks; before the next entry; or inside \<^verbatim>\<open>processEntry\<close>, before \<^verbatim>\<open>recordFailure\<close> (with
  the error and the retry status), before \<^verbatim>\<open>MarkSocialRevocationRevoked\<close>, before \<^verbatim>\<open>finalize\<close> or before the release of the
  claim. The list are the entries of this tick still to be processed.\<close>

datatype worker_pc =
    WIdle
  | WNext "outbox_entry list"
  | WRecord outbox_entry so_error string "outbox_entry list"
  | WMark outbox_entry "outbox_entry list"
  | WFinalize outbox_entry "outbox_entry list"
  | WRelease outbox_entry "outbox_entry list"

definition worker_finalize :: "rv_env \<Rightarrow> string \<Rightarrow> outbox_entry \<Rightarrow> so_db \<Rightarrow> (so_error, unit) result \<times> so_db" where
  "worker_finalize env claimToken e s =
     (if ox_action e = socialRevocationActionDisconnect then FinalizeClaimedSocialDisconnect (rv_so env) e claimToken s
      else if ox_action e = socialRevocationActionAccountDelete then CompleteAccountDeletionRevocation (rv_so env) (ox_usr e) (ox_provider e) s
      else (Inl (SoOther (''unsupported social revocation action: '' @ ox_action e)), s))"

definition recordFailure :: "rv_env \<Rightarrow> string \<Rightarrow> outbox_entry \<Rightarrow> so_error \<Rightarrow> string \<Rightarrow> so_db \<Rightarrow> (so_error, unit) result \<times> so_db" where
  "recordFailure env claimToken e err retryStatus =
     (let attemptCount = ox_attempts e + 1
      in MarkSocialRevocationFailed (rv_so env) (ox_id e) (rv_error_text env err) attemptCount socialRevocationMaxAttempt
           (se_now (rv_so env) + backoffDuration attemptCount) retryStatus claimToken)"

definition start_disconnect :: "rv_env \<Rightarrow> string \<Rightarrow> outbox_entry \<Rightarrow> outbox_entry list \<Rightarrow> so_db \<Rightarrow> worker_pc \<times> provider_call list \<times> so_db" where
  "start_disconnect env claimToken e rest s =
     (case RevokeClaimedSocialDisconnect (rv_so env) e claimToken (revoke_encrypted env (ox_provider e)) s of
        ((_, None), calls, s1) \<Rightarrow> (WFinalize e rest, calls, s1)
      | ((revoked, Some err), calls, s1) \<Rightarrow>
          (if err = ErrSocialRevocationClaimExpired then WNext rest
           else WRecord e err (if revoked then ''REVOKED'' else ''PENDING'') rest, calls, s1))"

definition start_other :: "rv_env \<Rightarrow> outbox_entry \<Rightarrow> outbox_entry list \<Rightarrow> so_db \<Rightarrow> worker_pc \<times> provider_call list \<times> so_db" where
  "start_other env e rest s =
     (if ox_status e = ''REVOKED'' then (WFinalize e rest, [], s)
      else case worker_revoke env e s of
        (Some err, calls) \<Rightarrow> (WRecord e err ''PENDING'' rest, calls, s)
      | (None, calls) \<Rightarrow> (WMark e rest, calls, s))"

text \<open>One step of \<^verbatim>\<open>processDue\<close> and \<^verbatim>\<open>processEntry\<close>; the calls it made are for the entry at hand.\<close>

fun worker_step :: "rv_env \<Rightarrow> string \<Rightarrow> worker_pc \<Rightarrow> so_db \<Rightarrow> worker_pc \<times> (int \<times> provider_call) list \<times> so_db" where
  "worker_step env tok WIdle s =
     (case ClaimDueSocialRevocations (rv_so env) tok socialRevocationClaimStaleAfter socialRevocationBatchSize s of
        (entries, s1) \<Rightarrow> (WNext entries, [], s1))"
| "worker_step env tok (WNext []) s = (WIdle, [], s)"
| "worker_step env tok (WNext (e # rest)) s =
     (case (if ox_action e = socialRevocationActionDisconnect then start_disconnect env tok e rest s else start_other env e rest s) of
        (pc, calls, s1) \<Rightarrow> (pc, map (Pair (ox_id e)) calls, s1))"
| "worker_step env tok (WRecord e err retryStatus rest) s = (WNext rest, [], snd (recordFailure env tok e err retryStatus s))"
| "worker_step env tok (WMark e rest) s =
     (case MarkSocialRevocationRevoked (rv_so env) (ox_id e) s of
        (Inl err, s1) \<Rightarrow> (WRecord e err ''REVOKED'' rest, [], s1)
      | (Inr _, s1) \<Rightarrow> (WFinalize e rest, [], s1))"
| "worker_step env tok (WFinalize e rest) s =
     (case worker_finalize env tok e s of
        (Inl err, s1) \<Rightarrow> (if err = ErrSocialRevocationClaimExpired then WNext rest else WRecord e err ''REVOKED'' rest, [], s1)
      | (Inr _, s1) \<Rightarrow> (WRelease e rest, [], s1))"
| "worker_step env tok (WRelease e rest) s = (WNext rest, [], snd (MarkSocialRevocationSucceeded (rv_so env) (ox_id e) tok s))"

section \<open>Histories\<close>

text \<open>Requests. The requests inside an operation run between its lookup and its transaction.\<close>

datatype so_op =
    OpSignup so_env "so_op list" string SocialAccountFields
  | OpLink so_env "so_op list" int string "SocialAuthorization option"
  | OpDisconnect so_env "so_op list" int string
  | OpLogin so_env "SocialAuthorization option"
  | OpAppleNotice so_env apple_notification
  | OpEnqueue so_env int string string string
  | OpRetry so_env int

fun so_step :: "so_db \<Rightarrow> so_op \<Rightarrow> so_db" and so_run :: "so_db \<Rightarrow> so_op list \<Rightarrow> so_db" where
  "so_step s (OpSignup env inside mode params) = snd (LinkSocialAccount env (\<lambda>s. so_run s inside) mode params s)"
| "so_step s (OpLink env inside usrSeq provider authorization) = snd (LinkIdentity env (\<lambda>s. so_run s inside) usrSeq provider authorization s)"
| "so_step s (OpDisconnect env inside usrSeq provider) = snd (Disconnect env (\<lambda>s. so_run s inside) usrSeq provider s)"
| "so_step s (OpLogin env authorization) = snd (Authenticate env authorization s)"
| "so_step s (OpAppleNotice env n) = snd (ApplyAppleNotification env n s)"
| "so_step s (OpEnqueue env u provider action failure) = snd (EnqueueSocialRevocation env u provider action failure s)"
| "so_step s (OpRetry env u) = retry_social env u s"
| "so_run s [] = s"
| "so_run s (x # xs) = so_run (so_step s x) xs"

record rv_state =
  rv_db :: so_db
  rv_workers :: "string \<Rightarrow> worker_pc"
  rv_calls :: "(int \<times> provider_call) list"

datatype rv_op = Request so_op | Work rv_env string | Restart string

fun rv_step :: "rv_state \<Rightarrow> rv_op \<Rightarrow> rv_state" where
  "rv_step s (Request x) = s\<lparr>rv_db := so_step (rv_db s) x\<rparr>"
| "rv_step s (Work env tok) =
     (case worker_step env tok (rv_workers s tok) (rv_db s) of
        (pc, calls, db) \<Rightarrow> s\<lparr>rv_db := db, rv_workers := (rv_workers s)(tok := pc), rv_calls := rv_calls s @ calls\<rparr>)"
| "rv_step s (Restart tok) = s\<lparr>rv_workers := (rv_workers s)(tok := WIdle)\<rparr>"

end
