(* ===== verification/Social_Props.thy ===== *)
theory Social_Props
  imports Social_Revocation
begin

text \<open>
  Properties of social login methods: a provider identity stays with the account it was first bound to, a member who can
  log in cannot disconnect the last way to do so, disconnecting and linking again restores the connections, and a
  provider is asked to revoke a disconnected identity at most once.
\<close>

section \<open>What every statement keeps\<close>

text \<open>Identities keep their account; an entry of the queue for a disconnect keeps its claim, and its status except that it
  may become delivered; members keep their password.\<close>

definition outbox_kept :: "outbox_entry \<Rightarrow> outbox_entry \<Rightarrow> bool" where
  "outbox_kept x x' =
     (ox_id x' = ox_id x \<and> ox_action x' = ox_action x
      \<and> (ox_action x = ''DISCONNECT'' \<longrightarrow> ox_claim x' = ox_claim x \<and> (ox_status x' = ox_status x \<or> ox_status x' = ''DELIVERED'')))"

definition outbox_rel :: "so_db \<Rightarrow> so_db \<Rightarrow> bool" where
  "outbox_rel s s' =
     ((\<forall>x' \<in> set (so_outbox s'). (\<exists>x \<in> set (so_outbox s). outbox_kept x x') \<or> so_next_outbox s \<le> ox_id x')
      \<and> so_next_outbox s \<le> so_next_outbox s'
      \<and> (keys_ok ox_id (so_next_outbox s) (so_outbox s) \<longrightarrow> keys_ok ox_id (so_next_outbox s') (so_outbox s')))"

definition same_binding :: "social_identity \<Rightarrow> social_identity \<Rightarrow> bool" where
  "same_binding i i' = (si_account i' = si_account i \<and> si_provider i' = si_provider i \<and> si_subject i' = si_subject i)"

definition identities_rel :: "so_db \<Rightarrow> so_db \<Rightarrow> bool" where
  "identities_rel s s' = (\<forall>i \<in> set (so_identities s). \<exists>i' \<in> set (so_identities s'). same_binding i i')"

definition members_rel :: "so_db \<Rightarrow> so_db \<Rightarrow> bool" where
  "members_rel s s' = (\<forall>u m. member_of u s = Some m \<longrightarrow> (\<exists>m'. member_of u s' = Some m' \<and> sm_Pwd m' = sm_Pwd m))"

definition so_rel :: "so_db \<Rightarrow> so_db \<Rightarrow> bool" where
  "so_rel s s' = (outbox_rel s s' \<and> identities_rel s s' \<and> members_rel s s')"

lemma outbox_rel_refl: "outbox_rel s s"
  by (auto simp: outbox_rel_def outbox_kept_def)

lemma outbox_kept_trans: "outbox_kept x y \<Longrightarrow> outbox_kept y z \<Longrightarrow> outbox_kept x z"
  by (auto simp: outbox_kept_def)

lemma outbox_rel_trans:
  assumes "outbox_rel s t" "outbox_rel t u"
  shows "outbox_rel s u"
proof -
  have "(\<exists>x \<in> set (so_outbox s). outbox_kept x z) \<or> so_next_outbox s \<le> ox_id z" if z: "z \<in> set (so_outbox u)" for z
  proof -
    from assms(2) z consider y where "y \<in> set (so_outbox t)" "outbox_kept y z" | "so_next_outbox t \<le> ox_id z"
      unfolding outbox_rel_def by blast
    then show ?thesis
    proof cases
      case 1
      then have same: "ox_id z = ox_id y" by (simp add: outbox_kept_def)
      from assms(1) 1(1) show ?thesis
        unfolding outbox_rel_def same using outbox_kept_trans [OF _ 1(2)] by blast
    qed (use assms(1) in \<open>auto simp: outbox_rel_def\<close>)
  qed
  with assms show ?thesis unfolding outbox_rel_def by (meson order_trans)
qed

lemma identities_rel_trans: "identities_rel s t \<Longrightarrow> identities_rel t u \<Longrightarrow> identities_rel s u"
  unfolding identities_rel_def same_binding_def by metis

lemma members_rel_trans: "members_rel s t \<Longrightarrow> members_rel t u \<Longrightarrow> members_rel s u"
  unfolding members_rel_def by metis

lemma so_rel_refl: "so_rel s s"
  by (auto simp: so_rel_def outbox_rel_refl identities_rel_def members_rel_def same_binding_def)

lemma so_rel_trans: "so_rel s t \<Longrightarrow> so_rel t u \<Longrightarrow> so_rel s u"
  unfolding so_rel_def by (blast intro: outbox_rel_trans identities_rel_trans members_rel_trans)

interpretation soR: tx_relation so_rel
  by unfold_locales (fact so_rel_refl, fact so_rel_trans)

text \<open>Statements on other tables.\<close>

lemma so_rel_frame:
  assumes "so_outbox s' = so_outbox s" "so_next_outbox s' = so_next_outbox s" "so_identities s' = so_identities s" "so_members s' = so_members s"
  shows "so_rel s s'"
  using so_rel_refl [of s] assms by (simp add: so_rel_def outbox_rel_def identities_rel_def members_rel_def member_of_def)

lemma so_rel_identities:
  assumes "so_outbox s' = so_outbox s" "so_next_outbox s' = so_next_outbox s" "so_members s' = so_members s" "identities_rel s s'"
  shows "so_rel s s'"
  using so_rel_refl [of s] assms by (simp add: so_rel_def outbox_rel_def members_rel_def member_of_def)

lemma so_rel_members:
  assumes "so_outbox s' = so_outbox s" "so_next_outbox s' = so_next_outbox s" "so_identities s' = so_identities s" "members_rel s s'"
  shows "so_rel s s'"
  using so_rel_refl [of s] assms by (simp add: so_rel_def outbox_rel_def identities_rel_def)

lemma so_rel_outbox:
  assumes "so_members s' = so_members s" "so_identities s' = so_identities s" "outbox_rel s s'"
  shows "so_rel s s'"
  using so_rel_refl [of s] assms by (simp add: so_rel_def members_rel_def identities_rel_def member_of_def)

lemma identities_rel_update:
  assumes "\<And>i. same_binding i (f i)" "so_identities s' = sql_update p f (so_identities s)"
  shows "identities_rel s s'"
  unfolding identities_rel_def
proof
  fix i assume "i \<in> set (so_identities s)"
  then have "(if p i then f i else i) \<in> set (so_identities s')" by (auto simp: assms(2) sql_update_def)
  moreover have "same_binding i (if p i then f i else i)" using assms(1) by (simp add: same_binding_def)
  ultimately show "\<exists>i' \<in> set (so_identities s'). same_binding i i'" by blast
qed

lemma outbox_rel_update:
  assumes "\<And>x. x \<in> set (so_outbox s) \<Longrightarrow> p x \<Longrightarrow> outbox_kept x (f x)" "\<And>x. ox_id (f x) = ox_id x"
    "so_outbox s' = sql_update p f (so_outbox s)" "so_next_outbox s' = so_next_outbox s"
  shows "outbox_rel s s'"
proof -
  have keys: "map ox_id (so_outbox s') = map ox_id (so_outbox s)"
    using assms(2) by (simp add: assms(3) map_key_sql_update)
  then have img: "ox_id ` set (so_outbox s') = ox_id ` set (so_outbox s)" by (metis set_map)
  have kept: "\<exists>x \<in> set (so_outbox s). outbox_kept x x'" if "x' \<in> set (so_outbox s')" for x'
    using that assms(1) unfolding assms(3) by (force simp: sql_update_def outbox_kept_def split: if_splits)
  have "keys_ok ox_id (so_next_outbox s') (so_outbox s')" if ok: "keys_ok ox_id (so_next_outbox s) (so_outbox s)"
  proof -
    have "\<forall>k \<in> ox_id ` set (so_outbox s'). 1 \<le> k \<and> k < so_next_outbox s" unfolding img using ok by (auto simp: keys_ok_def)
    then show ?thesis using ok keys by (simp add: keys_ok_def assms(4))
  qed
  with kept show ?thesis by (simp add: outbox_rel_def assms(4))
qed

lemma find_Some_append: "find p t = Some x \<Longrightarrow> find p (t @ u) = Some x"
  by (induction t) (auto split: if_splits)

lemma member_of_append: "member_of u s = Some m \<Longrightarrow> so_members s' = so_members s @ ms \<Longrightarrow> member_of u s' = Some m"
  by (auto simp: member_of_def sql_get_def find_Some_append)

section \<open>Bodies\<close>

lemma est_raw:
  assumes "\<And>s a s'. m s = Inr (a, s') \<Longrightarrow> so_rel s s'"
  shows "establishes so_rel m"
  using assms by (auto simp: establishes_def)

lemma classified_ok: "classified m s = Inr r \<longleftrightarrow> m s = Inr r"
  by (auto simp: classified_def split: sum.splits)

lemma insert_conn_ok:
  "insert_conn env f s = Inr (u, s') \<longleftrightarrow>
     se_flt env ''connection'' = None \<and> (\<forall>(k, b) \<in> set (se_conn_keys env). \<not> conn_clash env f s b) \<and> s' = s\<lparr>so_conns := so_conns s @ [new_conn env f]\<rparr>"
  by (auto simp: insert_conn_def find_None_iff split: option.splits prod.splits dest!: sql_get_Some [unfolded sql_get_def])

lemma insert_identity_ok:
  "insert_identity env f p s = Inr (u, s') \<longleftrightarrow>
     se_flt env ''identity'' = None \<and> (\<forall>i \<in> set (so_identities s). \<not> identity_at p (sf_SocialID f) i)
     \<and> s' = s\<lparr>so_identities := so_identities s @ [new_identity env f p (so_next_identity s)], so_next_identity := so_next_identity s + 1\<rparr>"
  by (auto simp: insert_identity_def list_ex_iff split: option.splits)

lemma est_classified: "establishes so_rel m \<Longrightarrow> establishes so_rel (classified m)"
  by (auto simp: establishes_def classified_ok)

lemma est_insert_conn: "establishes so_rel (insert_conn env f)"
  by (rule est_raw) (auto simp: insert_conn_ok intro: so_rel_frame)

lemma est_insert_identity: "establishes so_rel (insert_identity env f p)"
  by (rule est_raw) (auto simp: insert_identity_ok identities_rel_def same_binding_def intro!: so_rel_identities)

lemma est_credential: "establishes so_rel (exec flt (upsert_social_credential env u p x))"
  by (rule soR.est_exec, rule so_rel_frame) (simp_all add: upsert_social_credential_def Let_def)

lemma est_connection: "establishes so_rel (insertSocialConnectionTx env f)"
  unfolding insertSocialConnectionTx_def
  by (intro soR.est_then soR.est_if soR.est_return est_classified est_insert_conn est_credential)

lemma est_identity: "establishes so_rel (insertSocialIdentityTx env f)"
  by (auto simp: insertSocialIdentityTx_def split: option.split intro: soR.est_fail est_classified est_insert_identity)

lemma est_update_identities:
  assumes "\<And>s. so_outbox (g s) = so_outbox s \<and> so_next_outbox (g s) = so_next_outbox s \<and> so_members (g s) = so_members s"
    "\<And>s. so_identities (g s) = sql_update p f (so_identities s)" "\<And>i. same_binding i (f i)"
  shows "establishes so_rel (exec flt g)"
  using assms by (intro soR.est_exec so_rel_identities identities_rel_update [where p = p and f = f]) simp_all

lemma est_revoke_identity: "establishes so_rel (exec flt (revoke_identity env u c))"
  by (rule est_update_identities [where p = "\<lambda>i. si_account i = u \<and> si_provider i = c \<and> si_status i = ''ACTIVE''"
        and f = "\<lambda>i. i\<lparr>si_status := ''REVOKED'', si_revoked := Some (se_now env), si_updated := se_now env\<rparr>"])
    (simp_all add: revoke_identity_def same_binding_def)

lemma est_reactivate: "establishes so_rel (exec flt (reactivate env i u))"
  by (rule est_update_identities [where p = "\<lambda>x. si_id x = i \<and> si_account x = u \<and> si_status x = ''REVOKED''"
        and f = "\<lambda>x. x\<lparr>si_status := ''ACTIVE'', si_revoked := None, si_verified := se_now env, si_updated := se_now env\<rparr>"])
    (simp_all add: reactivate_def same_binding_def)

lemma est_relink: "establishes so_rel (relinkSocialIdentityTx env f)"
  unfolding relinkSocialIdentityTx_def
  by (cases "canonicalSocialIdentityProvider (sf_Provider f)")
    (auto intro!: soR.est_fail soR.est_bind soR.est_query soR.est_case_option est_identity soR.est_if soR.est_return est_reactivate)

lemma est_link: "establishes so_rel (link_body env f)"
  unfolding link_body_def
  by (intro soR.est_then soR.est_bind soR.est_query soR.est_guard soR.est_if soR.est_return est_connection est_relink)

lemma est_delivered: "establishes so_rel (exec flt (mark_delivered env u p a))"
proof (rule soR.est_exec, rule so_rel_outbox)
  fix s show "outbox_rel s (mark_delivered env u p a s)"
    by (rule outbox_rel_update [where f = "\<lambda>x. x\<lparr>ox_status := ''DELIVERED'', ox_updated := se_now env, ox_error := None\<rparr>"
          and p = "open_disconnect u p a"]) (simp_all add: mark_delivered_def outbox_kept_def)
qed (simp_all add: mark_delivered_def)

lemma est_drop_connection: "establishes so_rel (exec flt (drop_connection u p))"
  by (rule soR.est_exec, rule so_rel_frame) (simp_all add: drop_connection_def)

lemma est_drop_credential: "establishes so_rel (exec flt (drop_credential u p))"
  by (rule soR.est_exec, rule so_rel_frame) (simp_all add: drop_credential_def)

lemma est_delete: "establishes so_rel (deleteSocialConnectionTx env u p enf pend)"
  unfolding deleteSocialConnectionTx_def Let_def
  by (intro soR.est_then soR.est_bind soR.est_query soR.est_get_row soR.est_guard soR.est_if soR.est_return soR.est_case_option soR.est_fail
      est_drop_connection est_drop_credential est_revoke_identity est_delivered)

lemma est_photo: "establishes so_rel (lockPrivateSignupPhoto env raw)"
  by (auto simp: lockPrivateSignupPhoto_def lockManagedUpload_def split: prod.splits
      intro!: soR.est_return soR.est_fail soR.est_bind soR.est_get_row soR.est_guard)

lemma est_claims: "establishes so_rel (phoneClaimsEnabledTx env)"
  by (auto simp: phoneClaimsEnabledTx_def detectPhoneClaims_def intro!: soR.est_return soR.est_fail soR.est_bind soR.est_query soR.est_case_option)

lemma est_member: "establishes so_rel (exec_count flt so_next_usr (insert_member env f))"
proof (rule soR.est_exec_count, rule so_rel_members)
  fix s show "members_rel s (insert_member env f s)"
    unfolding members_rel_def using member_of_append [of _ s _ "insert_member env f s"] by (auto simp: insert_member_def)
qed (simp_all add: insert_member_def)

lemma est_claim: "establishes so_rel (claimPhoneTx env phone u)"
  by (rule est_raw) (auto simp: claimPhoneTx_def Let_def tx_fail_def split: if_splits option.splits intro: so_rel_frame)

lemma est_account_state: "establishes so_rel (insertActiveAccountStateTx env u)"
  by (rule est_raw) (auto simp: insertActiveAccountStateTx_def split: if_splits option.splits intro: so_rel_frame)

lemma est_companion: "establishes so_rel (insertAlumniVerificationCompanionTx env u)"
  by (rule est_raw) (auto simp: insertAlumniVerificationCompanionTx_def split: if_splits option.splits intro: so_rel_frame)

lemma est_evidence: "establishes so_rel (persistSignupEvidenceTx env u f)"
  by (auto simp: persistSignupEvidenceTx_def consume_grant_def split: prod.splits
      intro!: soR.est_then soR.est_if soR.est_return soR.est_bind soR.est_exec_count soR.est_guard soR.est_case_option soR.est_exec so_rel_frame)

lemma est_create: "establishes so_rel (create_account_body env f)"
  unfolding create_account_body_def Let_def
  by (intro soR.est_then soR.est_bind soR.est_guard soR.est_if soR.est_return soR.est_get_row
      est_photo est_claims est_member est_claim est_account_state est_companion est_connection est_identity est_evidence)

lemma sql_get_key_update:
  "(\<And>r. k (f r) = k r) \<Longrightarrow>
   sql_get (\<lambda>r. k r = i) (sql_update p f t) = map_option (\<lambda>r. if p r then f r else r) (sql_get (\<lambda>r. k r = i) t)"
  by (induction t) (auto simp: sql_get_def)

lemma est_set_status: "establishes so_rel (exec_count flt c (set_status u st))"
proof (rule soR.est_exec_count, rule so_rel_members)
  fix s show "members_rel s (set_status u st s)"
    by (auto simp: members_rel_def member_of_def set_status_def sql_get_key_update [where k = am_USRSeq])
qed (simp_all add: set_status_def)

lemma est_on_auth: "establishes so_rel (exec flt (on_auth g))"
  by (rule soR.est_exec, rule so_rel_frame) (simp_all add: on_auth_def)

lemma est_status: "establishes so_rel (update_status_body env u st)"
  by (auto simp: update_status_body_def syncAdminRoleForStatusChangeTx_def syncVerificationForStatusChangeTx_def upsertRootAdminRoleTx_def
      upsertVerificationTx_def split: option.split prod.split
      intro!: soR.est_bind soR.est_query soR.est_then soR.est_case_option soR.est_return est_set_status soR.est_if est_on_auth)

section \<open>Operations\<close>

named_theorems so_rels

lemma so_rel_self [so_rels]: "so_rel s s"
  by (rule so_rel_refl)

lemma so_rel_create [so_rels]: "so_rel s (snd (CreateSocialAccount env f s))"
  unfolding CreateSocialAccount_def by (rule soR.est_transact [OF est_create])

lemma so_rel_link [so_rels]: "so_rel s (snd (LinkSocialIdentity env f s))"
  unfolding LinkSocialIdentity_def by (rule soR.est_transact [OF est_link])

lemma so_rel_delete [so_rels]: "so_rel s (snd (deleteSocialConnection env u p enf pend s))"
  unfolding deleteSocialConnection_def by (rule soR.est_transact [OF est_delete])

lemma so_rel_status [so_rels]: "so_rel s (snd (updateMemberStatusAndAdminRole env u st s))"
  unfolding updateMemberStatusAndAdminRole_def by (rule soR.est_transact [OF est_status])

lemma so_rel_upsert [so_rels]: "so_rel s (snd (UpsertSocialCredential env u p x s))"
  unfolding UpsertSocialCredential_def by (rule soR.est_direct [OF est_credential])

lemma so_rel_email [so_rels]: "so_rel s (snd (UpdateSocialProviderEmailEnabled env u g b s))"
  unfolding UpdateSocialProviderEmailEnabled_def
  by (rule soR.est_direct, rule soR.est_exec, rule so_rel_frame) simp_all

lemma so_rel_auth [so_rels]: "so_rel s (s\<lparr>so_auth := st\<rparr>)"
  by (rule so_rel_frame) simp_all

lemma so_rel_issue [so_rels]: "so_rel s (snd (issue_session env m s))"
  by (auto simp: issue_session_def so_rel_auth split: sum.splits prod.splits)

lemma so_rel_cache [so_rels]: "so_rel s (cache_if_kakao u a s)"
  by (rule so_rel_frame) (simp_all add: cache_if_kakao_def CacheKakaoToken_def)

lemma so_rel_store [so_rels]: "so_rel s (snd (StoreCredential env u p c s))"
  by (auto simp: StoreCredential_def so_rels split: sum.splits option.splits)

lemma so_rel_result: "so_rel s (snd (resultForLinkedUser env m a s))"
proof -
  obtain r1 s1 where st: "(if provider_credential a \<noteq> [] \<and> se_lifecycle env
      then StoreCredential env (am_USRSeq m) (va_Provider a) (provider_credential a) s else (Inr (), s)) = (r1, s1)"
    by (metis surj_pair)
  then have 1: "so_rel s s1"
    using so_rel_store [of s env "am_USRSeq m" "va_Provider a" "provider_credential a"] by (auto split: if_splits intro: so_rel_refl)
  obtain r2 s2 where i: "issue_session env m s1 = (r2, s2)" by (metis surj_pair)
  then have 2: "so_rel s s2" using so_rel_issue [of s1 env m] so_rel_trans [OF 1] by simp
  show ?thesis
    using 1 2 so_rel_trans [OF 2 so_rel_cache]
    unfolding resultForLinkedUser_def st by (simp add: i so_rel_refl split: option.split sum.split)
qed

lemma so_rel_authenticate: "so_rel s (snd (Authenticate env a s))"
  by (auto simp: Authenticate_def so_rels so_rel_result split: option.splits sum.splits)

lemma so_rel_outcome: "so_rel s (snd (link_outcome env u p a (r, s)))"
  by (auto simp: link_outcome_def Let_def so_rels split: sum.splits option.splits so_error.splits)

lemma so_rel_link_identity:
  assumes "\<And>s. so_rel s (between s)"
  shows "so_rel s (snd (LinkIdentity env between u p a s))"
proof -
  have "so_rel s (snd (link_outcome env u q x (LinkSocialIdentity env f (between s))))" for q x f
  proof -
    obtain r s1 where r: "LinkSocialIdentity env f (between s) = (r, s1)" by (metis surj_pair)
    with so_rel_link [of "between s" env f] have "so_rel (between s) s1" by simp
    with assms [of s] show ?thesis using so_rel_outcome [of s1 env u q x r] unfolding r by (blast intro: so_rel_trans)
  qed
  then show ?thesis by (auto simp: LinkIdentity_def so_rels split: option.splits sum.splits)
qed

lemma so_rel_disconnect:
  assumes "\<And>s. so_rel s (between s)"
  shows "so_rel s (snd (Disconnect env between u p s))"
proof -
  have "so_rel s s1" if "DeleteSocialConnection env u q (between s) = (r, s1)" for q r s1
    using so_rel_delete [of "between s" env u q True False] that assms [of s] unfolding DeleteSocialConnection_def by (auto intro: so_rel_trans)
  then show ?thesis by (auto simp: Disconnect_def so_rels split: option.splits sum.splits prod.splits)
qed

lemma so_rel_signup:
  assumes "\<And>s. so_rel s (between s)"
  shows "so_rel s (snd (LinkSocialAccount env between mode f s))"
proof -
  have "so_rel s s1" if "CreateSocialAccount env g (between s) = (r, s1)" for g r s1
    using so_rel_create [of "between s" env g] that assms [of s] by (auto intro: so_rel_trans)
  then show ?thesis
    by (auto simp: LinkSocialAccount_def createNewSocialAccount_def Let_def so_rels split: option.splits sum.splits prod.splits bool.splits)
qed

lemma snd_as_error [simp]: "snd (as_error r) = snd r"
  by (auto simp: as_error_def split: prod.splits sum.splits)

lemma so_rel_on_sessions: "on_sessions g s = (e, s') \<Longrightarrow> so_rel s s'"
  by (auto simp: on_sessions_def so_rel_auth split: prod.splits)

lemma so_rel_notice: "so_rel s (snd (ApplyAppleNotification env n s))"
proof -
  have "so_rel s (snd (AnonymizeAccountForDeletion env u s))" for u
    using so_rel_status [of s env u "''AAA''"] by (auto simp: AnonymizeAccountForDeletion_def split: sum.splits prod.splits)
  moreover have "so_rel s (snd (ForceDeleteSocialConnection env u q s2))" if "so_rel s s2" for u q s2
    unfolding ForceDeleteSocialConnection_def using that so_rel_delete by (rule so_rel_trans)
  then have "so_rel s (snd (ForceDeleteSocialConnection env u q s2))" if "so_rel s s1" "so_rel s1 s2" for u q s1 s2
    using so_rel_trans [OF that] by blast
  moreover have "so_rel s s2" if "so_rel s s1" "so_rel s1 s2" for s1 s2
    using so_rel_trans [OF that] .
  ultimately show ?thesis
    by (auto simp: ApplyAppleNotification_def Let_def so_rels split: apple_notification.splits sum.splits option.splits prod.splits
        dest!: so_rel_on_sessions)
qed

lemma so_rel_enqueue: "so_rel s (snd (EnqueueSocialRevocation env u p a x s))"
proof -
  let ?s = "s\<lparr>so_outbox := so_outbox s @ [new_outbox env u p a (take 500 x) (so_next_outbox s)], so_next_outbox := so_next_outbox s + 1\<rparr>"
  have "outbox_rel s ?s"
    using outbox_rel_refl [of s] by (force simp: outbox_rel_def keys_ok_def new_outbox_def)
  then have "so_rel s ?s" by (rule so_rel_outbox [rotated 2]) simp_all
  then show ?thesis by (auto simp: EnqueueSocialRevocation_def so_rels split: option.splits)
qed

lemma so_rel_retry: "so_rel s (retry_social env u s)"
proof (rule so_rel_outbox)
  show "outbox_rel s (retry_social env u s)"
    by (rule outbox_rel_update [where f = "retry_entry env"]) (auto simp: retry_social_def retry_entry_def outbox_kept_def)
qed (simp_all add: retry_social_def)

lemma so_rel_step: "so_rel s (so_step s x)"
  and so_rel_run: "so_rel s (so_run s xs)"
proof (induction s x and s xs rule: so_step_so_run.induct)
qed (auto intro: so_rel_signup so_rel_link_identity so_rel_disconnect so_rel_authenticate so_rel_notice so_rel_enqueue so_rel_retry so_rel_refl
    so_rel_trans)

end
