(* ===== verification/Revocation_Props.thy ===== *)
theory Revocation_Props
  imports Social_Props
begin

text \<open>
  The provider accepts the revocation of a disconnected identity at most once, in every history of any number of workers
  and of requests, as long as a worker can read the entry it has claimed and record the provider's acceptance. Without
  the first condition the checkpoint is lost; two theorems show how.
\<close>

section \<open>What a step does to the queue\<close>

text \<open>\<open>T\<close> is the worker that takes the step, if any: only it gives an entry its own claim.\<close>

definition entry_step :: "string option \<Rightarrow> outbox_entry \<Rightarrow> outbox_entry \<Rightarrow> bool" where
  "entry_step T x x' =
     (ox_id x' = ox_id x \<and> ox_action x' = ox_action x
      \<and> (ox_action x = ''DISCONNECT'' \<longrightarrow>
           (ox_status x' = ''PENDING'' \<longrightarrow> ox_status x = ''PENDING'')
           \<and> (\<forall>t. Some t \<noteq> T \<and> ox_claim x' = Some t \<longrightarrow>
                ox_claim x = Some t \<and> (ox_status x' = ox_status x \<or> ox_status x' = ''DELIVERED''))))"

definition queue_step :: "string option \<Rightarrow> so_db \<Rightarrow> so_db \<Rightarrow> bool" where
  "queue_step T s s' =
     ((\<forall>x' \<in> set (so_outbox s'). (\<exists>x \<in> set (so_outbox s). entry_step T x x') \<or> so_next_outbox s \<le> ox_id x')
      \<and> so_next_outbox s \<le> so_next_outbox s'
      \<and> (keys_ok ox_id (so_next_outbox s) (so_outbox s) \<longrightarrow> keys_ok ox_id (so_next_outbox s') (so_outbox s')))"

lemma entry_step_kept: "outbox_kept x x' \<Longrightarrow> entry_step T x x'"
  by (auto simp: outbox_kept_def entry_step_def)

lemma entry_step_self: "entry_step T x x"
  by (simp add: entry_step_def)

lemma queue_step_rel: "outbox_rel s s' \<Longrightarrow> queue_step T s s'"
  unfolding outbox_rel_def queue_step_def using entry_step_kept by blast

lemma queue_step_self: "queue_step T s s"
  by (rule queue_step_rel) (rule outbox_rel_refl)

lemma queue_step_update:
  assumes "\<And>x. x \<in> set (so_outbox s) \<Longrightarrow> p x \<Longrightarrow> entry_step T x (f x)" "\<And>x. ox_id (f x) = ox_id x"
  shows "queue_step T s (s\<lparr>so_outbox := sql_update p f (so_outbox s)\<rparr>)"
proof -
  let ?t = "sql_update p f (so_outbox s)"
  have keys: "map ox_id ?t = map ox_id (so_outbox s)" using assms(2) by (simp add: map_key_sql_update)
  then have img: "ox_id ` set ?t = ox_id ` set (so_outbox s)" by (metis set_map)
  have "\<exists>x \<in> set (so_outbox s). entry_step T x x'" if "x' \<in> set ?t" for x'
  proof -
    from that obtain x where "x \<in> set (so_outbox s)" "x' = (if p x then f x else x)" by (auto simp: sql_update_def)
    then show ?thesis using assms(1) [of x] entry_step_self [of T x] by (cases "p x") auto
  qed
  moreover have "keys_ok ox_id (so_next_outbox s) ?t" if ok: "keys_ok ox_id (so_next_outbox s) (so_outbox s)"
  proof -
    have "\<forall>k \<in> ox_id ` set ?t. 1 \<le> k \<and> k < so_next_outbox s" unfolding img using ok by (auto simp: keys_ok_def)
    then show ?thesis using ok keys by (simp add: keys_ok_def)
  qed
  ultimately show ?thesis by (simp add: queue_step_def)
qed

section \<open>The invariant\<close>

definition accepted :: "int \<Rightarrow> (int \<times> provider_call) list \<Rightarrow> nat" where
  "accepted i calls = length (filter (\<lambda>(j, _, ok). j = i \<and> ok) calls)"

definition calls_ok :: "so_db \<Rightarrow> (int \<times> provider_call) list \<Rightarrow> bool" where
  "calls_ok s calls =
     ((\<forall>x \<in> set (so_outbox s). ox_action x = ''DISCONNECT'' \<longrightarrow>
         accepted (ox_id x) calls \<le> 1 \<and> (accepted (ox_id x) calls > 0 \<longrightarrow> ox_status x \<noteq> ''PENDING''))
      \<and> (\<forall>c \<in> set calls. fst c < so_next_outbox s))"

text \<open>An entry in a worker's hands is a row of the queue, as far as key and action go.\<close>

definition known_entry :: "so_db \<Rightarrow> outbox_entry \<Rightarrow> bool" where
  "known_entry s e = (ox_id e < so_next_outbox s \<and> (\<forall>x \<in> set (so_outbox s). ox_id x = ox_id e \<longrightarrow> ox_action x = ox_action e))"

fun pc_entries :: "worker_pc \<Rightarrow> outbox_entry list" where
  "pc_entries WIdle = []"
| "pc_entries (WNext es) = es"
| "pc_entries (WRecord e err st es) = e # es"
| "pc_entries (WMark e es) = e # es"
| "pc_entries (WFinalize e es) = e # es"
| "pc_entries (WRelease e es) = e # es"

text \<open>A worker about to set an entry back to pending: the entry is not revoked under its claim.\<close>

definition unrevoked :: "so_db \<Rightarrow> string \<Rightarrow> outbox_entry \<Rightarrow> bool" where
  "unrevoked s tok e =
     (\<forall>x \<in> set (so_outbox s). ox_id x = ox_id e \<and> ox_action x = ''DISCONNECT'' \<and> ox_claim x = Some tok \<longrightarrow> ox_status x \<in> {''PENDING'', ''DELIVERED''})"

definition pc_ok :: "so_db \<Rightarrow> string \<Rightarrow> worker_pc \<Rightarrow> bool" where
  "pc_ok s tok pc =
     ((\<forall>e \<in> set (pc_entries pc). known_entry s e)
      \<and> (case pc of
           WMark e _ \<Rightarrow> ox_action e \<noteq> ''DISCONNECT''
         | WRecord e _ st _ \<Rightarrow> st \<noteq> ''REVOKED'' \<longrightarrow> unrevoked s tok e
         | _ \<Rightarrow> True))"

definition rv_inv :: "rv_state \<Rightarrow> bool" where
  "rv_inv s =
     (keys_ok ox_id (so_next_outbox (rv_db s)) (so_outbox (rv_db s)) \<and> calls_ok (rv_db s) (rv_calls s)
      \<and> (\<forall>tok. pc_ok (rv_db s) tok (rv_workers s tok)))"

lemma accepted_zero: "\<forall>c \<in> set calls. fst c < n \<Longrightarrow> n \<le> i \<Longrightarrow> accepted i calls = 0"
  by (auto simp: accepted_def filter_empty_conv)

lemma calls_ok_step:
  assumes "queue_step T s s'" "calls_ok s calls"
  shows "calls_ok s' calls"
proof -
  have "accepted (ox_id x') calls \<le> 1 \<and> (accepted (ox_id x') calls > 0 \<longrightarrow> ox_status x' \<noteq> ''PENDING'')"
    if x': "x' \<in> set (so_outbox s')" "ox_action x' = ''DISCONNECT''" for x'
  proof -
    from assms(1) x'(1) consider x where "x \<in> set (so_outbox s)" "entry_step T x x'" | "so_next_outbox s \<le> ox_id x'"
      unfolding queue_step_def by blast
    then show ?thesis
    proof cases
      case 1
      with assms(2) x'(2) show ?thesis by (auto simp: calls_ok_def entry_step_def)
    next
      case 2
      then have "accepted (ox_id x') calls = 0" using assms(2) accepted_zero unfolding calls_ok_def by blast
      then show ?thesis by simp
    qed
  qed
  moreover have "\<forall>c \<in> set calls. fst c < so_next_outbox s'"
    using assms unfolding calls_ok_def queue_step_def by force
  ultimately show ?thesis by (simp add: calls_ok_def)
qed

lemma known_step: "queue_step T s s' \<Longrightarrow> known_entry s e \<Longrightarrow> known_entry s' e"
  unfolding queue_step_def known_entry_def entry_step_def by (smt (verit, ccfv_threshold))

lemma unrevoked_step:
  assumes "queue_step T s s'" "Some tok \<noteq> T" "known_entry s e" "unrevoked s tok e"
  shows "unrevoked s' tok e"
  unfolding unrevoked_def
proof (intro ballI impI)
  fix x' assume x': "x' \<in> set (so_outbox s')" "ox_id x' = ox_id e \<and> ox_action x' = ''DISCONNECT'' \<and> ox_claim x' = Some tok"
  from assms(3) x'(2) have "\<not> so_next_outbox s \<le> ox_id x'" by (simp add: known_entry_def)
  with assms(1) x'(1) obtain x where x: "x \<in> set (so_outbox s)" "entry_step T x x'" unfolding queue_step_def by blast
  with assms(2) x'(2) have "ox_id x = ox_id e" "ox_action x = ''DISCONNECT''" "ox_claim x = Some tok"
    "ox_status x' = ox_status x \<or> ox_status x' = ''DELIVERED''"
    by (auto simp: entry_step_def)
  with assms(4) x(1) show "ox_status x' \<in> {''PENDING'', ''DELIVERED''}" by (auto simp: unrevoked_def)
qed

lemma pc_ok_step:
  assumes "queue_step T s s'" "Some tok \<noteq> T" "pc_ok s tok pc"
  shows "pc_ok s' tok pc"
proof -
  from assms(3) have "\<forall>e \<in> set (pc_entries pc). known_entry s' e" using known_step [OF assms(1)] by (simp add: pc_ok_def)
  with assms show ?thesis by (cases pc) (auto simp: pc_ok_def intro: unrevoked_step [OF assms(1,2)])
qed

section \<open>Steps of a worker\<close>

text \<open>The worker can read the claimed entry and record the provider's acceptance. Everything else may fail.\<close>

definition checkpoint_works :: "so_env \<Rightarrow> bool" where
  "checkpoint_works env =
     (\<forall>label \<in> {''revoke.begin'', ''lock.connection'', ''lock.outbox'', ''revoke.update'', ''revoke.commit''}. se_flt env label = None)"

lemma lock_result:
  "lockClaimedDisconnect env e tok s = Inr ((connection, status), s') \<Longrightarrow>
   s' = s \<and> (\<exists>x \<in> set (so_outbox s). entry_at e x \<and> ox_claim x = Some tok \<and> status = ox_status x \<and> status \<in> {''PENDING'', ''REVOKED''})"
  by (auto simp: lockClaimedDisconnect_def tx_ok claim_text_def split: option.splits dest!: sql_get_Some)

lemma lock_error:
  assumes "checkpoint_works env" "lockClaimedDisconnect env e tok s = Inl err"
  shows "err = ErrSocialRevocationClaimExpired"
  using assms by (auto simp: lockClaimedDisconnect_def checkpoint_works_def tx_bind_def tx_then_def tx_guard_def tx_return_def tx_fail_def query_def get_row_def
      split: option.splits if_splits sum.splits prod.splits)

lemma revokeCredential_calls:
  "revokeCredential env p c = (r, calls) \<Longrightarrow> (r = None \<and> calls = [(p, True)]) \<or> (r \<noteq> None \<and> list_all (Not \<circ> snd) calls)"
  by (auto simp: revokeCredential_def asked_def split: if_splits option.splits)

lemma revoke_encrypted_calls:
  "revoke_encrypted env p c = (r, calls) \<Longrightarrow> (r = None \<and> calls = [(p, True)]) \<or> (r \<noteq> None \<and> list_all (Not \<circ> snd) calls)"
  by (cases "rv_vaultErr env"; cases "rv_decrypt env c"; cases "c = []")
    (auto simp: revoke_encrypted_def dest: revokeCredential_calls, metis+)

lemma start_disconnect_result:
  assumes "checkpoint_works (rv_so env)" "start_disconnect env tok e rest s = (pc, calls, s')"
  shows "(s' = s \<and> list_all (Not \<circ> snd) calls
          \<and> (pc = WNext rest \<or> pc = WFinalize e rest
             \<or> (\<exists>err. pc = WRecord e err ''PENDING'' rest)
                \<and> (\<exists>x \<in> set (so_outbox s). entry_at e x \<and> ox_claim x = Some tok \<and> ox_status x = ''PENDING'')))
         \<or> (s' = mark_revoked (rv_so env) e tok s \<and> calls = [(ox_provider e, True)] \<and> pc = WFinalize e rest
            \<and> (\<exists>x \<in> set (so_outbox s). entry_at e x \<and> ox_claim x = Some tok \<and> ox_status x = ''PENDING''))"
proof (cases "lockClaimedDisconnect (rv_so env) e tok s")
  case (Inl err)
  have "err = ErrSocialRevocationClaimExpired" by (rule lock_error [OF assms(1) Inl])
  with Inl assms show ?thesis by (auto simp: start_disconnect_def RevokeClaimedSocialDisconnect_def checkpoint_works_def)
next
  case (Inr r)
  obtain connection status s1 where r: "r = ((connection, status), s1)" by (metis surj_pair)
  note row = lock_result [OF Inr [unfolded r]]
  show ?thesis
  proof (cases "status = ''REVOKED''")
    case True
    with assms Inr show ?thesis by (auto simp: start_disconnect_def RevokeClaimedSocialDisconnect_def checkpoint_works_def r)
  next
    case False
    with row have pending: "\<exists>x \<in> set (so_outbox s). entry_at e x \<and> ox_claim x = Some tok \<and> ox_status x = ''PENDING''" by auto
    with assms Inr False show ?thesis
      by (auto simp: start_disconnect_def RevokeClaimedSocialDisconnect_def checkpoint_works_def r
          split: if_splits option.splits prod.splits dest!: revoke_encrypted_calls)
  qed
qed

lemma start_other_result:
  "start_other env e rest s = (pc, calls, s') \<Longrightarrow>
   s' = s \<and> (pc = WFinalize e rest \<or> pc = WMark e rest \<or> (\<exists>err. pc = WRecord e err ''PENDING'' rest))"
  by (auto simp: start_other_def split: if_splits option.splits prod.splits)

lemma queue_step_outbox:
  "queue_step T s s' \<Longrightarrow> so_outbox s'' = so_outbox s' \<Longrightarrow> so_next_outbox s'' = so_next_outbox s' \<Longrightarrow> queue_step T s s''"
  by (simp add: queue_step_def)

lemma claim_step: "queue_step (Some tok) s (claim_entries env tok stale n s)"
  unfolding claim_entries_def Let_def by (rule queue_step_update) (auto simp: entry_step_def)

lemma ClaimDue_step:
  assumes "ClaimDueSocialRevocations env tok stale n s = (es, s')"
  shows "queue_step (Some tok) s s' \<and> set es \<subseteq> set (so_outbox s')"
  using assms claim_step [of tok s env stale n] queue_step_self [of "Some tok" s]
  by (auto simp: ClaimDueSocialRevocations_def Let_def claimed_entries_def split: option.splits)

lemma known_row: "keys_ok ox_id (so_next_outbox s) (so_outbox s) \<Longrightarrow> x \<in> set (so_outbox s) \<Longrightarrow> known_entry s x"
  by (auto simp: keys_ok_def known_entry_def distinct_map inj_on_def)

lemma failed_status_pending: "failed_status st n k = ''PENDING'' \<Longrightarrow> st = ''PENDING''"
  by (auto simp: failed_status_def split: if_splits)

lemma record_step:
  assumes "st \<noteq> ''REVOKED'' \<longrightarrow> unrevoked s tok e"
  shows "queue_step (Some tok) s (snd (recordFailure env tok e err st s))"
proof -
  have "queue_step (Some tok) s (record_failure (rv_so env) (ox_id e) tok (failed_status st a m) b msg nx s)" for a m b msg nx
    unfolding record_failure_def
    by (rule queue_step_update)
      (use assms failed_status_pending [of st a m] in \<open>auto simp: entry_step_def failure_row_def unrevoked_def\<close>)
  then show ?thesis
    by (auto simp: recordFailure_def MarkSocialRevocationFailed_def Let_def queue_step_self split: option.splits)
qed

lemma mark_step:
  assumes "known_entry s e" "ox_action e \<noteq> ''DISCONNECT''" "MarkSocialRevocationRevoked env (ox_id e) s = (r, s')"
  shows "queue_step (Some tok) s s'"
proof -
  have "queue_step (Some tok) s (s\<lparr>so_outbox := sql_update (\<lambda>x. ox_id x = ox_id e)
       (\<lambda>x. x\<lparr>ox_status := ''REVOKED'', ox_updated := se_now env\<rparr>) (so_outbox s)\<rparr>)"
    by (rule queue_step_update) (use assms(1,2) in \<open>auto simp: entry_step_def known_entry_def\<close>)
  with assms(3) show ?thesis
    by (auto simp: MarkSocialRevocationRevoked_def direct_def exec_def queue_step_self split: option.splits sum.splits)
qed

lemma release_step: "queue_step (Some tok) s (snd (MarkSocialRevocationSucceeded env i tok s))"
proof -
  have "queue_step (Some tok) s (s\<lparr>so_outbox := sql_update (\<lambda>x. ox_id x = i \<and> ox_claim x = Some tok)
       (\<lambda>x. x\<lparr>ox_claim := None, ox_updated := se_now env\<rparr>) (so_outbox s)\<rparr>)"
    by (rule queue_step_update) (auto simp: entry_step_def)
  then show ?thesis
    by (auto simp: MarkSocialRevocationSucceeded_def direct_def exec_def queue_step_self split: option.splits sum.splits)
qed

lemma est_lock: "establishes so_rel (lockClaimedDisconnect env e tok)"
  unfolding lockClaimedDisconnect_def
  by (intro soR.est_bind soR.est_query soR.est_get_row soR.est_then soR.est_guard soR.est_return)

lemma est_finalize: "establishes so_rel (finalize_body env e tok)"
  unfolding finalize_body_def
  by (auto intro!: soR.est_bind soR.est_then est_lock soR.est_guard est_delete split: prod.split)

lemma est_complete: "establishes so_rel (complete_deletion_body env u p)"
  unfolding complete_deletion_body_def by (intro soR.est_then est_drop_credential est_delivered)

lemma finalize_rel: "so_rel s (snd (worker_finalize env tok e s))"
  by (auto simp: worker_finalize_def FinalizeClaimedSocialDisconnect_def CompleteAccountDeletionRevocation_def so_rel_refl
      intro: soR.est_transact est_finalize est_complete)

lemma finalize_step: "worker_finalize env tok e s = (r, s') \<Longrightarrow> queue_step (Some tok) s s'"
  using finalize_rel [of s env tok e] by (simp add: so_rel_def queue_step_rel)

lemma revoked_step: "queue_step (Some tok) s (mark_revoked env e tok s)"
  unfolding mark_revoked_def by (rule queue_step_update) (auto simp: entry_step_def)

section \<open>Every step keeps the invariant\<close>

lemma accepted_append: "accepted i (a @ b) = accepted i a + accepted i b"
  by (simp add: accepted_def)

lemma accepted_rejected: "list_all (Not \<circ> snd) calls \<Longrightarrow> accepted i (map (Pair j) calls) = 0"
  by (auto simp: accepted_def filter_empty_conv list_all_iff)

lemma calls_ok_more:
  assumes "calls_ok s calls" "known_entry s e" "list_all (Not \<circ> snd) new"
  shows "calls_ok s (calls @ map (Pair (ox_id e)) new)"
  using assms by (auto simp: calls_ok_def accepted_append accepted_rejected known_entry_def)

lemma calls_ok_accepted:
  assumes "calls_ok s calls" "known_entry s e" "x \<in> set (so_outbox s)" "entry_at e x" "ox_claim x = Some tok" "ox_status x = ''PENDING''"
    "keys_ok ox_id (so_next_outbox s) (so_outbox s)"
  shows "calls_ok (mark_revoked env e tok s) (calls @ [(ox_id e, p, True)])"
proof -
  let ?s = "mark_revoked env e tok s"
  have zero: "accepted (ox_id e) calls = 0" using assms(1,3,4,6) unfolding calls_ok_def entry_at_def by fastforce
  have ok: "calls_ok ?s calls" by (rule calls_ok_step [OF revoked_step assms(1)])
  have status: "ox_status y = ''REVOKED''" if y: "y \<in> set (so_outbox ?s)" "ox_id y = ox_id e" for y
  proof -
    from y obtain z where z: "z \<in> set (so_outbox s)" "ox_id z = ox_id e"
        "y = (if ox_id z = ox_id e \<and> ox_claim z = Some tok then z\<lparr>ox_status := ''REVOKED'', ox_updated := se_now env\<rparr> else z)"
      by (auto simp: mark_revoked_def sql_update_def split: if_splits)
    moreover have "z = x" using assms(3,4,7) z(1,2) by (auto simp: keys_ok_def distinct_map inj_on_def entry_at_def)
    ultimately show ?thesis using assms(5) by simp
  qed
  have one: "accepted i [(ox_id e, p, True)] = (if i = ox_id e then 1 else 0)" for i by (simp add: accepted_def)
  have bound: "ox_id e < so_next_outbox ?s" using assms(2) by (simp add: known_entry_def mark_revoked_def)
  have row: "accepted (ox_id y) (calls @ [(ox_id e, p, True)]) \<le> 1
      \<and> (accepted (ox_id y) (calls @ [(ox_id e, p, True)]) > 0 \<longrightarrow> ox_status y \<noteq> ''PENDING'')"
    if "y \<in> set (so_outbox ?s)" "ox_action y = ''DISCONNECT''" for y
    using ok status [OF that(1)] zero that by (cases "ox_id y = ox_id e") (auto simp: calls_ok_def accepted_append one)
  show ?thesis unfolding calls_ok_def using row ok bound by (simp add: calls_ok_def)
qed

text \<open>A step of a worker, with what it does to its own place.\<close>

definition work_ok :: "so_db \<Rightarrow> string \<Rightarrow> (int \<times> provider_call) list \<Rightarrow> worker_pc \<Rightarrow> (int \<times> provider_call) list \<Rightarrow> so_db \<Rightarrow> bool" where
  "work_ok s tok calls pc new s' = (queue_step (Some tok) s s' \<and> calls_ok s' (calls @ new) \<and> pc_ok s' tok pc)"

lemma work_quiet:
  assumes "queue_step (Some tok) s s'" "calls_ok s calls"
    "\<forall>e \<in> set (pc_entries pc). known_entry s e"
    "case pc of WMark e _ \<Rightarrow> ox_action e \<noteq> ''DISCONNECT'' | WRecord e _ st _ \<Rightarrow> st \<noteq> ''REVOKED'' \<longrightarrow> unrevoked s' tok e | _ \<Rightarrow> True"
  shows "work_ok s tok calls pc [] s'"
proof -
  have "\<forall>e \<in> set (pc_entries pc). known_entry s' e" using assms(3) known_step [OF assms(1)] by blast
  with assms show ?thesis by (simp add: work_ok_def pc_ok_def calls_ok_step)
qed

lemma unrevoked_other: "known_entry s e \<Longrightarrow> ox_action e \<noteq> ''DISCONNECT'' \<Longrightarrow> unrevoked s tok e"
  by (auto simp: known_entry_def unrevoked_def)

lemma unrevoked_pending:
  assumes "keys_ok ox_id (so_next_outbox s) (so_outbox s)" "x \<in> set (so_outbox s)" "entry_at e x" "ox_status x = ''PENDING''"
  shows "unrevoked s tok e"
proof -
  have "y = x" if "y \<in> set (so_outbox s)" "ox_id y = ox_id e" for y
    using assms(1,2,3) that by (auto simp: keys_ok_def distinct_map inj_on_def entry_at_def)
  with assms(4) show ?thesis by (auto simp: unrevoked_def)
qed

lemma disconnect_ok:
  assumes "checkpoint_works (rv_so env)" "keys_ok ox_id (so_next_outbox s) (so_outbox s)" "calls_ok s calls"
    "\<forall>e \<in> set (e # rest). known_entry s e" "start_disconnect env tok e rest s = (pc, new, s')"
  shows "work_ok s tok calls pc (map (Pair (ox_id e)) new) s'"
proof -
  have e: "known_entry s e" using assms(4) by simp
  consider (quiet) "s' = s" "list_all (Not \<circ> snd) new" "pc = WNext rest \<or> pc = WFinalize e rest"
    | (failed) err x where "s' = s" "list_all (Not \<circ> snd) new" "pc = WRecord e err ''PENDING'' rest" "x \<in> set (so_outbox s)" "entry_at e x"
        "ox_status x = ''PENDING''"
    | (revoked) x where "s' = mark_revoked (rv_so env) e tok s" "new = [(ox_provider e, True)]" "pc = WFinalize e rest"
        "x \<in> set (so_outbox s)" "entry_at e x" "ox_claim x = Some tok" "ox_status x = ''PENDING''"
    using start_disconnect_result [OF assms(1,5)] by blast
  then show ?thesis
  proof cases
    case quiet
    with assms(3,4) calls_ok_more [OF assms(3) e quiet(2)] show ?thesis by (auto simp: work_ok_def queue_step_self pc_ok_def)
  next
    case failed
    have "unrevoked s tok e" by (rule unrevoked_pending [OF assms(2) failed(4-6)])
    with failed assms(4) calls_ok_more [OF assms(3) e failed(2)] show ?thesis by (simp add: work_ok_def queue_step_self pc_ok_def)
  next
    case revoked
    have "\<forall>e \<in> set (e # rest). known_entry s' e" using assms(4) known_step [OF revoked_step] unfolding revoked(1) by blast
    with revoked calls_ok_accepted [OF assms(3) e revoked(4-7) assms(2)] revoked_step show ?thesis
      by (simp add: work_ok_def pc_ok_def)
  qed
qed

lemma other_ok:
  assumes "keys_ok ox_id (so_next_outbox s) (so_outbox s)" "calls_ok s calls" "\<forall>e \<in> set (e # rest). known_entry s e"
    "ox_action e \<noteq> ''DISCONNECT''" "start_other env e rest s = (pc, new, s')"
  shows "work_ok s tok calls pc (map (Pair (ox_id e)) new) s'"
proof -
  have e: "known_entry s e" using assms(3) by simp
  have s': "s' = s" and pc: "pc = WFinalize e rest \<or> pc = WMark e rest \<or> (\<exists>err. pc = WRecord e err ''PENDING'' rest)"
    using start_other_result [OF assms(5)] by simp_all
  have "accepted (ox_id x) (map (Pair (ox_id e)) new) = 0" if "x \<in> set (so_outbox s)" "ox_action x = ''DISCONNECT''" for x
    using that e assms(4) by (auto simp: known_entry_def accepted_def filter_empty_conv)
  then have "calls_ok s (calls @ map (Pair (ox_id e)) new)"
    using assms(2) e by (auto simp: calls_ok_def accepted_append known_entry_def)
  with pc assms(3,4) unrevoked_other [OF e assms(4)] show ?thesis by (auto simp: work_ok_def s' queue_step_self pc_ok_def)
qed

lemma work_step:
  assumes "checkpoint_works (rv_so env)" "keys_ok ox_id (so_next_outbox s) (so_outbox s)" "calls_ok s calls" "pc_ok s tok pc"
    "worker_step env tok pc s = (pc', new, s')"
  shows "work_ok s tok calls pc' new s'"
  using assms
proof (cases pc)
  case WIdle
  with assms(5) obtain es where es: "ClaimDueSocialRevocations (rv_so env) tok socialRevocationClaimStaleAfter socialRevocationBatchSize s = (es, s')"
      "pc' = WNext es" "new = []"
    by (auto split: prod.splits)
  note step = ClaimDue_step [OF es(1)]
  have "keys_ok ox_id (so_next_outbox s') (so_outbox s')" using step assms(2) by (simp add: queue_step_def)
  then have "\<forall>e \<in> set es. known_entry s' e" using step known_row by blast
  with step es assms(3) show ?thesis by (auto simp: work_ok_def pc_ok_def intro: calls_ok_step)
next
  case (WNext es)
  show ?thesis
  proof (cases es)
    case Nil
    with WNext assms(3,5) show ?thesis by (auto intro!: work_quiet queue_step_self)
  next
    case (Cons e rest)
    have known_entry: "\<forall>e \<in> set (e # rest). known_entry s e" using assms(4) WNext Cons by (simp add: pc_ok_def)
    show ?thesis
    proof (cases "ox_action e = ''DISCONNECT''")
      case True
      with assms(5) WNext Cons obtain calls' where "start_disconnect env tok e rest s = (pc', calls', s')" "new = map (Pair (ox_id e)) calls'"
        by (auto simp: socialRevocationActionDisconnect_def split: prod.splits)
      with disconnect_ok [OF assms(1-3) known_entry] show ?thesis by simp
    next
      case False
      with assms(5) WNext Cons obtain calls' where "start_other env e rest s = (pc', calls', s')" "new = map (Pair (ox_id e)) calls'"
        by (auto simp: socialRevocationActionDisconnect_def split: prod.splits)
      with other_ok [OF assms(2,3) known_entry False] show ?thesis by simp
    qed
  qed
next
  case (WRecord e err st rest)
  with assms(4) have "st \<noteq> ''REVOKED'' \<longrightarrow> unrevoked s tok e" by (simp add: pc_ok_def)
  from record_step [OF this] WRecord assms(3-5) show ?thesis by (auto simp: pc_ok_def intro!: work_quiet)
next
  case (WMark e rest)
  then have e: "known_entry s e" "ox_action e \<noteq> ''DISCONNECT''" using assms(4) by (auto simp: pc_ok_def)
  obtain r where "MarkSocialRevocationRevoked (rv_so env) (ox_id e) s = (r, s')" "new = []" "pc' = WFinalize e rest \<or> (\<exists>err. pc' = WRecord e err ''REVOKED'' rest)"
    using assms(5) WMark by (auto split: prod.splits sum.splits)
  with mark_step [OF e] WMark assms(3,4) show ?thesis by (auto simp: pc_ok_def intro!: work_quiet)
next
  case (WFinalize e rest)
  obtain r where "worker_finalize env tok e s = (r, s')" "new = []"
      "pc' = WRelease e rest \<or> pc' = WNext rest \<or> (\<exists>err. pc' = WRecord e err ''REVOKED'' rest)"
    using assms(5) WFinalize by (auto split: prod.splits sum.splits if_splits)
  with finalize_step [of env tok e s r s'] WFinalize assms(3,4) show ?thesis by (auto simp: pc_ok_def intro!: work_quiet)
next
  case (WRelease e rest)
  with release_step [of tok s "rv_so env" "ox_id e"] assms(3-5) show ?thesis by (auto simp: pc_ok_def intro!: work_quiet)
qed

definition rv_admissible :: "rv_op \<Rightarrow> bool" where
  "rv_admissible x = (case x of Work env tok \<Rightarrow> checkpoint_works (rv_so env) | _ \<Rightarrow> True)"

definition rv_start :: "rv_state \<Rightarrow> bool" where
  "rv_start s = (keys_ok ox_id (so_next_outbox (rv_db s)) (so_outbox (rv_db s)) \<and> rv_calls s = [] \<and> (\<forall>tok. rv_workers s tok = WIdle))"

lemma keys_step: "queue_step T s s' \<Longrightarrow> keys_ok ox_id (so_next_outbox s) (so_outbox s) \<Longrightarrow> keys_ok ox_id (so_next_outbox s') (so_outbox s')"
  by (simp add: queue_step_def)

interpretation rv: invariant rv_step rv_start rv_admissible rv_inv
proof
  show "rv_inv s" if "rv_start s" for s
    using that by (simp add: rv_start_def rv_inv_def calls_ok_def accepted_def pc_ok_def)
next
  fix s x assume inv: "rv_inv s" and ok: "rv_admissible x"
  show "rv_inv (rv_step s x)"
  proof (cases x)
    case (Request y)
    have step: "queue_step None (rv_db s) (so_step (rv_db s) y)"
      using so_rel_step [of "rv_db s" y] by (simp add: so_rel_def queue_step_rel)
    with inv Request show ?thesis
      by (auto simp: rv_inv_def intro: keys_step calls_ok_step pc_ok_step)
  next
    case (Work env tok)
    obtain pc new db where w: "worker_step env tok (rv_workers s tok) (rv_db s) = (pc, new, db)" by (metis prod_cases3)
    have ok': "work_ok (rv_db s) tok (rv_calls s) pc new db"
      by (rule work_step [OF _ _ _ _ w]) (use inv ok Work in \<open>simp_all add: rv_inv_def rv_admissible_def\<close>)
    then have step: "queue_step (Some tok) (rv_db s) db" by (simp add: work_ok_def)
    have "pc_ok db t (((rv_workers s)(tok := pc)) t)" for t
      using ok' inv pc_ok_step [OF step, of t "rv_workers s t"] by (cases "t = tok") (auto simp: work_ok_def rv_inv_def)
    with inv ok' keys_step [OF step] Work w show ?thesis by (simp add: rv_inv_def work_ok_def)
  next
    case (Restart tok)
    with inv show ?thesis by (auto simp: rv_inv_def pc_ok_def)
  qed
qed


section \<open>Concrete runs\<close>

definition demo_au :: au_env where
  "demo_au = \<lparr>au_now = 100, au_sql_now = 100, au_fault = (\<lambda>_. None), jwt = \<lparr>jwt_sign = (\<lambda>_. Some ''token''), jwt_parse = (\<lambda>_ _ _. None)\<rparr>,
     MaxAge = 60, AccessTokenTTL = 60, RefreshTokenTTL = 600, new_sid = ''sid'', new_access_jti = ''a'', new_jti = ''j''\<rparr>"

definition demo_so :: so_env where
  "demo_so = \<lparr>se_now = 100, se_flt = (\<lambda>_. None), canonicalIdentityReady = True, phoneClaimsReady = True, phoneClaimAutoDetection = False,
     se_coll = id, se_sort = id, se_conn_keys = [(''UK_USR_PROVIDER'', False), (''UK_PROVIDER_SUBJECT'', True)], se_entry = concat,
     se_sha256_hex = id, se_au = demo_au,
     se_kakao_profile = (\<lambda>t. Inr \<lparr>ki_KakaoID = t, ki_Email = [], ki_Nickname = [], ki_ProfileImageURL = [], ki_AccessToken = t\<rparr>),
     se_apple_verify = (\<lambda>_. Inl MissingKakaoToken), se_link_token = ''link'', se_put = (\<lambda>_ _. Inr 400),
     se_lifecycle = False, se_vaultErr = None, se_vault_ready = True, se_encrypt = Inr\<rparr>"

definition demo_rv_env :: rv_env where
  "demo_rv_env = \<lparr>rv_so = demo_so, rv_vaultErr = None, rv_decrypt = Inr, rv_kakao_token = (\<lambda>_. None), rv_kakao_admin_key = True,
     rv_kakao_account = (\<lambda>_. None), rv_apple = None, rv_error_text = (\<lambda>_. [])\<rparr>"

text \<open>The same with some statements failing, at a given time.\<close>

definition demo_failing :: "int \<Rightarrow> string list \<Rightarrow> rv_env" where
  "demo_failing now labels = demo_rv_env\<lparr>rv_so := demo_so\<lparr>se_now := now,
     se_flt := (\<lambda>l. if l \<in> set labels then Some (SoOther ''connection lost'') else None)\<rparr>\<rparr>"

definition demo_login_member :: "int \<Rightarrow> string \<Rightarrow> string \<Rightarrow> so_member" where
  "demo_login_member u status pwd =
     \<lparr>am_USRSeq = u, am_USRID = [], am_USRName = [], am_USRStatus = status, am_Email = None, am_TotalLogCnt = 0, am_LastLogDate = None,
      sm_Phone = [], sm_FN = [], sm_Pwd = pwd, sm_RegDate = 0, sm_Photo = None, sm_Dept = [], sm_JobCat = None, sm_BizName = [], sm_BizDesc = [],
      sm_BizAddr = [], sm_Position = [], sm_PhonePublic = ''N'', sm_EmailPublic = ''N''\<rparr>"

definition demo_conn :: "int \<Rightarrow> string \<Rightarrow> string \<Rightarrow> string \<Rightarrow> social_conn" where
  "demo_conn u gate i status = \<lparr>sc_usr = u, sc_gate = gate, sc_id = i, sc_email = [], sc_status = status, sc_email_enabled = ''Y'', sc_reg = 0\<rparr>"

definition demo_identity :: "int \<Rightarrow> int \<Rightarrow> string \<Rightarrow> string \<Rightarrow> social_identity" where
  "demo_identity i u provider subject = \<lparr>si_id = i, si_account = u, si_provider = provider, si_subject = subject, si_email = None,
     si_status = ''ACTIVE'', si_verified = 0, si_revoked = None, si_created = 0, si_updated = 0\<rparr>"

definition demo_sessions :: au_state where
  "demo_sessions = \<lparr>mrt = [], login_logs = [], au_members = [], au_verifications = [], admin_roles = [], push_devices = [], challenges = [], code_replays = []\<rparr>"

definition demo_db :: "so_member list \<Rightarrow> social_conn list \<Rightarrow> social_identity list \<Rightarrow> outbox_entry list \<Rightarrow> so_db" where
  "demo_db ms cs is os =
     \<lparr>so_members = ms, so_next_usr = 10, so_conns = cs, so_identities = is, so_next_identity = 10,
      so_credentials = map (\<lambda>c. \<lparr>cd_usr = sc_usr c, cd_provider = sc_gate c, cd_text = ''secret'', cd_updated = 0\<rparr>) cs,
      so_outbox = os, so_next_outbox = 10, so_files = [], so_claims = [], so_account_states = [], so_consents = [], so_grants = [],
      so_deletions = [], so_journal = None, so_auth = demo_sessions, so_kakao_tokens = (\<lambda>_. None)\<rparr>"

definition demo_entry :: "int \<Rightarrow> string \<Rightarrow> outbox_entry" where
  "demo_entry i action = \<lparr>ox_id = i, ox_usr = 7, ox_provider = ''KT'', ox_action = action, ox_status = ''PENDING'', ox_claim = None, ox_attempts = 0,
     ox_next = 0, ox_error = None, ox_created = 0, ox_updated = 0\<rparr>"

definition demo_rv :: "so_db \<Rightarrow> rv_state" where
  "demo_rv db = \<lparr>rv_db = db, rv_workers = (\<lambda>_. WIdle), rv_calls = []\<rparr>"

text \<open>A disconnect that waits for its provider.\<close>

definition demo_disconnecting :: so_db where
  "demo_disconnecting = demo_db [demo_login_member 7 ''CCC'' ''hash''] [demo_conn 7 ''KT'' ''4711'' ''DISCONNECTING''] [demo_identity 1 7 ''KAKAO'' ''4711'']
     [demo_entry 1 ''DISCONNECT'']"

text \<open>One tick of worker \<open>tok\<close>: claim, revoke, finalize or record, release, done.\<close>

definition tick :: "rv_env \<Rightarrow> string \<Rightarrow> rv_op list" where
  "tick env tok = replicate 6 (Work env tok)"

definition demo_done :: rv_state where
  "demo_done = run rv_step (demo_rv demo_disconnecting) (tick demo_rv_env ''w'')"

definition delivered_entry :: outbox_entry where
  "delivered_entry = (demo_entry 1 ''DISCONNECT'')\<lparr>ox_status := ''DELIVERED'', ox_updated := 100\<rparr>"

lemma demo_done_runs: "so_outbox (rv_db demo_done) = [delivered_entry] \<and> rv_calls demo_done = [(1, ''KT'', True)]"
  by code_simp

lemma demo_starts: "rv_start (demo_rv demo_disconnecting)"
  by (simp add: rv_start_def demo_rv_def demo_disconnecting_def demo_db_def demo_entry_def keys_ok_def)

lemma demo_ticks: "list_all rv_admissible (tick demo_rv_env tok)"
  by (simp add: tick_def list_all_iff rv_admissible_def checkpoint_works_def demo_rv_env_def demo_so_def)


text \<open>A tick that only fails to begin its transaction records a revoked entry as pending: the provider's
  acceptance is forgotten and the provider is asked again, although the entry said \<open>REVOKED\<close>.\<close>

theorem failed_begin_loses_checkpoint:
  "let finalization_failed = run rv_step (demo_rv demo_disconnecting) (tick (demo_failing 100 [''delete.connection'']) ''w'');
       begin_failed = run rv_step finalization_failed (tick (demo_failing 1000 [''revoke.begin'']) ''w'');
       recovered = run rv_step begin_failed (tick (demo_failing 9000 []) ''w'')
   in map ox_status (so_outbox (rv_db finalization_failed)) = [''REVOKED'']
      \<and> map ox_status (so_outbox (rv_db begin_failed)) = [''PENDING'']
      \<and> rv_calls recovered = [(1, ''KT'', True), (1, ''KT'', True)]"
  by code_simp

definition demo_deleting :: so_db where
  "demo_deleting = demo_db [demo_login_member 7 ''AAA'' []] [demo_conn 7 ''KT'' ''4711'' ''ACTIVE''] [demo_identity 1 7 ''KAKAO'' ''4711'']
     [demo_entry 1 ''ACCOUNT_DELETE'']"

text \<open>An entry of a deleted account whose claim could not be released is still listed under the claim when it is
  delivered: the next tick asks the provider again.\<close>

theorem delivered_entry_is_revoked_again:
  "let delivered = run rv_step (demo_rv demo_deleting) (tick (demo_failing 100 [''mark.succeeded'']) ''w'');
       next = run rv_step delivered (tick (demo_failing 160 []) ''w'')
   in map ox_status (so_outbox (rv_db delivered)) = [''DELIVERED''] \<and> rv_calls delivered = [(1, ''KT'', True)]
      \<and> rv_calls next = [(1, ''KT'', True), (1, ''KT'', True)]"
  by code_simp

end
