(* ===== verification/Spec2Isabelle.thy ===== *)
theory Spec2Isabelle
  imports Pay_Props App_Update Realtime_Hub Phone_Verification Message_Props Password_Props Social_Link_Props Auth_Props Deletion_Props Erasure_Plan_Props Erasure_Worker Preview_Commit Push_Props Social_Login_Props
begin

text \<open>
  The backend of an alumni scholarship association (\<^verbatim>\<open>src/backend\<close>, Go). Members sign up with a verified phone number,
  log in from the web or the mobile apps, exchange messages, donate once or monthly through a payment gateway, and may
  have their account deleted. Administrators keep the donation ledger, import donations from spreadsheets and carry out
  deletions. File names below are under \<^verbatim>\<open>src/backend/internal\<close>; a definition keeps the name of the Go function or type it
  models, with a prefix (\<open>repo_\<close>, \<open>admin_\<close>, \<open>push_\<close>) where two layers use one name.

  \<^bold>\<open>Conventions.\<close> A struct is a record, a table is the list of its rows, a statement is a function on the tables
  (\<^verbatim>\<open>Prelude\<close>: \<open>sql_update\<close>, \<open>sql_delete\<close>, \<open>sql_get\<close>, affected counts), a fallible function returns a sum whose left
  side is the error. A database transaction is a body of the state and error monad of \<^verbatim>\<open>Tx_Monad\<close>, run by \<open>transact\<close>,
  which rolls back on an error. Whether a statement fails is a parameter (a function from a statement's label to an error), so
  every error path of the code is a branch of the model. Go strings are lists of bytes; \<^verbatim>\<open>Go_Strings\<close> has the part
  of \<^verbatim>\<open>strings\<close>, \<^verbatim>\<open>strconv\<close>, \<^verbatim>\<open>unicode/utf8\<close> and \<^verbatim>\<open>path/filepath\<close> in use, \<^verbatim>\<open>Go_Time\<close> the calendar arithmetic of \<^verbatim>\<open>time\<close>,
  \<^verbatim>\<open>Go_Layout\<close> its parsing and formatting. Go's \<^verbatim>\<open>int\<close> is unbounded except where a bound matters: parsed numbers
  (\<open>go_Atoi\<close>), the legacy money columns, the lease counter of the social-link store (a 64-bit word).

  \<^bold>\<open>Donations and recurring billing.\<close> \<^verbatim>\<open>Pay_Store\<close> is \<^verbatim>\<open>repository/donate_repo.go\<close> and \<^verbatim>\<open>subscription_repo.go\<close>; \<^verbatim>\<open>EasyPay\<close>
  is \<^verbatim>\<open>service/easypay_service.go\<close> with the answer of the \<^verbatim>\<open>ep_cli\<close> process as a parameter; \<^verbatim>\<open>Donate_Service\<close> and
  \<^verbatim>\<open>Subscription_Service\<close> are the services and the daily job. \<^verbatim>\<open>Next_Bill\<close> settles the billing calendar. \<^verbatim>\<open>Pay_Ledger\<close> has
  the ledger invariant and that every operation keeps it, \<^verbatim>\<open>Pay_Confirm\<close> and \<^verbatim>\<open>Pay_Billing\<close> the outcomes of a confirmation
  and of a billing run, \<^verbatim>\<open>Pay_Props\<close> the properties: the invariant over every history, idempotence and atomicity of a
  confirmation, one charge a month.

  \<^bold>\<open>The donation ledger and its import.\<close> \<^verbatim>\<open>Donation_Ledger\<close> is \<^verbatim>\<open>service/admin_donation_service.go\<close> and
  \<^verbatim>\<open>repository/admin_donation_repo.go\<close>, another view of the table of orders; \<^verbatim>\<open>Donation_Import\<close> is
  \<^verbatim>\<open>service/donation_import_service.go\<close>. \<^verbatim>\<open>Donation_Props\<close>: the shape of every row in every history, the optimistic lock,
  the spellings of a date. \<^verbatim>\<open>Import_Props\<close> and \<^verbatim>\<open>Preview_Commit\<close>: a commit writes what the preview signed, never twice, and
  a preview can be committed.

  \<^bold>\<open>Accounts and sessions.\<close> \<^verbatim>\<open>Phone_Verification\<close>, \<^verbatim>\<open>Password_Reset\<close> with \<^verbatim>\<open>Password_Props\<close>, \<^verbatim>\<open>Social_Link\<close> with
  \<^verbatim>\<open>Social_Link_Props\<close>, and \<^verbatim>\<open>Auth_Session\<close> with \<^verbatim>\<open>Auth_Props\<close> model the services of those names, their repositories and the
  authentication middleware. \<^verbatim>\<open>Social_Accounts\<close> has the social login methods of members: sign-up, login, linking and
  disconnecting with the identities of Kakao and Apple (\<^verbatim>\<open>service/social_auth_service.go\<close>, \<^verbatim>\<open>auth_account_connections.go\<close>,
  \<^verbatim>\<open>repository/auth_repo.go\<close>); \<^verbatim>\<open>Social_Revocation\<close> the queue of provider revocations and its worker
  (\<^verbatim>\<open>job/social_revocation_worker.go\<close>), one transaction a step, so that several workers and all requests interleave.
  \<^verbatim>\<open>Social_Props\<close> has what every statement keeps, \<^verbatim>\<open>Revocation_Props\<close> that a provider accepts a revocation at most once,
  \<^verbatim>\<open>Social_Login_Props\<close> how connections and identities agree. Histories are runs of a step function over operations; invariants and what no operation
  undoes are proved once for all of them through the locale \<^verbatim>\<open>invariant\<close>.

  \<^bold>\<open>Messages, events and pushes.\<close> \<^verbatim>\<open>Messages\<close> with \<^verbatim>\<open>Message_Props\<close> are direct messages and blocks. \<^verbatim>\<open>Realtime_Hub\<close> is
  \<^verbatim>\<open>realtime/hub.go\<close> over a heap of channels, as a step relation. \<^verbatim>\<open>Push_Store\<close> and \<^verbatim>\<open>Push_Delivery\<close> are the registration of
  devices and the delivery of pushes; between any two calls of a delivery an arbitrary function stands for what other
  requests do to the database. \<^verbatim>\<open>Push_Props\<close> composes delivery with the sessions: a logout silences the device.
  \<^verbatim>\<open>App_Update\<close> is the update policy and the version gate.

  \<^bold>\<open>Deletion and erasure of accounts.\<close> \<^verbatim>\<open>Account_Deletion\<close> has the transactions over the requests and their targets,
  \<^verbatim>\<open>Deletion_Service\<close> the service over its store interface. \<^verbatim>\<open>Deletion_Invariants\<close> proves, statement by statement
  through the relations of \<^verbatim>\<open>Tx_Monad\<close>, what no operation undoes; \<^verbatim>\<open>Deletion_Props\<close> the properties. \<^verbatim>\<open>Erasure_Schema\<close> has the
  deletions over an arbitrary schema, \<^verbatim>\<open>Erasure_Files\<close> the ownership of files and their queue, \<^verbatim>\<open>Erasure_Preview\<close> with
  \<^verbatim>\<open>Erasure_Plan_Props\<close> the operator's preview, \<^verbatim>\<open>Erasure_Worker\<close> the worker over its store.

  \<^bold>\<open>Interfaces.\<close> \<^verbatim>\<open>invariant\<close> (a property kept by a step function) is interpreted on the payment ledger, the sessions, the
  messages and the revocation workers; \<^verbatim>\<open>auto_table\<close> on the three payment tables; \<^verbatim>\<open>tx_relation\<close> (what a statement does to the state, transported
  through a transaction) on the relations of deletion, erasure, the ledger and the social accounts; \<^verbatim>\<open>erasure_queue\<close> (the measure that decreases with every settled
  file) on the worker's store. \<^verbatim>\<open>ttl_cache\<close> and \<^verbatim>\<open>jwt_library\<close> are the contracts of the libraries \<^verbatim>\<open>go-cache\<close> and
  \<^verbatim>\<open>golang-jwt\<close>, which are not part of the repository; each is shown to be satisfiable by an executable instance.

  \<^bold>\<open>Parameters and what is assumed of them.\<close> The gateway, mail, SMS and push providers, random sources and clocks are
  parameters without assumptions. Hash functions have none, except where a theorem names one: no collision on the two
  previews whose digests agree, digests that are plain texts in the import. JSON, base64 and HMAC of the
  import tokens give back what they were given (\<open>codecs\<close>). The order and equality of a column's collation are parameters.

  \<^bold>\<open>Loops.\<close> Recursion is structural or over a list except in two places. The worker's loop over queued files
  (\<open>file_loop\<close>) and the walk over the recipients of a notice (\<open>fanOutNotice\<close>) have no bound in the code and are
  partial functions. The first returns because every round settles a file or leaves, the second because the cursor
  grows through a finite list while the recipients stay the same.

  \<^bold>\<open>What modelling showed.\<close> \<open>next_bill_skips_february\<close>: a subscription with billing day 29 to 31 can skip a month.
  \<open>uncommitted_charge_is_charged_again\<close>: a charge whose transaction fails is repeated. \<open>late_payment_revives_cancelled\<close> and
  \<open>two_active_subscriptions\<close>: a payment completed late reactivates a cancelled subscription beside a new one.
  \<open>accepted_version_out_of_range\<close>: a policy may accept a version that the evaluator cannot read. \<open>second_unsubscribe_panics\<close>:
  a second \<^verbatim>\<open>Unsubscribe\<close> closes a closed channel. \<open>concurrent_guesses_are_not_limited\<close>: parallel guesses of a code share one count.
  \<open>configured_offset_loses_messages\<close>: with the configured time zone paging skips messages. \<open>stored_hash_opens_account\<close>: a
  stored reset hash works as a token. \<open>same_password_is_refused\<close>: re-using the current password fails as a database error.
  \<open>refresh_token_is_a_web_session\<close>: a mobile token in the web cookie is a session that no logout ends. \<open>narrow_columns_clip\<close>:
  the legacy columns cut amounts and payment types. \<open>late_message_panics\<close>: a message announced after the push queues closed
  is sent on a closed channel. \<open>failed_begin_loses_checkpoint\<close>: a transaction that cannot begin turns a revoked entry back into a
  pending one. \<open>delivered_entry_is_revoked_again\<close>: a delivered entry whose claim was not released is revoked again.

  \<^bold>\<open>Not modelled.\<close> What Apple and Kakao answer (HTTP exchanges and JWT verification with third parties); the creation of
  accounts with a password; the feed, notices, disclosures,
  advertisements, scholarships and profiles (mostly SQL that lists and formats); HTTP handlers, routing, configuration
  and wiring; the editing of notification templates; the HTTP clients of the push providers; tickers and goroutines of jobs other than those above. Of
  the erasure, the archive of donations (\<^verbatim>\<open>EraseDatabase\<close>), \<^verbatim>\<open>PrepareErasure\<close> and the external subject are parameters of the
  worker. Where two statements of one transaction could interleave with another transaction, the row locks the code takes
  are trusted, except in the registration of a device, in phone verification and in push delivery, whose interleavings are explicit.
\<close>

end
